(* ===== verification/Prelude.thy ===== *)
theory Prelude
  imports Main "HOL-Library.Word" "HOL-Library.While_Combinator"
begin

unbundle bit_operations_syntax

text \<open>
  Shared vocabulary of the development: names for the machine integers of the
  C++ sources, the faults an access outside an array or a failed assertion
  turns into, the little-endian byte buffers that the devices keep their
  registers in, and the collections of facts the component proofs use.

  \<^item> \<open>word_bits\<close>: extensionality on the widths the program uses, so that an
    equation between masks and shifts becomes one proposition per bit;
  \<^item> \<open>buf\<close>: how reads of a byte buffer see the writes to it.
\<close>

named_theorems word_bits
named_theorems buf

section \<open>Machine integers\<close>

type_synonym u8 = "8 word"
type_synonym u16 = "16 word"
type_synonym u32 = "32 word"
type_synonym u64 = "64 word"

text \<open>The test \<open>value & mask\<close> in the condition of an \<open>if\<close>.\<close>

abbreviation tst :: "'a::len word \<Rightarrow> 'a word \<Rightarrow> bool" where
  "tst v m \<equiv> v AND m \<noteq> 0"

text \<open>A C++ \<open>bool\<close> converted to an integer.\<close>

abbreviation b2w :: "bool \<Rightarrow> 'a::len word" where
  "b2w b \<equiv> of_bool b"

lemma less_8_cases: "(n::nat) < 8 \<longleftrightarrow> n \<in> {0,1,2,3,4,5,6,7}"
  by auto

lemma word_eq_bits:
  "(x::'a::len word) = y \<longleftrightarrow> list_all (\<lambda>n. bit x n = bit y n) [0..<LENGTH('a)]"
proof
  assume "list_all (\<lambda>n. bit x n = bit y n) [0..<LENGTH('a)]"
  then show "x = y" by (intro bit_word_eqI) (simp add: list_all_iff)
qed (simp add: list_all_iff)

lemma upt_8_16_32:
  "[0..<8] = [0,1,2,3,4,5,6,7]"
  "[0..<16] = [0,1,2,3,4,5,6,7,8,9,10,11,12,13,14,15]"
  "[0..<32] = [0,1,2,3,4,5,6,7,8,9,10,11,12,13,14,15,
     16,17,18,19,20,21,22,23,24,25,26,27,28,29,30,31]"
  by code_simp+

lemma u8_eq_bits [word_bits]:
  "(x::u8) = y \<longleftrightarrow> list_all (\<lambda>n. bit x n = bit y n) [0,1,2,3,4,5,6,7]"
  by (simp only: word_eq_bits) (simp add: upt_8_16_32)

lemma u16_eq_bits [word_bits]:
  "(x::u16) = y \<longleftrightarrow> list_all (\<lambda>n. bit x n = bit y n)
     [0,1,2,3,4,5,6,7,8,9,10,11,12,13,14,15]"
  by (simp only: word_eq_bits) (simp add: upt_8_16_32)

lemma u32_eq_bits [word_bits]:
  "(x::u32) = y \<longleftrightarrow> list_all (\<lambda>n. bit x n = bit y n)
     [0,1,2,3,4,5,6,7,8,9,10,11,12,13,14,15,
      16,17,18,19,20,21,22,23,24,25,26,27,28,29,30,31]"
  by (simp only: word_eq_bits) (simp add: upt_8_16_32)

lemma bit_beyond_width [word_bits]:
  "8 \<le> n \<Longrightarrow> \<not> bit (a::u8) n" "16 \<le> n \<Longrightarrow> \<not> bit (b::u16) n" "32 \<le> n \<Longrightarrow> \<not> bit (c::u32) n"
  by (auto dest: bit_imp_le_length)

lemma bit_u8_less: "bit (a::u8) n \<Longrightarrow> n < 8"
  by (auto dest: bit_imp_le_length)

text \<open>Single-bit masks: testing, setting and clearing one bit of a register.\<close>

declare and_exp_eq_0_iff_not_bit [simp]

lemma and_push_bit_1_eq_0 [simp]:
  "(x AND push_bit n 1 = 0) \<longleftrightarrow> \<not> bit (x::'a::len word) n"
  by (metis and_exp_eq_0_iff_not_bit push_bit_of_1)

lemma bit_push_bit_1:
  "bit (push_bit n (1::'a::len word)) m \<longleftrightarrow> m = n \<and> n < LENGTH('a)"
  by (auto simp: bit_simps)

lemma and_7_lt_8: "unat (x AND 7 :: u8) < 8"
proof -
  have "x AND 7 \<le> 7" by (rule word_and_le1)
  then show ?thesis by (simp add: word_le_nat_alt)
qed

lemma u8_nonzero_bit: "(m::u8) \<noteq> 0 \<longleftrightarrow> (\<exists>i<8. bit m i)"
  by (auto simp: bit_eq_iff)

section \<open>Loops and rotation\<close>

text \<open>A loop that counts up to the first index where a test fails.\<close>

lemma while_first:
  fixes P :: "nat \<Rightarrow> bool"
  assumes "\<not> P k"
  shows "while P (\<lambda>n. n + 1) 0 = (LEAST n. \<not> P n)"
proof (rule while_rule [where P = "\<lambda>n. \<forall>j<n. P j" and r = "measure (\<lambda>n. (LEAST n. \<not> P n) - n)"])
  fix n
  assume "\<forall>j<n. P j" and "P n"
  then have "n < (LEAST n. \<not> P n)"
    by (metis LeastI assms linorder_neqE_nat)
  then show "(n + 1, n) \<in> measure (\<lambda>n. (LEAST n. \<not> P n) - n)" by simp
next
  fix n
  assume "\<forall>j<n. P j" and "\<not> P n"
  then show "n = (LEAST n. \<not> P n)"
    by (metis LeastI Least_le assms le_neq_implies_less)
qed (auto simp: less_Suc_eq)

lemma mod8_rotate:
  fixes i a :: nat
  assumes "i < 8"
  shows "((i + (8 - a mod 8)) mod 8 + a) mod 8 = i" "((i + a) mod 8 + (8 - a mod 8)) mod 8 = i"
proof -
  define b where "b = a mod 8"
  have b: "b < 8" by (simp add: b_def)
  have add_a: "(x + a) mod 8 = (x + b) mod 8" for x
    unfolding b_def by (rule mod_add_right_eq [symmetric])
  have "((i + (8 - b)) mod 8 + a) mod 8 = (i + (8 - b) + b) mod 8"
    unfolding add_a by (rule mod_add_left_eq)
  also have "i + (8 - b) + b = i + 8" using b by simp
  finally show "((i + (8 - a mod 8)) mod 8 + a) mod 8 = i"
    unfolding b_def [symmetric] using assms by simp
  have "((i + a) mod 8 + (8 - b)) mod 8 = (i + b + (8 - b)) mod 8"
    unfolding add_a by (rule mod_add_left_eq)
  also have "i + b + (8 - b) = i + 8" using b by simp
  finally show "((i + a) mod 8 + (8 - a mod 8)) mod 8 = i"
    unfolding b_def [symmetric] using assms by simp
qed

section \<open>Faults\<close>

text \<open>
  What the C++ does outside its defined behaviour, as a value: an access
  outside an array, a failed \<open>assert\<close>, a call through a null pointer, a division by zero, a use of
  a variable that was never assigned, a call of \<open>std::terminate\<close>, and a
  recursion that exhausts the stack.
\<close>

datatype fault = OutOfBounds | AssertFailed | NullPointer | StackExhausted | EndlessLoop | DivideByZero
  | Uninitialised | Terminated

fun bindr :: "fault + 'a \<Rightarrow> ('a \<Rightarrow> fault + 'b) \<Rightarrow> fault + 'b" where
  "bindr (Inl e) f = Inl e"
| "bindr (Inr x) f = f x"

lemma bindr_Inr_iff: "bindr m f = Inr y \<longleftrightarrow> (\<exists>x. m = Inr x \<and> f x = Inr y)"
  by (cases m) auto

lemma bindr_Inl_iff: "bindr m f = Inl e \<longleftrightarrow> m = Inl e \<or> (\<exists>x. m = Inr x \<and> f x = Inl e)"
  by (cases m) auto

text \<open>Total correctness: the computation returns, with a result that satisfies \<open>Q\<close>.\<close>

fun returns :: "('a \<Rightarrow> bool) \<Rightarrow> fault + 'a \<Rightarrow> bool" where
  "returns Q (Inl e) = False"
| "returns Q (Inr x) = Q x"

lemma returns_bindr [simp]: "returns Q (bindr m f) = returns (\<lambda>x. returns Q (f x)) m"
  by (cases m) auto

lemma returns_iff: "returns Q m \<longleftrightarrow> (\<exists>x. m = Inr x \<and> Q x)"
  by (cases m) auto

lemma returns_mono: "returns Q m \<Longrightarrow> (\<And>x. Q x \<Longrightarrow> R x) \<Longrightarrow> returns R m"
  by (cases m) auto

lemma returns_if [simp]: "returns Q (if b then m else n) = (if b then returns Q m else returns Q n)"
  by simp

lemma returns_pair [simp]:
  "returns Q (case p of (a, b) \<Rightarrow> f a b) = (case p of (a, b) \<Rightarrow> returns Q (f a b))"
  by (cases p) simp

text \<open>Partial correctness: the result, if there is one, satisfies \<open>Q\<close>.\<close>

fun whenever :: "('a \<Rightarrow> bool) \<Rightarrow> fault + 'a \<Rightarrow> bool" where
  "whenever Q (Inl e) = True"
| "whenever Q (Inr x) = Q x"

lemma whenever_bindr [simp]: "whenever Q (bindr m f) = whenever (\<lambda>x. whenever Q (f x)) m"
  by (cases m) auto

lemma whenever_mono: "whenever Q m \<Longrightarrow> (\<And>x. Q x \<Longrightarrow> R x) \<Longrightarrow> whenever R m"
  by (cases m) auto

lemma wheneverI: "(\<And>x. Q x) \<Longrightarrow> whenever Q m"
  by (cases m) auto

lemma whenever_iff: "whenever Q m \<longleftrightarrow> (\<forall>x. m = Inr x \<longrightarrow> Q x)"
  by (cases m) auto

lemma whenever_if [simp]: "whenever Q (if b then m else n) = (if b then whenever Q m else whenever Q n)"
  by simp

lemma whenever_pair [simp]:
  "whenever Q (case p of (a, b) \<Rightarrow> f a b) = (case p of (a, b) \<Rightarrow> whenever Q (f a b))"
  by (cases p) simp

text \<open>A loop over the elements of a list.\<close>

fun for_each :: "('a \<Rightarrow> 's \<Rightarrow> fault + 's) \<Rightarrow> 'a list \<Rightarrow> 's \<Rightarrow> fault + 's" where
  "for_each f [] s = Inr s"
| "for_each f (x # xs) s = bindr (f x s) (for_each f xs)"

text \<open>A computation that may fault and may not return.\<close>

type_synonym 'a outcome = "(fault + 'a) option"

fun obind :: "'a outcome \<Rightarrow> ('a \<Rightarrow> 'b outcome) \<Rightarrow> 'b outcome" where
  "obind None f = None"
| "obind (Some (Inl e)) f = Some (Inl e)"
| "obind (Some (Inr x)) f = f x"

definition aget :: "'a list \<Rightarrow> nat \<Rightarrow> fault + 'a" where
  "aget xs i = (if i < length xs then Inr (xs ! i) else Inl OutOfBounds)"

definition aset :: "'a list \<Rightarrow> nat \<Rightarrow> 'a \<Rightarrow> fault + 'a list" where
  "aset xs i v = (if i < length xs then Inr (xs[i := v]) else Inl OutOfBounds)"

lemma aset_Inr_length [buf]: "aset xs i v = Inr ys \<Longrightarrow> length ys = length xs"
  by (auto simp: aset_def split: if_splits)

lemma aget_aset_same [buf]: "aset xs i v = Inr ys \<Longrightarrow> aget ys i = Inr v"
  by (auto simp: aset_def aget_def split: if_splits)

lemma aget_aset_other [buf]: "aset xs i v = Inr ys \<Longrightarrow> j \<noteq> i \<Longrightarrow> aget ys j = aget xs j"
  by (auto simp: aset_def aget_def split: if_splits)

section \<open>Little-endian byte buffers\<close>

text \<open>
  \<open>Read16(buf, reg)\<close> and its kin reinterpret the bytes at an offset of a
  register array as an integer; the hosts the program targets are
  little-endian. The offsets are constants of the sources, inside the arrays.
\<close>

definition le16 :: "u8 \<Rightarrow> u8 \<Rightarrow> u16" where
  "le16 a b = ucast a OR push_bit 8 (ucast b)"

definition le32 :: "u8 \<Rightarrow> u8 \<Rightarrow> u8 \<Rightarrow> u8 \<Rightarrow> u32" where
  "le32 a b c d =
     ucast a OR push_bit 8 (ucast b) OR push_bit 16 (ucast c) OR push_bit 24 (ucast d)"

lemma le16_of_bytes [simp]: "le16 (ucast v) (ucast (drop_bit 8 v)) = v"
  by (simp add: le16_def word_bits bit_simps)

lemma le32_of_bytes [simp]:
  "le32 (ucast v) (ucast (drop_bit 8 v)) (ucast (drop_bit 16 v)) (ucast (drop_bit 24 v)) = v"
  by (simp add: le32_def word_bits bit_simps)

lemma bytes_of_le16 [simp]:
  "ucast (le16 a b) = a" "ucast (drop_bit 8 (le16 a b)) = b"
  by (simp_all add: le16_def word_bits bit_simps)

lemma bytes_of_le32 [simp]:
  "ucast (le32 a b c d) = a"
  "ucast (drop_bit 8 (le32 a b c d)) = b"
  "ucast (drop_bit 16 (le32 a b c d)) = c"
  "ucast (drop_bit 24 (le32 a b c d)) = d"
  by (simp_all add: le32_def word_bits bit_simps)

type_synonym bytes = "u8 list"

definition rd16 :: "bytes \<Rightarrow> nat \<Rightarrow> u16" where
  "rd16 buf r = le16 (buf ! r) (buf ! (r + 1))"

definition rd32 :: "bytes \<Rightarrow> nat \<Rightarrow> u32" where
  "rd32 buf r = le32 (buf ! r) (buf ! (r + 1)) (buf ! (r + 2)) (buf ! (r + 3))"

definition wr8 :: "bytes \<Rightarrow> nat \<Rightarrow> u8 \<Rightarrow> bytes" where
  "wr8 buf r v = buf[r := v]"

definition wr16 :: "bytes \<Rightarrow> nat \<Rightarrow> u16 \<Rightarrow> bytes" where
  "wr16 buf r v = buf[r := ucast v, r + 1 := ucast (drop_bit 8 v)]"

definition wr32 :: "bytes \<Rightarrow> nat \<Rightarrow> u32 \<Rightarrow> bytes" where
  "wr32 buf r v = buf[r := ucast v, r + 1 := ucast (drop_bit 8 v),
     r + 2 := ucast (drop_bit 16 v), r + 3 := ucast (drop_bit 24 v)]"

text \<open>\<open>TestAndSet\<close>: the callers ignore the old value it returns.\<close>

definition set8 :: "bytes \<Rightarrow> nat \<Rightarrow> u8 \<Rightarrow> bytes" where
  "set8 buf r m = wr8 buf r (buf ! r OR m)"

definition set16 :: "bytes \<Rightarrow> nat \<Rightarrow> u16 \<Rightarrow> bytes" where
  "set16 buf r m = wr16 buf r (rd16 buf r OR m)"

text \<open>\<open>memset(buf + r, v, n)\<close>\<close>

definition fill :: "bytes \<Rightarrow> nat \<Rightarrow> u8 \<Rightarrow> nat \<Rightarrow> bytes" where
  "fill buf r v n = map (\<lambda>i. if r \<le> i \<and> i < r + n then v else buf ! i) [0..<length buf]"

text \<open>\<open>memcpy(dst + off, src, n)\<close>\<close>

definition memcpy :: "bytes \<Rightarrow> nat \<Rightarrow> bytes \<Rightarrow> nat \<Rightarrow> fault + bytes" where
  "memcpy dst off src n =
     (if n \<le> length src \<and> off + n \<le> length dst
      then Inr (take off dst @ take n src @ drop (off + n) dst)
      else Inl OutOfBounds)"

lemma memcpy_Inr:
  "memcpy dst off src n = Inr dst' \<Longrightarrow>
     n \<le> length src \<and> off + n \<le> length dst \<and> length dst' = length dst
     \<and> (\<forall>i<length dst. dst' ! i = (if off \<le> i \<and> i < off + n then src ! (i - off) else dst ! i))"
  by (auto simp: memcpy_def nth_append min_def split: if_splits)

lemma memcpy_returns:
  "n \<le> length src \<Longrightarrow> off + n \<le> length dst \<Longrightarrow> \<exists>dst'. memcpy dst off src n = Inr dst'"
  by (simp add: memcpy_def)

lemma length_wr [simp]:
  "length (wr8 buf r v) = length buf" "length (wr16 buf r w) = length buf"
  "length (wr32 buf r d) = length buf" "length (set8 buf r v) = length buf"
  "length (set16 buf r w) = length buf" "length (fill buf r v n) = length buf"
  by (simp_all add: wr8_def wr16_def wr32_def set8_def set16_def fill_def)

lemma nth_wr8 [buf]: "i < length buf \<Longrightarrow> wr8 buf r v ! i = (if i = r then v else buf ! i)"
  by (auto simp: wr8_def)

lemma nth_wr16 [buf]:
  "i < length buf \<Longrightarrow> wr16 buf r v ! i =
     (if i = r then ucast v else if i = r + 1 then ucast (drop_bit 8 v) else buf ! i)"
  by (auto simp: wr16_def)

lemma nth_wr32 [buf]:
  "i < length buf \<Longrightarrow> wr32 buf r v ! i =
     (if i = r then ucast v else if i = r + 1 then ucast (drop_bit 8 v)
      else if i = r + 2 then ucast (drop_bit 16 v) else if i = r + 3 then ucast (drop_bit 24 v)
      else buf ! i)"
  by (auto simp: wr32_def)

lemma nth_set8 [buf]: "i < length buf \<Longrightarrow> set8 buf r m ! i = (if i = r then buf ! i OR m else buf ! i)"
  by (auto simp: set8_def nth_wr8)

lemma ucast_or8: "(ucast (x OR y :: u16) :: u8) = ucast x OR ucast y"
  by (simp add: word_bits bit_simps)

lemma nth_set16 [buf]:
  "i < length buf \<Longrightarrow> set16 buf r m ! i =
     (if i = r then buf ! i OR ucast m
      else if i = r + 1 then buf ! i OR ucast (drop_bit 8 m) else buf ! i)"
  by (auto simp: set16_def nth_wr16 rd16_def ucast_or8)

lemma nth_fill [buf]:
  "i < length buf \<Longrightarrow> fill buf r v n ! i = (if r \<le> i \<and> i < r + n then v else buf ! i)"
  by (simp add: fill_def)

lemma rd32_wr32 [buf]: "r + 3 < length buf \<Longrightarrow> rd32 (wr32 buf r v) r = v"
  by (simp add: rd32_def nth_wr32)

lemma rd16_wr16 [buf]: "r + 1 < length buf \<Longrightarrow> rd16 (wr16 buf r v) r = v"
  by (simp add: rd16_def nth_wr16)

lemma rd32_wr32_other [buf]:
  "r + 3 < s \<or> s + 3 < r \<Longrightarrow> s + 3 < length buf \<Longrightarrow> rd32 (wr32 buf r v) s = rd32 buf s"
  by (auto simp: rd32_def nth_wr32)

end
