(* ===== verification/IOMap.thy ===== *)
theory IOMap
  imports Prelude
begin

text \<open>
  The I/O mapper, \<open>common/openxbox/io.h\<close> and \<open>io.cpp\<close>: which device answers a
  port or an address. A \<open>std::map<uint32_t, MappedDevice>\<close> is an association
  list kept in the order of its keys, an iterator the position in it, and
  \<open>std::set<IODevice *>\<close> a sorted list of device names. The virtual functions of
  \<open>IODevice\<close> are a record of functions on the state \<open>'s\<close> that the devices share.
  The log output is left out.
\<close>

section \<open>The address map\<close>

record 'd MappedDevice =
  baseAddress :: u32
  lastAddress :: u32
  device :: 'd

type_synonym 'd iomap = "(u32 \<times> 'd MappedDevice) list"

text \<open>\<open>upper_bound\<close>: the first key above; \<open>lower_bound\<close>: the first key not below.\<close>

definition upper_bound :: "'d iomap \<Rightarrow> u32 \<Rightarrow> nat" where
  "upper_bound m a = length (takeWhile (\<lambda>(k, _). k \<le> a) m)"

definition lower_bound :: "'d iomap \<Rightarrow> u32 \<Rightarrow> nat" where
  "lower_bound m a = length (takeWhile (\<lambda>(k, _). k < a) m)"

fun assign :: "u32 \<Rightarrow> 'd MappedDevice \<Rightarrow> 'd iomap \<Rightarrow> 'd iomap" where
  "assign k e [] = [(k, e)]"
| "assign k e ((k', e') # m) =
     (if k < k' then (k, e) # (k', e') # m
      else if k = k' then (k, e) # m
      else (k', e') # assign k e m)"

definition clash :: "u32 \<Rightarrow> u32 \<Rightarrow> u32 \<times> 'd MappedDevice \<Rightarrow> bool" where
  "clash base hi p \<longleftrightarrow>
     (base \<ge> fst p \<and> base \<le> lastAddress (snd p)) \<or> (hi \<ge> fst p \<and> hi \<le> lastAddress (snd p))"

definition MapDevice :: "'d iomap \<Rightarrow> u32 \<Rightarrow> u32 \<Rightarrow> 'd \<Rightarrow> 'd iomap \<times> bool" where
  "MapDevice m base sz d =
     (let hi = base + sz - 1;
          pu = upper_bound m base;
          pl = lower_bound m hi;
          pl = (if pl \<noteq> 0 then pl - 1 else pl)
      in if pu \<noteq> length m \<and> clash base hi (m ! pu) then (m, False)
         else if pl \<noteq> 0 \<and> clash base hi (m ! pl) then (m, False)
         else (assign base \<lparr>baseAddress = base, lastAddress = hi, device = d\<rparr> m, True))"

definition LookupDevice :: "'d iomap \<Rightarrow> u32 \<Rightarrow> 'd option" where
  "LookupDevice m addr =
     (let p = upper_bound m addr in
      if p = 0 then None
      else
        let e = m ! (p - 1) in
        if addr \<ge> fst e \<and> addr \<le> lastAddress (snd e) then Some (device (snd e)) else None)"

section \<open>Devices\<close>

record ('d, 's) device_ops =
  dev_IORead :: "'d \<Rightarrow> u32 \<Rightarrow> u8 \<Rightarrow> 's \<Rightarrow> u32 \<Rightarrow> fault + 's \<times> u32 \<times> bool"
  dev_IOWrite :: "'d \<Rightarrow> u32 \<Rightarrow> u32 \<Rightarrow> u8 \<Rightarrow> 's \<Rightarrow> fault + 's \<times> bool"
  dev_MMIORead :: "'d \<Rightarrow> u32 \<Rightarrow> u8 \<Rightarrow> 's \<Rightarrow> u32 \<Rightarrow> fault + 's \<times> u32 \<times> bool"
  dev_MMIOWrite :: "'d \<Rightarrow> u32 \<Rightarrow> u32 \<Rightarrow> u8 \<Rightarrow> 's \<Rightarrow> fault + 's \<times> bool"

text \<open>The implementations a device inherits.\<close>

definition IODevice_Read :: "u32 \<Rightarrow> u8 \<Rightarrow> 's \<Rightarrow> u32 \<Rightarrow> fault + 's \<times> u32 \<times> bool" where
  "IODevice_Read addr sz s value = Inr (s, 0, False)"

definition IODevice_Write :: "u32 \<Rightarrow> u32 \<Rightarrow> u8 \<Rightarrow> 's \<Rightarrow> fault + 's \<times> bool" where
  "IODevice_Write addr value sz s = Inr (s, False)"

section \<open>The mapper\<close>

record 'd IOMapper =
  m_mappedIODevices :: "'d iomap"
  m_mappedMMIODevices :: "'d iomap"
  m_dynamicDevices :: "'d list"

definition MapIODevice :: "u32 \<Rightarrow> u32 \<Rightarrow> 'd \<Rightarrow> 'd IOMapper \<Rightarrow> 'd IOMapper \<times> bool" where
  "MapIODevice basePort numPorts d io =
     (let (m, ok) = MapDevice (m_mappedIODevices io) basePort numPorts d
      in (io\<lparr>m_mappedIODevices := m\<rparr>, ok))"

definition MapMMIODevice :: "u32 \<Rightarrow> u32 \<Rightarrow> 'd \<Rightarrow> 'd IOMapper \<Rightarrow> 'd IOMapper \<times> bool" where
  "MapMMIODevice base numAddresses d io =
     (let (m, ok) = MapDevice (m_mappedMMIODevices io) base numAddresses d
      in (io\<lparr>m_mappedMMIODevices := m\<rparr>, ok))"

definition AddDevice :: "('d::linorder) \<Rightarrow> 'd IOMapper \<Rightarrow> 'd IOMapper \<times> bool" where
  "AddDevice d io =
     (if d \<in> set (m_dynamicDevices io) then (io, False)
      else (io\<lparr>m_dynamicDevices := insort d (m_dynamicDevices io)\<rparr>, True))"

fun try_read ::
  "('d \<Rightarrow> u32 \<Rightarrow> u8 \<Rightarrow> 's \<Rightarrow> u32 \<Rightarrow> fault + 's \<times> u32 \<times> bool) \<Rightarrow>
   'd list \<Rightarrow> u32 \<Rightarrow> u8 \<Rightarrow> 's \<Rightarrow> u32 \<Rightarrow> fault + 's \<times> u32 \<times> bool" where
  "try_read rd [] addr sz s value = Inr (s, 0, False)"
| "try_read rd (d # ds) addr sz s value =
     bindr (rd d addr sz s value) (\<lambda>(s, value, handled).
       if handled then Inr (s, value, True) else try_read rd ds addr sz s value)"

fun try_write ::
  "('d \<Rightarrow> u32 \<Rightarrow> u32 \<Rightarrow> u8 \<Rightarrow> 's \<Rightarrow> fault + 's \<times> bool) \<Rightarrow>
   'd list \<Rightarrow> u32 \<Rightarrow> u32 \<Rightarrow> u8 \<Rightarrow> 's \<Rightarrow> fault + 's \<times> bool" where
  "try_write wr [] addr value sz s = Inr (s, False)"
| "try_write wr (d # ds) addr value sz s =
     bindr (wr d addr value sz s) (\<lambda>(s, handled).
       if handled then Inr (s, True) else try_write wr ds addr value sz s)"

definition IOMapper_IORead ::
  "('d, 's) device_ops \<Rightarrow> 'd IOMapper \<Rightarrow> u32 \<Rightarrow> u8 \<Rightarrow> 's \<Rightarrow> u32 \<Rightarrow> fault + 's \<times> u32 \<times> bool" where
  "IOMapper_IORead ops io addr sz s value =
     (case LookupDevice (m_mappedIODevices io) addr of
        Some dev \<Rightarrow> dev_IORead ops dev addr sz s value
      | None \<Rightarrow> try_read (dev_IORead ops) (m_dynamicDevices io) addr sz s value)"

definition IOMapper_IOWrite ::
  "('d, 's) device_ops \<Rightarrow> 'd IOMapper \<Rightarrow> u32 \<Rightarrow> u32 \<Rightarrow> u8 \<Rightarrow> 's \<Rightarrow> fault + 's \<times> bool" where
  "IOMapper_IOWrite ops io addr value sz s =
     (case LookupDevice (m_mappedIODevices io) addr of
        Some dev \<Rightarrow> dev_IOWrite ops dev addr value sz s
      | None \<Rightarrow> try_write (dev_IOWrite ops) (m_dynamicDevices io) addr value sz s)"

definition IOMapper_MMIORead ::
  "('d, 's) device_ops \<Rightarrow> 'd IOMapper \<Rightarrow> u32 \<Rightarrow> u8 \<Rightarrow> 's \<Rightarrow> u32 \<Rightarrow> fault + 's \<times> u32 \<times> bool" where
  "IOMapper_MMIORead ops io addr sz s value =
     (if tst addr (ucast sz - 1) then Inr (s, value, False)
      else case LookupDevice (m_mappedMMIODevices io) addr of
        Some dev \<Rightarrow> dev_MMIORead ops dev addr sz s value
      | None \<Rightarrow> try_read (dev_MMIORead ops) (m_dynamicDevices io) addr sz s value)"

definition IOMapper_MMIOWrite ::
  "('d, 's) device_ops \<Rightarrow> 'd IOMapper \<Rightarrow> u32 \<Rightarrow> u32 \<Rightarrow> u8 \<Rightarrow> 's \<Rightarrow> fault + 's \<times> bool" where
  "IOMapper_MMIOWrite ops io addr value sz s =
     (if tst addr (ucast sz - 1) then Inr (s, False)
      else case LookupDevice (m_mappedMMIODevices io) addr of
        Some dev \<Rightarrow> dev_MMIOWrite ops dev addr value sz s
      | None \<Rightarrow> try_write (dev_MMIOWrite ops) (m_dynamicDevices io) addr value sz s)"

section \<open>Well-formed maps\<close>

text \<open>Entries in ascending order, no two ranges sharing an address.\<close>

definition wf_iomap :: "'d iomap \<Rightarrow> bool" where
  "wf_iomap m \<longleftrightarrow>
     sorted_wrt (\<lambda>p q. lastAddress (snd p) < fst q) m \<and> (\<forall>p\<in>set m. fst p \<le> lastAddress (snd p))"

definition covers :: "u32 \<times> 'd MappedDevice \<Rightarrow> u32 \<Rightarrow> bool" where
  "covers p a \<longleftrightarrow> fst p \<le> a \<and> a \<le> lastAddress (snd p)"

definition overlaps :: "u32 \<Rightarrow> u32 \<Rightarrow> u32 \<times> 'd MappedDevice \<Rightarrow> bool" where
  "overlaps base hi p \<longleftrightarrow> base \<le> lastAddress (snd p) \<and> fst p \<le> hi"

lemma wf_iomap_Nil [simp]: "wf_iomap []"
  by (simp add: wf_iomap_def)

lemma wf_iomap_Cons:
  "wf_iomap (p # m) \<longleftrightarrow> fst p \<le> lastAddress (snd p) \<and> wf_iomap m
     \<and> (\<forall>q\<in>set m. lastAddress (snd p) < fst q)"
  by (auto simp: wf_iomap_def)

lemma LookupDevice_Nil [simp]: "LookupDevice [] a = None"
  by (simp add: LookupDevice_def upper_bound_def)

lemma LookupDevice_Cons:
  assumes "wf_iomap (p # m)"
  shows "LookupDevice (p # m) a = (if covers p a then Some (device (snd p)) else LookupDevice m a)"
proof (cases m)
  case Nil
  then show ?thesis by (cases p) (auto simp: LookupDevice_def upper_bound_def covers_def Let_def)
next
  case (Cons q m')
  from assms have q: "fst p < fst q" "fst p \<le> lastAddress (snd p)" "lastAddress (snd p) < fst q"
    unfolding wf_iomap_Cons Cons by auto
  then show ?thesis
    by (cases p; cases q)
      (auto simp: LookupDevice_def upper_bound_def covers_def Let_def Cons)
qed

text \<open>On a well-formed map the lookup finds the range that contains the address.\<close>

lemma LookupDevice_find:
  "wf_iomap m \<Longrightarrow> LookupDevice m a = map_option (device \<circ> snd) (find (\<lambda>p. covers p a) m)"
  by (induction m) (simp_all add: LookupDevice_Cons wf_iomap_Cons)

lemma LookupDevice_Some:
  assumes "wf_iomap m"
  shows "LookupDevice m a = Some d \<longleftrightarrow> (\<exists>p\<in>set m. covers p a \<and> device (snd p) = d)"
  using assms
proof (induction m)
  case (Cons p m)
  have "\<not> covers q a" if "covers p a" "q \<in> set m" for q
    using Cons.prems that unfolding wf_iomap_Cons covers_def by force
  then show ?case using Cons by (auto simp: LookupDevice_Cons wf_iomap_Cons)
qed simp

lemma LookupDevice_None:
  assumes "wf_iomap m"
  shows "LookupDevice m a = None \<longleftrightarrow> (\<forall>p\<in>set m. \<not> covers p a)"
  using LookupDevice_Some [OF assms] by (metis not_None_eq)

lemma overlaps_covers:
  assumes "wf_iomap m" and "base \<le> hi" and "p \<in> set m"
  shows "overlaps base hi p \<longleftrightarrow> (\<exists>a. base \<le> a \<and> a \<le> hi \<and> covers p a)"
proof -
  have p: "fst p \<le> lastAddress (snd p)" using assms(1,3) by (simp add: wf_iomap_def)
  show ?thesis
  proof
    assume "overlaps base hi p"
    then have "base \<le> max base (fst p) \<and> max base (fst p) \<le> hi \<and> covers p (max base (fst p))"
      using p assms(2) by (auto simp: overlaps_def covers_def max_def)
    then show "\<exists>a. base \<le> a \<and> a \<le> hi \<and> covers p a" ..
  qed (auto simp: overlaps_def covers_def)
qed

lemma free_overlaps:
  assumes "wf_iomap m" and "base \<le> hi"
  shows "(\<forall>a. base \<le> a \<longrightarrow> a \<le> hi \<longrightarrow> LookupDevice m a = None) \<longleftrightarrow>
    (\<forall>p\<in>set m. \<not> overlaps base hi p)"
  using assms by (auto simp: LookupDevice_None overlaps_covers)

text \<open>Inserting a range that meets no other.\<close>

lemma set_assign:
  "\<forall>p\<in>set m. fst p \<noteq> k \<Longrightarrow> set (assign k e m) = insert (k, e) (set m)"
  by (induction k e m rule: assign.induct) auto

lemma set_assign_subset: "set (assign k e m) \<subseteq> insert (k, e) (set m)"
  by (induction k e m rule: assign.induct) auto

lemma wf_assign:
  assumes "wf_iomap m" and "base \<le> lastAddress e"
    and "\<forall>p\<in>set m. \<not> overlaps base (lastAddress e) p"
  shows "wf_iomap (assign base e m)"
  using assms
proof (induction base e m rule: assign.induct)
  case (2 k e k' e' m)
  show ?case
  proof (cases "k < k'")
    case True
    then have "lastAddress e < k'"
      using 2 by (auto simp: overlaps_def wf_iomap_Cons not_le dest: order.strict_trans2)
    then show ?thesis using True 2 by (auto simp: wf_iomap_Cons)
  next
    case False
    then have "lastAddress e' < k" "k' < k"
      using 2 by (auto simp: overlaps_def wf_iomap_Cons not_le not_less dest: order.trans)
    then show ?thesis
      using False 2 set_assign_subset [of k e m] by (auto simp: wf_iomap_Cons)
  qed
qed (simp add: wf_iomap_Cons)

lemma LookupDevice_assign:
  assumes "wf_iomap m" and "base \<le> lastAddress e"
    and free: "\<forall>p\<in>set m. \<not> overlaps base (lastAddress e) p"
  shows "LookupDevice (assign base e m) a =
    (if base \<le> a \<and> a \<le> lastAddress e then Some (device e) else LookupDevice m a)"
proof -
  have wf: "wf_iomap (assign base e m)" using assms by (rule wf_assign)
  have keys: "\<forall>p\<in>set m. fst p \<noteq> base"
    using assms by (auto simp: overlaps_def wf_iomap_def)
  have "LookupDevice (assign base e m) a = Some d \<longleftrightarrow>
    (if base \<le> a \<and> a \<le> lastAddress e then device e = d else LookupDevice m a = Some d)" for d
    using free overlaps_covers [OF assms(1,2)]
    unfolding LookupDevice_Some [OF wf] LookupDevice_Some [OF assms(1)] set_assign [OF keys]
    by (auto simp: covers_def)
  then show ?thesis by (metis option.exhaust option.inject option.distinct(1))
qed

section \<open>What mapping a device checks\<close>

lemma clash_overlaps: "base \<le> hi \<Longrightarrow> clash base hi p \<Longrightarrow> overlaps base hi p"
  unfolding clash_def overlaps_def by (meson order.trans)

lemma bounds_le_length: "upper_bound m a \<le> length m" "lower_bound m a \<le> length m"
  by (simp_all add: upper_bound_def lower_bound_def length_takeWhile_le)

lemma MapDevice_accepts:
  assumes "base \<le> base + sz - 1" and "\<forall>p\<in>set m. \<not> overlaps base (base + sz - 1) p"
  shows "MapDevice m base sz d =
    (assign base \<lparr>baseAddress = base, lastAddress = base + sz - 1, device = d\<rparr> m, True)"
proof -
  have no: "\<not> clash base (base + sz - 1) (m ! i)" if "i < length m" for i
    using assms clash_overlaps nth_mem that by metis
  have "lower_bound m (base + sz - 1) - 1 < length m" if "lower_bound m (base + sz - 1) \<noteq> 0"
    using bounds_le_length(2) [of m "base + sz - 1"] that by linarith
  then show ?thesis
    using no bounds_le_length(1) [of m base] unfolding MapDevice_def Let_def
    by (auto simp: le_less)
qed

lemma MapDevice_rejects:
  assumes "MapDevice m base sz d = (m', False)" and "base \<le> base + sz - 1"
  shows "m' = m \<and> (\<exists>p\<in>set m. overlaps base (base + sz - 1) p)"
proof
  show "m' = m" using assms(1) by (auto simp: MapDevice_def Let_def split: if_splits)
  show "\<exists>p\<in>set m. overlaps base (base + sz - 1) p"
    using assms MapDevice_accepts [OF assms(2), of m d] by auto
qed

text \<open>The laws of an address map, for its clients.\<close>

fun map_ranges ::
  "('m \<Rightarrow> u32 \<Rightarrow> u32 \<Rightarrow> 'd \<Rightarrow> 'm \<times> bool) \<Rightarrow> 'm \<Rightarrow> (u32 \<times> u32 \<times> 'd) list \<Rightarrow> 'm \<times> bool" where
  "map_ranges ins m [] = (m, True)"
| "map_ranges ins m ((base, n, d) # rs) =
     (let (m', ok) = ins m base n d in if ok then map_ranges ins m' rs else (m', False))"

definition in_range :: "u32 \<times> u32 \<times> 'd \<Rightarrow> u32 \<Rightarrow> bool" where
  "in_range r a \<longleftrightarrow> (case r of (base, n, d) \<Rightarrow> base \<le> a \<and> a \<le> base + n - 1)"

definition separate :: "u32 \<times> u32 \<times> 'd \<Rightarrow> u32 \<times> u32 \<times> 'd \<Rightarrow> bool" where
  "separate r q \<longleftrightarrow> (case (r, q) of ((b, n, _), (b', n', _)) \<Rightarrow>
     b + n - 1 < b' \<or> b' + n' - 1 < b)"

lemma separate_ranges: "separate r q \<Longrightarrow> in_range r a \<Longrightarrow> \<not> in_range q a"
  unfolding separate_def in_range_def by (force split: prod.splits)

locale address_map =
  fixes lookup :: "'m \<Rightarrow> u32 \<Rightarrow> 'd option"
    and ins :: "'m \<Rightarrow> u32 \<Rightarrow> u32 \<Rightarrow> 'd \<Rightarrow> 'm \<times> bool"
    and ok :: "'m \<Rightarrow> bool"
  assumes ins_free: "ok m \<Longrightarrow> base \<le> base + n - 1 \<Longrightarrow>
      (\<And>a. base \<le> a \<Longrightarrow> a \<le> base + n - 1 \<Longrightarrow> lookup m a = None) \<Longrightarrow>
      \<exists>m'. ins m base n d = (m', True) \<and> ok m'
        \<and> (\<forall>a. lookup m' a = (if base \<le> a \<and> a \<le> base + n - 1 then Some d else lookup m a))"
begin

lemma map_ranges_routes:
  "ok m \<Longrightarrow> sorted_wrt separate rs \<Longrightarrow> \<forall>(b, n, d)\<in>set rs. b \<le> b + n - 1 \<Longrightarrow>
   \<forall>r\<in>set rs. \<forall>a. in_range r a \<longrightarrow> lookup m a = None \<Longrightarrow>
   \<exists>m'. map_ranges ins m rs = (m', True) \<and> ok m'
     \<and> (\<forall>a. lookup m' a = (case find (\<lambda>r. in_range r a) rs of
            Some (_, _, d) \<Rightarrow> Some d | None \<Rightarrow> lookup m a))"
proof (induction rs arbitrary: m)
  case (Cons r rs)
  obtain base n d where r: "r = (base, n, d)" by (cases r)
  obtain m1 where m1: "ins m base n d = (m1, True)" "ok m1"
    and look: "\<forall>a. lookup m1 a = (if in_range r a then Some d else lookup m a)"
    using ins_free [of m base n d] Cons.prems unfolding r in_range_def by auto
  have apart: "\<not> in_range r a" if "q \<in> set rs" "in_range q a" for q a
    using Cons.prems(2) that separate_ranges [of r q a] by auto
  have "\<exists>m'. map_ranges ins m1 rs = (m', True) \<and> ok m'
     \<and> (\<forall>a. lookup m' a = (case find (\<lambda>r. in_range r a) rs of
            Some (_, _, d) \<Rightarrow> Some d | None \<Rightarrow> lookup m1 a))"
    using m1(2) Cons.prems look apart by (intro Cons.IH) auto
  then obtain m2 where m2: "map_ranges ins m1 rs = (m2, True)" "ok m2"
    "\<forall>a. lookup m2 a = (case find (\<lambda>r. in_range r a) rs of
            Some (_, _, d) \<Rightarrow> Some d | None \<Rightarrow> lookup m1 a)" by blast
  have none: "find (\<lambda>r. in_range r a) rs = None" if "in_range r a" for a
    using apart that by (auto simp: find_None_iff)
  show ?case
    using m1(1) m2 look none by (auto simp: r [symmetric]) (auto simp: r split: option.split)
qed auto

end

lemma MapDevice_free:
  assumes wf: "wf_iomap m" and le: "base \<le> base + n - 1"
    and none: "\<And>a. base \<le> a \<Longrightarrow> a \<le> base + n - 1 \<Longrightarrow> LookupDevice m a = None"
  shows "\<exists>m'. MapDevice m base n d = (m', True) \<and> wf_iomap m'
    \<and> (\<forall>a. LookupDevice m' a = (if base \<le> a \<and> a \<le> base + n - 1 then Some d else LookupDevice m a))"
proof -
  let ?e = "\<lparr>baseAddress = base, lastAddress = base + n - 1, device = d\<rparr>"
  have free: "\<forall>p\<in>set m. \<not> overlaps base (lastAddress ?e) p"
    using none free_overlaps [OF wf le] by simp
  have "base \<le> lastAddress ?e" using le by simp
  from wf_assign [OF wf this free] LookupDevice_assign [OF wf this free] free le
  show ?thesis by (simp add: MapDevice_accepts)
qed

interpretation ioranges: address_map LookupDevice MapDevice wf_iomap
  by unfold_locales (rule MapDevice_free)

section \<open>Dispatch\<close>

text \<open>
  The contract of the devices: an access that is safe from a state that satisfies
  the invariant returns, in such a state. Whatever the mapper does then keeps it too.
\<close>

locale io_devices =
  fixes ops :: "('d, 's) device_ops"
    and good :: "'s \<Rightarrow> bool"
    and read_ok :: "'d \<Rightarrow> u32 \<Rightarrow> u8 \<Rightarrow> 's \<Rightarrow> bool"
    and write_ok :: "'d \<Rightarrow> u32 \<Rightarrow> u32 \<Rightarrow> u8 \<Rightarrow> 's \<Rightarrow> bool"
  assumes reads: "good s \<Longrightarrow> read_ok d addr sz s \<Longrightarrow>
      returns (\<lambda>(s', v, h). good s') (dev_IORead ops d addr sz s value)"
    and writes: "good s \<Longrightarrow> write_ok d addr value sz s \<Longrightarrow>
      returns (\<lambda>(s', h). good s') (dev_IOWrite ops d addr value sz s)"
    and mreads: "good s \<Longrightarrow> returns (\<lambda>(s', v, h). good s') (dev_MMIORead ops d addr sz s value)"
    and mwrites: "good s \<Longrightarrow> returns (\<lambda>(s', h). good s') (dev_MMIOWrite ops d addr value sz s)"
begin

lemma try_read_good:
  assumes "\<And>d s val. good s \<Longrightarrow> ok d s \<Longrightarrow> returns (\<lambda>(s', v, h). good s') (rd d addr sz s val)"
  shows "good s \<Longrightarrow> \<forall>d\<in>set ds. \<forall>s. good s \<longrightarrow> ok d s \<Longrightarrow>
    returns (\<lambda>(s', v, h). good s') (try_read rd ds addr sz s val)"
proof (induction ds arbitrary: s val)
  case (Cons d ds)
  then show ?case
    using assms [OF Cons.prems(1), of d val] Cons.IH by (auto elim!: returns_mono)
qed simp

lemma try_write_good:
  assumes "\<And>d s. good s \<Longrightarrow> ok d s \<Longrightarrow> returns (\<lambda>(s', h). good s') (wr d addr value sz s)"
  shows "good s \<Longrightarrow> \<forall>d\<in>set ds. \<forall>s. good s \<longrightarrow> ok d s \<Longrightarrow>
    returns (\<lambda>(s', h). good s') (try_write wr ds addr value sz s)"
proof (induction ds arbitrary: s)
  case (Cons d ds)
  then show ?case
    using assms [OF Cons.prems(1), of d] Cons.IH by (auto elim!: returns_mono)
qed simp

text \<open>
  An access is safe when it is safe for the device in whose range the port is, or,
  where there is none, for the first dynamic device now and the others at any time.
\<close>

definition safe_port :: "('d \<Rightarrow> 's \<Rightarrow> bool) \<Rightarrow> 'd IOMapper \<Rightarrow> u32 \<Rightarrow> 's \<Rightarrow> bool" where
  "safe_port ok io addr s \<longleftrightarrow>
     (case LookupDevice (m_mappedIODevices io) addr of
        Some d \<Rightarrow> ok d s
      | None \<Rightarrow> (case m_dynamicDevices io of
          [] \<Rightarrow> True
        | d # ds \<Rightarrow> ok d s \<and> (\<forall>d\<in>set ds. \<forall>s. good s \<longrightarrow> ok d s)))"

lemma mapper_read_good:
  assumes "good s" and "safe_port (\<lambda>d. read_ok d addr sz) io addr s"
  shows "returns (\<lambda>(s', v, h). good s') (IOMapper_IORead ops io addr sz s value)"
proof (cases "LookupDevice (m_mappedIODevices io) addr")
  case None
  then show ?thesis
    using assms try_read_good [of "\<lambda>d. read_ok d addr sz" "dev_IORead ops" addr sz, OF reads]
    by (cases "m_dynamicDevices io")
      (auto simp: IOMapper_IORead_def safe_port_def intro!: returns_mono [OF reads [OF assms(1)]])
qed (use assms reads in \<open>auto simp: IOMapper_IORead_def safe_port_def\<close>)

lemma mapper_write_good:
  assumes "good s" and "safe_port (\<lambda>d. write_ok d addr value sz) io addr s"
  shows "returns (\<lambda>(s', h). good s') (IOMapper_IOWrite ops io addr value sz s)"
proof (cases "LookupDevice (m_mappedIODevices io) addr")
  case None
  then show ?thesis
    using assms try_write_good [of "\<lambda>d. write_ok d addr value sz" "dev_IOWrite ops" addr "value" sz, OF writes]
    by (cases "m_dynamicDevices io")
      (auto simp: IOMapper_IOWrite_def safe_port_def intro!: returns_mono [OF writes [OF assms(1)]])
qed (use assms writes in \<open>auto simp: IOMapper_IOWrite_def safe_port_def\<close>)

lemma mapper_memory_good:
  assumes "good s"
  shows "returns (\<lambda>(s', v, h). good s') (IOMapper_MMIORead ops io addr sz s value)"
    and "returns (\<lambda>(s', h). good s') (IOMapper_MMIOWrite ops io addr value sz s)"
  unfolding IOMapper_MMIORead_def IOMapper_MMIOWrite_def
  using assms by (auto split: option.split intro!: mreads mwrites
      try_read_good [of "\<lambda>d s. True"] try_write_good [of "\<lambda>d s. True"])

end

text \<open>The inherited functions meet the contract, for any invariant.\<close>

definition default_ops :: "('d, 's) device_ops" where
  "default_ops = \<lparr>dev_IORead = \<lambda>d. IODevice_Read, dev_IOWrite = \<lambda>d. IODevice_Write,
     dev_MMIORead = \<lambda>d. IODevice_Read, dev_MMIOWrite = \<lambda>d. IODevice_Write\<rparr>"

interpretation default_devices: io_devices default_ops good "\<lambda>d addr sz s. True" "\<lambda>d addr value sz s. True" for good
  by unfold_locales (simp_all add: default_ops_def IODevice_Read_def IODevice_Write_def)

section \<open>Properties\<close>

text \<open>C16: mapping a range where no address is taken succeeds; afterwards the addresses of the
  range belong to the device and every other address belongs to whom it belonged before.\<close>

theorem MapDevice_routes:
  assumes "wf_iomap m" and "base \<le> base + n - 1"
    and "\<And>a. base \<le> a \<Longrightarrow> a \<le> base + n - 1 \<Longrightarrow> LookupDevice m a = None"
  shows "\<exists>m'. MapDevice m base n d = (m', True) \<and> wf_iomap m'
    \<and> (\<forall>a. LookupDevice m' a = (if base \<le> a \<and> a \<le> base + n - 1 then Some d else LookupDevice m a))"
  using assms by (rule ioranges.ins_free)

definition two_ranges :: "nat iomap" where
  "two_ranges = [(0x20, \<lparr>baseAddress = 0x20, lastAddress = 0x21, device = 1\<rparr>),
     (0xA0, \<lparr>baseAddress = 0xA0, lastAddress = 0xAF, device = 2\<rparr>)]"

lemma wf_two_ranges [simp]: "wf_iomap two_ranges"
  by (simp add: two_ranges_def wf_iomap_def)

theorem MapDevice_routes_witness:
  "\<exists>m'. MapDevice two_ranges 0x40 4 3 = (m', True) \<and> LookupDevice m' 0x43 = Some 3
     \<and> LookupDevice m' 0x44 = None"
proof -
  have "LookupDevice two_ranges a = None" if "0x40 \<le> a" "a \<le> 0x44" for a
    using that unfolding LookupDevice_None [OF wf_two_ranges]
    by (auto simp: two_ranges_def covers_def word_le_nat_alt)
  then show ?thesis using MapDevice_routes [of two_ranges "0x40" 4 3] by (auto simp: word_le_nat_alt)
qed

lemma less_length_takeWhile:
  "sorted_wrt (\<lambda>x y. P y \<longrightarrow> P x) xs \<Longrightarrow> i < length xs \<Longrightarrow> i < length (takeWhile P xs) \<longleftrightarrow> P (xs ! i)"
proof (induction xs arbitrary: i)
  case (Cons x xs)
  then show ?case by (cases i) auto
qed simp

lemma bound_nth:
  assumes "wf_iomap m" and "i < length m"
  shows "i < upper_bound m a \<longleftrightarrow> fst (m ! i) \<le> a" "i < lower_bound m a \<longleftrightarrow> fst (m ! i) < a"
proof -
  have less: "sorted_wrt (\<lambda>p q. fst p < fst q) m"
    using assms(1) by (induction m) (auto simp: wf_iomap_Cons intro: order.strict_trans1)
  have s: "sorted_wrt (\<lambda>x y. (case y of (k, _) \<Rightarrow> k \<le> a) \<longrightarrow> (case x of (k, _) \<Rightarrow> k \<le> a)) m"
    "sorted_wrt (\<lambda>x y. (case y of (k, _) \<Rightarrow> k < a) \<longrightarrow> (case x of (k, _) \<Rightarrow> k < a)) m"
    using less by (induction m) (auto simp: case_prod_beta)
  show "i < upper_bound m a \<longleftrightarrow> fst (m ! i) \<le> a"
    using less_length_takeWhile [OF s(1) assms(2)] by (simp add: upper_bound_def case_prod_beta')
  show "i < lower_bound m a \<longleftrightarrow> fst (m ! i) < a"
    using less_length_takeWhile [OF s(2) assms(2)] by (simp add: lower_bound_def case_prod_beta')
qed

lemma wf_iomap_nth:
  "wf_iomap m \<Longrightarrow> i < j \<Longrightarrow> j < length m \<Longrightarrow> lastAddress (snd (m ! i)) < fst (m ! j)"
  by (auto simp: wf_iomap_def dest: sorted_wrt_nth_less)

text \<open>mapping never turns down a free range, and what it overlooks is limited: an accepted
  range that meets another one meets the first mapped range, encloses a mapped range, or is
  the single first address of one.\<close>

theorem MapDevice_overlooks:
  assumes wf: "wf_iomap m" and le: "base \<le> base + n - 1"
  shows "(MapDevice m base n d = (m', False) \<longrightarrow> m' = m \<and> (\<exists>p\<in>set m. overlaps base (base + n - 1) p))
    \<and> (MapDevice m base n d = (m', True) \<longrightarrow> (\<forall>p\<in>set m. overlaps base (base + n - 1) p \<longrightarrow>
        overlaps base (base + n - 1) (m ! 0)
        \<or> (\<exists>q\<in>set m. base \<le> fst q \<and> lastAddress (snd q) \<le> base + n - 1)
        \<or> (base = fst p \<and> base + n - 1 = base)))"
proof (intro conjI impI ballI)
  assume "MapDevice m base n d = (m', False)"
  from MapDevice_rejects [OF this le] show "m' = m" "\<exists>p\<in>set m. overlaps base (base + n - 1) p"
    by auto
next
  fix p
  let ?hi = "base + n - 1" and ?pu = "upper_bound m base" and ?lb = "lower_bound m (base + n - 1)"
  assume acc: "MapDevice m base n d = (m', True)" and p: "p \<in> set m" and over: "overlaps base ?hi p"
  obtain i where i: "i < length m" "p = m ! i" using p by (metis in_set_conv_nth)
  have no_pu: "\<not> clash base ?hi (m ! ?pu)" if "?pu < length m"
    using acc that by (auto simp: MapDevice_def Let_def split: if_splits)
  have no_pl: "\<not> clash base ?hi (m ! (?lb - 1))" if "1 < ?lb"
    using acc that by (auto simp: MapDevice_def Let_def split: if_splits)
  have wfp: "fst p \<le> lastAddress (snd p)" using wf p by (simp add: wf_iomap_def)
  have keys: "fst p \<le> ?hi" "base \<le> lastAddress (snd p)" using over by (auto simp: overlaps_def)
  have lb: "i < ?lb \<longleftrightarrow> fst p < ?hi" and pu: "i < ?pu \<longleftrightarrow> fst p \<le> base"
    using bound_nth [OF wf i(1)] i(2) by simp_all
  show "overlaps base ?hi (m ! 0)
    \<or> (\<exists>q\<in>set m. base \<le> fst q \<and> lastAddress (snd q) \<le> ?hi) \<or> (base = fst p \<and> ?hi = base)"
  proof (cases "base \<le> fst p \<and> lastAddress (snd p) \<le> ?hi \<or> i = 0 \<or> (base = fst p \<and> ?hi = base)")
    case True
    then show ?thesis using p over i(2) by auto
  next
    case False
    then have i0: "i \<noteq> 0" and notin: "\<not> (base \<le> fst p \<and> lastAddress (snd p) \<le> ?hi)"
      and notfirst: "base = fst p \<Longrightarrow> ?hi \<noteq> base" by auto
    have low: "?thesis" if low: "fst p < ?hi" "fst p \<le> base"
    proof -
      define q where "q = m ! (?lb - 1)"
      have len: "i < ?lb" "1 < ?lb" "?lb - 1 < length m"
        using low(1) lb i0 bounds_le_length(2) [of m ?hi] by linarith+
      then have q: "q \<in> set m" "fst q < ?hi" "\<not> clash base ?hi q"
        using bound_nth(2) [OF wf len(3), of ?hi] no_pl by (auto simp: q_def)
      have "?lb - 1 \<noteq> i" using q(3) low keys unfolding clash_def q_def i(2) by auto
      then have "lastAddress (snd p) < fst q"
        using wf_iomap_nth [OF wf _ len(3), of i] len(1) by (simp add: q_def i(2))
      then have "base \<le> fst q" using keys(2) by order
      moreover have "lastAddress (snd q) \<le> ?hi" using q(2,3) unfolding clash_def by (metis linorder_linear less_imp_le)
      ultimately show ?thesis using q(1) by blast
    qed
    have high: "?thesis" if high: "base < fst p" "?hi < lastAddress (snd p)"
    proof -
      have le: "?pu \<le> i" using pu high(1) by (meson not_le)
      then have q: "base < fst (m ! ?pu)" "\<not> clash base ?hi (m ! ?pu)"
        using bound_nth(1) [OF wf, of ?pu base] no_pu i(1) by auto
      then have "?pu \<noteq> i" using high keys unfolding clash_def i(2) by auto
      then have "lastAddress (snd (m ! ?pu)) < fst p"
        using wf_iomap_nth [OF wf _ i(1), of ?pu] le by (simp add: i(2))
      then have "lastAddress (snd (m ! ?pu)) \<le> ?hi" using keys(1) by order
      moreover have "m ! ?pu \<in> set m" using le i(1) by (intro nth_mem) linarith
      ultimately show ?thesis using q(1) by (auto intro: less_imp_le)
    qed
    consider "fst p < base" | "base < fst p" | "base = fst p" by (rule linorder_cases)
    then show ?thesis
    proof cases
      case 1
      then show ?thesis using low le by (meson less_imp_le order.strict_trans2)
    next
      case 2
      then show ?thesis using high notin by (meson less_imp_le not_le)
    next
      case 3
      then show ?thesis using low le notfirst by (metis order.refl order.not_eq_order_implies_strict)
    qed
  qed
qed

theorem MapDevice_overlooks_witness:
  "MapDevice two_ranges 0x20 1 7 =
     ([(0x20, \<lparr>baseAddress = 0x20, lastAddress = 0x20, device = 7\<rparr>), two_ranges ! 1], True)
   \<and> (overlaps 0x20 0x20 (two_ranges ! 0)
      \<or> (\<exists>q\<in>set two_ranges. 0x20 \<le> fst q \<and> lastAddress (snd q) \<le> 0x20) \<or> (0x20::u32) = 0x21)"
proof -
  let ?m = "[(0x20, \<lparr>baseAddress = 0x20, lastAddress = 0x20, device = 7\<rparr>), two_ranges ! 1]"
  have acc: "MapDevice two_ranges 0x20 1 7 = (?m, True)" by code_simp
  have "overlaps 0x20 0x20 (two_ranges ! 0)" "two_ranges ! 0 \<in> set two_ranges" by code_simp+
  with acc MapDevice_overlooks [of two_ranges "0x20" 1 7 ?m] show ?thesis by auto
qed

end
