(* ===== verification/Lines.thy ===== *)
theory Lines
  imports Prelude
begin

text \<open>
  Interrupt lines and the small devices of the board: the lines \<open>hw/basic/irq.h\<close>,
  the global system interrupts \<open>gsi.cpp\<close>, the ISA bus \<open>hw/bus/isabus.cpp\<close>, the
  interval timer \<open>i8254.cpp\<close> with its thread, and the CMOS \<open>cmos.cpp\<close>. A line
  holds a reference to its handler, of the type \<open>'h\<close>; what calling \<open>HandleIRQ\<close> of
  a handler does to the state is an argument. The clock of the host is left out:
  a step of the timer's thread happens at any later time.
\<close>

section \<open>Lines\<close>

record 'h IRQ =
  irq_handler :: "'h option"
  irq_num :: u8

type_synonym ('h, 's) handlers = "'h \<Rightarrow> u8 \<Rightarrow> bool \<Rightarrow> 's \<Rightarrow> fault + 's"

definition IRQ_Handle :: "('h, 's) handlers \<Rightarrow> 'h IRQ \<Rightarrow> bool \<Rightarrow> 's \<Rightarrow> fault + 's" where
  "IRQ_Handle hand irq level s =
     (case irq_handler irq of
        Some h \<Rightarrow> hand h (irq_num irq) level s
      | None \<Rightarrow> Inr s)"

definition AllocateIRQs :: "'h option \<Rightarrow> u8 \<Rightarrow> 'h IRQ list" where
  "AllocateIRQs handler numIRQs =
     map (\<lambda>i. \<lparr>irq_handler = handler, irq_num = of_nat i\<rparr>) [0..<unat numIRQs]"

section \<open>Global system interrupts\<close>

abbreviation ISA_NUM_IRQS :: u8 where "ISA_NUM_IRQS \<equiv> 16"
abbreviation IOAPIC_NUM_PINS :: u8 where "IOAPIC_NUM_PINS \<equiv> 24"
abbreviation GSI_NUM_PINS :: u8 where "GSI_NUM_PINS \<equiv> IOAPIC_NUM_PINS"

record 'h gsi =
  i8259IRQs :: "'h IRQ option list"
  ioapicIRQs :: "'h IRQ option list"

definition new_GSI :: "'h gsi" where
  "new_GSI = \<lparr>i8259IRQs = replicate (unat ISA_NUM_IRQS) None, ioapicIRQs = replicate (unat IOAPIC_NUM_PINS) None\<rparr>"

definition handle_if_set :: "('h, 's) handlers \<Rightarrow> 'h IRQ option \<Rightarrow> bool \<Rightarrow> 's \<Rightarrow> fault + 's" where
  "handle_if_set hand irq level s = (case irq of Some irq \<Rightarrow> IRQ_Handle hand irq level s | None \<Rightarrow> Inr s)"

definition GSI_HandleIRQ :: "('h, 's) handlers \<Rightarrow> 'h gsi \<Rightarrow> u8 \<Rightarrow> bool \<Rightarrow> 's \<Rightarrow> fault + 's" where
  "GSI_HandleIRQ hand gsi irqNum level s =
     bindr (if irqNum < ISA_NUM_IRQS
            then bindr (aget (i8259IRQs gsi) (unat irqNum)) (\<lambda>irq. handle_if_set hand irq level s)
            else Inr s) (\<lambda>s.
     bindr (aget (ioapicIRQs gsi) (unat irqNum)) (\<lambda>irq. handle_if_set hand irq level s))"

section \<open>The ISA bus\<close>

definition ISABus_GetIRQ :: "'h IRQ list \<Rightarrow> u8 \<Rightarrow> fault + 'h IRQ option" where
  "ISABus_GetIRQ irqs isaIRQ =
     (if isaIRQ > 15 then Inr None else bindr (aget irqs (unat isaIRQ)) (\<lambda>irq. Inr (Some irq)))"

section \<open>The interval timer\<close>

text \<open>
  The thread of the timer: it is created by the write of the command 0x34, runs
  \<open>Run\<close>, and stays joinable when it has ended. Assigning a new thread to a
  joinable one ends the program.
\<close>

datatype pit_thread = NotStarted | Starting | Testing | Waiting | Ended

record i8254 =
  m_running :: bool
  m_timerThread :: pit_thread

definition new_i8254 :: i8254 where
  "new_i8254 = \<lparr>m_running = False, m_timerThread = NotStarted\<rparr>"

definition joinable :: "i8254 \<Rightarrow> bool" where
  "joinable s \<longleftrightarrow> m_timerThread s \<noteq> NotStarted"

definition i8254_Reset :: "i8254 \<Rightarrow> i8254" where
  "i8254_Reset s = s\<lparr>m_running := False\<rparr>"

definition i8254_IORead :: "u32 \<Rightarrow> u8 \<Rightarrow> i8254 \<Rightarrow> u32 \<Rightarrow> fault + i8254 \<times> u32 \<times> bool" where
  "i8254_IORead port sz s v = Inr (s, 0, True)"

definition i8254_IOWrite :: "u32 \<Rightarrow> u32 \<Rightarrow> u8 \<Rightarrow> i8254 \<Rightarrow> fault + i8254 \<times> bool" where
  "i8254_IOWrite port v sz s =
     (if v = 0x34
      then if joinable s then Inl Terminated
           else Inr (s\<lparr>m_running := True, m_timerThread := Starting\<rparr>, True)
      else Inr (s, True))"

text \<open>\<open>Run\<close>, one step of its loop at a time; a step may change the level of line 0.\<close>

definition i8254_Run_step :: "i8254 \<Rightarrow> (i8254 \<times> (u8 \<times> bool) list) option" where
  "i8254_Run_step s =
     (case m_timerThread s of
        NotStarted \<Rightarrow> None
      | Starting \<Rightarrow> Some (s\<lparr>m_running := True, m_timerThread := Testing\<rparr>, [])
      | Testing \<Rightarrow>
          if m_running s then Some (s\<lparr>m_timerThread := Waiting\<rparr>, [(0, True)])
          else Some (s\<lparr>m_timerThread := Ended\<rparr>, [])
      | Waiting \<Rightarrow> Some (s\<lparr>m_timerThread := Testing\<rparr>, [(0, False)])
      | Ended \<Rightarrow> None)"

section \<open>The CMOS\<close>

definition CMOS_IORead :: "u32 \<Rightarrow> u8 \<Rightarrow> 's \<Rightarrow> u32 \<Rightarrow> fault + 's \<times> u32 \<times> bool" where
  "CMOS_IORead port sz s v = Inr (s, 0, False)"

definition CMOS_IOWrite :: "u32 \<Rightarrow> u32 \<Rightarrow> u8 \<Rightarrow> 's \<Rightarrow> fault + 's \<times> bool" where
  "CMOS_IOWrite port v sz s = Inr (s, False)"

end
