(* ===== verification/Pic.thy ===== *)
theory Pic
  imports Prelude
begin

text \<open>
  The pair of cascaded 8259 interrupt controllers, \<open>hw/basic/i8259.cpp\<close> and
  \<open>i8259.h\<close>. The arrays \<open>m_IRR[2]\<close>, \<open>m_IMR[2]\<close>, \<dots> become one record per
  controller; \<open>m_cpu->Interrupt(v)\<close> appends the vector \<open>v\<close> to the trace
  \<open>cpuInts\<close>. \<open>UpdateIRQ\<close>, \<open>SetIRQ\<close>, \<open>AcknowledgeIRQ\<close> and \<open>GetCurrentIRQ\<close> call
  each other without a bound in the source: they take the number of stack
  frames that are left, and running out is the fault \<open>StackExhausted\<close>.
  The mutex of \<open>HandleIRQ\<close> and the log output are left out. Shift counts
  beyond 31 (IRQ numbers from 40 on), undefined in C++, do not arise: the callers
  pass ISA line numbers.
\<close>

section \<open>State\<close>

datatype pic = Master | Slave

record chip =
  m_PreviousIRR :: u8
  m_IRR :: u8
  m_IMR :: u8
  m_ISR :: u8
  m_Base :: u8
  m_ReadRegisterSelect :: u8
  m_SpecialMask :: u8
  m_InitState :: u8
  m_ELCR :: u8
  m_ELCRMask :: u8
  m_PriorityAdd :: u8
  m_Poll :: bool
  m_RotateOnAutoEOI :: bool
  m_Is4ByteInit :: bool
  m_InterruptOutput :: bool
  m_AutoEOI :: bool
  m_IsSpecialFullyNestedMode :: bool

record i8259 =
  chips :: "pic \<Rightarrow> chip"
  cpuInts :: "u8 list"

definition upd_chip :: "pic \<Rightarrow> (chip \<Rightarrow> chip) \<Rightarrow> i8259 \<Rightarrow> i8259" where
  "upd_chip p f s = s\<lparr>chips := (chips s)(p := f (chips s p))\<rparr>"

lemma upd_chip_simps [simp]:
  "chips (upd_chip p f s) = (chips s)(p := f (chips s p))"
  "cpuInts (upd_chip p f s) = cpuInts s"
  by (simp_all add: upd_chip_def)

section \<open>Priority resolution\<close>

definition GetPriority :: "chip \<Rightarrow> u8 \<Rightarrow> nat" where
  "GetPriority c msk =
     (if msk = 0 then 8
      else while
        (\<lambda>priority. msk AND push_bit ((priority + unat (m_PriorityAdd c)) mod 8) 1 = 0)
        (\<lambda>priority. priority + 1) 0)"

definition GetIRQ :: "i8259 \<Rightarrow> pic \<Rightarrow> nat option" where
  "GetIRQ s p =
     (let c = chips s p;
          msk = m_IRR c AND NOT (m_IMR c);
          priority = GetPriority c msk
      in if priority = 8 then None
         else
           let msk = m_ISR c;
               msk = (if m_SpecialMask c \<noteq> 0 then msk AND NOT (m_IMR c) else msk);
               msk = (if m_IsSpecialFullyNestedMode c \<and> p = Master
                       then msk AND NOT (push_bit 2 1) else msk);
               currentPriority = GetPriority c msk
           in if priority < currentPriority
              then Some ((priority + unat (m_PriorityAdd c)) mod 8) else None)"

section \<open>The interrupt machinery\<close>

definition set_line :: "nat \<Rightarrow> bool \<Rightarrow> chip \<Rightarrow> chip" where
  "set_line index asserted c =
     (let msk = push_bit index 1 in
      if tst (m_ELCR c) msk
      then (if asserted
            then c\<lparr>m_IRR := m_IRR c OR msk, m_PreviousIRR := m_PreviousIRR c OR msk\<rparr>
            else c\<lparr>m_IRR := m_IRR c AND NOT msk,
                   m_PreviousIRR := m_PreviousIRR c AND NOT msk\<rparr>)
      else (if asserted
            then c\<lparr>m_IRR := (if m_PreviousIRR c AND msk = 0 then m_IRR c OR msk else m_IRR c),
                   m_PreviousIRR := m_PreviousIRR c OR msk\<rparr>
            else c\<lparr>m_IRR := m_IRR c AND NOT msk,
                   m_PreviousIRR := m_PreviousIRR c AND NOT msk\<rparr>))"

definition acknowledge :: "nat \<Rightarrow> chip \<Rightarrow> chip" where
  "acknowledge index c =
     (let c = (if m_AutoEOI c
               then (if m_RotateOnAutoEOI c
                     then c\<lparr>m_PriorityAdd := of_nat (index + 1) AND 7\<rparr> else c)
               else c\<lparr>m_ISR := m_ISR c OR push_bit index 1\<rparr>)
      in if m_ELCR c AND push_bit index 1 = 0
         then c\<lparr>m_IRR := m_IRR c AND NOT (push_bit index 1)\<rparr> else c)"

definition note_output :: "pic \<Rightarrow> i8259 \<Rightarrow> i8259" where
  "note_output p s = upd_chip p (\<lambda>c. c\<lparr>m_InterruptOutput := GetIRQ s p \<noteq> None\<rparr>) s"

fun UpdateIRQ :: "nat \<Rightarrow> pic \<Rightarrow> i8259 \<Rightarrow> fault + i8259"
  and SetIRQ :: "nat \<Rightarrow> pic \<Rightarrow> nat \<Rightarrow> bool \<Rightarrow> i8259 \<Rightarrow> fault + i8259"
  and AcknowledgeIRQ :: "nat \<Rightarrow> pic \<Rightarrow> nat \<Rightarrow> i8259 \<Rightarrow> fault + i8259"
  and GetCurrentIRQ :: "nat \<Rightarrow> i8259 \<Rightarrow> fault + i8259 \<times> u8"
where
  "UpdateIRQ 0 p s = Inl StackExhausted"
| "UpdateIRQ (Suc n) p s =
     (let s = note_output p s in
      bindr (if p = Slave then SetIRQ n Master 2 (m_InterruptOutput (chips s p)) s else Inr s)
        (\<lambda>s. if p = Master \<and> m_InterruptOutput (chips s Master)
             then bindr (GetCurrentIRQ n s) (\<lambda>(s, v). Inr (s\<lparr>cpuInts := cpuInts s @ [v]\<rparr>))
             else Inr s))"
| "SetIRQ 0 p index asserted s = Inl StackExhausted"
| "SetIRQ (Suc n) p index asserted s = UpdateIRQ n p (upd_chip p (set_line index asserted) s)"
| "AcknowledgeIRQ 0 p index s = Inl StackExhausted"
| "AcknowledgeIRQ (Suc n) p index s = UpdateIRQ n p (upd_chip p (acknowledge index) s)"
| "GetCurrentIRQ 0 s = Inl StackExhausted"
| "GetCurrentIRQ (Suc n) s =
     (case GetIRQ s Master of
        None \<Rightarrow> Inr (s, m_Base (chips s Master) + 7)
      | Some masterIrq \<Rightarrow>
          if masterIrq \<noteq> 2
          then bindr (AcknowledgeIRQ n Master masterIrq s)
                 (\<lambda>s. Inr (s, m_Base (chips s Master) + of_nat masterIrq))
          else
            (case GetIRQ s Slave of
               None \<Rightarrow> Inr (s, m_Base (chips s Slave) + 7)
             | Some slaveIrq \<Rightarrow>
                 bindr (AcknowledgeIRQ n Slave slaveIrq s)
                   (\<lambda>s. Inr (s, m_Base (chips s Slave) + of_nat slaveIrq))))"

text \<open>
  The frames given to each entry point. \<open>update_terminates\<close> below bounds what
  is needed: at most five frames for each of the 15 requests that can be
  pending, and five to finish.
\<close>

definition pic_frames :: nat where
  "pic_frames = 100"

section \<open>Entry points\<close>

definition RaiseIRQ :: "nat \<Rightarrow> i8259 \<Rightarrow> fault + i8259" where
  "RaiseIRQ index s =
     (if index \<le> 7 then SetIRQ pic_frames Master index True s
      else SetIRQ pic_frames Slave (index - 8) True s)"

definition LowerIRQ :: "nat \<Rightarrow> i8259 \<Rightarrow> fault + i8259" where
  "LowerIRQ index s =
     (if index \<le> 7 then SetIRQ pic_frames Master index False s
      else SetIRQ pic_frames Slave (index - 8) False s)"

definition HandleIRQ :: "u8 \<Rightarrow> bool \<Rightarrow> i8259 \<Rightarrow> fault + i8259" where
  "HandleIRQ irqNum level s =
     (if level then RaiseIRQ (unat irqNum) s else LowerIRQ (unat irqNum) s)"

definition Poll :: "pic \<Rightarrow> i8259 \<Rightarrow> fault + i8259 \<times> u8" where
  "Poll p s =
     (let s = upd_chip p (\<lambda>c. c\<lparr>m_Poll := False\<rparr>) s in
      case GetIRQ s p of
        Some irq \<Rightarrow> bindr (AcknowledgeIRQ pic_frames p irq s) (\<lambda>s. Inr (s, of_nat irq OR 0x80))
      | None \<Rightarrow> Inr (s, 0))"

definition reset_chip :: "chip \<Rightarrow> chip" where
  "reset_chip c = c\<lparr>
     m_PreviousIRR := 0, m_IRR := 0, m_IMR := 0, m_ISR := 0, m_PriorityAdd := 0,
     m_Base := 0, m_ReadRegisterSelect := 0, m_Poll := False, m_SpecialMask := 0,
     m_InitState := 0, m_AutoEOI := False, m_RotateOnAutoEOI := False,
     m_IsSpecialFullyNestedMode := False, m_Is4ByteInit := False,
     m_InterruptOutput := False\<rparr>"

definition ResetPic :: "pic \<Rightarrow> i8259 \<Rightarrow> fault + i8259" where
  "ResetPic p s = UpdateIRQ pic_frames p (upd_chip p reset_chip s)"

definition i8259_Reset :: "i8259 \<Rightarrow> fault + i8259" where
  "i8259_Reset s =
     bindr (ResetPic Master s) (\<lambda>s.
     bindr (ResetPic Slave s) (\<lambda>s.
     Inr (upd_chip Slave (\<lambda>c. c\<lparr>m_ELCR := 0, m_ELCRMask := 0xDE\<rparr>)
       (upd_chip Master (\<lambda>c. c\<lparr>m_ELCR := 0, m_ELCRMask := 0xF8\<rparr>) s))))"

text \<open>
  \<open>CommandRead\<close> tests the array \<open>m_ReadRegisterSelect\<close> and not its element
  \<open>[pic]\<close>: the address of an array is never null, so the branch is always
  taken.
\<close>

definition CommandRead :: "pic \<Rightarrow> i8259 \<Rightarrow> fault + i8259 \<times> u32" where
  "CommandRead p s =
     (if m_Poll (chips s p)
      then bindr (Poll p s) (\<lambda>(s, v). Inr (s, ucast v))
      else if True then Inr (s, ucast (m_ISR (chips s p)))
      else Inr (s, ucast (m_IRR (chips s p))))"

definition clear_isr :: "nat \<Rightarrow> chip \<Rightarrow> chip" where
  "clear_isr irq c = c\<lparr>m_ISR := m_ISR c AND NOT (push_bit irq 1)\<rparr>"

definition CommandWrite :: "pic \<Rightarrow> u32 \<Rightarrow> i8259 \<Rightarrow> fault + i8259" where
  "CommandWrite p value s =
     (if tst value 0x10 then
        bindr (ResetPic p s)
          (\<lambda>s. Inr (upd_chip p (\<lambda>c. c\<lparr>m_InitState := 1, m_Is4ByteInit := tst value 1\<rparr>) s))
      else if tst value 0x08 then
        Inr (upd_chip p (\<lambda>c. c\<lparr>
          m_Poll := (if tst value 0x04 then True else m_Poll c),
          m_ReadRegisterSelect :=
            (if tst value 0x02 then ucast (value AND 1) else m_ReadRegisterSelect c),
          m_SpecialMask :=
            (if tst value 0x40 then ucast (drop_bit 5 value AND 1) else m_SpecialMask c)\<rparr>) s)
      else
        let command = drop_bit 5 value in
        if command = 0 \<or> command = 4 then
          Inr (upd_chip p (\<lambda>c. c\<lparr>m_RotateOnAutoEOI := drop_bit 2 command \<noteq> 0\<rparr>) s)
        else if command = 1 \<or> command = 5 then
          let priority = GetPriority (chips s p) (m_ISR (chips s p)) in
          if priority = 8 then Inr s
          else
            let irq = (priority + unat (m_PriorityAdd (chips s p))) mod 8;
                s = upd_chip p (clear_isr irq) s;
                s = (if command = 5
                     then upd_chip p (\<lambda>c. c\<lparr>m_PriorityAdd := of_nat (irq + 1) AND 7\<rparr>) s
                     else s)
            in UpdateIRQ pic_frames p s
        else if command = 3 then
          UpdateIRQ pic_frames p (upd_chip p (clear_isr (unat (value AND 7))) s)
        else if command = 6 then
          UpdateIRQ pic_frames p
            (upd_chip p (\<lambda>c. c\<lparr>m_PriorityAdd := ucast ((value + 1) AND 7)\<rparr>) s)
        else if command = 7 then
          let irq = unat (value AND 7) in
          UpdateIRQ pic_frames p
            (upd_chip p (\<lambda>c. c\<lparr>m_PriorityAdd := of_nat (irq + 1) AND 7\<rparr>)
              (upd_chip p (clear_isr irq) s))
        else Inr s)"

definition DataRead :: "pic \<Rightarrow> i8259 \<Rightarrow> fault + i8259 \<times> u32" where
  "DataRead p s =
     (if m_Poll (chips s p)
      then bindr (Poll p s) (\<lambda>(s, v). Inr (s, ucast v))
      else Inr (s, ucast (m_IMR (chips s p))))"

definition DataWrite :: "pic \<Rightarrow> u32 \<Rightarrow> i8259 \<Rightarrow> fault + i8259" where
  "DataWrite p value s =
     (let st = m_InitState (chips s p) in
      if st = 0 then
        UpdateIRQ pic_frames p (upd_chip p (\<lambda>c. c\<lparr>m_IMR := ucast value\<rparr>) s)
      else if st = 1 then
        Inr (upd_chip p (\<lambda>c. c\<lparr>m_Base := ucast (value AND 0xF8), m_InitState := 2\<rparr>) s)
      else if st = 2 then
        Inr (upd_chip p (\<lambda>c. c\<lparr>m_InitState := (if m_Is4ByteInit c then 3 else 0)\<rparr>) s)
      else if st = 3 then
        Inr (upd_chip p (\<lambda>c. c\<lparr>
          m_IsSpecialFullyNestedMode := tst (drop_bit 4 value) 1,
          m_AutoEOI := tst (drop_bit 1 value) 1,
          m_InitState := 0\<rparr>) s)
      else Inr s)"

abbreviation PORT_PIC_MASTER_COMMAND :: u32 where "PORT_PIC_MASTER_COMMAND \<equiv> 0x20"
abbreviation PORT_PIC_MASTER_DATA :: u32 where "PORT_PIC_MASTER_DATA \<equiv> 0x21"
abbreviation PORT_PIC_SLAVE_COMMAND :: u32 where "PORT_PIC_SLAVE_COMMAND \<equiv> 0xA0"
abbreviation PORT_PIC_SLAVE_DATA :: u32 where "PORT_PIC_SLAVE_DATA \<equiv> 0xA1"
abbreviation PORT_PIC_MASTER_ELCR :: u32 where "PORT_PIC_MASTER_ELCR \<equiv> 0x4D0"
abbreviation PORT_PIC_SLAVE_ELCR :: u32 where "PORT_PIC_SLAVE_ELCR \<equiv> 0x4D1"

text \<open>
  \<open>IORead(port, &value, size)\<close> is given the value already in \<open>*value\<close> and
  returns the state, the value left there and whether the device took the
  access; every I/O device of the development has this shape.
\<close>

definition i8259_IORead :: "u32 \<Rightarrow> u8 \<Rightarrow> i8259 \<Rightarrow> u32 \<Rightarrow> fault + i8259 \<times> u32 \<times> bool" where
  "i8259_IORead port sz s value =
     (if port = PORT_PIC_MASTER_COMMAND
        then bindr (CommandRead Master s) (\<lambda>(s, v). Inr (s, v, True))
      else if port = PORT_PIC_SLAVE_COMMAND
        then bindr (CommandRead Slave s) (\<lambda>(s, v). Inr (s, v, True))
      else if port = PORT_PIC_MASTER_DATA
        then bindr (DataRead Master s) (\<lambda>(s, v). Inr (s, v, True))
      else if port = PORT_PIC_SLAVE_DATA
        then bindr (DataRead Slave s) (\<lambda>(s, v). Inr (s, v, True))
      else if port = PORT_PIC_MASTER_ELCR then Inr (s, ucast (m_ELCR (chips s Master)), True)
      else if port = PORT_PIC_SLAVE_ELCR then Inr (s, ucast (m_ELCR (chips s Slave)), True)
      else Inr (s, value, False))"

definition write_elcr :: "u32 \<Rightarrow> chip \<Rightarrow> chip" where
  "write_elcr value c = c\<lparr>m_ELCR := ucast value AND m_ELCRMask c\<rparr>"

definition i8259_IOWrite :: "u32 \<Rightarrow> u32 \<Rightarrow> u8 \<Rightarrow> i8259 \<Rightarrow> fault + i8259 \<times> bool" where
  "i8259_IOWrite port value sz s =
     (if port = PORT_PIC_MASTER_COMMAND
        then bindr (CommandWrite Master value s) (\<lambda>s. Inr (s, True))
      else if port = PORT_PIC_SLAVE_COMMAND
        then bindr (CommandWrite Slave value s) (\<lambda>s. Inr (s, True))
      else if port = PORT_PIC_MASTER_DATA
        then bindr (DataWrite Master value s) (\<lambda>s. Inr (s, True))
      else if port = PORT_PIC_SLAVE_DATA
        then bindr (DataWrite Slave value s) (\<lambda>s. Inr (s, True))
      else if port = PORT_PIC_MASTER_ELCR
        then Inr (upd_chip Master (write_elcr value) s, True)
      else if port = PORT_PIC_SLAVE_ELCR
        then Inr (upd_chip Slave (write_elcr value) s, True)
      else Inr (s, False))"

end
