(* ===== verification/PciDev.thy ===== *)
theory PciDev
  imports Prelude
begin

text \<open>
  A PCI device and its configuration space, \<open>hw/pci/pci.h\<close> and \<open>pci.cpp\<close>. The
  four 256-byte arrays are byte lists; \<open>ReadConfig\<close> and \<open>WriteConfig\<close>, whose offset
  comes from the guest, fault outside them, all other accesses are at constants
  of the source. \<open>m_addr\<close>, which the constructor leaves unset, starts at 0.
\<close>

section \<open>Registers\<close>

abbreviation PCI_VENDOR_ID :: nat where "PCI_VENDOR_ID \<equiv> 0x00"
abbreviation PCI_DEVICE_ID :: nat where "PCI_DEVICE_ID \<equiv> 0x02"
abbreviation PCI_COMMAND :: nat where "PCI_COMMAND \<equiv> 0x04"
abbreviation PCI_STATUS :: nat where "PCI_STATUS \<equiv> 0x06"
abbreviation PCI_REVISION_ID :: nat where "PCI_REVISION_ID \<equiv> 0x08"
abbreviation PCI_CLASS_PROG :: nat where "PCI_CLASS_PROG \<equiv> 0x09"
abbreviation PCI_CLASS_DEVICE :: nat where "PCI_CLASS_DEVICE \<equiv> 0x0A"
abbreviation PCI_CACHE_LINE_SIZE :: nat where "PCI_CACHE_LINE_SIZE \<equiv> 0x0C"
abbreviation PCI_HEADER_TYPE :: nat where "PCI_HEADER_TYPE \<equiv> 0x0E"
abbreviation PCI_BASE_ADDRESS_0 :: nat where "PCI_BASE_ADDRESS_0 \<equiv> 0x10"
abbreviation PCI_PRIMARY_BUS :: nat where "PCI_PRIMARY_BUS \<equiv> 0x18"
abbreviation PCI_IO_BASE :: nat where "PCI_IO_BASE \<equiv> 0x1C"
abbreviation PCI_IO_LIMIT :: nat where "PCI_IO_LIMIT \<equiv> 0x1D"
abbreviation PCI_SEC_STATUS :: nat where "PCI_SEC_STATUS \<equiv> 0x1E"
abbreviation PCI_MEMORY_BASE :: nat where "PCI_MEMORY_BASE \<equiv> 0x20"
abbreviation PCI_MEMORY_LIMIT :: nat where "PCI_MEMORY_LIMIT \<equiv> 0x22"
abbreviation PCI_PREF_MEMORY_BASE :: nat where "PCI_PREF_MEMORY_BASE \<equiv> 0x24"
abbreviation PCI_PREF_MEMORY_LIMIT :: nat where "PCI_PREF_MEMORY_LIMIT \<equiv> 0x26"
abbreviation PCI_PREF_BASE_UPPER32 :: nat where "PCI_PREF_BASE_UPPER32 \<equiv> 0x28"
abbreviation PCI_PREF_LIMIT_UPPER32 :: nat where "PCI_PREF_LIMIT_UPPER32 \<equiv> 0x2C"
abbreviation PCI_SUBSYSTEM_VENDOR_ID :: nat where "PCI_SUBSYSTEM_VENDOR_ID \<equiv> 0x2C"
abbreviation PCI_SUBSYSTEM_ID :: nat where "PCI_SUBSYSTEM_ID \<equiv> 0x2E"
abbreviation PCI_CAPABILITY_LIST :: nat where "PCI_CAPABILITY_LIST \<equiv> 0x34"
abbreviation PCI_INTERRUPT_LINE :: nat where "PCI_INTERRUPT_LINE \<equiv> 0x3C"
abbreviation PCI_INTERRUPT_PIN :: nat where "PCI_INTERRUPT_PIN \<equiv> 0x3D"
abbreviation PCI_BRIDGE_CONTROL :: nat where "PCI_BRIDGE_CONTROL \<equiv> 0x3E"
abbreviation PCI_CONFIG_HEADER_SIZE :: nat where "PCI_CONFIG_HEADER_SIZE \<equiv> 0x40"

abbreviation PCI_HEADER_TYPE_NORMAL :: u8 where "PCI_HEADER_TYPE_NORMAL \<equiv> 0"
abbreviation PCI_HEADER_TYPE_BRIDGE :: u8 where "PCI_HEADER_TYPE_BRIDGE \<equiv> 1"
abbreviation PCI_BAR_TYPE_MEMORY :: u32 where "PCI_BAR_TYPE_MEMORY \<equiv> 0"
abbreviation PCI_BAR_TYPE_IO :: u32 where "PCI_BAR_TYPE_IO \<equiv> 1"
abbreviation PCI_NUM_BARS_DEVICE :: nat where "PCI_NUM_BARS_DEVICE \<equiv> 6"
abbreviation PCI_NUM_BARS_PCI_BRIDGE :: nat where "PCI_NUM_BARS_PCI_BRIDGE \<equiv> 2"

section \<open>State\<close>

record PCIDevice =
  m_addr :: u32
  m_BARSizes :: "u32 list"
  m_configSpace :: bytes
  m_writeMask :: bytes
  m_checkMask :: bytes
  m_write1ToClearMask :: bytes
  m_irqState :: u32

text \<open>The fields of \<open>PCIConfigAddressRegister\<close>.\<close>

definition registerNumber :: "u32 \<Rightarrow> u8" where "registerNumber a = ucast a"
definition functionNumber :: "u32 \<Rightarrow> u8" where "functionNumber a = ucast (drop_bit 8 a) AND 0x07"
definition deviceNumber :: "u32 \<Rightarrow> u8" where "deviceNumber a = ucast (drop_bit 11 a) AND 0x1F"
definition busNumber :: "u32 \<Rightarrow> u8" where "busNumber a = ucast (drop_bit 16 a)"

section \<open>Construction\<close>

text \<open>The constructor, in the three parts its two tests for a bridge divide it into.\<close>

definition pci_header :: "u8 \<Rightarrow> u16 \<Rightarrow> u16 \<Rightarrow> u8 \<Rightarrow> u8 \<Rightarrow> u8 \<Rightarrow> u8 \<Rightarrow> u16 \<Rightarrow> u16 \<Rightarrow> bytes" where
  "pci_header typ vendorID deviceID revisionID classID subclass progIF subsystemVendorID subsystemID =
     (let c = replicate 256 0;
          c = wr8 c PCI_HEADER_TYPE typ;
          c = wr16 c PCI_VENDOR_ID vendorID;
          c = wr16 c PCI_DEVICE_ID deviceID;
          c = wr8 c PCI_REVISION_ID revisionID;
          c = wr16 c PCI_CLASS_DEVICE (ucast classID OR push_bit 8 (ucast subclass));
          c = wr8 c PCI_CLASS_PROG progIF
      in if typ = PCI_HEADER_TYPE_BRIDGE
         then wr16 (wr16 c PCI_SUBSYSTEM_VENDOR_ID subsystemVendorID) PCI_SUBSYSTEM_ID subsystemID
         else c)"

definition pci_masks :: "PCIDevice \<Rightarrow> PCIDevice" where
  "pci_masks d =
     (let k = m_checkMask d;
          k = wr16 k PCI_VENDOR_ID 0xFFFF;
          k = wr16 k PCI_DEVICE_ID 0xFFFF;
          k = wr8 k PCI_STATUS 0x10;
          k = wr8 k PCI_REVISION_ID 0xFF;
          k = wr8 k PCI_CLASS_PROG 0xFF;
          k = wr16 k PCI_CLASS_DEVICE 0xFFFF;
          k = wr8 k PCI_HEADER_TYPE 0xFF;
          k = wr8 k PCI_CAPABILITY_LIST 0xFF;
          w = m_writeMask d;
          w = wr8 w PCI_CACHE_LINE_SIZE 0xFF;
          w = wr8 w PCI_INTERRUPT_LINE 0xFF;
          w = wr16 w PCI_COMMAND (0x1 OR 0x2 OR 0x4 OR 0x400);
          w = set16 w PCI_COMMAND 0x100;
          w = fill w PCI_CONFIG_HEADER_SIZE 0xFF (256 - PCI_CONFIG_HEADER_SIZE);
          w1c = wr16 (m_write1ToClearMask d) PCI_STATUS
            (0x100 OR 0x800 OR 0x1000 OR 0x2000 OR 0x4000 OR 0x8000)
      in d\<lparr>m_checkMask := k, m_writeMask := w, m_write1ToClearMask := w1c\<rparr>)"

definition pci_bridge_masks :: "PCIDevice \<Rightarrow> PCIDevice" where
  "pci_bridge_masks d =
     (let w = m_writeMask d;
          w = fill w PCI_PRIMARY_BUS 0xFF 4;
          w = wr8 w PCI_IO_BASE 0xF0;
          w = wr8 w PCI_IO_LIMIT 0xF0;
          w = wr16 w PCI_MEMORY_BASE 0xFFF0;
          w = wr16 w PCI_MEMORY_LIMIT 0xFFF0;
          w = wr16 w PCI_PREF_MEMORY_BASE 0xFFF0;
          w = wr16 w PCI_PREF_MEMORY_LIMIT 0xFFF0;
          w = fill w PCI_PREF_BASE_UPPER32 0xFF 8;
          c = m_configSpace d;
          c = set8 c PCI_IO_BASE 0x00;
          c = set8 c PCI_IO_LIMIT 0x00;
          c = set16 c PCI_PREF_MEMORY_BASE 0x01;
          c = set16 c PCI_PREF_MEMORY_LIMIT 0x01;
          w = wr16 w PCI_BRIDGE_CONTROL
            (0x01 OR 0x02 OR 0x04 OR 0x08 OR 0x10 OR 0x20 OR 0x40 OR 0x80 OR 0x100 OR 0x200 OR 0x800);
          w1c = wr16 (m_write1ToClearMask d) PCI_BRIDGE_CONTROL 0x400;
          k = m_checkMask d;
          k = set8 k PCI_IO_BASE 0x0F;
          k = set8 k PCI_IO_LIMIT 0x0F;
          k = set16 k PCI_PREF_MEMORY_BASE 0x0F;
          k = set16 k PCI_PREF_MEMORY_LIMIT 0x0F
      in d\<lparr>m_configSpace := c, m_writeMask := w, m_write1ToClearMask := w1c, m_checkMask := k\<rparr>)"

definition new_PCIDevice :: "u8 \<Rightarrow> u16 \<Rightarrow> u16 \<Rightarrow> u8 \<Rightarrow> u8 \<Rightarrow> u8 \<Rightarrow> u8 \<Rightarrow> u16 \<Rightarrow> u16 \<Rightarrow> PCIDevice" where
  "new_PCIDevice typ vendorID deviceID revisionID classID subclass progIF subsystemVendorID subsystemID =
     (let zeros = replicate 256 0;
          d = pci_masks \<lparr>m_addr = 0, m_BARSizes = replicate 6 0,
            m_configSpace = pci_header typ vendorID deviceID revisionID classID subclass progIF
              subsystemVendorID subsystemID,
            m_writeMask = zeros, m_checkMask = zeros, m_write1ToClearMask = zeros, m_irqState = 0\<rparr>
      in if typ = PCI_HEADER_TYPE_BRIDGE then pci_bridge_masks d else d)"

section \<open>Base address registers\<close>

definition num_BARs :: "PCIDevice \<Rightarrow> nat option" where
  "num_BARs d =
     (let headerType = m_configSpace d ! PCI_HEADER_TYPE in
      if headerType = PCI_HEADER_TYPE_NORMAL then Some PCI_NUM_BARS_DEVICE
      else if headerType = PCI_HEADER_TYPE_BRIDGE then Some PCI_NUM_BARS_PCI_BRIDGE
      else None)"

text \<open>
  The loop over the registers, for I/O (\<open>typ\<close> 1, \<open>bits\<close> 2: the address field
  starts at bit 2) and for memory (\<open>typ\<close> 0, \<open>bits\<close> 4).
\<close>

definition find_BAR :: "u32 \<Rightarrow> nat \<Rightarrow> PCIDevice \<Rightarrow> u32 \<Rightarrow> (nat \<times> u32) option" where
  "find_BAR typ bits d addr =
     (case num_BARs d of
        None \<Rightarrow> None
      | Some n \<Rightarrow>
          map_option (\<lambda>i. (i, push_bit bits (drop_bit bits (rd32 (m_configSpace d) (PCI_BASE_ADDRESS_0 + i * 4)))))
            (find (\<lambda>i.
               let bar = rd32 (m_configSpace d) (PCI_BASE_ADDRESS_0 + i * 4);
                   barAddr = push_bit bits (drop_bit bits bar)
               in m_BARSizes d ! i \<noteq> 0 \<and> bar AND 1 = typ
                  \<and> addr \<ge> barAddr \<and> addr < barAddr + m_BARSizes d ! i) [0..<n]))"

definition GetIOBar :: "PCIDevice \<Rightarrow> u32 \<Rightarrow> (nat \<times> u32) option" where
  "GetIOBar d port = find_BAR PCI_BAR_TYPE_IO 2 d port"

definition GetMMIOBar :: "PCIDevice \<Rightarrow> u32 \<Rightarrow> (nat \<times> u32) option" where
  "GetMMIOBar d addr = find_BAR PCI_BAR_TYPE_MEMORY 4 d addr"

definition RegisterBAR :: "nat \<Rightarrow> u32 \<Rightarrow> u32 \<Rightarrow> PCIDevice \<Rightarrow> PCIDevice \<times> bool" where
  "RegisterBAR index sz typ d =
     (case num_BARs d of
        None \<Rightarrow> (d, False)
      | Some n \<Rightarrow>
          if index \<ge> n then (d, False)
          else if m_BARSizes d ! index \<noteq> 0 then (d, False)
          else
            let addr = index * 4 + PCI_BASE_ADDRESS_0 in
            (d\<lparr>m_BARSizes := (m_BARSizes d)[index := sz],
               m_configSpace := wr32 (m_configSpace d) addr typ,
               m_writeMask := wr32 (m_writeMask d) addr (NOT (sz - 1)),
               m_checkMask := wr32 (m_checkMask d) addr 0xFFFFFFFF\<rparr>, True))"

section \<open>Configuration accesses\<close>

fun read_bytes :: "bytes \<Rightarrow> nat \<Rightarrow> nat \<Rightarrow> fault + bytes" where
  "read_bytes buf r 0 = Inr []"
| "read_bytes buf r (Suc n) =
     bindr (aget buf r) (\<lambda>b. bindr (read_bytes buf (Suc r) n) (\<lambda>bs. Inr (b # bs)))"

definition ReadConfig :: "u32 \<Rightarrow> u8 \<Rightarrow> PCIDevice \<Rightarrow> fault + bytes" where
  "ReadConfig reg sz d = read_bytes (m_configSpace d) (unat reg) (unat sz)"

fun write_config :: "nat \<Rightarrow> nat \<Rightarrow> u32 \<Rightarrow> PCIDevice \<Rightarrow> fault + PCIDevice" where
  "write_config 0 r v d = Inr d"
| "write_config (Suc n) r v d =
     bindr (aget (m_writeMask d) r) (\<lambda>wmask.
     bindr (aget (m_write1ToClearMask d) r) (\<lambda>w1cmask.
     if tst wmask w1cmask then Inl AssertFailed
     else bindr (aget (m_configSpace d) r) (\<lambda>b.
       let b = (b AND NOT wmask) OR (ucast v AND wmask);
           b = b AND NOT (ucast v AND w1cmask)
       in write_config n (Suc r) (drop_bit 8 v) (d\<lparr>m_configSpace := (m_configSpace d)[r := b]\<rparr>))))"

definition WriteConfig :: "u32 \<Rightarrow> u32 \<Rightarrow> u8 \<Rightarrow> PCIDevice \<Rightarrow> fault + PCIDevice" where
  "WriteConfig reg v sz d = write_config (unat sz) (unat reg) v d"

section \<open>Interrupt state\<close>

definition GetIRQState :: "PCIDevice \<Rightarrow> nat \<Rightarrow> u8" where
  "GetIRQState d irqNum = ucast (drop_bit irqNum (m_irqState d) AND 1)"

definition SetIRQState :: "nat \<Rightarrow> u32 \<Rightarrow> PCIDevice \<Rightarrow> PCIDevice" where
  "SetIRQState irqNum level d =
     d\<lparr>m_irqState := (m_irqState d AND NOT (push_bit irqNum 1)) OR push_bit irqNum level\<rparr>"

definition UpdateIRQStatus :: "PCIDevice \<Rightarrow> PCIDevice" where
  "UpdateIRQStatus d = d\<lparr>m_configSpace :=
     (if m_irqState d \<noteq> 0
      then wr8 (m_configSpace d) PCI_STATUS (m_configSpace d ! PCI_STATUS OR 0x08)
      else wr8 (m_configSpace d) PCI_STATUS (m_configSpace d ! PCI_STATUS AND NOT 0x08))\<rparr>"

text \<open>The accesses a device without registers behind its BARs inherits.\<close>

definition PCIDevice_read :: "nat \<Rightarrow> u32 \<Rightarrow> u8 \<Rightarrow> 'p \<Rightarrow> u32 \<Rightarrow> 'p \<times> u32" where
  "PCIDevice_read barIndex addr sz d value = (d, 0)"

definition PCIDevice_write :: "nat \<Rightarrow> u32 \<Rightarrow> u32 \<Rightarrow> u8 \<Rightarrow> 'p \<Rightarrow> 'p" where
  "PCIDevice_write barIndex addr value sz d = d"

end
