(* ===== verification/PciDev_Laws.thy ===== *)
theory PciDev_Laws
  imports PciDev
begin

text \<open>
  Configuration space of a PCI device: the masks are well formed from
  construction on, so that \<open>WriteConfig\<close> never fails its assertion, what a
  write leaves in each byte, and the protocol by which software sizes a base
  address register.
\<close>

section \<open>Well-formed devices\<close>

definition wf_pci :: "PCIDevice \<Rightarrow> bool" where
  "wf_pci d \<longleftrightarrow>
     length (m_configSpace d) = 256 \<and> length (m_writeMask d) = 256 \<and> length (m_checkMask d) = 256
     \<and> length (m_write1ToClearMask d) = 256 \<and> length (m_BARSizes d) = 6
     \<and> (\<forall>r<256. m_writeMask d ! r AND m_write1ToClearMask d ! r = 0)
     \<and> (\<forall>r. 0x10 \<le> r \<and> r < 0x28 \<longrightarrow> m_write1ToClearMask d ! r = 0)"

lemma wf_pci_lengths:
  "wf_pci d \<Longrightarrow> length (m_configSpace d) = 256" "wf_pci d \<Longrightarrow> length (m_writeMask d) = 256"
  "wf_pci d \<Longrightarrow> length (m_write1ToClearMask d) = 256" "wf_pci d \<Longrightarrow> length (m_BARSizes d) = 6"
  by (simp_all add: wf_pci_def)

lemma wf_pci_header_masks:
  assumes "length h = 256"
  defines "z \<equiv> replicate 256 0"
  shows "wf_pci (pci_masks \<lparr>m_addr = 0, m_BARSizes = replicate 6 0, m_configSpace = h,
    m_writeMask = z, m_checkMask = z, m_write1ToClearMask = z, m_irqState = 0\<rparr>)"
  unfolding wf_pci_def pci_masks_def Let_def z_def
  by (simp add: assms(1) buf)

lemma pci_masks_w1c:
  "r < 256 \<Longrightarrow> m_write1ToClearMask d = replicate 256 0 \<Longrightarrow>
   m_write1ToClearMask (pci_masks d) ! r = (if r = 7 then 0xF9 else 0)"
  by (simp add: pci_masks_def Let_def buf)

lemma wf_pci_bridge_masks:
  assumes "wf_pci d" and "m_write1ToClearMask d = wr16 (replicate 256 0) PCI_STATUS 0xF900"
  shows "wf_pci (pci_bridge_masks d)"
proof -
  have e: "(63744::u8) = 0" by simp
  have w1c: "m_write1ToClearMask d ! 7 = 0xF9" by (simp add: assms(2) buf)
  have w7: "m_writeMask d ! 7 AND 0xF9 = 0" using assms(1) unfolding wf_pci_def w1c [symmetric] by simp
  show ?thesis
    using assms w7 unfolding wf_pci_def pci_bridge_masks_def Let_def
    by (simp add: buf) (auto simp only: e and_zero_eq)
qed

lemma wf_new_PCIDevice [simp]:
  "wf_pci (new_PCIDevice typ vendorID deviceID revisionID classID subclass progIF sv s)"
proof -
  have "length (pci_header typ vendorID deviceID revisionID classID subclass progIF sv s) = 256"
    by (simp add: pci_header_def Let_def)
  from wf_pci_header_masks [OF this] show ?thesis
    unfolding new_PCIDevice_def Let_def
    by (auto intro!: wf_pci_bridge_masks) (simp add: pci_masks_def Let_def)
qed

lemma wf_RegisterBAR:
  assumes "wf_pci d" and "RegisterBAR i sz typ d = (d', ok)"
  shows "wf_pci d'"
  using assms
  by (auto simp: RegisterBAR_def num_BARs_def Let_def wf_pci_def buf split: if_splits option.splits)

section \<open>What a write leaves\<close>

lemma write_config_effect:
  "wf_pci d \<Longrightarrow> r + n \<le> 256 \<Longrightarrow> n \<le> 4 \<Longrightarrow>
   \<exists>c. write_config n r v d = Inr (d\<lparr>m_configSpace := c\<rparr>) \<and> length c = 256
     \<and> (\<forall>i<256. c ! i =
          (if r \<le> i \<and> i < r + n
           then ((m_configSpace d ! i AND NOT (m_writeMask d ! i))
                 OR (ucast (drop_bit (8 * (i - r)) v) AND m_writeMask d ! i))
                AND NOT (ucast (drop_bit (8 * (i - r)) v) AND m_write1ToClearMask d ! i)
           else m_configSpace d ! i))"
proof (induction n arbitrary: r v d)
  case (Suc n)
  let ?b = "((m_configSpace d ! r AND NOT (m_writeMask d ! r)) OR (ucast v AND m_writeMask d ! r))
    AND NOT (ucast v AND m_write1ToClearMask d ! r)"
  let ?d = "d\<lparr>m_configSpace := (m_configSpace d)[r := ?b]\<rparr>"
  have wf: "wf_pci ?d" using Suc.prems(1) by (simp add: wf_pci_def)
  obtain c where c: "write_config n (Suc r) (drop_bit 8 v) ?d = Inr (?d\<lparr>m_configSpace := c\<rparr>)"
    "length c = 256"
    "\<forall>i<256. c ! i =
          (if Suc r \<le> i \<and> i < Suc r + n
           then ((m_configSpace ?d ! i AND NOT (m_writeMask d ! i))
                 OR (ucast (drop_bit (8 * (i - Suc r)) (drop_bit 8 v)) AND m_writeMask d ! i))
                AND NOT (ucast (drop_bit (8 * (i - Suc r)) (drop_bit 8 v)) AND m_write1ToClearMask d ! i)
           else m_configSpace ?d ! i)"
    using Suc.IH [OF wf, of "Suc r" "drop_bit 8 v"] Suc.prems by auto
  have run: "write_config (Suc n) r v d = write_config n (Suc r) (drop_bit 8 v) ?d"
    using Suc.prems by (simp add: aget_def wf_pci_lengths Let_def) (simp add: wf_pci_def)
  have shift: "drop_bit (8 * (i - Suc r)) (drop_bit 8 v) = drop_bit (8 * (i - r)) v" if "Suc r \<le> i" for i
  proof -
    have "8 * (i - Suc r) + 8 = 8 * (i - r)" using that by arith
    then show ?thesis by (metis drop_bit_drop_bit)
  qed
  show ?case
    unfolding run
  proof (intro exI [of _ c] conjI allI impI)
    show "write_config n (Suc r) (drop_bit 8 v) ?d = Inr (d\<lparr>m_configSpace := c\<rparr>)" using c(1) by simp
    show "length c = 256" by (rule c(2))
  next
    fix i :: nat
    assume "i < 256"
    then show "c ! i = (if r \<le> i \<and> i < r + Suc n
           then ((m_configSpace d ! i AND NOT (m_writeMask d ! i))
                 OR (ucast (drop_bit (8 * (i - r)) v) AND m_writeMask d ! i))
                AND NOT (ucast (drop_bit (8 * (i - r)) v) AND m_write1ToClearMask d ! i)
           else m_configSpace d ! i)"
      using c(3) shift [of i] wf_pci_lengths [OF Suc.prems(1)]
      by (cases "i = r") (auto simp: nth_list_update)
  qed
next
  case 0
  then show ?case by (intro exI [of _ "m_configSpace d"]) (auto simp: wf_pci_lengths)
qed

lemma read_bytes_Inr:
  "r + n \<le> length buf \<Longrightarrow> read_bytes buf r n = Inr (take n (drop r buf))"
proof (induction n arbitrary: r)
  case (Suc n)
  then show ?case
    by (simp add: aget_def) (metis Cons_nth_drop_Suc Suc_le_eq add_leE lessI less_add_Suc1 order_less_le_trans take_Suc_Cons)
qed simp

lemma read_bytes_Inl:
  "length buf < r + n \<Longrightarrow> 0 < n \<Longrightarrow> read_bytes buf r n = Inl OutOfBounds"
proof (induction n arbitrary: r)
  case (Suc n)
  then show ?case by (cases "r < length buf"; cases n) (auto simp: aget_def)
qed simp

section \<open>Properties\<close>

text \<open>C18: a write inside the configuration space returns; in each byte it reaches, the writable bits
  take the written value, the write-1-to-clear bits that are written as 1 are
  cleared and the others are kept; the rest of the device does not change.\<close>

theorem WriteConfig_bytes:
  assumes "wf_pci d" and "unat reg + unat sz \<le> 256" and "sz \<le> 4"
  shows "\<exists>c. WriteConfig reg v sz d = Inr (d\<lparr>m_configSpace := c\<rparr>) \<and> length c = 256
    \<and> (\<forall>i<256. c ! i =
         (if unat reg \<le> i \<and> i < unat reg + unat sz
          then ((m_configSpace d ! i AND NOT (m_writeMask d ! i))
                OR (ucast (drop_bit (8 * (i - unat reg)) v) AND m_writeMask d ! i))
               AND NOT (ucast (drop_bit (8 * (i - unat reg)) v) AND m_write1ToClearMask d ! i)
          else m_configSpace d ! i))"
  using assms unfolding WriteConfig_def
  by (intro write_config_effect) (simp_all add: word_le_nat_alt)

definition sample_bridge :: PCIDevice where
  "sample_bridge = new_PCIDevice 1 0x10DE 0x01B8 0xD2 6 4 0 0 0"

theorem WriteConfig_bytes_witness:
  "\<exists>c. WriteConfig 0x3C 0x0B 1 sample_bridge = Inr (sample_bridge\<lparr>m_configSpace := c\<rparr>)
     \<and> length c = 256"
  using WriteConfig_bytes [of sample_bridge "0x3C" 1 "0x0B"] by (auto simp: sample_bridge_def)

lemma set_under_mask: "((t AND NOT w) OR (0xFF AND w)) AND NOT (0xFF AND 0) = w OR (t::u8)"
  by (simp add: word_bits bit_simps) blast

lemma ucast_drop_or: "(ucast (drop_bit n (x OR y :: u32)) :: u8) = ucast (drop_bit n x) OR ucast (drop_bit n y)"
  by (simp add: word_bits bit_simps)

text \<open>a 32-bit write of all ones to a base address register and a read of it, as software does to
  find the size of the region, return the complement of the size minus one, with the
  type bits the device registered.\<close>

theorem BAR_sizing:
  assumes wf: "wf_pci d" and bars: "num_BARs d = Some n" "i < n" "m_BARSizes d ! i = 0"
    and reg: "reg = 0x10 + of_nat i * 4"
  shows "\<exists>d1 d2. RegisterBAR i sz typ d = (d1, True) \<and> WriteConfig reg 0xFFFFFFFF 4 d1 = Inr d2
    \<and> rd32 (m_configSpace d2) (0x10 + i * 4) = NOT (sz - 1) OR typ
    \<and> (\<exists>bs. ReadConfig reg 4 d2 = Inr bs \<and> le32 (bs ! 0) (bs ! 1) (bs ! 2) (bs ! 3) = NOT (sz - 1) OR typ)"
proof -
  obtain d1 where d1: "RegisterBAR i sz typ d = (d1, True)"
    using bars by (simp add: RegisterBAR_def Let_def)
  have wf1: "wf_pci d1" by (rule wf_RegisterBAR [OF wf d1])
  have i6: "i < 6" using bars by (auto simp: num_BARs_def Let_def split: if_splits)
  then have "unat (of_nat i :: u32) = i" by (simp add: unat_of_nat)
  with i6 have r: "unat reg = 0x10 + i * 4"
    unfolding reg by (subst unat_word_ariths, subst unat_word_ariths) simp
  obtain c where d2: "WriteConfig reg 0xFFFFFFFF 4 d1 = Inr (d1\<lparr>m_configSpace := c\<rparr>)"
    and len: "length c = 256"
    and c: "\<forall>j<256. c ! j = (if 0x10 + i * 4 \<le> j \<and> j < 0x10 + i * 4 + 4
          then ((m_configSpace d1 ! j AND NOT (m_writeMask d1 ! j))
                OR (ucast (drop_bit (8 * (j - (0x10 + i * 4))) (0xFFFFFFFF::u32)) AND m_writeMask d1 ! j))
               AND NOT (ucast (drop_bit (8 * (j - (0x10 + i * 4))) (0xFFFFFFFF::u32)) AND m_write1ToClearMask d1 ! j)
          else m_configSpace d1 ! j)"
    using write_config_effect [OF wf1, of "0x10 + i * 4" 4 "0xFFFFFFFF"] r i6
    by (auto simp: WriteConfig_def)
  have ones: "(ucast (drop_bit (8 * k) (0xFFFFFFFF :: u32)) :: u8) = 0xFF" if "k \<in> {0, 1, 2, 3}" for k :: nat
    using that by auto
  have byte: "c ! (0x10 + i * 4 + k) = ucast (drop_bit (8 * k) (NOT (sz - 1) OR typ))" if "k < 4" for k
  proof -
    have k: "k \<in> {0, 1, 2, 3}" using that by auto
    have "m_configSpace d1 ! (0x10 + i * 4 + k) = ucast (drop_bit (8 * k) typ)"
      "m_writeMask d1 ! (0x10 + i * 4 + k) = ucast (drop_bit (8 * k) (NOT (sz - 1)))"
      using d1 bars i6 k wf_pci_lengths [OF wf]
      by (auto simp: RegisterBAR_def Let_def buf)
    moreover have "m_write1ToClearMask d1 ! (0x10 + i * 4 + k) = 0"
      using wf1 i6 that by (simp add: wf_pci_def)
    ultimately have "c ! (0x10 + i * 4 + k) =
      ((ucast (drop_bit (8 * k) typ) AND NOT (ucast (drop_bit (8 * k) (NOT (sz - 1)))))
        OR (0xFF AND ucast (drop_bit (8 * k) (NOT (sz - 1))))) AND NOT (0xFF AND 0)"
      using c [rule_format, of "0x10 + i * 4 + k"] i6 that ones [OF k] by (simp del: word_bw_comms)
    also have "\<dots> = ucast (drop_bit (8 * k) (NOT (sz - 1))) OR ucast (drop_bit (8 * k) typ)"
      by (rule set_under_mask)
    finally show ?thesis by (simp only: ucast_drop_or)
  qed
  have "rd32 c (0x10 + i * 4) = NOT (sz - 1) OR typ"
    using byte [of 0] byte [of 1] byte [of 2] byte [of 3] by (simp add: rd32_def del: drop_bit_or)
  moreover have "\<exists>bs. ReadConfig reg 4 (d1\<lparr>m_configSpace := c\<rparr>) = Inr bs
     \<and> le32 (bs ! 0) (bs ! 1) (bs ! 2) (bs ! 3) = rd32 c (0x10 + i * 4)"
    using i6 len r by (simp add: ReadConfig_def read_bytes_Inr rd32_def)
  ultimately show ?thesis using d1 d2 by auto
qed

theorem BAR_sizing_witness:
  "\<exists>d1 d2. RegisterBAR 4 16 1 (new_PCIDevice 0 0x10DE 0x01BC 0xD2 1 1 0x8A 0 0) = (d1, True)
    \<and> WriteConfig 0x20 0xFFFFFFFF 4 d1 = Inr d2 \<and> rd32 (m_configSpace d2) 0x20 = 0xFFFFFFF1"
proof -
  let ?d = "new_PCIDevice 0 0x10DE 0x01BC 0xD2 1 1 0x8A 0 0"
  have "num_BARs ?d = Some 6" "m_BARSizes ?d ! 4 = 0" by code_simp+
  then show ?thesis using BAR_sizing [of ?d 6 4 "0x20" 16 1] by auto
qed

text \<open>an access that runs past byte 255 of the configuration space leaves the array, on a
  read and on a write: the data port reaches offset 0xFF with any access size.\<close>

theorem config_overrun:
  assumes "wf_pci d" and "256 < unat reg + unat sz" and "0 < sz" and "sz \<le> 4"
  shows "ReadConfig reg sz d = Inl OutOfBounds \<and> WriteConfig reg v sz d = Inl OutOfBounds"
proof -
  have n: "0 < unat sz" using assms(3) by (simp add: word_less_nat_alt)
  have past: "256 < r + n \<Longrightarrow> 0 < n \<Longrightarrow> wf_pci d \<Longrightarrow> write_config n r v d = Inl OutOfBounds" for n r v d
  proof (induction n arbitrary: r v d)
    case (Suc n)
    show ?case
    proof (cases "r < 256")
      case True
      have "write_config n (Suc r) (drop_bit 8 v) (d\<lparr>m_configSpace := (m_configSpace d)[r := b]\<rparr>)
        = Inl OutOfBounds" for b
        using Suc.prems True by (intro Suc.IH) (auto simp: wf_pci_def)
      then show ?thesis using True Suc.prems(3)
        by (simp add: aget_def wf_pci_lengths Let_def) (simp add: wf_pci_def)
    next
      case False
      then show ?thesis using Suc.prems(3) by (simp add: aget_def wf_pci_lengths)
    qed
  qed simp
  show ?thesis
    using assms n past [of "unat reg" "unat sz" d v]
    by (simp add: ReadConfig_def WriteConfig_def read_bytes_Inl wf_pci_lengths)
qed

theorem config_overrun_witness:
  "ReadConfig 0xFF 4 sample_bridge = Inl OutOfBounds \<and> WriteConfig 0xFF 0 4 sample_bridge = Inl OutOfBounds"
  by (rule config_overrun) (simp_all add: sample_bridge_def)

text \<open>the two bytes of the class code are exchanged: the base class the caller passes goes to
  offset 0x0A, where PCI has the subclass, and the subclass to offset 0x0B.\<close>

theorem class_code_exchanged:
  "m_configSpace (new_PCIDevice 0 vendorID deviceID revisionID classID subclass progIF sv s) ! 0x0A = classID
   \<and> m_configSpace (new_PCIDevice 0 vendorID deviceID revisionID classID subclass progIF sv s) ! 0x0B = subclass
   \<and> m_configSpace (new_PCIDevice 0 vendorID deviceID revisionID classID subclass progIF sv s) ! 0x09 = progIF"
proof -
  have "(ucast (ucast a OR push_bit 8 (ucast b) :: u16) :: u8) = a"
    "(ucast (drop_bit 8 (ucast a OR push_bit 8 (ucast b) :: u16)) :: u8) = b" for a b :: u8
    by (simp_all add: word_bits bit_simps)
  then show ?thesis by (simp add: new_PCIDevice_def pci_masks_def pci_header_def Let_def buf)
qed

end
