(* ===== verification/PciBus.thy ===== *)
theory PciBus
  imports PciDev_Laws
begin

text \<open>
  The PCI bus and its bridges, \<open>hw/bus/pcibus.cpp\<close>, \<open>hw/pci/pcibridge.cpp\<close>,
  \<open>agpbridge.cpp\<close>, \<open>pci_irq.cpp\<close> and \<open>hw/utils.h\<close>. A bus owns its devices and a
  bridge owns its secondary bus, so the pointers form a tree and \<open>m_bus\<close> and
  \<open>m_owner\<close> are the parent in it. What a device other than a bridge does behind
  the virtual functions is a record of functions on its own state \<open>'x\<close>.
\<close>

section \<open>State\<close>

datatype irq_mapper = DefaultIRQMapper | LPCIRQMapper

datatype bridge_kind = PCIBridgeDevice | AGPBridgeDevice

datatype 'x pci_dev =
    Leaf PCIDevice 'x
  | Bridge bridge_kind PCIDevice "'x pci_bus"
and 'x pci_bus = PCIBus
  (m_Devices: "(u32 \<times> 'x pci_dev) list")
  (m_configAddressRegister: u32)
  (m_irqCount: "u32 list option")
  (m_irqMapper: irq_mapper)

type_synonym 'x leaf = "PCIDevice \<times> 'x"

record 'x leaf_ops =
  leaf_Init :: "'x leaf \<Rightarrow> fault + 'x leaf"
  leaf_Reset :: "'x leaf \<Rightarrow> fault + 'x leaf"
  leaf_WriteConfig :: "u32 \<Rightarrow> u32 \<Rightarrow> u8 \<Rightarrow> 'x leaf \<Rightarrow> fault + 'x leaf"
  leaf_IORead :: "nat \<Rightarrow> u32 \<Rightarrow> u8 \<Rightarrow> 'x leaf \<Rightarrow> u32 \<Rightarrow> fault + 'x leaf \<times> u32"
  leaf_IOWrite :: "nat \<Rightarrow> u32 \<Rightarrow> u32 \<Rightarrow> u8 \<Rightarrow> 'x leaf \<Rightarrow> fault + 'x leaf"
  leaf_MMIORead :: "nat \<Rightarrow> u32 \<Rightarrow> u8 \<Rightarrow> 'x leaf \<Rightarrow> u32 \<Rightarrow> fault + 'x leaf \<times> u32"
  leaf_MMIOWrite :: "nat \<Rightarrow> u32 \<Rightarrow> u32 \<Rightarrow> u8 \<Rightarrow> 'x leaf \<Rightarrow> fault + 'x leaf"

definition new_PCIBus :: "'x pci_bus" where
  "new_PCIBus = PCIBus [] 0 None DefaultIRQMapper"

definition ConfigureIRQs :: "irq_mapper \<Rightarrow> u8 \<Rightarrow> 'x pci_bus \<Rightarrow> 'x pci_bus" where
  "ConfigureIRQs irqMapper numIRQs b =
     PCIBus (m_Devices b) (m_configAddressRegister b) (Some (replicate (unat numIRQs) 0)) irqMapper"

section \<open>Bridges\<close>

abbreviation PCI_PREF_RANGE_TYPE_32 :: u16 where "PCI_PREF_RANGE_TYPE_32 \<equiv> 0x00"

definition new_bridge :: "bridge_kind \<Rightarrow> u16 \<Rightarrow> u16 \<Rightarrow> u8 \<Rightarrow> 'x pci_dev" where
  "new_bridge kind vendorID deviceID revisionID =
     Bridge kind (new_PCIDevice PCI_HEADER_TYPE_BRIDGE vendorID deviceID revisionID 0x06 0x04 0x00 0 0) new_PCIBus"

definition AGPBridge_Init :: "PCIDevice \<Rightarrow> PCIDevice" where
  "AGPBridge_Init d = d\<lparr>m_configSpace :=
     wr16 (wr16 (m_configSpace d) PCI_PREF_MEMORY_BASE PCI_PREF_RANGE_TYPE_32)
       PCI_PREF_MEMORY_LIMIT PCI_PREF_RANGE_TYPE_32\<rparr>"

definition PCIBridge_Init :: "PCIDevice \<Rightarrow> PCIDevice" where
  "PCIBridge_Init d = d\<lparr>m_configSpace :=
     wr16 (set16 (m_configSpace d) PCI_STATUS (0x20 OR 0x80)) PCI_SEC_STATUS (0x20 OR 0x80)\<rparr>"

definition bridge_Init :: "bridge_kind \<Rightarrow> PCIDevice \<Rightarrow> PCIDevice" where
  "bridge_Init kind d = PCIBridge_Init (if kind = AGPBridgeDevice then AGPBridge_Init d else d)"

text \<open>The registers that \<open>PCIBridgeDevice::Reset\<close> writes before it resets the secondary bus.\<close>

definition bridge_registers :: "bytes \<Rightarrow> bytes" where
  "bridge_registers c =
     (let c = wr8 c PCI_PRIMARY_BUS 0;
          c = wr8 c 0x19 0;
          c = wr8 c 0x1A 0;
          c = wr8 c 0x1B 0;
          c = set8 c PCI_IO_BASE 0xF0;
          c = set8 c PCI_IO_LIMIT 0xF0;
          c = set16 c PCI_MEMORY_BASE 0xFFF0;
          c = set16 c PCI_MEMORY_LIMIT 0xFFF0;
          c = set16 c PCI_PREF_MEMORY_BASE 0xFFF0;
          c = set16 c PCI_PREF_MEMORY_LIMIT 0xFFF0;
          c = wr32 c PCI_PREF_BASE_UPPER32 0;
          c = wr32 c PCI_PREF_LIMIT_UPPER32 0
      in wr16 c PCI_BRIDGE_CONTROL 0)"

fun dev_Reset :: "'x leaf_ops \<Rightarrow> 'x pci_dev \<Rightarrow> fault + 'x pci_dev"
  and bus_Reset :: "'x leaf_ops \<Rightarrow> 'x pci_bus \<Rightarrow> fault + 'x pci_bus"
  and devs_Reset :: "'x leaf_ops \<Rightarrow> (u32 \<times> 'x pci_dev) list \<Rightarrow> fault + (u32 \<times> 'x pci_dev) list"
where
  "dev_Reset ops (Leaf d x) = bindr (leaf_Reset ops (d, x)) (\<lambda>(d, x). Inr (Leaf d x))"
| "dev_Reset ops (Bridge kind d b) =
     bindr (bus_Reset ops b) (\<lambda>b.
       Inr (Bridge kind (d\<lparr>m_configSpace := bridge_registers (m_configSpace d)\<rparr>) b))"
| "bus_Reset ops (PCIBus ds a c m) = bindr (devs_Reset ops ds) (\<lambda>ds. Inr (PCIBus ds a c m))"
| "devs_Reset ops [] = Inr []"
| "devs_Reset ops ((k, p) # ds) =
     bindr (dev_Reset ops p) (\<lambda>p. bindr (devs_Reset ops ds) (\<lambda>ds. Inr ((k, p) # ds)))"

section \<open>The virtual functions\<close>

fun dev_config :: "'x pci_dev \<Rightarrow> PCIDevice" where
  "dev_config (Leaf d x) = d"
| "dev_config (Bridge kind d b) = d"

fun set_addr :: "u32 \<Rightarrow> 'x pci_dev \<Rightarrow> 'x pci_dev" where
  "set_addr a (Leaf d x) = Leaf (d\<lparr>m_addr := a\<rparr>) x"
| "set_addr a (Bridge kind d b) = Bridge kind (d\<lparr>m_addr := a\<rparr>) b"

fun dev_Init :: "'x leaf_ops \<Rightarrow> 'x pci_dev \<Rightarrow> fault + 'x pci_dev" where
  "dev_Init ops (Leaf d x) = bindr (leaf_Init ops (d, x)) (\<lambda>(d, x). Inr (Leaf d x))"
| "dev_Init ops (Bridge kind d b) =
     Inr (Bridge kind (bridge_Init kind d)
       (PCIBus (m_Devices b) (m_configAddressRegister b) (m_irqCount b) DefaultIRQMapper))"

text \<open>
  \<open>RangesOverlap\<close> only guards a comment in the bridge's \<open>WriteConfig\<close>; the
  function itself is below.
\<close>

fun dev_WriteConfig :: "'x leaf_ops \<Rightarrow> u32 \<Rightarrow> u32 \<Rightarrow> u8 \<Rightarrow> 'x pci_dev \<Rightarrow> fault + 'x pci_dev" where
  "dev_WriteConfig ops reg v sz (Leaf d x) =
     bindr (leaf_WriteConfig ops reg v sz (d, x)) (\<lambda>(d, x). Inr (Leaf d x))"
| "dev_WriteConfig ops reg v sz (Bridge kind d b) =
     (let oldControl = rd16 (m_configSpace d) PCI_BRIDGE_CONTROL in
      bindr (WriteConfig reg v sz d) (\<lambda>d.
        let newControl = rd16 (m_configSpace d) PCI_BRIDGE_CONTROL in
        if tst (NOT oldControl AND newControl) 0x40
        then bindr (bus_Reset ops b) (\<lambda>b. Inr (Bridge kind d b))
        else Inr (Bridge kind d b)))"

definition RangeGetLast :: "u64 \<Rightarrow> u64 \<Rightarrow> u64" where
  "RangeGetLast off len = off + len - 1"

definition RangeCoversByte :: "u64 \<Rightarrow> u64 \<Rightarrow> u64 \<Rightarrow> bool" where
  "RangeCoversByte off len byte \<longleftrightarrow> off \<le> byte \<and> byte \<le> RangeGetLast off len"

definition RangesOverlap :: "u64 \<Rightarrow> u64 \<Rightarrow> u64 \<Rightarrow> u64 \<Rightarrow> bool" where
  "RangesOverlap first1 len1 first2 len2 \<longleftrightarrow>
     (let last1 = RangeGetLast first1 len1; last2 = RangeGetLast first2 len2
      in \<not> (last2 < first1 \<or> last1 < first2))"

fun dev_IORead :: "'x leaf_ops \<Rightarrow> u8 \<Rightarrow> nat \<times> u32 \<Rightarrow> 'x pci_dev \<Rightarrow> u32 \<Rightarrow> fault + 'x pci_dev \<times> u32" where
  "dev_IORead ops sz (bar, a) (Leaf d x) value =
     bindr (leaf_IORead ops bar a sz (d, x) value) (\<lambda>((d, x), v). Inr (Leaf d x, v))"
| "dev_IORead ops sz (bar, a) (Bridge kind d b) value = Inr (PCIDevice_read bar a sz (Bridge kind d b) value)"

fun dev_IOWrite :: "'x leaf_ops \<Rightarrow> u32 \<Rightarrow> u8 \<Rightarrow> nat \<times> u32 \<Rightarrow> 'x pci_dev \<Rightarrow> fault + 'x pci_dev" where
  "dev_IOWrite ops v sz (bar, a) (Leaf d x) =
     bindr (leaf_IOWrite ops bar a v sz (d, x)) (\<lambda>(d, x). Inr (Leaf d x))"
| "dev_IOWrite ops v sz (bar, a) (Bridge kind d b) = Inr (PCIDevice_write bar a v sz (Bridge kind d b))"

fun dev_MMIORead :: "'x leaf_ops \<Rightarrow> u8 \<Rightarrow> nat \<times> u32 \<Rightarrow> 'x pci_dev \<Rightarrow> u32 \<Rightarrow> fault + 'x pci_dev \<times> u32" where
  "dev_MMIORead ops sz (bar, a) (Leaf d x) value =
     bindr (leaf_MMIORead ops bar a sz (d, x) value) (\<lambda>((d, x), v). Inr (Leaf d x, v))"
| "dev_MMIORead ops sz (bar, a) (Bridge kind d b) value = Inr (PCIDevice_read bar a sz (Bridge kind d b) value)"

fun dev_MMIOWrite :: "'x leaf_ops \<Rightarrow> u32 \<Rightarrow> u8 \<Rightarrow> nat \<times> u32 \<Rightarrow> 'x pci_dev \<Rightarrow> fault + 'x pci_dev" where
  "dev_MMIOWrite ops v sz (bar, a) (Leaf d x) =
     bindr (leaf_MMIOWrite ops bar a v sz (d, x)) (\<lambda>(d, x). Inr (Leaf d x))"
| "dev_MMIOWrite ops v sz (bar, a) (Bridge kind d b) = Inr (PCIDevice_write bar a v sz (Bridge kind d b))"

section \<open>The bus\<close>

definition PCI_DEVFN :: "u32 \<Rightarrow> u32 \<Rightarrow> u32" where
  "PCI_DEVFN slot func = push_bit 3 (slot AND 0x1F) OR (func AND 0x07)"

definition PCI_DEVID :: "u32 \<Rightarrow> u32 \<Rightarrow> u32" where
  "PCI_DEVID bus devfn = push_bit 8 (bus AND 0xFFFF) OR devfn"

fun insert_dev :: "u32 \<Rightarrow> 'x pci_dev \<Rightarrow> (u32 \<times> 'x pci_dev) list \<Rightarrow> (u32 \<times> 'x pci_dev) list" where
  "insert_dev k p [] = [(k, p)]"
| "insert_dev k p ((k', p') # ds) =
     (if k < k' then (k, p) # (k', p') # ds else (k', p') # insert_dev k p ds)"

definition ConnectDevice :: "'x leaf_ops \<Rightarrow> u32 \<Rightarrow> 'x pci_dev \<Rightarrow> 'x pci_bus \<Rightarrow> fault + 'x pci_bus" where
  "ConnectDevice ops deviceId p b =
     (if map_of (m_Devices b) deviceId \<noteq> None then Inr b
      else bindr (dev_Init ops p) (\<lambda>p.
        Inr (PCIBus (insert_dev deviceId (set_addr deviceId p) (m_Devices b))
          (m_configAddressRegister b) (m_irqCount b) (m_irqMapper b))))"

definition put_devs :: "(u32 \<times> 'x pci_dev) list \<Rightarrow> 'x pci_bus \<Rightarrow> 'x pci_bus" where
  "put_devs ds b = PCIBus ds (m_configAddressRegister b) (m_irqCount b) (m_irqMapper b)"

definition IOWriteConfigAddress :: "u32 \<Rightarrow> 'x pci_bus \<Rightarrow> 'x pci_bus" where
  "IOWriteConfigAddress pData b = PCIBus (m_Devices b) pData (m_irqCount b) (m_irqMapper b)"

text \<open>The device and the register that the configuration address selects.\<close>

definition config_device :: "'x pci_bus \<Rightarrow> u32" where
  "config_device b =
     (let a = m_configAddressRegister b in
      PCI_DEVID (ucast (busNumber a)) (PCI_DEVFN (ucast (deviceNumber a)) (ucast (functionNumber a))))"

definition config_register :: "'x pci_bus \<Rightarrow> u8 \<Rightarrow> u32" where
  "config_register b regOffset =
     (ucast (registerNumber (m_configAddressRegister b)) AND 0xFC) + ucast regOffset"

text \<open>\<open>memcpy\<close> into a 32-bit \<open>value\<close> that is 0.\<close>

definition bytes_to_u32 :: "bytes \<Rightarrow> fault + u32" where
  "bytes_to_u32 bs =
     (if length bs \<le> 4 then Inr (rd32 (bs @ replicate 4 0) 0) else Inl OutOfBounds)"

definition IOReadConfigData :: "u8 \<Rightarrow> u8 \<Rightarrow> 'x pci_bus \<Rightarrow> fault + u32" where
  "IOReadConfigData sz regOffset b =
     (case map_of (m_Devices b) (config_device b) of
        Some p \<Rightarrow> bindr (ReadConfig (config_register b regOffset) sz (dev_config p)) bytes_to_u32
      | None \<Rightarrow> Inr 0xFFFFFFFF)"

fun update_dev ::
  "u32 \<Rightarrow> ('x pci_dev \<Rightarrow> fault + 'x pci_dev) \<Rightarrow> (u32 \<times> 'x pci_dev) list \<Rightarrow> fault + (u32 \<times> 'x pci_dev) list" where
  "update_dev k f [] = Inr []"
| "update_dev k f ((k', p) # ds) =
     (if k = k' then bindr (f p) (\<lambda>p. Inr ((k', p) # ds))
      else bindr (update_dev k f ds) (\<lambda>ds. Inr ((k', p) # ds)))"

definition IOWriteConfigData :: "'x leaf_ops \<Rightarrow> u32 \<Rightarrow> u8 \<Rightarrow> u8 \<Rightarrow> 'x pci_bus \<Rightarrow> fault + 'x pci_bus" where
  "IOWriteConfigData ops pData sz regOffset b =
     bindr (update_dev (config_device b)
              (dev_WriteConfig ops (config_register b regOffset) pData sz) (m_Devices b))
       (\<lambda>ds. Inr (put_devs ds b))"

text \<open>The loop over the devices: the first one with a BAR at the address takes the access.\<close>

fun first_BAR ::
  "(PCIDevice \<Rightarrow> (nat \<times> u32) option) \<Rightarrow> (nat \<times> u32 \<Rightarrow> 'x pci_dev \<Rightarrow> fault + 'x pci_dev \<times> 'r)
     \<Rightarrow> 'r \<Rightarrow> (u32 \<times> 'x pci_dev) list \<Rightarrow> fault + (u32 \<times> 'x pci_dev) list \<times> 'r \<times> bool" where
  "first_BAR bar access r [] = Inr ([], r, False)"
| "first_BAR bar access r ((k, p) # ds) =
     (case bar (dev_config p) of
        Some ib \<Rightarrow> bindr (access ib p) (\<lambda>(p, r). Inr ((k, p) # ds, r, True))
      | None \<Rightarrow> bindr (first_BAR bar access r ds) (\<lambda>(ds, r, h). Inr ((k, p) # ds, r, h)))"

abbreviation PORT_PCI_CONFIG_ADDRESS :: u32 where "PORT_PCI_CONFIG_ADDRESS \<equiv> 0xCF8"
abbreviation PORT_PCI_CONFIG_DATA :: u32 where "PORT_PCI_CONFIG_DATA \<equiv> 0xCFC"

definition is_config_data :: "u32 \<Rightarrow> bool" where
  "is_config_data port \<longleftrightarrow>
     port = PORT_PCI_CONFIG_DATA \<or> port = PORT_PCI_CONFIG_DATA + 1
     \<or> port = PORT_PCI_CONFIG_DATA + 2 \<or> port = PORT_PCI_CONFIG_DATA + 3"

definition PCIBus_IORead :: "'x leaf_ops \<Rightarrow> u32 \<Rightarrow> u8 \<Rightarrow> 'x pci_bus \<Rightarrow> u32 \<Rightarrow> fault + 'x pci_bus \<times> u32 \<times> bool" where
  "PCIBus_IORead ops port sz b value =
     (if is_config_data port
      then bindr (IOReadConfigData sz (ucast (port - PORT_PCI_CONFIG_DATA)) b) (\<lambda>v. Inr (b, v, True))
      else bindr (first_BAR (\<lambda>d. GetIOBar d port)
             (\<lambda>(i, base) p. dev_IORead ops sz (i, port - base) p value) value (m_Devices b))
             (\<lambda>(ds, v, h). Inr (put_devs ds b, v, h)))"

definition PCIBus_IOWrite :: "'x leaf_ops \<Rightarrow> u32 \<Rightarrow> u32 \<Rightarrow> u8 \<Rightarrow> 'x pci_bus \<Rightarrow> fault + 'x pci_bus \<times> bool" where
  "PCIBus_IOWrite ops port value sz b =
     (if port = PORT_PCI_CONFIG_ADDRESS then Inr (IOWriteConfigAddress value b, True)
      else if is_config_data port
      then bindr (IOWriteConfigData ops value sz (ucast (port - PORT_PCI_CONFIG_DATA)) b) (\<lambda>b. Inr (b, True))
      else bindr (first_BAR (\<lambda>d. GetIOBar d port)
             (\<lambda>(i, base) p. bindr (dev_IOWrite ops value sz (i, port - base) p) (\<lambda>p. Inr (p, ()))) ()
             (m_Devices b))
             (\<lambda>(ds, _, h). Inr (put_devs ds b, h)))"

definition PCIBus_MMIORead :: "'x leaf_ops \<Rightarrow> u32 \<Rightarrow> u8 \<Rightarrow> 'x pci_bus \<Rightarrow> u32 \<Rightarrow> fault + 'x pci_bus \<times> u32 \<times> bool" where
  "PCIBus_MMIORead ops addr sz b value =
     bindr (first_BAR (\<lambda>d. GetMMIOBar d addr)
       (\<lambda>(i, base) p. dev_MMIORead ops sz (i, addr - base) p value) value (m_Devices b))
       (\<lambda>(ds, v, h). Inr (put_devs ds b, v, h))"

definition PCIBus_MMIOWrite :: "'x leaf_ops \<Rightarrow> u32 \<Rightarrow> u32 \<Rightarrow> u8 \<Rightarrow> 'x pci_bus \<Rightarrow> fault + 'x pci_bus \<times> bool" where
  "PCIBus_MMIOWrite ops addr value sz b =
     bindr (first_BAR (\<lambda>d. GetMMIOBar d addr)
       (\<lambda>(i, base) p. bindr (dev_MMIOWrite ops value sz (i, addr - base) p) (\<lambda>p. Inr (p, ()))) ()
       (m_Devices b))
       (\<lambda>(ds, _, h). Inr (put_devs ds b, h))"

section \<open>Interrupts\<close>

definition DefaultIRQMapper_MapIRQ :: "PCIDevice \<Rightarrow> u8 \<Rightarrow> u8" where
  "DefaultIRQMapper_MapIRQ d irqNum =
     ucast ((ucast irqNum + ucast (deviceNumber (m_addr d)) :: u32) mod 4)"

definition LPCIRQMapper_MapIRQ :: "PCIDevice \<Rightarrow> u8 \<Rightarrow> fault + u8" where
  "LPCIRQMapper_MapIRQ d irqNum =
     (let slot = deviceNumber (m_addr d) in
      if slot = 2 then Inr 0 else if slot = 3 then Inr 1
      else if slot = 4 then Inr 2 else if slot = 5 then Inr 3
      else if slot = 6 then Inr 4 else if slot = 9 then Inr 6
      else if slot = 30 then Inr (8 + 2)
      else Inl AssertFailed)"

definition MapIRQ :: "irq_mapper \<Rightarrow> PCIDevice \<Rightarrow> u8 \<Rightarrow> fault + u8" where
  "MapIRQ m d irqNum =
     (case m of DefaultIRQMapper \<Rightarrow> Inr (DefaultIRQMapper_MapIRQ d irqNum)
      | LPCIRQMapper \<Rightarrow> LPCIRQMapper_MapIRQ d irqNum)"

definition CanSetIRQ :: "irq_mapper \<Rightarrow> bool" where
  "CanSetIRQ m \<longleftrightarrow> m = LPCIRQMapper"

text \<open>
  \<open>ChangeIRQLevel\<close> climbs from the device to the first bus that can set an
  interrupt. The device is named by the keys on the way down to it. \<open>Passed n\<close>
  is the pin handed to the bus above; \<open>Reached n level\<close> is the call
  \<open>bus->SetIRQ(n, level)\<close>.
\<close>

datatype climb = Passed u8 | Reached u8 bool

definition count_irq :: "u8 \<Rightarrow> u32 \<Rightarrow> 'x pci_bus \<Rightarrow> fault + 'x pci_bus \<times> climb" where
  "count_irq n change b =
     (case m_irqCount b of
        None \<Rightarrow> Inl NullPointer
      | Some cs \<Rightarrow>
          bindr (aget cs (unat n)) (\<lambda>c.
            Inr (PCIBus (m_Devices b) (m_configAddressRegister b)
                   (Some (cs[unat n := c + change])) (m_irqMapper b),
                 Reached n (c + change \<noteq> 0))))"

definition arrive :: "PCIDevice \<Rightarrow> u8 \<Rightarrow> u32 \<Rightarrow> 'x pci_bus \<Rightarrow> fault + 'x pci_bus \<times> climb" where
  "arrive d irqNum change b =
     bindr (MapIRQ (m_irqMapper b) d irqNum) (\<lambda>n.
       if CanSetIRQ (m_irqMapper b) then count_irq n change b else Inr (b, Passed n))"

fun climb_from :: "u32 list \<Rightarrow> u8 \<Rightarrow> u32 \<Rightarrow> 'x pci_bus \<Rightarrow> fault + 'x pci_bus \<times> climb" where
  "climb_from [] irqNum change b = Inl NullPointer"
| "climb_from (k # ks) irqNum change b =
     (case map_of (m_Devices b) k of
        None \<Rightarrow> Inl NullPointer
      | Some p \<Rightarrow>
          if ks = [] then arrive (dev_config p) irqNum change b
          else
            (case p of
               Leaf d x \<Rightarrow> Inl NullPointer
             | Bridge kind d sub \<Rightarrow>
                 bindr (climb_from ks irqNum change sub) (\<lambda>(sub, c).
                   bindr (update_dev k (\<lambda>_. Inr (Bridge kind d sub)) (m_Devices b)) (\<lambda>ds.
                     case c of
                       Passed n \<Rightarrow> arrive d n change (put_devs ds b)
                     | Reached n level \<Rightarrow> Inr (put_devs ds b, Reached n level)))))"

definition ChangeIRQLevel :: "u32 list \<Rightarrow> u8 \<Rightarrow> u32 \<Rightarrow> 'x pci_bus \<Rightarrow> fault + 'x pci_bus \<times> u8 \<times> bool" where
  "ChangeIRQLevel path irqNum change b =
     bindr (climb_from path irqNum change b) (\<lambda>(b, c).
       case c of Passed n \<Rightarrow> Inl NullPointer | Reached n level \<Rightarrow> Inr (b, n, level))"

end
