(* ===== verification/PciBus_Laws.thy ===== *)
theory PciBus_Laws
  imports PciBus
begin

text \<open>
  The PCI bus: the contract its devices meet and what the bus then keeps, the
  configuration mechanism, the routing of accesses to base address registers,
  and the sharing of interrupt pins.
\<close>

section \<open>Well-formed buses\<close>

fun wf_dev :: "('x leaf \<Rightarrow> bool) \<Rightarrow> 'x pci_dev \<Rightarrow> bool"
  and wf_bus :: "('x leaf \<Rightarrow> bool) \<Rightarrow> 'x pci_bus \<Rightarrow> bool"
  and wf_devs :: "('x leaf \<Rightarrow> bool) \<Rightarrow> (u32 \<times> 'x pci_dev) list \<Rightarrow> bool"
where
  "wf_dev good (Leaf d x) = (wf_pci d \<and> good (d, x))"
| "wf_dev good (Bridge kind d b) = (wf_pci d \<and> wf_bus good b)"
| "wf_bus good (PCIBus ds a c m) = (sorted_wrt (<) (map fst ds) \<and> wf_devs good ds)"
| "wf_devs good [] = True"
| "wf_devs good ((k, p) # ds) = (wf_dev good p \<and> wf_devs good ds)"

lemma wf_devs_iff: "wf_devs good ds \<longleftrightarrow> (\<forall>(k, p)\<in>set ds. wf_dev good p)"
  by (induction ds) auto

lemma wf_devs_map_of: "wf_devs good ds \<Longrightarrow> map_of ds k = Some p \<Longrightarrow> wf_dev good p"
  by (auto simp: wf_devs_iff dest!: map_of_SomeD)

lemma wf_bus_iff:
  "wf_bus good b \<longleftrightarrow> sorted_wrt (<) (map fst (m_Devices b)) \<and> wf_devs good (m_Devices b)"
  by (cases b) simp

lemma wf_bus_put_devs:
  "wf_bus good b \<Longrightarrow> map fst ds = map fst (m_Devices b) \<Longrightarrow> wf_devs good ds \<Longrightarrow> wf_bus good (put_devs ds b)"
  by (simp add: wf_bus_iff put_devs_def)

lemma wf_dev_config: "wf_dev good p \<Longrightarrow> wf_pci (dev_config p)"
  by (cases p) auto

lemma length_bridge_registers [simp]: "length (bridge_registers c) = length c"
  by (simp add: bridge_registers_def Let_def)

lemma wf_pci_config [simp]:
  "length c = length (m_configSpace d) \<Longrightarrow> wf_pci (d\<lparr>m_configSpace := c\<rparr>) = wf_pci d"
  by (simp add: wf_pci_def)

lemma wf_pci_addr [simp]: "wf_pci (d\<lparr>m_addr := a\<rparr>) = wf_pci d"
  by (simp add: wf_pci_def)

lemma wf_bridge_Init [simp]: "wf_pci d \<Longrightarrow> wf_pci (bridge_Init kind d)"
  by (simp add: bridge_Init_def PCIBridge_Init_def AGPBridge_Init_def)

lemma wf_WriteConfig:
  "wf_pci d \<Longrightarrow> unat reg + unat sz \<le> 256 \<Longrightarrow> sz \<le> 4 \<Longrightarrow> returns wf_pci (WriteConfig reg v sz d)"
  using write_config_effect [of d "unat reg" "unat sz" v]
  by (auto simp: WriteConfig_def word_le_nat_alt wf_pci_lengths)

lemma map_fst_insert_dev:
  "sorted_wrt (<) (map fst ds) \<Longrightarrow> map_of ds k = None \<Longrightarrow>
   sorted_wrt (<) (map fst (insert_dev k p ds)) \<and> set (insert_dev k p ds) = insert (k, p) (set ds)"
  by (induction k p ds rule: insert_dev.induct) (auto simp: not_less split: if_splits)

lemma wf_devs_insert: "wf_devs good (insert_dev k p ds) = (wf_dev good p \<and> wf_devs good ds)"
  by (induction k p ds rule: insert_dev.induct) auto

lemma unat_add_le: "unat (a + b) \<le> unat a + unat (b :: 'a::len word)"
  by (simp add: unat_word_ariths)

lemma config_register_le: "unat (config_register b off) \<le> 252 + unat off"
proof -
  have "(ucast (registerNumber (m_configAddressRegister b)) AND 0xFC :: u32) \<le> 0xFC"
    by (rule word_and_le1)
  then have "unat (ucast (registerNumber (m_configAddressRegister b)) AND 0xFC :: u32) \<le> 252"
    by (simp add: word_le_nat_alt)
  moreover have "unat (ucast off :: u32) = unat off" by transfer simp
  ultimately show ?thesis
    using unat_add_le [of "ucast (registerNumber (m_configAddressRegister b)) AND 0xFC :: u32" "ucast off"]
    unfolding config_register_def by linarith
qed

section \<open>The contract of a device\<close>

text \<open>
  \<open>good\<close> is the invariant of the device's own state; \<open>safe\<close> says which port
  writes the device answers without a fault.
\<close>

locale pci_leaf =
  fixes ops :: "'x leaf_ops" and good :: "'x leaf \<Rightarrow> bool"
    and safe :: "nat \<Rightarrow> u32 \<Rightarrow> u32 \<Rightarrow> 'x leaf \<Rightarrow> bool"
  assumes init: "wf_pci d \<Longrightarrow> good (d, x) \<Longrightarrow> returns (\<lambda>(d, x). wf_pci d \<and> good (d, x)) (leaf_Init ops (d, x))"
    and reset: "wf_pci d \<Longrightarrow> good (d, x) \<Longrightarrow> returns (\<lambda>(d, x). wf_pci d \<and> good (d, x)) (leaf_Reset ops (d, x))"
    and config: "wf_pci d \<Longrightarrow> good (d, x) \<Longrightarrow> unat reg + unat sz \<le> 256 \<Longrightarrow> sz \<le> 4 \<Longrightarrow>
      returns (\<lambda>(d, x). wf_pci d \<and> good (d, x)) (leaf_WriteConfig ops reg v sz (d, x))"
    and ioread: "wf_pci d \<Longrightarrow> good (d, x) \<Longrightarrow>
      returns (\<lambda>((d, x), v). wf_pci d \<and> good (d, x)) (leaf_IORead ops i a sz (d, x) v)"
    and iowrite: "wf_pci d \<Longrightarrow> good (d, x) \<Longrightarrow> safe i a v (d, x) \<Longrightarrow>
      returns (\<lambda>(d, x). wf_pci d \<and> good (d, x)) (leaf_IOWrite ops i a v sz (d, x))"
    and mmioread: "wf_pci d \<Longrightarrow> good (d, x) \<Longrightarrow>
      returns (\<lambda>((d, x), v). wf_pci d \<and> good (d, x)) (leaf_MMIORead ops i a sz (d, x) v)"
    and mmiowrite: "wf_pci d \<Longrightarrow> good (d, x) \<Longrightarrow>
      returns (\<lambda>(d, x). wf_pci d \<and> good (d, x)) (leaf_MMIOWrite ops i a v sz (d, x))"
    and addr: "good (d, x) \<Longrightarrow> good (d\<lparr>m_addr := a\<rparr>, x)"
begin

lemma Reset_step:
  "ops' = ops \<Longrightarrow> wf_dev good p \<Longrightarrow> returns (wf_dev good) (dev_Reset ops' p)"
  "ops' = ops \<Longrightarrow> wf_bus good b \<Longrightarrow> returns (wf_bus good) (bus_Reset ops' b)"
  "ops' = ops \<Longrightarrow> wf_devs good ds \<Longrightarrow>
     returns (\<lambda>ds'. map fst ds' = map fst ds \<and> wf_devs good ds') (devs_Reset ops' ds)"
proof (induction ops' p and ops' b and ops' ds rule: dev_Reset_bus_Reset_devs_Reset.induct)
  case (1 ops' d x)
  then show ?case using reset [of d x] by (auto elim!: returns_mono)
next
  case (2 ops' kind d b)
  then show ?case by (auto elim!: returns_mono)
next
  case (3 ops' ds a c m)
  then show ?case by (auto elim!: returns_mono)
next
  case (5 ops' k p ds)
  have "returns (wf_dev good) (dev_Reset ops' p)" using 5 by simp
  moreover have "returns (\<lambda>ds'. map fst ds' = map fst ds \<and> wf_devs good ds') (devs_Reset ops' ds)"
    using 5 by (cases "dev_Reset ops' p") auto
  ultimately show ?case by (auto elim!: returns_mono)
qed simp

lemmas Reset_wf = Reset_step [OF refl]

lemma Init_wf: "wf_dev good p \<Longrightarrow> returns (wf_dev good) (dev_Init ops p)"
proof (cases p)
  case (Leaf d x)
  then show "wf_dev good p \<Longrightarrow> returns (wf_dev good) (dev_Init ops p)"
    using init [of d x] by (auto elim!: returns_mono)
next
  case (Bridge kind d b)
  then show "wf_dev good p \<Longrightarrow> returns (wf_dev good) (dev_Init ops p)" by (simp add: wf_bus_iff)
qed

lemma WriteConfig_wf:
  assumes "wf_dev good p" and "unat reg + unat sz \<le> 256" and "sz \<le> 4"
  shows "returns (wf_dev good) (dev_WriteConfig ops reg v sz p)"
proof (cases p)
  case (Leaf d x)
  then show ?thesis using assms config [of d x] by (auto elim!: returns_mono)
next
  case (Bridge kind d b)
  then have "returns wf_pci (WriteConfig reg v sz d)" "wf_bus good b"
    using assms wf_WriteConfig by auto
  then show ?thesis using Reset_wf(2)
    by (auto simp: Bridge Let_def elim!: returns_mono)
qed

lemma set_addr_wf: "wf_dev good (set_addr a p) = wf_dev good p" if "wf_dev good p"
  using that addr by (cases p) auto

lemma ConnectDevice_wf:
  assumes "wf_bus good b" and "wf_dev good p"
  shows "returns (wf_bus good) (ConnectDevice ops k p b)"
  using assms Init_wf [OF assms(2)] map_fst_insert_dev [of "m_Devices b" k] set_addr_wf
  by (auto simp: ConnectDevice_def wf_bus_iff wf_devs_insert elim!: returns_mono)

lemma update_dev_wf:
  assumes "\<And>p. wf_dev good p \<Longrightarrow> returns (wf_dev good) (f p)"
  shows "wf_devs good ds \<Longrightarrow>
    returns (\<lambda>ds'. map fst ds' = map fst ds \<and> wf_devs good ds') (update_dev k f ds)"
  using assms by (induction k f ds rule: update_dev.induct) (auto elim!: returns_mono)

lemma IOWriteConfigData_wf:
  assumes wf: "wf_bus good b" and "unat off + unat sz \<le> 4"
  shows "returns (wf_bus good) (IOWriteConfigData ops v sz off b)"
proof -
  have reg: "unat (config_register b off) + unat sz \<le> 256"
    using assms(2) config_register_le [of b off] by linarith
  have "sz \<le> 4" using assms(2) by (simp add: word_le_nat_alt)
  with reg wf show ?thesis
    unfolding IOWriteConfigData_def
    by (auto simp: wf_bus_iff [of good b] wf_bus_put_devs [OF wf]
        intro!: returns_mono [OF update_dev_wf [OF WriteConfig_wf]])
qed

lemma first_BAR_wf:
  assumes "\<And>k p ib. (k, p) \<in> set ds \<Longrightarrow> bar (dev_config p) = Some ib \<Longrightarrow> wf_dev good p \<Longrightarrow>
    returns (\<lambda>(p, r). wf_dev good p) (access ib p)"
  shows "wf_devs good ds \<Longrightarrow>
    returns (\<lambda>(ds', r, h). map fst ds' = map fst ds \<and> wf_devs good ds') (first_BAR bar access r ds)"
  using assms
proof (induction ds)
  case (Cons kp ds)
  obtain k p where kp: "kp = (k, p)" by (cases kp)
  have tail: "returns (\<lambda>(ds', r, h). map fst ds' = map fst ds \<and> wf_devs good ds') (first_BAR bar access r ds)"
    by (rule Cons.IH) (use Cons.prems kp in auto)
  show ?case
  proof (cases "bar (dev_config p)")
    case None
    then show ?thesis using tail Cons.prems(1) kp by (auto elim!: returns_mono)
  next
    case (Some ib)
    have "returns (\<lambda>(p, r). wf_dev good p) (access ib p)"
      by (rule Cons.prems(2) [of k]) (use Cons.prems(1) kp Some in auto)
    then show ?thesis using Cons.prems(1) kp Some by (auto elim!: returns_mono)
  qed
qed simp

lemma dev_access_wf:
  assumes "wf_dev good p"
  shows "returns (\<lambda>(p, r). wf_dev good p) (dev_IORead ops sz ib p v)"
    and "returns (\<lambda>(p, r). wf_dev good p) (dev_MMIORead ops sz ib p v)"
    and "returns (wf_dev good) (dev_MMIOWrite ops v sz ib p)"
  using assms ioread mmioread mmiowrite
  by (cases p; cases ib; fastforce simp: PCIDevice_read_def PCIDevice_write_def elim!: returns_mono)+

definition safe_dev :: "nat \<times> u32 \<Rightarrow> u32 \<Rightarrow> 'x pci_dev \<Rightarrow> bool" where
  "safe_dev ib v p \<longleftrightarrow> (case p of Leaf d x \<Rightarrow> safe (fst ib) (snd ib) v (d, x) | Bridge _ _ _ \<Rightarrow> True)"

lemma dev_IOWrite_wf:
  assumes "wf_dev good p" and "safe_dev ib v p"
  shows "returns (wf_dev good) (dev_IOWrite ops v sz ib p)"
  using assms iowrite unfolding safe_dev_def
  by (cases p; cases ib; fastforce simp: PCIDevice_write_def elim!: returns_mono)

lemma first_BAR_bus:
  assumes "wf_bus good b"
    and "\<And>k p ib. (k, p) \<in> set (m_Devices b) \<Longrightarrow> bar (dev_config p) = Some ib \<Longrightarrow> wf_dev good p \<Longrightarrow>
      returns (\<lambda>(p, r). wf_dev good p) (access ib p)"
  shows "returns (\<lambda>(ds, r, h). wf_bus good (put_devs ds b)) (first_BAR bar access r (m_Devices b))"
proof -
  have "wf_devs good (m_Devices b)" using assms(1) by (simp add: wf_bus_iff)
  from first_BAR_wf [OF assms(2) this] show ?thesis
    by (rule returns_mono) (auto simp: wf_bus_put_devs [OF assms(1)])
qed

lemma write_access_wf:
  assumes "returns (wf_dev good) m"
  shows "returns (\<lambda>(p, r). wf_dev good p) (bindr m (\<lambda>p. Inr (p, ())))"
  using assms by (auto elim: returns_mono)

lemma bus_IORead_wf:
  assumes wf: "wf_bus good b" and "is_config_data port \<Longrightarrow> unat (port - 0xCFC) + unat sz \<le> 4"
  shows "returns (\<lambda>(b, v, h). wf_bus good b) (PCIBus_IORead ops port sz b v)"
proof (cases "is_config_data port")
  case False
  have "returns (\<lambda>(ds, r, h). wf_bus good (put_devs ds b)) (first_BAR (\<lambda>d. GetIOBar d port)
    (\<lambda>(i, base) p. dev_IORead ops sz (i, port - base) p v) v (m_Devices b))"
    by (rule first_BAR_bus [OF wf]) (auto simp: split_beta intro: dev_access_wf(1))
  then show ?thesis
    unfolding PCIBus_IORead_def using False by (auto elim: returns_mono)
next
  case True
  let ?off = "ucast (port - 0xCFC) :: u8"
  have off: "unat ?off + unat sz \<le> 4" using assms(2) [OF True] True
    by (auto simp: is_config_data_def)
  have "returns (\<lambda>v. True) (IOReadConfigData sz ?off b)"
  proof (cases "map_of (m_Devices b) (config_device b)")
    case (Some p)
    then have "length (m_configSpace (dev_config p)) = 256"
      using wf by (auto simp: wf_bus_iff wf_pci_lengths wf_dev_config dest: wf_devs_map_of)
    moreover have "unat (config_register b ?off) + unat sz \<le> 256"
      using off config_register_le [of b ?off] by linarith
    ultimately show ?thesis using Some off
      by (simp add: IOReadConfigData_def ReadConfig_def read_bytes_Inr bytes_to_u32_def)
  qed (simp add: IOReadConfigData_def)
  then show ?thesis using True wf
    by (auto simp: PCIBus_IORead_def elim!: returns_mono)
qed

lemma bus_IOWrite_wf:
  assumes wf: "wf_bus good b" and "is_config_data port \<Longrightarrow> unat (port - 0xCFC) + unat sz \<le> 4"
    and safe: "\<And>k p i base. (k, p) \<in> set (m_Devices b) \<Longrightarrow>
      GetIOBar (dev_config p) port = Some (i, base) \<Longrightarrow> safe_dev (i, port - base) v p"
  shows "returns (\<lambda>(b, h). wf_bus good b) (PCIBus_IOWrite ops port v sz b)"
proof (cases "is_config_data port")
  case False
  have "returns (\<lambda>(ds, r, h). wf_bus good (put_devs ds b)) (first_BAR (\<lambda>d. GetIOBar d port)
    (\<lambda>(i, base) p. bindr (dev_IOWrite ops v sz (i, port - base) p) (\<lambda>p. Inr (p, ()))) () (m_Devices b))"
    by (rule first_BAR_bus [OF wf])
      (auto simp: split_beta intro!: write_access_wf dev_IOWrite_wf safe simp del: returns_bindr)
  then show ?thesis
    unfolding PCIBus_IOWrite_def using False wf
    by (auto simp: IOWriteConfigAddress_def wf_bus_iff elim: returns_mono)
next
  case True
  then have "unat (ucast (port - 0xCFC) :: u8) + unat sz \<le> 4" "port \<noteq> 0xCF8"
    using assms(2) [OF True] by (auto simp: is_config_data_def)
  then show ?thesis using True IOWriteConfigData_wf [OF wf]
    by (auto simp: PCIBus_IOWrite_def elim!: returns_mono)
qed

lemma bus_MMIO_wf:
  assumes wf: "wf_bus good b"
  shows "returns (\<lambda>(b, v, h). wf_bus good b) (PCIBus_MMIORead ops a sz b v)"
    and "returns (\<lambda>(b, h). wf_bus good b) (PCIBus_MMIOWrite ops a v sz b)"
proof -
  have "returns (\<lambda>(ds, r, h). wf_bus good (put_devs ds b)) (first_BAR (\<lambda>d. GetMMIOBar d a)
    (\<lambda>(i, base) p. dev_MMIORead ops sz (i, a - base) p v) v (m_Devices b))"
    by (rule first_BAR_bus [OF wf]) (auto simp: split_beta intro: dev_access_wf(2))
  then show "returns (\<lambda>(b, v, h). wf_bus good b) (PCIBus_MMIORead ops a sz b v)"
    unfolding PCIBus_MMIORead_def by (auto elim: returns_mono)
  have "returns (\<lambda>(ds, r, h). wf_bus good (put_devs ds b)) (first_BAR (\<lambda>d. GetMMIOBar d a)
    (\<lambda>(i, base) p. bindr (dev_MMIOWrite ops v sz (i, a - base) p) (\<lambda>p. Inr (p, ()))) () (m_Devices b))"
    by (rule first_BAR_bus [OF wf]) (auto simp: split_beta intro!: write_access_wf dev_access_wf(3) simp del: returns_bindr)
  then show "returns (\<lambda>(b, h). wf_bus good b) (PCIBus_MMIOWrite ops a v sz b)"
    unfolding PCIBus_MMIOWrite_def by (auto elim: returns_mono)
qed

end

section \<open>Base address registers\<close>

lemma less_add_diff: "(b::u32) \<le> a \<Longrightarrow> a < b + s \<Longrightarrow> a - b < s"
  by (simp add: word_less_nat_alt word_le_nat_alt unat_sub_if' unat_word_ariths split: if_splits)

lemma find_BAR_inside:
  assumes "find_BAR typ bits d a = Some (i, base)"
  shows "base \<le> a \<and> a - base < m_BARSizes d ! i \<and> rd32 (m_configSpace d) (0x10 + i * 4) AND 1 = typ"
  using assms unfolding find_BAR_def
  by (auto simp: Let_def find_Some_iff less_add_diff split: option.splits)

lemma first_BAR_hit:
  assumes "bar (dev_config p) = Some (i, base)" and "\<forall>q\<in>set pre. bar (dev_config (snd q)) = None"
  shows "first_BAR bar access r (pre @ (k, p) # post) =
    bindr (access (i, base) p) (\<lambda>(p, r). Inr (pre @ (k, p) # post, r, True))"
  using assms(2)
proof (induction pre)
  case (Cons q pre)
  then show ?case by (cases q; cases "access (i, base) p") auto
next
  case Nil
  then show ?case using assms(1) by (cases "access (i, base) p") auto
qed

text \<open>an I/O access outside the configuration ports goes to the first device on the bus that has an
  I/O base address register covering the port, with the offset from that register's
  base, which is inside the region the device registered; the other devices do
  not see it.\<close>

theorem IO_reaches_first_BAR:
  assumes "\<not> is_config_data port"
    and "m_Devices b = pre @ (k, Leaf d x) # post"
    and "\<forall>q\<in>set pre. GetIOBar (dev_config (snd q)) port = None"
    and bar: "GetIOBar d port = Some (i, base)"
  shows "base \<le> port \<and> port - base < m_BARSizes d ! i
    \<and> PCIBus_IORead ops port sz b value =
        bindr (leaf_IORead ops i (port - base) sz (d, x) value)
          (\<lambda>((d', x'), v). Inr (put_devs (pre @ (k, Leaf d' x') # post) b, v, True))"
proof -
  have "first_BAR (\<lambda>d. GetIOBar d port) (\<lambda>(i, base) p. dev_IORead ops sz (i, port - base) p value)
      value (m_Devices b) =
    bindr (dev_IORead ops sz (i, port - base) (Leaf d x) value)
      (\<lambda>(p, v). Inr (pre @ (k, p) # post, v, True))"
    unfolding assms(2) by (subst first_BAR_hit) (use assms(3) bar in simp_all)
  then show ?thesis
    using assms(1) find_BAR_inside [OF bar [unfolded GetIOBar_def]]
    by (cases "leaf_IORead ops i (port - base) sz (d, x) value")
      (auto simp: PCIBus_IORead_def)
qed

section \<open>Interrupt pins\<close>

lemma deviceNumber_bit: "deviceNumber a = ucast (drop_bit 11 a AND 0x1F :: u32)"
  by (simp add: deviceNumber_def word_bits bit_simps)

text \<open>No access changes which addresses the devices have.\<close>

lemma first_BAR_keys:
  "whenever (\<lambda>(ds', r, h). map fst ds' = map fst ds) (first_BAR bar access r ds)"
  by (induction ds) (auto simp: whenever_iff bindr_Inr_iff split: option.splits)

lemma update_dev_keys: "whenever (\<lambda>ds'. map fst ds' = map fst ds) (update_dev k f ds)"
  by (induction k f ds rule: update_dev.induct) (auto simp: whenever_iff bindr_Inr_iff)

lemma bus_keys:
  "whenever (\<lambda>(b', v, h). map fst (m_Devices b') = map fst (m_Devices b)) (PCIBus_IORead ops port sz b v)"
  "whenever (\<lambda>(b', h). map fst (m_Devices b') = map fst (m_Devices b)) (PCIBus_IOWrite ops port v sz b)"
  "whenever (\<lambda>(b', v, h). map fst (m_Devices b') = map fst (m_Devices b)) (PCIBus_MMIORead ops port sz b v)"
  "whenever (\<lambda>(b', h). map fst (m_Devices b') = map fst (m_Devices b)) (PCIBus_MMIOWrite ops port v sz b)"
  by (auto simp: PCIBus_IORead_def PCIBus_IOWrite_def PCIBus_MMIORead_def PCIBus_MMIOWrite_def IOWriteConfigData_def
      IOWriteConfigAddress_def put_devs_def whenever_iff bindr_Inr_iff
      intro!: whenever_mono [OF first_BAR_keys] whenever_mono [OF update_dev_keys]
      dest: first_BAR_keys [unfolded whenever_iff, rule_format] update_dev_keys [unfolded whenever_iff, rule_format])

text \<open>
  A device on one of the first eight buses is always recorded as device 0: the identifier that
  \<open>ConnectDevice\<close> stores in \<open>m_addr\<close> has the slot in bits 3 to 7, where the register number of the
  configuration address is, and not in bits 11 to 15.
\<close>

lemma connected_device_0:
  assumes "b < 8"
  shows "deviceNumber (m_addr (dev_config (set_addr (PCI_DEVID b (PCI_DEVFN slot f)) p))) = 0
    \<and> registerNumber (m_addr (dev_config (set_addr (PCI_DEVID b (PCI_DEVFN slot f)) p))) =
        ucast (push_bit 3 (slot AND 0x1F) OR (f AND 7))"
proof -
  have "m_addr (dev_config (set_addr a p)) = a" for a by (cases p) simp_all
  moreover have "\<not> bit b i" if "3 \<le> i" for i
  proof -
    have "(2::nat) ^ 3 \<le> 2 ^ i" using that by (rule power_increasing) simp
    moreover have "unat b < 8" using assms by (simp add: word_less_nat_alt)
    ultimately have "unat b div 2 ^ i = 0" by simp
    then show ?thesis using bit_unsigned_iff [where 'a = nat, of b i] by (simp add: bit_iff_odd)
  qed
  ultimately show ?thesis
    by (simp add: deviceNumber_def registerNumber_def PCI_DEVID_def PCI_DEVFN_def word_bits bit_simps)
qed

end
