(* ===== verification/SMDevices.thy ===== *)
theory SMDevices
  imports Prelude
begin

text \<open>
  The devices on the system management bus: the interface \<open>hw/sm/sm.h\<close>, the
  system management controller \<open>smc.cpp\<close> with its LED \<open>led.h\<close>, the EEPROM
  \<open>eeprom.cpp\<close>, the Conexant TV encoder \<open>tvenc_conexant.cpp\<close>, and the choice of
  revisions \<open>SMCRevisionFromHardwareModel\<close> and \<open>TVEncoderFromHardwareModel\<close>.
  The arrays that the EEPROM and the encoder leave uninitialised are given by
  their creator. Word and block accesses at the end of an array fault.
\<close>

section \<open>Hardware models\<close>

datatype HardwareModel = Revision1_0 | Revision1_1 | Revision1_2 | Revision1_3
  | Revision1_4 | Revision1_5 | Revision1_6 | DebugKit

datatype SMCRevision = P01 | P2L | D01 | D05

datatype TVEncoder = Conexant | Focus | XCalibur

fun SMCRevisionFromHardwareModel :: "HardwareModel \<Rightarrow> SMCRevision" where
  "SMCRevisionFromHardwareModel Revision1_0 = P01"
| "SMCRevisionFromHardwareModel DebugKit = D01"
| "SMCRevisionFromHardwareModel _ = P2L"

fun TVEncoderFromHardwareModel :: "HardwareModel \<Rightarrow> TVEncoder" where
  "TVEncoderFromHardwareModel Revision1_4 = Focus"
| "TVEncoderFromHardwareModel Revision1_5 = Focus"
| "TVEncoderFromHardwareModel Revision1_6 = XCalibur"
| "TVEncoderFromHardwareModel _ = Conexant"

section \<open>The LED sequence\<close>

definition LED_Name :: "u8 \<Rightarrow> nat \<Rightarrow> string" where
  "LED_Name seq phase =
     (if phase > 3 then ''<invalid phase>''
      else
        let msk = push_bit phase 1;
            green = tst (seq AND 0x0F) msk;
            red = tst (drop_bit 4 seq) msk
        in if green \<and> red then ''Orange'' else if green then ''Green''
           else if red then ''Red'' else ''Off'')"

section \<open>The system management controller\<close>

abbreviation SMC_Version :: u8 where "SMC_Version \<equiv> 0x01"
abbreviation SMC_Reset :: u8 where "SMC_Reset \<equiv> 0x02"
abbreviation SMC_AVPack :: u8 where "SMC_AVPack \<equiv> 0x04"
abbreviation SMC_LEDMode :: u8 where "SMC_LEDMode \<equiv> 0x07"
abbreviation SMC_LEDSequence :: u8 where "SMC_LEDSequence \<equiv> 0x08"
abbreviation SMC_ErrorCode :: u8 where "SMC_ErrorCode \<equiv> 0x0E"
abbreviation SMC_ReadErrorCode :: u8 where "SMC_ReadErrorCode \<equiv> 0x0F"
abbreviation SMC_Scratch :: u8 where "SMC_Scratch \<equiv> 0x1B"

record smc =
  m_revision :: SMCRevision
  m_PICVersionStringIndex :: nat
  m_buffer :: bytes

definition new_SMC :: "SMCRevision \<Rightarrow> smc" where
  "new_SMC r = \<lparr>m_revision = r, m_PICVersionStringIndex = 0, m_buffer = replicate 256 0\<rparr>"

definition SMC_Init :: "smc \<Rightarrow> smc" where
  "SMC_Init s = s\<lparr>m_PICVersionStringIndex := 0,
     m_buffer := (replicate (length (m_buffer s)) 0)
       [unat SMC_AVPack := 1, unat SMC_LEDSequence := 0xF, unat SMC_Scratch := 0]\<rparr>"

definition SMC_GetRegister :: "u8 \<Rightarrow> smc \<Rightarrow> u8" where
  "SMC_GetRegister reg s = m_buffer s ! unat reg"

text \<open>The three characters of each version string.\<close>

fun version_string :: "SMCRevision \<Rightarrow> bytes" where
  "version_string P01 = [0x50, 0x30, 0x31]"
| "version_string P2L = [0x50, 0x30, 0x35]"
| "version_string D01 = [0x44, 0x58, 0x42]"
| "version_string D05 = [0x44, 0x30, 0x35]"

definition SMC_ReadByte :: "u8 \<Rightarrow> smc \<Rightarrow> smc \<times> u8" where
  "SMC_ReadByte command s =
     (if command = SMC_Version then
        (s\<lparr>m_PICVersionStringIndex := (m_PICVersionStringIndex s + 1) mod 3\<rparr>,
         version_string (m_revision s) ! m_PICVersionStringIndex s)
      else if command = SMC_ReadErrorCode then (s, m_buffer s ! unat SMC_ErrorCode)
      else if command = 0x1C then (s, 0x52)
      else if command = 0x1D then (s, 0x72)
      else if command = 0x1E then (s, 0xEA)
      else if command = 0x1F then (s, 0x46)
      else (s, m_buffer s ! unat command))"

text \<open>
  A value other than the three it knows falls from \<open>Reset\<close> into \<open>LEDMode\<close>, whose
  every case returns.
\<close>

definition SMC_WriteByte :: "u8 \<Rightarrow> u8 \<Rightarrow> smc \<Rightarrow> smc" where
  "SMC_WriteByte command value s =
     (if command = SMC_Version then (if value = 0 then s\<lparr>m_PICVersionStringIndex := 0\<rparr> else s)
      else if command = SMC_Reset then
        (if value = 0x01 \<or> value = 0x40 \<or> value = 0x80 then s
         else if value = 0 \<or> value = 1 then s else s)
      else if command = SMC_LEDMode then (if value = 0 \<or> value = 1 then s else s)
      else if command = SMC_Scratch \<and> (value = 0x01 \<or> value = 0x02 \<or> value = 0x04 \<or> value = 0x08)
        then s
      else s\<lparr>m_buffer := (m_buffer s)[unat command := value]\<rparr>)"

section \<open>The EEPROM\<close>

definition EEPROM_ReadByte :: "u8 \<Rightarrow> bytes \<Rightarrow> u8" where
  "EEPROM_ReadByte command buf = buf ! unat command"

definition EEPROM_ReadWord :: "u8 \<Rightarrow> bytes \<Rightarrow> fault + u16" where
  "EEPROM_ReadWord command buf =
     (if unat command + 1 < length buf then Inr (rd16 buf (unat command)) else Inl OutOfBounds)"

definition EEPROM_WriteByte :: "u8 \<Rightarrow> u8 \<Rightarrow> bytes \<Rightarrow> bytes" where
  "EEPROM_WriteByte command value buf = buf[unat command := value]"

definition EEPROM_WriteWord :: "u8 \<Rightarrow> u16 \<Rightarrow> bytes \<Rightarrow> fault + bytes" where
  "EEPROM_WriteWord command value buf =
     (if unat command + 1 < length buf then Inr (wr16 buf (unat command) value) else Inl OutOfBounds)"

definition EEPROM_WriteBlock :: "u8 \<Rightarrow> bytes \<Rightarrow> nat \<Rightarrow> bytes \<Rightarrow> fault + bytes" where
  "EEPROM_WriteBlock command dat len buf = memcpy buf (unat command) dat len"

section \<open>The TV encoder\<close>

definition Conexant_ReadByte :: "u8 \<Rightarrow> bytes \<Rightarrow> u8" where
  "Conexant_ReadByte command buf = buf ! unat command"

definition Conexant_ReadWord :: "u8 \<Rightarrow> bytes \<Rightarrow> fault + u16" where
  "Conexant_ReadWord command buf =
     (if unat command + 1 < length buf then Inr (rd16 buf (unat command)) else Inl OutOfBounds)"

definition Conexant_WriteByte :: "u8 \<Rightarrow> u8 \<Rightarrow> bytes \<Rightarrow> bytes" where
  "Conexant_WriteByte command value buf = buf[unat command := value]"

definition Conexant_WriteWord :: "u8 \<Rightarrow> u16 \<Rightarrow> bytes \<Rightarrow> fault + bytes" where
  "Conexant_WriteWord command value buf =
     (if unat command + 1 < length buf then Inr (wr16 buf (unat command) value) else Inl OutOfBounds)"

definition Conexant_WriteBlock :: "u8 \<Rightarrow> bytes \<Rightarrow> nat \<Rightarrow> bytes \<Rightarrow> fault + bytes" where
  "Conexant_WriteBlock command dat len buf = memcpy buf (unat command) dat len"

lemmas register_array_simps =
  EEPROM_ReadByte_def EEPROM_ReadWord_def EEPROM_WriteByte_def EEPROM_WriteWord_def EEPROM_WriteBlock_def
  Conexant_ReadByte_def Conexant_ReadWord_def Conexant_WriteByte_def Conexant_WriteWord_def
  Conexant_WriteBlock_def

section \<open>The interface\<close>

datatype sm_dev = SMC smc | EEPROM bytes | TVEncConexant bytes

definition SetEEPROM :: "bytes \<Rightarrow> sm_dev \<Rightarrow> sm_dev" where
  "SetEEPROM pEEPROM d = (case d of EEPROM buf \<Rightarrow> EEPROM pEEPROM | _ \<Rightarrow> d)"

fun sm_Init :: "sm_dev \<Rightarrow> sm_dev" where
  "sm_Init (SMC s) = SMC (SMC_Init s)"
| "sm_Init (EEPROM buf) = EEPROM buf"
| "sm_Init (TVEncConexant buf) = TVEncConexant buf"

fun sm_Reset :: "sm_dev \<Rightarrow> sm_dev" where
  "sm_Reset (SMC s) = SMC s"
| "sm_Reset (EEPROM buf) = EEPROM buf"
| "sm_Reset (TVEncConexant buf) = TVEncConexant buf"

fun sm_QuickCommand :: "bool \<Rightarrow> sm_dev \<Rightarrow> sm_dev" where
  "sm_QuickCommand rd (SMC s) = SMC s"
| "sm_QuickCommand rd (EEPROM buf) = EEPROM buf"
| "sm_QuickCommand rd (TVEncConexant buf) = TVEncConexant buf"

fun sm_ReceiveByte :: "sm_dev \<Rightarrow> sm_dev \<times> u8" where
  "sm_ReceiveByte (SMC s) = (SMC s, 0)"
| "sm_ReceiveByte (EEPROM buf) = (EEPROM buf, 0)"
| "sm_ReceiveByte (TVEncConexant buf) = (TVEncConexant buf, 0)"

fun sm_ReadByte :: "u8 \<Rightarrow> sm_dev \<Rightarrow> sm_dev \<times> u8" where
  "sm_ReadByte command (SMC s) = (let (s, v) = SMC_ReadByte command s in (SMC s, v))"
| "sm_ReadByte command (EEPROM buf) = (EEPROM buf, EEPROM_ReadByte command buf)"
| "sm_ReadByte command (TVEncConexant buf) = (TVEncConexant buf, Conexant_ReadByte command buf)"

fun sm_ReadWord :: "u8 \<Rightarrow> sm_dev \<Rightarrow> fault + sm_dev \<times> u16" where
  "sm_ReadWord command (SMC s) = Inr (SMC s, 0)"
| "sm_ReadWord command (EEPROM buf) = bindr (EEPROM_ReadWord command buf) (\<lambda>v. Inr (EEPROM buf, v))"
| "sm_ReadWord command (TVEncConexant buf) =
     bindr (Conexant_ReadWord command buf) (\<lambda>v. Inr (TVEncConexant buf, v))"

text \<open>The block read of every device returns length 0 and leaves \<open>data\<close> alone.\<close>

fun sm_ReadBlock :: "u8 \<Rightarrow> bytes \<Rightarrow> sm_dev \<Rightarrow> sm_dev \<times> bytes \<times> u8" where
  "sm_ReadBlock command dat (SMC s) = (SMC s, dat, 0)"
| "sm_ReadBlock command dat (EEPROM buf) = (EEPROM buf, dat, 0)"
| "sm_ReadBlock command dat (TVEncConexant buf) = (TVEncConexant buf, dat, 0)"

fun sm_SendByte :: "u8 \<Rightarrow> sm_dev \<Rightarrow> sm_dev" where
  "sm_SendByte b (SMC s) = SMC s"
| "sm_SendByte b (EEPROM buf) = EEPROM buf"
| "sm_SendByte b (TVEncConexant buf) = TVEncConexant buf"

fun sm_WriteByte :: "u8 \<Rightarrow> u8 \<Rightarrow> sm_dev \<Rightarrow> sm_dev" where
  "sm_WriteByte command value (SMC s) = SMC (SMC_WriteByte command value s)"
| "sm_WriteByte command value (EEPROM buf) = EEPROM (EEPROM_WriteByte command value buf)"
| "sm_WriteByte command value (TVEncConexant buf) = TVEncConexant (Conexant_WriteByte command value buf)"

fun sm_WriteWord :: "u8 \<Rightarrow> u16 \<Rightarrow> sm_dev \<Rightarrow> fault + sm_dev" where
  "sm_WriteWord command value (SMC s) = Inr (SMC s)"
| "sm_WriteWord command value (EEPROM buf) =
     bindr (EEPROM_WriteWord command value buf) (\<lambda>buf. Inr (EEPROM buf))"
| "sm_WriteWord command value (TVEncConexant buf) =
     bindr (Conexant_WriteWord command value buf) (\<lambda>buf. Inr (TVEncConexant buf))"

fun sm_WriteBlock :: "u8 \<Rightarrow> bytes \<Rightarrow> u8 \<Rightarrow> sm_dev \<Rightarrow> fault + sm_dev" where
  "sm_WriteBlock command dat len (SMC s) = Inr (SMC s)"
| "sm_WriteBlock command dat len (EEPROM buf) =
     bindr (EEPROM_WriteBlock command dat (unat len) buf) (\<lambda>buf. Inr (EEPROM buf))"
| "sm_WriteBlock command dat len (TVEncConexant buf) =
     bindr (Conexant_WriteBlock command dat (unat len) buf) (\<lambda>buf. Inr (TVEncConexant buf))"

end
