(* ===== verification/SMBus.thy ===== *)
theory SMBus
  imports SMDevices PciDev
begin

text \<open>
  The system management bus controller, \<open>hw/bus/smbus.h\<close> and \<open>smbus.cpp\<close>. It is a
  PCI device; its state here is what it adds to \<open>PCIDevice\<close>. The calls
  \<open>m_irq->Handle(level)\<close> are the trace \<open>smb_irqs\<close>. \<open>std::map\<close> is an association
  list in the order of its keys.
\<close>

abbreviation SMB_GLOBAL_STATUS :: u32 where "SMB_GLOBAL_STATUS \<equiv> 0x0"
abbreviation SMB_GLOBAL_ENABLE :: u32 where "SMB_GLOBAL_ENABLE \<equiv> 0x2"
abbreviation SMB_HOST_ADDRESS :: u32 where "SMB_HOST_ADDRESS \<equiv> 0x4"
abbreviation SMB_HOST_DATA :: u32 where "SMB_HOST_DATA \<equiv> 0x6"
abbreviation SMB_HOST_COMMAND :: u32 where "SMB_HOST_COMMAND \<equiv> 0x8"
abbreviation SMB_HOST_BLOCK_DATA :: u32 where "SMB_HOST_BLOCK_DATA \<equiv> 0x9"

abbreviation AMD756_QUICK :: u8 where "AMD756_QUICK \<equiv> 0x00"
abbreviation AMD756_BYTE :: u8 where "AMD756_BYTE \<equiv> 0x01"
abbreviation AMD756_BYTE_DATA :: u8 where "AMD756_BYTE_DATA \<equiv> 0x02"
abbreviation AMD756_WORD_DATA :: u8 where "AMD756_WORD_DATA \<equiv> 0x03"
abbreviation AMD756_BLOCK_DATA :: u8 where "AMD756_BLOCK_DATA \<equiv> 0x05"

abbreviation GS_ABRT_STS :: u8 where "GS_ABRT_STS \<equiv> 0x01"
abbreviation GS_PRERR_STS :: u8 where "GS_PRERR_STS \<equiv> 0x04"
abbreviation GS_HCYC_STS :: u8 where "GS_HCYC_STS \<equiv> 0x10"
abbreviation GS_CLEAR_STS :: u8 where "GS_CLEAR_STS \<equiv> 0x37"
abbreviation GE_HOST_STC :: u32 where "GE_HOST_STC \<equiv> 0x08"
abbreviation GE_HCYC_EN :: u32 where "GE_HCYC_EN \<equiv> 0x10"
abbreviation GE_ABORT :: u32 where "GE_ABORT \<equiv> 0x20"

record smbus =
  m_Status :: u8
  m_Control :: u8
  m_Command :: u8
  m_Address :: u8
  m_Data0 :: u8
  m_Data1 :: u8
  m_Data :: bytes
  m_Index :: u8
  smb_devices :: "(u8 \<times> sm_dev) list"
  smb_irqs :: "bool list"

definition new_SMBus :: "PCIDevice \<times> smbus" where
  "new_SMBus = (new_PCIDevice PCI_HEADER_TYPE_NORMAL 0x10DE 0x01B4 0xD1 0x0C 0x05 0x00 0 0,
     \<lparr>m_Status = 0, m_Control = 0, m_Command = 0, m_Address = 0, m_Data0 = 0, m_Data1 = 0,
      m_Data = replicate 32 0, m_Index = 0, smb_devices = [], smb_irqs = []\<rparr>)"

definition SMBus_Init :: "PCIDevice \<Rightarrow> PCIDevice" where
  "SMBus_Init d =
     fst (RegisterBAR 2 0x20 PCI_BAR_TYPE_IO (fst (RegisterBAR 1 0x10 PCI_BAR_TYPE_IO d)))"

definition SMBus_Reset :: "smbus \<Rightarrow> smbus" where
  "SMBus_Reset s = s\<lparr>m_Status := 0, smb_devices := map (\<lambda>(a, d). (a, sm_Reset d)) (smb_devices s)\<rparr>"

fun insert_sm :: "u8 \<Rightarrow> sm_dev \<Rightarrow> (u8 \<times> sm_dev) list \<Rightarrow> (u8 \<times> sm_dev) list" where
  "insert_sm k d [] = [(k, d)]"
| "insert_sm k d ((k', d') # ds) =
     (if k < k' then (k, d) # (k', d') # ds else (k', d') # insert_sm k d ds)"

definition SMBus_ConnectDevice :: "u8 \<Rightarrow> sm_dev \<Rightarrow> smbus \<Rightarrow> smbus" where
  "SMBus_ConnectDevice addr d s =
     (let dev_addr = drop_bit 1 addr AND 0x7F in
      if map_of (smb_devices s) dev_addr \<noteq> None then s
      else s\<lparr>smb_devices := insert_sm dev_addr (sm_Init d) (smb_devices s)\<rparr>)"

definition put_sm :: "u8 \<Rightarrow> sm_dev \<Rightarrow> smbus \<Rightarrow> smbus" where
  "put_sm a d s =
     s\<lparr>smb_devices := map (\<lambda>(a', d'). (a', if a' = a then d else d')) (smb_devices s)\<rparr>"

text \<open>One cycle with a device that answers, by its protocol.\<close>

definition sm_cycle :: "u8 \<Rightarrow> bool \<Rightarrow> u8 \<Rightarrow> sm_dev \<Rightarrow> smbus \<Rightarrow> fault + smbus option" where
  "sm_cycle prot rd addr d s =
     (if prot = AMD756_QUICK then Inr (Some (put_sm addr (sm_QuickCommand rd d) s))
      else if prot = AMD756_BYTE then
        (if rd then let (d, v) = sm_ReceiveByte d in Inr (Some (put_sm addr d (s\<lparr>m_Data0 := v\<rparr>)))
         else Inr (Some (put_sm addr (sm_SendByte (m_Command s) d) s)))
      else if prot = AMD756_BYTE_DATA then
        (if rd then let (d, v) = sm_ReadByte (m_Command s) d in Inr (Some (put_sm addr d (s\<lparr>m_Data0 := v\<rparr>)))
         else Inr (Some (put_sm addr (sm_WriteByte (m_Command s) (m_Data0 s) d) s)))
      else if prot = AMD756_WORD_DATA then
        (if rd then bindr (sm_ReadWord (m_Command s) d) (\<lambda>(d, v).
             Inr (Some (put_sm addr d (s\<lparr>m_Data0 := ucast (v AND 0xFF), m_Data1 := ucast (drop_bit 8 v)\<rparr>))))
         else bindr (sm_WriteWord (m_Command s) (push_bit 8 (ucast (m_Data1 s)) OR ucast (m_Data0 s)) d)
             (\<lambda>d. Inr (Some (put_sm addr d s))))
      else if prot = AMD756_BLOCK_DATA then
        (if rd then let (d, dat, n) = sm_ReadBlock (m_Command s) (m_Data s) d in
             Inr (Some (put_sm addr d (s\<lparr>m_Data := dat, m_Data0 := n\<rparr>)))
         else bindr (sm_WriteBlock (m_Command s) (m_Data s) (m_Data0 s) d)
             (\<lambda>d. Inr (Some (put_sm addr d s))))
      else Inr None)"

definition ExecuteTransaction :: "smbus \<Rightarrow> fault + smbus" where
  "ExecuteTransaction s =
     (let prot = m_Control s AND 7;
          rd = tst (m_Address s) 0x01;
          addr = drop_bit 1 (m_Address s) AND 0x7F
      in case map_of (smb_devices s) addr of
           None \<Rightarrow> Inr (s\<lparr>m_Status := m_Status s OR GS_PRERR_STS\<rparr>)
         | Some d \<Rightarrow>
             bindr (sm_cycle prot rd addr d s) (\<lambda>r.
               case r of
                 Some s' \<Rightarrow> Inr (s'\<lparr>m_Status := m_Status s' OR GS_HCYC_STS\<rparr>)
               | None \<Rightarrow> Inr (s\<lparr>m_Status := m_Status s OR GS_PRERR_STS\<rparr>)))"

text \<open>\<open>m_Data[m_Index++]\<close>, with the wrap to 0 after the last byte.\<close>

definition next_index :: "u8 \<Rightarrow> u8" where
  "next_index i = (if i + 1 > 31 then 0 else i + 1)"

definition SMBus_PCIIORead :: "nat \<Rightarrow> u32 \<Rightarrow> u8 \<Rightarrow> smbus \<Rightarrow> u32 \<Rightarrow> fault + smbus \<times> u32" where
  "SMBus_PCIIORead barIndex port sz s value =
     (if barIndex \<noteq> 1 then Inr (s, 0)
      else
        let port = port AND 0x3F in
        if port = SMB_GLOBAL_STATUS then Inr (s, ucast (m_Status s))
        else if port = SMB_GLOBAL_ENABLE then Inr (s, ucast (m_Control s AND 0x1F))
        else if port = SMB_HOST_COMMAND then Inr (s, ucast (m_Command s))
        else if port = SMB_HOST_ADDRESS then Inr (s, ucast (m_Address s))
        else if port = SMB_HOST_DATA then
          (if sz = 2 then Inr (s, push_bit 8 (ucast (m_Data1 s)) OR ucast (m_Data0 s))
           else Inr (s, ucast (m_Data0 s)))
        else if port = SMB_HOST_DATA + 1 then Inr (s, ucast (m_Data1 s))
        else if port = SMB_HOST_BLOCK_DATA then
          bindr (aget (m_Data s) (unat (m_Index s))) (\<lambda>v.
            Inr (s\<lparr>m_Index := next_index (m_Index s)\<rparr>, ucast v))
        else Inr (s, 0))"

definition handle_irq :: "bool \<Rightarrow> smbus \<Rightarrow> smbus" where
  "handle_irq level s = s\<lparr>smb_irqs := smb_irqs s @ [level]\<rparr>"

definition write_status :: "u32 \<Rightarrow> smbus \<Rightarrow> smbus" where
  "write_status value s =
     (let s = (if tst (ucast (m_Control s)) GE_HCYC_EN
                  \<and> tst (value AND ucast GS_CLEAR_STS) (NOT (ucast (m_Status s AND GS_CLEAR_STS)))
               then handle_irq True s else handle_irq False s)
      in if tst value (ucast GS_CLEAR_STS) then s\<lparr>m_Status := 0, m_Index := 0\<rparr>
         else if tst value (ucast GS_HCYC_STS) then s\<lparr>m_Status := GS_HCYC_STS, m_Index := 0\<rparr>
         else s\<lparr>m_Status := GS_HCYC_STS, m_Index := 0\<rparr>)"

definition write_enable :: "u32 \<Rightarrow> smbus \<Rightarrow> fault + smbus" where
  "write_enable value s =
     (let s = s\<lparr>m_Control := ucast value\<rparr>;
          s = (if tst value GE_ABORT then s\<lparr>m_Status := m_Status s OR GS_ABRT_STS\<rparr> else s)
      in if tst value GE_HOST_STC
         then bindr (ExecuteTransaction s) (\<lambda>s.
           if tst value GE_HCYC_EN \<and> tst (m_Status s) GS_CLEAR_STS then Inr (handle_irq True s) else Inr s)
         else Inr s)"

definition SMBus_PCIIOWrite :: "nat \<Rightarrow> u32 \<Rightarrow> u32 \<Rightarrow> u8 \<Rightarrow> smbus \<Rightarrow> fault + smbus" where
  "SMBus_PCIIOWrite barIndex port value sz s =
     (if barIndex \<noteq> 1 then Inr s
      else
        let port = port AND 0x3F in
        if port = SMB_GLOBAL_STATUS then Inr (write_status value s)
        else if port = SMB_GLOBAL_ENABLE then write_enable value s
        else if port = SMB_HOST_COMMAND then Inr (s\<lparr>m_Command := ucast value\<rparr>)
        else if port = SMB_HOST_ADDRESS then Inr (s\<lparr>m_Address := ucast value\<rparr>)
        else if port = SMB_HOST_DATA then
          (if sz = 2 then Inr (s\<lparr>m_Data0 := ucast (value AND 0xFF), m_Data1 := ucast (drop_bit 8 value AND 0xFF)\<rparr>)
           else Inr (s\<lparr>m_Data0 := ucast value\<rparr>))
        else if port = SMB_HOST_DATA + 1 then Inr (s\<lparr>m_Data1 := ucast value\<rparr>)
        else if port = SMB_HOST_BLOCK_DATA then
          bindr (aset (m_Data s) (unat (m_Index s)) (ucast value)) (\<lambda>dat.
            Inr (s\<lparr>m_Data := dat, m_Index := next_index (m_Index s)\<rparr>))
        else Inr s)"

section \<open>The devices of the console\<close>

text \<open>
  The connections that \<open>InitHardware\<close> makes. \<open>junk\<close> is what the encoder's registers
  happen to hold; the EEPROM's contents are set at the end of \<open>InitHardware\<close>.
\<close>

abbreviation kSMBusAddress_SystemMicroController :: u8 where "kSMBusAddress_SystemMicroController \<equiv> 0x20"
abbreviation kSMBusAddress_EEPROM :: u8 where "kSMBusAddress_EEPROM \<equiv> 0xA8"
abbreviation kSMBusAddress_TVEncoder_ID_Conexant :: u8 where "kSMBusAddress_TVEncoder_ID_Conexant \<equiv> 0x8A"

definition xbox_SMBus :: "HardwareModel \<Rightarrow> bytes \<Rightarrow> bytes \<Rightarrow> smbus" where
  "xbox_SMBus hw junk eeprom =
     (let s = snd new_SMBus;
          s = SMBus_ConnectDevice kSMBusAddress_SystemMicroController (SMC (new_SMC (SMCRevisionFromHardwareModel hw))) s;
          s = SMBus_ConnectDevice kSMBusAddress_EEPROM (SetEEPROM eeprom (EEPROM [])) s
      in case TVEncoderFromHardwareModel hw of
           Conexant \<Rightarrow> SMBus_ConnectDevice kSMBusAddress_TVEncoder_ID_Conexant (TVEncConexant junk) s
         | Focus \<Rightarrow> s
         | XCalibur \<Rightarrow> s)"

end
