(* ===== verification/SMBus_Laws.thy ===== *)
theory SMBus_Laws
  imports SMBus
begin

text \<open>
  The system management bus: its registers stay well formed, a byte written to
  a register file is the byte read back, and the host drives a whole
  transaction through the controller's ports.
\<close>

section \<open>Register files\<close>

text \<open>The contract of a device that is an array of bytes to its host.\<close>

locale register_file =
  fixes rd :: "u8 \<Rightarrow> 'd \<Rightarrow> 'd \<times> u8" and wr :: "u8 \<Rightarrow> u8 \<Rightarrow> 'd \<Rightarrow> 'd"
    and ok :: "'d \<Rightarrow> bool"
  assumes rd_state: "ok d \<Longrightarrow> fst (rd c d) = d"
    and wr_ok: "ok d \<Longrightarrow> ok (wr c v d)"
    and rd_wr: "ok d \<Longrightarrow> snd (rd c (wr c' v d)) = (if c = c' then v else snd (rd c d))"
begin

lemma rd_fold_wr:
  "ok d \<Longrightarrow> ok (fold (\<lambda>(c, v). wr c v) cvs d)
     \<and> snd (rd c (fold (\<lambda>(c, v). wr c v) cvs d)) =
         (case map_of (rev cvs) c of Some v \<Rightarrow> v | None \<Rightarrow> snd (rd c d))"
proof (induction cvs arbitrary: d)
  case (Cons cv cvs)
  obtain c' v where "cv = (c', v)" by (cases cv)
  then show ?case
    using Cons.IH [of "wr c' v d"] Cons.prems wr_ok rd_wr
    by (auto simp: map_add_def split: option.splits)
qed simp

end

fun eeprom_ok :: "sm_dev \<Rightarrow> bool" where
  "eeprom_ok (EEPROM buf) = (length buf = 256)"
| "eeprom_ok _ = False"

fun conexant_ok :: "sm_dev \<Rightarrow> bool" where
  "conexant_ok (TVEncConexant buf) = (length buf = 256)"
| "conexant_ok _ = False"

lemma unat_u8_less: "unat (c::u8) < 256"
  using unsigned_less [of c] by simp

interpretation eeprom: register_file sm_ReadByte sm_WriteByte eeprom_ok
proof
  fix d :: sm_dev and c c' v :: u8
  assume "eeprom_ok d"
  then obtain buf where d: "d = EEPROM buf" "length buf = 256" by (cases d) auto
  then show "fst (sm_ReadByte c d) = d" "eeprom_ok (sm_WriteByte c v d)"
    "snd (sm_ReadByte c (sm_WriteByte c' v d)) = (if c = c' then v else snd (sm_ReadByte c d))"
    using unat_u8_less by (auto simp: register_array_simps nth_list_update word_unat_eq_iff)
qed

interpretation conexant: register_file sm_ReadByte sm_WriteByte conexant_ok
proof
  fix d :: sm_dev and c c' v :: u8
  assume "conexant_ok d"
  then obtain buf where d: "d = TVEncConexant buf" "length buf = 256" by (cases d) auto
  then show "fst (sm_ReadByte c d) = d" "conexant_ok (sm_WriteByte c v d)"
    "snd (sm_ReadByte c (sm_WriteByte c' v d)) = (if c = c' then v else snd (sm_ReadByte c d))"
    using unat_u8_less by (auto simp: register_array_simps nth_list_update word_unat_eq_iff)
qed

section \<open>Well-formed state\<close>

fun wf_sm :: "sm_dev \<Rightarrow> bool" where
  "wf_sm (SMC s) = (length (m_buffer s) = 256 \<and> m_PICVersionStringIndex s < 3)"
| "wf_sm (EEPROM buf) = (length buf = 256)"
| "wf_sm (TVEncConexant buf) = (length buf = 256)"

definition wf_smbus :: "smbus \<Rightarrow> bool" where
  "wf_smbus s \<longleftrightarrow> length (m_Data s) = 32 \<and> unat (m_Index s) < 32 \<and> (\<forall>(a, d)\<in>set (smb_devices s). wf_sm d)"

lemma wf_sm_ops:
  assumes "wf_sm d"
  shows "wf_sm (sm_Init d)" "wf_sm (sm_Reset d)" "wf_sm (sm_QuickCommand rd d)"
    "wf_sm (fst (sm_ReceiveByte d))" "wf_sm (fst (sm_ReadByte c d))"
    "wf_sm (sm_SendByte b d)" "wf_sm (sm_WriteByte c v d)"
    "sm_ReadWord c d = Inr (d', w) \<Longrightarrow> wf_sm d'"
    "sm_WriteWord c w d = Inr d' \<Longrightarrow> wf_sm d'"
    "sm_WriteBlock c dat len d = Inr d' \<Longrightarrow> wf_sm d'"
  using assms
  by (cases d; auto simp: SMC_Init_def SMC_ReadByte_def SMC_WriteByte_def register_array_simps memcpy_def Let_def bindr_Inr_iff split: if_splits)+

lemma sm_ReadBlock_eq [simp]: "sm_ReadBlock c dat d = (d, dat, 0)"
  by (cases d) simp_all

lemma next_index_less: "unat i < 32 \<Longrightarrow> unat (next_index i) < 32"
  by (auto simp: next_index_def word_less_nat_alt unat_word_ariths split: if_splits)

lemma wf_put_sm: "wf_smbus s \<Longrightarrow> wf_sm d \<Longrightarrow> wf_smbus (put_sm a d s)"
  by (auto simp: wf_smbus_def put_sm_def)

text \<open>Which cycles stay inside the arrays, and that they then return.\<close>

definition safe_cycle :: "smbus \<Rightarrow> bool" where
  "safe_cycle s \<longleftrightarrow>
     (m_Control s AND 7 = AMD756_WORD_DATA \<longrightarrow> m_Command s < 255)
     \<and> (m_Control s AND 7 = AMD756_BLOCK_DATA \<longrightarrow>
          m_Data0 s \<le> 32 \<and> unat (m_Command s) + unat (m_Data0 s) \<le> 256)"

lemma word_block_returns:
  assumes "wf_sm d"
  shows "c < 255 \<Longrightarrow> returns (\<lambda>(d, v). wf_sm d) (sm_ReadWord c d)"
    and "c < 255 \<Longrightarrow> returns wf_sm (sm_WriteWord c w d)"
    and "unat n \<le> length dat \<Longrightarrow> unat c + unat n \<le> 256 \<Longrightarrow> returns wf_sm (sm_WriteBlock c dat n d)"
  using assms
  by (cases d; auto simp: register_array_simps memcpy_def word_less_nat_alt)+

lemma put_returns:
  "wf_smbus s \<Longrightarrow> returns wf_sm m \<Longrightarrow> returns (\<lambda>d. wf_smbus (put_sm a d s)) m"
  by (erule returns_mono) (rule wf_put_sm)

lemma sm_cycle_returns:
  assumes wf: "wf_smbus s" and d: "wf_sm d"
    and safe: "prot = AMD756_WORD_DATA \<longrightarrow> m_Command s < 255"
      "prot = AMD756_BLOCK_DATA \<longrightarrow> m_Data0 s \<le> 32 \<and> unat (m_Command s) + unat (m_Data0 s) \<le> 256"
  shows "returns (\<lambda>r. case r of Some s' \<Rightarrow> wf_smbus s' | None \<Rightarrow> True) (sm_cycle prot rd a d s)"
proof -
  have regs: "wf_smbus (s\<lparr>m_Data0 := v\<rparr>)" "wf_smbus (s\<lparr>m_Data0 := v, m_Data1 := w\<rparr>)"
    "length dat = 32 \<Longrightarrow> wf_smbus (s\<lparr>m_Data := dat, m_Data0 := v\<rparr>)" for v w dat
    using wf by (simp_all add: wf_smbus_def)
  have len: "length (m_Data s) = 32" using wf by (simp add: wf_smbus_def)
  have word: "returns (\<lambda>(d, v). wf_sm d) (sm_ReadWord (m_Command s) d)"
    "returns wf_sm (sm_WriteWord (m_Command s) w d)" if "prot = AMD756_WORD_DATA" for w
    using word_block_returns(1,2) [OF d] safe(1) that by auto
  have block: "returns wf_sm (sm_WriteBlock (m_Command s) (m_Data s) (m_Data0 s) d)"
    if "prot = AMD756_BLOCK_DATA"
    using word_block_returns(3) [OF d] safe(2) that len by (auto simp: word_le_nat_alt)
  show ?thesis
    unfolding sm_cycle_def
    using wf wf_sm_ops(1-7) [OF d] d word(1)
    by (auto simp: regs Let_def case_prod_beta intro!: wf_put_sm put_returns [OF wf] word(2) block
        elim!: returns_mono)
qed

lemma wf_smbus_device: "wf_smbus s \<Longrightarrow> map_of (smb_devices s) a = Some d \<Longrightarrow> wf_sm d"
  by (auto simp: wf_smbus_def dest!: map_of_SomeD)

lemma wf_smbus_regs [simp]:
  "wf_smbus (s\<lparr>m_Status := v\<rparr>) = wf_smbus s" "wf_smbus (s\<lparr>m_Control := v\<rparr>) = wf_smbus s"
  "wf_smbus (s\<lparr>m_Command := v\<rparr>) = wf_smbus s" "wf_smbus (s\<lparr>m_Address := v\<rparr>) = wf_smbus s"
  "wf_smbus (s\<lparr>m_Data0 := v\<rparr>) = wf_smbus s" "wf_smbus (s\<lparr>m_Data1 := v\<rparr>) = wf_smbus s"
  "wf_smbus (s\<lparr>smb_irqs := l\<rparr>) = wf_smbus s"
  by (simp_all add: wf_smbus_def)

lemma ExecuteTransaction_returns:
  assumes "wf_smbus s" and "safe_cycle s"
  shows "returns wf_smbus (ExecuteTransaction s)"
proof (cases "map_of (smb_devices s) (drop_bit 1 (m_Address s) AND 0x7F)")
  case None
  then show ?thesis using assms by (simp add: ExecuteTransaction_def Let_def)
next
  case (Some d)
  have "returns (\<lambda>r. case r of Some s' \<Rightarrow> wf_smbus s' | None \<Rightarrow> True)
      (sm_cycle (m_Control s AND 7) (tst (m_Address s) 0x01) (drop_bit 1 (m_Address s) AND 0x7F) d s)"
    by (rule sm_cycle_returns [OF assms(1) wf_smbus_device [OF assms(1) Some]])
      (use assms(2) in \<open>simp_all add: safe_cycle_def\<close>)
  then show ?thesis
    using assms(1) Some
    by (auto simp: ExecuteTransaction_def Let_def split: option.split elim!: returns_mono)
qed

lemma write_enable_returns:
  assumes "wf_smbus s" and "tst v GE_HOST_STC \<longrightarrow> safe_cycle (s\<lparr>m_Control := ucast v\<rparr>)"
  shows "returns wf_smbus (write_enable v s)"
proof -
  let ?s = "if tst v GE_ABORT then (s\<lparr>m_Control := ucast v\<rparr>)\<lparr>m_Status := m_Status s OR GS_ABRT_STS\<rparr>
    else s\<lparr>m_Control := ucast v\<rparr>"
  have wf: "wf_smbus ?s" using assms(1) by simp
  have "returns wf_smbus (ExecuteTransaction ?s)" if "tst v GE_HOST_STC"
    using ExecuteTransaction_returns [OF wf] assms(2) that by (simp add: safe_cycle_def)
  then show ?thesis using wf
    by (auto simp: write_enable_def Let_def handle_irq_def elim!: returns_mono)
qed

lemma SMBus_PCIIOWrite_returns:
  assumes wf: "wf_smbus s"
    and safe: "port AND 0x3F = SMB_GLOBAL_ENABLE \<Longrightarrow> tst v GE_HOST_STC \<Longrightarrow>
      safe_cycle (s\<lparr>m_Control := ucast v\<rparr>)"
  shows "returns wf_smbus (SMBus_PCIIOWrite i port v sz s)"
proof -
  have "wf_smbus (write_status v s)"
    using wf by (auto simp: write_status_def Let_def handle_irq_def wf_smbus_def)
  moreover have "wf_smbus (s\<lparr>m_Data := (m_Data s)[unat (m_Index s) := w], m_Index := next_index (m_Index s)\<rparr>)" for w
    using wf next_index_less [of "m_Index s"] by (simp add: wf_smbus_def)
  moreover have "unat (m_Index s) < length (m_Data s)" using wf by (simp add: wf_smbus_def)
  ultimately show ?thesis
    using wf write_enable_returns [OF wf, of v] safe
    by (simp add: SMBus_PCIIOWrite_def Let_def aset_def)
qed

lemma SMBus_PCIIORead_returns:
  assumes wf: "wf_smbus s"
  shows "returns (\<lambda>(s, v). wf_smbus s) (SMBus_PCIIORead i port sz s v)"
proof -
  have "wf_smbus (s\<lparr>m_Index := next_index (m_Index s)\<rparr>)" "unat (m_Index s) < length (m_Data s)"
    using wf next_index_less [of "m_Index s"] by (simp_all add: wf_smbus_def)
  then show ?thesis using wf by (simp add: SMBus_PCIIORead_def Let_def aget_def)
qed

lemma wf_SMBus_Reset: "wf_smbus s \<Longrightarrow> wf_smbus (SMBus_Reset s)"
  by (auto simp: wf_smbus_def SMBus_Reset_def wf_sm_ops(2))

section \<open>Properties\<close>

text \<open>C20: the host writes a byte to a device that is an EEPROM, with a byte-data cycle, and
  reads it back with another: the data register has the byte and the status
  shows a completed cycle.\<close>

theorem EEPROM_byte_roundtrip:
  assumes "map_of (smb_devices s) 0x54 = Some (EEPROM buf)" and "length buf = 256"
  shows "\<exists>s1 s2.
    bindr (SMBus_PCIIOWrite 1 4 0xA8 1 s) (\<lambda>s.
    bindr (SMBus_PCIIOWrite 1 8 (ucast (c::u8)) 1 s) (\<lambda>s.
    bindr (SMBus_PCIIOWrite 1 6 (ucast (v::u8)) 1 s) (\<lambda>s.
    SMBus_PCIIOWrite 1 2 0x0A 1 s))) = Inr s1
    \<and> tst (m_Status s1) GS_HCYC_STS
    \<and> map_of (smb_devices s1) 0x54 = Some (EEPROM (buf[unat c := v]))
    \<and> bindr (SMBus_PCIIOWrite 1 6 0 1 s1) (\<lambda>s.
      bindr (SMBus_PCIIOWrite 1 4 0xA9 1 s) (\<lambda>s.
      SMBus_PCIIOWrite 1 2 0x0A 1 s)) = Inr s2
    \<and> SMBus_PCIIORead 1 6 1 s2 0 = Inr (s2, ucast v)"
proof -
  have put: "map_of (map (\<lambda>(a', d'). (a', if a' = a then d else d')) ds) a = Some d"
    if "map_of ds a = Some d0" for ds :: "(u8 \<times> sm_dev) list" and a d d0
    using that by (induction ds) auto
  have bytes: "(ucast (ucast x :: u32) :: u8) = x" for x :: u8
    by (simp add: word_bits bit_simps)
  have status: "(x OR 0x10) AND 0x10 \<noteq> 0" for x :: u8
    by (simp add: word_bits bit_simps)
  show ?thesis
    using assms unat_u8_less [of c]
    by (simp add: SMBus_PCIIOWrite_def write_enable_def ExecuteTransaction_def sm_cycle_def
        register_array_simps put_sm_def put bytes status SMBus_PCIIORead_def Let_def)
qed

definition sample_smbus :: smbus where
  "sample_smbus = xbox_SMBus Revision1_0 (replicate 256 0) (replicate 256 0)"

lemma sample_smbus_devices:
  "map_of (smb_devices sample_smbus) 0x54 = Some (EEPROM (replicate 256 0))"
  by (simp add: sample_smbus_def xbox_SMBus_def SMBus_ConnectDevice_def new_SMBus_def SetEEPROM_def Let_def)

theorem EEPROM_byte_roundtrip_witness:
  "\<exists>s1. bindr (SMBus_PCIIOWrite 1 4 0xA8 1 sample_smbus) (\<lambda>s.
    bindr (SMBus_PCIIOWrite 1 8 (ucast (0x30::u8)) 1 s) (\<lambda>s.
    bindr (SMBus_PCIIOWrite 1 6 (ucast (0x7E::u8)) 1 s) (\<lambda>s.
    SMBus_PCIIOWrite 1 2 0x0A 1 s))) = Inr s1
    \<and> map_of (smb_devices s1) 0x54 = Some (EEPROM ((replicate 256 0)[unat (0x30::u8) := 0x7E]))"
  using EEPROM_byte_roundtrip [OF sample_smbus_devices, of "0x30" "0x7E"] by auto

text \<open>the bus of every hardware model is well formed, and stays so: a register access returns,
  except for word and block cycles that run past the end of an array.\<close>

theorem SMBus_accesses_return:
  assumes wf: "wf_smbus s"
    and safe: "port AND 0x3F = 2 \<Longrightarrow> tst v 0x08 \<Longrightarrow> safe_cycle (s\<lparr>m_Control := ucast v\<rparr>)"
  shows "returns wf_smbus (SMBus_PCIIOWrite i port v sz s)
    \<and> returns (\<lambda>(s', r). wf_smbus s') (SMBus_PCIIORead i port sz s v)
    \<and> wf_smbus (SMBus_Reset s)"
  using SMBus_PCIIOWrite_returns [OF wf safe] SMBus_PCIIORead_returns [OF wf] wf_SMBus_Reset [OF wf]
  by blast

lemma wf_insert_sm:
  "\<forall>(a, d)\<in>set ds. wf_sm d \<Longrightarrow> wf_sm d' \<Longrightarrow> \<forall>(a, d)\<in>set (insert_sm k d' ds). wf_sm d"
  by (induction k d' ds rule: insert_sm.induct) auto

lemma wf_SMBus_ConnectDevice: "wf_smbus s \<Longrightarrow> wf_sm d \<Longrightarrow> wf_smbus (SMBus_ConnectDevice a d s)"
  using wf_insert_sm [of "smb_devices s" "sm_Init d"] wf_sm_ops(1) [of d]
  by (auto simp: SMBus_ConnectDevice_def wf_smbus_def Let_def)

lemma wf_xbox_SMBus: "length junk = 256 \<Longrightarrow> length eeprom = 256 \<Longrightarrow> wf_smbus (xbox_SMBus hw junk eeprom)"
proof -
  assume len: "length junk = 256" "length eeprom = 256"
  have "wf_smbus (snd new_SMBus)" by (simp add: new_SMBus_def wf_smbus_def)
  then show ?thesis using len
    by (auto simp: xbox_SMBus_def Let_def new_SMC_def SetEEPROM_def split: TVEncoder.split
        intro!: wf_SMBus_ConnectDevice)
qed

theorem SMBus_accesses_return_witness:
  "returns wf_smbus (SMBus_PCIIOWrite 1 2 0x0A 1 sample_smbus)"
  using SMBus_accesses_return [of sample_smbus 2 "0x0A" 1 1]
  by (simp add: sample_smbus_def wf_xbox_SMBus safe_cycle_def)

text \<open>an EEPROM block write whose length is above the 32 bytes of the controller's buffer, or that
  ends above the EEPROM's 256 bytes, leaves an array: the length is the guest's.\<close>

theorem EEPROM_block_overrun:
  assumes "map_of (smb_devices s) (drop_bit 1 (m_Address s) AND 0x7F) = Some (EEPROM buf)"
    and "length buf = 256" and "length (m_Data s) = 32"
    and "m_Control s AND 7 = 5" and "\<not> tst (m_Address s) 1"
    and "32 < unat (m_Data0 s) \<or> 256 < unat (m_Command s) + unat (m_Data0 s)"
  shows "ExecuteTransaction s = Inl OutOfBounds"
  using assms by (simp add: ExecuteTransaction_def sm_cycle_def Let_def register_array_simps memcpy_def) auto

theorem EEPROM_block_overrun_witness:
  "ExecuteTransaction (sample_smbus\<lparr>m_Address := 0xA8, m_Control := 5, m_Data0 := 33\<rparr>) = Inl OutOfBounds"
proof -
  have "length (m_Data sample_smbus) = 32"
    using wf_xbox_SMBus [of "replicate 256 0" "replicate 256 0" Revision1_0]
    by (simp add: sample_smbus_def wf_smbus_def)
  then show ?thesis
    by (intro EEPROM_block_overrun [of _ "replicate 256 0"]) (simp_all add: sample_smbus_devices)
qed

text \<open>after the version counter is reset, three reads of the version register spell the version of
  the controller, and the fourth starts again.\<close>

theorem SMC_version_string:
  "let (s1, a) = SMC_ReadByte 1 (SMC_WriteByte 1 0 s);
       (s2, b) = SMC_ReadByte 1 s1;
       (s3, c) = SMC_ReadByte 1 s2
   in [a, b, c] = version_string (m_revision s) \<and> s3 = SMC_WriteByte 1 0 s"
  by (cases "m_revision s") (simp_all add: SMC_ReadByte_def SMC_WriteByte_def Let_def)

text \<open>a read of the error register returns the last error code written, whatever was written to
  other registers in between.\<close>

theorem SMC_error_code:
  assumes "length (m_buffer s) = 256" and "\<forall>(c, v)\<in>set ws. c \<noteq> 0x0E"
  shows "snd (SMC_ReadByte 0x0F (fold (\<lambda>(c, v). SMC_WriteByte c v) ws (SMC_WriteByte 0x0E code s))) = code"
proof -
  have "m_buffer (fold (\<lambda>(c, v). SMC_WriteByte c v) ws s) ! 0x0E = m_buffer s ! 0x0E" for s
    using assms(2)
  proof (induction ws arbitrary: s)
    case (Cons w ws)
    obtain c v where w: "w = (c, v)" by (cases w)
    have "unat c \<noteq> 0x0E" using Cons.prems w by (auto simp: word_unat_eq_iff)
    then show ?case using Cons by (simp add: w SMC_WriteByte_def)
  qed simp
  then show ?thesis using assms(1) by (simp add: SMC_ReadByte_def SMC_WriteByte_def)
qed

theorem SMC_error_code_witness:
  "snd (SMC_ReadByte 0x0F (fold (\<lambda>(c, v). SMC_WriteByte c v) [(0x08, 0x0F)]
     (SMC_WriteByte 0x0E 21 (new_SMC P01)))) = 21"
  using SMC_error_code [of "new_SMC P01" "[(0x08, 0x0F)]" 21] by (simp add: new_SMC_def)

end
