(* ===== verification/PciBoard.thy ===== *)
theory PciBoard
  imports PciBus_Laws SMBus_Laws
begin

text \<open>
  The devices on the console's PCI bus: the host bridge, the MCPX RAM
  controller, the LPC bridge with its interrupt routing and its BIOS ROM, the
  SMBus controller, the audio and the IDE controller (\<open>hw/pci/hostbridge.cpp\<close>,
  \<open>mcpx_ram.cpp\<close>, \<open>lpc.cpp\<close>, \<open>ac97.cpp\<close>, \<open>ide.cpp\<close>, \<open>hw/bus/smbus.cpp\<close>). Calls of
  \<open>IRQ::Handle\<close> by the LPC are results: the number of the line and its level.
  The clock that \<open>PCIIORead\<close> reads is the field \<open>lpc_clock\<close>.
\<close>

section \<open>The LPC bridge\<close>

definition XBOX_ROM_AREA_SIZE :: nat where
  "XBOX_ROM_AREA_SIZE = 16 * 1024 * 1024"

record lpc =
  m_field_pin :: u32
  m_rom :: bytes
  m_bios :: bytes
  m_biosSize :: nat
  m_mcpxROM :: bytes
  m_initMcpxROM :: bool
  lpc_clock :: u32

function replicate_rom :: "nat \<Rightarrow> nat \<Rightarrow> bytes \<Rightarrow> fault + bytes" where
  "replicate_rom addr n rom =
     (if addr < XBOX_ROM_AREA_SIZE
      then if n = 0 then Inl EndlessLoop
           else bindr (memcpy rom addr rom n) (replicate_rom (addr + n) n)
      else Inr rom)"
  by auto
termination by (relation "measure (\<lambda>(addr, n, rom). XBOX_ROM_AREA_SIZE - addr)") auto

declare replicate_rom.simps [simp del]

definition LPC_Reset :: "lpc \<Rightarrow> fault + lpc" where
  "LPC_Reset s =
     bindr (memcpy (m_rom s) 0 (m_bios s) (m_biosSize s)) (\<lambda>rom.
     bindr (replicate_rom (m_biosSize s) (m_biosSize s) rom) (\<lambda>rom.
     if m_initMcpxROM s
     then bindr (memcpy rom (XBOX_ROM_AREA_SIZE - 512) (m_mcpxROM s) 512) (\<lambda>rom. Inr (s\<lparr>m_rom := rom\<rparr>))
     else Inr (s\<lparr>m_rom := rom\<rparr>)))"

definition LPC_Init :: "PCIDevice \<times> lpc \<Rightarrow> fault + PCIDevice \<times> lpc" where
  "LPC_Init = (\<lambda>(d, s).
     let d = fst (RegisterBAR 0 0x100 PCI_BAR_TYPE_IO d) in bindr (LPC_Reset s) (\<lambda>s. Inr (d, s)))"

definition LPC_PCIIORead :: "nat \<Rightarrow> u32 \<Rightarrow> u8 \<Rightarrow> lpc \<Rightarrow> u32 \<Rightarrow> lpc \<times> u32" where
  "LPC_PCIIORead barIndex port sz s value =
     (if barIndex \<noteq> 0 then (s, 0)
      else if port = 0x8008 \<and> sz = 4 then (s, lpc_clock s)
      else if port = 0x80C0 \<and> sz = 1 then
        let pin = (m_field_pin s + 1) AND 1 in (s\<lparr>m_field_pin := pin\<rparr>, push_bit 5 pin)
      else (s, value))"

definition LPC_WriteConfig :: "u32 \<Rightarrow> u32 \<Rightarrow> u8 \<Rightarrow> PCIDevice \<times> lpc \<Rightarrow> fault + PCIDevice \<times> lpc" where
  "LPC_WriteConfig reg value sz = (\<lambda>(d, s).
     bindr (WriteConfig reg value sz d) (\<lambda>d.
       if reg = 0x80 \<and> tst value 2
       then if m_biosSize s < 512 then Inl OutOfBounds
            else bindr (memcpy (m_rom s) (XBOX_ROM_AREA_SIZE - 512) (drop (m_biosSize s - 512) (m_bios s)) 512)
                   (\<lambda>rom. Inr (d, s\<lparr>m_rom := rom\<rparr>))
       else Inr (d, s)))"

text \<open>The lines that the configuration of the LPC routes to.\<close>

definition LPC_HandleIRQ :: "PCIDevice \<Rightarrow> u8 \<Rightarrow> bool \<Rightarrow> (u8 \<times> bool) option" where
  "LPC_HandleIRQ d irqNum level =
     (let routing = rd32 (m_configSpace d) 0x64;
          irq = drop_bit (unat irqNum * 8) routing AND 0xFF
      in if irq = 0 \<or> irq \<ge> 16 then None else Some (ucast irq, level))"

definition LPCIRQMapper_SetIRQ :: "PCIDevice \<Rightarrow> u8 \<Rightarrow> bool \<Rightarrow> fault + (u8 \<times> bool) option" where
  "LPCIRQMapper_SetIRQ d irqNum level =
     (if irqNum < 8 then
        let picIRQ = drop_bit (unat irqNum * 4) (rd32 (m_configSpace d) 0x6C) AND 0xF
        in if picIRQ = 0 then Inr None
           else if picIRQ \<ge> 16 then Inr None else Inr (Some (ucast picIRQ, level))
      else bindr (aget (m_configSpace d) (0x68 + unat (irqNum - 8))) (\<lambda>picIRQ.
        if picIRQ \<ge> 16 then Inr None else Inr (Some (picIRQ, level))))"

section \<open>The devices\<close>

datatype board = HostBridge | MCPXRAM | IDE | AC97 | LPC lpc | SMBusCtl smbus

definition new_HostBridge :: "u16 \<Rightarrow> u16 \<Rightarrow> u8 \<Rightarrow> board leaf" where
  "new_HostBridge vendorID deviceID revisionID =
     (let d = new_PCIDevice PCI_HEADER_TYPE_BRIDGE vendorID deviceID revisionID 0x06 0x00 0x00 0 0
      in (d\<lparr>m_configSpace := wr8 (wr8 (m_configSpace d) PCI_INTERRUPT_PIN 1) 0x87 3\<rparr>, HostBridge))"

definition new_MCPXRAM :: "u16 \<Rightarrow> u16 \<Rightarrow> u8 \<Rightarrow> board leaf" where
  "new_MCPXRAM vendorID deviceID revisionID =
     (new_PCIDevice PCI_HEADER_TYPE_NORMAL vendorID deviceID revisionID 0x05 0x00 0x00 0 0, MCPXRAM)"

definition new_IDE :: "u16 \<Rightarrow> u16 \<Rightarrow> u8 \<Rightarrow> board leaf" where
  "new_IDE vendorID deviceID revisionID =
     (new_PCIDevice PCI_HEADER_TYPE_NORMAL vendorID deviceID revisionID 0x01 0x01 0x8A 0 0, IDE)"

definition new_AC97 :: "u16 \<Rightarrow> u16 \<Rightarrow> u8 \<Rightarrow> board leaf" where
  "new_AC97 vendorID deviceID revisionID =
     (new_PCIDevice PCI_HEADER_TYPE_NORMAL vendorID deviceID revisionID 0x0F 0x02 0x00 0 0, AC97)"

definition new_LPC :: "u16 \<Rightarrow> u16 \<Rightarrow> u8 \<Rightarrow> bytes \<Rightarrow> bytes \<Rightarrow> nat \<Rightarrow> bytes \<Rightarrow> bool \<Rightarrow> board leaf" where
  "new_LPC vendorID deviceID revisionID rom bios biosSize mcpxROM initMcpxROM =
     (new_PCIDevice PCI_HEADER_TYPE_BRIDGE vendorID deviceID revisionID 0x06 0x01 0x00 0 0,
      LPC \<lparr>m_field_pin = 0, m_rom = rom, m_bios = bios, m_biosSize = biosSize,
           m_mcpxROM = mcpxROM, m_initMcpxROM = initMcpxROM, lpc_clock = 0\<rparr>)"

definition HostBridge_Init :: "PCIDevice \<Rightarrow> PCIDevice" where
  "HostBridge_Init d = fst (RegisterBAR 0 (1024 * 1024 * 1024) PCI_BAR_TYPE_MEMORY d)"

definition IDE_Init :: "PCIDevice \<Rightarrow> PCIDevice" where
  "IDE_Init d = fst (RegisterBAR 4 16 PCI_BAR_TYPE_IO d)"

definition AC97_Init :: "PCIDevice \<Rightarrow> PCIDevice" where
  "AC97_Init d =
     (let d = fst (RegisterBAR 0 0x100 PCI_BAR_TYPE_IO d);
          d = fst (RegisterBAR 1 0x80 PCI_BAR_TYPE_IO d)
      in fst (RegisterBAR 2 0x1000 PCI_BAR_TYPE_MEMORY d))"

text \<open>The accesses that only log: the AC97 overrides do not write to \<open>*value\<close>, the others store 0.\<close>

definition HostBridge_PCIMMIORead :: "'p \<Rightarrow> u32 \<Rightarrow> 'p \<times> u32" where
  "HostBridge_PCIMMIORead d value = (d, 0)"

definition IDE_PCIIORead :: "'p \<Rightarrow> u32 \<Rightarrow> 'p \<times> u32" where
  "IDE_PCIIORead d value = (d, 0)"

definition AC97_read :: "'p \<Rightarrow> u32 \<Rightarrow> 'p \<times> u32" where
  "AC97_read d value = (d, value)"

text \<open>The virtual functions of the devices.\<close>

fun board_Init :: "board leaf \<Rightarrow> fault + board leaf" where
  "board_Init (d, HostBridge) = Inr (HostBridge_Init d, HostBridge)"
| "board_Init (d, MCPXRAM) = Inr (d, MCPXRAM)"
| "board_Init (d, IDE) = Inr (IDE_Init d, IDE)"
| "board_Init (d, AC97) = Inr (AC97_Init d, AC97)"
| "board_Init (d, LPC s) = bindr (LPC_Init (d, s)) (\<lambda>(d, s). Inr (d, LPC s))"
| "board_Init (d, SMBusCtl s) = Inr (SMBus_Init d, SMBusCtl s)"

fun board_Reset :: "board leaf \<Rightarrow> fault + board leaf" where
  "board_Reset (d, LPC s) = bindr (LPC_Reset s) (\<lambda>s. Inr (d, LPC s))"
| "board_Reset (d, SMBusCtl s) = Inr (d, SMBusCtl (SMBus_Reset s))"
| "board_Reset (d, x) = Inr (d, x)"

fun board_WriteConfig :: "u32 \<Rightarrow> u32 \<Rightarrow> u8 \<Rightarrow> board leaf \<Rightarrow> fault + board leaf" where
  "board_WriteConfig reg value sz (d, LPC s) =
     bindr (LPC_WriteConfig reg value sz (d, s)) (\<lambda>(d, s). Inr (d, LPC s))"
| "board_WriteConfig reg value sz (d, x) = bindr (WriteConfig reg value sz d) (\<lambda>d. Inr (d, x))"

fun board_IORead :: "nat \<Rightarrow> u32 \<Rightarrow> u8 \<Rightarrow> board leaf \<Rightarrow> u32 \<Rightarrow> fault + board leaf \<times> u32" where
  "board_IORead i a sz (d, LPC s) value =
     (let (s, v) = LPC_PCIIORead i a sz s value in Inr ((d, LPC s), v))"
| "board_IORead i a sz (d, SMBusCtl s) value =
     bindr (SMBus_PCIIORead i a sz s value) (\<lambda>(s, v). Inr ((d, SMBusCtl s), v))"
| "board_IORead i a sz (d, AC97) value = Inr (AC97_read (d, AC97) value)"
| "board_IORead i a sz (d, IDE) value = Inr (IDE_PCIIORead (d, IDE) value)"
| "board_IORead i a sz (d, x) value = Inr (PCIDevice_read i a sz (d, x) value)"

fun board_IOWrite :: "nat \<Rightarrow> u32 \<Rightarrow> u32 \<Rightarrow> u8 \<Rightarrow> board leaf \<Rightarrow> fault + board leaf" where
  "board_IOWrite i a value sz (d, SMBusCtl s) =
     bindr (SMBus_PCIIOWrite i a value sz s) (\<lambda>s. Inr (d, SMBusCtl s))"
| "board_IOWrite i a value sz (d, x) = Inr (PCIDevice_write i a value sz (d, x))"

fun board_MMIORead :: "nat \<Rightarrow> u32 \<Rightarrow> u8 \<Rightarrow> board leaf \<Rightarrow> u32 \<Rightarrow> fault + board leaf \<times> u32" where
  "board_MMIORead i a sz (d, AC97) value = Inr (AC97_read (d, AC97) value)"
| "board_MMIORead i a sz (d, HostBridge) value = Inr (HostBridge_PCIMMIORead (d, HostBridge) value)"
| "board_MMIORead i a sz (d, x) value = Inr (PCIDevice_read i a sz (d, x) value)"

definition board_MMIOWrite :: "nat \<Rightarrow> u32 \<Rightarrow> u32 \<Rightarrow> u8 \<Rightarrow> board leaf \<Rightarrow> fault + board leaf" where
  "board_MMIOWrite i a value sz p = Inr (PCIDevice_write i a value sz p)"

lemmas board_simps =
  HostBridge_Init_def IDE_Init_def AC97_Init_def HostBridge_PCIMMIORead_def IDE_PCIIORead_def AC97_read_def

definition board_ops :: "board leaf_ops" where
  "board_ops = \<lparr>leaf_Init = board_Init, leaf_Reset = board_Reset, leaf_WriteConfig = board_WriteConfig,
     leaf_IORead = board_IORead, leaf_IOWrite = board_IOWrite,
     leaf_MMIORead = board_MMIORead, leaf_MMIOWrite = board_MMIOWrite\<rparr>"

section \<open>The console's bus\<close>

text \<open>
  The connections of \<open>InitHardware\<close> to the PCI bus, of the devices modelled here
  (the USB, network, APU and NV2A devices are not), and the choice of the
  interrupt mapper.
\<close>

fun connect_all :: "(u32 \<times> board pci_dev) list \<Rightarrow> board pci_bus \<Rightarrow> fault + board pci_bus" where
  "connect_all [] b = Inr b"
| "connect_all ((k, p) # ds) b = bindr (ConnectDevice board_ops k p b) (connect_all ds)"

definition leaf_dev :: "'x leaf \<Rightarrow> 'x pci_dev" where
  "leaf_dev p = Leaf (fst p) (snd p)"

definition xbox_devices :: "smbus \<Rightarrow> bytes \<Rightarrow> bytes \<Rightarrow> bytes \<Rightarrow> bool \<Rightarrow> (u32 \<times> board pci_dev) list" where
  "xbox_devices smb rom bios mcpxROM debugKit =
     [(PCI_DEVID 0 (PCI_DEVFN 0 0), leaf_dev (new_HostBridge 0x10DE 0x02A5 0xA1)),
      (PCI_DEVID 0 (PCI_DEVFN 0 3), leaf_dev (new_MCPXRAM 0x10DE 0x02A6 0xA1)),
      (PCI_DEVID 0 (PCI_DEVFN 1 0),
        leaf_dev (new_LPC 0x10DE 0x01B2 0xD4 rom bios (length bios) mcpxROM (\<not> debugKit))),
      (PCI_DEVID 0 (PCI_DEVFN 1 1), Leaf (fst new_SMBus) (SMBusCtl smb)),
      (PCI_DEVID 0 (PCI_DEVFN 6 0), leaf_dev (new_AC97 0x10DE 0x01B1 0xD2)),
      (PCI_DEVID 0 (PCI_DEVFN 8 0), new_bridge PCIBridgeDevice 0x10DE 0x01B8 0xD2),
      (PCI_DEVID 0 (PCI_DEVFN 9 0), leaf_dev (new_IDE 0x10DE 0x01BC 0xD2)),
      (PCI_DEVID 0 (PCI_DEVFN 30 0), new_bridge AGPBridgeDevice 0x10DE 0x01B7 0xA1)]"

definition xbox_PCIBus :: "smbus \<Rightarrow> bytes \<Rightarrow> bytes \<Rightarrow> bytes \<Rightarrow> bool \<Rightarrow> fault + board pci_bus" where
  "xbox_PCIBus smb rom bios mcpxROM debugKit =
     bindr (connect_all (xbox_devices smb rom bios mcpxROM debugKit) new_PCIBus)
       (\<lambda>b. Inr (ConfigureIRQs LPCIRQMapper 12 b))"

end
