(* ===== verification/Fifo.thy ===== *)
theory Fifo
  imports Prelude
begin

text \<open>
  The ring buffer \<open>util/fifo.h\<close>, the contract of a bounded queue that its users
  rely on, and its proof. The array that the constructor allocates but does
  not initialise is given by its creator.
\<close>

section \<open>The ring buffer\<close>

record 'a fifo =
  m_data :: "'a list"
  m_capacity :: u32
  m_head :: u32
  m_num :: u32

definition new_Fifo :: "'a list \<Rightarrow> u32 \<Rightarrow> 'a fifo" where
  "new_Fifo raw cap = \<lparr>m_data = raw, m_capacity = cap, m_head = 0, m_num = 0\<rparr>"

definition Fifo_Clear :: "'a fifo \<Rightarrow> 'a fifo" where
  "Fifo_Clear q = q\<lparr>m_num := 0\<rparr>"

definition Fifo_Count :: "'a fifo \<Rightarrow> u32" where
  "Fifo_Count q = m_num q"

definition Fifo_IsEmpty :: "'a fifo \<Rightarrow> bool" where
  "Fifo_IsEmpty q \<longleftrightarrow> m_num q = 0"

definition Fifo_IsFull :: "'a fifo \<Rightarrow> bool" where
  "Fifo_IsFull q \<longleftrightarrow> m_num q = m_capacity q"

definition Fifo_Push :: "'a \<Rightarrow> 'a fifo \<Rightarrow> fault + 'a fifo \<times> bool" where
  "Fifo_Push x q =
     (if m_num q = m_capacity q then Inr (q, False)
      else bindr (aset (m_data q) (unat ((m_head q + m_num q) mod m_capacity q)) x) (\<lambda>d.
             Inr (q\<lparr>m_data := d, m_num := m_num q + 1\<rparr>, True)))"

text \<open>\<open>Pop(data)\<close>: the second component of the result is what \<open>*data\<close> holds afterwards.\<close>

definition Fifo_Pop :: "'a \<Rightarrow> 'a fifo \<Rightarrow> fault + 'a fifo \<times> 'a \<times> bool" where
  "Fifo_Pop x q =
     (if m_num q = 0 then Inr (q, x, False)
      else bindr (aget (m_data q) (unat (m_head q))) (\<lambda>x.
             Inr (q\<lparr>m_head := (m_head q + 1) mod m_capacity q, m_num := m_num q - 1\<rparr>, x, True)))"

definition Fifo_Discard :: "'a fifo \<Rightarrow> 'a fifo \<times> bool" where
  "Fifo_Discard q =
     (if m_num q = 0 then (q, False)
      else (q\<lparr>m_head := (m_head q + 1) mod m_capacity q, m_num := m_num q - 1\<rparr>, True))"

section \<open>The contract of a bounded queue\<close>

locale bounded_queue =
  fixes good :: "'q \<Rightarrow> bool" and items :: "'q \<Rightarrow> 'a list" and room :: "'q \<Rightarrow> nat"
    and push :: "'a \<Rightarrow> 'q \<Rightarrow> fault + 'q \<times> bool"
    and pop :: "'a \<Rightarrow> 'q \<Rightarrow> fault + 'q \<times> 'a \<times> bool"
    and discard :: "'q \<Rightarrow> 'q \<times> bool" and clear :: "'q \<Rightarrow> 'q"
  assumes bounded: "good q \<Longrightarrow> length (items q) \<le> room q \<and> 0 < room q"
    and push: "good q \<Longrightarrow> returns (\<lambda>(q', ok). good q' \<and> room q' = room q \<and> ok = (length (items q) < room q)
        \<and> items q' = (if ok then items q @ [x] else items q)) (push x q)"
    and pop: "good q \<Longrightarrow> returns (\<lambda>(q', y, ok). good q' \<and> room q' = room q \<and> ok = (items q \<noteq> [])
        \<and> y = (if ok then hd (items q) else x) \<and> items q' = tl (items q)) (pop x q)"
    and discard: "good q \<Longrightarrow> (case discard q of (q', ok) \<Rightarrow>
        good q' \<and> room q' = room q \<and> ok = (items q \<noteq> []) \<and> items q' = tl (items q))"
    and clear: "good q \<Longrightarrow> good (clear q) \<and> room (clear q) = room q \<and> items (clear q) = []"
begin

text \<open>Pushing after making room loses the oldest item of a full queue and nothing else.\<close>

lemma push_over:
  assumes "good q"
  shows "returns (\<lambda>(q', ok). ok \<and> good q' \<and> room q' = room q
      \<and> items q' = (if length (items q) = room q then tl (items q) else items q) @ [x])
    (push x (if length (items q) = room q then fst (discard q) else q))"
proof (cases "length (items q) = room q")
  case True
  obtain q1 ok where d: "discard q = (q1, ok)" by (cases "discard q")
  then have q1: "good q1" "room q1 = room q" "items q1 = tl (items q)"
    using discard [OF assms] by simp_all
  then have "length (items q1) < room q1"
    using True bounded [OF assms] by simp
  then show ?thesis using push [OF q1(1), of x] d q1 True by (auto elim: returns_mono)
next
  case False
  then have "length (items q) < room q" using bounded [OF assms] by simp
  then show ?thesis using push [OF assms, of x] False by (auto elim: returns_mono)
qed

text \<open>Pushing several items fills the room and drops what does not fit.\<close>

fun push_all :: "'a list \<Rightarrow> 'q \<Rightarrow> fault + 'q" where
  "push_all [] q = Inr q"
| "push_all (x # xs) q = bindr (push x q) (\<lambda>(q, ok). push_all xs q)"

lemma push_all:
  "good q \<Longrightarrow> returns (\<lambda>q'. good q' \<and> room q' = room q
     \<and> items q' = take (room q) (items q @ xs)) (push_all xs q)"
proof (induction xs arbitrary: q)
  case Nil
  then show ?case using bounded by simp
next
  case (Cons x xs)
  have le: "length (items q) \<le> room q" using bounded Cons.prems by simp
  have "returns (\<lambda>q''. good q'' \<and> room q'' = room q \<and> items q'' = take (room q) (items q @ x # xs))
      (push_all xs q')"
    if "good q'" "room q' = room q" "ok = (length (items q) < room q)"
      "items q' = (if ok then items q @ [x] else items q)" for q' ok
    using Cons.IH [OF that(1)] by (rule returns_mono) (use that le in \<open>auto simp: take_Cons' split: if_splits\<close>)
  then show ?case using push [OF Cons.prems, of x] by (auto elim!: returns_mono)
qed

text \<open>Popping as many items as were pushed returns them in order.\<close>

fun pop_all :: "nat \<Rightarrow> 'a \<Rightarrow> 'q \<Rightarrow> fault + 'q \<times> 'a list" where
  "pop_all 0 x q = Inr (q, [])"
| "pop_all (Suc n) x q =
     bindr (pop x q) (\<lambda>(q, y, ok). bindr (pop_all n x q) (\<lambda>(q, ys). Inr (q, y # ys)))"

lemma pop_all:
  "good q \<Longrightarrow> n \<le> length (items q) \<Longrightarrow> returns (\<lambda>(q', ys). good q' \<and> room q' = room q
     \<and> ys = take n (items q) \<and> items q' = drop n (items q)) (pop_all n x q)"
proof (induction n arbitrary: q)
  case (Suc n)
  then have ne: "items q \<noteq> []" by auto
  have "returns (\<lambda>(q'', ys). good q'' \<and> room q'' = room q \<and> y # ys = take (Suc n) (items q)
      \<and> items q'' = drop (Suc n) (items q)) (pop_all n x q')"
    if "good q'" "room q' = room q" "y = hd (items q)" "items q' = tl (items q)" for q' y
    using Suc.IH [OF that(1)] Suc.prems(2) that ne
    by (cases "items q") (auto elim: returns_mono)
  then show ?case using pop [OF Suc.prems(1), of x] ne by (auto elim!: returns_mono)
qed simp

lemma fifo_order:
  assumes "good q" and "items q = []" and "length xs \<le> room q"
  shows "returns (\<lambda>(q', ys). ys = xs \<and> items q' = []) (bindr (push_all xs q) (pop_all (length xs) x))"
  using assms(2,3) pop_all
  by (auto simp del: pop_all.simps push_all.simps
      intro!: returns_mono [OF push_all [OF assms(1)]] returns_mono [OF pop_all])

end

section \<open>The ring buffer keeps the contract\<close>

definition wf_fifo :: "'a fifo \<Rightarrow> bool" where
  "wf_fifo q \<longleftrightarrow> 0 < m_capacity q \<and> unat (m_capacity q) < 2 ^ 31 \<and> length (m_data q) = unat (m_capacity q)
     \<and> m_head q < m_capacity q \<and> m_num q \<le> m_capacity q"

definition items :: "'a fifo \<Rightarrow> 'a list" where
  "items q = map (\<lambda>i. m_data q ! ((unat (m_head q) + i) mod unat (m_capacity q))) [0..<unat (m_num q)]"

definition room :: "'a fifo \<Rightarrow> nat" where
  "room q = unat (m_capacity q)"

lemma length_items [simp]: "length (items q) = unat (m_num q)"
  by (simp add: items_def)

lemma items_Nil: "items q = [] \<longleftrightarrow> m_num q = 0"
  by (metis length_0_conv length_items unat_eq_zero)

lemma wf_fifoD:
  assumes "wf_fifo q"
  shows "0 < unat (m_capacity q)" "unat (m_head q) < unat (m_capacity q)"
    "unat (m_num q) \<le> unat (m_capacity q)" "unat (m_capacity q) < 2147483648"
    "length (m_data q) = unat (m_capacity q)"
  using assms unfolding wf_fifo_def by (auto simp: word_less_nat_alt word_le_nat_alt)

lemma unat_index:
  "wf_fifo q \<Longrightarrow> unat ((m_head q + m_num q) mod m_capacity q) = (unat (m_head q) + unat (m_num q)) mod unat (m_capacity q)"
  using wf_fifoD [of q] by (simp add: unat_mod unat_word_ariths)

lemma unat_next:
  "wf_fifo q \<Longrightarrow> unat ((m_head q + 1) mod m_capacity q) = (unat (m_head q) + 1) mod unat (m_capacity q)"
  using wf_fifoD [of q] by (simp add: unat_mod unat_word_ariths)

lemma mod_add_inj:
  fixes h c i n :: nat
  assumes "(h + n) mod c = (h + i) mod c" "i < n" "n < c"
  shows False
proof -
  have "c dvd (h + n) - (h + i)" using assms by (metis add_le_mono1 less_imp_le mod_eq_dvd_iff_nat nat_add_left_cancel_le)
  then show False using assms by (auto dest: dvd_imp_le)
qed

lemma push_law:
  assumes wf: "wf_fifo q"
  shows "returns (\<lambda>(q', ok). wf_fifo q' \<and> room q' = room q \<and> ok = (length (items q) < room q)
    \<and> items q' = (if ok then items q @ [x] else items q)) (Fifo_Push x q)"
proof (cases "m_num q = m_capacity q")
  case True
  then show ?thesis using wf by (simp add: Fifo_Push_def room_def)
next
  case False
  note D = wf_fifoD [OF wf]
  have lt: "unat (m_num q) < unat (m_capacity q)"
    using D(3) False by (metis le_neq_implies_less word_unat_eq_iff)
  let ?j = "(unat (m_head q) + unat (m_num q)) mod unat (m_capacity q)"
  have j: "?j < length (m_data q)" using D by simp
  have suc: "unat (m_num q + 1) = unat (m_num q) + 1"
    using lt D(4) by (simp add: unat_word_ariths)
  let ?q = "q\<lparr>m_data := (m_data q)[?j := x], m_num := m_num q + 1\<rparr>"
  have "wf_fifo ?q"
    using wf lt suc by (simp add: wf_fifo_def word_le_nat_alt)
  moreover have "items ?q = items q @ [x]"
    using j lt by (auto simp: items_def suc nth_list_update dest: mod_add_inj)
  ultimately show ?thesis
    using False j lt by (simp add: Fifo_Push_def aset_def unat_index [OF wf] room_def)
qed

lemma advance:
  assumes wf: "wf_fifo q" and "m_num q \<noteq> 0"
  defines "q' \<equiv> q\<lparr>m_head := (m_head q + 1) mod m_capacity q, m_num := m_num q - 1\<rparr>"
  shows "wf_fifo q' \<and> items q' = tl (items q) \<and> hd (items q) = m_data q ! unat (m_head q)"
proof -
  note D = wf_fifoD [OF wf]
  have pos: "0 < unat (m_num q)" using assms(2) by (simp add: unat_gt_0)
  have pred: "unat (m_num q - 1) = unat (m_num q) - 1"
    using assms(2) by (simp add: unat_minus_one)
  have "unat ((m_head q + 1) mod m_capacity q) < unat (m_capacity q)"
    using D(1) by (simp add: unat_next [OF wf])
  then have "wf_fifo q'"
    using wf D pred by (simp add: wf_fifo_def q'_def word_less_nat_alt word_le_nat_alt)
  moreover have "items q' = tl (items q)"
    by (rule nth_equalityI)
      (auto simp: q'_def pred unat_next [OF wf] items_def nth_tl mod_simps add.assoc)
  moreover have "hd (items q) = m_data q ! unat (m_head q)"
    using pos D(2) by (simp add: items_def upt_conv_Cons)
  ultimately show ?thesis by simp
qed

lemma empty_tl: "m_num q = 0 \<Longrightarrow> tl (items q) = items q"
  by (simp add: items_def)

lemma pop_law:
  assumes wf: "wf_fifo q"
  shows "returns (\<lambda>(q', y, ok). wf_fifo q' \<and> room q' = room q \<and> ok = (items q \<noteq> [])
    \<and> y = (if ok then hd (items q) else x) \<and> items q' = tl (items q)) (Fifo_Pop x q)"
  using advance [OF wf] wf_fifoD [OF wf] wf
  by (auto simp: Fifo_Pop_def aget_def items_Nil room_def empty_tl)

lemma discard_law:
  "wf_fifo q \<Longrightarrow> (case Fifo_Discard q of (q', ok) \<Rightarrow>
     wf_fifo q' \<and> room q' = room q \<and> ok = (items q \<noteq> []) \<and> items q' = tl (items q))"
  using advance [of q] by (auto simp: Fifo_Discard_def items_Nil room_def empty_tl)

interpretation fifo: bounded_queue wf_fifo items room Fifo_Push Fifo_Pop Fifo_Discard Fifo_Clear
proof unfold_locales
  show "wf_fifo q \<Longrightarrow> length (items q) \<le> room q \<and> 0 < room q" for q :: "'a fifo"
    using wf_fifoD [of q] by (simp add: room_def)
  show "wf_fifo q \<Longrightarrow> wf_fifo (Fifo_Clear q) \<and> room (Fifo_Clear q) = room q \<and> items (Fifo_Clear q) = []"
    for q :: "'a fifo"
    by (simp add: wf_fifo_def Fifo_Clear_def room_def items_def)
qed (fact push_law pop_law discard_law)+

lemma wf_new_Fifo:
  "length raw = unat cap \<Longrightarrow> 0 < unat cap \<Longrightarrow> unat cap < 2 ^ 31 \<Longrightarrow>
   wf_fifo (new_Fifo raw cap) \<and> items (new_Fifo raw cap) = [] \<and> room (new_Fifo raw cap) = unat cap"
  by (simp add: wf_fifo_def new_Fifo_def items_def room_def word_less_nat_alt)

lemma fifo_queries:
  "wf_fifo q \<Longrightarrow> unat (Fifo_Count q) = length (items q)"
  "wf_fifo q \<Longrightarrow> Fifo_IsEmpty q \<longleftrightarrow> items q = []"
  "wf_fifo q \<Longrightarrow> Fifo_IsFull q \<longleftrightarrow> length (items q) = room q"
  by (simp_all add: Fifo_Count_def Fifo_IsEmpty_def Fifo_IsFull_def items_Nil room_def word_unat_eq_iff)

lemma fifo_Clear [simp]:
  "wf_fifo q \<Longrightarrow> wf_fifo (Fifo_Clear q)" "wf_fifo q \<Longrightarrow> room (Fifo_Clear q) = room q"
  "items (Fifo_Clear q) = []"
  by (simp_all add: wf_fifo_def Fifo_Clear_def room_def items_def)

end
