(* ===== verification/Serial.thy ===== *)
theory Serial
  imports Fifo
begin

text \<open>
  The 16550A serial port, \<open>hw/basic/serial.cpp\<close>, with the delayed calls of
  \<open>util/invoke_later.cpp\<close> and the character drivers \<open>char.h\<close>, \<open>char_null.cpp\<close> and
  \<open>win32/char_serial.cpp\<close>. Calls of \<open>m_irqHandler->HandleIRQ\<close> are appended to
  \<open>irq_trace\<close>, the host's clock is the field \<open>host_nanos\<close>, and a driver is a
  record of functions on its own state. The C \<open>int\<close>s are unbounded: each stays
  within a few units of zero or is a constant of the sources. A timer is its
  \<open>InvokeLater\<close> object; when a thread of it gets to run is left to the steps of
  \<open>Serial_Laws\<close>.
\<close>

section \<open>Delayed calls\<close>

record InvokeLater =
  m_running :: bool
  m_primed :: bool
  m_targetExpiration :: u64

definition new_InvokeLater :: InvokeLater where
  "new_InvokeLater = \<lparr>m_running = False, m_primed = False, m_targetExpiration = 0\<rparr>"

definition InvokeLater_Start :: "InvokeLater \<Rightarrow> InvokeLater" where
  "InvokeLater_Start t = (if m_running t then t else t\<lparr>m_running := True\<rparr>)"

definition InvokeLater_Cancel :: "InvokeLater \<Rightarrow> InvokeLater" where
  "InvokeLater_Cancel t = t\<lparr>m_primed := False\<rparr>"

definition InvokeLater_Stop :: "InvokeLater \<Rightarrow> InvokeLater" where
  "InvokeLater_Stop t = InvokeLater_Cancel (t\<lparr>m_running := False\<rparr>)"

definition InvokeLater_Set :: "u64 \<Rightarrow> InvokeLater \<Rightarrow> InvokeLater" where
  "InvokeLater_Set expiration t =
     (let t = InvokeLater_Cancel t in t\<lparr>m_targetExpiration := expiration, m_primed := True\<rparr>)"

text \<open>The tests of a round of \<open>Run\<close> once it has waited; the call leaves the timer as it is.\<close>

definition InvokeLater_fires :: "InvokeLater \<Rightarrow> bool" where
  "InvokeLater_fires t \<longleftrightarrow> m_running t \<and> m_primed t"

section \<open>Character drivers\<close>

record SerialParams =
  baudRate :: int
  divider :: int
  parity :: char
  dataBits :: int
  stopBits :: int

record 'c chr_ops =
  chr_Write :: "bytes \<Rightarrow> 'c \<Rightarrow> 'c \<times> int"
  chr_AcceptInput :: "'c \<Rightarrow> 'c"
  chr_Stop :: "'c \<Rightarrow> 'c"
  chr_SetBreakEnable :: "bool \<Rightarrow> 'c \<Rightarrow> 'c"
  chr_SetSerialParameters :: "SerialParams \<Rightarrow> 'c \<Rightarrow> 'c"

definition null_chr_driver :: "unit chr_ops" where
  "null_chr_driver = \<lparr>chr_Write = \<lambda>buf c. (c, 1), chr_AcceptInput = \<lambda>c. c, chr_Stop = \<lambda>c. c,
     chr_SetBreakEnable = \<lambda>b c. c, chr_SetSerialParameters = \<lambda>p c. c\<rparr>"

text \<open>
  The Windows driver: what it has passed to \<open>m_comm->Write\<close>, whether \<open>m_comm\<close> is
  stopped, and the settings it has applied.
\<close>

datatype comm_parity = Parity_Even | Parity_Odd | Parity_None

record win32_serial =
  comm_written :: bytes
  comm_stopped :: bool
  m_open :: bool
  comm_baudRate :: int
  comm_byteSize :: int
  comm_two_stop_bits :: bool
  comm_parity :: comm_parity

definition Win32_Write :: "bytes \<Rightarrow> win32_serial \<Rightarrow> win32_serial \<times> int" where
  "Win32_Write buf c = (c\<lparr>comm_written := comm_written c @ buf\<rparr>, int (length buf))"

definition Win32_Close :: "win32_serial \<Rightarrow> win32_serial" where
  "Win32_Close c = c\<lparr>comm_stopped := True, m_open := False\<rparr>"

definition Win32_SetSerialParameters :: "SerialParams \<Rightarrow> win32_serial \<Rightarrow> win32_serial" where
  "Win32_SetSerialParameters p c =
     (let c = c\<lparr>comm_baudRate := baudRate p div divider p, comm_byteSize := dataBits p,
                comm_two_stop_bits := (stopBits p \<noteq> 1)\<rparr>
      in if parity p = CHR ''E'' then c\<lparr>comm_parity := Parity_Even\<rparr>
         else if parity p = CHR ''O'' then c\<lparr>comm_parity := Parity_Odd\<rparr>
         else if parity p = CHR ''N'' then c\<lparr>comm_parity := Parity_None\<rparr>
         else c)"

definition win32_driver :: "win32_serial chr_ops" where
  "win32_driver = \<lparr>chr_Write = Win32_Write, chr_AcceptInput = \<lambda>c. c, chr_Stop = Win32_Close,
     chr_SetBreakEnable = \<lambda>b c. c, chr_SetSerialParameters = Win32_SetSerialParameters\<rparr>"

section \<open>Registers\<close>

abbreviation UART_FIFO_LENGTH :: u32 where "UART_FIFO_LENGTH \<equiv> 16"
abbreviation UART_LCR_DLAB :: u8 where "UART_LCR_DLAB \<equiv> 0x80"
abbreviation UART_IER_MSI :: u8 where "UART_IER_MSI \<equiv> 0x08"
abbreviation UART_IER_RLSI :: u8 where "UART_IER_RLSI \<equiv> 0x04"
abbreviation UART_IER_THRI :: u8 where "UART_IER_THRI \<equiv> 0x02"
abbreviation UART_IER_RDI :: u8 where "UART_IER_RDI \<equiv> 0x01"
abbreviation UART_IIR_NO_INT :: u8 where "UART_IIR_NO_INT \<equiv> 0x01"
abbreviation UART_IIR_ID :: u32 where "UART_IIR_ID \<equiv> 0x06"
abbreviation UART_IIR_MSI :: u8 where "UART_IIR_MSI \<equiv> 0x00"
abbreviation UART_IIR_THRI :: u8 where "UART_IIR_THRI \<equiv> 0x02"
abbreviation UART_IIR_RDI :: u8 where "UART_IIR_RDI \<equiv> 0x04"
abbreviation UART_IIR_RLSI :: u8 where "UART_IIR_RLSI \<equiv> 0x06"
abbreviation UART_IIR_CTI :: u8 where "UART_IIR_CTI \<equiv> 0x0C"
abbreviation UART_IIR_FE :: u8 where "UART_IIR_FE \<equiv> 0xC0"
abbreviation UART_MCR_LOOP :: u8 where "UART_MCR_LOOP \<equiv> 0x10"
abbreviation UART_MCR_OUT2 :: u8 where "UART_MCR_OUT2 \<equiv> 0x08"
abbreviation UART_MSR_ANY_DELTA :: u8 where "UART_MSR_ANY_DELTA \<equiv> 0x0F"
abbreviation UART_LSR_TEMT :: u8 where "UART_LSR_TEMT \<equiv> 0x40"
abbreviation UART_LSR_THRE :: u8 where "UART_LSR_THRE \<equiv> 0x20"
abbreviation UART_LSR_BI :: u8 where "UART_LSR_BI \<equiv> 0x10"
abbreviation UART_LSR_OE :: u8 where "UART_LSR_OE \<equiv> 0x02"
abbreviation UART_LSR_DR :: u8 where "UART_LSR_DR \<equiv> 0x01"
abbreviation UART_LSR_INT_ANY :: u8 where "UART_LSR_INT_ANY \<equiv> 0x1E"
abbreviation UART_FCR_XFR :: u8 where "UART_FCR_XFR \<equiv> 0x04"
abbreviation UART_FCR_RFR :: u8 where "UART_FCR_RFR \<equiv> 0x02"
abbreviation UART_FCR_FE :: u8 where "UART_FCR_FE \<equiv> 0x01"
abbreviation MAX_XMIT_RETRY :: int where "MAX_XMIT_RETRY \<equiv> 4"
abbreviation SEC_TO_NANO :: u64 where "SEC_TO_NANO \<equiv> 1000000000"

record 'c serial =
  m_ioBase :: u32
  m_divider :: u16
  m_rbr :: u8
  m_thr :: u8
  m_tsr :: u8
  m_ier :: u8
  m_iir :: u8
  m_lcr :: u8
  m_mcr :: u8
  m_lsr :: u8
  m_msr :: u8
  m_scr :: u8
  m_fcr :: u8
  m_thr_ipending :: int
  m_chr :: 'c
  m_lastBreakEnable :: bool
  m_baudbase :: int
  m_tsrRetry :: int
  m_irq :: u8
  m_lastXmitTs :: u64
  m_recvFifo :: "u8 fifo"
  m_xmitFifo :: "u8 fifo"
  m_recvFifoITL :: u8
  m_fifoTimeoutTimer :: InvokeLater
  m_timeoutIpending :: int
  m_charTransmitTime :: u64
  m_pollMsl :: int
  m_modemStatusPoll :: InvokeLater
  m_active :: bool
  irq_trace :: "(u8 \<times> bool) list"
  host_nanos :: u64

section \<open>Interrupts and parameters\<close>

definition Serial_UpdateIRQ :: "'c serial \<Rightarrow> 'c serial" where
  "Serial_UpdateIRQ s =
     (let tmp_iir =
        (if tst (m_ier s) UART_IER_RLSI \<and> tst (m_lsr s) UART_LSR_INT_ANY then UART_IIR_RLSI
         else if tst (m_ier s) UART_IER_RDI \<and> m_timeoutIpending s \<noteq> 0 then UART_IIR_CTI
         else if tst (m_ier s) UART_IER_RDI \<and> tst (m_lsr s) UART_LSR_DR
           \<and> (\<not> tst (m_fcr s) UART_FCR_FE \<or> Fifo_Count (m_recvFifo s) \<ge> ucast (m_recvFifoITL s))
           then UART_IIR_RDI
         else if tst (m_ier s) UART_IER_THRI \<and> m_thr_ipending s \<noteq> 0 then UART_IIR_THRI
         else if tst (m_ier s) UART_IER_MSI \<and> tst (m_msr s) UART_MSR_ANY_DELTA then UART_IIR_MSI
         else UART_IIR_NO_INT)
      in s\<lparr>m_iir := tmp_iir OR (m_iir s AND 0xF0),
           irq_trace := irq_trace s @ [(m_irq s, tmp_iir \<noteq> UART_IIR_NO_INT)]\<rparr>)"

definition UpdateMSL :: "'c serial \<Rightarrow> 'c serial" where
  "UpdateMSL s = s\<lparr>m_modemStatusPoll := InvokeLater_Cancel (m_modemStatusPoll s), m_pollMsl := -1\<rparr>"

definition serial_params :: "'c serial \<Rightarrow> SerialParams" where
  "serial_params s = \<lparr>baudRate = m_baudbase s, divider = uint (m_divider s),
     parity = (if tst (m_lcr s) 0x08 then (if tst (m_lcr s) 0x10 then CHR ''E'' else CHR ''O'') else CHR ''N''),
     dataBits = uint (m_lcr s AND 0x03) + 5,
     stopBits = (if tst (m_lcr s) 0x04 then 2 else 1)\<rparr>"

definition UpdateParameters :: "'c chr_ops \<Rightarrow> 'c serial \<Rightarrow> fault + 'c serial" where
  "UpdateParameters ops s =
     (if m_divider s = 0 then Inr s
      else
        let params = serial_params s;
            frameSize = (if tst (m_lcr s) 0x08 then 2 else 1) + dataBits params + stopBits params;
            rate = word_of_int (baudRate params) :: u64
        in if rate = 0 then Inl DivideByZero
           else Inr (s\<lparr>m_charTransmitTime := host_nanos s div rate div ucast (m_divider s) * word_of_int frameSize,
                       m_chr := chr_SetSerialParameters ops params (m_chr s)\<rparr>))"

section \<open>Reception\<close>

definition RecvFifoPut :: "u8 \<Rightarrow> 'c serial \<Rightarrow> fault + 'c serial" where
  "RecvFifoPut chr s =
     (if \<not> Fifo_IsFull (m_recvFifo s)
      then bindr (Fifo_Push chr (m_recvFifo s)) (\<lambda>(q, ok). Inr (s\<lparr>m_recvFifo := q\<rparr>))
      else Inr (s\<lparr>m_lsr := m_lsr s OR UART_LSR_OE\<rparr>))"

fun receive_all :: "bytes \<Rightarrow> 'c serial \<Rightarrow> fault + 'c serial" where
  "receive_all [] s = Inr s"
| "receive_all (b # bs) s = bindr (RecvFifoPut b s) (receive_all bs)"

definition Receive :: "bytes \<Rightarrow> 'c serial \<Rightarrow> fault + 'c serial" where
  "Receive buf s =
     bindr
       (if tst (m_fcr s) UART_FCR_FE
        then bindr (receive_all buf s) (\<lambda>s.
          Inr (s\<lparr>m_lsr := m_lsr s OR UART_LSR_DR,
                 m_fifoTimeoutTimer := InvokeLater_Set (host_nanos s + m_charTransmitTime s * 4) (m_fifoTimeoutTimer s)\<rparr>))
        else
          let s = (if tst (m_lsr s) UART_LSR_DR then s\<lparr>m_lsr := m_lsr s OR UART_LSR_OE\<rparr> else s)
          in bindr (aget buf 0) (\<lambda>b. Inr (s\<lparr>m_rbr := b, m_lsr := m_lsr s OR UART_LSR_DR\<rparr>)))
       (\<lambda>s. Inr (Serial_UpdateIRQ s))"

definition ReceiveBreak :: "'c serial \<Rightarrow> fault + 'c serial" where
  "ReceiveBreak s =
     bindr (RecvFifoPut 0 (s\<lparr>m_rbr := 0\<rparr>)) (\<lambda>s.
       Inr (Serial_UpdateIRQ (s\<lparr>m_lsr := m_lsr s OR (UART_LSR_BI OR UART_LSR_DR)\<rparr>)))"

abbreviation CHR_EVENT_BREAK :: int where "CHR_EVENT_BREAK \<equiv> 0"

definition Serial_Event :: "int \<Rightarrow> 'c serial \<Rightarrow> fault + 'c serial" where
  "Serial_Event event s = (if event = CHR_EVENT_BREAK then ReceiveBreak s else Inr s)"

definition FifoTimeoutInterrupt :: "'c serial \<Rightarrow> 'c serial" where
  "FifoTimeoutInterrupt s =
     (if Fifo_Count (m_recvFifo s) \<noteq> 0 then Serial_UpdateIRQ (s\<lparr>m_timeoutIpending := 1\<rparr>) else s)"

definition CanReceive :: "'c serial \<Rightarrow> int" where
  "CanReceive s =
     (if tst (m_fcr s) UART_FCR_FE then
        if Fifo_Count (m_recvFifo s) < UART_FIFO_LENGTH
        then if Fifo_Count (m_recvFifo s) \<le> ucast (m_recvFifoITL s)
             then sint (ucast (m_recvFifoITL s) - Fifo_Count (m_recvFifo s))
             else 1
        else 0
      else of_bool (\<not> tst (m_lsr s) UART_LSR_DR))"

section \<open>Transmission\<close>

text \<open>
  \<open>Transmit\<close> in its three parts: the load of the shift register (whose second
  result is false where it returns), the sending, and the end of a character.
\<close>

definition load_tsr :: "'c serial \<Rightarrow> fault + 'c serial \<times> bool" where
  "load_tsr s =
     (if m_tsrRetry s \<le> 0 then
        if tst (m_fcr s) UART_FCR_FE then
          bindr
            (if Fifo_IsFull (m_xmitFifo s) then Inr (s\<lparr>m_tsr := 0\<rparr>)
             else bindr (Fifo_Pop (m_tsr s) (m_xmitFifo s)) (\<lambda>(q, v, ok).
                    Inr (s\<lparr>m_xmitFifo := q, m_tsr := v\<rparr>)))
            (\<lambda>s. Inr (if Fifo_IsEmpty (m_xmitFifo s) then s\<lparr>m_lsr := m_lsr s OR UART_LSR_THRE\<rparr> else s, True))
        else if tst (m_lsr s) UART_LSR_THRE then Inr (s, False)
        else Inr (s\<lparr>m_tsr := m_thr s, m_lsr := (m_lsr s OR UART_LSR_THRE) AND NOT UART_LSR_TEMT\<rparr>, True)
      else Inr (s, True))"

definition send_tsr :: "'c chr_ops \<Rightarrow> 'c serial \<Rightarrow> fault + 'c serial \<times> bool" where
  "send_tsr ops s =
     (if tst (m_mcr s) UART_MCR_LOOP then bindr (Receive [m_tsr s] s) (\<lambda>s. Inr (s, True))
      else
        let (c, n) = chr_Write ops [m_tsr s] (m_chr s); s = s\<lparr>m_chr := c\<rparr> in
        if n \<noteq> 1 then
          if 0 \<le> m_tsrRetry s \<and> m_tsrRetry s < MAX_XMIT_RETRY
          then Inr (s\<lparr>m_tsrRetry := m_tsrRetry s + 1\<rparr>, False)
          else Inr (s\<lparr>m_tsrRetry := 0\<rparr>, True)
        else Inr (s\<lparr>m_tsrRetry := 0\<rparr>, True))"

definition end_tsr :: "'c serial \<Rightarrow> 'c serial" where
  "end_tsr s =
     (let s = s\<lparr>m_lastXmitTs := host_nanos s\<rparr> in
      if tst (m_lsr s) UART_LSR_THRE
      then Serial_UpdateIRQ (s\<lparr>m_lsr := m_lsr s OR UART_LSR_TEMT, m_thr_ipending := 1\<rparr>)
      else s)"

definition Transmit :: "'c chr_ops \<Rightarrow> 'c serial \<Rightarrow> fault + 'c serial" where
  "Transmit ops s =
     bindr (load_tsr s) (\<lambda>(s, go).
       if \<not> go then Inr s
       else bindr (send_tsr ops s) (\<lambda>(s, go). Inr (if go then end_tsr s else s)))"

section \<open>Life cycle\<close>

definition Serial_Reset :: "'c serial \<Rightarrow> 'c serial" where
  "Serial_Reset s = s\<lparr>m_rbr := 0, m_ier := 0, m_iir := UART_IIR_NO_INT, m_lcr := 0,
     m_lsr := UART_LSR_TEMT OR UART_LSR_THRE, m_msr := 0x80 OR 0x20 OR 0x10, m_divider := 0x0C,
     m_mcr := UART_MCR_OUT2, m_scr := 0, m_tsrRetry := 0,
     m_charTransmitTime := (SEC_TO_NANO div 9600) * 10, m_pollMsl := 0,
     m_recvFifo := Fifo_Clear (m_recvFifo s), m_xmitFifo := Fifo_Clear (m_xmitFifo s),
     m_lastXmitTs := host_nanos s, m_thr_ipending := 0, m_lastBreakEnable := False\<rparr>"

text \<open>The arrays of the two queues and the driver pointer are not initialised: \<open>raw1\<close>, \<open>raw2\<close>, \<open>chr\<close>.\<close>

definition new_Serial :: "u32 \<Rightarrow> bytes \<Rightarrow> bytes \<Rightarrow> 'c \<Rightarrow> u64 \<Rightarrow> 'c serial" where
  "new_Serial ioBase raw1 raw2 chr nanos = Serial_Reset
     \<lparr>m_ioBase = ioBase, m_divider = 0, m_rbr = 0, m_thr = 0, m_tsr = 0, m_ier = 0, m_iir = 0, m_lcr = 0,
      m_mcr = 0, m_lsr = 0, m_msr = 0, m_scr = 0, m_fcr = 0, m_thr_ipending = 0, m_chr = chr,
      m_lastBreakEnable = False, m_baudbase = 115200, m_tsrRetry = 0, m_irq = 0, m_lastXmitTs = 0,
      m_recvFifo = new_Fifo raw1 UART_FIFO_LENGTH, m_xmitFifo = new_Fifo raw2 UART_FIFO_LENGTH,
      m_recvFifoITL = 14, m_fifoTimeoutTimer = new_InvokeLater, m_timeoutIpending = 0,
      m_charTransmitTime = 0, m_pollMsl = 0, m_modemStatusPoll = new_InvokeLater, m_active = False,
      irq_trace = [], host_nanos = nanos\<rparr>"

definition Serial_Init :: "'c option \<Rightarrow> 'c serial \<Rightarrow> 'c serial \<times> bool" where
  "Serial_Init chr s =
     (case chr of
        None \<Rightarrow> (s, False)
      | Some c \<Rightarrow> (s\<lparr>m_chr := c, m_fifoTimeoutTimer := InvokeLater_Start (m_fifoTimeoutTimer s),
                      m_modemStatusPoll := InvokeLater_Start (m_modemStatusPoll s)\<rparr>, True))"

definition Serial_Stop :: "'c chr_ops \<Rightarrow> 'c serial \<Rightarrow> 'c serial" where
  "Serial_Stop ops s = s\<lparr>m_chr := chr_Stop ops (m_chr s)\<rparr>"

definition Serial_SetIRQ :: "u8 \<Rightarrow> 'c serial \<Rightarrow> 'c serial" where
  "Serial_SetIRQ irq s = s\<lparr>m_irq := irq\<rparr>"

definition SetBaudBase :: "int \<Rightarrow> 'c serial \<Rightarrow> 'c serial" where
  "SetBaudBase baudBase s = s\<lparr>m_baudbase := baudBase\<rparr>"

section \<open>Port reads\<close>

definition read_RBR :: "'c chr_ops \<Rightarrow> 'c serial \<Rightarrow> fault + 'c serial \<times> u32" where
  "read_RBR ops s =
     bindr
       (if tst (m_fcr s) UART_FCR_FE then
          bindr
            (if \<not> Fifo_IsEmpty (m_recvFifo s)
             then bindr (Fifo_Pop 0 (m_recvFifo s)) (\<lambda>(q, v, ok). Inr (s\<lparr>m_recvFifo := q\<rparr>, ucast v))
             else Inr (s, 0))
            (\<lambda>(s, v).
              let s = (if Fifo_Count (m_recvFifo s) = 0
                       then s\<lparr>m_lsr := m_lsr s AND NOT (UART_LSR_DR OR UART_LSR_BI)\<rparr>
                       else s\<lparr>m_fifoTimeoutTimer :=
                         InvokeLater_Set (host_nanos s + m_charTransmitTime s * 4) (m_fifoTimeoutTimer s)\<rparr>)
              in Inr (s\<lparr>m_timeoutIpending := 0\<rparr>, v))
        else Inr (s\<lparr>m_lsr := m_lsr s AND NOT (UART_LSR_DR OR UART_LSR_BI)\<rparr>, ucast (m_rbr s)))
       (\<lambda>(s, v).
         let s = Serial_UpdateIRQ s in
         Inr (if \<not> tst (m_mcr s) UART_MCR_LOOP then s\<lparr>m_chr := chr_AcceptInput ops (m_chr s)\<rparr> else s, v))"

definition read_MSR :: "'c serial \<Rightarrow> 'c serial \<times> u32" where
  "read_MSR s =
     (if tst (m_mcr s) UART_MCR_LOOP then
        (s, push_bit 4 (ucast (m_mcr s) AND 0x0C) OR push_bit 3 (ucast (m_mcr s) AND 0x02)
              OR push_bit 5 (ucast (m_mcr s) AND 0x01))
      else
        let s = (if 0 \<le> m_pollMsl s then UpdateMSL s else s); v = ucast (m_msr s)
        in (if tst (m_msr s) UART_MSR_ANY_DELTA then Serial_UpdateIRQ (s\<lparr>m_msr := m_msr s AND 0xF0\<rparr>) else s, v))"

definition Serial_IORead :: "'c chr_ops \<Rightarrow> u32 \<Rightarrow> u8 \<Rightarrow> 'c serial \<Rightarrow> fault + 'c serial \<times> u32" where
  "Serial_IORead ops port sz s =
     (let port = port AND 7 in
      if port = 1 then
        (if tst (m_lcr s) UART_LCR_DLAB then Inr (s, drop_bit 8 (ucast (m_divider s)) AND 0xFF)
         else Inr (s, ucast (m_ier s)))
      else if port = 2 then
        (let v = ucast (m_iir s) in
         if v AND UART_IIR_ID = ucast UART_IIR_THRI
         then Inr (Serial_UpdateIRQ (s\<lparr>m_thr_ipending := 0\<rparr>), v) else Inr (s, v))
      else if port = 3 then Inr (s, ucast (m_lcr s))
      else if port = 4 then Inr (s, ucast (m_mcr s))
      else if port = 5 then
        (let v = ucast (m_lsr s) in
         if tst (m_lsr s) (UART_LSR_BI OR UART_LSR_OE)
         then Inr (Serial_UpdateIRQ (s\<lparr>m_lsr := m_lsr s AND NOT (UART_LSR_BI OR UART_LSR_OE)\<rparr>), v)
         else Inr (s, v))
      else if port = 6 then Inr (read_MSR s)
      else if port = 7 then Inr (s, ucast (m_scr s))
      else if tst (m_lcr s) UART_LCR_DLAB then Inr (s, ucast (m_divider s) AND 0xFF)
      else read_RBR ops s)"

section \<open>Port writes\<close>

definition write_THR :: "'c chr_ops \<Rightarrow> u32 \<Rightarrow> 'c serial \<Rightarrow> fault + 'c serial" where
  "write_THR ops value s =
     (let s = s\<lparr>m_thr := ucast value\<rparr> in
      bindr
        (if tst (m_fcr s) UART_FCR_FE then
           let q = (if Fifo_IsFull (m_xmitFifo s) then fst (Fifo_Discard (m_xmitFifo s)) else m_xmitFifo s)
           in bindr (Fifo_Push (m_thr s) q) (\<lambda>(q, ok).
                Inr (s\<lparr>m_xmitFifo := q, m_lsr := m_lsr s AND NOT UART_LSR_TEMT\<rparr>))
         else Inr s)
        (\<lambda>s. Transmit ops (Serial_UpdateIRQ
               (s\<lparr>m_thr_ipending := 0, m_lsr := m_lsr s AND NOT UART_LSR_THRE\<rparr>))))"

definition write_IER :: "u32 \<Rightarrow> 'c serial \<Rightarrow> 'c serial" where
  "write_IER value s =
     (let s = s\<lparr>m_ier := ucast (value AND 0x0F)\<rparr>;
          s = (if 0 \<le> m_pollMsl s then
                 if tst (m_ier s) UART_IER_MSI then UpdateMSL (s\<lparr>m_pollMsl := 1\<rparr>)
                 else s\<lparr>m_modemStatusPoll := InvokeLater_Cancel (m_modemStatusPoll s), m_pollMsl := 0\<rparr>
               else s)
      in if tst (m_lsr s) UART_LSR_THRE then Serial_UpdateIRQ (s\<lparr>m_thr_ipending := 1\<rparr>) else s)"

definition write_FCR :: "u32 \<Rightarrow> 'c serial \<Rightarrow> 'c serial" where
  "write_FCR value s =
     (let v = ucast value :: u8 in
      if m_fcr s = v then s
      else
        let v = (if tst (xor v (m_fcr s)) UART_FCR_FE then v OR (UART_FCR_XFR OR UART_FCR_RFR) else v);
            s = (if tst v UART_FCR_RFR
                 then s\<lparr>m_fifoTimeoutTimer := InvokeLater_Cancel (m_fifoTimeoutTimer s),
                        m_timeoutIpending := 0, m_recvFifo := Fifo_Clear (m_recvFifo s)\<rparr> else s);
            s = (if tst v UART_FCR_XFR then s\<lparr>m_xmitFifo := Fifo_Clear (m_xmitFifo s)\<rparr> else s);
            s = (if tst v UART_FCR_FE
                 then s\<lparr>m_iir := m_iir s OR UART_IIR_FE,
                        m_recvFifoITL := (if v AND 0xC0 = 0x00 then 1 else if v AND 0xC0 = 0x40 then 4
                          else if v AND 0xC0 = 0x80 then 8 else 14)\<rparr>
                 else s\<lparr>m_iir := m_iir s AND NOT UART_IIR_FE\<rparr>)
        in Serial_UpdateIRQ (s\<lparr>m_fcr := v AND 0xC9\<rparr>))"

definition write_LCR :: "'c chr_ops \<Rightarrow> u32 \<Rightarrow> 'c serial \<Rightarrow> fault + 'c serial" where
  "write_LCR ops value s =
     bindr (UpdateParameters ops (s\<lparr>m_lcr := ucast value\<rparr>)) (\<lambda>s.
       let breakEnable = (drop_bit 6 value AND 1 = 1) in
       Inr (if breakEnable \<noteq> m_lastBreakEnable s
            then s\<lparr>m_lastBreakEnable := breakEnable, m_chr := chr_SetBreakEnable ops breakEnable (m_chr s)\<rparr>
            else s))"

definition write_MCR :: "u32 \<Rightarrow> 'c serial \<Rightarrow> 'c serial" where
  "write_MCR value s =
     (let old_mcr = m_mcr s; s = s\<lparr>m_mcr := ucast (value AND 0x1F)\<rparr> in
      if tst value (ucast UART_MCR_LOOP) then s
      else if 0 \<le> m_pollMsl s \<and> old_mcr \<noteq> m_mcr s
      then s\<lparr>m_modemStatusPoll :=
             InvokeLater_Set (host_nanos s + m_charTransmitTime s) (m_modemStatusPoll s)\<rparr>
      else s)"

definition Serial_IOWrite :: "'c chr_ops \<Rightarrow> u32 \<Rightarrow> u32 \<Rightarrow> u8 \<Rightarrow> 'c serial \<Rightarrow> fault + 'c serial" where
  "Serial_IOWrite ops port value sz s =
     (let port = port AND 7 in
      if port = 1 then
        (if tst (m_lcr s) UART_LCR_DLAB
         then UpdateParameters ops (s\<lparr>m_divider := ucast ((ucast (m_divider s AND 0x00FF) :: u32) OR push_bit 8 value)\<rparr>)
         else Inr (write_IER value s))
      else if port = 2 then Inr (write_FCR value s)
      else if port = 3 then write_LCR ops value s
      else if port = 4 then Inr (write_MCR value s)
      else if port = 5 \<or> port = 6 then Inr s
      else if port = 7 then Inr (s\<lparr>m_scr := ucast value\<rparr>)
      else if tst (m_lcr s) UART_LCR_DLAB
      then UpdateParameters ops (s\<lparr>m_divider := ucast ((ucast (m_divider s AND 0xFF00) :: u32) OR value)\<rparr>)
      else write_THR ops value s)"

end
