(* ===== verification/Serial_Laws.thy ===== *)
theory Serial_Laws
  imports Serial
begin

text \<open>
  The serial port: every access returns and the interrupt line follows the
  identification register, characters pass the port in order, and what its
  timers do.
\<close>

section \<open>The invariant\<close>

definition wf_serial :: "'c serial \<Rightarrow> bool" where
  "wf_serial s \<longleftrightarrow> wf_fifo (m_recvFifo s) \<and> room (m_recvFifo s) = 16
     \<and> wf_fifo (m_xmitFifo s) \<and> room (m_xmitFifo s) = 16 \<and> (word_of_int (m_baudbase s) :: u64) \<noteq> 0"

text \<open>The level last given to the interrupt handler.\<close>

definition line :: "'c serial \<Rightarrow> bool" where
  "line s \<longleftrightarrow> irq_trace s \<noteq> [] \<and> snd (last (irq_trace s))"

definition line_agrees :: "'c serial \<Rightarrow> bool" where
  "line_agrees s \<longleftrightarrow> line s = (\<not> bit (m_iir s) 0)"

definition good_serial :: "'c serial \<Rightarrow> bool" where
  "good_serial s \<longleftrightarrow> wf_serial s \<and> line_agrees s"

lemmas serial_defs = good_serial_def wf_serial_def line_agrees_def line_def

lemma UpdateIRQ_fields [simp]:
  "m_recvFifo (Serial_UpdateIRQ s) = m_recvFifo s" "m_xmitFifo (Serial_UpdateIRQ s) = m_xmitFifo s"
  "m_baudbase (Serial_UpdateIRQ s) = m_baudbase s" "m_lsr (Serial_UpdateIRQ s) = m_lsr s"
  "m_mcr (Serial_UpdateIRQ s) = m_mcr s" "m_lcr (Serial_UpdateIRQ s) = m_lcr s"
  "m_fcr (Serial_UpdateIRQ s) = m_fcr s" "m_chr (Serial_UpdateIRQ s) = m_chr s"
  "m_tsrRetry (Serial_UpdateIRQ s) = m_tsrRetry s" "m_thr (Serial_UpdateIRQ s) = m_thr s"
  "m_tsr (Serial_UpdateIRQ s) = m_tsr s" "m_rbr (Serial_UpdateIRQ s) = m_rbr s"
  "m_timeoutIpending (Serial_UpdateIRQ s) = m_timeoutIpending s"
  "m_modemStatusPoll (Serial_UpdateIRQ s) = m_modemStatusPoll s"
  by (simp_all add: Serial_UpdateIRQ_def Let_def)

lemma UpdateIRQ_line [simp]: "line_agrees (Serial_UpdateIRQ s)"
  by (simp add: Serial_UpdateIRQ_def Let_def line_agrees_def line_def bit_simps)

lemma wf_UpdateIRQ [simp]: "wf_serial (Serial_UpdateIRQ s) = wf_serial s"
  by (simp add: wf_serial_def)

lemma good_UpdateIRQ [simp]: "good_serial (Serial_UpdateIRQ s) = wf_serial s"
  by (simp add: good_serial_def)

lemma UpdateIRQ_pending:
  "m_timeoutIpending s = 0 \<Longrightarrow> m_iir (Serial_UpdateIRQ s) AND 0x0F \<noteq> UART_IIR_CTI"
  by (simp add: Serial_UpdateIRQ_def Let_def word_bits bit_simps)

text \<open>The other fields do not matter to the invariant.\<close>

lemma line_agrees_fields [simp]:
  "line_agrees (s\<lparr>m_divider := x0\<rparr>) = line_agrees s" "line_agrees (s\<lparr>m_rbr := x1\<rparr>) = line_agrees s"
  "line_agrees (s\<lparr>m_thr := x2\<rparr>) = line_agrees s" "line_agrees (s\<lparr>m_tsr := x3\<rparr>) = line_agrees s"
  "line_agrees (s\<lparr>m_ier := x4\<rparr>) = line_agrees s" "line_agrees (s\<lparr>m_lcr := x5\<rparr>) = line_agrees s"
  "line_agrees (s\<lparr>m_mcr := x6\<rparr>) = line_agrees s" "line_agrees (s\<lparr>m_lsr := x7\<rparr>) = line_agrees s"
  "line_agrees (s\<lparr>m_msr := x8\<rparr>) = line_agrees s" "line_agrees (s\<lparr>m_scr := x9\<rparr>) = line_agrees s"
  "line_agrees (s\<lparr>m_fcr := x10\<rparr>) = line_agrees s" "line_agrees (s\<lparr>m_thr_ipending := x11\<rparr>) = line_agrees s"
  "line_agrees (s\<lparr>m_chr := x12\<rparr>) = line_agrees s" "line_agrees (s\<lparr>m_lastBreakEnable := x13\<rparr>) = line_agrees s"
  "line_agrees (s\<lparr>m_tsrRetry := x14\<rparr>) = line_agrees s" "line_agrees (s\<lparr>m_lastXmitTs := x15\<rparr>) = line_agrees s"
  "line_agrees (s\<lparr>m_recvFifoITL := x16\<rparr>) = line_agrees s" "line_agrees (s\<lparr>m_fifoTimeoutTimer := x17\<rparr>) = line_agrees s"
  "line_agrees (s\<lparr>m_timeoutIpending := x18\<rparr>) = line_agrees s" "line_agrees (s\<lparr>m_charTransmitTime := x19\<rparr>) = line_agrees s"
  "line_agrees (s\<lparr>m_pollMsl := x20\<rparr>) = line_agrees s" "line_agrees (s\<lparr>m_modemStatusPoll := x21\<rparr>) = line_agrees s"
  "line_agrees (s\<lparr>host_nanos := x22\<rparr>) = line_agrees s" "line_agrees (s\<lparr>m_recvFifo := x23\<rparr>) = line_agrees s"
  "line_agrees (s\<lparr>m_xmitFifo := x24\<rparr>) = line_agrees s"
  by (simp_all add: line_agrees_def line_def)

lemma wf_serial_fields [simp]:
  "wf_serial (s\<lparr>m_divider := x0\<rparr>) = wf_serial s" "wf_serial (s\<lparr>m_rbr := x1\<rparr>) = wf_serial s"
  "wf_serial (s\<lparr>m_thr := x2\<rparr>) = wf_serial s" "wf_serial (s\<lparr>m_tsr := x3\<rparr>) = wf_serial s"
  "wf_serial (s\<lparr>m_ier := x4\<rparr>) = wf_serial s" "wf_serial (s\<lparr>m_lcr := x5\<rparr>) = wf_serial s"
  "wf_serial (s\<lparr>m_mcr := x6\<rparr>) = wf_serial s" "wf_serial (s\<lparr>m_lsr := x7\<rparr>) = wf_serial s"
  "wf_serial (s\<lparr>m_msr := x8\<rparr>) = wf_serial s" "wf_serial (s\<lparr>m_scr := x9\<rparr>) = wf_serial s"
  "wf_serial (s\<lparr>m_fcr := x10\<rparr>) = wf_serial s" "wf_serial (s\<lparr>m_thr_ipending := x11\<rparr>) = wf_serial s"
  "wf_serial (s\<lparr>m_chr := x12\<rparr>) = wf_serial s" "wf_serial (s\<lparr>m_lastBreakEnable := x13\<rparr>) = wf_serial s"
  "wf_serial (s\<lparr>m_tsrRetry := x14\<rparr>) = wf_serial s" "wf_serial (s\<lparr>m_lastXmitTs := x15\<rparr>) = wf_serial s"
  "wf_serial (s\<lparr>m_recvFifoITL := x16\<rparr>) = wf_serial s" "wf_serial (s\<lparr>m_fifoTimeoutTimer := x17\<rparr>) = wf_serial s"
  "wf_serial (s\<lparr>m_timeoutIpending := x18\<rparr>) = wf_serial s" "wf_serial (s\<lparr>m_charTransmitTime := x19\<rparr>) = wf_serial s"
  "wf_serial (s\<lparr>m_pollMsl := x20\<rparr>) = wf_serial s" "wf_serial (s\<lparr>m_modemStatusPoll := x21\<rparr>) = wf_serial s"
  "wf_serial (s\<lparr>host_nanos := x22\<rparr>) = wf_serial s" "wf_serial (s\<lparr>m_iir := x23\<rparr>) = wf_serial s"
  "wf_serial (s\<lparr>irq_trace := x24\<rparr>) = wf_serial s"
  by (simp_all add: wf_serial_def)

lemma good_serial_fields [simp]:
  "good_serial (s\<lparr>m_divider := x0\<rparr>) = good_serial s" "good_serial (s\<lparr>m_rbr := x1\<rparr>) = good_serial s"
  "good_serial (s\<lparr>m_thr := x2\<rparr>) = good_serial s" "good_serial (s\<lparr>m_tsr := x3\<rparr>) = good_serial s"
  "good_serial (s\<lparr>m_ier := x4\<rparr>) = good_serial s" "good_serial (s\<lparr>m_lcr := x5\<rparr>) = good_serial s"
  "good_serial (s\<lparr>m_mcr := x6\<rparr>) = good_serial s" "good_serial (s\<lparr>m_lsr := x7\<rparr>) = good_serial s"
  "good_serial (s\<lparr>m_msr := x8\<rparr>) = good_serial s" "good_serial (s\<lparr>m_scr := x9\<rparr>) = good_serial s"
  "good_serial (s\<lparr>m_fcr := x10\<rparr>) = good_serial s" "good_serial (s\<lparr>m_thr_ipending := x11\<rparr>) = good_serial s"
  "good_serial (s\<lparr>m_chr := x12\<rparr>) = good_serial s" "good_serial (s\<lparr>m_lastBreakEnable := x13\<rparr>) = good_serial s"
  "good_serial (s\<lparr>m_tsrRetry := x14\<rparr>) = good_serial s" "good_serial (s\<lparr>m_lastXmitTs := x15\<rparr>) = good_serial s"
  "good_serial (s\<lparr>m_recvFifoITL := x16\<rparr>) = good_serial s" "good_serial (s\<lparr>m_fifoTimeoutTimer := x17\<rparr>) = good_serial s"
  "good_serial (s\<lparr>m_timeoutIpending := x18\<rparr>) = good_serial s" "good_serial (s\<lparr>m_charTransmitTime := x19\<rparr>) = good_serial s"
  "good_serial (s\<lparr>m_pollMsl := x20\<rparr>) = good_serial s" "good_serial (s\<lparr>m_modemStatusPoll := x21\<rparr>) = good_serial s"
  "good_serial (s\<lparr>host_nanos := x22\<rparr>) = good_serial s"
  by (simp_all add: good_serial_def)

lemma wf_serial_queues [simp]:
  "wf_serial s \<Longrightarrow> wf_fifo q \<Longrightarrow> room q = 16 \<Longrightarrow> wf_serial (s\<lparr>m_recvFifo := q\<rparr>)"
  "wf_serial s \<Longrightarrow> wf_fifo q \<Longrightarrow> room q = 16 \<Longrightarrow> wf_serial (s\<lparr>m_xmitFifo := q\<rparr>)"
  by (simp_all add: wf_serial_def)

subsection \<open>Reception\<close>

text \<open>Reception changes the receive queue and the line status only.\<close>

definition rx_only :: "'c serial \<Rightarrow> 'c serial \<Rightarrow> bool" where
  "rx_only s s' \<longleftrightarrow> (\<exists>q l. s' = s\<lparr>m_recvFifo := q, m_lsr := l\<rparr>)"

lemma rx_onlyI [intro]: "rx_only s (s\<lparr>m_recvFifo := q\<rparr>)" "rx_only s (s\<lparr>m_lsr := l\<rparr>)" "rx_only s s"
proof -
  have "s\<lparr>m_recvFifo := q\<rparr> = s\<lparr>m_recvFifo := q, m_lsr := m_lsr s\<rparr>"
    "s\<lparr>m_lsr := l\<rparr> = s\<lparr>m_recvFifo := m_recvFifo s, m_lsr := l\<rparr>"
    "s = s\<lparr>m_recvFifo := m_recvFifo s, m_lsr := m_lsr s\<rparr>" by simp_all
  then show "rx_only s (s\<lparr>m_recvFifo := q\<rparr>)" "rx_only s (s\<lparr>m_lsr := l\<rparr>)" "rx_only s s"
    unfolding rx_only_def by blast+
qed

lemma rx_only_trans: "rx_only s t \<Longrightarrow> rx_only t u \<Longrightarrow> rx_only s u"
  unfolding rx_only_def by fastforce

lemma rx_only_fields:
  assumes "rx_only s t"
  shows "m_mcr t = m_mcr s" "m_lcr t = m_lcr s" "m_fcr t = m_fcr s" "m_chr t = m_chr s"
    "m_tsrRetry t = m_tsrRetry s" "m_thr t = m_thr s" "m_tsr t = m_tsr s" "m_xmitFifo t = m_xmitFifo s"
    "m_baudbase t = m_baudbase s" "m_iir t = m_iir s" "irq_trace t = irq_trace s" "m_ier t = m_ier s"
    "m_timeoutIpending t = m_timeoutIpending s" "m_modemStatusPoll t = m_modemStatusPoll s"
    "m_rbr t = m_rbr s"
  using assms by (auto simp: rx_only_def)

definition overrun :: "nat \<Rightarrow> u8 \<Rightarrow> u8" where
  "overrun n l = (if n \<le> 16 then l else l OR UART_LSR_OE)"

lemma wf_serialD:
  assumes "wf_serial s"
  shows "wf_fifo (m_recvFifo s)" "room (m_recvFifo s) = 16" "wf_fifo (m_xmitFifo s)" "room (m_xmitFifo s) = 16"
    "length (items (m_recvFifo s)) \<le> 16" "length (items (m_xmitFifo s)) \<le> 16"
  using assms fifo.bounded [of "m_recvFifo s"] fifo.bounded [of "m_xmitFifo s"]
  unfolding wf_serial_def by metis+

lemma RecvFifoPut_wf:
  assumes "wf_serial s"
  shows "returns (\<lambda>t. rx_only s t \<and> wf_serial t \<and> items (m_recvFifo t) = take 16 (items (m_recvFifo s) @ [b])
     \<and> m_lsr t = overrun (length (items (m_recvFifo s)) + 1) (m_lsr s)) (RecvFifoPut b s)"
proof (cases "length (items (m_recvFifo s)) = 16")
  case True
  then show ?thesis using assms wf_serialD [OF assms]
    by (auto simp: RecvFifoPut_def fifo_queries overrun_def wf_serial_def)
next
  case False
  note D = wf_serialD [OF assms]
  have full: "\<not> Fifo_IsFull (m_recvFifo s)" and lt: "length (items (m_recvFifo s)) < 16"
    using False D(5) D(1,2) by (simp_all add: fifo_queries del: length_items)
  have "returns (\<lambda>(q, ok). wf_fifo q \<and> room q = 16 \<and> items q = items (m_recvFifo s) @ [b])
      (Fifo_Push b (m_recvFifo s))"
    by (rule returns_mono [OF fifo.push [OF D(1)]]) (use D(2) lt in auto)
  then show ?thesis using full lt assms
    by (auto simp: RecvFifoPut_def wf_serial_def overrun_def simp del: length_items elim!: returns_mono)
qed

lemma take_twice: "length xs \<le> n \<Longrightarrow> take n (take n (xs @ [b]) @ bs) = take n (xs @ b # bs)"
  by (cases "length xs < n") (auto simp: take_Cons')

lemma overrun_twice:
  "a \<le> 16 \<Longrightarrow> overrun (Suc (min a 15 + k)) (overrun (Suc a) l) = overrun (Suc (a + k)) l"
  by (auto simp: overrun_def min_def or.assoc)

lemma receive_all_wf:
  "wf_serial s \<Longrightarrow> returns (\<lambda>t. rx_only s t \<and> wf_serial t \<and> items (m_recvFifo t) = take 16 (items (m_recvFifo s) @ bs)
     \<and> m_lsr t = overrun (length (items (m_recvFifo s)) + length bs) (m_lsr s)) (receive_all bs s)"
proof (induction bs arbitrary: s)
  case Nil
  then show ?case using wf_serialD [OF Nil] by (auto simp: overrun_def simp del: length_items)
next
  case (Cons b bs)
  note D = wf_serialD [OF Cons.prems]
  have "returns (\<lambda>u. rx_only s u \<and> wf_serial u \<and> items (m_recvFifo u) = take 16 (items (m_recvFifo s) @ b # bs)
     \<and> m_lsr u = overrun (length (items (m_recvFifo s)) + length (b # bs)) (m_lsr s)) (receive_all bs t)"
    if t: "rx_only s t" "wf_serial t" "items (m_recvFifo t) = take 16 (items (m_recvFifo s) @ [b])"
      "m_lsr t = overrun (length (items (m_recvFifo s)) + 1) (m_lsr s)" for t
    by (rule returns_mono [OF Cons.IH [OF t(2)]])
      (use D(5) t rx_only_trans [OF t(1)] in
        \<open>simp add: take_twice overrun_twice del: length_items take_append\<close>)
  then show ?case using RecvFifoPut_wf [OF Cons.prems, of b] by (auto elim!: returns_mono)
qed


lemma good_from_wf: "wf_serial s \<Longrightarrow> line_agrees s \<Longrightarrow> good_serial s"
  by (simp add: good_serial_def)

text \<open>What \<open>Receive\<close> leaves, in the two modes.\<close>

definition received :: "bytes \<Rightarrow> 'c serial \<Rightarrow> 'c serial \<Rightarrow> bool" where
  "received bs s t \<longleftrightarrow> good_serial t \<and> tst (m_lsr t) UART_LSR_DR
     \<and> (if tst (m_fcr s) UART_FCR_FE
        then items (m_recvFifo t) = take 16 (items (m_recvFifo s) @ bs) \<and> m_rbr t = m_rbr s
        else m_recvFifo t = m_recvFifo s \<and> m_rbr t = hd bs)
     \<and> m_mcr t = m_mcr s \<and> m_lcr t = m_lcr s \<and> m_fcr t = m_fcr s \<and> m_chr t = m_chr s
     \<and> m_tsrRetry t = m_tsrRetry s \<and> m_xmitFifo t = m_xmitFifo s \<and> m_timeoutIpending t = m_timeoutIpending s
     \<and> m_modemStatusPoll t = m_modemStatusPoll s"

lemma Receive_received:
  assumes wf: "wf_serial s" and "bs \<noteq> []"
  shows "returns (received bs s) (Receive bs s)"
proof (cases "tst (m_fcr s) UART_FCR_FE")
  case True
  let ?t = "\<lambda>t. t\<lparr>m_lsr := m_lsr t OR UART_LSR_DR, m_fifoTimeoutTimer :=
       InvokeLater_Set (host_nanos t + m_charTransmitTime t * 4) (m_fifoTimeoutTimer t)\<rparr>"
  have "received bs s (Serial_UpdateIRQ (?t t))"
    if "rx_only s t" "wf_serial t" "items (m_recvFifo t) = take 16 (items (m_recvFifo s) @ bs)" for t
    using that True rx_only_fields [OF that(1)]
    by (auto simp: received_def good_serial_def wf_serial_def bit_simps)
  then show ?thesis using True receive_all_wf [OF wf, of bs]
    by (auto simp: Receive_def elim!: returns_mono)
next
  case False
  have "aget bs 0 = Inr (hd bs)" using assms(2) by (simp add: aget_def hd_conv_nth)
  then show ?thesis using False wf
    by (auto simp: Receive_def Let_def received_def wf_serial_def bit_simps)
qed

lemmas receivedD = received_def [THEN iffD1, THEN conjunct1]

lemma ReceiveBreak_good: "wf_serial s \<Longrightarrow> returns good_serial (ReceiveBreak s)"
  unfolding ReceiveBreak_def
  by (auto simp: wf_serial_def intro!: returns_mono [OF RecvFifoPut_wf])

lemma FifoTimeoutInterrupt_good: "good_serial s \<Longrightarrow> good_serial (FifoTimeoutInterrupt s)"
  by (auto simp: FifoTimeoutInterrupt_def good_serial_def wf_serial_def)

lemma UpdateMSL_good: "good_serial s \<Longrightarrow> good_serial (UpdateMSL s)"
  by (auto simp: UpdateMSL_def serial_defs)

lemma UpdateParameters_good: "good_serial s \<Longrightarrow> returns good_serial (UpdateParameters ops s)"
  by (auto simp: UpdateParameters_def Let_def serial_params_def serial_defs)

section \<open>Transmission\<close>

lemma load_tsr_wf:
  assumes "wf_serial s" and "line_agrees s"
  shows "returns (\<lambda>(t, go). good_serial t) (load_tsr s)"
proof -
  note D = wf_serialD [OF assms(1)]
  have "returns (\<lambda>(q, v, ok). wf_fifo q \<and> room q = 16) (Fifo_Pop (m_tsr s) (m_xmitFifo s))"
    by (rule returns_mono [OF fifo.pop [OF D(3)]]) (use D(4) in auto)
  then show ?thesis using assms
    by (auto simp: load_tsr_def good_serial_def elim!: returns_mono)
qed

lemma send_tsr_good:
  assumes "good_serial s"
  shows "returns (\<lambda>(t, go). good_serial t) (send_tsr ops s)"
proof (cases "tst (m_mcr s) UART_MCR_LOOP")
  case True
  have "returns (received [m_tsr s] s) (Receive [m_tsr s] s)"
    by (rule Receive_received) (use assms in \<open>auto simp: good_serial_def\<close>)
  then show ?thesis using True by (auto simp: send_tsr_def dest: receivedD elim!: returns_mono)
next
  case False
  then show ?thesis using assms
    by (auto simp: send_tsr_def Let_def serial_defs split: prod.splits)
qed

lemma end_tsr_good: "good_serial s \<Longrightarrow> good_serial (end_tsr s)"
  by (simp add: end_tsr_def Let_def) (simp add: good_serial_def)

lemma Transmit_good: "good_serial s \<Longrightarrow> returns good_serial (Transmit ops s)"
  unfolding Transmit_def
  by (auto simp: good_serial_def [of s] intro!: returns_mono [OF load_tsr_wf] returns_mono [OF send_tsr_good] end_tsr_good)

text \<open>The queue of a write is never overrun: the oldest character makes room.\<close>

lemma push_xmit:
  assumes "wf_serial s"
  shows "returns (\<lambda>(q, ok). wf_fifo q \<and> room q = 16 \<and> items q =
      (if length (items (m_xmitFifo s)) = 16 then tl (items (m_xmitFifo s)) else items (m_xmitFifo s)) @ [b])
    (Fifo_Push b (if Fifo_IsFull (m_xmitFifo s) then fst (Fifo_Discard (m_xmitFifo s)) else m_xmitFifo s))"
  using fifo.push_over [OF wf_serialD(3) [OF assms], of b] wf_serialD [OF assms]
  by (auto simp: fifo_queries simp del: length_items elim!: returns_mono)

lemma write_THR_good:
  assumes "good_serial s"
  shows "returns good_serial (write_THR ops v s)"
proof -
  have wf: "wf_serial s" using assms by (simp add: good_serial_def)
  have "returns (\<lambda>(q, ok). wf_fifo q \<and> room q = 16)
    (Fifo_Push (ucast v) (if Fifo_IsFull (m_xmitFifo s) then fst (Fifo_Discard (m_xmitFifo s)) else m_xmitFifo s))"
    by (rule returns_mono [OF push_xmit [OF wf]]) auto
  then show ?thesis using wf
    by (auto simp: write_THR_def Let_def wf_serial_def elim!: returns_mono intro!: Transmit_good)
qed

section \<open>Port accesses\<close>

lemma read_RBR_good:
  assumes "good_serial s"
  shows "returns (\<lambda>(t, v). good_serial t) (read_RBR ops s)"
proof -
  have wf: "wf_serial s" using assms by (simp add: good_serial_def)
  note D = wf_serialD [OF wf]
  have "returns (\<lambda>(q, v, ok). wf_fifo q \<and> room q = 16) (Fifo_Pop 0 (m_recvFifo s))"
    by (rule returns_mono [OF fifo.pop [OF D(1)]]) (use D(2) in auto)
  then show ?thesis using wf
    by (auto simp: read_RBR_def Let_def elim!: returns_mono)
qed


lemma write_FCR_good: "good_serial s \<Longrightarrow> good_serial (write_FCR v s)"
  by (auto simp: write_FCR_def Let_def good_serial_def wf_serial_def)

lemma write_IER_good: "good_serial s \<Longrightarrow> good_serial (write_IER v s)"
  by (auto simp: write_IER_def Let_def good_serial_def UpdateMSL_def)

lemma write_LCR_good:
  assumes "good_serial s"
  shows "returns good_serial (write_LCR ops v s)"
  by (auto simp: write_LCR_def Let_def assms intro!: returns_mono [OF UpdateParameters_good])

lemma write_MCR_good: "good_serial s \<Longrightarrow> good_serial (write_MCR v s)"
  by (auto simp: write_MCR_def Let_def)

lemma Serial_IOWrite_good:
  "good_serial s \<Longrightarrow> returns good_serial (Serial_IOWrite ops port v sz s)"
  by (auto simp: Serial_IOWrite_def Let_def write_IER_good write_FCR_good write_MCR_good
      intro!: write_LCR_good write_THR_good UpdateParameters_good)

lemma read_MSR_good: "good_serial s \<Longrightarrow> good_serial (fst (read_MSR s))"
  by (auto simp: read_MSR_def Let_def good_serial_def UpdateMSL_def)

lemma Serial_IORead_good:
  "good_serial s \<Longrightarrow> returns (\<lambda>(t, v). good_serial t) (Serial_IORead ops port sz s)"
  using read_MSR_good [of s]
  by (auto simp: Serial_IORead_def Let_def good_serial_def split: prod.splits
      intro!: read_RBR_good [unfolded good_serial_def])

lemma new_Serial_good:
  assumes "length raw1 = 16" and "length raw2 = 16"
  shows "good_serial (new_Serial base raw1 raw2 c t)"
  using wf_new_Fifo [of raw1 16] wf_new_Fifo [of raw2 16] assms
  by (simp add: new_Serial_def Serial_Reset_def serial_defs)

lemma Serial_Init_good: "good_serial s \<Longrightarrow> good_serial (fst (Serial_Init c s))"
  by (auto simp: Serial_Init_def split: option.splits)

lemma serial_ports_return:
  assumes "good_serial s"
  shows "returns good_serial (Serial_IOWrite ops port value sz s)
    \<and> returns (\<lambda>(t, v). good_serial t) (Serial_IORead ops port sz s)
    \<and> (buf \<noteq> [] \<longrightarrow> returns good_serial (Receive buf s))
    \<and> returns good_serial (Serial_Event e s)
    \<and> good_serial (FifoTimeoutInterrupt s) \<and> good_serial (UpdateMSL s)"
proof (intro conjI impI)
  have wf: "wf_serial s" using assms by (simp add: good_serial_def)
  show "returns good_serial (Receive buf s)" if "buf \<noteq> []"
    using Receive_received [OF wf that] by (rule returns_mono) (rule receivedD)
  show "returns good_serial (Serial_Event e s)"
    using assms ReceiveBreak_good [OF wf] by (simp add: Serial_Event_def)
qed (rule assms Serial_IOWrite_good Serial_IORead_good FifoTimeoutInterrupt_good UpdateMSL_good)+

text \<open>every access to the serial port returns, whatever its character driver answers, as do receptions of
  characters and breaks; each keeps the two queues inside their arrays, and leaves the
  interrupt line at the level that the interrupt identification register shows.\<close>

theorem serial_accesses_return:
  assumes "good_serial s"
  shows "returns good_serial (Serial_IOWrite ops port value sz s)
    \<and> returns (\<lambda>(t, v). good_serial t) (Serial_IORead ops port sz s)
    \<and> (buf \<noteq> [] \<longrightarrow> returns good_serial (Receive buf s))
    \<and> returns good_serial (Serial_Event e s)
    \<and> good_serial (FifoTimeoutInterrupt s) \<and> good_serial (UpdateMSL s)"
  using assms by (rule serial_ports_return)

definition sample_serial :: "win32_serial serial" where
  "sample_serial = fst (Serial_Init (Some \<lparr>comm_written = [], comm_stopped = False, m_open = True, comm_baudRate = 0,
     comm_byteSize = 8, comm_two_stop_bits = False, comm_parity = Parity_None\<rparr>)
     (new_Serial 0x3F8 (replicate 16 0) (replicate 16 0) undefined 0))"

lemma sample_serial_good: "good_serial sample_serial"
  unfolding sample_serial_def by (intro Serial_Init_good new_Serial_good) simp_all

theorem serial_accesses_return_witness:
  "returns good_serial (Serial_IOWrite win32_driver 0x3F8 0x41 1 sample_serial)
    \<and> returns good_serial (Receive [0x42, 0x43] sample_serial)"
  using serial_accesses_return [OF sample_serial_good, of win32_driver "0x3F8" "0x41" 1 "[0x42, 0x43]" 0] by simp

section \<open>Characters out\<close>

lemma load_FE:
  assumes wf: "wf_serial s" and "tst (m_fcr s) UART_FCR_FE" and "m_tsrRetry s \<le> 0" and b: "items (m_xmitFifo s) = [b]"
  shows "\<exists>q. wf_fifo q \<and> room q = 16 \<and> items q = []
    \<and> load_tsr s = Inr (s\<lparr>m_xmitFifo := q, m_tsr := b, m_lsr := m_lsr s OR UART_LSR_THRE\<rparr>, True)"
proof -
  note D = wf_serialD [OF wf]
  have "length (items (m_xmitFifo s)) \<noteq> 16" unfolding b by simp
  then have full: "\<not> Fifo_IsFull (m_xmitFifo s)" using D(3,4) by (simp add: fifo_queries del: length_items)
  obtain q where "Fifo_Pop (m_tsr s) (m_xmitFifo s) = Inr (q, b, True)" "wf_fifo q" "room q = 16" "items q = []"
    using fifo.pop [OF D(3), of "m_tsr s"] D(4) unfolding b by (auto simp: returns_iff)
  then show ?thesis using assms full by (auto simp: load_tsr_def fifo_queries)
qed

text \<open>A write to an idle port brings the character to the shift register in either mode.\<close>

lemma write_THR_loads:
  fixes s :: "'c serial"
  assumes good: "good_serial s" and retry: "m_tsrRetry s \<le> 0" and idle: "items (m_xmitFifo s) = []"
  shows "\<exists>t. write_THR ops v s =
      bindr (send_tsr ops t) (\<lambda>(s, go). Inr (if go then end_tsr s else s))
    \<and> good_serial t \<and> m_tsr t = ucast v \<and> items (m_xmitFifo t) = [] \<and> tst (m_lsr t) UART_LSR_THRE
    \<and> m_mcr t = m_mcr s \<and> m_lcr t = m_lcr s \<and> m_fcr t = m_fcr s \<and> m_chr t = m_chr s
    \<and> m_tsrRetry t = m_tsrRetry s \<and> m_recvFifo t = m_recvFifo s"
proof (cases "tst (m_fcr s) UART_FCR_FE")
  case False
  let ?u = "Serial_UpdateIRQ (s\<lparr>m_thr := ucast v, m_thr_ipending := 0, m_lsr := m_lsr s AND NOT UART_LSR_THRE\<rparr>)"
  let ?t = "?u\<lparr>m_tsr := ucast v, m_lsr := (m_lsr ?u OR UART_LSR_THRE) AND NOT UART_LSR_TEMT\<rparr>"
  have "load_tsr ?u = Inr (?t, True)"
    using False retry by (simp add: load_tsr_def and.assoc)
  then have "write_THR ops v s = bindr (send_tsr ops ?t) (\<lambda>(s, go). Inr (if go then end_tsr s else s))"
    using False by (simp add: write_THR_def Transmit_def Let_def)
  moreover have "tst (m_lsr ?t) UART_LSR_THRE" by (simp add: u8_eq_bits bit_simps)
  ultimately show ?thesis using good idle
    by (intro exI [of _ ?t]) (simp add: good_serial_def)
next
  case True
  have wf: "wf_serial s" using good by (simp add: good_serial_def)
  have nf: "\<not> Fifo_IsFull (m_xmitFifo s)"
    using wf_serialD [OF wf] by (simp add: fifo_queries idle del: length_items)
  obtain q ok where q: "Fifo_Push (ucast v) (m_xmitFifo s) = Inr (q, ok)" "wf_fifo q" "room q = 16"
      "items q = [ucast v]"
    using push_xmit [OF wf, of "ucast v"] nf unfolding idle by (auto simp: returns_iff)
  let ?u = "Serial_UpdateIRQ (s\<lparr>m_thr := ucast v, m_xmitFifo := q, m_thr_ipending := 0,
      m_lsr := (m_lsr s AND NOT UART_LSR_TEMT) AND NOT UART_LSR_THRE\<rparr>)"
  have u: "wf_serial ?u" "items (m_xmitFifo ?u) = [ucast v]" using q wf by simp_all
  obtain q' where q': "wf_fifo q'" "room q' = 16" "items q' = []"
    "load_tsr ?u = Inr (?u\<lparr>m_xmitFifo := q', m_tsr := ucast v, m_lsr := m_lsr ?u OR UART_LSR_THRE\<rparr>, True)"
    using load_FE [OF u(1) _ _ u(2)] True retry by auto
  let ?t = "?u\<lparr>m_xmitFifo := q', m_tsr := ucast v, m_lsr := m_lsr ?u OR UART_LSR_THRE\<rparr>"
  have "write_THR ops v s = bindr (send_tsr ops ?t) (\<lambda>(s, go). Inr (if go then end_tsr s else s))"
    using True nf q(1) q'(4) by (simp add: write_THR_def Transmit_def Let_def)
  moreover have "good_serial ?t" using u(1) q' wf q by (simp add: good_serial_def)
  ultimately show ?thesis using q'
    by (intro exI [of _ ?t]) (auto simp: bit_simps)
qed

text \<open>A driver that takes every character, and one that also tells which it took.\<close>

locale accepting_driver =
  fixes ops :: "'c chr_ops"
  assumes accepts: "snd (chr_Write ops [b] c) = 1"
begin

definition idle :: "'c serial \<Rightarrow> bool" where
  "idle s \<longleftrightarrow> good_serial s \<and> \<not> tst (m_mcr s) UART_MCR_LOOP \<and> \<not> tst (m_lcr s) UART_LCR_DLAB
     \<and> m_tsrRetry s \<le> 0 \<and> items (m_xmitFifo s) = []"

lemma write_idle:
  assumes "idle s"
  shows "returns (\<lambda>t. idle t \<and> m_chr t = fst (chr_Write ops [ucast v] (m_chr s))) (write_THR ops v s)"
proof -
  obtain t where t: "write_THR ops v s = bindr (send_tsr ops t) (\<lambda>(s, go). Inr (if go then end_tsr s else s))"
    "good_serial t" "m_tsr t = ucast v" "items (m_xmitFifo t) = []" "m_mcr t = m_mcr s" "m_lcr t = m_lcr s"
    "m_chr t = m_chr s"
    using write_THR_loads [of s ops v] assms unfolding idle_def by blast
  let ?u = "t\<lparr>m_chr := fst (chr_Write ops [ucast v] (m_chr s)), m_tsrRetry := 0\<rparr>"
  have "send_tsr ops t = Inr (?u, True)"
    using accepts [of "ucast v" "m_chr s"] assms t unfolding idle_def
    by (auto simp: send_tsr_def Let_def split: prod.splits)
  moreover have "good_serial (end_tsr ?u)" using t(2) by (intro end_tsr_good) simp
  moreover have "m_mcr (end_tsr ?u) = m_mcr t" "m_lcr (end_tsr ?u) = m_lcr t" "m_tsrRetry (end_tsr ?u) = 0"
    "m_xmitFifo (end_tsr ?u) = m_xmitFifo t" "m_chr (end_tsr ?u) = m_chr ?u"
    by (simp_all add: end_tsr_def Let_def)
  ultimately show ?thesis using t assms by (simp add: idle_def)
qed

lemma IOWrite_idle:
  "idle s \<Longrightarrow> port AND 7 = 0 \<Longrightarrow>
   returns (\<lambda>t. idle t \<and> m_chr t = fst (chr_Write ops [ucast v] (m_chr s))) (Serial_IOWrite ops port v sz s)"
  using write_idle [of s v] by (simp add: Serial_IOWrite_def idle_def)

end

fun serial_writes :: "'c chr_ops \<Rightarrow> u32 list \<Rightarrow> 'c serial \<Rightarrow> fault + 'c serial" where
  "serial_writes ops [] s = Inr s"
| "serial_writes ops (v # vs) s = bindr (Serial_IOWrite ops 0x3F8 v 1 s) (serial_writes ops vs)"

locale recording_driver = accepting_driver +
  fixes sent :: "'c \<Rightarrow> bytes"
  assumes records: "sent (fst (chr_Write ops [b] c)) = sent c @ [b]"
begin

lemma writes_sent:
  "idle s \<Longrightarrow> returns (\<lambda>t. idle t \<and> sent (m_chr t) = sent (m_chr s) @ map ucast vs) (serial_writes ops vs s)"
proof (induction vs arbitrary: s)
  case (Cons v vs)
  have "returns (\<lambda>u. idle u \<and> sent (m_chr u) = sent (m_chr s) @ map ucast (v # vs)) (serial_writes ops vs t)"
    if "idle t" "m_chr t = fst (chr_Write ops [ucast v] (m_chr s))" for t
    using Cons.IH [OF that(1)] by (rule returns_mono) (simp add: that(2) records)
  then show ?case by (auto intro!: returns_mono [OF IOWrite_idle [OF Cons.prems]])
qed simp

end

interpretation null: accepting_driver null_chr_driver
  by unfold_locales (simp add: null_chr_driver_def)

interpretation win32: recording_driver win32_driver comm_written
  by unfold_locales (simp_all add: win32_driver_def Win32_Write_def)

text \<open>C21: with the Windows driver, the characters written to an idle port reach the host's port one by one and
  in order, with the queues enabled or not; the transmit queue is empty again after
  every write, so that neither its overflow nor the test for a full queue in \<open>Transmit\<close> is
  ever reached.\<close>

theorem serial_transmits_in_order:
  assumes "good_serial s" and "\<not> tst (m_mcr s) UART_MCR_LOOP" and "\<not> tst (m_lcr s) UART_LCR_DLAB"
    and "m_tsrRetry s \<le> 0" and "items (m_xmitFifo s) = []"
  shows "returns (\<lambda>t. comm_written (m_chr t) = comm_written (m_chr s) @ map ucast vs \<and> items (m_xmitFifo t) = [])
    (serial_writes win32_driver vs s)"
proof -
  have "win32.idle s" using assms by (simp add: win32.idle_def)
  from win32.writes_sent [OF this, of vs] show ?thesis
    by (rule returns_mono) (simp add: win32.idle_def)
qed

lemma sample_serial_idle:
  "\<not> tst (m_mcr sample_serial) UART_MCR_LOOP" "\<not> tst (m_lcr sample_serial) UART_LCR_DLAB"
  "m_tsrRetry sample_serial = 0" "items (m_xmitFifo sample_serial) = []" "items (m_recvFifo sample_serial) = []"
  by (simp_all add: sample_serial_def Serial_Init_def new_Serial_def Serial_Reset_def bit_simps)

theorem serial_transmits_in_order_witness:
  "returns (\<lambda>t. comm_written (m_chr t) = [0x48, 0x69] \<and> items (m_xmitFifo t) = [])
    (serial_writes win32_driver [0x48, 0x69] sample_serial)"
proof -
  have "comm_written (m_chr sample_serial) = []" by (simp add: sample_serial_def Serial_Init_def)
  with serial_transmits_in_order [OF sample_serial_good, of "[0x48, 0x69]"] sample_serial_idle
  show ?thesis by simp
qed

section \<open>Characters in\<close>

lemma read_RBR_value:
  assumes good: "good_serial s"
    and front: "if tst (m_fcr s) UART_FCR_FE then items (m_recvFifo s) = b # bs else m_rbr s = b"
  shows "returns (\<lambda>(t, v). v = ucast b \<and> good_serial t \<and> m_fcr t = m_fcr s \<and> m_lcr t = m_lcr s
      \<and> (tst (m_fcr s) UART_FCR_FE \<longrightarrow> items (m_recvFifo t) = bs)) (read_RBR ops s)"
proof (cases "tst (m_fcr s) UART_FCR_FE")
  case False
  then show ?thesis using good front
    by (simp add: read_RBR_def Let_def good_serial_def)
next
  case True
  then have b: "items (m_recvFifo s) = b # bs" using front by simp
  have wf: "wf_serial s" using good by (simp add: good_serial_def)
  note D = wf_serialD [OF wf]
  obtain q where q: "Fifo_Pop 0 (m_recvFifo s) = Inr (q, b, True)" "wf_fifo q" "room q = 16" "items q = bs"
    using fifo.pop [OF D(1), of 0] D(2) unfolding b by (auto simp: returns_iff)
  have "\<not> Fifo_IsEmpty (m_recvFifo s)" using b D(1) by (simp add: fifo_queries)
  then show ?thesis using True q wf
    by (simp add: read_RBR_def Let_def)
qed

text \<open>in loopback mode, a character written to an idle port is the character read from it next, with the
  queues enabled or not.\<close>

theorem serial_loopback_roundtrip:
  assumes good: "good_serial s" and loop: "tst (m_mcr s) UART_MCR_LOOP" and dlab: "\<not> tst (m_lcr s) UART_LCR_DLAB"
    and "m_tsrRetry s \<le> 0" and "items (m_xmitFifo s) = []" and "items (m_recvFifo s) = []"
  shows "returns (\<lambda>(t, v). v = value AND 0xFF)
    (bindr (Serial_IOWrite ops 0x3F8 value 1 s) (Serial_IORead ops 0x3F8 1))"
proof -
  let ?b = "ucast value :: u8"
  obtain t where t: "write_THR ops value s = bindr (send_tsr ops t) (\<lambda>(s, go). Inr (if go then end_tsr s else s))"
    "good_serial t" "m_tsr t = ?b" "m_mcr t = m_mcr s" "m_lcr t = m_lcr s" "m_fcr t = m_fcr s"
    "m_recvFifo t = m_recvFifo s"
    using write_THR_loads [OF good assms(4,5), of ops "value"] by blast
  have wft: "wf_serial t" using t(2) by (simp add: good_serial_def)
  have "Serial_IORead ops 0x3F8 1 (end_tsr u) = read_RBR ops (end_tsr u)" if "received [?b] t u" for u
    using that t(5) dlab by (simp add: Serial_IORead_def Let_def received_def end_tsr_def)
  moreover have "returns (\<lambda>(w, v). v = ucast ?b) (read_RBR ops (end_tsr u))" if u: "received [?b] t u" for u
  proof (rule returns_mono [OF read_RBR_value])
    show "good_serial (end_tsr u)" using u end_tsr_good receivedD by blast
    show "if tst (m_fcr (end_tsr u)) UART_FCR_FE then items (m_recvFifo (end_tsr u)) = ?b # [] else m_rbr (end_tsr u) = ?b"
      using u t(6,7) assms(6) by (auto simp: received_def end_tsr_def Let_def)
  qed auto
  ultimately have "returns (\<lambda>(w, v). v = ucast ?b)
      (bindr (write_THR ops value s) (Serial_IORead ops 0x3F8 1))"
    using Receive_received [OF wft, of "[?b]"] loop t
    by (auto simp: send_tsr_def split_beta elim!: returns_mono)
  moreover have "(ucast ?b :: u32) = value AND 0xFF" by (simp add: u32_eq_bits bit_simps)
  ultimately show ?thesis using dlab by (simp add: Serial_IOWrite_def)
qed

theorem serial_loopback_roundtrip_witness:
  "returns (\<lambda>(t, v). v = 0x5A)
    (bindr (Serial_IOWrite win32_driver 0x3F8 0x5A 1 (sample_serial\<lparr>m_mcr := 0x10\<rparr>)) (Serial_IORead win32_driver 0x3F8 1))"
  using serial_loopback_roundtrip [of "sample_serial\<lparr>m_mcr := 0x10\<rparr>" "0x5A" win32_driver]
    sample_serial_good sample_serial_idle by simp

fun serial_reads :: "'c chr_ops \<Rightarrow> nat \<Rightarrow> 'c serial \<Rightarrow> fault + 'c serial \<times> u32 list" where
  "serial_reads ops 0 s = Inr (s, [])"
| "serial_reads ops (Suc n) s = bindr (Serial_IORead ops 0x3F8 1 s) (\<lambda>(s, v).
     bindr (serial_reads ops n s) (\<lambda>(s, vs). Inr (s, v # vs)))"

lemma serial_reads_values:
  "good_serial s \<Longrightarrow> tst (m_fcr s) UART_FCR_FE \<Longrightarrow> \<not> tst (m_lcr s) UART_LCR_DLAB \<Longrightarrow> items (m_recvFifo s) = bs \<Longrightarrow>
   returns (\<lambda>(t, vs). vs = map ucast bs \<and> items (m_recvFifo t) = []) (serial_reads ops (length bs) s)"
proof (induction bs arbitrary: s)
  case (Cons b bs)
  have "returns (\<lambda>(u, vs). ucast b # vs = map ucast (b # bs) \<and> items (m_recvFifo u) = []) (serial_reads ops (length bs) t)"
    if "good_serial t" "m_fcr t = m_fcr s" "m_lcr t = m_lcr s" "items (m_recvFifo t) = bs" for t
    by (rule returns_mono [OF Cons.IH [OF that(1)]]) (use that Cons.prems in auto)
  moreover have "Serial_IORead ops 0x3F8 1 s = read_RBR ops s"
    using Cons.prems by (simp add: Serial_IORead_def)
  ultimately show ?case
    using read_RBR_value [of s b bs ops] Cons.prems
    by (auto simp del: length_items simp: case_prod_unfold intro!: returns_mono [OF read_RBR_value [of s b bs ops]])
qed simp

text \<open>with the queues enabled, the characters that arrive at an empty receive queue are read from the port in
  the order they came, up to the sixteen that fit in the queue.\<close>

theorem serial_receives_in_order:
  assumes "good_serial s" and "tst (m_fcr s) UART_FCR_FE" and "\<not> tst (m_lcr s) UART_LCR_DLAB"
    and "items (m_recvFifo s) = []" and "bs \<noteq> []"
  shows "returns (\<lambda>(t, vs). vs = map ucast (take 16 bs) \<and> items (m_recvFifo t) = [])
    (bindr (Receive bs s) (serial_reads ops (min 16 (length bs))))"
proof -
  have "returns (\<lambda>(t, vs). vs = map ucast (take 16 bs) \<and> items (m_recvFifo t) = [])
      (serial_reads ops (min 16 (length bs)) t)" if "received bs s t" for t
    using serial_reads_values [of t "take 16 bs" ops] that assms
    by (simp add: received_def min.commute)
  then show ?thesis
    using Receive_received [of s bs] assms by (auto simp: good_serial_def elim!: returns_mono)
qed

theorem serial_receives_in_order_witness:
  "returns (\<lambda>(t, vs). vs = [0x41, 0x42, 0x43] \<and> items (m_recvFifo t) = [])
    (bindr (Receive [0x41, 0x42, 0x43] (sample_serial\<lparr>m_fcr := 1\<rparr>)) (serial_reads win32_driver 3))"
  using serial_receives_in_order [of "sample_serial\<lparr>m_fcr := 1\<rparr>" "[0x41, 0x42, 0x43]" win32_driver]
    sample_serial_good sample_serial_idle
  by (simp del: serial_reads.simps returns_bindr add: numeral_3_eq_3)

section \<open>Runs\<close>

text \<open>
  What can happen to a port: the guest reads and writes it, the driver
  delivers characters and events, the two timer threads make their calls once
  their timers are primed, and the clock moves. The constructor gives
  \<open>UpdateMSLCB\<close> to \<open>m_fifoTimeoutTimer\<close> and \<open>FifoTimeoutInterruptCB\<close> to
  \<open>m_modemStatusPoll\<close>.
\<close>

datatype serial_event = PortRead u32 u8 u32 | PortWrite u32 u32 u8 | Chars bytes | DriverEvent int
  | FifoTimer | ModemPoll | Clock u64

inductive serial_step :: "'c chr_ops \<Rightarrow> 'c serial \<Rightarrow> serial_event \<Rightarrow> 'c serial \<Rightarrow> bool" for ops where
  port_read: "Serial_IORead ops port sz s = Inr (t, v) \<Longrightarrow> serial_step ops s (PortRead port sz v) t"
| port_write: "Serial_IOWrite ops port v sz s = Inr t \<Longrightarrow> serial_step ops s (PortWrite port v sz) t"
| chars: "Receive bs s = Inr t \<Longrightarrow> serial_step ops s (Chars bs) t"
| driver_event: "Serial_Event e s = Inr t \<Longrightarrow> serial_step ops s (DriverEvent e) t"
| fifo_timer: "InvokeLater_fires (m_fifoTimeoutTimer s) \<Longrightarrow> serial_step ops s FifoTimer (UpdateMSL s)"
| modem_poll: "InvokeLater_fires (m_modemStatusPoll s) \<Longrightarrow> serial_step ops s ModemPoll (FifoTimeoutInterrupt s)"
| clock: "serial_step ops s (Clock n) (s\<lparr>host_nanos := n\<rparr>)"

inductive_cases serial_stepE: "serial_step ops s e t"

inductive_simps serial_step_simps:
  "serial_step ops s (PortWrite port v sz) t" "serial_step ops s (Chars bs) t" "serial_step ops s FifoTimer t"

inductive serial_run :: "'c chr_ops \<Rightarrow> 'c serial \<Rightarrow> serial_event list \<Rightarrow> 'c serial \<Rightarrow> bool" for ops where
  stop: "serial_run ops s [] s"
| step: "serial_step ops s e t \<Longrightarrow> serial_run ops t es u \<Longrightarrow> serial_run ops s (e # es) u"

definition writes_MCR :: "serial_event \<Rightarrow> bool" where
  "writes_MCR e \<longleftrightarrow> (case e of PortWrite port v sz \<Rightarrow> port AND 7 = 4 | _ \<Rightarrow> False)"

definition calm :: "'c serial \<Rightarrow> bool" where
  "calm s \<longleftrightarrow> m_timeoutIpending s = 0 \<and> \<not> m_primed (m_modemStatusPoll s)"

definition quiet :: "'c serial \<Rightarrow> bool" where
  "quiet s \<longleftrightarrow> calm s \<and> m_iir s AND 0x0F \<noteq> UART_IIR_CTI"

lemma calm_fields [simp]:
  "calm (s\<lparr>m_divider := x0\<rparr>) = calm s" "calm (s\<lparr>m_rbr := x1\<rparr>) = calm s" "calm (s\<lparr>m_thr := x2\<rparr>) = calm s"
  "calm (s\<lparr>m_tsr := x3\<rparr>) = calm s" "calm (s\<lparr>m_ier := x4\<rparr>) = calm s" "calm (s\<lparr>m_lcr := x5\<rparr>) = calm s"
  "calm (s\<lparr>m_mcr := x6\<rparr>) = calm s" "calm (s\<lparr>m_lsr := x7\<rparr>) = calm s" "calm (s\<lparr>m_msr := x8\<rparr>) = calm s"
  "calm (s\<lparr>m_scr := x9\<rparr>) = calm s" "calm (s\<lparr>m_fcr := x10\<rparr>) = calm s" "calm (s\<lparr>m_thr_ipending := x11\<rparr>) = calm s"
  "calm (s\<lparr>m_chr := x12\<rparr>) = calm s" "calm (s\<lparr>m_lastBreakEnable := x13\<rparr>) = calm s" "calm (s\<lparr>m_tsrRetry := x14\<rparr>) = calm s"
  "calm (s\<lparr>m_lastXmitTs := x15\<rparr>) = calm s" "calm (s\<lparr>m_recvFifoITL := x16\<rparr>) = calm s" "calm (s\<lparr>m_fifoTimeoutTimer := x17\<rparr>) = calm s"
  "calm (s\<lparr>m_charTransmitTime := x18\<rparr>) = calm s" "calm (s\<lparr>m_pollMsl := x19\<rparr>) = calm s" "calm (s\<lparr>host_nanos := x20\<rparr>) = calm s"
  "calm (s\<lparr>m_recvFifo := x21\<rparr>) = calm s" "calm (s\<lparr>m_xmitFifo := x22\<rparr>) = calm s"
  "calm (s\<lparr>m_iir := x90\<rparr>) = calm s" "calm (s\<lparr>irq_trace := x91\<rparr>) = calm s"
  by (simp_all add: calm_def)

lemma quiet_fields [simp]:
  "quiet (s\<lparr>m_divider := x0\<rparr>) = quiet s" "quiet (s\<lparr>m_rbr := x1\<rparr>) = quiet s" "quiet (s\<lparr>m_thr := x2\<rparr>) = quiet s"
  "quiet (s\<lparr>m_tsr := x3\<rparr>) = quiet s" "quiet (s\<lparr>m_ier := x4\<rparr>) = quiet s" "quiet (s\<lparr>m_lcr := x5\<rparr>) = quiet s"
  "quiet (s\<lparr>m_mcr := x6\<rparr>) = quiet s" "quiet (s\<lparr>m_lsr := x7\<rparr>) = quiet s" "quiet (s\<lparr>m_msr := x8\<rparr>) = quiet s"
  "quiet (s\<lparr>m_scr := x9\<rparr>) = quiet s" "quiet (s\<lparr>m_fcr := x10\<rparr>) = quiet s" "quiet (s\<lparr>m_thr_ipending := x11\<rparr>) = quiet s"
  "quiet (s\<lparr>m_chr := x12\<rparr>) = quiet s" "quiet (s\<lparr>m_lastBreakEnable := x13\<rparr>) = quiet s" "quiet (s\<lparr>m_tsrRetry := x14\<rparr>) = quiet s"
  "quiet (s\<lparr>m_lastXmitTs := x15\<rparr>) = quiet s" "quiet (s\<lparr>m_recvFifoITL := x16\<rparr>) = quiet s" "quiet (s\<lparr>m_fifoTimeoutTimer := x17\<rparr>) = quiet s"
  "quiet (s\<lparr>m_charTransmitTime := x18\<rparr>) = quiet s" "quiet (s\<lparr>m_pollMsl := x19\<rparr>) = quiet s" "quiet (s\<lparr>host_nanos := x20\<rparr>) = quiet s"
  "quiet (s\<lparr>m_recvFifo := x21\<rparr>) = quiet s" "quiet (s\<lparr>m_xmitFifo := x22\<rparr>) = quiet s"
  by (simp_all add: quiet_def)

lemma calm_timers [simp]:
  "calm s \<Longrightarrow> calm (s\<lparr>m_timeoutIpending := 0\<rparr>)"
  "calm s \<Longrightarrow> calm (s\<lparr>m_modemStatusPoll := InvokeLater_Cancel p\<rparr>)"
  by (simp_all add: calm_def InvokeLater_Cancel_def)

lemma calm_UpdateIRQ [simp]: "calm (Serial_UpdateIRQ s) = calm s"
  by (simp add: calm_def)

lemma quiet_UpdateIRQ [simp]: "calm s \<Longrightarrow> quiet (Serial_UpdateIRQ s)"
  by (simp add: quiet_def UpdateIRQ_pending calm_def)

lemma quiet_calm [simp]: "quiet s \<Longrightarrow> calm s"
  by (simp add: quiet_def)

lemma quiet_timers [simp]:
  "quiet s \<Longrightarrow> quiet (s\<lparr>m_timeoutIpending := 0\<rparr>)"
  "quiet s \<Longrightarrow> quiet (s\<lparr>m_modemStatusPoll := InvokeLater_Cancel p\<rparr>)"
  "quiet s \<Longrightarrow> quiet (UpdateMSL s)"
  by (simp_all add: quiet_def UpdateMSL_def)

lemma calm_if [simp]: "calm (if b then s else t) = (if b then calm s else calm t)"
  by simp

lemma quiet_if [simp]: "quiet (if b then s else t) = (if b then quiet s else quiet t)"
  by simp

lemmas queue_any =
  wheneverI [where m = "Fifo_Push b q" for b and q :: "u8 fifo"]
  wheneverI [where m = "Fifo_Pop b q" for b and q :: "u8 fifo"]
  wheneverI [where m = "aget bs i" for bs :: bytes and i]

lemma quiet_RecvFifoPut: "quiet s \<Longrightarrow> whenever quiet (RecvFifoPut b s)"
  by (auto simp: RecvFifoPut_def intro!: queue_any)

lemma quiet_receive_all: "quiet s \<Longrightarrow> whenever quiet (receive_all bs s)"
  by (induction bs arbitrary: s) (auto intro!: whenever_mono [OF quiet_RecvFifoPut])

lemma quiet_Receive: "quiet s \<Longrightarrow> whenever quiet (Receive bs s)"
  by (auto simp: Receive_def Let_def intro!: whenever_mono [OF quiet_receive_all] queue_any)

lemma quiet_Event: "quiet s \<Longrightarrow> whenever quiet (Serial_Event e s)"
  by (auto simp: Serial_Event_def ReceiveBreak_def intro!: whenever_mono [OF quiet_RecvFifoPut])

lemma quiet_load: "quiet s \<Longrightarrow> whenever (\<lambda>(t, go). quiet t) (load_tsr s)"
  by (auto simp: load_tsr_def intro!: queue_any)

lemma quiet_send: "quiet s \<Longrightarrow> whenever (\<lambda>(t, go). quiet t) (send_tsr ops s)"
  by (auto simp: send_tsr_def Let_def intro!: whenever_mono [OF quiet_Receive] split: prod.splits)

lemma quiet_end: "quiet s \<Longrightarrow> quiet (end_tsr s)"
  by (simp add: end_tsr_def Let_def)

lemma quiet_Transmit: "quiet s \<Longrightarrow> whenever quiet (Transmit ops s)"
  by (auto simp: Transmit_def intro!: quiet_end whenever_mono [OF quiet_load] whenever_mono [OF quiet_send])

lemma quiet_params: "quiet s \<Longrightarrow> whenever quiet (UpdateParameters ops s)"
  by (simp add: UpdateParameters_def Let_def)

lemma quiet_THR: "quiet s \<Longrightarrow> whenever quiet (write_THR ops v s)"
  by (auto simp: write_THR_def Let_def intro!: quiet_Transmit queue_any)

lemma quiet_IER: "quiet s \<Longrightarrow> quiet (write_IER v s)"
  by (auto simp: write_IER_def Let_def)

lemma quiet_FCR: "quiet s \<Longrightarrow> quiet (write_FCR v s)"
  by (cases "m_fcr s = ucast v") (simp_all add: write_FCR_def Let_def cong: if_cong split del: if_split)

lemma quiet_LCR: "quiet s \<Longrightarrow> whenever quiet (write_LCR ops v s)"
  by (auto simp: write_LCR_def Let_def intro!: whenever_mono [OF quiet_params])

lemma quiet_IOWrite: "port AND 7 \<noteq> 4 \<Longrightarrow> quiet s \<Longrightarrow> whenever quiet (Serial_IOWrite ops port v sz s)"
  by (auto simp: Serial_IOWrite_def Let_def intro!: quiet_IER quiet_FCR quiet_THR quiet_LCR quiet_params)

lemma quiet_RBR: "quiet s \<Longrightarrow> whenever (\<lambda>(t, v). quiet t) (read_RBR ops s)"
  by (auto simp: read_RBR_def Let_def intro!: queue_any)

lemma quiet_MSR: "quiet s \<Longrightarrow> quiet (fst (read_MSR s))"
  by (simp add: read_MSR_def Let_def)

lemma quiet_IORead: "quiet s \<Longrightarrow> whenever (\<lambda>(t, v). quiet t) (Serial_IORead ops port sz s)"
  using quiet_MSR [of s]
  by (auto simp: Serial_IORead_def Let_def split: prod.splits intro!: quiet_RBR)

lemma quiet_step: "serial_step ops s e t \<Longrightarrow> \<not> writes_MCR e \<Longrightarrow> quiet s \<Longrightarrow> quiet t"
proof (erule serial_stepE)
  assume "InvokeLater_fires (m_modemStatusPoll s)" "quiet s"
  then have False by (simp add: quiet_def calm_def InvokeLater_fires_def)
  then show "quiet t" ..
next
  fix port sz v
  assume "Serial_IORead ops port sz s = Inr (t, v)" "quiet s"
  then show "quiet t" using quiet_IORead [of s ops port sz] by simp
next
  fix port sz v
  assume "e = PortWrite port v sz" "Serial_IOWrite ops port v sz s = Inr t" "\<not> writes_MCR e" "quiet s"
  then show "quiet t" using quiet_IOWrite [of port s ops v sz] by (simp add: writes_MCR_def)
next
  fix bs
  assume "Receive bs s = Inr t" "quiet s"
  then show "quiet t" using quiet_Receive [of s bs] by simp
next
  fix ev
  assume "Serial_Event ev s = Inr t" "quiet s"
  then show "quiet t" using quiet_Event [of s ev] by simp
qed auto

lemma quiet_run: "serial_run ops s es t \<Longrightarrow> \<forall>e\<in>set es. \<not> writes_MCR e \<Longrightarrow> quiet s \<Longrightarrow> quiet t"
  by (induction rule: serial_run.induct) (auto dest: quiet_step)

lemma initial_quiet: "quiet (fst (Serial_Init (Some c) (new_Serial base raw1 raw2 c0 n)))"
  by (simp add: quiet_def calm_def Serial_Init_def new_Serial_def Serial_Reset_def InvokeLater_Start_def new_InvokeLater_def)

lemma Receive_primes:
  assumes wf: "wf_serial s" and u: "Receive bs s = Inr u" and "tst (m_fcr s) UART_FCR_FE" and "m_running (m_fifoTimeoutTimer s)"
  shows "InvokeLater_fires (m_fifoTimeoutTimer u)"
proof -
  have "m_fifoTimeoutTimer (Serial_UpdateIRQ s) = m_fifoTimeoutTimer s" for s :: "'a serial"
    by (simp add: Serial_UpdateIRQ_def Let_def)
  moreover obtain t where "receive_all bs s = Inr t" "rx_only s t"
    using receive_all_wf [OF wf, of bs] by (auto simp: returns_iff)
  ultimately show ?thesis using assms
    by (auto simp: Receive_def bindr_Inr_iff rx_only_def InvokeLater_fires_def InvokeLater_Set_def InvokeLater_Cancel_def)
qed

text \<open>the timer that a reception arms for the character timeout calls the modem status update instead, so in
  every run of a port from its initialisation in which the guest does not write the
  modem control register, no character timeout is ever pending and the
  identification register never shows one, however long characters wait in the queue.\<close>

theorem no_character_timeout:
  assumes "serial_run ops (fst (Serial_Init (Some c) (new_Serial base raw1 raw2 c0 n))) es t"
    and "\<forall>e\<in>set es. \<not> writes_MCR e"
  shows "m_timeoutIpending t = 0 \<and> m_iir t AND 0x0F \<noteq> UART_IIR_CTI"
  using quiet_run [OF assms initial_quiet] by (simp add: quiet_def calm_def)

theorem no_character_timeout_witness:
  "\<exists>t. serial_run win32_driver sample_serial [PortWrite 0x3FA 0xC1 1, Chars [0x41], FifoTimer] t
     \<and> m_timeoutIpending t = 0 \<and> m_iir t AND 0x0F \<noteq> UART_IIR_CTI"
proof -
  let ?s = "write_FCR 0xC1 sample_serial"
  have w: "Serial_IOWrite win32_driver 0x3FA 0xC1 1 sample_serial = Inr ?s"
    by (simp add: Serial_IOWrite_def)
  have "wf_serial ?s" using sample_serial_good write_FCR_good by (auto simp: good_serial_def)
  then obtain u where u: "Receive [0x41] ?s = Inr u"
    using Receive_received [of ?s "[0x41]"] by (auto simp: returns_iff)
  have "m_fcr ?s = 0xC1" "m_running (m_fifoTimeoutTimer ?s)"
    by (simp_all add: write_FCR_def Let_def sample_serial_def Serial_Init_def new_Serial_def Serial_Reset_def
        InvokeLater_Cancel_def InvokeLater_Start_def new_InvokeLater_def Serial_UpdateIRQ_def)
  then have "InvokeLater_fires (m_fifoTimeoutTimer u)"
    using Receive_primes [OF \<open>wf_serial ?s\<close> u] by simp
  then have run: "serial_run win32_driver sample_serial [PortWrite 0x3FA 0xC1 1, Chars [0x41], FifoTimer] (UpdateMSL u)"
    using w u by (auto intro!: serial_run.intros serial_step.intros)
  from no_character_timeout [OF run [unfolded sample_serial_def]]
  show ?thesis using run unfolding sample_serial_def by (auto simp: writes_MCR_def)
qed

section \<open>A full transmit queue\<close>

text \<open>
  A driver that refuses characters lets the queue fill, since only one
  character leaves it for every five written. \<open>stalled_driver\<close> refuses its next \<open>n\<close>
  characters and then takes all.
\<close>

definition stalled_driver :: "(nat \<times> bytes) chr_ops" where
  "stalled_driver = \<lparr>chr_Write = \<lambda>buf (n, out). if n = 0 then ((0, out @ buf), 1) else ((n - 1, out), 0),
     chr_AcceptInput = \<lambda>c. c, chr_Stop = \<lambda>c. c, chr_SetBreakEnable = \<lambda>b c. c,
     chr_SetSerialParameters = \<lambda>p c. c\<rparr>"

definition full :: "'c serial \<Rightarrow> bool" where
  "full s \<longleftrightarrow> good_serial s \<and> \<not> tst (m_mcr s) UART_MCR_LOOP \<and> \<not> tst (m_lcr s) UART_LCR_DLAB
     \<and> tst (m_fcr s) UART_FCR_FE \<and> m_tsrRetry s \<le> 0 \<and> length (items (m_xmitFifo s)) = 16"

lemma write_full:
  assumes "full s" and w: "chr_Write ops [0] (m_chr s) = (c, 1)"
  shows "returns (\<lambda>t. full t \<and> m_chr t = c) (Serial_IOWrite ops 0x3F8 v 1 s)"
proof -
  have wf: "wf_serial s" using assms by (simp add: full_def good_serial_def)
  have is_full: "Fifo_IsFull (m_xmitFifo s)" "tst (m_fcr s) UART_FCR_FE"
    using assms(1) wf_serialD [OF wf] by (simp_all add: full_def fifo_queries del: length_items)
  have "returns (\<lambda>(q, ok). wf_fifo q \<and> room q = 16 \<and> length (items q) = 16)
      (Fifo_Push (ucast v) (fst (Fifo_Discard (m_xmitFifo s))))"
    using push_xmit [OF wf, of "ucast v"] is_full assms(1)
    by (auto simp: full_def simp del: length_items elim!: returns_mono)
  then obtain q ok where q: "Fifo_Push (ucast v) (fst (Fifo_Discard (m_xmitFifo s))) = Inr (q, ok)"
    "wf_fifo q" "room q = 16" "length (items q) = 16"
    by (auto simp: returns_iff simp del: length_items)
  have q': "Fifo_IsFull q" "\<not> Fifo_IsEmpty q"
    using q by (auto simp: fifo_queries simp del: length_items)
  let ?u = "Serial_UpdateIRQ (s\<lparr>m_thr := ucast v, m_xmitFifo := q, m_thr_ipending := 0,
      m_lsr := (m_lsr s AND NOT UART_LSR_TEMT) AND NOT UART_LSR_THRE\<rparr>)"
  have "write_THR ops v s = bindr (send_tsr ops (?u\<lparr>m_tsr := 0\<rparr>)) (\<lambda>(s, go). Inr (if go then end_tsr s else s))"
    using is_full q(1) q' assms(1) by (simp add: write_THR_def Transmit_def load_tsr_def full_def Let_def)
  also have "\<dots> = Inr (end_tsr (?u\<lparr>m_tsr := 0, m_chr := c, m_tsrRetry := 0\<rparr>))"
    using assms by (simp add: send_tsr_def full_def Let_def)
  moreover have "good_serial (?u\<lparr>m_tsr := 0, m_chr := c, m_tsrRetry := 0\<rparr>)"
    using wf q by (simp add: good_serial_def)
  ultimately show ?thesis
    using assms(1) q(4) by (simp add: Serial_IOWrite_def full_def end_tsr_good) (simp add: end_tsr_def Let_def)
qed

text \<open>once the transmit queue is full, every further character the guest writes is replaced by a NUL, whatever
  it is, and the queue stays full: \<open>Transmit\<close> takes nothing from a full queue, and the write
  that follows makes room only for its own character. A driver that takes every character does
  not end this.\<close>

theorem full_transmit_queue_sends_NUL:
  assumes good: "good_serial s" and "\<not> tst (m_mcr s) UART_MCR_LOOP" and "\<not> tst (m_lcr s) UART_LCR_DLAB"
    and "tst (m_fcr s) UART_FCR_FE" and "m_tsrRetry s \<le> 0" and "length (items (m_xmitFifo s)) = 16"
    and chr: "m_chr s = (0, out)"
  shows "returns (\<lambda>t. m_chr t = (0, out @ replicate (length vs) 0) \<and> length (items (m_xmitFifo t)) = 16)
    (serial_writes stalled_driver vs s)"
proof -
  have "full s \<Longrightarrow> m_chr s = (0, out) \<Longrightarrow>
    returns (\<lambda>t. full t \<and> m_chr t = (0, out @ replicate (length vs) 0)) (serial_writes stalled_driver vs s)"
    for s out
  proof (induction vs arbitrary: s out)
    case (Cons v vs)
    have "chr_Write stalled_driver [0] (m_chr s) = ((0, out @ [0]), 1)"
      using Cons.prems(2) by (simp add: stalled_driver_def)
    from write_full [OF Cons.prems(1) this, of v] show ?case
      by (auto intro!: returns_mono [OF Cons.IH] elim!: returns_mono)
  qed simp
  from this [of s out] show ?thesis
    using assms by (auto simp: full_def elim!: returns_mono)
qed

definition full_serial :: "(nat \<times> bytes) serial" where
  "full_serial = (fst (Serial_Init (Some (0, [])) (new_Serial 0x3F8 (replicate 16 0) (replicate 16 0) (0, []) 0)))
     \<lparr>m_fcr := 1, m_xmitFifo := \<lparr>m_data = replicate 16 0x41, m_capacity = 16, m_head = 0, m_num = 16\<rparr>\<rparr>"

theorem full_transmit_queue_sends_NUL_witness:
  "returns (\<lambda>t. m_chr t = (0, [0, 0, 0]) \<and> length (items (m_xmitFifo t)) = 16)
    (serial_writes stalled_driver [0x48, 0x69, 0x21] full_serial)"
proof -
  have "good_serial (fst (Serial_Init (Some (0 :: nat, [] :: bytes))
      (new_Serial 0x3F8 (replicate 16 0) (replicate 16 0) (0, []) 0)))"
    by (intro Serial_Init_good new_Serial_good) simp_all
  moreover let ?q = "\<lparr>m_data = replicate 16 0x41, m_capacity = 16, m_head = 0, m_num = 16\<rparr> :: u8 fifo"
  have "wf_fifo ?q" "room ?q = 16" by (simp_all add: wf_fifo_def room_def)
  ultimately have "good_serial full_serial"
    by (simp add: full_serial_def good_serial_def)
  from full_transmit_queue_sends_NUL [OF this, of "[]" "[0x48, 0x69, 0x21]"]
  show ?thesis by (simp add: full_serial_def Serial_Init_def new_Serial_def Serial_Reset_def numeral_3_eq_3)
qed

end
