(* ===== verification/SuperIO.thy ===== *)
theory SuperIO
  imports Serial_Laws
begin

text \<open>
  The SMSC LPC47M157 Super I/O, \<open>hw/basic/superio.cpp\<close>: its configuration
  registers behind an index and a data port, and the two serial ports that it
  activates. The model is the release build, in which the write of a device
  register does not test the device number. The row and column of
  \<open>m_deviceRegs\<close> come from the guest, and an access outside the array faults.
\<close>

section \<open>State\<close>

abbreviation PORT_SUPERIO_CONFIG :: u32 where "PORT_SUPERIO_CONFIG \<equiv> 0x2E"
abbreviation PORT_SUPERIO_DATA :: u32 where "PORT_SUPERIO_DATA \<equiv> 0x2F"
abbreviation DEVICE_SERIAL_PORT_1 :: nat where "DEVICE_SERIAL_PORT_1 \<equiv> 0x4"
abbreviation MAX_DEVICE :: nat where "MAX_DEVICE \<equiv> 0xC"
abbreviation ENTER_CONFIG_KEY :: u32 where "ENTER_CONFIG_KEY \<equiv> 0x55"
abbreviation EXIT_CONFIG_KEY :: u32 where "EXIT_CONFIG_KEY \<equiv> 0xAA"
abbreviation MAX_CONFIG_REG :: nat where "MAX_CONFIG_REG \<equiv> 0x30"
abbreviation MAX_DEVICE_REGS :: nat where "MAX_DEVICE_REGS \<equiv> 0xFF"
abbreviation CONFIG_DEVICE_NUMBER :: nat where "CONFIG_DEVICE_NUMBER \<equiv> 0x07"
abbreviation CONFIG_DEVICE_ACTIVATE :: nat where "CONFIG_DEVICE_ACTIVATE \<equiv> 0x30"
abbreviation CONFIG_DEVICE_INTERRUPT :: nat where "CONFIG_DEVICE_INTERRUPT \<equiv> 0x70"

record 'c superio =
  m_inConfigMode :: bool
  m_selectedReg :: u32
  m_configRegs :: bytes
  m_deviceRegs :: "bytes list"
  m_serialPorts :: "'c serial list"

text \<open>The ports are constructed and initialised with the drivers, whose state before is not.\<close>

definition new_SuperIO :: "'c option list \<Rightarrow> bytes \<Rightarrow> 'c \<Rightarrow> u64 \<Rightarrow> 'c superio" where
  "new_SuperIO chrs raw c0 nanos =
     \<lparr>m_inConfigMode = False, m_selectedReg = 0,
      m_configRegs = (replicate MAX_CONFIG_REG 0)[0x26 := 0x2E, 0x27 := 0x00],
      m_deviceRegs = replicate MAX_DEVICE (replicate MAX_DEVICE_REGS 0),
      m_serialPorts = map (\<lambda>(base, chr). SetBaudBase 115200 (fst (Serial_Init chr (new_Serial base raw raw c0 nanos))))
        (zip [0x3F8, 0x2F8] chrs)\<rparr>"

section \<open>Operations\<close>

definition update_device :: "nat \<Rightarrow> 'c superio \<Rightarrow> fault + 'c superio" where
  "update_device i s =
     bindr (aget (m_deviceRegs s) (DEVICE_SERIAL_PORT_1 + i)) (\<lambda>dev.
     bindr (aget dev CONFIG_DEVICE_ACTIVATE) (\<lambda>act.
     bindr (aget (m_serialPorts s) i) (\<lambda>port.
     if act \<noteq> 0 \<and> \<not> m_active port
     then bindr (aget dev CONFIG_DEVICE_INTERRUPT) (\<lambda>irq.
            Inr (s\<lparr>m_serialPorts := (m_serialPorts s)[i := (Serial_SetIRQ irq port)\<lparr>m_active := True\<rparr>]\<rparr>))
     else Inr s)))"

definition UpdateDevices :: "'c superio \<Rightarrow> fault + 'c superio" where
  "UpdateDevices s = bindr (update_device 0 s) (update_device 1)"

definition SuperIO_IORead :: "u32 \<Rightarrow> u8 \<Rightarrow> 'c superio \<Rightarrow> u32 \<Rightarrow> fault + 'c superio \<times> u32 \<times> bool" where
  "SuperIO_IORead port sz s v =
     (if port = PORT_SUPERIO_CONFIG then Inr (s, 0, True)
      else if port = PORT_SUPERIO_DATA then
        if unat (m_selectedReg s) < MAX_CONFIG_REG
        then bindr (aget (m_configRegs s) (unat (m_selectedReg s))) (\<lambda>b. Inr (s, ucast b, True))
        else bindr (aget (m_configRegs s) CONFIG_DEVICE_NUMBER) (\<lambda>n.
          if unat n \<ge> MAX_DEVICE then Inr (s, 0, True)
          else bindr (aget (m_deviceRegs s) (unat n)) (\<lambda>dev.
               bindr (aget dev (unat (m_selectedReg s))) (\<lambda>b. Inr (s, ucast b, True))))
      else Inr (s, v, False))"

definition SuperIO_IOWrite :: "u32 \<Rightarrow> u32 \<Rightarrow> u8 \<Rightarrow> 'c superio \<Rightarrow> fault + 'c superio \<times> bool" where
  "SuperIO_IOWrite port v sz s =
     (if port = PORT_SUPERIO_CONFIG then
        if v = ENTER_CONFIG_KEY then Inr (s\<lparr>m_inConfigMode := True\<rparr>, True)
        else if v = EXIT_CONFIG_KEY
        then bindr (UpdateDevices (s\<lparr>m_inConfigMode := False\<rparr>)) (\<lambda>s. Inr (s, True))
        else Inr (s\<lparr>m_selectedReg := v\<rparr>, True)
      else if port = PORT_SUPERIO_DATA then
        if unat (m_selectedReg s) < MAX_CONFIG_REG
        then bindr (aset (m_configRegs s) (unat (m_selectedReg s)) (ucast v)) (\<lambda>c.
               Inr (s\<lparr>m_configRegs := c\<rparr>, True))
        else bindr (aget (m_configRegs s) CONFIG_DEVICE_NUMBER) (\<lambda>n.
             bindr (aget (m_deviceRegs s) (unat n)) (\<lambda>dev.
             bindr (aset dev (unat (m_selectedReg s)) (ucast v)) (\<lambda>dev.
               Inr (s\<lparr>m_deviceRegs := (m_deviceRegs s)[unat n := dev]\<rparr>, True))))
      else Inr (s, False))"

section \<open>Properties\<close>

definition wf_superio :: "'c superio \<Rightarrow> bool" where
  "wf_superio s \<longleftrightarrow> length (m_configRegs s) = MAX_CONFIG_REG \<and> length (m_deviceRegs s) = MAX_DEVICE
     \<and> (\<forall>dev\<in>set (m_deviceRegs s). length dev = MAX_DEVICE_REGS) \<and> length (m_serialPorts s) = 2
     \<and> (\<forall>p\<in>set (m_serialPorts s). good_serial p)"

text \<open>The register selected and the device chosen are inside the arrays.\<close>

definition in_range :: "'c superio \<Rightarrow> bool" where
  "in_range s \<longleftrightarrow> unat (m_selectedReg s) < MAX_DEVICE_REGS
     \<and> (unat (m_selectedReg s) \<ge> MAX_CONFIG_REG \<longrightarrow> unat (m_configRegs s ! CONFIG_DEVICE_NUMBER) < MAX_DEVICE)"

lemma new_SuperIO_wf:
  assumes "length chrs = 2" and "length raw = 16"
  shows "wf_superio (new_SuperIO chrs raw c0 nanos)"
proof -
  have "good_serial (SetBaudBase 115200 (fst (Serial_Init chr (new_Serial base raw raw c0 nanos))))" for chr base
    using Serial_Init_good [OF new_Serial_good [OF assms(2) assms(2)], of chr base c0 nanos]
    by (simp add: SetBaudBase_def serial_defs)
  then show ?thesis using assms(1)
    by (auto simp: wf_superio_def new_SuperIO_def length_Suc_conv numeral_2_eq_2)
qed

lemma update_device_wf:
  assumes "wf_superio s" and "i < 2"
  shows "returns wf_superio (update_device i s)"
proof -
  have dev: "length (m_deviceRegs s ! (DEVICE_SERIAL_PORT_1 + i)) = MAX_DEVICE_REGS"
    "DEVICE_SERIAL_PORT_1 + i < length (m_deviceRegs s)" "i < length (m_serialPorts s)"
    "good_serial (m_serialPorts s ! i)"
    using assms by (auto simp: wf_superio_def)
  then have "good_serial ((Serial_SetIRQ irq (m_serialPorts s ! i))\<lparr>m_active := True\<rparr>)" for irq
    by (simp add: Serial_SetIRQ_def serial_defs)
  then show ?thesis using assms dev
    by (auto simp: update_device_def aget_def wf_superio_def dest!: set_update_subset_insert [THEN subsetD])
qed

lemma SuperIO_wf:
  assumes "wf_superio s"
  shows "in_range s \<Longrightarrow> returns (\<lambda>(t, ok). wf_superio t) (SuperIO_IOWrite port v sz s)"
    and "in_range s \<Longrightarrow> returns (\<lambda>(t, v, ok). t = s) (SuperIO_IORead port sz s v)"
proof -
  have mode: "wf_superio (s\<lparr>m_inConfigMode := b\<rparr>)" for b using assms by (simp add: wf_superio_def)
  have "returns wf_superio (UpdateDevices (s\<lparr>m_inConfigMode := False\<rparr>))"
    by (auto simp: UpdateDevices_def mode intro!: returns_mono [OF update_device_wf] update_device_wf)
  then show "in_range s \<Longrightarrow> returns (\<lambda>(t, ok). wf_superio t) (SuperIO_IOWrite port v sz s)"
    using assms mode
    by (auto simp: SuperIO_IOWrite_def in_range_def aget_def aset_def wf_superio_def
        dest!: set_update_subset_insert [THEN subsetD] elim!: returns_mono)
  show "in_range s \<Longrightarrow> returns (\<lambda>(t, v, ok). t = s) (SuperIO_IORead port sz s v)"
    using assms by (auto simp: SuperIO_IORead_def in_range_def aget_def wf_superio_def)
qed

text \<open>Selecting a register and writing or reading it through the two ports.\<close>

definition superio_write :: "u32 \<Rightarrow> u32 \<Rightarrow> 'c superio \<Rightarrow> fault + 'c superio" where
  "superio_write reg v s =
     bindr (SuperIO_IOWrite PORT_SUPERIO_CONFIG reg 1 s) (\<lambda>(s, ok).
     bindr (SuperIO_IOWrite PORT_SUPERIO_DATA v 1 s) (\<lambda>(s, ok). Inr s))"

definition superio_read :: "u32 \<Rightarrow> 'c superio \<Rightarrow> fault + 'c superio \<times> u32" where
  "superio_read reg s =
     bindr (SuperIO_IOWrite PORT_SUPERIO_CONFIG reg 1 s) (\<lambda>(s, ok).
     bindr (SuperIO_IORead PORT_SUPERIO_DATA 1 s 0) (\<lambda>(s, v, ok). Inr (s, v)))"

text \<open>a register of a logical device is selected and written through the index and data ports and read back
  with the low byte of the value, after any other register of the same or of another
  device has been written in between.\<close>

theorem superio_device_roundtrip:
  assumes wf: "wf_superio s" and "unat d < MAX_DEVICE" and "unat d' < MAX_DEVICE" and "(d, r) \<noteq> (d', r')"
    and "MAX_CONFIG_REG \<le> unat r" and "unat r < MAX_DEVICE_REGS" and "r \<noteq> ENTER_CONFIG_KEY" and "r \<noteq> EXIT_CONFIG_KEY"
    and "MAX_CONFIG_REG \<le> unat r'" and "unat r' < MAX_DEVICE_REGS" and "r' \<noteq> ENTER_CONFIG_KEY" and "r' \<noteq> EXIT_CONFIG_KEY"
  shows "returns (\<lambda>(t, v). v = x AND 0xFF)
    (bindr (superio_write 7 d s) (\<lambda>s. bindr (superio_write r x s) (\<lambda>s.
     bindr (superio_write 7 d' s) (\<lambda>s. bindr (superio_write r' y s) (\<lambda>s.
     bindr (superio_write 7 d s) (superio_read r))))))"
proof -
  have u: "unat (ucast d :: u8) = unat d" "unat (ucast d' :: u8) = unat d'"
    using assms(2,3) by (simp_all add: unsigned_ucast_eq take_bit_nat_eq_self)
  have len: "length (m_configRegs s) = MAX_CONFIG_REG" "length (m_deviceRegs s) = MAX_DEVICE"
    "i < MAX_DEVICE \<Longrightarrow> length (m_deviceRegs s ! i) = MAX_DEVICE_REGS" for i
    using wf by (auto simp: wf_superio_def)
  have ne: "unat d = unat d' \<Longrightarrow> unat r \<noteq> unat r'" using assms(4) by (auto simp: word_unat_eq_iff)
  have "(ucast (ucast x :: u8) :: u32) = x AND 0xFF" by (simp add: u32_eq_bits bit_simps)
  then show ?thesis using assms(2-3,5-) len u ne
    by (cases "unat d = unat d'")
      (simp_all add: superio_write_def superio_read_def SuperIO_IOWrite_def SuperIO_IORead_def aget_def aset_def nth_list_update)
qed

definition sample_superio :: "win32_serial superio" where
  "sample_superio = new_SuperIO [Some (m_chr sample_serial), None] (replicate 16 0) (m_chr sample_serial) 0"

theorem superio_device_roundtrip_witness:
  "returns (\<lambda>(t, v). v = 0x23)
    (bindr (superio_write 7 4 sample_superio) (\<lambda>s. bindr (superio_write 0x60 0x123 s) (\<lambda>s.
     bindr (superio_write 7 5 s) (\<lambda>s. bindr (superio_write 0x60 2 s) (\<lambda>s.
     bindr (superio_write 7 4 s) (superio_read 0x60))))))"
proof -
  have "wf_superio sample_superio" unfolding sample_superio_def by (rule new_SuperIO_wf) simp_all
  from superio_device_roundtrip [OF this, of 4 5 "0x60" "0x60" "0x123" 2] show ?thesis by simp
qed

text \<open>a register number of 255 or more, which the index port accepts, takes the next access to the data port
  out of the array of device registers, whatever the device.\<close>

theorem superio_register_overrun:
  assumes wf: "wf_superio s" and "unat (m_configRegs s ! CONFIG_DEVICE_NUMBER) < MAX_DEVICE" and "MAX_DEVICE_REGS \<le> unat r"
  shows "superio_write r v s = Inl OutOfBounds \<and> superio_read r s = Inl OutOfBounds"
proof -
  have "r \<noteq> ENTER_CONFIG_KEY" "r \<noteq> EXIT_CONFIG_KEY" "\<not> unat r < MAX_CONFIG_REG" using assms(3) by auto
  then show ?thesis using assms
    by (auto simp: superio_write_def superio_read_def SuperIO_IOWrite_def SuperIO_IORead_def aget_def aset_def wf_superio_def)
qed

theorem superio_register_overrun_witness:
  "superio_write 0xFF 0 sample_superio = Inl OutOfBounds \<and> superio_read 0xFF sample_superio = Inl OutOfBounds"
proof -
  have "wf_superio sample_superio" unfolding sample_superio_def by (rule new_SuperIO_wf) simp_all
  from superio_register_overrun [OF this, of "0xFF" 0] show ?thesis
    by (simp add: sample_superio_def new_SuperIO_def)
qed

end
