(* ===== verification/Ata.thy ===== *)
theory Ata
  imports Prelude
begin

text \<open>
  The ATA interface, \<open>hw/ata/\<close>: the registers and constants of \<open>defs.h\<close> and
  \<open>ata_common.h\<close>, a device \<open>ata_device.cpp\<close> with its driver (\<open>drvs/\<close>), a channel
  \<open>ata_channel.cpp\<close> and the pair of channels \<open>ata.cpp\<close>. The registers that the
  devices share by reference are passed to each operation of a device. Calls
  of \<open>m_irqHandler->HandleIRQ\<close> are appended to \<open>chan_irqs\<close>. A new data buffer is
  zero here and not initialised in the code: both drivers clear it first.
\<close>

section \<open>Registers\<close>

type_synonym Register = u8

abbreviation RegData :: Register where "RegData \<equiv> 0"
abbreviation RegError :: Register where "RegError \<equiv> 1"
abbreviation RegFeatures :: Register where "RegFeatures \<equiv> 1"
abbreviation RegSectorCount :: Register where "RegSectorCount \<equiv> 2"
abbreviation RegSectorNumber :: Register where "RegSectorNumber \<equiv> 3"
abbreviation RegCylinderLow :: Register where "RegCylinderLow \<equiv> 4"
abbreviation RegCylinderHigh :: Register where "RegCylinderHigh \<equiv> 5"
abbreviation RegDeviceHead :: Register where "RegDeviceHead \<equiv> 6"
abbreviation RegStatus :: Register where "RegStatus \<equiv> 7"
abbreviation RegCommand :: Register where "RegCommand \<equiv> 7"

abbreviation StBusy :: u8 where "StBusy \<equiv> 0x80"
abbreviation StReady :: u8 where "StReady \<equiv> 0x40"
abbreviation StBit5 :: u8 where "StBit5 \<equiv> 0x20"
abbreviation StDataRequest :: u8 where "StDataRequest \<equiv> 0x08"
abbreviation StError :: u8 where "StError \<equiv> 0x01"
abbreviation ErrAbort :: u8 where "ErrAbort \<equiv> 0x04"
abbreviation DevCtlSoftwareReset :: u32 where "DevCtlSoftwareReset \<equiv> 0x04"
abbreviation DevCtlNegateInterruptEnable :: u8 where "DevCtlNegateInterruptEnable \<equiv> 0x02"

abbreviation CmdDeviceReset :: u8 where "CmdDeviceReset \<equiv> 0x08"
abbreviation CmdIdentifyDevice :: u8 where "CmdIdentifyDevice \<equiv> 0xEC"
abbreviation CmdSetFeatures :: u8 where "CmdSetFeatures \<equiv> 0xEF"
abbreviation CmdSecurityUnlock :: u8 where "CmdSecurityUnlock \<equiv> 0xF2"
abbreviation SFCmdSetTransferMode :: u8 where "SFCmdSetTransferMode \<equiv> 0x03"

datatype CommandProtocol = CmdProtoDeviceReset | CmdProtoPIODataIn | CmdProtoPIODataOut
  | CmdProtoNonData | CmdProtoDMA | CmdProtoPACKET

definition kCmdProtocols :: "u8 \<rightharpoonup> CommandProtocol" where
  "kCmdProtocols = [CmdIdentifyDevice \<mapsto> CmdProtoPIODataIn, CmdSetFeatures \<mapsto> CmdProtoNonData,
     CmdSecurityUnlock \<mapsto> CmdProtoPIODataOut]"

abbreviation XferTypePIODefault :: u8 where "XferTypePIODefault \<equiv> 0"
abbreviation XferTypePIOFlowCtl :: u8 where "XferTypePIOFlowCtl \<equiv> 1"
abbreviation XferTypeMultiWordDMA :: u8 where "XferTypeMultiWordDMA \<equiv> 4"
abbreviation XferTypeUltraDMA :: u8 where "XferTypeUltraDMA \<equiv> 8"
abbreviation kMaximumPIOTransferMode :: u8 where "kMaximumPIOTransferMode \<equiv> 4"
abbreviation kMaximumMultiwordDMATransferMode :: u8 where "kMaximumMultiwordDMATransferMode \<equiv> 2"
abbreviation kMaximumUltraDMATransferMode :: u8 where "kMaximumUltraDMATransferMode \<equiv> 4"

record ATARegisters =
  status :: u8
  error :: u8
  features :: u8
  sectorCount :: u8
  sectorNumber :: u8
  cylinder :: u16
  deviceHead :: u8
  control :: u8

definition new_ATARegisters :: ATARegisters where
  "new_ATARegisters = \<lparr>status = StReady, error = 0, features = 0, sectorCount = 0, sectorNumber = 0,
     cylinder = 0, deviceHead = 0, control = 0\<rparr>"

section \<open>Drivers\<close>

definition sizeof_IdentifyDeviceData :: u32 where
  "sizeof_IdentifyDeviceData = 512"

record ata_driver =
  drv_IsAttached :: bool
  drv_IdentifyDevice :: "bytes \<Rightarrow> bytes"

text \<open>The characters of a string in the words of \<open>IdentifyDeviceData\<close>, from byte \<open>off\<close> on.\<close>

fun padString :: "nat \<Rightarrow> nat \<Rightarrow> bytes \<Rightarrow> nat \<Rightarrow> bytes \<Rightarrow> bytes" where
  "padString off i src 0 buf = buf"
| "padString off i src (Suc n) buf =
     (let j = off + (if even i then i + 1 else i - 1) in
      case src of
        c # src \<Rightarrow> padString off (i + 1) src n (buf[j := c])
      | [] \<Rightarrow> padString off (i + 1) [] n (buf[j := 0x20]))"

definition set_word :: "nat \<Rightarrow> u16 \<Rightarrow> bytes \<Rightarrow> bytes" where
  "set_word w v buf = wr16 buf (2 * w) v"

definition ascii :: "string \<Rightarrow> bytes" where
  "ascii s = map of_char s"

definition DummyHD_IdentifyDevice :: "bytes \<Rightarrow> bytes" where
  "DummyHD_IdentifyDevice d =
     (let d = fill d 0 0 512;
          d = set_word 0 0x8000 d;
          d = set_word 1 5120 d;
          d = set_word 3 15 d;
          d = set_word 6 255 d;
          d = padString 20 0 (ascii ''1234567890'') 20 d;
          d = padString 46 0 (ascii ''1.00'') 8 d;
          d = padString 54 0 (ascii ''DMY987654321'') 40 d;
          d = set_word 53 (0x4 OR 0x2 OR 0x1) d;
          d = set_word 54 (rd16 d 2) d;
          d = set_word 55 (rd16 d 6) d;
          d = set_word 56 (rd16 d 12) d;
          d = wr32 d 114 (ucast (rd16 d 108) * ucast (rd16 d 110) * ucast (rd16 d 112));
          d = wr32 d 120 (rd32 d 114);
          d = set_word 63 (0x1 OR 0x2 OR 0x4 OR 0x100) d;
          d = wr8 d 128 2;
          d = set_word 65 120 d;
          d = set_word 66 120 d;
          d = set_word 67 120 d;
          d = set_word 68 120 d;
          d = set_word 80 (0x10 OR 0x8 OR 0x4 OR 0x2) d;
          d = set_word 81 0x0017 d;
          d = set_word 82 (0x8 OR 0x20 OR 0x40) d;
          d = set_word 83 0x4000 d;
          d = set_word 84 0x4000 d;
          d = set_word 85 (0x8 OR 0x20 OR 0x40) d;
          d = set_word 86 0x4000 d;
          d = set_word 87 0x4000 d;
          d = set_word 88 (0x1 OR 0x2 OR 0x4) d
      in set_word 128 (rd16 d 256 OR (0x1 OR 0x2)) d)"

definition dummy_hd :: ata_driver where
  "dummy_hd = \<lparr>drv_IsAttached = True, drv_IdentifyDevice = DummyHD_IdentifyDevice\<rparr>"

definition Null_IdentifyDevice :: "bytes \<Rightarrow> bytes" where
  "Null_IdentifyDevice d = fill d 0 0 512"

definition null_ata_driver :: ata_driver where
  "null_ata_driver = \<lparr>drv_IsAttached = True, drv_IdentifyDevice = Null_IdentifyDevice\<rparr>"

section \<open>Devices\<close>

record ata_device =
  m_devIndex :: u8
  m_driver :: ata_driver
  m_pioTransferType :: u8
  m_pioTransferMode :: u8
  m_dmaTransferType :: u8
  m_dmaTransferMode :: u8
  m_dataBuffer :: bytes
  m_dataBufferSize :: u32
  m_dataBufferPos :: u32

definition new_ATADevice :: "u8 \<Rightarrow> ata_device" where
  "new_ATADevice devIndex = \<lparr>m_devIndex = devIndex, m_driver = null_ata_driver,
     m_pioTransferType = XferTypePIODefault, m_pioTransferMode = 0,
     m_dmaTransferType = XferTypeMultiWordDMA, m_dmaTransferMode = 0,
     m_dataBuffer = [], m_dataBufferSize = 0, m_dataBufferPos = 0\<rparr>"

definition IsAttached :: "ata_device \<Rightarrow> bool" where
  "IsAttached d = drv_IsAttached (m_driver d)"

definition SetDeviceDriver :: "ata_driver \<Rightarrow> ata_device \<Rightarrow> ata_device" where
  "SetDeviceDriver drv d = d\<lparr>m_driver := drv\<rparr>"

definition InitDataBuffer :: "u32 \<Rightarrow> ata_device \<Rightarrow> ata_device" where
  "InitDataBuffer n d =
     (let d = (if m_dataBufferSize d < n then d\<lparr>m_dataBuffer := replicate (unat n) 0\<rparr> else d)
      in d\<lparr>m_dataBufferSize := n, m_dataBufferPos := 0\<rparr>)"

definition GetRemainingBufferLength :: "ata_device \<Rightarrow> u32" where
  "GetRemainingBufferLength d = m_dataBufferSize d - m_dataBufferPos d"

text \<open>\<open>ReadBuffer(dest, length)\<close> into the four bytes of \<open>*value\<close>.\<close>

definition ReadBuffer :: "bytes \<Rightarrow> u32 \<Rightarrow> ata_device \<Rightarrow> fault + ata_device \<times> bytes \<times> u32" where
  "ReadBuffer dest len d =
     (let lenToRead = (if m_dataBufferPos d + len > m_dataBufferSize d then GetRemainingBufferLength d else len)
      in bindr (memcpy dest 0 (drop (unat (m_dataBufferPos d)) (m_dataBuffer d)) (unat lenToRead)) (\<lambda>dest.
           Inr (d\<lparr>m_dataBufferPos := m_dataBufferPos d + lenToRead\<rparr>, dest, lenToRead)))"

definition select_device :: "ata_device \<Rightarrow> ATARegisters \<Rightarrow> ATARegisters" where
  "select_device d r = r\<lparr>deviceHead := (deviceHead r AND NOT 0x10) OR push_bit 4 (m_devIndex d)\<rparr>"

definition doIdentifyDevice :: "ATARegisters \<Rightarrow> ata_device \<Rightarrow> ata_device \<times> bool" where
  "doIdentifyDevice r d =
     (if status r AND StReady = 0 then (d, False)
      else
        let d = InitDataBuffer sizeof_IdentifyDeviceData d
        in (d\<lparr>m_dataBuffer := drv_IdentifyDevice (m_driver d) (m_dataBuffer d)\<rparr>, True))"

definition IdentifyDevice :: "ATARegisters \<Rightarrow> ata_device \<Rightarrow> ATARegisters \<times> ata_device \<times> bool" where
  "IdentifyDevice r d =
     (let (d, ok) = doIdentifyDevice r d in
      if ok then
        let r = select_device d r
        in (r\<lparr>status := (status r OR StReady) AND NOT (StBit5 OR StDataRequest OR StError)\<rparr>, d, True)
      else (r, d, False))"

definition abort_command :: "ATARegisters \<Rightarrow> ATARegisters" where
  "abort_command r = r\<lparr>error := error r OR ErrAbort\<rparr>"

definition SetPIOTransferMode :: "u8 \<Rightarrow> u8 \<Rightarrow> ATARegisters \<Rightarrow> ata_device \<Rightarrow> ATARegisters \<times> ata_device \<times> bool" where
  "SetPIOTransferMode xfer mode r d =
     (if xfer = XferTypePIODefault \<and> mode > 1 then (abort_command r, d, False)
      else if xfer \<noteq> XferTypePIODefault \<and> mode > kMaximumPIOTransferMode then (abort_command r, d, False)
      else (r, d\<lparr>m_pioTransferType := xfer, m_pioTransferMode := mode\<rparr>, True))"

definition SetDMATransferMode :: "u8 \<Rightarrow> u8 \<Rightarrow> ATARegisters \<Rightarrow> ata_device \<Rightarrow> ATARegisters \<times> ata_device \<times> bool" where
  "SetDMATransferMode xfer mode r d =
     (if xfer = XferTypeMultiWordDMA \<and> mode > kMaximumMultiwordDMATransferMode then (abort_command r, d, False)
      else if xfer \<noteq> XferTypeMultiWordDMA \<and> mode > kMaximumUltraDMATransferMode then (abort_command r, d, False)
      else (r, d\<lparr>m_dmaTransferType := xfer, m_dmaTransferMode := mode\<rparr>, True))"

definition SetTransferMode :: "ATARegisters \<Rightarrow> ata_device \<Rightarrow> ATARegisters \<times> ata_device \<times> bool" where
  "SetTransferMode r d =
     (let transferType = drop_bit 3 (sectorCount r) AND 0x1F; transferMode = sectorCount r AND 7 in
      if transferType = XferTypePIODefault \<or> transferType = XferTypePIOFlowCtl
      then SetPIOTransferMode transferType transferMode r d
      else if transferType = XferTypeMultiWordDMA \<or> transferType = XferTypeUltraDMA
      then SetDMATransferMode transferType transferMode r d
      else (r, d, False))"

definition doSetFeatures :: "ATARegisters \<Rightarrow> ata_device \<Rightarrow> ATARegisters \<times> ata_device \<times> bool" where
  "doSetFeatures r d = (if features r = SFCmdSetTransferMode then SetTransferMode r d else (r, d, False))"

definition SetFeatures :: "ATARegisters \<Rightarrow> ata_device \<Rightarrow> ATARegisters \<times> ata_device \<times> bool" where
  "SetFeatures r d =
     (let (r, d, ok) = doSetFeatures r d in
      if ok then (r, d, True)
      else
        let r = select_device d r;
            r = r\<lparr>status := (status r OR StReady) AND NOT StDataRequest\<rparr>;
            r = (if error r \<noteq> 0 then r\<lparr>status := status r OR StError\<rparr> else r)
        in (r, d, False))"

section \<open>Channels\<close>

record ata_channel =
  m_devs :: "ata_device list"
  m_regs :: ATARegisters
  m_interrupt :: bool
  m_irqNum :: u8
  chan_irqs :: "(u8 \<times> bool) list"

definition new_ATAChannel :: "u8 \<Rightarrow> ata_channel" where
  "new_ATAChannel irqNum = \<lparr>m_devs = [new_ATADevice 0, new_ATADevice 1], m_regs = new_ATARegisters,
     m_interrupt = False, m_irqNum = irqNum, chan_irqs = []\<rparr>"

definition GetSelectedDeviceIndex :: "ata_channel \<Rightarrow> nat" where
  "GetSelectedDeviceIndex c = unat (drop_bit 4 (deviceHead (m_regs c)) AND 1)"

definition AreInterruptsEnabled :: "ata_channel \<Rightarrow> bool" where
  "AreInterruptsEnabled c \<longleftrightarrow> control (m_regs c) AND DevCtlNegateInterruptEnable = 0"

definition SetInterrupt :: "bool \<Rightarrow> ata_channel \<Rightarrow> ata_channel" where
  "SetInterrupt asserted c =
     (if asserted \<noteq> m_interrupt c \<and> AreInterruptsEnabled c
      then c\<lparr>m_interrupt := asserted, chan_irqs := chan_irqs c @ [(m_irqNum c, asserted)]\<rparr> else c)"

definition set_status :: "(u8 \<Rightarrow> u8) \<Rightarrow> ata_channel \<Rightarrow> ata_channel" where
  "set_status f c = c\<lparr>m_regs := (m_regs c)\<lparr>status := f (status (m_regs c))\<rparr>\<rparr>"

definition ReadData :: "u8 \<Rightarrow> ata_channel \<Rightarrow> fault + ata_channel \<times> u32" where
  "ReadData sz c =
     (let i = GetSelectedDeviceIndex c in
      bindr (aget (m_devs c) i) (\<lambda>dev.
      bindr (ReadBuffer [0, 0, 0, 0] (ucast sz) dev) (\<lambda>(dev, dest, lenRead).
        Inr (set_status (\<lambda>st. st AND NOT StDataRequest) (c\<lparr>m_devs := (m_devs c)[i := dev]\<rparr>), rd32 dest 0))))"

text \<open>\<open>ReadStatus\<close> stores one byte at \<open>value\<close>, the others stay.\<close>

definition ReadStatus :: "u32 \<Rightarrow> ata_channel \<Rightarrow> ata_channel \<times> u32" where
  "ReadStatus value c =
     (let c = SetInterrupt False c in (c, (value AND NOT 0xFF) OR ucast (status (m_regs c))))"

definition WriteCommand :: "u8 \<Rightarrow> ata_channel \<Rightarrow> fault + ata_channel" where
  "WriteCommand value c =
     (case kCmdProtocols value of
        None \<Rightarrow> Inr (set_status (\<lambda>st. st OR StError) c)
      | Some protocol \<Rightarrow>
          let i = GetSelectedDeviceIndex c in
          bindr (aget (m_devs c) i) (\<lambda>dev.
            let c = set_status (\<lambda>st. st OR StBusy) c;
                (r, dev, succeeded) =
                  (if value = CmdSetFeatures then SetFeatures (m_regs c) dev
                   else if value = CmdIdentifyDevice then IdentifyDevice (m_regs c) dev
                   else (m_regs c, dev, False));
                c = c\<lparr>m_regs := r, m_devs := (m_devs c)[i := dev]\<rparr>;
                c = (if succeeded
                     then if protocol = CmdProtoPIODataIn \<or> protocol = CmdProtoPIODataOut
                          then set_status (\<lambda>st. st OR StDataRequest) c else c
                     else set_status (\<lambda>st. st OR StError) c);
                c = set_status (\<lambda>st. st AND NOT StBusy) c
            in Inr (if AreInterruptsEnabled c then SetInterrupt True c else c)))"

definition ReadCommandPort :: "Register \<Rightarrow> u32 \<Rightarrow> u8 \<Rightarrow> ata_channel \<Rightarrow> fault + ata_channel \<times> u32 \<times> bool" where
  "ReadCommandPort reg value sz c =
     (if reg > RegCommand then Inl AssertFailed
      else bindr (aget (m_devs c) (GetSelectedDeviceIndex c)) (\<lambda>dev.
        let r = m_regs c in
        if \<not> IsAttached dev \<and> reg \<noteq> RegStatus then Inr (c, 0, True)
        else if reg = RegData then bindr (ReadData sz c) (\<lambda>(c, v). Inr (c, v, True))
        else if reg = RegError then Inr (c, ucast (error r), True)
        else if reg = RegSectorCount then Inr (c, ucast (sectorCount r), True)
        else if reg = RegSectorNumber then Inr (c, ucast (sectorNumber r), True)
        else if reg = RegCylinderLow then Inr (c, ucast (cylinder r) AND 0xFF, True)
        else if reg = RegCylinderHigh then Inr (c, drop_bit 8 (ucast (cylinder r)) AND 0xFF, True)
        else if reg = RegDeviceHead then Inr (c, ucast (deviceHead r), True)
        else let (c, v) = ReadStatus value c in Inr (c, v, True)))"

definition WriteCommandPort :: "Register \<Rightarrow> u32 \<Rightarrow> u8 \<Rightarrow> ata_channel \<Rightarrow> fault + ata_channel \<times> bool" where
  "WriteCommandPort reg value sz c =
     (let r = m_regs c in
      if reg > RegCommand then Inl AssertFailed
      else if tst (status r) StBusy \<and> (reg \<noteq> RegCommand \<or> value \<noteq> ucast CmdDeviceReset) then Inr (c, True)
      else if reg = RegData then Inr (c, True)
      else if reg = RegFeatures then Inr (c\<lparr>m_regs := r\<lparr>features := ucast value\<rparr>\<rparr>, True)
      else if reg = RegSectorCount then Inr (c\<lparr>m_regs := r\<lparr>sectorCount := ucast value\<rparr>\<rparr>, True)
      else if reg = RegSectorNumber then Inr (c\<lparr>m_regs := r\<lparr>sectorNumber := ucast value\<rparr>\<rparr>, True)
      else if reg = RegCylinderLow
      then Inr (c\<lparr>m_regs := r\<lparr>cylinder := (cylinder r AND 0xFF00) OR ucast (value AND 0xFF)\<rparr>\<rparr>, True)
      else if reg = RegCylinderHigh
      then Inr (c\<lparr>m_regs := r\<lparr>cylinder := (cylinder r AND 0x00FF) OR ucast (push_bit 8 (value AND 0xFF))\<rparr>\<rparr>, True)
      else if reg = RegDeviceHead then Inr (c\<lparr>m_regs := r\<lparr>deviceHead := ucast value\<rparr>\<rparr>, True)
      else bindr (WriteCommand (ucast value) c) (\<lambda>c. Inr (c, True)))"

definition ReadControlPort :: "u32 \<Rightarrow> u8 \<Rightarrow> ata_channel \<Rightarrow> ata_channel \<times> u32 \<times> bool" where
  "ReadControlPort value sz c = (let (c, v) = ReadStatus value c in (c, v, True))"

definition WriteControlPort :: "u32 \<Rightarrow> u8 \<Rightarrow> ata_channel \<Rightarrow> ata_channel \<times> bool" where
  "WriteControlPort value sz c =
     (let c = (if tst value (ucast DevCtlNegateInterruptEnable) then SetInterrupt False c else c)
      in (c\<lparr>m_regs := (m_regs c)\<lparr>control := ucast value\<rparr>\<rparr>, False))"

section \<open>The two channels\<close>

abbreviation kPrimaryIRQ :: u8 where "kPrimaryIRQ \<equiv> 14"
abbreviation kPrimaryCommandBasePort :: u32 where "kPrimaryCommandBasePort \<equiv> 0x1F0"
abbreviation kPrimaryCommandLastPort :: u32 where "kPrimaryCommandLastPort \<equiv> 0x1F7"
abbreviation kPrimaryControlPort :: u32 where "kPrimaryControlPort \<equiv> 0x3F6"
abbreviation kSecondaryIRQ :: u8 where "kSecondaryIRQ \<equiv> 15"
abbreviation kSecondaryCommandBasePort :: u32 where "kSecondaryCommandBasePort \<equiv> 0x170"
abbreviation kSecondaryCommandLastPort :: u32 where "kSecondaryCommandLastPort \<equiv> 0x177"
abbreviation kSecondaryControlPort :: u32 where "kSecondaryControlPort \<equiv> 0x376"

record ata =
  primary :: ata_channel
  secondary :: ata_channel

definition new_ATA :: ata where
  "new_ATA = \<lparr>primary = new_ATAChannel kPrimaryIRQ, secondary = new_ATAChannel kSecondaryIRQ\<rparr>"

definition ATA_IORead :: "u32 \<Rightarrow> u32 \<Rightarrow> u8 \<Rightarrow> ata \<Rightarrow> fault + ata \<times> u32 \<times> bool" where
  "ATA_IORead port value sz a =
     (if kPrimaryCommandBasePort \<le> port \<and> port \<le> kPrimaryCommandLastPort
      then bindr (ReadCommandPort (ucast (port - kPrimaryCommandBasePort)) value sz (primary a))
             (\<lambda>(c, v, h). Inr (a\<lparr>primary := c\<rparr>, v, h))
      else if port = kPrimaryControlPort
      then let (c, v, h) = ReadControlPort value sz (primary a) in Inr (a\<lparr>primary := c\<rparr>, v, h)
      else if kSecondaryCommandBasePort \<le> port \<and> port \<le> kSecondaryCommandLastPort
      then bindr (ReadCommandPort (ucast (port - kPrimaryCommandBasePort)) value sz (secondary a))
             (\<lambda>(c, v, h). Inr (a\<lparr>secondary := c\<rparr>, v, h))
      else if port = kSecondaryControlPort
      then let (c, v, h) = ReadControlPort value sz (secondary a) in Inr (a\<lparr>secondary := c\<rparr>, v, h)
      else Inr (a, 0, False))"

definition ATA_IOWrite :: "u32 \<Rightarrow> u32 \<Rightarrow> u8 \<Rightarrow> ata \<Rightarrow> fault + ata \<times> bool" where
  "ATA_IOWrite port value sz a =
     (if kPrimaryCommandBasePort \<le> port \<and> port \<le> kPrimaryCommandLastPort
      then bindr (WriteCommandPort (ucast (port - kPrimaryCommandBasePort)) value sz (primary a))
             (\<lambda>(c, h). Inr (a\<lparr>primary := c\<rparr>, h))
      else if port = kPrimaryControlPort
      then let (c, h) = WriteControlPort value sz (primary a) in Inr (a\<lparr>primary := c\<rparr>, h)
      else if kSecondaryCommandBasePort \<le> port \<and> port \<le> kSecondaryCommandLastPort
      then bindr (WriteCommandPort (ucast (port - kSecondaryCommandBasePort)) value sz (secondary a))
             (\<lambda>(c, h). Inr (a\<lparr>secondary := c\<rparr>, h))
      else if port = kSecondaryControlPort
      then let (c, h) = WriteControlPort value sz (secondary a) in Inr (a\<lparr>secondary := c\<rparr>, h)
      else Inr (a, False))"

end
