(* ===== verification/Ata_Laws.thy ===== *)
theory Ata_Laws
  imports Ata
begin

text \<open>
  The ATA channels: the contract of a device driver and its two
  implementations, the invariant of a channel and its interrupt line, and the
  transfer of the data of Identify Device.
\<close>

section \<open>The contract of a driver\<close>

text \<open>A driver fills the 512 bytes of the buffer, whatever they held.\<close>

locale identifying_driver =
  fixes drv :: ata_driver and answer :: bytes
  assumes fills: "length b = 512 \<Longrightarrow> drv_IdentifyDevice drv b = answer"
    and answer: "length answer = 512"

definition wf_device :: "ata_device \<Rightarrow> bool" where
  "wf_device d \<longleftrightarrow> (m_dataBuffer d = [] \<and> m_dataBufferSize d = 0 \<and> m_dataBufferPos d = 0
       \<or> length (m_dataBuffer d) = 512 \<and> m_dataBufferSize d = 512 \<and> m_dataBufferPos d \<le> 512)
     \<and> (\<exists>answer. identifying_driver (m_driver d) answer)"

context identifying_driver begin

lemma identify_buffer:
  assumes "wf_device d" and "m_driver d = drv" and "tst (status r) StReady"
  shows "\<exists>r' d'. IdentifyDevice r d = (r', d', True) \<and> wf_device d'
    \<and> m_dataBuffer d' = answer \<and> m_dataBufferSize d' = 512 \<and> m_dataBufferPos d' = 0 \<and> m_driver d' = drv
    \<and> control r' = control r \<and> (drv_IsAttached drv \<longrightarrow> IsAttached d')
    \<and> deviceHead r' = (deviceHead r AND NOT 0x10) OR push_bit 4 (m_devIndex d) \<and> m_devIndex d' = m_devIndex d"
proof -
  have "length (m_dataBuffer (InitDataBuffer sizeof_IdentifyDeviceData d)) = 512"
    using assms(1) by (auto simp: wf_device_def InitDataBuffer_def sizeof_IdentifyDeviceData_def Let_def)
  then have "drv_IdentifyDevice (m_driver d) (m_dataBuffer (InitDataBuffer sizeof_IdentifyDeviceData d)) = answer"
    using fills assms(2) by simp
  then show ?thesis using assms(2,3) answer identifying_driver_axioms
    by (auto simp: IdentifyDevice_def doIdentifyDevice_def wf_device_def InitDataBuffer_def Let_def
        sizeof_IdentifyDeviceData_def select_device_def IsAttached_def)
qed

end

definition dummy_answer :: bytes where
  "dummy_answer = DummyHD_IdentifyDevice (replicate 512 0)"

lemma fill_any: "length b = n \<Longrightarrow> fill b 0 v n = replicate n v"
  by (auto simp: fill_def intro!: nth_equalityI)

lemma length_padString [simp]: "length (padString off i src n buf) = length buf"
  by (induction off i src n buf rule: padString.induct) (auto simp: Let_def split: list.splits)

interpretation dummy: identifying_driver dummy_hd dummy_answer
proof
  show "length b = 512 \<Longrightarrow> drv_IdentifyDevice dummy_hd b = dummy_answer" for b
    by (simp add: dummy_hd_def dummy_answer_def DummyHD_IdentifyDevice_def fill_any)
  show "length dummy_answer = 512"
    by (simp add: dummy_answer_def DummyHD_IdentifyDevice_def set_word_def Let_def)
qed

interpretation null: identifying_driver null_ata_driver "replicate 512 0"
  by unfold_locales (simp_all add: null_ata_driver_def Null_IdentifyDevice_def fill_any)

section \<open>The invariant of a channel\<close>

text \<open>The interrupt line changes with every call of the handler: it rises first, then falls, and so on.\<close>

definition alternating :: "bool list \<Rightarrow> bool" where
  "alternating bs \<longleftrightarrow> (\<forall>i<length bs. bs ! i = even i)"

definition wf_channel :: "ata_channel \<Rightarrow> bool" where
  "wf_channel c \<longleftrightarrow> length (m_devs c) = 2 \<and> (\<forall>d\<in>set (m_devs c). wf_device d)
     \<and> alternating (map snd (chan_irqs c)) \<and> m_interrupt c = odd (length (chan_irqs c))"

definition wf_ata :: "ata \<Rightarrow> bool" where
  "wf_ata a \<longleftrightarrow> wf_channel (primary a) \<and> wf_channel (secondary a)"

lemma wf_channel_fields [simp]:
  "wf_channel (c\<lparr>m_regs := r\<rparr>) = wf_channel c" "wf_channel (set_status f c) = wf_channel c"
  by (simp_all add: wf_channel_def set_status_def)

lemma set_status_fields [simp]:
  "m_devs (set_status f c) = m_devs c" "m_interrupt (set_status f c) = m_interrupt c"
  "chan_irqs (set_status f c) = chan_irqs c" "m_irqNum (set_status f c) = m_irqNum c"
  "GetSelectedDeviceIndex (set_status f c) = GetSelectedDeviceIndex c"
  "AreInterruptsEnabled (set_status f c) = AreInterruptsEnabled c"
  by (simp_all add: set_status_def GetSelectedDeviceIndex_def AreInterruptsEnabled_def)

lemma alternating_snoc: "alternating bs \<Longrightarrow> b = even (length bs) \<Longrightarrow> alternating (bs @ [b])"
  by (auto simp: alternating_def nth_append less_Suc_eq)

lemma wf_SetInterrupt [simp]: "wf_channel c \<Longrightarrow> wf_channel (SetInterrupt b c)"
  by (auto simp: SetInterrupt_def wf_channel_def intro!: alternating_snoc)

lemma SetInterrupt_fields [simp]:
  "m_devs (SetInterrupt b c) = m_devs c" "m_regs (SetInterrupt b c) = m_regs c"
  by (simp_all add: SetInterrupt_def)

lemma selected_device: "GetSelectedDeviceIndex c < 2"
proof -
  have "drop_bit 4 (deviceHead (m_regs c)) AND 1 \<le> 1" by (rule word_and_le1)
  then show ?thesis by (simp add: GetSelectedDeviceIndex_def word_le_nat_alt)
qed

lemma wf_device_put:
  "wf_channel c \<Longrightarrow> wf_device d \<Longrightarrow> wf_channel (c\<lparr>m_devs := (m_devs c)[i := d]\<rparr>)"
  by (auto simp: wf_channel_def dest!: set_update_subset_insert [THEN subsetD])

lemma wf_device_put' [simp]:
  "wf_channel c \<Longrightarrow> wf_device d \<Longrightarrow> wf_channel ((set_status f c)\<lparr>m_regs := r, m_devs := (m_devs c)[i := d]\<rparr>)"
  "wf_channel c \<Longrightarrow> wf_device d \<Longrightarrow> wf_channel ((set_status f c)\<lparr>m_devs := (m_devs c)[i := d]\<rparr>)"
  using wf_device_put [of "(set_status f c)\<lparr>m_regs := r\<rparr>" d i] wf_device_put [of "set_status f c" d i]
  by simp_all

lemma wf_device_get: "wf_channel c \<Longrightarrow> \<exists>d. aget (m_devs c) (GetSelectedDeviceIndex c) = Inr d \<and> wf_device d"
  using selected_device [of c] by (auto simp: wf_channel_def aget_def)

lemma ReadStatus_wf: "wf_channel c \<Longrightarrow> wf_channel (fst (ReadStatus v c))"
  by (simp add: ReadStatus_def Let_def)

lemma wf_transfer_modes [simp]:
  "wf_device (d\<lparr>m_pioTransferType := x, m_pioTransferMode := y\<rparr>) = wf_device d"
  "wf_device (d\<lparr>m_dmaTransferType := x, m_dmaTransferMode := y\<rparr>) = wf_device d"
  by (simp_all add: wf_device_def)

lemma SetFeatures_wf:
  "wf_device d \<Longrightarrow> wf_device (fst (snd (SetFeatures r d)))"
  by (auto simp: SetFeatures_def doSetFeatures_def SetTransferMode_def SetPIOTransferMode_def
      SetDMATransferMode_def Let_def)

lemma IdentifyDevice_wf:
  assumes "wf_device d"
  shows "wf_device (fst (snd (IdentifyDevice r d)))"
proof (cases "tst (status r) StReady")
  case True
  obtain answer where "identifying_driver (m_driver d) answer" using assms by (auto simp: wf_device_def)
  from identifying_driver.identify_buffer [OF this assms refl True] show ?thesis by auto
qed (simp add: IdentifyDevice_def doIdentifyDevice_def assms)

lemma WriteCommand_wf:
  assumes "wf_channel c"
  shows "returns wf_channel (WriteCommand v c)"
proof -
  obtain d where d: "aget (m_devs c) (GetSelectedDeviceIndex c) = Inr d" "wf_device d"
    using wf_device_get [OF assms] by blast
  show ?thesis
    using d assms SetFeatures_wf [OF d(2)] IdentifyDevice_wf [OF d(2)]
    by (auto simp: WriteCommand_def Let_def split_beta wf_device_put split: option.splits)
qed

lemma word_le_512: "p \<le> (512::u32) \<Longrightarrow> unat p \<le> 512"
  by (simp add: word_le_nat_alt)

lemma ReadBuffer_wf:
  assumes "wf_device d" and sz: "unat len \<le> 4"
  shows "returns (\<lambda>(d', dest, n). wf_device d' \<and> length dest = 4) (ReadBuffer [0, 0, 0, 0] len d)"
proof (cases "m_dataBuffer d = []")
  case True
  then have "m_dataBufferSize d = 0" "m_dataBufferPos d = 0" using assms by (auto simp: wf_device_def)
  moreover have "\<not> len > 0 \<Longrightarrow> len = 0" by (metis word_neq_0_conv)
  ultimately show ?thesis using assms(1) True
    by (auto simp: ReadBuffer_def GetRemainingBufferLength_def memcpy_def Let_def wf_device_def)
next
  case False
  then have d: "length (m_dataBuffer d) = 512" "m_dataBufferSize d = 512" "unat (m_dataBufferPos d) \<le> 512"
    using assms word_le_512 by (auto simp: wf_device_def)
  let ?p = "m_dataBufferPos d"
  have sum: "unat (?p + len) = unat ?p + unat len" using d(3) sz by (simp add: unat_word_ariths)
  have rem: "unat (512 - ?p) = 512 - unat ?p" using d(3) by (simp add: unat_sub word_le_nat_alt)
  define n where "n = (if ?p + len > 512 then 512 - ?p else len)"
  have n: "unat n \<le> 4" "unat ?p + unat n \<le> 512"
    using sum rem sz d(3) by (auto simp: word_less_nat_alt n_def)
  have "?p + n \<le> 512" using n(2) by (simp add: word_le_nat_alt unat_word_ariths)
  moreover have "ReadBuffer [0, 0, 0, 0] len d =
      bindr (memcpy [0, 0, 0, 0] 0 (drop (unat ?p) (m_dataBuffer d)) (unat n)) (\<lambda>dest.
        Inr (d\<lparr>m_dataBufferPos := ?p + n\<rparr>, dest, n))"
    by (simp add: ReadBuffer_def GetRemainingBufferLength_def d(2) n_def Let_def)
  ultimately show ?thesis using assms(1) False d n
    by (simp add: memcpy_def wf_device_def)
qed

lemma ReadData_wf:
  assumes "wf_channel c" and sz: "sz \<le> 4"
  shows "returns (\<lambda>(c', v). wf_channel c') (ReadData sz c)"
proof -
  obtain d where d: "aget (m_devs c) (GetSelectedDeviceIndex c) = Inr d" "wf_device d"
    using wf_device_get [OF assms(1)] by blast
  have "unat (ucast sz :: u32) = unat sz" by transfer simp
  then have "unat (ucast sz :: u32) \<le> 4" using sz by (simp add: word_le_nat_alt)
  from ReadBuffer_wf [OF d(2) this] show ?thesis using d(1) assms(1)
    by (auto simp: ReadData_def wf_device_put elim!: returns_mono)
qed

lemma ReadCommandPort_wf:
  assumes "wf_channel c" and "sz \<le> 4" and "reg \<le> RegCommand"
  shows "returns (\<lambda>(c', v, h). wf_channel c') (ReadCommandPort reg v sz c)"
proof -
  have "\<not> reg > RegCommand" using assms(3) by simp
  then show ?thesis using wf_device_get [OF assms(1)] ReadData_wf [OF assms(1,2)] assms(1)
    by (auto simp: ReadCommandPort_def ReadStatus_def Let_def elim!: returns_mono)
qed

lemma WriteCommandPort_wf:
  assumes "wf_channel c" and "reg \<le> RegCommand"
  shows "returns (\<lambda>(c', h). wf_channel c') (WriteCommandPort reg v sz c)"
proof -
  have "\<not> reg > RegCommand" using assms(2) by simp
  then show ?thesis using WriteCommand_wf [OF assms(1)] assms(1)
    by (auto simp: WriteCommandPort_def Let_def elim!: returns_mono)
qed

lemma command_register:
  assumes "base \<le> port" and "port \<le> base + 7" and "base \<le> 0x1000"
  shows "(ucast (port - base :: u32) :: u8) \<le> RegCommand"
proof -
  have "unat (port - base) \<le> 7"
    using assms by (simp add: word_le_nat_alt unat_sub unat_word_ariths)
  then show ?thesis by (simp add: word_le_nat_alt unsigned_ucast_eq take_bit_nat_eq_self)
qed

lemma ata_ports_return:
  assumes "wf_ata a" and "sz \<le> 4"
  shows "returns (\<lambda>(b, h). wf_ata b) (ATA_IOWrite port v sz a)
    \<and> (\<not> (kSecondaryCommandBasePort \<le> port \<and> port \<le> kSecondaryCommandLastPort) \<longrightarrow>
        returns (\<lambda>(b, v', h). wf_ata b) (ATA_IORead port v sz a))"
proof -
  have regs: "0x1F0 \<le> port \<Longrightarrow> port \<le> 0x1F7 \<Longrightarrow> (ucast (port - 0x1F0) :: u8) \<le> 7"
    "0x170 \<le> port \<Longrightarrow> port \<le> 0x177 \<Longrightarrow> (ucast (port - 0x170) :: u8) \<le> 7"
    using command_register [of "0x1F0" port] command_register [of "0x170" port] by simp_all
  have wf: "wf_channel (primary a)" "wf_channel (secondary a)" using assms(1) by (simp_all add: wf_ata_def)
  note rd = ReadCommandPort_wf [OF wf(1) assms(2) regs(1)]
    and wr = WriteCommandPort_wf [OF wf(1) regs(1)] WriteCommandPort_wf [OF wf(2) regs(2)]
  show ?thesis
    using wf
    by (auto simp: ATA_IOWrite_def ATA_IORead_def ReadControlPort_def WriteControlPort_def ReadStatus_def Let_def wf_ata_def
        intro!: returns_mono [OF rd] returns_mono [OF wr(1)] returns_mono [OF wr(2)])
qed

text \<open>C27: every access to the ports of the two channels returns and keeps the data buffers inside their bounds
  and the interrupt lines alternating (no call of the handler repeats the level it
  was last given), but for the reads of the secondary command ports.\<close>

theorem ata_accesses_return:
  assumes "wf_ata a" and "sz \<le> 4"
  shows "returns (\<lambda>(b, h). wf_ata b) (ATA_IOWrite port v sz a)
    \<and> (\<not> (kSecondaryCommandBasePort \<le> port \<and> port \<le> kSecondaryCommandLastPort) \<longrightarrow>
        returns (\<lambda>(b, v', h). wf_ata b) (ATA_IORead port v sz a))"
  using assms by (rule ata_ports_return)

text \<open>The channels of \<open>InitHardware\<close>: a hard disk is device 0 of the first, the others are absent.\<close>

definition xbox_ATA :: ata where
  "xbox_ATA =
     (let p = primary new_ATA
      in new_ATA\<lparr>primary := p\<lparr>m_devs := (m_devs p)[0 := SetDeviceDriver dummy_hd (m_devs p ! 0)]\<rparr>\<rparr>)"

lemma wf_xbox_ATA: "wf_ata xbox_ATA"
  using dummy.identifying_driver_axioms null.identifying_driver_axioms
  by (auto simp: xbox_ATA_def new_ATA_def new_ATAChannel_def new_ATADevice_def SetDeviceDriver_def Let_def
      wf_ata_def wf_channel_def wf_device_def alternating_def)

theorem ata_accesses_return_witness:
  "returns (\<lambda>(b, h). wf_ata b) (ATA_IOWrite 0x1F7 0xEC 1 xbox_ATA)
    \<and> returns (\<lambda>(b, v', h). wf_ata b) (ATA_IORead 0x1F7 0 1 xbox_ATA)"
  using ata_accesses_return [OF wf_xbox_ATA, of 1 "0x1F7"] by simp

text \<open>every read of a command port of the secondary channel fails the assertion of \<open>ReadCommandPort\<close>: the
  register number is computed from the base port of the primary channel.\<close>

theorem secondary_read_asserts:
  assumes "kSecondaryCommandBasePort \<le> port" and "port \<le> kSecondaryCommandLastPort"
  shows "ATA_IORead port v sz a = Inl AssertFailed"
proof -
  have "0x170 \<le> unat port" "unat port \<le> 0x177" using assms by (simp_all add: word_le_nat_alt)
  then have "unat port = 368 \<or> unat port = 369 \<or> unat port = 370 \<or> unat port = 371 \<or> unat port = 372
      \<or> unat port = 373 \<or> unat port = 374 \<or> unat port = 375" by linarith
  then have "port = 368 \<or> port = 369 \<or> port = 370 \<or> port = 371 \<or> port = 372 \<or> port = 373
      \<or> port = 374 \<or> port = 375" by (simp add: word_unat_eq_iff)
  then show ?thesis
    by (elim disjE) (simp_all add: ATA_IORead_def ReadCommandPort_def)
qed

theorem secondary_read_asserts_witness: "ATA_IORead 0x177 0 1 xbox_ATA = Inl AssertFailed"
  by (rule secondary_read_asserts) simp_all

section \<open>The data of Identify Device\<close>

fun data_reads :: "nat \<Rightarrow> ata \<Rightarrow> fault + ata \<times> u32 list" where
  "data_reads 0 a = Inr (a, [])"
| "data_reads (Suc n) a =
     bindr (ATA_IORead 0x1F0 0 2 a) (\<lambda>(a, v, h). bindr (data_reads n a) (\<lambda>(a, vs). Inr (a, v # vs)))"

text \<open>The selected device of the primary channel has passed on \<open>k\<close> words of its data.\<close>

definition transferring :: "bytes \<Rightarrow> nat \<Rightarrow> ata_channel \<Rightarrow> bool" where
  "transferring answer k c \<longleftrightarrow> length answer = 512 \<and> (\<exists>d. aget (m_devs c) (GetSelectedDeviceIndex c) = Inr d
     \<and> IsAttached d \<and> m_dataBuffer d = answer \<and> m_dataBufferSize d = 512 \<and> unat (m_dataBufferPos d) = 2 * k)"

lemma le32_low: "le32 a b 0 0 = ucast (le16 a b)"
  by (simp add: le32_def le16_def word_bits bit_simps)

lemma index_fields [simp]:
  "GetSelectedDeviceIndex (c\<lparr>m_devs := x\<rparr>) = GetSelectedDeviceIndex c"
  "GetSelectedDeviceIndex (c\<lparr>m_regs := r, m_devs := x\<rparr>) = unat (drop_bit 4 (deviceHead r) AND 1)"
  "GetSelectedDeviceIndex (SetInterrupt b c) = GetSelectedDeviceIndex c"
  "AreInterruptsEnabled (c\<lparr>m_regs := r, m_devs := x\<rparr>) \<longleftrightarrow> control r AND DevCtlNegateInterruptEnable = 0"
  by (simp_all add: GetSelectedDeviceIndex_def AreInterruptsEnabled_def)

lemma ReadBuffer_word:
  assumes "length (m_dataBuffer d) = 512" and "m_dataBufferSize d = 512" and p: "unat (m_dataBufferPos d) = 2 * k"
    and k: "k < 256"
  shows "\<exists>dest. ReadBuffer [0, 0, 0, 0] 2 d = Inr (d\<lparr>m_dataBufferPos := m_dataBufferPos d + 2\<rparr>, dest, 2)
    \<and> unat (m_dataBufferPos d + 2) = 2 * (k + 1) \<and> rd32 dest 0 = ucast (rd16 (m_dataBuffer d) (2 * k))"
proof -
  have q: "unat (m_dataBufferPos d + 2) = 2 * (k + 1)" using k p by (simp add: unat_word_ariths)
  then have "\<not> m_dataBufferPos d + 2 > 512" using k by (simp add: word_less_nat_alt)
  then have "ReadBuffer [0, 0, 0, 0] 2 d = bindr (memcpy [0, 0, 0, 0] 0 (drop (2 * k) (m_dataBuffer d)) 2) (\<lambda>dest.
      Inr (d\<lparr>m_dataBufferPos := m_dataBufferPos d + 2\<rparr>, dest, 2))"
    unfolding ReadBuffer_def Let_def assms(2) p by simp
  moreover have "memcpy [0, 0, 0, 0] 0 (drop (2 * k) (m_dataBuffer d)) 2
      = Inr [m_dataBuffer d ! (2 * k), m_dataBuffer d ! (2 * k + 1), 0, 0]"
    using k assms(1) by (simp add: memcpy_def take_Suc_conv_app_nth numeral_2_eq_2)
  ultimately show ?thesis using q by (simp add: rd32_def rd16_def le32_low)
qed

lemma read_word:
  assumes "transferring answer k (primary a)" and "k < 256"
  shows "\<exists>b h. ATA_IORead 0x1F0 0 2 a = Inr (b, ucast (rd16 answer (2 * k)), h)
    \<and> transferring answer (k + 1) (primary b) \<and> chan_irqs (primary b) = chan_irqs (primary a)"
proof -
  let ?c = "primary a"
  obtain d where d: "aget (m_devs ?c) (GetSelectedDeviceIndex ?c) = Inr d" "IsAttached d" "m_dataBuffer d = answer"
    "m_dataBufferSize d = 512" "unat (m_dataBufferPos d) = 2 * k" "length answer = 512"
    using assms(1) by (auto simp: transferring_def)
  let ?d = "d\<lparr>m_dataBufferPos := m_dataBufferPos d + 2\<rparr>"
  obtain dest where dest: "ReadBuffer [0, 0, 0, 0] 2 d = Inr (?d, dest, 2)" "rd32 dest 0 = ucast (rd16 answer (2 * k))"
    "unat (m_dataBufferPos d + 2) = 2 * (k + 1)"
    using ReadBuffer_word [of d k] d assms(2) by auto
  let ?e = "set_status (\<lambda>st. st AND NOT StDataRequest) (?c\<lparr>m_devs := (m_devs ?c)[GetSelectedDeviceIndex ?c := ?d]\<rparr>)"
  have "ATA_IORead 0x1F0 0 2 a = Inr (a\<lparr>primary := ?e\<rparr>, ucast (rd16 answer (2 * k)), True)"
    using d dest by (simp add: ATA_IORead_def ReadCommandPort_def ReadData_def Let_def)
  moreover have "GetSelectedDeviceIndex ?c < length (m_devs ?c)" using d(1) by (simp add: aget_def split: if_splits)
  then have "transferring answer (k + 1) ?e"
    using d(2-6) dest(3) by (simp add: transferring_def aget_def IsAttached_def)
  ultimately show ?thesis by auto
qed

lemma read_words:
  "transferring answer k (primary a) \<Longrightarrow> k + n \<le> 256 \<Longrightarrow>
   returns (\<lambda>(b, vs). vs = map (\<lambda>i. ucast (rd16 answer (2 * i))) [k..<k + n]
     \<and> chan_irqs (primary b) = chan_irqs (primary a)) (data_reads n a)"
proof (induction n arbitrary: k a)
  case (Suc n)
  have k: "k < 256" using Suc.prems(2) by simp
  obtain b h where b: "ATA_IORead 0x1F0 0 2 a = Inr (b, ucast (rd16 answer (2 * k)), h)"
    "transferring answer (k + 1) (primary b)" "chan_irqs (primary b) = chan_irqs (primary a)"
    using read_word [OF Suc.prems(1) k] by blast
  have "returns (\<lambda>(c, vs). vs = map (\<lambda>i. ucast (rd16 answer (2 * i))) [k + 1..<k + 1 + n]
      \<and> chan_irqs (primary c) = chan_irqs (primary b)) (data_reads n b)"
    by (rule Suc.IH) (use b(2) Suc.prems(2) in auto)
  then show ?case using b(1,3) by (auto simp: upt_conv_Cons [of k] elim!: returns_mono simp del: upt_Suc)
qed simp

lemma selected_index_stable:
  assumes "(n::u8) = drop_bit 4 h AND 1"
  shows "drop_bit 4 ((h AND NOT 0x10) OR push_bit 4 n) AND 1 = drop_bit 4 h AND (1::u8)"
  using assms by (simp add: word_bits bit_simps)

lemma identify_starts:
  assumes drv: "identifying_driver drv answer" and "drv_IsAttached drv"
    and wf: "wf_ata a" and d: "aget (m_devs (primary a)) (GetSelectedDeviceIndex (primary a)) = Inr d"
    and "m_driver d = drv" and "m_devIndex d = drop_bit 4 (deviceHead (m_regs (primary a))) AND 1"
    and "tst (status (m_regs (primary a))) StReady" and "status (m_regs (primary a)) AND StBusy = 0"
  shows "\<exists>b h. ATA_IOWrite 0x1F7 0xEC 1 a = Inr (b, h) \<and> transferring answer 0 (primary b)
    \<and> chan_irqs (primary b) = chan_irqs (primary a)
        @ (if AreInterruptsEnabled (primary a) \<and> \<not> m_interrupt (primary a) then [(m_irqNum (primary a), True)] else [])"
proof -
  let ?c = "primary a" and ?c1 = "set_status (\<lambda>st. st OR StBusy) (primary a)"
  let ?i = "GetSelectedDeviceIndex ?c"
  have wfd: "wf_device d" using wf d wf_device_get [of ?c] by (auto simp: wf_ata_def)
  have ready: "tst (status (m_regs ?c1)) StReady"
    using assms(7) by (simp add: set_status_def word_bits bit_simps)
  obtain r d' where id: "IdentifyDevice (m_regs ?c1) d = (r, d', True)" "wf_device d'" "m_dataBuffer d' = answer"
    "m_dataBufferSize d' = 512" "m_dataBufferPos d' = 0" "IsAttached d'" "control r = control (m_regs ?c1)"
    "deviceHead r = (deviceHead (m_regs ?c1) AND NOT 0x10) OR push_bit 4 (m_devIndex d)"
    using identifying_driver.identify_buffer [OF drv wfd assms(5) ready] assms(2) by blast
  let ?c2 = "?c1\<lparr>m_regs := r, m_devs := (m_devs ?c)[?i := d']\<rparr>"
  let ?c3 = "set_status (\<lambda>st. st AND NOT StBusy) (set_status (\<lambda>st. st OR StDataRequest) ?c2)"
  have head: "drop_bit 4 (deviceHead r) AND 1 = drop_bit 4 (deviceHead (m_regs ?c)) AND 1"
    using selected_index_stable [OF assms(6)] id(8) by (simp add: set_status_def)
  have idx: "GetSelectedDeviceIndex ?c3 = ?i" using head by simp (simp add: GetSelectedDeviceIndex_def)
  have en: "AreInterruptsEnabled ?c3 = AreInterruptsEnabled ?c"
    using id(7) by (simp add: AreInterruptsEnabled_def set_status_def)
  let ?c4 = "if AreInterruptsEnabled ?c3 then SetInterrupt True ?c3 else ?c3"
  have "WriteCommand 0xEC ?c = Inr ?c4"
    using d id(1) by (simp add: WriteCommand_def kCmdProtocols_def Let_def)
  then have "ATA_IOWrite 0x1F7 0xEC 1 a = Inr (a\<lparr>primary := ?c4\<rparr>, True)"
    using assms(8) by (simp add: ATA_IOWrite_def WriteCommandPort_def)
  moreover have "transferring answer 0 ?c4"
  proof -
    show ?thesis using idx d id identifying_driver.answer [OF drv]
      by (auto simp: transferring_def aget_def split: if_splits)
  qed
  moreover have "chan_irqs ?c4 = chan_irqs ?c @ (if AreInterruptsEnabled ?c \<and> \<not> m_interrupt ?c then [(m_irqNum ?c, True)] else [])"
    using en by (simp add: SetInterrupt_def)
  ultimately show ?thesis by auto
qed

text \<open>C22: the Identify Device command, written to a ready primary channel whose selected device is the dummy hard
  disk, raises the interrupt once if interrupts are enabled and none is pending, and the next
  256 reads of the data port return the 256 words that the driver filled in, in order.\<close>

theorem ata_identify_transfer:
  assumes "wf_ata a" and "aget (m_devs (primary a)) (GetSelectedDeviceIndex (primary a)) = Inr d"
    and "m_driver d = dummy_hd" and "m_devIndex d = drop_bit 4 (deviceHead (m_regs (primary a))) AND 1"
    and "tst (status (m_regs (primary a))) StReady" and "status (m_regs (primary a)) AND StBusy = 0"
  shows "returns (\<lambda>(b, vs). vs = map (\<lambda>i. ucast (rd16 (DummyHD_IdentifyDevice (replicate 512 0)) (2 * i))) [0..<256]
      \<and> chan_irqs (primary b) = chan_irqs (primary a)
          @ (if AreInterruptsEnabled (primary a) \<and> \<not> m_interrupt (primary a) then [(m_irqNum (primary a), True)] else []))
    (bindr (ATA_IOWrite 0x1F7 0xEC 1 a) (\<lambda>(b, h). data_reads 256 b))"
proof -
  have "drv_IsAttached dummy_hd" by (simp add: dummy_hd_def)
  from identify_starts [OF dummy.identifying_driver_axioms this assms]
  obtain b h where b: "ATA_IOWrite 0x1F7 0xEC 1 a = Inr (b, h)" "transferring dummy_answer 0 (primary b)"
    "chan_irqs (primary b) = chan_irqs (primary a)
        @ (if AreInterruptsEnabled (primary a) \<and> \<not> m_interrupt (primary a) then [(m_irqNum (primary a), True)] else [])"
    by blast
  from read_words [OF b(2), of 256] b(1,3) show ?thesis
    by (auto simp: dummy_answer_def elim!: returns_mono)
qed

theorem ata_identify_transfer_witness:
  "returns (\<lambda>(b, vs). length vs = 256 \<and> chan_irqs (primary b) = [(14, True)])
    (bindr (ATA_IOWrite 0x1F7 0xEC 1 xbox_ATA) (\<lambda>(b, h). data_reads 256 b))"
proof -
  let ?d = "SetDeviceDriver dummy_hd (new_ATADevice 0)"
  have "aget (m_devs (primary xbox_ATA)) (GetSelectedDeviceIndex (primary xbox_ATA)) = Inr ?d"
    "m_driver ?d = dummy_hd" "m_devIndex ?d = drop_bit 4 (deviceHead (m_regs (primary xbox_ATA))) AND 1"
    "tst (status (m_regs (primary xbox_ATA))) StReady" "status (m_regs (primary xbox_ATA)) AND StBusy = 0"
    "AreInterruptsEnabled (primary xbox_ATA)" "\<not> m_interrupt (primary xbox_ATA)" "m_irqNum (primary xbox_ATA) = 14"
    "chan_irqs (primary xbox_ATA) = []"
    by (simp_all add: xbox_ATA_def new_ATA_def new_ATAChannel_def new_ATADevice_def SetDeviceDriver_def Let_def
        new_ATARegisters_def aget_def GetSelectedDeviceIndex_def AreInterruptsEnabled_def)
  with ata_identify_transfer [OF wf_xbox_ATA this(1-5)] show ?thesis
    by (auto elim!: returns_mono)
qed

end
