(* ===== verification/CpuMem.thy ===== *)
theory CpuMem
  imports Prelude
begin

text \<open>
  The base class of the CPU modules, \<open>cpu-module/openxbox/cpu.h\<close> and
  \<open>cpu.cpp\<close>: guest memory, address translation, registers, descriptor tables,
  the stack and the queue of pending interrupts. The pure virtual functions of
  \<open>Cpu\<close> are a record of functions on the state, whose last component is
  the state of the implementation.

  A \<open>CPUOperationStatus\<close> other than \<open>CPUS_OP_OK\<close> is a left injection; success
  is a right injection that carries what the operation stores through its
  result pointer. A variable read although the call that sets it failed is
  the fault \<open>Uninitialised\<close>. The log output is left out.
\<close>

section \<open>State\<close>

datatype CPUOperationStatus =
    CPUS_OP_FAILED | CPUS_OP_INVALID_ADDRESS | CPUS_OP_INVALID_SELECTOR
  | CPUS_OP_INVALID_REGISTER | CPUS_OP_BREAKPOINT_NEVER_HIT | CPUS_OP_UNSUPPORTED

datatype CPUStatus = CPUS_OK | CPUS_FAILED | CPUS_UNSUPPORTED

datatype CPUMemMapStatus =
    CPUS_MMAP_OK | CPUS_MMAP_CPU_UNINITIALIZED | CPUS_MMAP_INVALID_TYPE
  | CPUS_MMAP_MEMORY_ADDR_MISALIGNED | CPUS_MMAP_MEMORY_SIZE_MISALIGNED
  | CPUS_MMAP_MAPPING_FAILED | CPUS_MMAP_UNHANDLED_ERROR

datatype CPUInitStatus =
    CPUS_INIT_OK | CPUS_INIT_PLATFORM_INIT_FAILED | CPUS_INIT_CREATE_VM_FAILED
  | CPUS_INIT_CREATE_CPU_FAILED

datatype InterruptResult =
  INTR_SUCCESS | INTR_DISABLED | INTR_MASKED | INTR_PENDING | INTR_FAILED | INTR_NO_HANDLER

datatype CpuReg =
    REG_EIP | REG_EFLAGS | REG_EAX | REG_ECX | REG_EDX | REG_EBX | REG_ESI | REG_EDI
  | REG_ESP | REG_EBP | REG_CS | REG_SS | REG_DS | REG_ES | REG_FS | REG_GS | REG_TR
  | REG_CR0 | REG_CR2 | REG_CR3 | REG_CR4 | REG_MAX

datatype MemoryRegionType = MEM_REGION_NONE | MEM_REGION_RAM | MEM_REGION_MMIO | MEM_REGION_ROM

text \<open>
  A region with its subregions, in the order of the linked list; the parent
  pointer and the event handler are left out, no code reads them on this path.
\<close>

datatype MemoryRegion = MemoryRegion
  (m_type: MemoryRegionType) (m_start: u32) (m_size: nat) (m_data: bytes)
  (m_subregions: "MemoryRegion list")

definition new_MemoryRegion :: "MemoryRegionType \<Rightarrow> u32 \<Rightarrow> nat \<Rightarrow> bytes \<Rightarrow> MemoryRegion" where
  "new_MemoryRegion ty start sz d = MemoryRegion ty start sz d []"

fun AddSubRegion :: "MemoryRegion \<Rightarrow> MemoryRegion \<Rightarrow> MemoryRegion" where
  "AddSubRegion region (MemoryRegion ty start sz d subs) = MemoryRegion ty start sz d (region # subs)"

record PhysicalMemoryRange =
  data :: bytes
  startingAddress :: u32
  endingAddress :: u32

record 'v cpu =
  m_physMemMap :: "PhysicalMemoryRange list"
  m_pendingInterrupts :: "u8 list"
  m_interruptHandlerCredits :: u8
  impl :: 'v

section \<open>Operations that can fail\<close>

type_synonym ('v, 'a) cpu_op = "'v cpu \<Rightarrow> fault + (CPUOperationStatus + 'a) \<times> 'v cpu"

definition op_ok :: "'a \<Rightarrow> ('v, 'a) cpu_op" where
  "op_ok a s = Inr (Inr a, s)"

definition op_fail :: "CPUOperationStatus \<Rightarrow> ('v, 'a) cpu_op" where
  "op_fail st s = Inr (Inl st, s)"

text \<open>\<open>CHECK_RESULT\<close>: an operation that fails ends the function with its status.\<close>

definition check_result :: "('v, 'a) cpu_op \<Rightarrow> ('a \<Rightarrow> ('v, 'b) cpu_op) \<Rightarrow> ('v, 'b) cpu_op" where
  "check_result m f s = bindr (m s) (\<lambda>(r, s). case r of Inl st \<Rightarrow> Inr (Inl st, s) | Inr a \<Rightarrow> f a s)"

record 'v cpu_ops =
  vMemMapSubregion :: "MemoryRegion \<Rightarrow> 'v cpu \<Rightarrow> fault + CPUMemMapStatus \<times> 'v cpu"
  vRegRead :: "CpuReg \<Rightarrow> ('v, u32) cpu_op"
  vRegWrite :: "CpuReg \<Rightarrow> u32 \<Rightarrow> ('v, unit) cpu_op"
  vGetGDT :: "('v, u32 \<times> u32) cpu_op"
  vSetGDT :: "u32 \<Rightarrow> u32 \<Rightarrow> ('v, unit) cpu_op"
  vGetIDT :: "('v, u32 \<times> u32) cpu_op"
  vSetIDT :: "u32 \<Rightarrow> u32 \<Rightarrow> ('v, unit) cpu_op"
  vInitializeImpl :: "'v cpu \<Rightarrow> fault + CPUInitStatus \<times> 'v cpu"
  vRunImpl :: "'v cpu \<Rightarrow> fault + CPUStatus \<times> 'v cpu"
  vStepImpl :: "'v cpu \<Rightarrow> fault + CPUStatus \<times> 'v cpu"
  vInterruptImpl :: "u8 \<Rightarrow> 'v cpu \<Rightarrow> fault + InterruptResult \<times> 'v cpu"
  vInjectInterrupt :: "u8 \<Rightarrow> ('v, unit) cpu_op"
  vCanInjectInterrupt :: "'v cpu \<Rightarrow> fault + bool \<times> 'v cpu"
  vRequestInterruptWindow :: "'v cpu \<Rightarrow> fault + 'v cpu"

section \<open>Physical memory\<close>

text \<open>\<open>assert(mem->m_start == 0)\<close> is followed by the loop over the subregions.\<close>

fun map_subregions ::
  "'v cpu_ops \<Rightarrow> MemoryRegion list \<Rightarrow> 'v cpu \<Rightarrow> fault + CPUMemMapStatus \<times> 'v cpu" where
  "map_subregions ops [] s = Inr (CPUS_MMAP_OK, s)"
| "map_subregions ops (sub # subs) s =
     bindr (vMemMapSubregion ops sub s) (\<lambda>(st, s).
       if st \<noteq> CPUS_MMAP_OK then Inr (st, s)
       else map_subregions ops subs
         (if m_type sub = MEM_REGION_RAM \<or> m_type sub = MEM_REGION_ROM
          then s\<lparr>m_physMemMap := m_physMemMap s @
            [\<lparr>data = m_data sub, startingAddress = m_start sub,
              endingAddress = m_start sub + of_nat (m_size sub) - 1\<rparr>]\<rparr>
          else s))"

definition MemMap :: "'v cpu_ops \<Rightarrow> MemoryRegion \<Rightarrow> 'v cpu \<Rightarrow> fault + CPUMemMapStatus \<times> 'v cpu" where
  "MemMap ops mem s =
     (if m_start mem \<noteq> 0 then Inl AssertFailed else map_subregions ops (m_subregions mem) s)"

definition holds_range :: "PhysicalMemoryRange \<Rightarrow> u32 \<Rightarrow> u32 \<Rightarrow> bool" where
  "holds_range r addr sz \<longleftrightarrow> addr \<ge> startingAddress r \<and> addr + sz - 1 \<le> endingAddress r"

fun mem_read :: "PhysicalMemoryRange list \<Rightarrow> u32 \<Rightarrow> u32 \<Rightarrow> fault + (CPUOperationStatus + bytes)" where
  "mem_read [] addr sz = Inr (Inl CPUS_OP_INVALID_ADDRESS)"
| "mem_read (r # rs) addr sz =
     (if holds_range r addr sz
      then let off = unat (addr - startingAddress r) in
        if off + unat sz \<le> length (data r) then Inr (Inr (take (unat sz) (drop off (data r))))
        else Inl OutOfBounds
      else mem_read rs addr sz)"

definition MemRead :: "u32 \<Rightarrow> u32 \<Rightarrow> ('v, bytes) cpu_op" where
  "MemRead addr sz s = bindr (mem_read (m_physMemMap s) addr sz) (\<lambda>r. Inr (r, s))"

fun mem_write ::
  "PhysicalMemoryRange list \<Rightarrow> u32 \<Rightarrow> u32 \<Rightarrow> bytes \<Rightarrow>
   fault + (CPUOperationStatus + unit) \<times> PhysicalMemoryRange list" where
  "mem_write [] addr sz v = Inr (Inl CPUS_OP_INVALID_ADDRESS, [])"
| "mem_write (r # rs) addr sz v =
     (if holds_range r addr sz
      then bindr (memcpy (data r) (unat (addr - startingAddress r)) v (unat sz)) (\<lambda>d.
        Inr (Inr (), r\<lparr>data := d\<rparr> # rs))
      else bindr (mem_write rs addr sz v) (\<lambda>(st, rs). Inr (st, r # rs)))"

definition MemWrite :: "u32 \<Rightarrow> u32 \<Rightarrow> bytes \<Rightarrow> ('v, unit) cpu_op" where
  "MemWrite addr sz v s =
     bindr (mem_write (m_physMemMap s) addr sz v) (\<lambda>(st, m). Inr (st, s\<lparr>m_physMemMap := m\<rparr>))"

section \<open>Virtual memory\<close>

record Pte =
  pte_valid :: bool
  pte_write :: bool
  pte_owner :: bool
  pte_writeThrough :: bool
  pte_cacheDisable :: bool
  pte_accessed :: bool
  pte_dirty :: bool
  pte_largePage :: bool
  pte_global :: bool
  pte_guardOrEndOfAllocation :: bool
  pte_persistAllocation :: bool
  pte_reserved :: bool
  pageFrameNumber :: "20 word"

definition Pte_of :: "u32 \<Rightarrow> Pte" where
  "Pte_of w = \<lparr>pte_valid = bit w 0, pte_write = bit w 1, pte_owner = bit w 2,
     pte_writeThrough = bit w 3, pte_cacheDisable = bit w 4, pte_accessed = bit w 5,
     pte_dirty = bit w 6, pte_largePage = bit w 7, pte_global = bit w 8,
     pte_guardOrEndOfAllocation = bit w 9, pte_persistAllocation = bit w 10,
     pte_reserved = bit w 11, pageFrameNumber = ucast (drop_bit 12 w)\<rparr>"

definition page_address :: "Pte \<Rightarrow> u32" where
  "page_address e = push_bit 12 (ucast (pageFrameNumber e))"

abbreviation (input) PAGE_SIZE :: u32 where "PAGE_SIZE \<equiv> 0x1000"
abbreviation (input) PAGE_SIZE_LARGE :: u32 where "PAGE_SIZE_LARGE \<equiv> 0x400000"

text \<open>
  The status of \<open>MemRead\<close> is not looked at: the entry stays unassigned when
  the table is outside of the guest memory.
\<close>

definition read_Pte :: "u32 \<Rightarrow> 'v cpu \<Rightarrow> fault + Pte" where
  "read_Pte addr s =
     bindr (mem_read (m_physMemMap s) addr 4) (\<lambda>r.
       case r of Inl _ \<Rightarrow> Inl Uninitialised | Inr bs \<Rightarrow> Inr (Pte_of (rd32 bs 0)))"

definition VirtualToPhysical ::
  "(CpuReg \<Rightarrow> ('v, u32) cpu_op) \<Rightarrow> u32 \<Rightarrow> 'v cpu \<Rightarrow> fault + u32 option \<times> 'v cpu" where
  "VirtualToPhysical rd vaddr s =
     bindr (rd REG_CR3 s) (\<lambda>(cr3, s).
       case cr3 of Inl _ \<Rightarrow> Inl Uninitialised | Inr cr3 \<Rightarrow>
       bindr (read_Pte (cr3 + push_bit 2 (drop_bit 22 vaddr)) s) (\<lambda>pde.
         if pte_largePage pde
         then Inr (Some (page_address pde OR (vaddr AND (PAGE_SIZE_LARGE - 1))), s)
         else if \<not> pte_valid pde then Inr (None, s)
         else bindr (read_Pte (page_address pde +
             push_bit 2 (drop_bit 22 (push_bit 10 vaddr))) s) (\<lambda>pte.
           if \<not> pte_valid pte then Inr (None, s)
           else Inr (Some (page_address pte OR (vaddr AND (PAGE_SIZE - 1))), s))))"

text \<open>
  The loops over the pages of a transfer; the fuel stands for a bound on the
  number of iterations. \<open>buf\<close> holds the bytes copied so far, so \<open>pos\<close> is its
  length.
\<close>

fun vmem_read_loop ::
  "(CpuReg \<Rightarrow> ('v, u32) cpu_op) \<Rightarrow> nat \<Rightarrow> u32 \<Rightarrow> u32 \<Rightarrow> u32 \<Rightarrow> u32 \<Rightarrow> u32 \<Rightarrow> bytes \<Rightarrow> ('v, bytes) cpu_op" where
  "vmem_read_loop rd 0 srcStart srcEnd pos copySize sz buf s = Inl EndlessLoop"
| "vmem_read_loop rd (Suc n) srcStart srcEnd pos copySize sz buf s =
     (if \<not> pos < sz then Inr (Inr buf, s)
      else bindr (VirtualToPhysical rd srcStart s) (\<lambda>(pa, s).
        case pa of None \<Rightarrow> Inr (Inl CPUS_OP_INVALID_ADDRESS, s) | Some physAddr \<Rightarrow>
        check_result (MemRead physAddr copySize) (\<lambda>bs.
          let pos = pos + copySize; copySize = sz - pos in
          vmem_read_loop rd n (srcEnd + 1) (srcEnd + PAGE_SIZE) pos
            (if PAGE_SIZE < copySize then PAGE_SIZE else copySize) sz (buf @ bs)) s))"

definition first_copy :: "u32 \<Rightarrow> u32 \<Rightarrow> u32" where
  "first_copy vaddr sz =
     (let copySize = (((vaddr + PAGE_SIZE) AND NOT (PAGE_SIZE - 1)) - 1) - vaddr + 1
      in if sz < copySize then sz else copySize)"

definition VMemRead :: "(CpuReg \<Rightarrow> ('v, u32) cpu_op) \<Rightarrow> u32 \<Rightarrow> u32 \<Rightarrow> ('v, bytes) cpu_op" where
  "VMemRead rd vaddr sz =
     vmem_read_loop rd (Suc (unat sz)) vaddr (((vaddr + PAGE_SIZE) AND NOT (PAGE_SIZE - 1)) - 1)
       0 (first_copy vaddr sz) sz []"

fun vmem_write_loop ::
  "(CpuReg \<Rightarrow> ('v, u32) cpu_op) \<Rightarrow> nat \<Rightarrow> u32 \<Rightarrow> u32 \<Rightarrow> u32 \<Rightarrow> u32 \<Rightarrow> u32 \<Rightarrow> bytes \<Rightarrow> ('v, u32) cpu_op" where
  "vmem_write_loop rd 0 srcStart srcEnd pos copySize sz v s = Inl EndlessLoop"
| "vmem_write_loop rd (Suc n) srcStart srcEnd pos copySize sz v s =
     (if \<not> pos < sz then Inr (Inr pos, s)
      else bindr (VirtualToPhysical rd srcStart s) (\<lambda>(pa, s).
        case pa of None \<Rightarrow> Inr (Inl CPUS_OP_INVALID_ADDRESS, s) | Some physAddr \<Rightarrow>
        check_result (MemWrite physAddr copySize (drop (unat pos) v)) (\<lambda>_.
          let pos = pos + copySize; copySize = sz - pos in
          vmem_write_loop rd n (srcEnd + 1) (srcEnd + PAGE_SIZE) pos
            (if PAGE_SIZE < copySize then PAGE_SIZE else copySize) sz v) s))"

definition VMemWrite :: "(CpuReg \<Rightarrow> ('v, u32) cpu_op) \<Rightarrow> u32 \<Rightarrow> u32 \<Rightarrow> bytes \<Rightarrow> ('v, u32) cpu_op" where
  "VMemWrite rd vaddr sz v =
     vmem_write_loop rd (Suc (unat sz)) vaddr (((vaddr + PAGE_SIZE) AND NOT (PAGE_SIZE - 1)) - 1)
       0 (first_copy vaddr sz) sz v"

section \<open>Stack and registers\<close>

definition CreateStackSpace :: "'v cpu_ops \<Rightarrow> u32 \<Rightarrow> ('v, unit) cpu_op" where
  "CreateStackSpace ops sz =
     check_result (vRegRead ops REG_ESP) (\<lambda>esp. vRegWrite ops REG_ESP (esp - sz))"

definition ReclaimStackSpace :: "'v cpu_ops \<Rightarrow> u32 \<Rightarrow> ('v, unit) cpu_op" where
  "ReclaimStackSpace ops sz =
     check_result (vRegRead ops REG_ESP) (\<lambda>esp. vRegWrite ops REG_ESP (esp + sz))"

definition RegCopy :: "'v cpu_ops \<Rightarrow> CpuReg \<Rightarrow> CpuReg \<Rightarrow> ('v, unit) cpu_op" where
  "RegCopy ops dst src = check_result (vRegRead ops src) (\<lambda>tmp. vRegWrite ops dst tmp)"

text \<open>The bulk operations, one register after the other.\<close>

fun RegReads :: "'v cpu_ops \<Rightarrow> CpuReg list \<Rightarrow> ('v, u32 list) cpu_op" where
  "RegReads ops [] = op_ok []"
| "RegReads ops (r # rs) =
     check_result (vRegRead ops r) (\<lambda>v. check_result (RegReads ops rs) (\<lambda>vs. op_ok (v # vs)))"

fun RegWrites :: "'v cpu_ops \<Rightarrow> (CpuReg \<times> u32) list \<Rightarrow> ('v, unit) cpu_op" where
  "RegWrites ops [] = op_ok ()"
| "RegWrites ops ((r, v) # rs) = check_result (vRegWrite ops r v) (\<lambda>_. RegWrites ops rs)"

fun RegCopies :: "'v cpu_ops \<Rightarrow> (CpuReg \<times> CpuReg) list \<Rightarrow> ('v, unit) cpu_op" where
  "RegCopies ops [] = op_ok ()"
| "RegCopies ops ((d, r) # rs) = check_result (RegCopy ops d r) (\<lambda>_. RegCopies ops rs)"

section \<open>Descriptor tables\<close>

record GDTEntry =
  limitLow :: u16
  baseLow :: u16
  baseMid :: u8
  access :: u8
  limitHigh :: "4 word"
  flags :: "4 word"
  baseHigh :: u8

definition GDTEntry_of :: "bytes \<Rightarrow> GDTEntry" where
  "GDTEntry_of b = \<lparr>limitLow = rd16 b 0, baseLow = rd16 b 2, baseMid = b ! 4, access = b ! 5,
     limitHigh = ucast (b ! 6), flags = ucast (drop_bit 4 (b ! 6)), baseHigh = b ! 7\<rparr>"

definition GDTEntry_bytes :: "GDTEntry \<Rightarrow> bytes" where
  "GDTEntry_bytes e =
     [ucast (limitLow e), ucast (drop_bit 8 (limitLow e)), ucast (baseLow e),
      ucast (drop_bit 8 (baseLow e)), baseMid e, access e,
      ucast (limitHigh e) OR push_bit 4 (ucast (flags e)), baseHigh e]"

definition GDTEntry_Set :: "u32 \<Rightarrow> u32 \<Rightarrow> u8 \<Rightarrow> u8 \<Rightarrow> GDTEntry" where
  "GDTEntry_Set base limit acc fl = \<lparr>limitLow = ucast (limit AND 0xFFFF),
     baseLow = ucast (base AND 0xFFFF), baseMid = ucast (drop_bit 16 base AND 0xFF), access = acc,
     limitHigh = ucast (drop_bit 16 limit AND 0xF), flags = ucast (fl AND 0xF),
     baseHigh = ucast (drop_bit 24 base)\<rparr>"

definition GetBase :: "GDTEntry \<Rightarrow> u32" where
  "GetBase e = ucast (baseLow e) OR push_bit 16 (ucast (baseMid e)) OR push_bit 24 (ucast (baseHigh e))"

definition GetLimit :: "GDTEntry \<Rightarrow> u32" where
  "GetLimit e =
     (let limit = ucast (limitLow e) OR push_bit 16 (ucast (limitHigh e))
      in if tst (flags e) 8 then push_bit 12 limit OR 0xFFF else limit)"

definition GetGDTEntry :: "'v cpu_ops \<Rightarrow> u16 \<Rightarrow> ('v, GDTEntry) cpu_op" where
  "GetGDTEntry ops selector =
     check_result (vGetGDT ops) (\<lambda>(base, limit).
       if unat selector + 8 > unat limit then op_fail CPUS_OP_INVALID_SELECTOR
       else check_result (MemRead (base + ucast selector) 8) (\<lambda>b. op_ok (GDTEntry_of b)))"

definition SetGDTEntry :: "'v cpu_ops \<Rightarrow> u16 \<Rightarrow> GDTEntry \<Rightarrow> ('v, unit) cpu_op" where
  "SetGDTEntry ops selector entry =
     check_result (vGetGDT ops) (\<lambda>(base, limit).
       if unat selector + 8 > unat limit then op_fail CPUS_OP_INVALID_SELECTOR
       else MemWrite (base + ucast selector) 8 (GDTEntry_bytes entry))"

record IDTEntry =
  offsetLow :: u16
  idt_selector :: u16
  idt_zero :: u8
  idt_type :: "4 word"
  storageSegment :: "1 word"
  privilegeLevel :: "2 word"
  present :: "1 word"
  offsetHigh :: u16

definition IDTEntry_of :: "bytes \<Rightarrow> IDTEntry" where
  "IDTEntry_of b = \<lparr>offsetLow = rd16 b 0, idt_selector = rd16 b 2, idt_zero = b ! 4,
     idt_type = ucast (b ! 5), storageSegment = ucast (drop_bit 4 (b ! 5)),
     privilegeLevel = ucast (drop_bit 5 (b ! 5)), present = ucast (drop_bit 7 (b ! 5)),
     offsetHigh = rd16 b 6\<rparr>"

definition IDTEntry_bytes :: "IDTEntry \<Rightarrow> bytes" where
  "IDTEntry_bytes e =
     [ucast (offsetLow e), ucast (drop_bit 8 (offsetLow e)), ucast (idt_selector e),
      ucast (drop_bit 8 (idt_selector e)), idt_zero e,
      ucast (idt_type e) OR push_bit 4 (ucast (storageSegment e))
        OR push_bit 5 (ucast (privilegeLevel e)) OR push_bit 7 (ucast (present e)),
      ucast (offsetHigh e), ucast (drop_bit 8 (offsetHigh e))]"

definition IDTEntry_Set :: "u32 \<Rightarrow> u16 \<Rightarrow> u8 \<Rightarrow> u8 \<Rightarrow> IDTEntry" where
  "IDTEntry_Set offset sel ty attributes = \<lparr>offsetLow = ucast (offset AND 0xFFFF),
     idt_selector = sel, idt_zero = 0, idt_type = ucast (ty AND 0xF),
     storageSegment = ucast (attributes AND 1),
     privilegeLevel = ucast (drop_bit 1 attributes AND 3),
     present = ucast (drop_bit 3 attributes AND 1), offsetHigh = ucast (drop_bit 16 offset)\<rparr>"

definition GetOffset :: "IDTEntry \<Rightarrow> u32" where
  "GetOffset e = ucast (offsetLow e) OR push_bit 16 (ucast (offsetHigh e))"

definition SetOffset :: "u32 \<Rightarrow> IDTEntry \<Rightarrow> IDTEntry" where
  "SetOffset offset e =
     e\<lparr>offsetLow := ucast (offset AND 0xFFFF), offsetHigh := ucast (drop_bit 16 offset)\<rparr>"

definition GetIDTEntry :: "'v cpu_ops \<Rightarrow> u8 \<Rightarrow> ('v, IDTEntry) cpu_op" where
  "GetIDTEntry ops vector =
     check_result (vGetIDT ops) (\<lambda>(base, limit).
       if unat vector * 8 > unat limit then op_fail CPUS_OP_INVALID_SELECTOR
       else check_result (MemRead (base + ucast vector * 8) 8) (\<lambda>b. op_ok (IDTEntry_of b)))"

definition SetIDTEntry :: "'v cpu_ops \<Rightarrow> u8 \<Rightarrow> IDTEntry \<Rightarrow> ('v, unit) cpu_op" where
  "SetIDTEntry ops vector entry =
     check_result (vGetIDT ops) (\<lambda>(base, limit).
       if unat vector * 8 > unat limit then op_fail CPUS_OP_INVALID_SELECTOR
       else MemWrite (base + ucast vector * 8) 8 (IDTEntry_bytes entry))"

section \<open>Flags and stack instructions\<close>

definition SetFlags :: "'v cpu_ops \<Rightarrow> u32 \<Rightarrow> ('v, unit) cpu_op" where
  "SetFlags ops flagsBits =
     check_result (vRegRead ops REG_EFLAGS) (\<lambda>fl. vRegWrite ops REG_EFLAGS (fl OR flagsBits))"

definition ClearFlags :: "'v cpu_ops \<Rightarrow> u32 \<Rightarrow> ('v, unit) cpu_op" where
  "ClearFlags ops flagsBits =
     check_result (vRegRead ops REG_EFLAGS) (\<lambda>fl. vRegWrite ops REG_EFLAGS (fl AND NOT flagsBits))"

abbreviation (input) IF_MASK :: u32 where "IF_MASK \<equiv> 0x200"

definition SetInterruptsEnabled :: "'v cpu_ops \<Rightarrow> bool \<Rightarrow> ('v, unit) cpu_op" where
  "SetInterruptsEnabled ops enabled =
     check_result (vRegRead ops REG_EFLAGS) (\<lambda>fl.
       vRegWrite ops REG_EFLAGS (if enabled then fl OR IF_MASK else fl AND NOT IF_MASK))"

definition bytes32 :: "u32 \<Rightarrow> bytes" where
  "bytes32 v = [ucast v, ucast (drop_bit 8 v), ucast (drop_bit 16 v), ucast (drop_bit 24 v)]"

definition Push :: "'v cpu_ops \<Rightarrow> u32 \<Rightarrow> ('v, unit) cpu_op" where
  "Push ops v =
     check_result (vRegRead ops REG_ESP) (\<lambda>esp.
     check_result (VMemWrite (vRegRead ops) (esp - 4) 4 (bytes32 v)) (\<lambda>_.
     vRegWrite ops REG_ESP (esp - 4)))"

definition PushReg :: "'v cpu_ops \<Rightarrow> CpuReg \<Rightarrow> ('v, unit) cpu_op" where
  "PushReg ops reg = check_result (vRegRead ops reg) (\<lambda>v. Push ops v)"

definition PushFlags :: "'v cpu_ops \<Rightarrow> ('v, unit) cpu_op" where
  "PushFlags ops = PushReg ops REG_EFLAGS"

definition Pop :: "'v cpu_ops \<Rightarrow> ('v, u32) cpu_op" where
  "Pop ops =
     check_result (vRegRead ops REG_ESP) (\<lambda>esp.
     check_result (VMemRead (vRegRead ops) esp 4) (\<lambda>b.
     check_result (vRegWrite ops REG_ESP (esp + 4)) (\<lambda>_. op_ok (rd32 b 0))))"

definition PopReg :: "'v cpu_ops \<Rightarrow> CpuReg \<Rightarrow> ('v, unit) cpu_op" where
  "PopReg ops reg = check_result (Pop ops) (\<lambda>v. vRegWrite ops reg v)"

definition PopFlags :: "'v cpu_ops \<Rightarrow> ('v, unit) cpu_op" where
  "PopFlags ops = PopReg ops REG_EFLAGS"

definition Ret :: "'v cpu_ops \<Rightarrow> ('v, unit) cpu_op" where
  "Ret ops = PopReg ops REG_EIP"

section \<open>Running and interrupting\<close>

text \<open>The constants of the credit scheme, for release and for debug builds.\<close>

record credit_constants =
  kInterruptHandlerMaxCredits :: u8
  kInterruptHandlerCost :: u8
  kInterruptHandlerIncrement :: u8

definition release_build :: credit_constants where
  "release_build = \<lparr>kInterruptHandlerMaxCredits = 200, kInterruptHandlerCost = 2,
     kInterruptHandlerIncrement = 1\<rparr>"

definition debug_build :: credit_constants where
  "debug_build = \<lparr>kInterruptHandlerMaxCredits = 25, kInterruptHandlerCost = 5,
     kInterruptHandlerIncrement = 1\<rparr>"

definition Cpu_Initialize ::
  "credit_constants \<Rightarrow> 'v cpu_ops \<Rightarrow> 'v cpu \<Rightarrow> fault + CPUInitStatus \<times> 'v cpu" where
  "Cpu_Initialize k ops s =
     vInitializeImpl ops (s\<lparr>m_interruptHandlerCredits := kInterruptHandlerMaxCredits k\<rparr>)"

text \<open>The status of \<open>InjectInterrupt\<close> is not looked at.\<close>

definition InjectPendingInterrupt ::
  "credit_constants \<Rightarrow> 'v cpu_ops \<Rightarrow> 'v cpu \<Rightarrow> fault + 'v cpu" where
  "InjectPendingInterrupt k ops s =
     (if m_interruptHandlerCredits s < kInterruptHandlerCost k then Inr s
      else case m_pendingInterrupts s of [] \<Rightarrow> Inr s
      | vector # rest \<Rightarrow>
          bindr (vInjectInterrupt ops vector
            (s\<lparr>m_interruptHandlerCredits := m_interruptHandlerCredits s - kInterruptHandlerCost k,
               m_pendingInterrupts := rest\<rparr>)) (\<lambda>(_, s). Inr s))"

definition HandleInterruptQueue ::
  "credit_constants \<Rightarrow> 'v cpu_ops \<Rightarrow> 'v cpu \<Rightarrow> fault + 'v cpu" where
  "HandleInterruptQueue k ops s =
     (let s = (if m_interruptHandlerCredits s < kInterruptHandlerMaxCredits k
               then s\<lparr>m_interruptHandlerCredits :=
                 m_interruptHandlerCredits s + kInterruptHandlerIncrement k\<rparr>
               else s)
      in if m_pendingInterrupts s = [] then Inr s
         else bindr (vCanInjectInterrupt ops s) (\<lambda>(can, s).
           if can then InjectPendingInterrupt k ops s else vRequestInterruptWindow ops s))"

definition Cpu_Run ::
  "credit_constants \<Rightarrow> 'v cpu_ops \<Rightarrow> 'v cpu \<Rightarrow> fault + CPUStatus \<times> 'v cpu" where
  "Cpu_Run k ops s = bindr (HandleInterruptQueue k ops s) (\<lambda>s. vRunImpl ops s)"

definition Cpu_Step ::
  "credit_constants \<Rightarrow> 'v cpu_ops \<Rightarrow> 'v cpu \<Rightarrow> fault + CPUStatus \<times> 'v cpu" where
  "Cpu_Step k ops s = bindr (HandleInterruptQueue k ops s) (\<lambda>s. vStepImpl ops s)"

text \<open>The implementation a CPU without single stepping inherits.\<close>

definition Cpu_StepImpl :: "'v cpu \<Rightarrow> fault + CPUStatus \<times> 'v cpu" where
  "Cpu_StepImpl s = Inr (CPUS_UNSUPPORTED, s)"

definition Cpu_Interrupt :: "'v cpu_ops \<Rightarrow> u8 \<Rightarrow> 'v cpu \<Rightarrow> fault + InterruptResult \<times> 'v cpu" where
  "Cpu_Interrupt ops vector s =
     vInterruptImpl ops vector (s\<lparr>m_pendingInterrupts := m_pendingInterrupts s @ [vector]\<rparr>)"

text \<open>Breakpoint operations that an implementation need not override.\<close>

definition Cpu_breakpoint_operation :: "('v, 'a) cpu_op" where
  "Cpu_breakpoint_operation = op_fail CPUS_OP_UNSUPPORTED"

section \<open>The I/O mapper of a CPU\<close>

text \<open>
  \<open>m_ioMapper\<close>, the I/O mapper that \<open>Initialize\<close> was given, as the operations
  the CPU modules call. They act on the whole state, because a device may
  interrupt the CPU. A read is given the value that the result pointer
  points at and yields the value it points at afterwards.
\<close>

record 's io_port =
  port_IORead :: "u32 \<Rightarrow> u8 \<Rightarrow> 's \<Rightarrow> u32 \<Rightarrow> fault + 's \<times> u32 \<times> bool"
  port_IOWrite :: "u32 \<Rightarrow> u32 \<Rightarrow> u8 \<Rightarrow> 's \<Rightarrow> fault + 's \<times> bool"
  port_MMIORead :: "u32 \<Rightarrow> u8 \<Rightarrow> 's \<Rightarrow> u32 \<Rightarrow> fault + 's \<times> u32 \<times> bool"
  port_MMIOWrite :: "u32 \<Rightarrow> u32 \<Rightarrow> u8 \<Rightarrow> 's \<Rightarrow> fault + 's \<times> bool"

end
