(* ===== verification/Haxm.thy ===== *)
theory Haxm
  imports CpuMem IOMap
begin

text \<open>
  The CPU module for Intel HAXM: \<open>cpu-module-haxm/cpu_haxm.cpp\<close> with its
  wrapper of the virtual CPU, \<open>haxm/haxm.cpp\<close>. The HAXM driver of the host is
  a parameter: a record of functions on its state \<open>'h\<close>, one for each request
  that is sent to it. Running the virtual CPU may change the guest memory and
  the tunnel, the memory that is shared with the driver; \<open>'d\<close> is the state of
  the devices behind the I/O mapper.

  Of the union of the tunnel the members the module reads are fields side by
  side. The opening of the driver and the creation of the virtual machine are
  one parameter, \<open>hax_create\<close>.
\<close>

section \<open>State\<close>

record segment_desc =
  seg_selector :: u16
  seg_limit :: u32
  seg_base :: u64
  seg_ar :: u32

record vcpu_state =
  r_rax :: u64
  r_rcx :: u64
  r_rdx :: u64
  r_rbx :: u64
  r_rsp :: u64
  r_rbp :: u64
  r_rsi :: u64
  r_rdi :: u64
  r_rip :: u64
  r_rflags :: u64
  r_cs :: segment_desc
  r_ss :: segment_desc
  r_ds :: segment_desc
  r_es :: segment_desc
  r_fs :: segment_desc
  r_gs :: segment_desc
  r_tr :: segment_desc
  r_gdt :: segment_desc
  r_idt :: segment_desc
  r_cr0 :: u64
  r_cr2 :: u64
  r_cr3 :: u64
  r_cr4 :: u64
  r_others :: "u64 list"

record hax_tunnel =
  exit_status :: u32
  ready_for_interrupt_injection :: u32
  request_interrupt_window :: u32
  io_direction :: u8
  io_df :: u8
  io_size :: u16
  io_port_number :: u16
  io_count :: u16
  debug_rip :: u64
  debug_dr6 :: u64

record hax_debug =
  dbg_control :: u32
  dbg_dr :: "u64 list"

datatype CpuExitReason =
    CPU_EXIT_NORMAL | CPU_EXIT_ERROR | CPU_EXIT_INTERRUPT | CPU_EXIT_HLT | CPU_EXIT_SHUTDOWN
  | CPU_EXIT_SW_BREAKPOINT | CPU_EXIT_HW_BREAKPOINT

datatype HaxmVCPUStatus = HXVCPUS_SUCCESS | HXVCPUS_FAILED | HXVCPUS_SINGLE_STEP_FAILED

datatype HaxmVMStatus =
    HXVMS_SUCCESS | HXVMS_MEM_MISALIGNED | HXVMS_MEMSIZE_MISALIGNED
  | HXVMS_ALLOC_MEM_FAILED | HXVMS_SET_MEM_FAILED

text \<open>The requests to the driver; a \<open>bool\<close> is the result of \<open>DeviceIoControl\<close>.\<close>

record 'h haxm_driver =
  hax_create :: "'h \<Rightarrow> CPUInitStatus \<times> 'h"
  hax_block_aligned :: "u32 \<Rightarrow> bool"
  hax_alloc_ram :: "u32 \<Rightarrow> 'h \<Rightarrow> bool \<times> 'h"
  hax_set_ram :: "u32 \<Rightarrow> u32 \<Rightarrow> bool \<Rightarrow> 'h \<Rightarrow> bool \<times> 'h"
  hax_get_regs :: "'h \<Rightarrow> vcpu_state option \<times> 'h"
  hax_set_regs :: "vcpu_state \<Rightarrow> 'h \<Rightarrow> bool \<times> 'h"
  hax_get_fpu :: "'h \<Rightarrow> bytes option \<times> 'h"
  hax_set_fpu :: "bytes \<Rightarrow> 'h \<Rightarrow> bool \<times> 'h"
  hax_run :: "PhysicalMemoryRange list \<Rightarrow> hax_tunnel \<Rightarrow> bytes \<Rightarrow> 'h \<Rightarrow>
    bool \<times> PhysicalMemoryRange list \<times> hax_tunnel \<times> bytes \<times> 'h"
  hax_interrupt :: "u32 \<Rightarrow> 'h \<Rightarrow> bool \<times> 'h"
  hax_set_debug :: "hax_debug \<Rightarrow> 'h \<Rightarrow> bool \<times> 'h"

record ('h, 'd) haxm =
  m_regs :: vcpu_state
  m_fpuRegs :: bytes
  m_regsDirty :: bool
  m_fpuRegsDirty :: bool
  m_regsChanged :: bool
  m_fpuRegsChanged :: bool
  exitReason :: CpuExitReason
  m_tunnel :: hax_tunnel
  m_ioTunnel :: bytes
  m_debug :: hax_debug
  drv :: 'h
  devs :: 'd

type_synonym ('h, 'd) haxm_cpu = "('h, 'd) haxm cpu"

definition upd_haxm :: "(('h, 'd) haxm \<Rightarrow> ('h, 'd) haxm) \<Rightarrow> ('h, 'd) haxm_cpu \<Rightarrow> ('h, 'd) haxm_cpu" where
  "upd_haxm f s = s\<lparr>impl := f (impl s)\<rparr>"

text \<open>The constructor: the flags of the register cache; the rest is not assigned.\<close>

definition new_HaxmCpu :: "('h, 'd) haxm_cpu \<Rightarrow> ('h, 'd) haxm_cpu" where
  "new_HaxmCpu = upd_haxm (\<lambda>h. h\<lparr>m_regsDirty := True, m_fpuRegsDirty := True,
     m_regsChanged := False, m_fpuRegsChanged := False\<rparr>)"

section \<open>The virtual CPU\<close>

definition haxm_GetRegisters ::
  "'h haxm_driver \<Rightarrow> ('h, 'd) haxm_cpu \<Rightarrow> vcpu_state option \<times> ('h, 'd) haxm_cpu" where
  "haxm_GetRegisters D s =
     (let (r, h) = hax_get_regs D (drv (impl s)) in (r, upd_haxm (drv_update (\<lambda>_. h)) s))"

definition haxm_SetRegisters ::
  "'h haxm_driver \<Rightarrow> vcpu_state \<Rightarrow> ('h, 'd) haxm_cpu \<Rightarrow> HaxmVCPUStatus \<times> ('h, 'd) haxm_cpu" where
  "haxm_SetRegisters D r s =
     (let (ok, h) = hax_set_regs D r (drv (impl s))
      in (if ok then HXVCPUS_SUCCESS else HXVCPUS_FAILED, upd_haxm (drv_update (\<lambda>_. h)) s))"

definition haxm_GetFPURegisters ::
  "'h haxm_driver \<Rightarrow> ('h, 'd) haxm_cpu \<Rightarrow> bytes option \<times> ('h, 'd) haxm_cpu" where
  "haxm_GetFPURegisters D s =
     (let (r, h) = hax_get_fpu D (drv (impl s)) in (r, upd_haxm (drv_update (\<lambda>_. h)) s))"

definition haxm_SetFPURegisters ::
  "'h haxm_driver \<Rightarrow> bytes \<Rightarrow> ('h, 'd) haxm_cpu \<Rightarrow> HaxmVCPUStatus \<times> ('h, 'd) haxm_cpu" where
  "haxm_SetFPURegisters D r s =
     (let (ok, h) = hax_set_fpu D r (drv (impl s))
      in (if ok then HXVCPUS_SUCCESS else HXVCPUS_FAILED, upd_haxm (drv_update (\<lambda>_. h)) s))"

definition haxm_vcpu_Run ::
  "'h haxm_driver \<Rightarrow> ('h, 'd) haxm_cpu \<Rightarrow> HaxmVCPUStatus \<times> ('h, 'd) haxm_cpu" where
  "haxm_vcpu_Run D s =
     (let v = impl s;
          (ok, m, t, b, h) = hax_run D (m_physMemMap s) (m_tunnel v) (m_ioTunnel v) (drv v)
      in (if ok then HXVCPUS_SUCCESS else HXVCPUS_FAILED,
          s\<lparr>m_physMemMap := m, impl := v\<lparr>m_tunnel := t, m_ioTunnel := b, drv := h\<rparr>\<rparr>))"

abbreviation (input) HAX_DEBUG_ENABLE :: u32 where "HAX_DEBUG_ENABLE \<equiv> 1"
abbreviation (input) HAX_DEBUG_STEP :: u32 where "HAX_DEBUG_STEP \<equiv> 2"
abbreviation (input) HAX_DEBUG_USE_SW_BP :: u32 where "HAX_DEBUG_USE_SW_BP \<equiv> 4"
abbreviation (input) HAX_DEBUG_USE_HW_BP :: u32 where "HAX_DEBUG_USE_HW_BP \<equiv> 8"

definition haxm_SetDebug :: "'h haxm_driver \<Rightarrow> ('h, 'd) haxm_cpu \<Rightarrow> bool \<times> ('h, 'd) haxm_cpu" where
  "haxm_SetDebug D s =
     (let d = m_debug (impl s);
          c = dbg_control d;
          d = d\<lparr>dbg_control := (if tst c (NOT HAX_DEBUG_ENABLE) then c OR HAX_DEBUG_ENABLE
                else c AND NOT HAX_DEBUG_ENABLE)\<rparr>;
          (ok, h) = hax_set_debug D d (drv (impl s))
      in (ok, upd_haxm (\<lambda>v. v\<lparr>m_debug := d, drv := h\<rparr>) s))"

definition upd_debug :: "(hax_debug \<Rightarrow> hax_debug) \<Rightarrow> ('h, 'd) haxm_cpu \<Rightarrow> ('h, 'd) haxm_cpu" where
  "upd_debug f = upd_haxm (\<lambda>v. v\<lparr>m_debug := f (m_debug v)\<rparr>)"

definition haxm_vcpu_Step ::
  "'h haxm_driver \<Rightarrow> ('h, 'd) haxm_cpu \<Rightarrow> HaxmVCPUStatus \<times> ('h, 'd) haxm_cpu" where
  "haxm_vcpu_Step D s =
     (let (ok, s) = haxm_SetDebug D (upd_debug (dbg_control_update (\<lambda>c. c OR HAX_DEBUG_STEP)) s)
      in if \<not> ok then (HXVCPUS_SINGLE_STEP_FAILED, s)
         else let (status, s) = haxm_vcpu_Run D s;
                (ok, s) = haxm_SetDebug D (upd_debug (dbg_control_update (\<lambda>c. c AND NOT HAX_DEBUG_STEP)) s)
              in if \<not> ok then (HXVCPUS_SINGLE_STEP_FAILED, s) else (status, s))"

definition haxm_vcpu_EnableSoftwareBreakpoints ::
  "'h haxm_driver \<Rightarrow> bool \<Rightarrow> ('h, 'd) haxm_cpu \<Rightarrow> HaxmVCPUStatus \<times> ('h, 'd) haxm_cpu" where
  "haxm_vcpu_EnableSoftwareBreakpoints D enable s =
     (let (ok, s) = haxm_SetDebug D (upd_debug (dbg_control_update (\<lambda>c.
            if enable then c OR HAX_DEBUG_USE_SW_BP else c AND NOT HAX_DEBUG_USE_SW_BP)) s)
      in (if ok then HXVCPUS_SUCCESS else HXVCPUS_FAILED, s))"

record breakpoint =
  bp_address :: u64
  localEnable :: bool
  globalEnable :: bool
  bp_trigger :: u64
  bp_length :: u64

definition haxm_vcpu_ClearHardwareBreakpoints ::
  "'h haxm_driver \<Rightarrow> ('h, 'd) haxm_cpu \<Rightarrow> HaxmVCPUStatus \<times> ('h, 'd) haxm_cpu" where
  "haxm_vcpu_ClearHardwareBreakpoints D s =
     (let (ok, s) = haxm_SetDebug D (upd_debug (\<lambda>d. d\<lparr>
            dbg_control := dbg_control d AND NOT HAX_DEBUG_USE_HW_BP, dbg_dr := replicate 8 0\<rparr>) s)
      in (if ok then HXVCPUS_SUCCESS else HXVCPUS_FAILED, s))"

definition set_breakpoint :: "nat \<Rightarrow> breakpoint \<Rightarrow> u64 list \<Rightarrow> u64 list" where
  "set_breakpoint i b dr =
     (let dr = dr[i := bp_address b] in
      dr[7 := dr ! 7 OR push_bit (i * 2) (b2w (localEnable b))
        OR push_bit (1 + i * 2) (b2w (globalEnable b))
        OR push_bit (16 + i * 4) (bp_trigger b AND 3) OR push_bit (18 + i * 4) (bp_length b AND 3)])"

definition haxm_vcpu_SetHardwareBreakpoints ::
  "'h haxm_driver \<Rightarrow> breakpoint list \<Rightarrow> ('h, 'd) haxm_cpu \<Rightarrow> HaxmVCPUStatus \<times> ('h, 'd) haxm_cpu" where
  "haxm_vcpu_SetHardwareBreakpoints D bps s =
     (if \<not> list_ex (\<lambda>b. localEnable b \<or> globalEnable b) bps
      then haxm_vcpu_ClearHardwareBreakpoints D s
      else let (ok, s) = haxm_SetDebug D (upd_debug (\<lambda>d. d\<lparr>
             dbg_control := dbg_control d OR HAX_DEBUG_USE_HW_BP,
             dbg_dr := foldl (\<lambda>dr (i, b). set_breakpoint i b dr) (dbg_dr d) (enumerate 0 bps)\<rparr>) s)
           in (if ok then HXVCPUS_SUCCESS else HXVCPUS_FAILED, s))"

definition haxm_vcpu_Interrupt ::
  "'h haxm_driver \<Rightarrow> u8 \<Rightarrow> ('h, 'd) haxm_cpu \<Rightarrow> HaxmVCPUStatus \<times> ('h, 'd) haxm_cpu" where
  "haxm_vcpu_Interrupt D vector s =
     (let (ok, h) = hax_interrupt D (ucast vector) (drv (impl s))
      in (if ok then HXVCPUS_SUCCESS else HXVCPUS_FAILED, upd_haxm (drv_update (\<lambda>_. h)) s))"

definition haxm_AllocateMemory ::
  "'h haxm_driver \<Rightarrow> u32 \<Rightarrow> u32 \<Rightarrow> bool \<Rightarrow> ('h, 'd) haxm_cpu \<Rightarrow> HaxmVMStatus \<times> ('h, 'd) haxm_cpu" where
  "haxm_AllocateMemory D memorySize base rom s =
     (if \<not> hax_block_aligned D base then (HXVMS_MEM_MISALIGNED, s)
      else if tst memorySize 0xFFF then (HXVMS_MEMSIZE_MISALIGNED, s)
      else let (ok, h) = hax_alloc_ram D memorySize (drv (impl s));
               s = upd_haxm (drv_update (\<lambda>_. h)) s
           in if \<not> ok then (HXVMS_ALLOC_MEM_FAILED, s)
              else let (ok, h) = hax_set_ram D base memorySize rom (drv (impl s));
                       s = upd_haxm (drv_update (\<lambda>_. h)) s
                   in (if ok then HXVMS_SUCCESS else HXVMS_SET_MEM_FAILED, s))"

section \<open>Memory regions\<close>

definition haxm_MemMapSubregion ::
  "'h haxm_driver \<Rightarrow> MemoryRegion \<Rightarrow> ('h, 'd) haxm_cpu \<Rightarrow>
   fault + CPUMemMapStatus \<times> ('h, 'd) haxm_cpu" where
  "haxm_MemMapSubregion D sub s =
     (case m_type sub of
        MEM_REGION_MMIO \<Rightarrow> Inr (CPUS_MMAP_OK, s)
      | MEM_REGION_NONE \<Rightarrow> Inl AssertFailed
      | _ \<Rightarrow>
          let (status, s) = haxm_AllocateMemory D (of_nat (m_size sub)) (m_start sub)
                (m_type sub = MEM_REGION_ROM) s
          in Inr (case status of
              HXVMS_SUCCESS \<Rightarrow> CPUS_MMAP_OK
            | HXVMS_MEM_MISALIGNED \<Rightarrow> CPUS_MMAP_MEMORY_ADDR_MISALIGNED
            | HXVMS_MEMSIZE_MISALIGNED \<Rightarrow> CPUS_MMAP_MEMORY_SIZE_MISALIGNED
            | HXVMS_ALLOC_MEM_FAILED \<Rightarrow> CPUS_MMAP_MAPPING_FAILED
            | HXVMS_SET_MEM_FAILED \<Rightarrow> CPUS_MMAP_MAPPING_FAILED, s))"

section \<open>Registers\<close>

definition RefreshRegisters ::
  "'h haxm_driver \<Rightarrow> bool \<Rightarrow> (('h, 'd) haxm, unit) cpu_op" where
  "RefreshRegisters D refreshFPU s =
     (if \<not> m_regsDirty (impl s) then op_ok () s
      else let (r, s) = haxm_GetRegisters D s in
        case r of None \<Rightarrow> op_fail CPUS_OP_FAILED s
        | Some regs \<Rightarrow>
            let s = upd_haxm (m_regs_update (\<lambda>_. regs)) s;
                s = (if refreshFPU then
                       (case haxm_GetFPURegisters D s of
                          (Some f, s) \<Rightarrow> upd_haxm (m_fpuRegs_update (\<lambda>_. f)) s | (None, s) \<Rightarrow> s)
                     else s)
            in op_ok () (upd_haxm (m_regsDirty_update (\<lambda>_. False)) s))"

definition UpdateRegisters :: "'h haxm_driver \<Rightarrow> ('h, 'd) haxm_cpu \<Rightarrow> ('h, 'd) haxm_cpu" where
  "UpdateRegisters D s =
     (let s = (if m_regsChanged (impl s)
               then upd_haxm (m_regsChanged_update (\<lambda>_. False))
                 (snd (haxm_SetRegisters D (m_regs (impl s)) s))
               else s)
      in if m_fpuRegsChanged (impl s)
         then upd_haxm (m_fpuRegsChanged_update (\<lambda>_. False))
           (snd (haxm_SetFPURegisters D (m_fpuRegs (impl s)) s))
         else s)"

fun get_reg :: "CpuReg \<Rightarrow> vcpu_state \<Rightarrow> u32 option" where
  "get_reg REG_EIP r = Some (ucast (r_rip r))"
| "get_reg REG_EFLAGS r = Some (ucast (r_rflags r))"
| "get_reg REG_EAX r = Some (ucast (r_rax r))"
| "get_reg REG_ECX r = Some (ucast (r_rcx r))"
| "get_reg REG_EDX r = Some (ucast (r_rdx r))"
| "get_reg REG_EBX r = Some (ucast (r_rbx r))"
| "get_reg REG_ESI r = Some (ucast (r_rsi r))"
| "get_reg REG_EDI r = Some (ucast (r_rdi r))"
| "get_reg REG_ESP r = Some (ucast (r_rsp r))"
| "get_reg REG_EBP r = Some (ucast (r_rbp r))"
| "get_reg REG_CS r = Some (ucast (seg_selector (r_cs r)))"
| "get_reg REG_SS r = Some (ucast (seg_selector (r_ss r)))"
| "get_reg REG_DS r = Some (ucast (seg_selector (r_ds r)))"
| "get_reg REG_ES r = Some (ucast (seg_selector (r_es r)))"
| "get_reg REG_FS r = Some (ucast (seg_selector (r_fs r)))"
| "get_reg REG_GS r = Some (ucast (seg_selector (r_gs r)))"
| "get_reg REG_TR r = Some (ucast (seg_selector (r_tr r)))"
| "get_reg REG_CR0 r = Some (ucast (r_cr0 r))"
| "get_reg REG_CR2 r = Some (ucast (r_cr2 r))"
| "get_reg REG_CR3 r = Some (ucast (r_cr3 r))"
| "get_reg REG_CR4 r = Some (ucast (r_cr4 r))"
| "get_reg REG_MAX r = None"

definition haxm_RegRead :: "'h haxm_driver \<Rightarrow> CpuReg \<Rightarrow> (('h, 'd) haxm, u32) cpu_op" where
  "haxm_RegRead D reg =
     check_result (RefreshRegisters D False) (\<lambda>_ s.
       case get_reg reg (m_regs (impl s)) of
         Some v \<Rightarrow> op_ok v s | None \<Rightarrow> op_fail CPUS_OP_INVALID_REGISTER s)"

fun get_regs :: "CpuReg list \<Rightarrow> vcpu_state \<Rightarrow> u32 list option" where
  "get_regs [] r = Some []"
| "get_regs (reg # regs) r =
     (case get_reg reg r of None \<Rightarrow> None
      | Some v \<Rightarrow> (case get_regs regs r of None \<Rightarrow> None | Some vs \<Rightarrow> Some (v # vs)))"

definition haxm_RegReads :: "'h haxm_driver \<Rightarrow> CpuReg list \<Rightarrow> (('h, 'd) haxm, u32 list) cpu_op" where
  "haxm_RegReads D regs =
     check_result (RefreshRegisters D False) (\<lambda>_ s.
       case get_regs regs (m_regs (impl s)) of
         Some vs \<Rightarrow> op_ok vs s | None \<Rightarrow> op_fail CPUS_OP_INVALID_REGISTER s)"

fun upd_segment :: "CpuReg \<Rightarrow> (segment_desc \<Rightarrow> segment_desc) \<Rightarrow> vcpu_state \<Rightarrow> vcpu_state" where
  "upd_segment REG_CS f r = r\<lparr>r_cs := f (r_cs r)\<rparr>"
| "upd_segment REG_SS f r = r\<lparr>r_ss := f (r_ss r)\<rparr>"
| "upd_segment REG_DS f r = r\<lparr>r_ds := f (r_ds r)\<rparr>"
| "upd_segment REG_ES f r = r\<lparr>r_es := f (r_es r)\<rparr>"
| "upd_segment REG_FS f r = r\<lparr>r_fs := f (r_fs r)\<rparr>"
| "upd_segment REG_GS f r = r\<lparr>r_gs := f (r_gs r)\<rparr>"
| "upd_segment REG_TR f r = r\<lparr>r_tr := f (r_tr r)\<rparr>"
| "upd_segment _ f r = r"

text \<open>
  The selector is stored before the descriptor is read; the status of
  \<open>VMemRead\<close> is not looked at, so the descriptor stays unassigned when it fails.
\<close>

definition haxm_LoadSegmentSelector ::
  "'h haxm_driver \<Rightarrow> u16 \<Rightarrow> CpuReg \<Rightarrow> ('h, 'd) haxm_cpu \<Rightarrow> fault + ('h, 'd) haxm_cpu" where
  "haxm_LoadSegmentSelector D selector reg s =
     (let s = upd_haxm (m_regs_update (upd_segment reg (seg_selector_update (\<lambda>_. selector)))) s in
      bindr (VMemRead (haxm_RegRead D) (ucast (seg_base (r_gdt (m_regs (impl s))) + ucast selector)) 8 s)
        (\<lambda>(b, s). case b of Inl _ \<Rightarrow> Inl Uninitialised | Inr b \<Rightarrow>
          let e = GDTEntry_of b in
          Inr (upd_haxm (\<lambda>v. v\<lparr>m_regs := upd_segment reg (\<lambda>g. g\<lparr>
                 seg_ar := ucast (access e) OR push_bit 12 (ucast (flags e)),
                 seg_base := ucast (GetBase e), seg_limit := GetLimit e\<rparr>) (m_regs v),
               m_regsChanged := True\<rparr>) s)))"

text \<open>The assignment to the lower half of a 64-bit register.\<close>

definition low_half :: "u32 \<Rightarrow> u64 \<Rightarrow> u64" where
  "low_half v r = (r AND NOT (mask 32)) OR ucast v"

fun set_reg :: "CpuReg \<Rightarrow> u32 \<Rightarrow> vcpu_state \<Rightarrow> vcpu_state" where
  "set_reg REG_EIP v r = r\<lparr>r_rip := low_half v (r_rip r)\<rparr>"
| "set_reg REG_EFLAGS v r = r\<lparr>r_rflags := low_half ((v OR 0x2) AND NOT 0x8028) (r_rflags r)\<rparr>"
| "set_reg REG_EAX v r = r\<lparr>r_rax := low_half v (r_rax r)\<rparr>"
| "set_reg REG_ECX v r = r\<lparr>r_rcx := low_half v (r_rcx r)\<rparr>"
| "set_reg REG_EDX v r = r\<lparr>r_rdx := low_half v (r_rdx r)\<rparr>"
| "set_reg REG_EBX v r = r\<lparr>r_rbx := low_half v (r_rbx r)\<rparr>"
| "set_reg REG_ESI v r = r\<lparr>r_rsi := low_half v (r_rsi r)\<rparr>"
| "set_reg REG_EDI v r = r\<lparr>r_rdi := low_half v (r_rdi r)\<rparr>"
| "set_reg REG_ESP v r = r\<lparr>r_rsp := low_half v (r_rsp r)\<rparr>"
| "set_reg REG_EBP v r = r\<lparr>r_rbp := low_half v (r_rbp r)\<rparr>"
| "set_reg REG_CR0 v r = r\<lparr>r_cr0 := ucast v\<rparr>"
| "set_reg REG_CR2 v r = r\<lparr>r_cr2 := ucast v\<rparr>"
| "set_reg REG_CR3 v r = r\<lparr>r_cr3 := ucast v\<rparr>"
| "set_reg REG_CR4 v r = r\<lparr>r_cr4 := ucast v\<rparr>"
| "set_reg _ v r = r"

definition segment_regs :: "CpuReg list" where
  "segment_regs = [REG_CS, REG_SS, REG_DS, REG_ES, REG_FS, REG_GS, REG_TR]"

text \<open>The switch of \<open>RegWrite\<close>; \<open>None\<close> is its default case.\<close>

definition write_reg ::
  "'h haxm_driver \<Rightarrow> CpuReg \<Rightarrow> u32 \<Rightarrow> ('h, 'd) haxm_cpu \<Rightarrow> fault + ('h, 'd) haxm_cpu option" where
  "write_reg D reg v s =
     (if reg = REG_MAX then Inr None
      else if reg \<in> set segment_regs
      then bindr (haxm_LoadSegmentSelector D (ucast v) reg s) (\<lambda>s. Inr (Some s))
      else Inr (Some (upd_haxm (m_regs_update (set_reg reg v)) s)))"

definition haxm_RegWrite :: "'h haxm_driver \<Rightarrow> CpuReg \<Rightarrow> u32 \<Rightarrow> (('h, 'd) haxm, unit) cpu_op" where
  "haxm_RegWrite D reg v =
     check_result (RefreshRegisters D False) (\<lambda>_ s.
       bindr (write_reg D reg v s) (\<lambda>r.
         case r of None \<Rightarrow> op_fail CPUS_OP_INVALID_REGISTER s
         | Some s \<Rightarrow> op_ok () (upd_haxm (m_regsChanged_update (\<lambda>_. True)) s)))"

text \<open>A loop that ends early keeps the registers it has written and does not mark them as changed.\<close>

fun write_regs ::
  "'h haxm_driver \<Rightarrow> (CpuReg \<times> u32) list \<Rightarrow> ('h, 'd) haxm_cpu \<Rightarrow>
   fault + (CPUOperationStatus + unit) \<times> ('h, 'd) haxm_cpu" where
  "write_regs D [] s = op_ok () s"
| "write_regs D ((reg, v) # rs) s =
     bindr (write_reg D reg v s) (\<lambda>r.
       case r of None \<Rightarrow> op_fail CPUS_OP_INVALID_REGISTER s | Some s \<Rightarrow> write_regs D rs s)"

definition haxm_RegWrites ::
  "'h haxm_driver \<Rightarrow> (CpuReg \<times> u32) list \<Rightarrow> (('h, 'd) haxm, unit) cpu_op" where
  "haxm_RegWrites D rs =
     check_result (RefreshRegisters D False) (\<lambda>_.
     check_result (write_regs D rs) (\<lambda>_ s.
       op_ok () (upd_haxm (m_regsChanged_update (\<lambda>_. True)) s)))"

definition haxm_GetGDT :: "'h haxm_driver \<Rightarrow> (('h, 'd) haxm, u32 \<times> u32) cpu_op" where
  "haxm_GetGDT D =
     check_result (RefreshRegisters D False) (\<lambda>_ s.
       let g = r_gdt (m_regs (impl s)) in op_ok (ucast (seg_base g), seg_limit g) s)"

definition haxm_SetGDT :: "'h haxm_driver \<Rightarrow> u32 \<Rightarrow> u32 \<Rightarrow> (('h, 'd) haxm, unit) cpu_op" where
  "haxm_SetGDT D addr sz =
     check_result (RefreshRegisters D False) (\<lambda>_ s.
       op_ok () (upd_haxm (\<lambda>v. v\<lparr>m_regs := (m_regs v)\<lparr>r_gdt := (r_gdt (m_regs v))\<lparr>
         seg_limit := sz, seg_base := ucast addr\<rparr>\<rparr>, m_regsChanged := True\<rparr>) s))"

definition haxm_GetIDT :: "'h haxm_driver \<Rightarrow> (('h, 'd) haxm, u32 \<times> u32) cpu_op" where
  "haxm_GetIDT D =
     check_result (RefreshRegisters D False) (\<lambda>_ s.
       let g = r_idt (m_regs (impl s)) in op_ok (ucast (seg_base g), seg_limit g) s)"

definition haxm_SetIDT :: "'h haxm_driver \<Rightarrow> u32 \<Rightarrow> u32 \<Rightarrow> (('h, 'd) haxm, unit) cpu_op" where
  "haxm_SetIDT D addr sz =
     check_result (RefreshRegisters D False) (\<lambda>_ s.
       op_ok () (upd_haxm (\<lambda>v. v\<lparr>m_regs := (m_regs v)\<lparr>r_idt := (r_idt (m_regs v))\<lparr>
         seg_limit := sz, seg_base := ucast addr\<rparr>\<rparr>, m_regsChanged := True\<rparr>) s))"

section \<open>Breakpoints\<close>

definition haxm_status :: "HaxmVCPUStatus \<times> ('h, 'd) haxm_cpu \<Rightarrow>
    fault + (CPUOperationStatus + unit) \<times> ('h, 'd) haxm_cpu" where
  "haxm_status r = (if fst r \<noteq> HXVCPUS_SUCCESS then op_fail CPUS_OP_FAILED (snd r) else op_ok () (snd r))"

definition haxm_EnableSoftwareBreakpoints ::
  "'h haxm_driver \<Rightarrow> bool \<Rightarrow> (('h, 'd) haxm, unit) cpu_op" where
  "haxm_EnableSoftwareBreakpoints D enable s = haxm_status (haxm_vcpu_EnableSoftwareBreakpoints D enable s)"

text \<open>Every one of the four breakpoints is filled from the first of the argument.\<close>

definition haxm_SetHardwareBreakpoints ::
  "'h haxm_driver \<Rightarrow> breakpoint list \<Rightarrow> (('h, 'd) haxm, unit) cpu_op" where
  "haxm_SetHardwareBreakpoints D bps s =
     haxm_status (haxm_vcpu_SetHardwareBreakpoints D (map (\<lambda>i. bps ! 0) [0..<4]) s)"

definition haxm_ClearHardwareBreakpoints ::
  "'h haxm_driver \<Rightarrow> (('h, 'd) haxm, unit) cpu_op" where
  "haxm_ClearHardwareBreakpoints D s = haxm_status (haxm_vcpu_ClearHardwareBreakpoints D s)"

definition haxm_GetBreakpointAddress :: "(('h, 'd) haxm, u32) cpu_op" where
  "haxm_GetBreakpointAddress s =
     (let t = m_tunnel (impl s); hit = debug_dr6 t AND 0xF; dr = dbg_dr (m_debug (impl s)) in
      if hit = 0 \<and> debug_rip t = 0 then op_fail CPUS_OP_BREAKPOINT_NEVER_HIT s
      else op_ok
        (if bit hit 0 then ucast (dr ! 0) else if bit hit 1 then ucast (dr ! 1)
         else if bit hit 2 then ucast (dr ! 2) else if bit hit 3 then ucast (dr ! 3)
         else ucast (debug_rip t)) s)"

section \<open>I/O exits\<close>

text \<open>
  The elements of a string operation lie in the I/O tunnel, in the order of
  the direction flag. An output reads an element of its size; an input hands
  out a pointer to a \<open>uint32_t\<close>, so that four bytes are stored at the element
  whatever its size is.
\<close>

definition element_value :: "bytes \<Rightarrow> nat \<Rightarrow> u16 \<Rightarrow> fault + u32" where
  "element_value buf off sz =
     (if sz = 1 then bindr (aget buf off) (\<lambda>b. Inr (ucast b))
      else if sz = 2 then (if off + 2 \<le> length buf then Inr (ucast (rd16 buf off)) else Inl OutOfBounds)
      else if sz = 4 then (if off + 4 \<le> length buf then Inr (rd32 buf off) else Inl OutOfBounds)
      else Inl AssertFailed)"

definition string_offset :: "bool \<Rightarrow> nat \<Rightarrow> nat \<Rightarrow> nat \<Rightarrow> nat" where
  "string_offset down sz count i = (if down then sz * count - sz - i * sz else i * sz)"

abbreviation (input) HAX_IO_OUT :: u8 where "HAX_IO_OUT \<equiv> 0"
abbreviation (input) HAX_IO_IN :: u8 where "HAX_IO_IN \<equiv> 1"

definition haxm_element ::
  "('h, 'd) haxm_cpu io_port \<Rightarrow> u16 \<Rightarrow> u8 \<Rightarrow> u16 \<Rightarrow> nat \<Rightarrow> ('h, 'd) haxm_cpu \<Rightarrow>
   fault + ('h, 'd) haxm_cpu" where
  "haxm_element io port direction sz off s =
     (if direction = HAX_IO_OUT
      then bindr (element_value (m_ioTunnel (impl s)) off sz) (\<lambda>v.
           bindr (port_IOWrite io (ucast port) v (ucast sz) s) (\<lambda>(s, _). Inr s))
      else if off + 4 \<le> length (m_ioTunnel (impl s))
      then bindr (port_IORead io (ucast port) (ucast sz) s (rd32 (m_ioTunnel (impl s)) off))
           (\<lambda>(s, v, _). Inr (upd_haxm (m_ioTunnel_update (\<lambda>b. wr32 b off v)) s))
      else Inl OutOfBounds)"

fun haxm_elements ::
  "('h, 'd) haxm_cpu io_port \<Rightarrow> u16 \<Rightarrow> u8 \<Rightarrow> u16 \<Rightarrow> nat list \<Rightarrow> ('h, 'd) haxm_cpu \<Rightarrow>
   fault + ('h, 'd) haxm_cpu" where
  "haxm_elements io port direction sz [] s = Inr s"
| "haxm_elements io port direction sz (off # offs) s =
     bindr (haxm_element io port direction sz off s) (\<lambda>s. haxm_elements io port direction sz offs s)"

definition haxm_HandleIO ::
  "('h, 'd) haxm_cpu io_port \<Rightarrow> u8 \<Rightarrow> u16 \<Rightarrow> u8 \<Rightarrow> u16 \<Rightarrow> u16 \<Rightarrow> ('h, 'd) haxm_cpu \<Rightarrow>
   fault + CPUStatus \<times> ('h, 'd) haxm_cpu" where
  "haxm_HandleIO io df port direction sz count s =
     bindr (haxm_elements io port direction sz
         (map (string_offset (df \<noteq> 0) (unat sz) (unat count)) [0..<unat count]) s)
       (\<lambda>s. Inr (CPUS_OK, s))"

text \<open>
  The fields of \<open>hax_fastmmio\<close> at their offsets in the I/O tunnel; \<open>junk\<close> is
  the value of the variable of a transfer between two addresses before it is read.
\<close>

definition HandleFastMMIO ::
  "('h, 'd) haxm_cpu io_port \<Rightarrow> u32 \<Rightarrow> ('h, 'd) haxm_cpu \<Rightarrow> fault + CPUStatus \<times> ('h, 'd) haxm_cpu" where
  "HandleFastMMIO io junk s =
     (let b = m_ioTunnel (impl s) in
      if length b < 24 then Inl OutOfBounds
      else let gpa = rd32 b 0; sz = b ! 16; direction = b ! 17 in
        if direction < 2
        then if direction = HAX_IO_IN
          then bindr (port_MMIOWrite io gpa (rd32 b 8) sz s) (\<lambda>(s, _). Inr (CPUS_OK, s))
          else bindr (port_MMIORead io gpa sz s (rd32 b 8)) (\<lambda>(s, v, _).
            Inr (CPUS_OK, upd_haxm (m_ioTunnel_update (\<lambda>b. wr32 b 8 v)) s))
        else bindr (port_MMIORead io gpa sz s junk) (\<lambda>(s, v, _).
          bindr (port_MMIOWrite io (rd32 (m_ioTunnel (impl s)) 8) v sz s) (\<lambda>(s, _). Inr (CPUS_OK, s))))"

section \<open>Running\<close>

abbreviation (input) HAX_EXIT_IO :: u32 where "HAX_EXIT_IO \<equiv> 1"
abbreviation (input) HAX_EXIT_MMIO :: u32 where "HAX_EXIT_MMIO \<equiv> 2"
abbreviation (input) HAX_EXIT_REALMODE :: u32 where "HAX_EXIT_REALMODE \<equiv> 3"
abbreviation (input) HAX_EXIT_INTERRUPT :: u32 where "HAX_EXIT_INTERRUPT \<equiv> 4"
abbreviation (input) HAX_EXIT_UNKNOWN :: u32 where "HAX_EXIT_UNKNOWN \<equiv> 5"
abbreviation (input) HAX_EXIT_HLT :: u32 where "HAX_EXIT_HLT \<equiv> 6"
abbreviation (input) HAX_EXIT_STATECHANGE :: u32 where "HAX_EXIT_STATECHANGE \<equiv> 7"
abbreviation (input) HAX_EXIT_PAUSED :: u32 where "HAX_EXIT_PAUSED \<equiv> 8"
abbreviation (input) HAX_EXIT_FAST_MMIO :: u32 where "HAX_EXIT_FAST_MMIO \<equiv> 9"
abbreviation (input) HAX_EXIT_DEBUG :: u32 where "HAX_EXIT_DEBUG \<equiv> 11"

text \<open>The reason of an exit; \<open>None\<close> leaves the reason of the previous exit.\<close>

definition exit_reason :: "hax_tunnel \<Rightarrow> CpuExitReason option" where
  "exit_reason t =
     (let e = exit_status t in
      if e = HAX_EXIT_HLT then Some CPU_EXIT_HLT
      else if e \<in> {HAX_EXIT_IO, HAX_EXIT_FAST_MMIO, HAX_EXIT_INTERRUPT, HAX_EXIT_PAUSED}
      then Some CPU_EXIT_NORMAL
      else if e \<in> {HAX_EXIT_MMIO, HAX_EXIT_REALMODE, HAX_EXIT_UNKNOWN} then Some CPU_EXIT_ERROR
      else if e = HAX_EXIT_STATECHANGE then Some CPU_EXIT_SHUTDOWN
      else if e = HAX_EXIT_DEBUG
      then Some (if tst (debug_dr6 t) 0xF then CPU_EXIT_HW_BREAKPOINT else CPU_EXIT_SW_BREAKPOINT)
      else None)"

definition haxm_HandleExecResult ::
  "('h, 'd) haxm_cpu io_port \<Rightarrow> u32 \<Rightarrow> HaxmVCPUStatus \<Rightarrow> ('h, 'd) haxm_cpu \<Rightarrow>
   fault + CPUStatus \<times> ('h, 'd) haxm_cpu" where
  "haxm_HandleExecResult io junk status s =
     (let s = upd_haxm (\<lambda>v. v\<lparr>m_regsDirty := True, m_fpuRegsDirty := True\<rparr>) s in
      if status = HXVCPUS_FAILED then Inr (CPUS_FAILED, s)
      else let t = m_tunnel (impl s);
               s = (case exit_reason t of Some r \<Rightarrow> upd_haxm (exitReason_update (\<lambda>_. r)) s | None \<Rightarrow> s)
        in if exit_status t = HAX_EXIT_IO
           then haxm_HandleIO io (io_df t) (io_port_number t) (io_direction t) (io_size t) (io_count t) s
           else if exit_status t = HAX_EXIT_FAST_MMIO then HandleFastMMIO io junk s
           else Inr (CPUS_OK, s))"

definition haxm_RunImpl ::
  "'h haxm_driver \<Rightarrow> ('h, 'd) haxm_cpu io_port \<Rightarrow> u32 \<Rightarrow> ('h, 'd) haxm_cpu \<Rightarrow>
   fault + CPUStatus \<times> ('h, 'd) haxm_cpu" where
  "haxm_RunImpl D io junk s =
     (let (status, s) = haxm_vcpu_Run D (UpdateRegisters D s) in haxm_HandleExecResult io junk status s)"

definition haxm_StepImpl ::
  "'h haxm_driver \<Rightarrow> ('h, 'd) haxm_cpu io_port \<Rightarrow> u32 \<Rightarrow> ('h, 'd) haxm_cpu \<Rightarrow>
   fault + CPUStatus \<times> ('h, 'd) haxm_cpu" where
  "haxm_StepImpl D io junk s =
     (let (status, s) = haxm_vcpu_Step D (UpdateRegisters D s) in haxm_HandleExecResult io junk status s)"

definition haxm_InitializeImpl ::
  "'h haxm_driver \<Rightarrow> ('h, 'd) haxm_cpu \<Rightarrow> fault + CPUInitStatus \<times> ('h, 'd) haxm_cpu" where
  "haxm_InitializeImpl D s =
     (let (status, h) = hax_create D (drv (impl s)) in Inr (status, upd_haxm (drv_update (\<lambda>_. h)) s))"

section \<open>Interrupts\<close>

definition haxm_InterruptImpl ::
  "u8 \<Rightarrow> ('h, 'd) haxm_cpu \<Rightarrow> fault + InterruptResult \<times> ('h, 'd) haxm_cpu" where
  "haxm_InterruptImpl vector s = Inr (INTR_SUCCESS, s)"

definition upd_tunnel :: "(hax_tunnel \<Rightarrow> hax_tunnel) \<Rightarrow> ('h, 'd) haxm_cpu \<Rightarrow> ('h, 'd) haxm_cpu" where
  "upd_tunnel f = upd_haxm (\<lambda>v. v\<lparr>m_tunnel := f (m_tunnel v)\<rparr>)"

definition haxm_InjectInterrupt :: "'h haxm_driver \<Rightarrow> u8 \<Rightarrow> (('h, 'd) haxm, unit) cpu_op" where
  "haxm_InjectInterrupt D vector s =
     (let (status, s) = haxm_vcpu_Interrupt D vector s in
      if status \<noteq> HXVCPUS_SUCCESS then op_fail CPUS_OP_FAILED s
      else op_ok () (upd_tunnel (request_interrupt_window_update (\<lambda>_. 0)) s))"

definition haxm_CanInjectInterrupt ::
  "('h, 'd) haxm_cpu \<Rightarrow> fault + bool \<times> ('h, 'd) haxm_cpu" where
  "haxm_CanInjectInterrupt s = Inr (ready_for_interrupt_injection (m_tunnel (impl s)) \<noteq> 0, s)"

definition haxm_RequestInterruptWindow ::
  "('h, 'd) haxm_cpu \<Rightarrow> fault + ('h, 'd) haxm_cpu" where
  "haxm_RequestInterruptWindow s = Inr (upd_tunnel (request_interrupt_window_update (\<lambda>_. 1)) s)"

text \<open>The virtual functions of \<open>Cpu\<close> as \<open>HaxmCpu\<close> overrides them.\<close>

definition HaxmCpu ::
  "'h haxm_driver \<Rightarrow> ('h, 'd) haxm_cpu io_port \<Rightarrow> u32 \<Rightarrow> ('h, 'd) haxm cpu_ops" where
  "HaxmCpu D io junk = \<lparr>
     vMemMapSubregion = haxm_MemMapSubregion D,
     vRegRead = haxm_RegRead D, vRegWrite = haxm_RegWrite D,
     vGetGDT = haxm_GetGDT D, vSetGDT = haxm_SetGDT D,
     vGetIDT = haxm_GetIDT D, vSetIDT = haxm_SetIDT D,
     vInitializeImpl = haxm_InitializeImpl D,
     vRunImpl = haxm_RunImpl D io junk, vStepImpl = haxm_StepImpl D io junk,
     vInterruptImpl = haxm_InterruptImpl, vInjectInterrupt = haxm_InjectInterrupt D,
     vCanInjectInterrupt = haxm_CanInjectInterrupt,
     vRequestInterruptWindow = haxm_RequestInterruptWindow\<rparr>"

section \<open>Devices behind the I/O mapper\<close>

text \<open>
  The I/O mapper of \<open>io.cpp\<close> with its devices as the I/O mapper of a CPU. A
  device interrupts the CPU by calling \<open>Interrupt\<close>, which appends the vector to
  the pending ones; the device models collect those vectors, and \<open>drain\<close> takes
  them out.
\<close>

definition drain_interrupts ::
  "('d \<Rightarrow> u8 list \<times> 'd) \<Rightarrow> 'd \<Rightarrow> ('h, 'd) haxm_cpu \<Rightarrow> ('h, 'd) haxm_cpu" where
  "drain_interrupts drain d s =
     (let (vs, d) = drain d in
      upd_haxm (devs_update (\<lambda>_. d)) (s\<lparr>m_pendingInterrupts := m_pendingInterrupts s @ vs\<rparr>))"

definition device_port ::
  "('n, 'd) device_ops \<Rightarrow> 'n IOMapper \<Rightarrow> ('d \<Rightarrow> u8 list \<times> 'd) \<Rightarrow> ('h, 'd) haxm_cpu io_port" where
  "device_port ops io drain = \<lparr>
     port_IORead = (\<lambda>addr sz s v. bindr (IOMapper_IORead ops io addr sz (devs (impl s)) v)
       (\<lambda>(d, v, ok). Inr (drain_interrupts drain d s, v, ok))),
     port_IOWrite = (\<lambda>addr v sz s. bindr (IOMapper_IOWrite ops io addr v sz (devs (impl s)))
       (\<lambda>(d, ok). Inr (drain_interrupts drain d s, ok))),
     port_MMIORead = (\<lambda>addr sz s v. bindr (IOMapper_MMIORead ops io addr sz (devs (impl s)) v)
       (\<lambda>(d, v, ok). Inr (drain_interrupts drain d s, v, ok))),
     port_MMIOWrite = (\<lambda>addr v sz s. bindr (IOMapper_MMIOWrite ops io addr v sz (devs (impl s)))
       (\<lambda>(d, ok). Inr (drain_interrupts drain d s, ok)))\<rparr>"

end
