(* ===== verification/Machine.thy ===== *)
theory Machine
  imports IOMap Lines Pic PciBoard SuperIO Ata_Laws Haxm
begin

text \<open>
  The console's hardware put together, \<open>Xbox::InitHardware\<close> of \<open>core/openxbox/xbox.cpp\<close>:
  the devices, the ports they are mapped to, and the paths that an interrupt takes
  from a device to the CPU. The models of the ATA channels, the serial ports and
  the SMBus controller record their calls of an interrupt handler; here those calls
  are made, at the end of the access that caused them: no device reads the state of
  the interrupt controllers, so their order is all that counts.
\<close>

section \<open>Devices and their ports\<close>

datatype io_dev = Dev_i8259 | Dev_i8254 | Dev_CMOS | Dev_ATA | Dev_PCIBus | Dev_SuperIO | Dev_Serial nat

text \<open>\<open>m_dynamicDevices\<close> is ordered by the addresses of the devices; it holds one.\<close>

fun io_dev_rank :: "io_dev \<Rightarrow> nat" where
  "io_dev_rank Dev_i8259 = 0"
| "io_dev_rank Dev_i8254 = 1"
| "io_dev_rank Dev_CMOS = 2"
| "io_dev_rank Dev_ATA = 3"
| "io_dev_rank Dev_PCIBus = 4"
| "io_dev_rank Dev_SuperIO = 5"
| "io_dev_rank (Dev_Serial n) = 6 + n"

lemma io_dev_rank_inj: "io_dev_rank d = io_dev_rank e \<longleftrightarrow> d = e"
  by (cases d; cases e) auto

instantiation io_dev :: linorder
begin

definition less_eq_io_dev :: "io_dev \<Rightarrow> io_dev \<Rightarrow> bool" where
  "less_eq_io_dev d e \<longleftrightarrow> io_dev_rank d \<le> io_dev_rank e"

definition less_io_dev :: "io_dev \<Rightarrow> io_dev \<Rightarrow> bool" where
  "less_io_dev d e \<longleftrightarrow> io_dev_rank d < io_dev_rank e"

instance
  by standard (auto simp: less_eq_io_dev_def less_io_dev_def io_dev_rank_inj [symmetric])

end

type_synonym port_range = "u32 \<times> u32 \<times> io_dev"

definition i8259_ports :: "port_range list" where
  "i8259_ports = [(0x20, 2, Dev_i8259), (0xA0, 2, Dev_i8259), (0x4D0, 2, Dev_i8259)]"

definition i8254_ports :: "port_range list" where
  "i8254_ports = [(0x40, 4, Dev_i8254)]"

definition CMOS_ports :: "port_range list" where
  "CMOS_ports = [(0x70, 3, Dev_CMOS)]"

definition ATA_ports :: "port_range list" where
  "ATA_ports = [(kPrimaryCommandBasePort, 8, Dev_ATA), (kPrimaryControlPort, 1, Dev_ATA),
     (kSecondaryCommandBasePort, 8, Dev_ATA), (kSecondaryControlPort, 1, Dev_ATA)]"

definition PCIBus_ports :: "port_range list" where
  "PCIBus_ports = [(0xCF8, 1, Dev_PCIBus), (0xCFC, 4, Dev_PCIBus)]"

definition SuperIO_ports :: "port_range list" where
  "SuperIO_ports = [(PORT_SUPERIO_CONFIG, 2, Dev_SuperIO), (0x3F8, 7, Dev_Serial 0), (0x2F8, 7, Dev_Serial 1)]"

text \<open>The function \<open>MapIO\<close> of a device maps its ranges until one is refused.\<close>

fun MapIO :: "port_range list \<Rightarrow> io_dev IOMapper \<Rightarrow> io_dev IOMapper \<times> bool" where
  "MapIO [] io = (io, True)"
| "MapIO ((base, n, d) # rs) io =
     (let (io, ok) = MapIODevice base n d io in if ok then MapIO rs io else (io, False))"

definition PCIBus_MapIO :: "io_dev IOMapper \<Rightarrow> io_dev IOMapper \<times> bool" where
  "PCIBus_MapIO io =
     (let (io, ok) = MapIO PCIBus_ports io in if ok then AddDevice Dev_PCIBus io else (io, False))"

definition new_IOMapper :: "io_dev IOMapper" where
  "new_IOMapper = \<lparr>m_mappedIODevices = [], m_mappedMMIODevices = [], m_dynamicDevices = []\<rparr>"

text \<open>\<open>InitHardware\<close> does not look at the results.\<close>

definition xbox_MapIO :: "bool \<Rightarrow> io_dev IOMapper" where
  "xbox_MapIO enableSuperIO =
     (let io = fst (MapIO i8259_ports new_IOMapper);
          io = fst (MapIO i8254_ports io);
          io = fst (MapIO CMOS_ports io);
          io = fst (MapIO ATA_ports io);
          io = fst (PCIBus_MapIO io)
      in if enableSuperIO then fst (MapIO SuperIO_ports io) else io)"

section \<open>State and interrupt paths\<close>

text \<open>The handlers that the lines of the console refer to.\<close>

datatype xbox_handler = Handler_GSI | Handler_LPC | Handler_i8259

record 'c machine =
  mach_i8259 :: i8259
  mach_i8254 :: i8254
  mach_ATA :: ata
  mach_SuperIO :: "'c superio option"
  mach_PCIBus :: "board pci_bus"
  mach_GSI :: "xbox_handler gsi"
  mach_IRQs :: "xbox_handler IRQ list"
  mach_acpiIRQs :: "xbox_handler IRQ list"

text \<open>
  A line reaches the i8259 through at most three handlers, LPC, GSI and i8259; the
  first argument bounds the calls.
\<close>

definition LPC_address :: u32 where
  "LPC_address = PCI_DEVID 0 (PCI_DEVFN 1 0)"

definition SMBus_address :: u32 where
  "SMBus_address = PCI_DEVID 0 (PCI_DEVFN 1 1)"

fun xbox_HandleIRQ :: "nat \<Rightarrow> (xbox_handler, 'c machine) handlers" where
  "xbox_HandleIRQ 0 h n level s = Inl StackExhausted"
| "xbox_HandleIRQ (Suc k) h n level s =
     (case h of
        Handler_i8259 \<Rightarrow>
          bindr (HandleIRQ n level (mach_i8259 s)) (\<lambda>p. Inr (s\<lparr>mach_i8259 := p\<rparr>))
      | Handler_GSI \<Rightarrow> GSI_HandleIRQ (xbox_HandleIRQ k) (mach_GSI s) n level s
      | Handler_LPC \<Rightarrow>
          (case map_of (m_Devices (mach_PCIBus s)) LPC_address of
             Some p \<Rightarrow>
               (case LPC_HandleIRQ (dev_config p) n level of
                  None \<Rightarrow> Inr s
                | Some (irq, level) \<Rightarrow>
                    bindr (aget (mach_IRQs s) (unat irq)) (\<lambda>line. IRQ_Handle (xbox_HandleIRQ k) line level s))
           | None \<Rightarrow> Inl NullPointer))"

abbreviation handler_calls :: nat where "handler_calls \<equiv> 3"

fun raise_all :: "(u8 \<times> bool) list \<Rightarrow> 'c machine \<Rightarrow> fault + 'c machine" where
  "raise_all [] s = Inr s"
| "raise_all ((n, level) # es) s =
     bindr (xbox_HandleIRQ handler_calls Handler_i8259 n level s) (raise_all es)"

fun raise_acpi :: "bool list \<Rightarrow> 'c machine \<Rightarrow> fault + 'c machine" where
  "raise_acpi [] s = Inr s"
| "raise_acpi (level # ls) s =
     bindr (aget (mach_acpiIRQs s) 1) (\<lambda>line.
     bindr (IRQ_Handle (xbox_HandleIRQ handler_calls) line level s) (raise_acpi ls))"

text \<open>What a device has called since its state was \<open>old\<close>.\<close>

definition calls_since :: "'e list \<Rightarrow> 'e list \<Rightarrow> 'e list" where
  "calls_since old new = drop (length old) new"

definition ata_calls :: "ata \<Rightarrow> ata \<Rightarrow> (u8 \<times> bool) list" where
  "ata_calls a b = calls_since (chan_irqs (primary a)) (chan_irqs (primary b))
     @ calls_since (chan_irqs (secondary a)) (chan_irqs (secondary b))"

definition smbus_calls :: "board pci_bus \<Rightarrow> bool list" where
  "smbus_calls b =
     (case map_of (m_Devices b) SMBus_address of
        Some (Leaf d (SMBusCtl smb)) \<Rightarrow> smb_irqs smb
      | _ \<Rightarrow> [])"

section \<open>Accesses\<close>

definition with_i8259 :: "'c machine \<Rightarrow> i8259 \<Rightarrow> 'c machine" where
  "with_i8259 s p = s\<lparr>mach_i8259 := p\<rparr>"

definition with_ATA :: "'c machine \<Rightarrow> ata \<Rightarrow> fault + 'c machine" where
  "with_ATA s a = raise_all (ata_calls (mach_ATA s) a) (s\<lparr>mach_ATA := a\<rparr>)"

definition with_PCIBus :: "'c machine \<Rightarrow> board pci_bus \<Rightarrow> fault + 'c machine" where
  "with_PCIBus s b =
     raise_acpi (calls_since (smbus_calls (mach_PCIBus s)) (smbus_calls b)) (s\<lparr>mach_PCIBus := b\<rparr>)"

definition with_SuperIO :: "'c machine \<Rightarrow> 'c superio \<Rightarrow> 'c machine" where
  "with_SuperIO s x = s\<lparr>mach_SuperIO := Some x\<rparr>"

definition with_serial :: "nat \<Rightarrow> 'c machine \<Rightarrow> 'c superio \<Rightarrow> 'c serial \<Rightarrow> fault + 'c machine" where
  "with_serial i s x port =
     raise_all (calls_since (irq_trace (m_serialPorts x ! i)) (irq_trace port))
       (s\<lparr>mach_SuperIO := Some (x\<lparr>m_serialPorts := (m_serialPorts x)[i := port]\<rparr>)\<rparr>)"

text \<open>A call of a device that was not created is one through a null pointer.\<close>

definition the_SuperIO :: "'c machine \<Rightarrow> fault + 'c superio" where
  "the_SuperIO s = (case mach_SuperIO s of Some x \<Rightarrow> Inr x | None \<Rightarrow> Inl NullPointer)"

fun machine_IORead ::
  "'c chr_ops \<Rightarrow> io_dev \<Rightarrow> u32 \<Rightarrow> u8 \<Rightarrow> 'c machine \<Rightarrow> u32 \<Rightarrow> fault + 'c machine \<times> u32 \<times> bool" where
  "machine_IORead ops Dev_i8259 port sz s v =
     bindr (i8259_IORead port sz (mach_i8259 s) v) (\<lambda>(p, v, h). Inr (with_i8259 s p, v, h))"
| "machine_IORead ops Dev_i8254 port sz s v =
     bindr (i8254_IORead port sz (mach_i8254 s) v) (\<lambda>(t, v, h). Inr (s\<lparr>mach_i8254 := t\<rparr>, v, h))"
| "machine_IORead ops Dev_CMOS port sz s v = CMOS_IORead port sz s v"
| "machine_IORead ops Dev_ATA port sz s v =
     bindr (ATA_IORead port v sz (mach_ATA s)) (\<lambda>(a, v, h).
     bindr (with_ATA s a) (\<lambda>s. Inr (s, v, h)))"
| "machine_IORead ops Dev_PCIBus port sz s v =
     bindr (PCIBus_IORead board_ops port sz (mach_PCIBus s) v) (\<lambda>(b, v, h).
     bindr (with_PCIBus s b) (\<lambda>s. Inr (s, v, h)))"
| "machine_IORead ops Dev_SuperIO port sz s v =
     bindr (the_SuperIO s) (\<lambda>x.
     bindr (SuperIO_IORead port sz x v) (\<lambda>(x, v, h). Inr (with_SuperIO s x, v, h)))"
| "machine_IORead ops (Dev_Serial i) port sz s v =
     bindr (the_SuperIO s) (\<lambda>x.
     bindr (aget (m_serialPorts x) i) (\<lambda>p.
     bindr (Serial_IORead ops port sz p) (\<lambda>(p, v).
     bindr (with_serial i s x p) (\<lambda>s. Inr (s, v, True)))))"

fun machine_IOWrite ::
  "'c chr_ops \<Rightarrow> io_dev \<Rightarrow> u32 \<Rightarrow> u32 \<Rightarrow> u8 \<Rightarrow> 'c machine \<Rightarrow> fault + 'c machine \<times> bool" where
  "machine_IOWrite ops Dev_i8259 port v sz s =
     bindr (i8259_IOWrite port v sz (mach_i8259 s)) (\<lambda>(p, h). Inr (with_i8259 s p, h))"
| "machine_IOWrite ops Dev_i8254 port v sz s =
     bindr (i8254_IOWrite port v sz (mach_i8254 s)) (\<lambda>(t, h). Inr (s\<lparr>mach_i8254 := t\<rparr>, h))"
| "machine_IOWrite ops Dev_CMOS port v sz s = CMOS_IOWrite port v sz s"
| "machine_IOWrite ops Dev_ATA port v sz s =
     bindr (ATA_IOWrite port v sz (mach_ATA s)) (\<lambda>(a, h).
     bindr (with_ATA s a) (\<lambda>s. Inr (s, h)))"
| "machine_IOWrite ops Dev_PCIBus port v sz s =
     bindr (PCIBus_IOWrite board_ops port v sz (mach_PCIBus s)) (\<lambda>(b, h).
     bindr (with_PCIBus s b) (\<lambda>s. Inr (s, h)))"
| "machine_IOWrite ops Dev_SuperIO port v sz s =
     bindr (the_SuperIO s) (\<lambda>x.
     bindr (SuperIO_IOWrite port v sz x) (\<lambda>(x, h). Inr (with_SuperIO s x, h)))"
| "machine_IOWrite ops (Dev_Serial i) port v sz s =
     bindr (the_SuperIO s) (\<lambda>x.
     bindr (aget (m_serialPorts x) i) (\<lambda>p.
     bindr (Serial_IOWrite ops port v sz p) (\<lambda>p.
     bindr (with_serial i s x p) (\<lambda>s. Inr (s, True)))))"

text \<open>The PCI bus overrides the accesses to memory, the other devices inherit them.\<close>

fun machine_MMIORead :: "io_dev \<Rightarrow> u32 \<Rightarrow> u8 \<Rightarrow> 'c machine \<Rightarrow> u32 \<Rightarrow> fault + 'c machine \<times> u32 \<times> bool" where
  "machine_MMIORead Dev_PCIBus addr sz s v =
     bindr (PCIBus_MMIORead board_ops addr sz (mach_PCIBus s) v) (\<lambda>(b, v, h).
     bindr (with_PCIBus s b) (\<lambda>s. Inr (s, v, h)))"
| "machine_MMIORead _ addr sz s v = IODevice_Read addr sz s v"

fun machine_MMIOWrite :: "io_dev \<Rightarrow> u32 \<Rightarrow> u32 \<Rightarrow> u8 \<Rightarrow> 'c machine \<Rightarrow> fault + 'c machine \<times> bool" where
  "machine_MMIOWrite Dev_PCIBus addr v sz s =
     bindr (PCIBus_MMIOWrite board_ops addr v sz (mach_PCIBus s)) (\<lambda>(b, h).
     bindr (with_PCIBus s b) (\<lambda>s. Inr (s, h)))"
| "machine_MMIOWrite _ addr v sz s = IODevice_Write addr v sz s"

definition machine_ops :: "'c chr_ops \<Rightarrow> (io_dev, 'c machine) device_ops" where
  "machine_ops ops = \<lparr>dev_IORead = machine_IORead ops, dev_IOWrite = machine_IOWrite ops,
     dev_MMIORead = machine_MMIORead, dev_MMIOWrite = machine_MMIOWrite\<rparr>"

text \<open>The vectors that the i8259 has sent to the CPU.\<close>

definition machine_drain :: "'c machine \<Rightarrow> u8 list \<times> 'c machine" where
  "machine_drain s = (cpuInts (mach_i8259 s), s\<lparr>mach_i8259 := (mach_i8259 s)\<lparr>cpuInts := []\<rparr>\<rparr>)"

section \<open>The timer's thread\<close>

definition timer_step :: "'c machine \<Rightarrow> (fault + 'c machine) option" where
  "timer_step s =
     (case i8254_Run_step (mach_i8254 s) of
        None \<Rightarrow> None
      | Some (t, calls) \<Rightarrow> Some (raise_all calls (s\<lparr>mach_i8254 := t\<rparr>)))"

section \<open>Initialisation\<close>

text \<open>
  The hardware of a console: \<open>junk\<close> and \<open>fifo_junk\<close> are what the registers of the TV encoder and the queues
  of the serial ports held that no constructor writes, \<open>pic0\<close> the same of the i8259, \<open>chrs\<close> the character drivers of the serial ports, \<open>rom\<close>, \<open>bios\<close> and
  \<open>mcpxROM\<close> the memory of the ROM area and the two images.
\<close>

definition xbox_GSI :: "xbox_handler gsi" where
  "xbox_GSI = new_GSI\<lparr>i8259IRQs := map Some (AllocateIRQs (Some Handler_i8259) ISA_NUM_IRQS)\<rparr>"

definition InitHardware ::
  "HardwareModel \<Rightarrow> bool \<Rightarrow> bytes \<Rightarrow> bytes \<Rightarrow> bytes \<Rightarrow> bytes \<Rightarrow> bytes \<Rightarrow> bytes \<Rightarrow> i8259 \<Rightarrow> 'c option list \<Rightarrow> 'c \<Rightarrow> u64 \<Rightarrow>
   fault + 'c machine \<times> io_dev IOMapper" where
  "InitHardware hw enableSuperIO rom bios mcpxROM junk fifo_junk eeprom pic0 chrs c0 nanos =
     bindr (i8259_Reset pic0) (\<lambda>pic.
     bindr (xbox_PCIBus (xbox_SMBus hw junk eeprom) rom bios mcpxROM (hw = DebugKit)) (\<lambda>bus.
     Inr (\<lparr>mach_i8259 = pic, mach_i8254 = i8254_Reset new_i8254, mach_ATA = xbox_ATA,
           mach_SuperIO = (if enableSuperIO then Some (new_SuperIO chrs fifo_junk c0 nanos) else None),
           mach_PCIBus = bus, mach_GSI = xbox_GSI, mach_IRQs = AllocateIRQs (Some Handler_GSI) GSI_NUM_PINS,
           mach_acpiIRQs = AllocateIRQs (Some Handler_LPC) 2\<rparr>,
          xbox_MapIO enableSuperIO)))"

end
