(* ===== verification/Pic_Laws.thy ===== *)
theory Pic_Laws
  imports Pic
begin

text \<open>
  What the interrupt controllers of \<open>Pic\<close> do. First the priority scan and the
  choice of the request to serve, against an order-free description of an 8259
  (\<open>requested\<close>, \<open>blocking\<close>, \<open>rank\<close>); then facts that hold of every state the
  mutually recursive delivery passes through, proved once in the locale
  \<open>chip_invariant\<close> and interpreted for each invariant; then termination.
\<close>

section \<open>The request that is served\<close>

definition rank :: "chip \<Rightarrow> nat \<Rightarrow> nat" where
  "rank c i = (i + (8 - unat (m_PriorityAdd c) mod 8)) mod 8"

lemma rank_inverse:
  "i < 8 \<Longrightarrow> (rank c i + unat (m_PriorityAdd c)) mod 8 = i"
  "r < 8 \<Longrightarrow> rank c ((r + unat (m_PriorityAdd c)) mod 8) = r"
  unfolding rank_def by (rule mod8_rotate; assumption)+

lemma rank_less_8 [simp]: "rank c i < 8"
  by (simp add: rank_def)

lemma rank_inj: "i < 8 \<Longrightarrow> j < 8 \<Longrightarrow> rank c i = rank c j \<longleftrightarrow> i = j"
  by (metis rank_inverse(1))

lemma GetPriority_0 [simp]: "GetPriority c 0 = 8"
  by (simp add: GetPriority_def)

lemma GetPriority_LEAST:
  assumes "m \<noteq> 0"
  shows "GetPriority c m = (LEAST r. bit m ((r + unat (m_PriorityAdd c)) mod 8))"
proof -
  obtain i where "i < 8" and "bit m i" using assms u8_nonzero_bit by blast
  then have "\<not> (m AND push_bit ((rank c i + unat (m_PriorityAdd c)) mod 8) 1 = 0)"
    by (simp add: rank_inverse)
  from while_first [of "\<lambda>r. m AND push_bit ((r + unat (m_PriorityAdd c)) mod 8) 1 = 0", OF this]
  show ?thesis using assms by (simp add: GetPriority_def)
qed

lemma GetPriority_less_8: "GetPriority c m < 8 \<longleftrightarrow> m \<noteq> 0"
proof
  assume "m \<noteq> 0"
  then obtain i where "i < 8" and "bit m i" using u8_nonzero_bit by blast
  then have "GetPriority c m \<le> rank c i"
    using \<open>m \<noteq> 0\<close> by (simp add: GetPriority_LEAST Least_le rank_inverse)
  then show "GetPriority c m < 8" using rank_less_8 [of c i] by linarith
qed auto

lemma GetPriority_le_8: "GetPriority c m \<le> 8"
  by (cases "m = 0") (use GetPriority_less_8 [of c m] in auto)

lemma GetPriority_hit:
  assumes "GetPriority c m < 8"
  shows "bit m ((GetPriority c m + unat (m_PriorityAdd c)) mod 8)"
proof -
  from assms have m: "m \<noteq> 0" by (simp add: GetPriority_less_8)
  then obtain i where "i < 8" and "bit m i" using u8_nonzero_bit by blast
  then have "bit m ((rank c i + unat (m_PriorityAdd c)) mod 8)" by (simp add: rank_inverse)
  with m show ?thesis by (simp add: GetPriority_LEAST) (rule LeastI)
qed

lemma GetPriority_least:
  assumes "bit m i" and "i < 8"
  shows "GetPriority c m \<le> rank c i"
proof -
  have "m \<noteq> 0" using assms by auto
  then show ?thesis using assms by (simp add: GetPriority_LEAST Least_le rank_inverse)
qed

lemma GetPriority_le_iff:
  "r \<le> 8 \<Longrightarrow> r \<le> GetPriority c m \<longleftrightarrow> (\<forall>j<8. bit m j \<longrightarrow> r \<le> rank c j)"
  by (metis GetPriority_hit GetPriority_le_8 GetPriority_least le_neq_implies_less le_trans
      mod_less_divisor rank_inverse(2) zero_less_numeral)


definition requested :: "chip \<Rightarrow> nat \<Rightarrow> bool" where
  "requested c i \<longleftrightarrow> bit (m_IRR c) i \<and> \<not> bit (m_IMR c) i"

definition blocking :: "pic \<Rightarrow> chip \<Rightarrow> nat \<Rightarrow> bool" where
  "blocking p c i \<longleftrightarrow> bit (m_ISR c) i \<and> \<not> (m_SpecialMask c \<noteq> 0 \<and> bit (m_IMR c) i)
     \<and> \<not> (m_IsSpecialFullyNestedMode c \<and> p = Master \<and> i = 2)"

definition service_mask :: "pic \<Rightarrow> chip \<Rightarrow> u8" where
  "service_mask p c =
     (let m = (if m_SpecialMask c \<noteq> 0 then m_ISR c AND NOT (m_IMR c) else m_ISR c)
      in if m_IsSpecialFullyNestedMode c \<and> p = Master then m AND NOT (push_bit 2 1) else m)"

lemma bit_service_mask: "i < 8 \<Longrightarrow> bit (service_mask p c) i \<longleftrightarrow> blocking p c i"
proof -
  assume "i < 8"
  have "bit (push_bit 2 1 :: u8) i \<longleftrightarrow> i = 2" by (auto simp only: bit_push_bit_1) simp
  with \<open>i < 8\<close> show ?thesis
    unfolding service_mask_def blocking_def Let_def by (auto simp del: push_bit_of_1 simp: bit_and_iff bit_not_iff)
qed

lemma bit_request_mask: "i < 8 \<Longrightarrow> bit (m_IRR c AND NOT (m_IMR c)) i \<longleftrightarrow> requested c i"
  by (auto simp: requested_def bit_simps)

lemma GetIRQ_alt:
  "GetIRQ s p =
     (let c = chips s p; r = GetPriority c (m_IRR c AND NOT (m_IMR c)) in
      if r < 8 \<and> r < GetPriority c (service_mask p c)
      then Some ((r + unat (m_PriorityAdd c)) mod 8) else None)"
  using GetPriority_le_8 [of "chips s p"]
  by (auto simp: GetIRQ_def service_mask_def Let_def le_less)

lemma GetIRQ_correct:
  "GetIRQ s p = Some i \<longleftrightarrow>
     i < 8 \<and> requested (chips s p) i
     \<and> (\<forall>j<8. requested (chips s p) j \<longrightarrow> rank (chips s p) i \<le> rank (chips s p) j)
     \<and> (\<forall>j<8. blocking p (chips s p) j \<longrightarrow> rank (chips s p) i < rank (chips s p) j)"
  (is "_ \<longleftrightarrow> ?R")
proof -
  let ?c = "chips s p"
  let ?req = "m_IRR ?c AND NOT (m_IMR ?c)"
  let ?r = "GetPriority ?c ?req"
  have less: "r < GetPriority ?c (service_mask p ?c) \<longleftrightarrow> (\<forall>j<8. blocking p ?c j \<longrightarrow> r < rank ?c j)"
    if "r < 8" for r
    using that GetPriority_le_iff [of "Suc r" ?c "service_mask p ?c"]
    by (simp add: Suc_le_eq bit_service_mask)
  show ?thesis
  proof
    assume "GetIRQ s p = Some i"
    then have r: "?r < 8" "?r < GetPriority ?c (service_mask p ?c)"
      and i: "i = (?r + unat (m_PriorityAdd ?c)) mod 8"
      by (auto simp: GetIRQ_alt Let_def split: if_splits)
    then have i8: "i < 8" and rank_i: "rank ?c i = ?r" by (simp_all add: rank_inverse)
    have "bit ?req i" using GetPriority_hit [OF r(1)] i by simp
    moreover have "\<forall>j<8. requested ?c j \<longrightarrow> ?r \<le> rank ?c j"
      using GetPriority_least [of ?req] bit_request_mask [of _ ?c] by blast
    ultimately show ?R
      using r i8 less [of ?r] by (simp add: rank_i bit_request_mask)
  next
    assume R: ?R
    then have i: "i < 8" "bit ?req i" by (simp_all add: bit_request_mask)
    have "?r \<le> rank ?c i" using i by (simp add: GetPriority_least)
    moreover have "rank ?c i \<le> ?r"
      using R GetPriority_le_iff [of "rank ?c i" ?c ?req] rank_less_8 [of ?c i]
      by (simp add: bit_request_mask)
    ultimately have "?r = rank ?c i" by simp
    then show "GetIRQ s p = Some i"
      using R less [of "rank ?c i"] by (simp add: GetIRQ_alt Let_def rank_inverse)
  qed
qed

lemma GetIRQ_None:
  "GetIRQ s p = None \<longleftrightarrow>
     (\<forall>i<8. requested (chips s p) i \<longrightarrow>
        (\<exists>j<8. blocking p (chips s p) j \<and> rank (chips s p) j \<le> rank (chips s p) i))"
  (is "?N \<longleftrightarrow> ?R")
proof
  let ?c = "chips s p"
  assume None: ?N
  show ?R
  proof (intro allI impI)
    fix i :: nat
    assume i: "i < 8" "requested ?c i"
    define k where "k = arg_min_on (rank ?c) {k. k < 8 \<and> requested ?c k}"
    have fin: "finite {k. k < 8 \<and> requested ?c k}" "{k. k < 8 \<and> requested ?c k} \<noteq> {}"
      using i by auto
    have k: "k < 8" "requested ?c k"
      using arg_min_if_finite(1) [OF fin, of "rank ?c"] by (auto simp: k_def)
    have least: "rank ?c k \<le> rank ?c j" if "j < 8" "requested ?c j" for j
      unfolding k_def by (rule arg_min_least [OF fin]) (use that in simp)
    have "\<exists>j<8. blocking p ?c j \<and> rank ?c j \<le> rank ?c k"
      using None GetIRQ_correct [of s p k] k least by (metis linorder_not_less option.distinct(1))
    with least [OF i] show "\<exists>j<8. blocking p ?c j \<and> rank ?c j \<le> rank ?c i"
      using le_trans by blast
  qed
next
  assume R: ?R
  show ?N
  proof (cases "GetIRQ s p")
    case (Some i)
    then show ?thesis using R unfolding GetIRQ_correct by (meson linorder_not_less)
  qed simp
qed

lemma GetIRQ_not_in_service:
  assumes "GetIRQ s p = Some i" and "\<not> (p = Master \<and> i = 2)"
  shows "\<not> bit (m_ISR (chips s p)) i"
  using assms unfolding GetIRQ_correct
  by (auto simp: blocking_def requested_def)

section \<open>Delivery keeps what its three chip updates keep\<close>

lemma set_line_frame [simp]:
  "m_IMR (set_line i a c) = m_IMR c" "m_ISR (set_line i a c) = m_ISR c"
  "m_Base (set_line i a c) = m_Base c" "m_SpecialMask (set_line i a c) = m_SpecialMask c"
  "m_InitState (set_line i a c) = m_InitState c" "m_ELCR (set_line i a c) = m_ELCR c"
  "m_ELCRMask (set_line i a c) = m_ELCRMask c" "m_PriorityAdd (set_line i a c) = m_PriorityAdd c"
  "m_AutoEOI (set_line i a c) = m_AutoEOI c" "m_RotateOnAutoEOI (set_line i a c) = m_RotateOnAutoEOI c"
  "m_IsSpecialFullyNestedMode (set_line i a c) = m_IsSpecialFullyNestedMode c"
  "m_InterruptOutput (set_line i a c) = m_InterruptOutput c"
  by (simp_all add: set_line_def Let_def)

lemma acknowledge_frame [simp]:
  "m_IMR (acknowledge i c) = m_IMR c" "m_PreviousIRR (acknowledge i c) = m_PreviousIRR c"
  "m_Base (acknowledge i c) = m_Base c" "m_SpecialMask (acknowledge i c) = m_SpecialMask c"
  "m_InitState (acknowledge i c) = m_InitState c" "m_ELCR (acknowledge i c) = m_ELCR c"
  "m_ELCRMask (acknowledge i c) = m_ELCRMask c" "m_AutoEOI (acknowledge i c) = m_AutoEOI c"
  "m_RotateOnAutoEOI (acknowledge i c) = m_RotateOnAutoEOI c"
  "m_IsSpecialFullyNestedMode (acknowledge i c) = m_IsSpecialFullyNestedMode c"
  "m_InterruptOutput (acknowledge i c) = m_InterruptOutput c"
  by (simp_all add: acknowledge_def Let_def)

lemma bit_IRR_set_line:
  "i < 8 \<Longrightarrow> bit (m_IRR (set_line i a c)) j \<longleftrightarrow>
     (if j = i then a \<and> (bit (m_ELCR c) i \<or> \<not> bit (m_PreviousIRR c) i \<or> bit (m_IRR c) i)
      else bit (m_IRR c) j)"
  by (auto simp: set_line_def Let_def bit_simps dest: bit_u8_less)

lemma bit_Prev_set_line:
  "i < 8 \<Longrightarrow> bit (m_PreviousIRR (set_line i a c)) j \<longleftrightarrow> (if j = i then a else bit (m_PreviousIRR c) j)"
  by (auto simp: set_line_def Let_def bit_simps dest: bit_u8_less)

lemma bit_IRR_acknowledge:
  "i < 8 \<Longrightarrow> bit (m_IRR (acknowledge i c)) j \<longleftrightarrow>
     bit (m_IRR c) j \<and> (j = i \<longrightarrow> bit (m_ELCR c) i)"
  by (auto simp: acknowledge_def Let_def bit_simps dest: bit_u8_less)

lemma bit_ISR_acknowledge:
  "i < 8 \<Longrightarrow> bit (m_ISR (acknowledge i c)) j \<longleftrightarrow>
     bit (m_ISR c) j \<or> (j = i \<and> \<not> m_AutoEOI c)"
  by (auto simp: acknowledge_def Let_def bit_simps dest: bit_u8_less)

lemma GetPriority_cong: "m_PriorityAdd c = m_PriorityAdd c' \<Longrightarrow> GetPriority c m = GetPriority c' m"
  unfolding GetPriority_def by simp

lemma GetIRQ_cong:
  assumes "m_IRR (chips t p) = m_IRR (chips s p)" "m_IMR (chips t p) = m_IMR (chips s p)"
    "m_ISR (chips t p) = m_ISR (chips s p)" "m_SpecialMask (chips t p) = m_SpecialMask (chips s p)"
    "m_IsSpecialFullyNestedMode (chips t p) = m_IsSpecialFullyNestedMode (chips s p)"
    and prio: "m_PriorityAdd (chips t p) = m_PriorityAdd (chips s p)"
  shows "GetIRQ t p = GetIRQ s p"
proof -
  have "service_mask p (chips t p) = service_mask p (chips s p)"
    using assms unfolding service_mask_def by (simp only:)
  then show ?thesis
    using assms GetPriority_cong [OF prio] unfolding GetIRQ_alt Let_def by (simp only:)
qed

lemma GetIRQ_note_output [simp]: "GetIRQ (note_output q s) p = GetIRQ s p"
  by (rule GetIRQ_cong) (simp_all add: note_output_def)

lemma GetIRQ_cpuInts [simp]: "GetIRQ (s\<lparr>cpuInts := vs\<rparr>) p = GetIRQ s p"
  by (rule GetIRQ_cong) simp_all

lemma UpdateIRQ_Slave:
  "UpdateIRQ (Suc n) Slave s =
     SetIRQ n Master 2 (GetIRQ s Slave \<noteq> None) (note_output Slave s)"
  by (cases "SetIRQ n Master 2 (GetIRQ s Slave \<noteq> None) (note_output Slave s)")
     (simp_all add: note_output_def)

lemma UpdateIRQ_Master:
  "UpdateIRQ (Suc n) Master s =
     (if GetIRQ s Master = None then Inr (note_output Master s)
      else bindr (GetCurrentIRQ n (note_output Master s))
             (\<lambda>(s, v). Inr (s\<lparr>cpuInts := cpuInts s @ [v]\<rparr>)))"
  by (simp add: note_output_def)

declare UpdateIRQ.simps(2) [simp del]

locale chip_invariant =
  fixes J :: "pic \<Rightarrow> chip \<Rightarrow> bool"
  assumes J_output: "J p c \<Longrightarrow> J p (c\<lparr>m_InterruptOutput := b\<rparr>)"
    and J_line: "J p c \<Longrightarrow> J p (set_line i a c)"
    and J_ack: "J p c \<Longrightarrow> J p (acknowledge i c)"
begin

lemma J_note_output: "\<forall>q. J q (chips s q) \<Longrightarrow> \<forall>q. J q (chips (note_output p s) q)"
  by (simp add: note_output_def J_output)

lemma machinery:
  "UpdateIRQ n p s = Inr s' \<Longrightarrow> \<forall>q. J q (chips s q) \<Longrightarrow> \<forall>q. J q (chips s' q)"
  "SetIRQ n p i a s = Inr s' \<Longrightarrow> \<forall>q. J q (chips s q) \<Longrightarrow> \<forall>q. J q (chips s' q)"
  "AcknowledgeIRQ n p i s = Inr s' \<Longrightarrow> \<forall>q. J q (chips s q) \<Longrightarrow> \<forall>q. J q (chips s' q)"
  "GetCurrentIRQ n s = Inr (s', v) \<Longrightarrow> \<forall>q. J q (chips s q) \<Longrightarrow> \<forall>q. J q (chips s' q)"
proof (induction n arbitrary: p s s' i a v)
  case 0
  { case 1 then show ?case by simp }
  { case 2 then show ?case by simp }
  { case 3 then show ?case by simp }
  { case 4 then show ?case by simp }
next
  case (Suc n)
  { case (1 p s s')
    note out = J_note_output [OF 1(2)]
    show ?case
    proof (cases p)
      case Slave
      with 1(1) have "SetIRQ n Master 2 (GetIRQ s Slave \<noteq> None) (note_output Slave s) = Inr s'"
        by (simp add: UpdateIRQ_Slave)
      then show ?thesis by (rule Suc.IH(2)) (rule out)
    next
      case Master
      show ?thesis
      proof (cases "GetIRQ s Master")
        case None
        with 1(1) Master show ?thesis using out by (auto simp: UpdateIRQ_Master)
      next
        case (Some j)
        with 1(1) Master obtain s3 v where
          "GetCurrentIRQ n (note_output Master s) = Inr (s3, v)" and s': "chips s' = chips s3"
          by (auto simp: UpdateIRQ_Master bindr_Inr_iff)
        from this(1) show ?thesis unfolding s' by (rule Suc.IH(4)) (rule out)
      qed
    qed }
  { case (2 p s s' i a)
    then have "UpdateIRQ n p (upd_chip p (set_line i a) s) = Inr s'" by simp
    then show ?case by (rule Suc.IH(1)) (use 2(2) in \<open>simp add: J_line\<close>) }
  { case (3 p s s' i)
    then have "UpdateIRQ n p (upd_chip p (acknowledge i) s) = Inr s'" by simp
    then show ?case by (rule Suc.IH(1)) (use 3(2) in \<open>simp add: J_ack\<close>) }
  { case (4 s s' v)
    have J: "\<forall>q. J q (chips s q)" by (rule 4(2))
    from 4(1) J show ?case
      by (auto simp: bindr_Inr_iff split: option.splits if_splits dest: Suc.IH(3) [OF _ J]) }
qed

end

section \<open>Well-formed controllers\<close>

definition wf_chip :: "pic \<Rightarrow> chip \<Rightarrow> bool" where
  "wf_chip p c \<longleftrightarrow>
     m_PriorityAdd c < 8 \<and> m_Base c AND 7 = 0 \<and> m_InitState c \<le> 3
     \<and> m_ELCRMask c = (if p = Master then 0xF8 else 0xDE)
     \<and> m_ELCR c AND NOT (m_ELCRMask c) = 0"

definition wf_pic :: "i8259 \<Rightarrow> bool" where
  "wf_pic s \<longleftrightarrow> (\<forall>p. wf_chip p (chips s p))"

lemma and_7_less_8 [simp]: "(x AND 7 :: u8) < 8"
  using word_and_le1 [of x 7] by (simp add: word_less_nat_alt word_le_nat_alt)

lemma wf_chip_line [simp]: "wf_chip p (set_line i a c) = wf_chip p c"
  by (simp add: wf_chip_def)

lemma wf_chip_output [simp]: "wf_chip p (c\<lparr>m_InterruptOutput := b\<rparr>) = wf_chip p c"
  by (simp add: wf_chip_def)

lemma wf_chip_ack [simp]: "wf_chip p c \<Longrightarrow> wf_chip p (acknowledge i c)"
  by (auto simp: wf_chip_def acknowledge_def Let_def)

interpretation wf: chip_invariant wf_chip
  by unfold_locales simp_all

text \<open>The configuration that only the CPU changes.\<close>

definition config :: "chip \<Rightarrow> u8 \<times> u8 \<times> u8 \<times> u8 \<times> u8 \<times> u8 \<times> bool \<times> bool \<times> bool" where
  "config c = (m_IMR c, m_Base c, m_SpecialMask c, m_InitState c, m_ELCR c, m_ELCRMask c,
     m_AutoEOI c, m_RotateOnAutoEOI c, m_IsSpecialFullyNestedMode c)"

interpretation cfg: chip_invariant "\<lambda>p c. config c = f p" for f
  by unfold_locales (simp_all add: config_def)

section \<open>Delivery terminates\<close>

text \<open>
  The lines whose acknowledgement makes progress: requested, and not a
  level-triggered line in service. The cascade input is not counted: it is
  never acknowledged.
\<close>

definition live :: "pic \<Rightarrow> chip \<Rightarrow> nat set" where
  "live p c = {i. i < 8 \<and> \<not> (p = Master \<and> i = 2) \<and> bit (m_IRR c) i
     \<and> \<not> (bit (m_ELCR c) i \<and> bit (m_ISR c) i)}"

definition pend :: "i8259 \<Rightarrow> nat" where
  "pend s = card (live Master (chips s Master)) + card (live Slave (chips s Slave))"

definition stable_chip :: "pic \<Rightarrow> chip \<Rightarrow> bool" where
  "stable_chip p c \<longleftrightarrow> (m_AutoEOI c \<longrightarrow> m_ELCR c = 0)"

definition stable :: "i8259 \<Rightarrow> bool" where
  "stable s \<longleftrightarrow> (\<forall>p. stable_chip p (chips s p))"

interpretation stb: chip_invariant stable_chip
  by unfold_locales (simp_all add: stable_chip_def)

definition settled :: "i8259 \<Rightarrow> bool" where
  "settled s \<longleftrightarrow> GetIRQ s Master = None \<or> (GetIRQ s Master = Some 2 \<and> GetIRQ s Slave = None)"

lemma settled_cpuInts [simp]: "settled (s\<lparr>cpuInts := vs\<rparr>) = settled s"
  by (simp add: settled_def)

lemma finite_live [simp]: "finite (live p c)"
  by (simp add: live_def)

lemma card_live_le: "card (live p c) \<le> 8" "card (live Master c) \<le> 7"
proof -
  have "card (live p c) \<le> card {..<8::nat}" by (rule card_mono) (auto simp: live_def)
  then show "card (live p c) \<le> 8" by simp
  have "card (live Master c) \<le> card ({..<8::nat} - {2})" by (rule card_mono) (auto simp: live_def)
  then show "card (live Master c) \<le> 7" by simp
qed

lemma pend_le_15: "pend s \<le> 15"
  unfolding pend_def using card_live_le(1) [of Slave "chips s Slave"] card_live_le(2) [of "chips s Master"]
  by linarith

lemma pend_note_output [simp]: "pend (note_output p s) = pend s"
  by (simp add: pend_def note_output_def live_def)

lemma stable_note_output [simp]: "stable s \<Longrightarrow> stable (note_output p s)"
  unfolding stable_def by (rule stb.J_note_output)

lemma stable_upd [simp]:
  "stable s \<Longrightarrow> stable (upd_chip p (set_line i a) s)"
  "stable s \<Longrightarrow> stable (upd_chip p (acknowledge i) s)"
  by (auto simp: stable_def stable_chip_def)

lemma pend_cascade [simp]: "pend (upd_chip Master (set_line 2 a) s) = pend s"
proof -
  have "live Master (set_line 2 a c) = live Master c" for c
    by (auto simp: live_def bit_IRR_set_line)
  then show ?thesis by (simp add: pend_def)
qed

lemma live_acknowledge:
  assumes "stable_chip p c" and "i < 8"
  shows "live p (acknowledge i c) = live p c - {i}"
  using assms
  by (auto simp: live_def stable_chip_def bit_IRR_acknowledge bit_ISR_acknowledge)

lemma GetIRQ_live:
  assumes "GetIRQ s p = Some i" and "\<not> (p = Master \<and> i = 2)"
  shows "i \<in> live p (chips s p)"
  using assms GetIRQ_not_in_service [OF assms] unfolding GetIRQ_correct
  by (auto simp: live_def requested_def)

lemma pend_acknowledge:
  assumes "stable s" and "GetIRQ s p = Some i" and "\<not> (p = Master \<and> i = 2)"
  shows "pend (upd_chip p (acknowledge i) s) < pend s"
proof -
  have i: "i \<in> live p (chips s p)" using assms by (simp add: GetIRQ_live)
  then have "live p (acknowledge i (chips s p)) = live p (chips s p) - {i}"
    using assms(1) by (intro live_acknowledge) (auto simp: stable_def live_def)
  then have "card (live p (acknowledge i (chips s p))) < card (live p (chips s p))"
    using i by (simp add: card_Diff1_less del: card_Diff_insert)
  then show ?thesis by (cases p) (simp_all add: pend_def)
qed

lemma update_master_terminates:
  "stable s \<Longrightarrow> 5 * pend s + 2 \<le> n \<Longrightarrow> \<exists>s'. UpdateIRQ n Master s = Inr s' \<and> settled s'"
proof (induction "pend s" arbitrary: s n rule: less_induct)
  case less
  let ?t = "note_output Master s"
  have t: "stable ?t" "pend ?t = pend s" using less.prems by simp_all
  obtain m where n: "n = Suc (Suc m)" using less.prems(2) by (metis Suc_le_D add_2_eq_Suc' Suc_le_mono le_add2 le_trans)
  show ?case
  proof (cases "GetIRQ s Master")
    case None
    then show ?thesis by (simp add: n UpdateIRQ_Master settled_def)
  next
    case (Some i)
    show ?thesis
    proof (cases "i = 2 \<and> GetIRQ s Slave = None")
      case True
      with Some show ?thesis by (simp add: n UpdateIRQ_Master settled_def)
    next
      case False
      obtain k where m: "m = Suc k" and k: "5 * pend s \<le> k + 1"
        using less.prems(2) pend_acknowledge [of s Master i] pend_acknowledge [of s Slave]
          less.prems(1) Some False unfolding n by (cases m) auto
      show ?thesis
      proof (cases "i = 2")
        case False
        let ?u = "upd_chip Master (acknowledge i) ?t"
        have "\<exists>s'. UpdateIRQ k Master ?u = Inr s' \<and> settled s'"
          using pend_acknowledge [of ?t Master i] t Some False k by (intro less.hyps) simp_all
        then show ?thesis using Some False
          by (auto simp: n m UpdateIRQ_Master)
      next
        case True
        then obtain j where j: "GetIRQ s Slave = Some j" using False by auto
        let ?u = "upd_chip Slave (acknowledge j) ?t"
        let ?v = "upd_chip Master (set_line 2 (GetIRQ ?u Slave \<noteq> None)) (note_output Slave ?u)"
        have u: "pend ?u < pend s" "stable ?u" using pend_acknowledge [of ?t Slave j] t j by simp_all
        then obtain l where l: "k = Suc (Suc l)" "5 * pend s \<le> l + 3"
          using k by (cases k; cases "k - 1") auto
        have "\<exists>s'. UpdateIRQ l Master ?v = Inr s' \<and> settled s'"
          using u l(2) by (intro less.hyps) simp_all
        then show ?thesis using Some True j
          by (auto simp: n m l(1) UpdateIRQ_Master UpdateIRQ_Slave)
      qed
    qed
  qed
qed

lemma update_terminates:
  assumes "stable s" and "5 * pend s + 4 \<le> n"
  shows "\<exists>s'. UpdateIRQ n p s = Inr s' \<and> settled s'"
proof (cases p)
  case Master
  then show ?thesis using assms update_master_terminates [of s n] by simp
next
  case Slave
  obtain m where n: "n = Suc (Suc m)" using assms(2) by (cases n; cases "n - 1") auto
  show ?thesis
    using assms update_master_terminates
        [of "upd_chip Master (set_line 2 (GetIRQ s Slave \<noteq> None)) (note_output Slave s)" m]
    by (simp add: Slave n UpdateIRQ_Slave)
qed

lemma update_pic_frames:
  "stable s \<Longrightarrow> \<exists>s'. UpdateIRQ pic_frames p s = Inr s' \<and> settled s'"
  using pend_le_15 [of s] by (intro update_terminates) (simp_all add: pic_frames_def)

lemma set_as_update:
  "SetIRQ pic_frames p i a s = UpdateIRQ 99 p (upd_chip p (set_line i a) s)"
proof -
  have frames: "pic_frames = Suc 99" by (simp add: pic_frames_def)
  show ?thesis unfolding frames by (rule SetIRQ.simps(2))
qed

lemma ack_as_update:
  "AcknowledgeIRQ pic_frames p i s = UpdateIRQ 99 p (upd_chip p (acknowledge i) s)"
proof -
  have frames: "pic_frames = Suc 99" by (simp add: pic_frames_def)
  show ?thesis unfolding frames by (rule AcknowledgeIRQ.simps(2))
qed

lemma update_99: "stable s \<Longrightarrow> \<exists>s'. UpdateIRQ 99 p s = Inr s' \<and> settled s'"
  using pend_le_15 [of s] by (intro update_terminates) simp_all

section \<open>Acknowledging more than once\<close>

text \<open>A result does not depend on the frames that are left over.\<close>

lemma frames_mono:
  "UpdateIRQ n p s = Inr s' \<Longrightarrow> UpdateIRQ (Suc n) p s = Inr s'"
  "SetIRQ n p i a s = Inr s' \<Longrightarrow> SetIRQ (Suc n) p i a s = Inr s'"
  "AcknowledgeIRQ n p i s = Inr s' \<Longrightarrow> AcknowledgeIRQ (Suc n) p i s = Inr s'"
  "GetCurrentIRQ n s = Inr r \<Longrightarrow> GetCurrentIRQ (Suc n) s = Inr r"
proof (induction n arbitrary: p s s' i a r)
  case 0
  { case 1 then show ?case by simp }
  { case 2 then show ?case by simp }
  { case 3 then show ?case by simp }
  { case 4 then show ?case by simp }
next
  case (Suc n)
  { case (1 p s s')
    then show ?case
      by (cases p; cases "GetIRQ s Master")
        (auto simp: UpdateIRQ_Slave UpdateIRQ_Master bindr_Inr_iff simp del: SetIRQ.simps
           GetCurrentIRQ.simps intro: Suc.IH(2) dest: Suc.IH(4)) }
  { case (2 p s s' i a) then show ?case by (simp add: Suc.IH(1)) }
  { case (3 p s s' i) then show ?case by (simp add: Suc.IH(1)) }
  { case (4 s r)
    then show ?case
      by (auto simp: bindr_Inr_iff simp del: AcknowledgeIRQ.simps split: option.splits if_splits
        dest: Suc.IH(3)) }
qed

lemma frames_irrelevant: "UpdateIRQ n p s = Inr s' \<Longrightarrow> n \<le> m \<Longrightarrow> UpdateIRQ m p s = Inr s'"
  by (rotate_tac 1, induction m rule: dec_induct) (auto intro: frames_mono(1))

text \<open>
  A level-triggered line in automatic end-of-interrupt mode is requested again
  by its own acknowledgement, since neither \<open>m_ISR\<close> nor \<open>m_IRR\<close> changes.
\<close>

definition relentless :: "i8259 \<Rightarrow> bool" where
  "relentless s \<longleftrightarrow>
     (let c = chips s Master in
      m_AutoEOI c \<and> m_ISR c = 0 \<and> \<not> requested c 2
      \<and> (\<exists>i<8. requested c i \<and> bit (m_ELCR c) i))"

lemma relentless_note_output [simp]: "relentless (note_output p s) = relentless s"
  by (simp add: relentless_def note_output_def Let_def requested_def)

lemma relentless_acknowledge:
  assumes "relentless s" and "i < 8"
  shows "relentless (upd_chip Master (acknowledge i) s)"
proof -
  have "m_ISR (acknowledge i (chips s Master)) = 0"
    using assms by (simp add: relentless_def Let_def acknowledge_def)
  then show ?thesis using assms by (auto simp: relentless_def Let_def requested_def bit_IRR_acknowledge)
qed

lemma relentless_GetIRQ:
  assumes "relentless s"
  obtains i where "GetIRQ s Master = Some i" and "i < 8" and "i \<noteq> 2"
proof (cases "GetIRQ s Master")
  case None
  with assms show ?thesis unfolding GetIRQ_None by (auto simp: relentless_def Let_def blocking_def)
next
  case (Some i)
  with assms that show ?thesis by (metis GetIRQ_correct relentless_def)
qed

lemma relentless_diverges: "relentless s \<Longrightarrow> UpdateIRQ n Master s = Inl StackExhausted"
proof (induction n arbitrary: s rule: less_induct)
  case (less n)
  obtain i where i: "GetIRQ s Master = Some i" "i < 8" "i \<noteq> 2"
    using less.prems by (rule relentless_GetIRQ)
  show ?case
  proof (cases "n < 3")
    case True
    then consider "n = 0" | "n = Suc 0" | "n = Suc (Suc 0)" by linarith
    then show ?thesis using i by cases (simp_all add: UpdateIRQ_Master)
  next
    case False
    then obtain k where n: "n = Suc (Suc (Suc k))" by (metis Suc3_eq_add_3 add.commute le_Suc_ex not_less)
    have "UpdateIRQ k Master (upd_chip Master (acknowledge i) (note_output Master s)) = Inl StackExhausted"
      using less.prems i by (intro less.IH) (simp_all add: n relentless_acknowledge)
    then show ?thesis using i by (simp add: n UpdateIRQ_Master)
  qed
qed

section \<open>What the CPU receives\<close>

lemma rank_acknowledge:
  "\<not> m_AutoEOI c \<Longrightarrow> rank (acknowledge i c) = rank c"
  by (simp add: rank_def acknowledge_def Let_def fun_eq_iff)

text \<open>
  Once the chosen request is in service it blocks every other one, since it was
  the most urgent.
\<close>

lemma GetIRQ_after_acknowledge:
  assumes i: "GetIRQ s p = Some i" and "\<not> (p = Master \<and> i = 2)"
    and eoi: "\<not> m_AutoEOI (chips s p)"
  shows "GetIRQ (upd_chip p (acknowledge i) s) p = None"
proof -
  let ?c = "chips s p" and ?d = "acknowledge i (chips s p)"
  have i8: "i < 8" and req: "requested ?c i"
    and least: "\<And>j. j < 8 \<Longrightarrow> requested ?c j \<Longrightarrow> rank ?c i \<le> rank ?c j"
    using i unfolding GetIRQ_correct by auto
  have "blocking p ?d i"
    using assms(2) i8 req eoi by (auto simp: blocking_def bit_ISR_acknowledge requested_def)
  moreover have "requested ?c j" if "requested ?d j" for j
    using that i8 by (simp add: requested_def bit_IRR_acknowledge)
  ultimately show ?thesis
    using i8 least eoi unfolding GetIRQ_None by (auto simp: rank_acknowledge)
qed

lemma note_output_chips:
  "chips (note_output p s) = (chips s)(p := (chips s p)\<lparr>m_InterruptOutput := GetIRQ s p \<noteq> None\<rparr>)"
  "cpuInts (note_output p s) = cpuInts s"
  by (simp_all add: note_output_def)

lemma acknowledge_output:
  "acknowledge i (c\<lparr>m_InterruptOutput := b\<rparr>) = (acknowledge i c)\<lparr>m_InterruptOutput := b\<rparr>"
  by (simp add: acknowledge_def Let_def)

lemma update_master_delivers:
  assumes i: "GetIRQ s Master = Some i" "i \<noteq> 2" and eoi: "\<not> m_AutoEOI (chips s Master)"
    and n: "4 \<le> n"
  obtains s' where "UpdateIRQ n Master s = Inr s'"
    and "cpuInts s' = cpuInts s @ [m_Base (chips s Master) + of_nat i]"
    and "chips s' = (chips s)(Master := (acknowledge i (chips s Master))\<lparr>m_InterruptOutput := False\<rparr>)"
proof -
  let ?u = "upd_chip Master (acknowledge i) (note_output Master s)"
  have n: "n = Suc (Suc (Suc (Suc (n - 4))))" using n by arith
  have None: "GetIRQ ?u Master = None"
    using i eoi by (intro GetIRQ_after_acknowledge) (simp_all add: note_output_chips)
  then have run: "UpdateIRQ (Suc (n - 4)) Master ?u = Inr (note_output Master ?u)"
    by (simp only: UpdateIRQ_Master) simp
  have "UpdateIRQ n Master s =
    Inr ((note_output Master ?u)\<lparr>cpuInts := cpuInts s @ [m_Base (chips s Master) + of_nat i]\<rparr>)"
    by (subst n) (simp add: UpdateIRQ_Master [of "Suc (Suc (Suc (n - 4)))"] i run note_output_chips)
  then show thesis
    by (rule that) (simp_all add: None note_output_chips acknowledge_output)
qed

lemma set_line_output:
  "set_line i a (c\<lparr>m_InterruptOutput := b\<rparr>) = (set_line i a c)\<lparr>m_InterruptOutput := b\<rparr>"
  by (simp add: set_line_def Let_def)

lemma and_not_of_or: "(x OR m) AND NOT m = x AND NOT (m::u8)"
  by (rule bit_word_eqI) (auto simp: bit_simps)

lemma set_line_pulse: "set_line i False (set_line i True c) = set_line i False c"
  unfolding set_line_def Let_def by (simp add: and_not_of_or del: push_bit_of_1)

lemma update_slave_delivers:
  assumes j: "GetIRQ s Slave = Some j" and eoi: "\<not> m_AutoEOI (chips s Slave)"
    and up: "GetIRQ (upd_chip Master (set_line 2 True) s) Master = Some 2"
    and down: "GetIRQ (upd_chip Master (set_line 2 False) s) Master = None"
    and n: "8 \<le> n"
  obtains s' where "UpdateIRQ n Slave s = Inr s'"
    and "cpuInts s' = cpuInts s @ [m_Base (chips s Slave) + of_nat j]"
    and "chips s' Slave = (acknowledge j (chips s Slave))\<lparr>m_InterruptOutput := False\<rparr>"
    and "chips s' Master = (set_line 2 False (chips s Master))\<lparr>m_InterruptOutput := False\<rparr>"
proof -
  let ?u1 = "upd_chip Master (set_line 2 True) (note_output Slave s)"
  let ?u2 = "upd_chip Slave (acknowledge j) (note_output Master ?u1)"
  let ?u3 = "upd_chip Master (set_line 2 False) (note_output Slave ?u2)"
  obtain k where n: "n = Suc (Suc (Suc (Suc (Suc (Suc (Suc (Suc k)))))))"
  proof
    show "n = Suc (Suc (Suc (Suc (Suc (Suc (Suc (Suc (n - 8)))))))) " using n by arith
  qed
  have g1: "GetIRQ ?u1 Master = Some 2"
    using up by (subst GetIRQ_cong [of _ _ "upd_chip Master (set_line 2 True) s"])
      (simp_all add: note_output_chips)
  have j1: "GetIRQ ?u1 Slave = Some j"
    using j by (subst GetIRQ_cong [of _ _ s]) (simp_all add: note_output_chips)
  have g2: "GetIRQ ?u2 Slave = None"
    using j1 eoi by (intro GetIRQ_after_acknowledge) (simp_all add: note_output_chips)
  have g3: "GetIRQ ?u3 Master = None"
    using down by (subst GetIRQ_cong [of _ _ "upd_chip Master (set_line 2 False) s"])
      (simp_all add: note_output_chips set_line_output set_line_pulse)
  have "UpdateIRQ (Suc (Suc (Suc k))) Slave ?u2 = Inr (note_output Master ?u3)"
    using g2 g3 by (simp add: UpdateIRQ_Slave UpdateIRQ_Master)
  then have run: "UpdateIRQ n Slave s =
    Inr ((note_output Master ?u3)\<lparr>cpuInts := cpuInts s @ [m_Base (chips s Slave) + of_nat j]\<rparr>)"
    using g1 j1 j
    by (simp add: n UpdateIRQ_Slave [of "Suc (Suc (Suc (Suc (Suc (Suc (Suc k))))))"]
        UpdateIRQ_Master [of "Suc (Suc (Suc (Suc (Suc k))))"] note_output_chips)
  then show thesis
    by (rule that) (simp_all add: g2 g3 note_output_chips acknowledge_output set_line_output set_line_pulse)
qed

end
