(* ===== verification/Pic_Props.thy ===== *)
theory Pic_Props
  imports Pic_Laws
begin

text \<open>
  The interrupt controllers as their callers see them: interrupt lines that
  are raised and lowered (\<open>HandleIRQ\<close>) and the six I/O ports. Every access keeps
  the controllers well formed, every access returns, and a request that is
  let through reaches the CPU as the right vector.
\<close>

section \<open>Invariants of the ports\<close>

lemma wf_upd_chip [intro!]:
  "wf_pic s \<Longrightarrow> (\<And>c. wf_chip p c \<Longrightarrow> wf_chip p (f c)) \<Longrightarrow> wf_pic (upd_chip p f s)"
  by (simp add: wf_pic_def)

lemma wf_update: "UpdateIRQ n p s = Inr s' \<Longrightarrow> wf_pic s \<Longrightarrow> wf_pic s'"
  unfolding wf_pic_def by (rule wf.machinery(1))

lemma wf_set: "SetIRQ n p i a s = Inr s' \<Longrightarrow> wf_pic s \<Longrightarrow> wf_pic s'"
  unfolding wf_pic_def by (rule wf.machinery(2))

lemma wf_ack: "AcknowledgeIRQ n p i s = Inr s' \<Longrightarrow> wf_pic s \<Longrightarrow> wf_pic s'"
  unfolding wf_pic_def by (rule wf.machinery(3))

lemma ucast_and_7_less: "(ucast (v AND 7 :: u32) :: u8) < 8"
proof -
  have "(ucast (v AND 7 :: u32) :: u8) = ucast v AND 7" by (simp add: word_bits bit_simps)
  then show ?thesis by simp
qed

lemma ucast_and_F8: "(ucast (v AND 0xF8 :: u32) :: u8) AND 7 = 0"
  by (simp add: word_bits bit_simps)

lemma and_and_not: "(x AND m) AND NOT m = (0::u8)"
  by (rule bit_word_eqI) (auto simp: bit_simps)

lemmas wf_chip_updates =
  wf_chip_def clear_isr_def reset_chip_def write_elcr_def and_and_not ucast_and_F8 ucast_and_7_less

lemma wf_ResetPic: "ResetPic p s = Inr s' \<Longrightarrow> wf_pic s \<Longrightarrow> wf_pic s'"
  unfolding ResetPic_def by (erule wf_update) (auto simp: wf_chip_updates)

lemma wf_Poll:
  assumes "Poll p s = Inr (s', v)" and "wf_pic s"
  shows "wf_pic s'"
proof -
  have "wf_pic (upd_chip p (\<lambda>c. c\<lparr>m_Poll := False\<rparr>) s)" using assms(2) by (auto simp: wf_chip_def)
  then show ?thesis
    using assms(1) by (auto simp: Poll_def Let_def bindr_Inr_iff split: option.splits dest: wf_ack)
qed

lemma wf_CommandWrite:
  assumes "CommandWrite p v s = Inr s'" and wf: "wf_pic s"
  shows "wf_pic s'"
  using assms unfolding CommandWrite_def
  by (auto simp: Let_def bindr_Inr_iff wf_chip_updates split: if_splits
      elim!: wf_update dest!: wf_ResetPic [OF _ wf])

lemma wf_DataWrite:
  assumes "DataWrite p v s = Inr s'" and wf: "wf_pic s"
  shows "wf_pic s'"
  using assms unfolding DataWrite_def
  by (auto simp: Let_def wf_chip_updates split: if_splits
      elim!: wf_update)

section \<open>Every access returns\<close>

lemma stable_upd_chip [intro!]:
  "stable s \<Longrightarrow> (\<And>c. stable_chip p c \<Longrightarrow> stable_chip p (f c)) \<Longrightarrow> stable (upd_chip p f s)"
  by (simp add: stable_def)

lemma update_returns [intro!]: "stable s \<Longrightarrow> \<exists>s'. UpdateIRQ pic_frames p s = Inr s'"
  using update_pic_frames by blast

lemma set_returns: "stable s \<Longrightarrow> \<exists>s'. SetIRQ pic_frames p i a s = Inr s' \<and> settled s'"
  unfolding set_as_update by (rule update_99) simp

lemma ack_returns: "stable s \<Longrightarrow> \<exists>s'. AcknowledgeIRQ pic_frames p i s = Inr s'"
  unfolding ack_as_update using update_99 [of "upd_chip p (acknowledge i) s" p] by auto

lemmas stable_chip_updates = stable_chip_def clear_isr_def reset_chip_def

lemma Poll_returns:
  assumes "stable s" shows "\<exists>s' v. Poll p s = Inr (s', v)"
proof -
  let ?t = "upd_chip p (\<lambda>c. c\<lparr>m_Poll := False\<rparr>) s"
  have t: "stable ?t" using assms by (auto simp: stable_chip_updates)
  show ?thesis
    using ack_returns [OF t] by (cases "GetIRQ ?t p") (auto simp: Poll_def Let_def bindr_Inr_iff)
qed

lemma ResetPic_returns: "stable s \<Longrightarrow> \<exists>s'. ResetPic p s = Inr s'"
  unfolding ResetPic_def by (auto simp: stable_chip_updates)

lemma CommandWrite_returns: "stable s \<Longrightarrow> \<exists>s'. CommandWrite p v s = Inr s'"
  using ResetPic_returns [of s p] unfolding CommandWrite_def
  by (auto simp: Let_def bindr_Inr_iff stable_chip_updates)

lemma DataWrite_returns: "stable s \<Longrightarrow> \<exists>s'. DataWrite p v s = Inr s'"
  unfolding DataWrite_def by (auto simp: Let_def stable_chip_updates)

lemma CommandRead_returns: "stable s \<Longrightarrow> \<exists>s' v. CommandRead p s = Inr (s', v)"
  using Poll_returns [of s p] unfolding CommandRead_def by (auto simp: bindr_Inr_iff)

lemma DataRead_returns: "stable s \<Longrightarrow> \<exists>s' v. DataRead p s = Inr (s', v)"
  using Poll_returns [of s p] unfolding DataRead_def by (auto simp: bindr_Inr_iff)

section \<open>Properties\<close>

text \<open>C6: \<open>GetIRQ\<close> serves a request exactly when it is unmasked, no other unmasked
  request is more urgent, and every request in service that still blocks is strictly
  less urgent; urgency is the rotation of the line numbers by \<open>m_PriorityAdd\<close>.\<close>

theorem GetIRQ_serves_most_urgent:
  "GetIRQ s p = Some i \<longleftrightarrow>
     i < 8 \<and> requested (chips s p) i
     \<and> (\<forall>j<8. requested (chips s p) j \<longrightarrow> rank (chips s p) i \<le> rank (chips s p) j)
     \<and> (\<forall>j<8. blocking p (chips s p) j \<longrightarrow> rank (chips s p) i < rank (chips s p) j)"
  by (rule GetIRQ_correct)

definition idle_chip :: chip where
  "idle_chip = \<lparr>m_PreviousIRR = 0, m_IRR = 0, m_IMR = 0, m_ISR = 0, m_Base = 0,
     m_ReadRegisterSelect = 0, m_SpecialMask = 0, m_InitState = 0, m_ELCR = 0, m_ELCRMask = 0xDE,
     m_PriorityAdd = 0, m_Poll = False, m_RotateOnAutoEOI = False, m_Is4ByteInit = False,
     m_InterruptOutput = False, m_AutoEOI = False, m_IsSpecialFullyNestedMode = False\<rparr>"

definition booted :: i8259 where
  "booted = \<lparr>chips = (\<lambda>p. case p of
       Master \<Rightarrow> idle_chip\<lparr>m_ELCRMask := 0xF8, m_Base := 0x30\<rparr>
     | Slave \<Rightarrow> idle_chip\<lparr>m_Base := 0x38\<rparr>), cpuInts = []\<rparr>"

lemma booted_chips:
  "chips booted Master = idle_chip\<lparr>m_ELCRMask := 0xF8, m_Base := 0x30\<rparr>"
  "chips booted Slave = idle_chip\<lparr>m_Base := 0x38\<rparr>" "cpuInts booted = []"
  "m_IRR idle_chip = 0" "m_IMR idle_chip = 0" "m_ISR idle_chip = 0" "m_ELCR idle_chip = 0"
  "m_PreviousIRR idle_chip = 0" "\<not> m_AutoEOI idle_chip" "m_PriorityAdd idle_chip = 0"
  "m_SpecialMask idle_chip = 0" "\<not> m_IsSpecialFullyNestedMode idle_chip"
  by (simp_all add: booted_def idle_chip_def)

lemma wf_booted [simp]: "wf_pic booted" "stable booted"
  by (auto simp: booted_def idle_chip_def wf_pic_def wf_chip_def stable_def stable_chip_def
      split: pic.splits)

theorem GetIRQ_serves_most_urgent_witness:
  "GetIRQ (upd_chip Master (\<lambda>c. c\<lparr>m_IRR := 0x18\<rparr>) booted) Master = Some 3"
  unfolding GetIRQ_serves_most_urgent
  by (auto simp: booted_def idle_chip_def requested_def blocking_def rank_def less_8_cases)

lemma accesses_return:
  assumes "wf_pic s" and "stable s"
  shows "(\<exists>s' b. i8259_IOWrite port value sz s = Inr (s', b) \<and> wf_pic s')
    \<and> (\<exists>s' v b. i8259_IORead port sz s value = Inr (s', v, b) \<and> wf_pic s')
    \<and> (\<exists>s'. HandleIRQ n level s = Inr s' \<and> wf_pic s')"
proof (intro conjI)
  have "\<exists>s'. CommandWrite p value s = Inr s' \<and> wf_pic s'"
    "\<exists>s'. DataWrite p value s = Inr s' \<and> wf_pic s'" for p
    using CommandWrite_returns DataWrite_returns wf_CommandWrite wf_DataWrite assms by metis+
  moreover have "wf_pic (upd_chip p (write_elcr value) s)" for p
    using assms(1) by (auto simp: wf_chip_updates)
  ultimately show "\<exists>s' b. i8259_IOWrite port value sz s = Inr (s', b) \<and> wf_pic s'"
    unfolding i8259_IOWrite_def using assms(1) by (simp add: bindr_Inr_iff) metis
next
  have "\<exists>s' v. CommandRead p s = Inr (s', v) \<and> wf_pic s'"
    "\<exists>s' v. DataRead p s = Inr (s', v) \<and> wf_pic s'" for p
    using Poll_returns [OF assms(2), of p] wf_Poll [OF _ assms(1), of p] assms(1)
    by (auto simp: CommandRead_def DataRead_def bindr_Inr_iff)
  then show "\<exists>s' v b. i8259_IORead port sz s value = Inr (s', v, b) \<and> wf_pic s'"
    unfolding i8259_IORead_def using assms(1) by (simp add: bindr_Inr_iff) metis
next
  show "\<exists>s'. HandleIRQ n level s = Inr s' \<and> wf_pic s'"
    unfolding HandleIRQ_def RaiseIRQ_def LowerIRQ_def
    using set_returns [OF assms(2)] wf_set [OF _ assms(1)] by (simp del: SetIRQ.simps) metis
qed

text \<open>C23: from a well-formed state without a level-triggered line in automatic
  end-of-interrupt mode, every port access and every change of an interrupt line
  returns and leaves both controllers well formed.\<close>

theorem i8259_accesses_return:
  assumes "wf_pic s" and "stable s"
  shows "(\<exists>s' b. i8259_IOWrite port value sz s = Inr (s', b) \<and> wf_pic s')
    \<and> (\<exists>s' v b. i8259_IORead port sz s value = Inr (s', v, b) \<and> wf_pic s')
    \<and> (\<exists>s'. HandleIRQ n level s = Inr s' \<and> wf_pic s')"
  using assms by (rule accesses_return)

theorem i8259_accesses_return_witness:
  "(\<exists>s' b. i8259_IOWrite 0x20 0x11 1 booted = Inr (s', b) \<and> wf_pic s')
   \<and> (\<exists>s'. HandleIRQ 14 True booted = Inr s' \<and> wf_pic s')"
  using i8259_accesses_return [OF wf_booted] by blast

lemma line_settles:
  assumes "stable s"
  shows "\<exists>s'. HandleIRQ n level s = Inr s' \<and> settled s' \<and> (\<forall>p. config (chips s' p) = config (chips s p))"
proof -
  have "HandleIRQ n level s = SetIRQ pic_frames (if unat n \<le> 7 then Master else Slave)
    (if unat n \<le> 7 then unat n else unat n - 8) level s"
    by (simp add: HandleIRQ_def RaiseIRQ_def LowerIRQ_def)
  then obtain p i where run: "HandleIRQ n level s = SetIRQ pic_frames p i level s" ..
  obtain s' where s': "SetIRQ pic_frames p i level s = Inr s'" "settled s'"
    using set_returns [OF assms] by metis
  from s' cfg.machinery(2) [of pic_frames p i level s s' "\<lambda>p. config (chips s p)"] show ?thesis
    by (simp add: run del: SetIRQ.simps)
qed



text \<open>with automatic end-of-interrupt, a level-triggered line that stays
  requested makes the delivery recurse without end: no number of frames is enough.\<close>

theorem auto_eoi_level_diverges:
  assumes "m_AutoEOI (chips s Master)" and "m_ISR (chips s Master) = 0"
    and "\<not> requested (chips s Master) 2"
    and "requested (chips s Master) i" and "bit (m_ELCR (chips s Master)) i"
  shows "UpdateIRQ n Master s = Inl StackExhausted"
  using assms by (intro relentless_diverges) (auto simp: relentless_def Let_def dest: bit_u8_less)

theorem auto_eoi_level_diverges_witness:
  "UpdateIRQ 1000 Master
     (upd_chip Master (\<lambda>c. c\<lparr>m_AutoEOI := True, m_ELCR := 8, m_IRR := 8\<rparr>) booted) = Inl StackExhausted"
  by (rule auto_eoi_level_diverges [of _ 3])
    (auto simp: requested_def booted_def idle_chip_def)

lemma m_ISR_acknowledge:
  "\<not> m_AutoEOI c \<Longrightarrow> m_ISR (acknowledge i c) = m_ISR c OR push_bit i 1"
  by (simp add: acknowledge_def Let_def)

lemma master_delivers:
  assumes i: "i < 8" "i \<noteq> 2" and unmasked: "\<not> bit (m_IMR (chips s Master)) i"
    and rises: "bit (m_ELCR (chips s Master)) i \<or> \<not> bit (m_PreviousIRR (chips s Master)) i"
    and urgent: "\<And>j. j < 8 \<Longrightarrow> j \<noteq> i \<Longrightarrow>
      requested (chips s Master) j \<or> blocking Master (chips s Master) j \<Longrightarrow>
      rank (chips s Master) i < rank (chips s Master) j"
    and "\<not> bit (m_ISR (chips s Master)) i" and eoi: "\<not> m_AutoEOI (chips s Master)"
  shows "\<exists>s'. RaiseIRQ i s = Inr s'
    \<and> cpuInts s' = cpuInts s @ [m_Base (chips s Master) + of_nat i]
    \<and> m_ISR (chips s' Master) = m_ISR (chips s Master) OR push_bit i 1
    \<and> (bit (m_IRR (chips s' Master)) i \<longleftrightarrow> bit (m_ELCR (chips s Master)) i)
    \<and> chips s' Slave = chips s Slave"
proof -
  let ?t = "upd_chip Master (set_line i True) s"
  have "requested (set_line i True (chips s Master)) j \<longleftrightarrow> j = i \<or> requested (chips s Master) j" for j
    using i unmasked rises by (auto simp: requested_def bit_IRR_set_line)
  moreover have "blocking Master (set_line i True c) = blocking Master c" "rank (set_line i True c) = rank c" for c
    by (simp_all add: blocking_def rank_def fun_eq_iff)
  moreover have "\<not> blocking Master (chips s Master) i" using assms(6) by (simp add: blocking_def)
  ultimately have "GetIRQ ?t Master = Some i"
    using i urgent unfolding GetIRQ_correct by (simp add: less_imp_le) (metis order_refl less_imp_le)
  moreover have "\<not> m_AutoEOI (chips ?t Master)" using eoi by simp
  ultimately obtain s' where "UpdateIRQ 99 Master ?t = Inr s'"
    "cpuInts s' = cpuInts ?t @ [m_Base (chips ?t Master) + of_nat i]"
    "chips s' = (chips ?t)(Master := (acknowledge i (chips ?t Master))\<lparr>m_InterruptOutput := False\<rparr>)"
    using update_master_delivers [of ?t i 99] i(2) by auto
  then show ?thesis
    using i eoi rises by (auto simp add: RaiseIRQ_def set_as_update bit_IRR_acknowledge bit_IRR_set_line
        m_ISR_acknowledge del: push_bit_of_1)
qed

text \<open>a line of the master that rises while it is unmasked and more urgent than
  everything requested or in service sends exactly its own vector, is in service
  afterwards, and stays requested only if it is level triggered.\<close>

theorem RaiseIRQ_master_delivers:
  assumes i: "i < 8" "i \<noteq> 2" and unmasked: "\<not> bit (m_IMR (chips s Master)) i"
    and rises: "bit (m_ELCR (chips s Master)) i \<or> \<not> bit (m_PreviousIRR (chips s Master)) i"
    and urgent: "\<And>j. j < 8 \<Longrightarrow> j \<noteq> i \<Longrightarrow>
      requested (chips s Master) j \<or> blocking Master (chips s Master) j \<Longrightarrow>
      rank (chips s Master) i < rank (chips s Master) j"
    and "\<not> bit (m_ISR (chips s Master)) i" and eoi: "\<not> m_AutoEOI (chips s Master)"
  shows "\<exists>s'. RaiseIRQ i s = Inr s'
    \<and> cpuInts s' = cpuInts s @ [m_Base (chips s Master) + of_nat i]
    \<and> m_ISR (chips s' Master) = m_ISR (chips s Master) OR push_bit i 1
    \<and> (bit (m_IRR (chips s' Master)) i \<longleftrightarrow> bit (m_ELCR (chips s Master)) i)
    \<and> chips s' Slave = chips s Slave"
  using assms by (rule master_delivers)

theorem RaiseIRQ_master_delivers_witness:
  "\<exists>s'. RaiseIRQ 1 booted = Inr s' \<and> cpuInts s' = [0x31]"
  using RaiseIRQ_master_delivers [of 1 booted]
  by (auto simp: booted_chips requested_def blocking_def)

lemma slave_delivers:
  assumes i: "i < 8" and unmasked: "\<not> bit (m_IMR (chips s Slave)) i" "\<not> bit (m_IMR (chips s Master)) 2"
    and rises: "bit (m_ELCR (chips s Slave)) i \<or> \<not> bit (m_PreviousIRR (chips s Slave)) i"
    and cascade: "\<not> bit (m_PreviousIRR (chips s Master)) 2"
    and urgent: "\<And>j. j < 8 \<Longrightarrow> j \<noteq> i \<Longrightarrow>
      requested (chips s Slave) j \<or> blocking Slave (chips s Slave) j \<Longrightarrow>
      rank (chips s Slave) i < rank (chips s Slave) j"
    and "\<not> bit (m_ISR (chips s Slave)) i" and eoi: "\<not> m_AutoEOI (chips s Slave)"
    and master: "\<And>j. j < 8 \<Longrightarrow> blocking Master (chips s Master) j \<Longrightarrow>
      rank (chips s Master) 2 < rank (chips s Master) j"
    and quiet: "\<And>j. j < 8 \<Longrightarrow> j \<noteq> 2 \<Longrightarrow> \<not> requested (chips s Master) j"
  shows "\<exists>s'. RaiseIRQ (8 + i) s = Inr s'
    \<and> cpuInts s' = cpuInts s @ [m_Base (chips s Slave) + of_nat i]
    \<and> m_ISR (chips s' Slave) = m_ISR (chips s Slave) OR push_bit i 1
    \<and> m_ISR (chips s' Master) = m_ISR (chips s Master)
    \<and> \<not> bit (m_IRR (chips s' Master)) 2"
proof -
  let ?t = "upd_chip Slave (set_line i True) s"
  have line: "blocking p (set_line k a c) = blocking p c" "rank (set_line k a c) = rank c" for p k a c
    by (simp_all add: blocking_def rank_def fun_eq_iff)
  have req: "requested (set_line i True (chips s Slave)) j \<longleftrightarrow> j = i \<or> requested (chips s Slave) j" for j
    using i unmasked rises by (auto simp: requested_def bit_IRR_set_line)
  have "\<not> blocking Slave (chips s Slave) i" using assms(7) by (simp add: blocking_def)
  then have slave: "GetIRQ ?t Slave = Some i"
    using i urgent req unfolding GetIRQ_correct
    by (simp add: line less_imp_le) (metis order_refl less_imp_le)
  have "requested (set_line 2 True (chips s Master)) j \<longleftrightarrow> j = 2" if "j < 8" for j
    using unmasked cascade quiet [OF that] by (auto simp: requested_def bit_IRR_set_line)
  then have up: "GetIRQ (upd_chip Master (set_line 2 True) ?t) Master = Some 2"
    using master unfolding GetIRQ_correct by (simp add: line)
  have "\<not> requested (set_line 2 False (chips s Master)) j" if "j < 8" for j
    using quiet [OF that] by (auto simp: requested_def bit_IRR_set_line)
  then have down: "GetIRQ (upd_chip Master (set_line 2 False) ?t) Master = None"
    unfolding GetIRQ_None by simp
  obtain s' where "UpdateIRQ 99 Slave ?t = Inr s'"
    "cpuInts s' = cpuInts ?t @ [m_Base (chips ?t Slave) + of_nat i]"
    "chips s' Slave = (acknowledge i (chips ?t Slave))\<lparr>m_InterruptOutput := False\<rparr>"
    "chips s' Master = (set_line 2 False (chips ?t Master))\<lparr>m_InterruptOutput := False\<rparr>"
    using update_slave_delivers [OF slave _ up down, of 99] eoi by auto
  then show ?thesis
    using eoi by (simp add: RaiseIRQ_def set_as_update bit_IRR_set_line
        m_ISR_acknowledge del: push_bit_of_1)
qed

text \<open>C9: a line of the slave that rises while it is unmasked and the most urgent, with no
  other request on the master, sends exactly the slave's own vector; the cascade
  input of the master is released and is never marked in service.\<close>

theorem RaiseIRQ_slave_delivers:
  assumes i: "i < 8" and unmasked: "\<not> bit (m_IMR (chips s Slave)) i" "\<not> bit (m_IMR (chips s Master)) 2"
    and rises: "bit (m_ELCR (chips s Slave)) i \<or> \<not> bit (m_PreviousIRR (chips s Slave)) i"
    and cascade: "\<not> bit (m_PreviousIRR (chips s Master)) 2"
    and urgent: "\<And>j. j < 8 \<Longrightarrow> j \<noteq> i \<Longrightarrow>
      requested (chips s Slave) j \<or> blocking Slave (chips s Slave) j \<Longrightarrow>
      rank (chips s Slave) i < rank (chips s Slave) j"
    and "\<not> bit (m_ISR (chips s Slave)) i" and eoi: "\<not> m_AutoEOI (chips s Slave)"
    and master: "\<And>j. j < 8 \<Longrightarrow> blocking Master (chips s Master) j \<Longrightarrow>
      rank (chips s Master) 2 < rank (chips s Master) j"
    and quiet: "\<And>j. j < 8 \<Longrightarrow> j \<noteq> 2 \<Longrightarrow> \<not> requested (chips s Master) j"
  shows "\<exists>s'. RaiseIRQ (8 + i) s = Inr s'
    \<and> cpuInts s' = cpuInts s @ [m_Base (chips s Slave) + of_nat i]
    \<and> m_ISR (chips s' Slave) = m_ISR (chips s Slave) OR push_bit i 1
    \<and> m_ISR (chips s' Master) = m_ISR (chips s Master)
    \<and> \<not> bit (m_IRR (chips s' Master)) 2"
  using assms by (rule slave_delivers)

theorem RaiseIRQ_slave_delivers_witness:
  "\<exists>s'. RaiseIRQ (8 + 6) booted = Inr s' \<and> cpuInts s' = [0x3E]"
  using RaiseIRQ_slave_delivers [of 6 booted]
  by (auto simp: booted_chips requested_def blocking_def)

text \<open>a non-specific end of interrupt takes exactly the most urgent line in
  service out of service, and then lets the next request through.\<close>

theorem nonspecific_EOI:
  assumes "bit (m_ISR (chips s p)) k"
  shows "\<exists>i. bit (m_ISR (chips s p)) i
    \<and> (\<forall>j<8. bit (m_ISR (chips s p)) j \<longrightarrow> rank (chips s p) i \<le> rank (chips s p) j)
    \<and> CommandWrite p 0x20 s = UpdateIRQ pic_frames p (upd_chip p (clear_isr i) s)"
proof -
  let ?r = "GetPriority (chips s p) (m_ISR (chips s p))"
  let ?i = "(?r + unat (m_PriorityAdd (chips s p))) mod 8"
  have r: "?r < 8" using assms by (auto simp: GetPriority_less_8)
  then have "rank (chips s p) ?i = ?r" by (rule rank_inverse)
  then show ?thesis
    using r GetPriority_hit [OF r] GetPriority_least [of "m_ISR (chips s p)" _ "chips s p"]
    by (intro exI [of _ ?i]) (simp add: CommandWrite_def Let_def)
qed

theorem nonspecific_EOI_witness:
  "\<exists>i. CommandWrite Master 0x20 (upd_chip Master (\<lambda>c. c\<lparr>m_ISR := 0x12\<rparr>) booted)
     = UpdateIRQ pic_frames Master (upd_chip Master (clear_isr i)
         (upd_chip Master (\<lambda>c. c\<lparr>m_ISR := 0x12\<rparr>) booted))"
  using nonspecific_EOI [of "upd_chip Master (\<lambda>c. c\<lparr>m_ISR := 0x12\<rparr>) booted" Master 1] by auto

lemma ResetPic_Master: "ResetPic Master s = Inr (upd_chip Master reset_chip s)"
proof -
  let ?t = "upd_chip Master reset_chip s"
  have frames: "pic_frames = Suc 99" by (simp add: pic_frames_def)
  have "GetIRQ ?t Master = None" unfolding GetIRQ_None by (simp add: requested_def reset_chip_def)
  then have "ResetPic Master s = Inr (note_output Master ?t)"
    unfolding ResetPic_def frames by (simp only: UpdateIRQ_Master) simp
  then show ?thesis using \<open>GetIRQ ?t Master = None\<close>
    by (simp add: note_output_def) (simp add: upd_chip_def reset_chip_def)
qed

text \<open>the four initialisation words put the master into the state they describe, whatever
  state it was in: the vector base of the second word, no request, mask or service
  bit, and the modes of the fourth word; the slave and the CPU see nothing.\<close>

theorem master_initialisation:
  "\<exists>s'. bindr (i8259_IOWrite 0x20 0x11 sz s) (\<lambda>(s, b).
       bindr (i8259_IOWrite 0x21 icw2 sz s) (\<lambda>(s, b).
       bindr (i8259_IOWrite 0x21 icw3 sz s) (\<lambda>(s, b).
       i8259_IOWrite 0x21 icw4 sz s))) = Inr (s', True)
     \<and> m_Base (chips s' Master) = ucast icw2 AND 0xF8 \<and> m_InitState (chips s' Master) = 0
     \<and> m_IRR (chips s' Master) = 0 \<and> m_IMR (chips s' Master) = 0 \<and> m_ISR (chips s' Master) = 0
     \<and> m_AutoEOI (chips s' Master) = bit icw4 1
     \<and> m_IsSpecialFullyNestedMode (chips s' Master) = bit icw4 4
     \<and> chips s' Slave = chips s Slave \<and> cpuInts s' = cpuInts s"
proof -
  have base: "(ucast (v AND 0xF8 :: u32) :: u8) = ucast v AND 0xF8" for v
    by (simp add: word_bits bit_simps)
  have mode: "drop_bit n v AND 1 = 0 \<longleftrightarrow> \<not> bit (v::u32) n" for n v
    using and_exp_eq_0_iff_not_bit [of "drop_bit n v" 0] by (simp add: bit_drop_bit_eq)
  show ?thesis
    by (simp add: i8259_IOWrite_def CommandWrite_def ResetPic_Master DataWrite_def base mode)
      (simp add: reset_chip_def)
qed

text \<open>a read of the command port returns the in-service register, whatever register
  was selected, unless a poll is pending.\<close>

theorem CommandRead_ignores_selection:
  assumes "\<not> m_Poll (chips s p)"
  shows "CommandRead p (upd_chip p (\<lambda>c. c\<lparr>m_ReadRegisterSelect := sel\<rparr>) s) =
     Inr (upd_chip p (\<lambda>c. c\<lparr>m_ReadRegisterSelect := sel\<rparr>) s, ucast (m_ISR (chips s p)))"
  using assms by (simp add: CommandRead_def)

theorem CommandRead_ignores_selection_witness:
  "CommandRead Master (upd_chip Master (\<lambda>c. c\<lparr>m_ReadRegisterSelect := 0\<rparr>)
       (upd_chip Master (\<lambda>c. c\<lparr>m_IRR := 0x80, m_ISR := 1\<rparr>) booted)) =
     Inr (upd_chip Master (\<lambda>c. c\<lparr>m_ReadRegisterSelect := 0\<rparr>)
       (upd_chip Master (\<lambda>c. c\<lparr>m_IRR := 0x80, m_ISR := 1\<rparr>) booted), 1)"
  by (subst CommandRead_ignores_selection) (simp_all add: booted_chips, simp add: idle_chip_def)

text \<open>an edge-triggered line that is raised again without having been lowered
  makes no new request: with nothing to deliver, the CPU sees no further vector.\<close>

theorem edge_line_held:
  assumes "i < 8" and "\<not> bit (m_ELCR (chips s Master)) i" and "bit (m_PreviousIRR (chips s Master)) i"
    and "GetIRQ s Master = None"
  shows "RaiseIRQ i s = Inr (upd_chip Master (\<lambda>c. c\<lparr>m_InterruptOutput := False\<rparr>) s)"
proof -
  have "m_PreviousIRR (chips s Master) OR push_bit i 1 = m_PreviousIRR (chips s Master)"
    using assms(3) by (intro bit_word_eqI) (auto simp: bit_simps simp del: push_bit_of_1)
  then have "upd_chip Master (set_line i True) s = s"
    using assms by (simp add: upd_chip_def set_line_def Let_def del: push_bit_of_1)
  moreover have "UpdateIRQ (Suc 98) Master s = Inr (note_output Master s)"
    using assms(4) by (simp only: UpdateIRQ_Master) simp
  ultimately show ?thesis
    using assms(1,4) by (simp add: RaiseIRQ_def set_as_update note_output_def)
qed

theorem edge_line_held_witness:
  "RaiseIRQ 1 (upd_chip Master (\<lambda>c. c\<lparr>m_PreviousIRR := 2, m_ISR := 2\<rparr>) booted) =
     Inr (upd_chip Master (\<lambda>c. c\<lparr>m_InterruptOutput := False\<rparr>)
       (upd_chip Master (\<lambda>c. c\<lparr>m_PreviousIRR := 2, m_ISR := 2\<rparr>) booted))"
  by (rule edge_line_held) (simp_all add: booted_chips GetIRQ_None requested_def)

end
