(* ===== verification/PciBoard_Laws.thy ===== *)
theory PciBoard_Laws
  imports PciBoard
begin

text \<open>
  The devices of the console meet the contract of the PCI bus, so every bus
  access returns and keeps the bus well formed; the BIOS ROM that the LPC bridge
  lays out; and what becomes of an interrupt of a connected device.
\<close>

section \<open>The BIOS ROM\<close>

lemma replicate_rom_copies:
  "0 < n \<Longrightarrow> n dvd XBOX_ROM_AREA_SIZE \<Longrightarrow> n dvd addr \<Longrightarrow> 0 < addr \<Longrightarrow> length rom = XBOX_ROM_AREA_SIZE \<Longrightarrow>
    (\<forall>i<addr. i < XBOX_ROM_AREA_SIZE \<longrightarrow> rom ! i = f (i mod n)) \<Longrightarrow>
    returns (\<lambda>rom'. length rom' = XBOX_ROM_AREA_SIZE \<and> (\<forall>i<XBOX_ROM_AREA_SIZE. rom' ! i = f (i mod n)))
      (replicate_rom addr n rom)"
proof (induction addr n rom rule: replicate_rom.induct)
  case (1 addr n rom)
  show ?case
  proof (cases "addr < XBOX_ROM_AREA_SIZE")
    case False
    then show ?thesis using 1 by (subst replicate_rom.simps) auto
  next
    case True
    obtain j where j: "addr = n * j" using "1.prems"(3) by (rule dvdE)
    obtain k where k: "XBOX_ROM_AREA_SIZE = n * k" using "1.prems"(2) by (rule dvdE)
    have "j < k" using True by (simp add: j k)
    then have "n * Suc j \<le> n * k" by (intro mult_le_mono2) simp
    then have fits: "addr + n \<le> XBOX_ROM_AREA_SIZE" unfolding j k by simp
    have small: "n \<le> addr" using "1.prems"(3,4) by (rule dvd_imp_le)
    obtain r where r: "memcpy rom addr rom n = Inr r"
      using memcpy_returns [of n rom addr rom] fits "1.prems"(5) by auto
    have nth: "length r = XBOX_ROM_AREA_SIZE"
      "\<forall>i<XBOX_ROM_AREA_SIZE. r ! i = (if addr \<le> i \<and> i < addr + n then rom ! (i - addr) else rom ! i)"
      using memcpy_Inr [OF r] "1.prems"(5) by auto
    have copied: "\<forall>i<addr + n. i < XBOX_ROM_AREA_SIZE \<longrightarrow> r ! i = f (i mod n)"
    proof (intro allI impI)
      fix i assume i: "i < addr + n" "i < XBOX_ROM_AREA_SIZE"
      have "(i - addr) mod n = i mod n" if "addr \<le> i"
        using that unfolding j by (metis le_add_diff_inverse mod_mult_self4)
      then show "r ! i = f (i mod n)"
        using nth(2) i "1.prems"(6) small fits by (auto simp: not_le)
    qed
    have "n dvd addr + n" "0 < addr + n" using "1.prems"(3,4) by simp_all
    from "1.IH" [OF True _ "1.prems"(1,2) this nth(1) copied] show ?thesis
      using True r "1.prems"(1) by (subst replicate_rom.simps) simp
  qed
qed

definition lpc_ok :: "lpc \<Rightarrow> bool" where
  "lpc_ok s \<longleftrightarrow> length (m_rom s) = XBOX_ROM_AREA_SIZE \<and> length (m_bios s) = m_biosSize s
     \<and> m_biosSize s dvd XBOX_ROM_AREA_SIZE \<and> 512 \<le> m_biosSize s \<and> length (m_mcpxROM s) = 512"

definition bios_image :: "lpc \<Rightarrow> nat \<Rightarrow> u8" where
  "bios_image s i = m_bios s ! (i mod m_biosSize s)"

lemma lpc_ok_sizes:
  assumes "lpc_ok s"
  shows "m_biosSize s \<le> XBOX_ROM_AREA_SIZE" "512 \<le> XBOX_ROM_AREA_SIZE" "0 < m_biosSize s"
  using assms dvd_imp_le [of "m_biosSize s" XBOX_ROM_AREA_SIZE]
  by (auto simp: lpc_ok_def XBOX_ROM_AREA_SIZE_def)

lemma LPC_Reset_rom:
  assumes ok: "lpc_ok s"
  shows "returns (\<lambda>s'. lpc_ok s' \<and> (\<exists>r. s' = s\<lparr>m_rom := r\<rparr>) \<and> (\<forall>i<XBOX_ROM_AREA_SIZE. m_rom s' ! i =
     (if m_initMcpxROM s \<and> XBOX_ROM_AREA_SIZE - 512 \<le> i
      then m_mcpxROM s ! (i - (XBOX_ROM_AREA_SIZE - 512)) else bios_image s i))) (LPC_Reset s)"
proof -
  note sizes = lpc_ok_sizes [OF ok]
  have len: "length (m_rom s) = XBOX_ROM_AREA_SIZE" "length (m_bios s) = m_biosSize s"
    "m_biosSize s dvd XBOX_ROM_AREA_SIZE" "length (m_mcpxROM s) = 512"
    using ok by (simp_all add: lpc_ok_def)
  obtain r1 where r1: "memcpy (m_rom s) 0 (m_bios s) (m_biosSize s) = Inr r1"
    using memcpy_returns [of "m_biosSize s" "m_bios s" 0 "m_rom s"] len sizes by auto
  then have "length r1 = XBOX_ROM_AREA_SIZE"
    "\<forall>i<m_biosSize s. i < XBOX_ROM_AREA_SIZE \<longrightarrow> r1 ! i = m_bios s ! (i mod m_biosSize s)"
    using memcpy_Inr [OF r1] len by auto
  from replicate_rom_copies [OF sizes(3) len(3) dvd_refl sizes(3) this]
  obtain r2 where r2: "replicate_rom (m_biosSize s) (m_biosSize s) r1 = Inr r2"
    "length r2 = XBOX_ROM_AREA_SIZE" "\<forall>i<XBOX_ROM_AREA_SIZE. r2 ! i = bios_image s i"
    unfolding bios_image_def by (auto simp: returns_iff)
  have rom_ok: "lpc_ok (s\<lparr>m_rom := r\<rparr>)" if "length r = XBOX_ROM_AREA_SIZE" for r
    using ok that by (simp add: lpc_ok_def)
  show ?thesis
  proof (cases "m_initMcpxROM s")
    case False
    then show ?thesis using r1 r2 rom_ok by (auto simp: LPC_Reset_def)
  next
    case True
    obtain r3 where r3: "memcpy r2 (XBOX_ROM_AREA_SIZE - 512) (m_mcpxROM s) 512 = Inr r3"
      using memcpy_returns [of 512 "m_mcpxROM s" "XBOX_ROM_AREA_SIZE - 512" r2] len r2 sizes by auto
    then show ?thesis
      using True r1 r2 rom_ok memcpy_Inr [OF r3] sizes(2) by (auto simp: LPC_Reset_def)
  qed
qed

lemma LPC_Reset_ok: "lpc_ok s \<Longrightarrow> returns lpc_ok (LPC_Reset s)"
  by (rule returns_mono [OF LPC_Reset_rom]) auto

section \<open>The contract of the bus\<close>

definition board_good :: "board leaf \<Rightarrow> bool" where
  "board_good p \<longleftrightarrow> (case snd p of LPC s \<Rightarrow> lpc_ok s | SMBusCtl s \<Rightarrow> wf_smbus s | _ \<Rightarrow> True)"

definition board_safe :: "nat \<Rightarrow> u32 \<Rightarrow> u32 \<Rightarrow> board leaf \<Rightarrow> bool" where
  "board_safe i a v p \<longleftrightarrow> (case snd p of
     SMBusCtl s \<Rightarrow> a AND 0x3F = 2 \<longrightarrow> tst v 0x08 \<longrightarrow> safe_cycle (s\<lparr>m_Control := ucast v\<rparr>)
   | _ \<Rightarrow> True)"

lemma wf_RegisterBAR_fst [simp]: "wf_pci d \<Longrightarrow> wf_pci (fst (RegisterBAR i sz typ d))"
  using wf_RegisterBAR [of d i sz "typ"] by (cases "RegisterBAR i sz typ d") auto

lemma board_init: "wf_pci d \<Longrightarrow> board_good (d, x) \<Longrightarrow>
    returns (\<lambda>(d, x). wf_pci d \<and> board_good (d, x)) (board_Init (d, x))"
  by (cases x)
    (auto simp: board_simps board_good_def Let_def LPC_Init_def SMBus_Init_def
      intro!: returns_mono [OF LPC_Reset_ok])

lemma board_reset: "wf_pci d \<Longrightarrow> board_good (d, x) \<Longrightarrow>
    returns (\<lambda>(d, x). wf_pci d \<and> board_good (d, x)) (board_Reset (d, x))"
  by (cases x) (auto simp: board_good_def wf_SMBus_Reset intro!: returns_mono [OF LPC_Reset_ok])

lemma LPC_WriteConfig_ok:
  assumes "wf_pci d" and "lpc_ok s" and "unat reg + unat sz \<le> 256" and "sz \<le> 4"
  shows "returns (\<lambda>(d, s). wf_pci d \<and> lpc_ok s) (LPC_WriteConfig reg v sz (d, s))"
proof -
  obtain r where r: "memcpy (m_rom s) (XBOX_ROM_AREA_SIZE - 512) (drop (m_biosSize s - 512) (m_bios s)) 512 = Inr r"
    "lpc_ok (s\<lparr>m_rom := r\<rparr>)"
    using assms(2) lpc_ok_sizes [OF assms(2)] by (auto simp: lpc_ok_def memcpy_def)
  obtain d' where "WriteConfig reg v sz d = Inr d'" "wf_pci d'"
    using wf_WriteConfig [OF assms(1,3,4), of v] by (auto simp: returns_iff)
  then show ?thesis
    using r assms(2) lpc_ok_def [of s] by (simp add: LPC_WriteConfig_def)
qed

lemma board_config: "wf_pci d \<Longrightarrow> board_good (d, x) \<Longrightarrow> unat reg + unat sz \<le> 256 \<Longrightarrow> sz \<le> 4 \<Longrightarrow>
    returns (\<lambda>(d, x). wf_pci d \<and> board_good (d, x)) (board_WriteConfig reg v sz (d, x))"
  by (cases x)
    (auto simp: board_good_def intro!: returns_mono [OF wf_WriteConfig] returns_mono [OF LPC_WriteConfig_ok])

interpretation board: pci_leaf board_ops board_good board_safe
proof
  fix d x i a sz v
  assume wf: "wf_pci d" "board_good (d, x)"
  show "returns (\<lambda>((d, x), v). wf_pci d \<and> board_good (d, x)) (leaf_IORead board_ops i a sz (d, x) v)"
    using wf by (cases x) (auto simp: board_simps board_ops_def board_good_def PCIDevice_read_def LPC_PCIIORead_def
      lpc_ok_def Let_def intro!: returns_mono [OF SMBus_PCIIORead_returns])
  show "board_safe i a v (d, x) \<Longrightarrow>
    returns (\<lambda>(d, x). wf_pci d \<and> board_good (d, x)) (leaf_IOWrite board_ops i a v sz (d, x))"
    using wf by (cases x) (auto simp: board_ops_def board_good_def board_safe_def PCIDevice_write_def
      intro!: returns_mono [OF SMBus_PCIIOWrite_returns])
  show "returns (\<lambda>((d, x), v). wf_pci d \<and> board_good (d, x)) (leaf_MMIORead board_ops i a sz (d, x) v)"
    using wf by (cases x) (auto simp: board_simps board_ops_def PCIDevice_read_def)
  show "returns (\<lambda>(d, x). wf_pci d \<and> board_good (d, x)) (leaf_Init board_ops (d, x))"
    "returns (\<lambda>(d, x). wf_pci d \<and> board_good (d, x)) (leaf_Reset board_ops (d, x))"
    using board_init [OF wf] board_reset [OF wf] by (simp_all add: board_ops_def)
  show "returns (\<lambda>(d, x). wf_pci d \<and> board_good (d, x)) (leaf_MMIOWrite board_ops i a v sz (d, x))"
    using wf by (simp add: board_ops_def board_MMIOWrite_def PCIDevice_write_def)
next
  fix d x reg sz v
  assume "wf_pci d" "board_good (d, x)" "unat (reg::u32) + unat (sz::u8) \<le> 256" "sz \<le> 4"
  then show "returns (\<lambda>(d, x). wf_pci d \<and> board_good (d, x)) (leaf_WriteConfig board_ops reg v sz (d, x))"
    using board_config by (simp add: board_ops_def)
qed (simp add: board_good_def)

section \<open>Properties\<close>

lemma bus_ports_return:
  assumes wf: "wf_bus board_good b"
    and "is_config_data port \<Longrightarrow> unat (port - 0xCFC) + unat sz \<le> 4"
    and safe: "\<And>k d x i base. (k, Leaf d x) \<in> set (m_Devices b) \<Longrightarrow> GetIOBar d port = Some (i, base) \<Longrightarrow>
      board_safe i (port - base) v (d, x)"
  shows "returns (\<lambda>(b', r, h). wf_bus board_good b') (PCIBus_IORead board_ops port sz b v)
    \<and> returns (\<lambda>(b', h). wf_bus board_good b') (PCIBus_IOWrite board_ops port v sz b)
    \<and> returns (\<lambda>(b', r, h). wf_bus board_good b') (PCIBus_MMIORead board_ops port sz b v)
    \<and> returns (\<lambda>(b', h). wf_bus board_good b') (PCIBus_MMIOWrite board_ops port v sz b)
    \<and> returns (wf_bus board_good) (bus_Reset board_ops b)"
proof (intro conjI)
  show "returns (\<lambda>(b', h). wf_bus board_good b') (PCIBus_IOWrite board_ops port v sz b)"
  proof (rule board.bus_IOWrite_wf [OF wf assms(2)])
    fix k p i base
    assume "(k, p) \<in> set (m_Devices b)" "GetIOBar (dev_config p) port = Some (i, base)"
    then show "board.safe_dev (i, port - base) v p"
      using safe by (cases p) (auto simp: board.safe_dev_def)
  qed
qed (use board.bus_IORead_wf [OF wf assms(2)] board.bus_MMIO_wf [OF wf] board.Reset_wf(2) [OF wf] in auto)


definition ide_bus :: "board pci_bus" where
  "ide_bus = PCIBus [(PCI_DEVID 0 (PCI_DEVFN 9 0), Leaf (fst (new_IDE 0x10DE 0x01BC 0xD2)) IDE)]
     0x80004840 (Some (replicate 12 0)) LPCIRQMapper"

lemma wf_ide_bus: "wf_bus board_good ide_bus"
  by (simp add: ide_bus_def new_IDE_def board_good_def)


lemma xbox_bus_returns:
  assumes "wf_smbus smb" and "length rom = XBOX_ROM_AREA_SIZE" and "length mcpxROM = 512"
    and "length bios = 256 * 1024 \<or> length bios = 1024 * 1024"
  shows "returns (wf_bus board_good) (xbox_PCIBus smb rom bios mcpxROM debugKit)"
proof -
  have connect: "\<forall>(k, p)\<in>set ds. wf_dev board_good p \<Longrightarrow> wf_bus board_good b \<Longrightarrow>
    returns (wf_bus board_good) (connect_all ds b)" for ds b
  proof (induction ds arbitrary: b)
    case (Cons kp ds)
    obtain k p where "kp = (k, p)" by (cases kp)
    then show ?case
      using Cons board.ConnectDevice_wf [of b p k] by (auto elim!: returns_mono)
  qed simp
  have "\<forall>(k, p)\<in>set (xbox_devices smb rom bios mcpxROM debugKit). wf_dev board_good p"
    using assms
    by (auto simp: xbox_devices_def leaf_dev_def new_HostBridge_def new_MCPXRAM_def new_LPC_def new_AC97_def
        new_IDE_def new_bridge_def new_PCIBus_def new_SMBus_def board_good_def Let_def wf_pci_lengths
        lpc_ok_def XBOX_ROM_AREA_SIZE_def)
  from connect [OF this, of new_PCIBus] show ?thesis
    by (auto simp: xbox_PCIBus_def new_PCIBus_def ConfigureIRQs_def wf_bus_iff elim!: returns_mono)
qed

text \<open>the PCI bus of a console comes up: with an SMBus and ROM images of the right sizes, connecting
  the devices returns, and the bus is well formed.\<close>

theorem xbox_PCIBus_wf:
  assumes "wf_smbus smb" and "length rom = XBOX_ROM_AREA_SIZE" and "length mcpxROM = 512"
    and "length bios = 256 * 1024 \<or> length bios = 1024 * 1024"
  shows "returns (wf_bus board_good) (xbox_PCIBus smb rom bios mcpxROM debugKit)"
  using assms by (rule xbox_bus_returns)

theorem xbox_PCIBus_wf_witness:
  "returns (wf_bus board_good) (xbox_PCIBus sample_smbus (replicate XBOX_ROM_AREA_SIZE 0)
     (replicate (256 * 1024) 0) (replicate 512 0) False)"
  by (rule xbox_PCIBus_wf) (simp_all add: sample_smbus_def wf_xbox_SMBus)

text \<open>after a reset of the LPC bridge every address of the ROM area shows the BIOS image at the
  address modulo the image's size, except that the last 512 bytes show the MCPX ROM
  when it is present.\<close>

theorem LPC_ROM_layout:
  assumes "lpc_ok s"
  shows "returns (\<lambda>s'. \<forall>i<XBOX_ROM_AREA_SIZE. m_rom s' ! i =
    (if m_initMcpxROM s \<and> XBOX_ROM_AREA_SIZE - 512 \<le> i
     then m_mcpxROM s ! (i - (XBOX_ROM_AREA_SIZE - 512))
     else m_bios s ! (i mod m_biosSize s))) (LPC_Reset s)"
  by (rule returns_mono [OF LPC_Reset_rom [OF assms]]) (simp add: bios_image_def)

definition sample_lpc :: lpc where
  "sample_lpc = \<lparr>m_field_pin = 0, m_rom = replicate XBOX_ROM_AREA_SIZE 0, m_bios = replicate (256 * 1024) 0xFF,
     m_biosSize = 256 * 1024, m_mcpxROM = replicate 512 1, m_initMcpxROM = True, lpc_clock = 0\<rparr>"

lemma lpc_ok_sample: "lpc_ok sample_lpc"
  by (simp add: lpc_ok_def sample_lpc_def XBOX_ROM_AREA_SIZE_def)

theorem LPC_ROM_layout_witness:
  "returns (\<lambda>s'. m_rom s' ! 0 = 0xFF) (LPC_Reset sample_lpc)"
  by (rule returns_mono [OF LPC_ROM_layout [OF lpc_ok_sample]])
    (drule spec [of _ 0], simp add: sample_lpc_def XBOX_ROM_AREA_SIZE_def)

text \<open>writing bit 1 of configuration register 0x80 after a reset uncovers the BIOS: from then on the whole
  ROM area is the replicated BIOS image.\<close>

theorem LPC_disable_MCPX_ROM:
  assumes ok: "lpc_ok s" and wf: "wf_pci d" and "tst v 2"
  shows "returns (\<lambda>(d', s'). \<forall>i<XBOX_ROM_AREA_SIZE. m_rom s' ! i = m_bios s ! (i mod m_biosSize s))
    (bindr (LPC_Reset s) (\<lambda>s. LPC_WriteConfig 0x80 v 4 (d, s)))"
proof -
  obtain s1 r where s1: "LPC_Reset s = Inr s1" "lpc_ok s1" "s1 = s\<lparr>m_rom := r\<rparr>"
    and rom: "\<forall>i<XBOX_ROM_AREA_SIZE. r ! i =
      (if m_initMcpxROM s \<and> XBOX_ROM_AREA_SIZE - 512 \<le> i
       then m_mcpxROM s ! (i - (XBOX_ROM_AREA_SIZE - 512)) else bios_image s i)"
    using LPC_Reset_rom [OF ok] by (auto simp: returns_iff)
  obtain d' where d': "WriteConfig 0x80 v 4 d = Inr d'"
    using wf_WriteConfig [OF wf, of "0x80" 4 v] by (auto simp: returns_iff)
  note sizes = lpc_ok_sizes [OF ok]
  have len: "length (m_rom s1) = XBOX_ROM_AREA_SIZE" "length (m_bios s) = m_biosSize s" "512 \<le> m_biosSize s"
    using s1 ok by (simp_all add: lpc_ok_def)
  obtain r2 where r2: "memcpy r (XBOX_ROM_AREA_SIZE - 512) (drop (m_biosSize s - 512) (m_bios s)) 512 = Inr r2"
    using memcpy_returns [of 512 "drop (m_biosSize s - 512) (m_bios s)" "XBOX_ROM_AREA_SIZE - 512" r] len sizes s1(3)
    by auto
  have tail: "(i - (XBOX_ROM_AREA_SIZE - 512)) + (m_biosSize s - 512) = i mod m_biosSize s"
    if i: "XBOX_ROM_AREA_SIZE - 512 \<le> i" "i < XBOX_ROM_AREA_SIZE" for i
  proof -
    have "m_biosSize s dvd XBOX_ROM_AREA_SIZE" using ok by (simp add: lpc_ok_def)
    then obtain k where k: "XBOX_ROM_AREA_SIZE = m_biosSize s * k" by (rule dvdE)
    with sizes have "k \<noteq> 0" by (cases k) auto
    then obtain j where j: "k = Suc j" by (cases k) auto
    define t where "t = (i - (XBOX_ROM_AREA_SIZE - 512)) + (m_biosSize s - 512)"
    have "t < m_biosSize s" "i = m_biosSize s * j + t"
      using i len(3) sizes unfolding t_def k j by (auto simp: algebra_simps)
    then show ?thesis unfolding t_def [symmetric] by simp
  qed
  have "r2 ! i = m_bios s ! (i mod m_biosSize s)" if "i < XBOX_ROM_AREA_SIZE" for i
    using memcpy_Inr [OF r2] rom that tail [of i] len s1(3) sizes
    by (auto simp: bios_image_def add.commute)
  then show ?thesis using s1 d' r2 assms(3) len by (simp add: LPC_WriteConfig_def)
qed

theorem LPC_disable_MCPX_ROM_witness:
  "returns (\<lambda>(d', s'). \<forall>i<XBOX_ROM_AREA_SIZE. m_rom s' ! i = 0xFF)
    (bindr (LPC_Reset sample_lpc) (\<lambda>s. LPC_WriteConfig 0x80 2 4 (sample_bridge, s)))"
proof -
  have "wf_pci sample_bridge" "tst 2 (2::u32)" by (simp_all add: sample_bridge_def)
  from returns_mono [OF LPC_disable_MCPX_ROM [OF lpc_ok_sample this]] show ?thesis
    by (auto simp: sample_lpc_def)
qed

text \<open>an interrupt of any device connected to the root bus fails the assertion of the LPC's interrupt mapper:
  the identifier stored by \<open>ConnectDevice\<close> always reads as device 0, which is not one it knows.\<close>

theorem connected_IRQ_asserts:
  assumes "ConnectDevice board_ops (PCI_DEVID n (PCI_DEVFN slot f)) p b = Inr b'" and "n < 8"
    and "map_of (m_Devices b) (PCI_DEVID n (PCI_DEVFN slot f)) = None" and "wf_bus board_good b"
    and "m_irqMapper b' = LPCIRQMapper"
  shows "ChangeIRQLevel [PCI_DEVID n (PCI_DEVFN slot f)] irqNum change b' = Inl AssertFailed"
proof -
  let ?k = "PCI_DEVID n (PCI_DEVFN slot f)"
  obtain p' where p': "m_Devices b' = insert_dev ?k (set_addr ?k p') (m_Devices b)"
    using assms(1,3) by (auto simp: ConnectDevice_def bindr_Inr_iff)
  have "sorted_wrt (<) (map fst (m_Devices b))" using assms(4) by (simp add: wf_bus_iff)
  from map_fst_insert_dev [OF this assms(3)]
  have "distinct (map fst (m_Devices b'))" "(?k, set_addr ?k p') \<in> set (m_Devices b')"
    unfolding p' by (auto simp: strict_sorted_iff)
  then have look: "map_of (m_Devices b') ?k = Some (set_addr ?k p')" by (simp add: map_of_is_SomeI)
  have "deviceNumber (m_addr (dev_config (set_addr ?k p'))) = 0"
    using connected_device_0 [OF assms(2)] by blast
  then show ?thesis
    using look assms(5)
    by (simp add: ChangeIRQLevel_def arrive_def MapIRQ_def LPCIRQMapper_MapIRQ_def Let_def)
qed

theorem connected_IRQ_asserts_witness:
  "returns (\<lambda>b'. ChangeIRQLevel [PCI_DEVID 0 (PCI_DEVFN 9 0)] 0 1 b' = Inl AssertFailed)
     (ConnectDevice board_ops (PCI_DEVID 0 (PCI_DEVFN 9 0)) (new_bridge PCIBridgeDevice 0x10DE 0x01B8 0xD2)
        (ConfigureIRQs LPCIRQMapper 12 new_PCIBus))"
proof -
  let ?b = "ConfigureIRQs LPCIRQMapper 12 (new_PCIBus :: board pci_bus)"
  obtain b' where b': "ConnectDevice board_ops (PCI_DEVID 0 (PCI_DEVFN 9 0))
      (new_bridge PCIBridgeDevice 0x10DE 0x01B8 0xD2) ?b = Inr b'" "m_irqMapper b' = LPCIRQMapper"
    by (simp add: ConnectDevice_def ConfigureIRQs_def new_PCIBus_def new_bridge_def)
  have "map_of (m_Devices ?b) (PCI_DEVID 0 (PCI_DEVFN 9 0)) = None" "wf_bus board_good ?b"
    by (simp_all add: ConfigureIRQs_def new_PCIBus_def)
  from connected_IRQ_asserts [OF b'(1) _ this b'(2)] b'(1) show ?thesis by simp
qed

lemma update_dev_map_of:
  "map_of ds k = Some p \<Longrightarrow> f p = Inr p' \<Longrightarrow> \<exists>ds'. update_dev k f ds = Inr ds' \<and> map_of ds' k = Some p'"
  by (induction k f ds rule: update_dev.induct) (auto split: if_splits)

lemma put_devs_simps [simp]:
  "m_Devices (put_devs ds b) = ds" "config_device (put_devs ds b) = config_device b"
  "config_register (put_devs ds b) = config_register b"
  by (simp_all add: put_devs_def config_device_def config_register_def fun_eq_iff)

lemma rd32_take:
  "r + 4 \<le> length c \<Longrightarrow> bytes_to_u32 (take 4 (drop r c)) = Inr (rd32 c r)"
  by (simp add: bytes_to_u32_def rd32_def nth_append)

text \<open>C26: a value written to a fully writable configuration register of a device through the address and data
  ports is the value read back through them.\<close>

theorem config_ports_roundtrip:
  assumes wf: "wf_bus board_good b"
    and dev: "map_of (m_Devices b) (config_device (IOWriteConfigAddress a b)) = Some (Leaf d x)"
    and plain: "\<And>s. x \<noteq> LPC s"
    and reg: "r = unat (config_register (IOWriteConfigAddress a b) 0)"
    and masks: "\<And>i. r \<le> i \<Longrightarrow> i < r + 4 \<Longrightarrow> m_writeMask d ! i = 0xFF"
  shows "returns (\<lambda>(b', v', h). h \<and> v' = v)
    (bindr (PCIBus_IOWrite board_ops 0xCF8 a 4 b) (\<lambda>(b, h).
     bindr (PCIBus_IOWrite board_ops 0xCFC v 4 b) (\<lambda>(b, h).
     PCIBus_IORead board_ops 0xCFC 4 b 0)))"
proof -
  let ?b = "IOWriteConfigAddress a b"
  let ?k = "config_device ?b"
  have wfd: "wf_pci d"
    using wf dev by (auto simp: wf_bus_iff IOWriteConfigAddress_def dest: wf_devs_map_of)
  have r: "r + 4 \<le> 256" using config_register_le [of ?b 0] reg by simp
  obtain c where c: "write_config 4 r v d = Inr (d\<lparr>m_configSpace := c\<rparr>)" "length c = 256"
    "\<forall>i<256. c ! i = (if r \<le> i \<and> i < r + 4
           then ((m_configSpace d ! i AND NOT (m_writeMask d ! i))
                 OR (ucast (drop_bit (8 * (i - r)) v) AND m_writeMask d ! i))
                AND NOT (ucast (drop_bit (8 * (i - r)) v) AND m_write1ToClearMask d ! i)
           else m_configSpace d ! i)"
    using write_config_effect [OF wfd, of r 4 v] r by auto
  have byte: "c ! (r + j) = ucast (drop_bit (8 * j) v)" if "j < 4" for j
  proof -
    have w: "m_writeMask d ! (r + j) = 0xFF" using masks that by simp
    moreover have "m_write1ToClearMask d ! (r + j) = 0"
    proof -
      have "0xFF AND m_write1ToClearMask d ! (r + j) = 0"
        using wfd r that w unfolding wf_pci_def by (metis add_less_cancel_left order_less_le_trans)
      then show ?thesis by (simp add: word_bits bit_simps)
    qed
    ultimately show ?thesis using c(3) r that by (simp add: word_bits bit_simps)
  qed
  let ?d = "d\<lparr>m_configSpace := c\<rparr>"
  have rd: "rd32 c r = v" using byte [of 0] byte [of 1] byte [of 2] byte [of 3] by (simp add: rd32_def)
  have "leaf_WriteConfig board_ops (config_register ?b 0) v 4 (d, x) = Inr (?d, x)"
    using plain c(1) by (cases x) (auto simp: board_ops_def WriteConfig_def reg [symmetric])
  then obtain ds where ds: "update_dev ?k (dev_WriteConfig board_ops (config_register ?b 0) v 4) (m_Devices b) = Inr ds"
    "map_of ds ?k = Some (Leaf ?d x)"
    using update_dev_map_of [of "m_Devices b" ?k "Leaf d x" "dev_WriteConfig board_ops (config_register ?b 0) v 4" "Leaf ?d x"]
      dev by (auto simp: IOWriteConfigAddress_def)
  have "IOReadConfigData 4 0 (put_devs ds ?b) = Inr v"
    using ds(2) c(2) r rd rd32_take [of r c]
    by (simp add: IOReadConfigData_def ReadConfig_def read_bytes_Inr reg [symmetric])
  then show ?thesis
    using ds(1)
    by (simp add: PCIBus_IOWrite_def PCIBus_IORead_def is_config_data_def IOWriteConfigData_def
        IOWriteConfigAddress_def)
qed

theorem config_ports_roundtrip_witness:
  "returns (\<lambda>(b', v', h). h \<and> v' = 0x12345678)
    (bindr (PCIBus_IOWrite board_ops 0xCF8 0x80004840 4 ide_bus) (\<lambda>(b, h).
     bindr (PCIBus_IOWrite board_ops 0xCFC 0x12345678 4 b) (\<lambda>(b, h).
     PCIBus_IORead board_ops 0xCFC 4 b 0)))"
proof (rule config_ports_roundtrip [OF wf_ide_bus])
  show "map_of (m_Devices ide_bus) (config_device (IOWriteConfigAddress 0x80004840 ide_bus)) =
    Some (Leaf (fst (new_IDE 0x10DE 0x01BC 0xD2)) IDE)"
    by (simp add: ide_bus_def IOWriteConfigAddress_def config_device_def busNumber_def deviceNumber_def
        functionNumber_def PCI_DEVID_def PCI_DEVFN_def Let_def)
  show "IDE \<noteq> LPC s" for s by simp
  show "0x40 = unat (config_register (IOWriteConfigAddress 0x80004840 ide_bus) 0)"
    by (simp add: config_register_def IOWriteConfigAddress_def registerNumber_def)
  show "m_writeMask (fst (new_IDE 0x10DE 0x01BC 0xD2)) ! i = 0xFF" if "0x40 \<le> i" "i < 0x40 + 4" for i
    using that by (simp add: new_IDE_def new_PCIDevice_def pci_masks_def Let_def buf)
qed

text \<open>The audio controller with its first register placed at port \<open>0xD000\<close>, behind the IDE controller.\<close>

definition ac97_at_D000 :: PCIDevice where
  "ac97_at_D000 =
     (let d = AC97_Init (fst (new_AC97 0x10DE 0x01B1 0xD2))
      in d\<lparr>m_configSpace := wr32 (m_configSpace d) 0x10 0xD001\<rparr>)"

theorem IO_reaches_first_BAR_witness:
  "GetIOBar ac97_at_D000 0xD010 = Some (0, 0xD000) \<and>
   (let b = PCIBus [(PCI_DEVID 0 (PCI_DEVFN 6 0), Leaf (fst (new_IDE 0x10DE 0x01BC 0xD2)) IDE),
                    (PCI_DEVID 0 (PCI_DEVFN 9 0), Leaf ac97_at_D000 AC97)] 0 None LPCIRQMapper
    in PCIBus_IORead board_ops 0xD010 1 b 0x55 = Inr (b, 0x55, True))"
proof -
  let ?ide = "fst (new_IDE 0x10DE 0x01BC 0xD2)"
  let ?b = "PCIBus [(PCI_DEVID 0 (PCI_DEVFN 6 0), Leaf ?ide IDE),
                    (PCI_DEVID 0 (PCI_DEVFN 9 0), Leaf ac97_at_D000 AC97)] 0 None LPCIRQMapper"
  have none: "GetIOBar ?ide 0xD010 = None"
    by (simp add: GetIOBar_def find_BAR_def num_BARs_def find_None_iff new_IDE_def new_PCIDevice_def
        pci_masks_def pci_header_def Let_def buf)
  have some: "GetIOBar ac97_at_D000 0xD010 = Some (0, 0xD000)"
    by (simp add: ac97_at_D000_def AC97_Init_def RegisterBAR_def GetIOBar_def find_BAR_def num_BARs_def
        new_AC97_def new_PCIDevice_def pci_masks_def pci_header_def Let_def buf rd32_def le32_def upt_conv_Cons)
  have "\<not> is_config_data 0xD010" by (simp add: is_config_data_def)
  from IO_reaches_first_BAR [OF this, of ?b "[(PCI_DEVID 0 (PCI_DEVFN 6 0), Leaf ?ide IDE)]" _ ac97_at_D000 AC97 "[]"
      0 "0xD000" board_ops 1 "0x55"] none some
  show ?thesis by (simp add: board_ops_def AC97_read_def put_devs_def)
qed

end
