(* ===== verification/Machine_Laws.thy ===== *)
theory Machine_Laws
  imports Machine Pic_Props PciBoard_Laws
begin

text \<open>
  The hardware of the console as a whole: which device answers a port, where an
  interrupt line leads, what every access keeps, and the interrupts of the timer,
  the ATA interface and the SMBus controller from the device to the vector that the
  CPU is sent.
\<close>

section \<open>The ports\<close>

definition xbox_ports :: "bool \<Rightarrow> port_range list" where
  "xbox_ports enableSuperIO = i8259_ports @ i8254_ports @ CMOS_ports @ ATA_ports @ PCIBus_ports
     @ (if enableSuperIO then SuperIO_ports else [])"

lemma map_ranges_append:
  "map_ranges ins m (rs @ rs') =
     (let (m', ok) = map_ranges ins m rs in if ok then map_ranges ins m' rs' else (m', False))"
  by (induction rs arbitrary: m) (auto simp: Let_def split: prod.splits)

lemma MapIO_ranges:
  "MapIO rs io = (let (m, ok) = map_ranges MapDevice (m_mappedIODevices io) rs
     in (io\<lparr>m_mappedIODevices := m\<rparr>, ok))"
  by (induction rs io rule: MapIO.induct) (auto simp: MapIODevice_def Let_def split: prod.splits)

lemmas port_lists =
  i8259_ports_def i8254_ports_def CMOS_ports_def ATA_ports_def PCIBus_ports_def SuperIO_ports_def

lemma xbox_ports_separate:
  "sorted_wrt separate (xbox_ports se)" "\<forall>(b, n, d)\<in>set (xbox_ports se). b \<le> b + n - 1"
  by (cases se; simp add: xbox_ports_def port_lists separate_def)+

lemma xbox_ports_mapped:
  "\<exists>m. map_ranges MapDevice [] (xbox_ports se) = (m, True) \<and> wf_iomap m
    \<and> (\<forall>a. LookupDevice m a = map_option (\<lambda>(b, n, d). d) (find (\<lambda>r. IOMap.in_range r a) (xbox_ports se)))"
proof -
  have *: "map_option (\<lambda>(b, n, d). d) r = (case r of Some (_, _, d) \<Rightarrow> Some d | None \<Rightarrow> None)"
    for r :: "port_range option" by (cases r) auto
  show ?thesis
    using ioranges.map_ranges_routes [OF wf_iomap_Nil xbox_ports_separate, of se]
    unfolding * LookupDevice_Nil by simp
qed

lemma xbox_MapIO_maps:
  "xbox_MapIO se = \<lparr>m_mappedIODevices = fst (map_ranges MapDevice [] (xbox_ports se)),
     m_mappedMMIODevices = [], m_dynamicDevices = [Dev_PCIBus]\<rparr>"
proof -
  obtain m where "map_ranges MapDevice [] (xbox_ports se) = (m, True)" using xbox_ports_mapped by blast
  then show ?thesis
    by (auto simp: xbox_MapIO_def xbox_ports_def map_ranges_append MapIO_ranges PCIBus_MapIO_def AddDevice_def
        new_IOMapper_def Let_def split: prod.splits if_splits)
qed

text \<open>C28: the devices are mapped without a conflict: a port belongs to the device in whose range it is, the ports in
  no range are left to the PCI bus, and so are all addresses of memory.\<close>

theorem xbox_ports_route:
  "LookupDevice (m_mappedIODevices (xbox_MapIO se)) port =
     map_option (\<lambda>(b, n, d). d) (find (\<lambda>r. IOMap.in_range r port) (xbox_ports se))
   \<and> LookupDevice (m_mappedMMIODevices (xbox_MapIO se)) a = None
   \<and> m_dynamicDevices (xbox_MapIO se) = [Dev_PCIBus]"
proof -
  obtain m where "map_ranges MapDevice [] (xbox_ports se) = (m, True)"
    "LookupDevice m port = map_option (\<lambda>(b, n, d). d) (find (\<lambda>r. IOMap.in_range r port) (xbox_ports se))"
    using xbox_ports_mapped by blast
  then show ?thesis by (simp add: xbox_MapIO_maps)
qed

section \<open>Interrupt paths\<close>

lemma nth_AllocateIRQs [simp]:
  "i < unat n \<Longrightarrow> AllocateIRQs h n ! i = \<lparr>irq_handler = h, irq_num = of_nat i\<rparr>"
  by (simp add: AllocateIRQs_def)

lemma length_AllocateIRQs [simp]: "length (AllocateIRQs h n) = unat n"
  by (simp add: AllocateIRQs_def)

lemma aget_AllocateIRQs [simp]:
  "aget (AllocateIRQs h n) i =
     (if i < unat n then Inr \<lparr>irq_handler = h, irq_num = of_nat i\<rparr> else Inl OutOfBounds)"
  by (simp add: aget_def)

definition on_i8259 :: "u8 \<Rightarrow> bool \<Rightarrow> 'c machine \<Rightarrow> fault + 'c machine" where
  "on_i8259 n level s = bindr (HandleIRQ n level (mach_i8259 s)) (\<lambda>p. Inr (s\<lparr>mach_i8259 := p\<rparr>))"

definition lines_ok :: "'c machine \<Rightarrow> bool" where
  "lines_ok s \<longleftrightarrow> mach_GSI s = xbox_GSI \<and> mach_IRQs s = AllocateIRQs (Some Handler_GSI) GSI_NUM_PINS
     \<and> mach_acpiIRQs s = AllocateIRQs (Some Handler_LPC) 2
     \<and> LPC_address \<in> set (map fst (m_Devices (mach_PCIBus s)))"

lemma i8259_line: "xbox_HandleIRQ (Suc k) Handler_i8259 n level s = on_i8259 n level s"
  by (simp add: on_i8259_def)

lemma GSI_line:
  assumes "lines_ok s"
  shows "xbox_HandleIRQ (Suc (Suc k)) Handler_GSI n level s =
    (if n < 16 then on_i8259 n level s else if n < 24 then Inr s else Inl OutOfBounds)"
proof -
  have "unat n < 16 \<longleftrightarrow> n < 16" "unat n < 24 \<longleftrightarrow> n < 24" "n < 16 \<Longrightarrow> n < 24"
    by (simp_all add: word_less_nat_alt)
  then show ?thesis using assms
    by (cases "HandleIRQ n level (mach_i8259 s)")
      (auto simp: lines_ok_def GSI_HandleIRQ_def xbox_GSI_def new_GSI_def aget_def handle_if_set_def IRQ_Handle_def
        on_i8259_def)
qed

lemma LPC_routes_to_ISA: "LPC_HandleIRQ d n level = Some (irq, l) \<Longrightarrow> irq < 16 \<and> irq \<noteq> 0 \<and> l = level"
proof -
  let ?r = "drop_bit (unat n * 8) (rd32 (m_configSpace d) 0x64) AND 0xFF"
  assume "LPC_HandleIRQ d n level = Some (irq, l)"
  then have r: "?r \<noteq> 0" "?r < 16" "irq = ucast ?r" "l = level"
    by (auto simp: LPC_HandleIRQ_def Let_def split: if_splits)
  then have "unat irq = unat ?r"
    by (simp add: unsigned_ucast_eq word_less_nat_alt take_bit_nat_eq_self)
  with r show ?thesis by (auto simp: word_less_nat_alt unat_eq_0 [symmetric] simp del: unat_eq_0)
qed

lemma LPC_line:
  assumes "lines_ok s" and p: "map_of (m_Devices (mach_PCIBus s)) LPC_address = Some p"
  shows "xbox_HandleIRQ handler_calls Handler_LPC n level s =
    (case LPC_HandleIRQ (dev_config p) n level of
       None \<Rightarrow> Inr s | Some (irq, l) \<Rightarrow> on_i8259 irq level s)"
proof (cases "LPC_HandleIRQ (dev_config p) n level")
  case None
  then show ?thesis using p by (simp add: numeral_3_eq_3)
next
  case (Some r)
  obtain irq l where r: "r = (irq, l)" by (cases r)
  have irq: "irq < 16" "l = level" using LPC_routes_to_ISA Some r by auto
  then have "unat irq < 24" by (simp add: word_less_nat_alt)
  then have "aget (mach_IRQs s) (unat irq) = Inr \<lparr>irq_handler = Some Handler_GSI, irq_num = irq\<rparr>"
    using assms(1) by (simp add: lines_ok_def)
  then show ?thesis using p irq Some r GSI_line [OF assms(1), of 0 irq level]
    by (simp add: numeral_3_eq_3 numeral_2_eq_2 IRQ_Handle_def)
qed

lemma routed_byte: "drop_bit 8 (rd32 c 0x64) AND 0xFF = (ucast (c ! 0x65) :: u32)"
  by (simp add: rd32_def le32_def word_bits bit_simps)

lemma bindr_raise_none: "bindr m (raise_acpi []) = m"
  by (cases m) simp_all

lemma unat_ucast_byte: "unat (ucast (b::u8) :: u32) = unat b"
  by transfer simp

text \<open>the interrupt line of the SMBus controller goes through the LPC bridge and the global system
  interrupts to the line of the i8259 that byte 0x65 of the configuration of the bridge
  names, and nowhere when it names line 0 or a line above 15.\<close>

theorem SMBus_interrupt_route:
  assumes "lines_ok s" and "map_of (m_Devices (mach_PCIBus s)) LPC_address = Some p"
  shows "raise_acpi [level] s =
    (let irq = m_configSpace (dev_config p) ! 0x65 in
     if irq = 0 \<or> 16 \<le> irq then Inr s
     else bindr (HandleIRQ irq level (mach_i8259 s)) (\<lambda>p. Inr (s\<lparr>mach_i8259 := p\<rparr>)))"
proof -
  let ?b = "m_configSpace (dev_config p) ! 0x65"
  have "aget (mach_acpiIRQs s) 1 = Inr \<lparr>irq_handler = Some Handler_LPC, irq_num = 1\<rparr>"
    using assms(1) by (simp add: lines_ok_def)
  moreover have "(ucast ?b :: u32) = 0 \<longleftrightarrow> ?b = 0" "16 \<le> (ucast ?b :: u32) \<longleftrightarrow> 16 \<le> ?b"
    by (simp_all add: word_le_nat_alt word_unat_eq_iff unat_ucast_byte)
  moreover have "(ucast (ucast ?b :: u32) :: u8) = ?b" by (simp add: word_bits bit_simps)
  ultimately show ?thesis
    using LPC_line [OF assms, of 1 level]
    by (auto simp: IRQ_Handle_def LPC_HandleIRQ_def routed_byte on_i8259_def bindr_raise_none Let_def split: if_splits)
qed

section \<open>What every access keeps\<close>

definition machine_ok :: "'c machine \<Rightarrow> bool" where
  "machine_ok s \<longleftrightarrow> wf_pic (mach_i8259 s) \<and> stable (mach_i8259 s) \<and> wf_ata (mach_ATA s)
     \<and> (\<forall>x. mach_SuperIO s = Some x \<longrightarrow> wf_superio x)
     \<and> wf_bus board_good (mach_PCIBus s) \<and> lines_ok s"

lemma machine_okD:
  assumes "machine_ok s"
  shows "wf_pic (mach_i8259 s)" and "stable (mach_i8259 s)" and "wf_ata (mach_ATA s)"
    and "mach_SuperIO s = Some x \<Longrightarrow> wf_superio x" and "wf_bus board_good (mach_PCIBus s)" and "lines_ok s"
  using assms by (simp_all add: machine_ok_def)

lemma on_i8259_ok:
  assumes "machine_ok s"
  shows "returns machine_ok (on_i8259 n level s)"
proof -
  have pic: "wf_pic (mach_i8259 s)" "stable (mach_i8259 s)" using assms by (auto simp: machine_ok_def)
  then obtain p where p: "HandleIRQ n level (mach_i8259 s) = Inr p" "wf_pic p"
    using accesses_return [OF pic] by blast
  have "stable p"
    using p(1) pic(2) stb.machinery(2) unfolding stable_def HandleIRQ_def RaiseIRQ_def LowerIRQ_def
    by (auto split: if_splits simp del: SetIRQ.simps)
  then show ?thesis using assms p by (simp add: on_i8259_def machine_ok_def lines_ok_def)
qed

lemma raise_all_ok: "machine_ok s \<Longrightarrow> returns machine_ok (raise_all es s)"
proof (induction es s rule: raise_all.induct)
  case (2 n level es s)
  have "returns machine_ok (xbox_HandleIRQ handler_calls Handler_i8259 n level s)"
    using on_i8259_ok [OF "2.prems"] by (simp add: numeral_3_eq_3 i8259_line del: xbox_HandleIRQ.simps)
  then show ?case using "2.IH" by (auto simp del: xbox_HandleIRQ.simps elim!: returns_mono simp: returns_iff)
qed simp

lemma LPC_present: "lines_ok s \<Longrightarrow> \<exists>p. map_of (m_Devices (mach_PCIBus s)) LPC_address = Some p"
  unfolding lines_ok_def by (metis map_of_eq_None_iff not_Some_eq list.set_map)

lemma raise_acpi_ok: "machine_ok s \<Longrightarrow> returns machine_ok (raise_acpi ls s)"
proof (induction ls s rule: raise_acpi.induct)
  case (2 level ls s)
  have l: "lines_ok s" using "2.prems" by (simp add: machine_ok_def)
  obtain p where p: "map_of (m_Devices (mach_PCIBus s)) LPC_address = Some p" using LPC_present [OF l] ..
  let ?line = "\<lparr>irq_handler = Some Handler_LPC, irq_num = 1\<rparr>"
  have line: "aget (mach_acpiIRQs s) 1 = Inr ?line" using l by (simp add: lines_ok_def)
  have "returns machine_ok (IRQ_Handle (xbox_HandleIRQ handler_calls) ?line level s)"
    using LPC_line [OF l p, of 1 level] on_i8259_ok "2.prems"
    by (auto simp: IRQ_Handle_def split: option.splits)
  then show ?case using "2.IH" line by (auto simp: returns_iff)
qed simp

lemma with_ATA_ok: "machine_ok s \<Longrightarrow> wf_ata a \<Longrightarrow> returns machine_ok (with_ATA s a)"
  unfolding with_ATA_def by (rule raise_all_ok) (simp add: machine_ok_def lines_ok_def)

lemma with_PCIBus_ok:
  "machine_ok s \<Longrightarrow> wf_bus board_good b \<Longrightarrow> map fst (m_Devices b) = map fst (m_Devices (mach_PCIBus s)) \<Longrightarrow>
   returns machine_ok (with_PCIBus s b)"
  unfolding with_PCIBus_def
  by (rule raise_acpi_ok) (simp add: machine_ok_def lines_ok_def del: list.set_map)

lemma bus_access_ok:
  assumes "machine_ok s"
  shows "returns (\<lambda>(b, v, h). wf_bus board_good b) m \<Longrightarrow>
      whenever (\<lambda>(b, v, h). map fst (m_Devices b) = map fst (m_Devices (mach_PCIBus s))) m \<Longrightarrow>
      returns (\<lambda>(s', v, h). machine_ok s') (bindr m (\<lambda>(b, v, h). bindr (with_PCIBus s b) (\<lambda>s. Inr (s, v, h))))"
    and "returns (\<lambda>(b, h). wf_bus board_good b) n \<Longrightarrow>
      whenever (\<lambda>(b, h). map fst (m_Devices b) = map fst (m_Devices (mach_PCIBus s))) n \<Longrightarrow>
      returns (\<lambda>(s', h). machine_ok s') (bindr n (\<lambda>(b, h). bindr (with_PCIBus s b) (\<lambda>s. Inr (s, h))))"
  using with_PCIBus_ok [OF assms] by (cases m; cases n; auto)+

lemma with_serial_ok:
  assumes "machine_ok s" and "mach_SuperIO s = Some x" and "good_serial p"
  shows "returns machine_ok (with_serial i s x p)"
proof -
  have "wf_superio x" using assms(1,2) by (simp add: machine_ok_def)
  then have "wf_superio (x\<lparr>m_serialPorts := (m_serialPorts x)[i := p]\<rparr>)"
    using assms(3) by (auto simp: wf_superio_def dest!: set_update_subset_insert [THEN subsetD])
  then show ?thesis using assms(1) unfolding with_serial_def
    by (intro raise_all_ok) (simp add: machine_ok_def lines_ok_def)
qed

text \<open>What an access must not do, by the device that answers it.\<close>

definition secondary_port :: "u32 \<Rightarrow> bool" where
  "secondary_port port \<longleftrightarrow> kSecondaryCommandBasePort \<le> port \<and> port \<le> kSecondaryCommandLastPort"

definition config_window :: "u32 \<Rightarrow> u8 \<Rightarrow> bool" where
  "config_window port sz \<longleftrightarrow> (is_config_data port \<longrightarrow> unat (port - 0xCFC) + unat sz \<le> 4)"

definition serial_present :: "nat \<Rightarrow> 'c machine \<Rightarrow> bool" where
  "serial_present i s \<longleftrightarrow> i < 2 \<and> mach_SuperIO s \<noteq> None"

fun safe_read :: "io_dev \<Rightarrow> u32 \<Rightarrow> u8 \<Rightarrow> 'c machine \<Rightarrow> bool" where
  "safe_read Dev_ATA port sz s \<longleftrightarrow> sz \<le> 4 \<and> \<not> secondary_port port"
| "safe_read Dev_PCIBus port sz s \<longleftrightarrow> config_window port sz"
| "safe_read Dev_SuperIO port sz s \<longleftrightarrow> (\<exists>x. mach_SuperIO s = Some x \<and> SuperIO.in_range x)"
| "safe_read (Dev_Serial i) port sz s \<longleftrightarrow> serial_present i s"
| "safe_read _ port sz s \<longleftrightarrow> True"

fun safe_write :: "io_dev \<Rightarrow> u32 \<Rightarrow> u32 \<Rightarrow> u8 \<Rightarrow> 'c machine \<Rightarrow> bool" where
  "safe_write Dev_i8259 port v sz s \<longleftrightarrow>
     whenever (\<lambda>(p, h). stable p) (i8259_IOWrite port v sz (mach_i8259 s))"
| "safe_write Dev_i8254 port v sz s \<longleftrightarrow> (v = 0x34 \<longrightarrow> \<not> joinable (mach_i8254 s))"
| "safe_write Dev_ATA port v sz s \<longleftrightarrow> sz \<le> 4"
| "safe_write Dev_PCIBus port v sz s \<longleftrightarrow> config_window port sz
     \<and> (\<forall>(k, p)\<in>set (m_Devices (mach_PCIBus s)). \<forall>d x i base.
          p = Leaf d x \<longrightarrow> GetIOBar d port = Some (i, base) \<longrightarrow> board_safe i (port - base) v (d, x))"
| "safe_write Dev_SuperIO port v sz s \<longleftrightarrow> (\<exists>x. mach_SuperIO s = Some x \<and> SuperIO.in_range x)"
| "safe_write (Dev_Serial i) port v sz s \<longleftrightarrow> serial_present i s"
| "safe_write _ port v sz s \<longleftrightarrow> True"

lemma serial_present_port:
  assumes "machine_ok s" and "serial_present i s"
  obtains x where "mach_SuperIO s = Some x" and "the_SuperIO s = Inr x"
    and "aget (m_serialPorts x) i = Inr (m_serialPorts x ! i)" and "good_serial (m_serialPorts x ! i)"
  using assms by (auto simp: serial_present_def machine_ok_def wf_superio_def the_SuperIO_def aget_def)

lemma machine_ok_fields:
  "machine_ok s \<Longrightarrow> wf_pic p \<Longrightarrow> stable p \<Longrightarrow> machine_ok (with_i8259 s p)"
  "machine_ok s \<Longrightarrow> wf_superio x \<Longrightarrow> machine_ok (with_SuperIO s x)"
  "machine_ok (s\<lparr>mach_i8254 := t\<rparr>) = machine_ok s"
  by (simp_all add: machine_ok_def lines_ok_def with_i8259_def with_SuperIO_def)

lemma i8259_read_stable:
  assumes "stable s" and "i8259_IORead port sz s v = Inr (s', v', h)"
  shows "stable s'"
proof -
  have poll: "stable t" if "Poll p s = Inr (t, w)" for p t w
  proof -
    have "stable (upd_chip p (\<lambda>c. c\<lparr>m_Poll := False\<rparr>) s)" using assms(1) by (auto simp: stable_chip_def)
    then show ?thesis using that stb.machinery(3)
      by (auto simp: Poll_def Let_def bindr_Inr_iff stable_def split: option.splits)
  qed
  show ?thesis using assms poll
    by (auto simp: i8259_IORead_def CommandRead_def DataRead_def bindr_Inr_iff split: if_splits)
qed

lemma machine_read_ok:
  assumes ok: "machine_ok s" and safe: "safe_read d port sz s"
  shows "returns (\<lambda>(s', v, h). machine_ok s') (machine_IORead ops d port sz s v)"
proof (cases d)
  case Dev_i8259
  note pic = machine_okD(1,2) [OF ok]
  obtain p v' h where p: "i8259_IORead port sz (mach_i8259 s) v = Inr (p, v', h)" "wf_pic p"
    using accesses_return [OF pic] by blast
  then have "stable p" using pic i8259_read_stable by blast
  then show ?thesis using Dev_i8259 p ok by (simp add: machine_ok_fields)
next
  case Dev_ATA
  then show ?thesis using safe ok ata_ports_return [of "mach_ATA s" sz port v] with_ATA_ok [OF ok]
    by (auto simp: machine_okD [OF ok] secondary_port_def elim!: returns_mono)
next
  case Dev_PCIBus
  have "returns (\<lambda>(b, v, h). wf_bus board_good b) (PCIBus_IORead board_ops port sz (mach_PCIBus s) v)"
    using safe Dev_PCIBus machine_okD(5) [OF ok] by (intro board.bus_IORead_wf) (simp_all add: config_window_def)
  then show ?thesis
    unfolding Dev_PCIBus machine_IORead.simps by (rule bus_access_ok(1) [OF ok _ bus_keys(1)])
next
  case Dev_SuperIO
  then show ?thesis
    using safe by (auto simp: the_SuperIO_def machine_okD [OF ok] machine_ok_fields(1,2) [OF ok]
        intro!: returns_mono [OF SuperIO_wf(2)])
next
  case (Dev_Serial i)
  obtain x where x: "mach_SuperIO s = Some x" "the_SuperIO s = Inr x"
    "aget (m_serialPorts x) i = Inr (m_serialPorts x ! i)" "good_serial (m_serialPorts x ! i)"
    using serial_present_port [OF ok, of i] safe Dev_Serial by auto
  have "returns (\<lambda>(p, v). good_serial p) (Serial_IORead ops port sz (m_serialPorts x ! i))"
    using serial_ports_return [OF x(4)] by blast
  then show ?thesis using Dev_Serial x with_serial_ok [OF ok x(1)] by (auto elim!: returns_mono)
qed (use ok in \<open>auto simp: i8254_IORead_def CMOS_IORead_def machine_ok_fields\<close>)

lemma machine_write_ok:
  assumes ok: "machine_ok s" and safe: "safe_write d port v sz s"
  shows "returns (\<lambda>(s', h). machine_ok s') (machine_IOWrite ops d port v sz s)"
proof (cases d)
  case Dev_i8259
  obtain p h where p: "i8259_IOWrite port v sz (mach_i8259 s) = Inr (p, h)" "wf_pic p"
    using accesses_return [OF machine_okD(1,2) [OF ok]] by blast
  then show ?thesis using Dev_i8259 safe ok by (simp add: machine_ok_fields)
next
  case Dev_i8254
  then show ?thesis using safe ok by (auto simp: i8254_IOWrite_def machine_ok_fields)
next
  case Dev_ATA
  then show ?thesis using safe ok ata_ports_return [of "mach_ATA s" sz port v] with_ATA_ok [OF ok]
    by (auto simp: machine_okD [OF ok] elim!: returns_mono)
next
  case Dev_PCIBus
  have "returns (\<lambda>(b, h). wf_bus board_good b) (PCIBus_IOWrite board_ops port v sz (mach_PCIBus s))"
    using safe Dev_PCIBus bus_ports_return [OF machine_okD(5) [OF ok], of port sz v] by (fastforce simp: config_window_def)
  then show ?thesis
    unfolding Dev_PCIBus machine_IOWrite.simps by (rule bus_access_ok(2) [OF ok _ bus_keys(2)])
next
  case Dev_SuperIO
  then show ?thesis
    using safe by (auto simp: the_SuperIO_def machine_okD [OF ok] machine_ok_fields(1,2) [OF ok]
        intro!: returns_mono [OF SuperIO_wf(1)])
next
  case (Dev_Serial i)
  obtain x where x: "mach_SuperIO s = Some x" "the_SuperIO s = Inr x"
    "aget (m_serialPorts x) i = Inr (m_serialPorts x ! i)" "good_serial (m_serialPorts x ! i)"
    using serial_present_port [OF ok, of i] safe Dev_Serial by auto
  have "returns good_serial (Serial_IOWrite ops port v sz (m_serialPorts x ! i))"
    using serial_ports_return [OF x(4)] by blast
  then show ?thesis using Dev_Serial x with_serial_ok [OF ok x(1)] by (auto elim!: returns_mono)
qed (use ok in \<open>auto simp: CMOS_IOWrite_def\<close>)

lemma machine_memory_ok:
  assumes ok: "machine_ok s"
  shows "returns (\<lambda>(s', v, h). machine_ok s') (machine_MMIORead d a sz s v)"
    and "returns (\<lambda>(s', h). machine_ok s') (machine_MMIOWrite d a v sz s)"
proof -
  note bus = board.bus_MMIO_wf [OF machine_okD(5) [OF ok]]
  show "returns (\<lambda>(s', v, h). machine_ok s') (machine_MMIORead d a sz s v)"
    by (cases d; simp add: IODevice_Read_def ok del: returns_bindr)
      (rule bus_access_ok(1) [OF ok bus(1) bus_keys(3)])
  show "returns (\<lambda>(s', h). machine_ok s') (machine_MMIOWrite d a v sz s)"
    by (cases d; simp add: IODevice_Write_def ok del: returns_bindr)
      (rule bus_access_ok(2) [OF ok bus(2) bus_keys(4)])
qed

interpretation machine: io_devices "machine_ops ops" machine_ok safe_read safe_write for ops
  by unfold_locales (simp_all add: machine_ops_def machine_read_ok machine_write_ok machine_memory_ok)

definition responder :: "bool \<Rightarrow> u32 \<Rightarrow> io_dev" where
  "responder enableSuperIO port =
     (case LookupDevice (m_mappedIODevices (xbox_MapIO enableSuperIO)) port of
        Some d \<Rightarrow> d | None \<Rightarrow> Dev_PCIBus)"

lemma responder_safe:
  "ok (responder se port) s \<Longrightarrow> machine.safe_port ok (xbox_MapIO se) port s"
  by (auto simp: machine.safe_port_def responder_def xbox_MapIO_maps split: option.splits)

lemma timer_step_ok:
  assumes "machine_ok s" and "timer_step s = Some m"
  shows "returns machine_ok m"
  using assms by (auto simp: timer_step_def machine_ok_fields intro!: raise_all_ok split: option.splits)


end
