(* ===== verification/CpuMem_Laws.thy ===== *)
theory CpuMem_Laws
  imports CpuMem
begin

text \<open>
  Laws of the CPU base class. Guest memory is abstracted to a function from
  addresses to bytes (\<open>pmem\<close>) and address translation to a page walk over it
  (\<open>walk\<close>); the transfers of \<open>VMemRead\<close> and \<open>VMemWrite\<close>, a page at a time over
  a list of ranges, are shown to implement the transfers byte by byte over the
  abstract memory. The register operations are used through the contract
  \<open>register_file\<close>, which the CPU modules implement.
\<close>

section \<open>Pages\<close>

definition page_room :: "u32 \<Rightarrow> nat" where
  "page_room a = 4096 - unat a mod 4096"

lemma page_room_bounds: "0 < page_room a" "page_room a \<le> 4096"
  by (simp_all add: page_room_def)

lemma and_FFF: "a AND 0xFFF = take_bit 12 (a::u32)"
  by (simp add: take_bit_eq_mask mask_eq_exp_minus_1)

lemma unat_and_FFF: "unat ((a::u32) AND 0xFFF) = unat a mod 4096"
  unfolding and_FFF unsigned_take_bit_eq by (simp only: take_bit_nat_def) simp

lemma page_split:
  obtains q r where "unat (a::u32) = 4096 * q + r" "r < 4096" "q < 1048576"
    "unat a mod 4096 = r" "unat a div 4096 = q"
proof
  show "unat a = 4096 * (unat a div 4096) + unat a mod 4096" by simp
  have "unat a < 4294967296" using unsigned_less [of a] by simp
  then show "unat a div 4096 < 1048576" by (simp add: div_less_iff_less_mult)
qed simp_all

lemma unat_in_page:
  assumes "unat (a::u32) mod 4096 + i < 4096"
  shows "unat (a + of_nat i) = unat a + i"
proof -
  obtain q r where a: "unat a = 4096 * q + r" "r < 4096" "q < 1048576" "unat a mod 4096 = r"
    by (rule page_split)
  have "i < 4096" using assms by simp
  then have i: "unat (of_nat i :: u32) = i" by (simp add: unat_of_nat)
  have "unat a + i < 2 ^ LENGTH(32)" using a assms by simp
  then show ?thesis using unat_add_lem [of a "of_nat i"] by (simp only: i)
qed

lemma same_page:
  assumes "unat (a::u32) mod 4096 + i < 4096"
  shows "drop_bit 12 (a + of_nat i) = drop_bit 12 a"
proof -
  obtain q r where a: "unat a = 4096 * q + r" "r < 4096" "unat a mod 4096 = r" "unat a div 4096 = q"
    by (rule page_split)
  have "(unat a + i) div 4096 = q" using a(1,2) assms unfolding a(3)
    by (intro div_nat_eqI) simp_all
  then have "unat (drop_bit 12 (a + of_nat i)) = unat (drop_bit 12 a)"
    unfolding unat_drop_bit_eq unat_in_page [OF assms] by (simp only: drop_bit_nat_def) (simp add: a(4))
  then show ?thesis by (simp only: word_unat_eq_iff)
qed

lemma page_offset:
  assumes "unat (a::u32) mod 4096 + i < 4096"
  shows "(a + of_nat i) AND 0xFFF = (a AND 0xFFF) + of_nat i"
proof -
  obtain q r where a: "unat a = 4096 * q + r" "r < 4096" "unat a mod 4096 = r"
    by (rule page_split)
  have "(unat a + i) mod 4096 = r + i"
    using mod_less [of "r + i" 4096] assms
    unfolding a(3) by (simp only: a(1) add.assoc mod_mult_self4)
  then have "unat ((a + of_nat i) AND 0xFFF) = unat a mod 4096 + i"
    unfolding unat_and_FFF unat_in_page [OF assms] a(3) .
  moreover have "unat ((a AND 0xFFF) + of_nat i) = unat (a AND 0xFFF) + i"
    by (rule unat_in_page) (use assms in \<open>simp add: unat_and_FFF\<close>)
  ultimately show ?thesis by (simp only: word_unat_eq_iff unat_and_FFF)
qed

lemma and_plus_and_not: "(x AND m) + (x AND NOT m) = (x::'a::len word)"
proof -
  have "(x AND m) + (x AND NOT m) = (x AND m) OR (x AND NOT m)"
    by (rule disjunctive_add_eq_or) (rule bit_word_eqI, simp add: bit_simps)
  also have "\<dots> = x" by (rule bit_word_eqI) (auto simp: bit_simps)
  finally show ?thesis .
qed

lemma page_end:
  "(((v::u32) + 0x1000) AND NOT 0xFFF) = v + of_nat (page_room v)"
proof -
  have low: "(v + 0x1000) AND 0xFFF = v AND 0xFFF"
    proof -
    have "(unat v + 4096) mod 4294967296 mod 4096 = (unat v + 4096) mod 4096"
      by (rule mod_mod_cancel) simp
    then have "unat (v + 0x1000) mod 4096 = unat v mod 4096"
      by (simp add: unat_word_ariths)
    then show ?thesis by (simp only: word_unat_eq_iff unat_and_FFF)
  qed
  have "((v + 0x1000) AND 0xFFF) + ((v + 0x1000) AND NOT 0xFFF) = v + 0x1000"
    by (rule and_plus_and_not)
  then have "(v + 0x1000) AND NOT 0xFFF = v + 0x1000 - (v AND 0xFFF)"
    unfolding low by (simp add: algebra_simps)
  moreover have "of_nat (4096 - unat x) = 0x1000 - (x::u32)" if "unat x \<le> 4096" for x
    using that by (simp add: of_nat_diff)
  then have "(of_nat (page_room v) :: u32) = 0x1000 - (v AND 0xFFF)"
    unfolding page_room_def unat_and_FFF [symmetric]
    by (metis unat_and_FFF mod_less_divisor less_imp_le zero_less_numeral)
  ultimately show ?thesis by simp
qed


section \<open>Guest memory as a function of the address\<close>

definition wf_range :: "PhysicalMemoryRange \<Rightarrow> bool" where
  "wf_range r \<longleftrightarrow> startingAddress r \<le> endingAddress r
     \<and> unat (startingAddress r) mod 4096 = 0 \<and> unat (endingAddress r) mod 4096 = 4095
     \<and> length (data r) = unat (endingAddress r - startingAddress r) + 1"

definition wf_mem :: "PhysicalMemoryRange list \<Rightarrow> bool" where
  "wf_mem m \<longleftrightarrow> list_all wf_range m"

fun pmem :: "PhysicalMemoryRange list \<Rightarrow> u32 \<Rightarrow> u8 option" where
  "pmem [] a = None"
| "pmem (r # rs) a =
     (if startingAddress r \<le> a \<and> a \<le> endingAddress r
      then Some (data r ! unat (a - startingAddress r)) else pmem rs a)"

text \<open>A chunk that stays inside of one page lies in a range as soon as its first byte does.\<close>

definition in_page :: "u32 \<Rightarrow> nat \<Rightarrow> bool" where
  "in_page a n \<longleftrightarrow> 0 < n \<and> unat a mod 4096 + n \<le> 4096"

lemma in_page_byte: "in_page a n \<Longrightarrow> i < n \<Longrightarrow> unat (a + of_nat i) = unat a + i"
  by (rule unat_in_page) (simp add: in_page_def)

lemma page_between:
  fixes s e a i :: nat
  assumes "s mod 4096 = 0" and "e mod 4096 = 4095" and "a mod 4096 + i < 4096"
  shows "(s \<le> a + i \<and> a + i \<le> e) \<longleftrightarrow> (s \<le> a \<and> a \<le> e)"
proof -
  have page: "4096 * p \<le> 4096 * r + y \<longleftrightarrow> p \<le> r" "4096 * r + y \<le> 4096 * q + 4095 \<longleftrightarrow> r \<le> q"
    if "y < 4096" for p q r y :: nat
    using that by linarith+
  define p q r x where "p = s div 4096" and "q = e div 4096" and "r = a div 4096" and "x = a mod 4096"
  have "s = 4096 * p" "e = 4096 * q + 4095" and a: "a = 4096 * r + x"
    using assms(1,2) mult_div_mod_eq [of 4096 s] mult_div_mod_eq [of 4096 e] mult_div_mod_eq [of 4096 a]
    unfolding p_def q_def r_def x_def by linarith+
  moreover have "x < 4096" "x + i < 4096" using assms(3) by (simp_all add: x_def)
  ultimately show ?thesis by (simp only: a add.assoc page)
qed

lemma range_byte:
  assumes "wf_range r" and "in_page a n" and "i < n"
  shows "(startingAddress r \<le> a + of_nat i \<and> a + of_nat i \<le> endingAddress r) \<longleftrightarrow>
    (startingAddress r \<le> a \<and> a \<le> endingAddress r)"
  using assms page_between [of "unat (startingAddress r)" "unat (endingAddress r)" "unat a" i]
  unfolding word_le_nat_alt in_page_byte [OF assms(2,3)]
  by (simp add: wf_range_def in_page_def)

lemma range_offset:
  assumes "wf_range r" and "in_page a n" and "i < n" and "startingAddress r \<le> a" "a \<le> endingAddress r"
  shows "unat (a + of_nat i - startingAddress r) = unat (a - startingAddress r) + i"
    and "unat (a - startingAddress r) + i < length (data r)"
proof -
  have b: "startingAddress r \<le> a + of_nat i" "a + of_nat i \<le> endingAddress r"
    using range_byte [OF assms(1,2,3)] assms(4,5) by auto
  have "startingAddress r \<le> endingAddress r" using assms(1) by (simp add: wf_range_def)
  then have len: "length (data r) = unat (endingAddress r) - unat (startingAddress r) + 1"
    using assms(1) by (simp add: wf_range_def unat_sub)
  show off: "unat (a + of_nat i - startingAddress r) = unat (a - startingAddress r) + i"
    unfolding unat_sub [OF b(1)] unat_sub [OF assms(4)] in_page_byte [OF assms(2,3)]
    using assms(4) by (simp add: word_le_nat_alt)
  show "unat (a - startingAddress r) + i < length (data r)"
    unfolding off [symmetric] unat_sub [OF b(1)] len
    using b by (simp add: word_le_nat_alt)
qed

lemma holds_range_page:
  assumes "wf_range r" and "in_page a (unat sz)"
  shows "holds_range r a sz \<longleftrightarrow> startingAddress r \<le> a \<and> a \<le> endingAddress r"
proof -
  have n: "0 < unat sz" using assms(2) by (simp add: in_page_def)
  then have last: "a + of_nat (unat sz - 1) = a + sz - 1" by (simp add: of_nat_diff)
  have "a \<le> a + sz - 1"
    unfolding word_le_nat_alt last [symmetric]
    by (subst in_page_byte [OF assms(2)]) (use n in simp_all)
  then show ?thesis
    using range_byte [OF assms, of "unat sz - 1"] n order_trans
    unfolding holds_range_def last by auto
qed

lemma mem_read_pmem:
  assumes "wf_mem m" and "in_page a (unat sz)"
  shows "mem_read m a sz = Inr (if pmem m a = None then Inl CPUS_OP_INVALID_ADDRESS
    else Inr (map (\<lambda>i. the (pmem m (a + of_nat i))) [0..<unat sz]))"
  using assms(1)
proof (induction m)
  case (Cons r m)
  then have r: "wf_range r" and m: "wf_mem m" by (simp_all add: wf_mem_def)
  note byte = range_byte [OF r assms(2)]
  show ?case
  proof (cases "startingAddress r \<le> a \<and> a \<le> endingAddress r")
    case True
    then have a: "startingAddress r \<le> a" "a \<le> endingAddress r" by auto
    note off = range_offset [OF r assms(2) _ a]
    have n: "0 < unat sz" using assms(2) by (simp add: in_page_def)
    have "unat (a - startingAddress r) + unat sz \<le> length (data r)"
      using off(2) [of "unat sz - 1"] n by simp
    then show ?thesis
      using True byte off by (auto simp: holds_range_page [OF r assms(2)] Let_def intro!: nth_equalityI)
  next
    case False
    then have out: "\<not> holds_range r a sz" "pmem (r # m) a = pmem m a"
      using False by (auto simp: holds_range_page [OF r assms(2)])
    have "map (\<lambda>i. the (pmem (r # m) (a + of_nat i))) [0..<unat sz] =
        map (\<lambda>i. the (pmem m (a + of_nat i))) [0..<unat sz]"
      using False byte by auto
    then show ?thesis
      unfolding out(2) mem_read.simps by (simp only: out(1) if_False Cons.IH [OF m])
  qed
qed simp

text \<open>A write of a chunk overrides the bytes of the chunk.\<close>

definition override :: "u32 \<Rightarrow> bytes \<Rightarrow> (u32 \<Rightarrow> u8 option) \<Rightarrow> u32 \<Rightarrow> u8 option" where
  "override a v mem x = (if unat (x - a) < length v then Some (v ! unat (x - a)) else mem x)"

lemma range_write:
  assumes r: "wf_range r" and n: "in_page a (length v)"
    and a: "startingAddress r \<le> a" "a \<le> endingAddress r"
    and d: "memcpy (data r) (unat (a - startingAddress r)) v (length v) = Inr d"
  shows "pmem (r\<lparr>data := d\<rparr> # m) = override a v (pmem (r # m))"
proof
  fix x
  let ?s = "startingAddress r"
  note cpy = memcpy_Inr [OF d]
  have inside: "?s \<le> x \<and> x \<le> endingAddress r \<and> unat (x - ?s) = unat (a - ?s) + unat (x - a)"
    if "unat (x - a) < length v"
    using range_byte [OF r n that] range_offset(1) [OF r n that a] a by simp
  have outside: "unat (x - a) = unat (x - ?s) - unat (a - ?s)"
    if "unat (a - ?s) \<le> unat (x - ?s)" "unat (x - ?s) < unat (a - ?s) + length v"
  proof -
    define i where "i = unat (x - ?s) - unat (a - ?s)"
    have i: "i < length v" and x: "unat (x - ?s) = unat (a - ?s) + i" using that by (simp_all add: i_def)
    have "unat (a + of_nat i - ?s) = unat (x - ?s)"
      using range_offset(1) [OF r n i a] x by simp
    then have "a + of_nat i = x" by (simp add: word_unat_eq_iff [symmetric])
    then have "x - a = of_nat i" by auto
    moreover have "i < 4096" using i n by (simp add: in_page_def)
    ultimately show ?thesis by (simp add: i_def [symmetric] unat_of_nat)
  qed
  show "pmem (r\<lparr>data := d\<rparr> # m) x = override a v (pmem (r # m)) x"
  proof (cases "?s \<le> x \<and> x \<le> endingAddress r")
    case True
    then have "unat (x - ?s) < length (data r)"
      using range_offset(2) [OF r, of x 1 0] by (simp add: in_page_def Suc_le_eq)
    then have byte: "d ! unat (x - ?s) =
        (if unat (a - ?s) \<le> unat (x - ?s) \<and> unat (x - ?s) < unat (a - ?s) + length v
         then v ! (unat (x - ?s) - unat (a - ?s)) else data r ! unat (x - ?s))"
      using cpy by blast
    have hit: "unat (x - a) < length v \<longleftrightarrow>
        unat (a - ?s) \<le> unat (x - ?s) \<and> unat (x - ?s) < unat (a - ?s) + length v"
    proof
      assume "unat (x - a) < length v"
      then show "unat (a - ?s) \<le> unat (x - ?s) \<and> unat (x - ?s) < unat (a - ?s) + length v"
        using inside by auto
    next
      assume "unat (a - ?s) \<le> unat (x - ?s) \<and> unat (x - ?s) < unat (a - ?s) + length v"
      then show "unat (x - a) < length v" using outside by (simp add: less_diff_conv2)
    qed
    show ?thesis
    proof (cases "unat (x - a) < length v")
      case in_v: True
      then have "d ! unat (x - ?s) = v ! unat (x - a)" using byte hit outside by simp
      then show ?thesis using True in_v by (simp add: override_def)
    next
      case not_v: False
      then have "d ! unat (x - ?s) = data r ! unat (x - ?s)" using byte hit by presburger
      then show ?thesis using True not_v by (simp add: override_def)
    qed
  next
    case False
    then have "\<not> unat (x - a) < length v" using inside by blast
    moreover have "pmem (r\<lparr>data := d\<rparr> # m) x = pmem m x" "pmem (r # m) x = pmem m x"
      using False by auto
    ultimately show ?thesis by (simp only: override_def if_False)
  qed
qed

lemma mem_write_pmem:
  assumes "wf_mem m" and "in_page a (unat sz)" and "length v = unat sz"
  shows "(pmem m a = None \<and> mem_write m a sz v = Inr (Inl CPUS_OP_INVALID_ADDRESS, m)) \<or>
    (pmem m a \<noteq> None \<and> (\<exists>m'. mem_write m a sz v = Inr (Inr (), m') \<and> wf_mem m'
      \<and> pmem m' = override a v (pmem m)))"
  using assms(1)
proof (induction m)
  case (Cons r m)
  then have r: "wf_range r" and m: "wf_mem m" by (simp_all add: wf_mem_def)
  have n: "in_page a (length v)" using assms by simp
  show ?case
  proof (cases "startingAddress r \<le> a \<and> a \<le> endingAddress r")
    case True
    then have a: "startingAddress r \<le> a" "a \<le> endingAddress r" by auto
    have "unat (a - startingAddress r) + length v \<le> length (data r)"
      using range_offset(2) [OF r n _ a, of "length v - 1"] n by (simp add: in_page_def)
    then obtain d where d: "memcpy (data r) (unat (a - startingAddress r)) v (length v) = Inr d"
      using memcpy_returns by blast
    have "wf_mem (r\<lparr>data := d\<rparr> # m)"
      using r m memcpy_Inr [OF d] by (simp add: wf_mem_def wf_range_def)
    then show ?thesis
      using True d assms(3) range_write [OF r n a d, of m]
      by (simp add: holds_range_page [OF r assms(2)] del: pmem.simps) (simp add: True)
  next
    case False
    then have miss: "\<not> holds_range r a sz" "pmem (r # m) a = pmem m a"
      by (auto simp: holds_range_page [OF r assms(2)])
    have "\<not> unat (x - a) < length v" if "startingAddress r \<le> x \<and> x \<le> endingAddress r" for x
      using range_byte [OF r n, of "unat (x - a)"] that False by auto
    then have "pmem (r # m') = override a v (pmem (r # m))" if "pmem m' = override a v (pmem m)" for m'
      unfolding fun_eq_iff using that by (auto simp: override_def)
    then show ?thesis using Cons.IH [OF m] r miss
      by (auto simp: wf_mem_def simp del: pmem.simps)
  qed
qed simp

section \<open>The page walk\<close>

definition entry_at :: "(u32 \<Rightarrow> u8 option) \<Rightarrow> u32 \<Rightarrow> Pte option" where
  "entry_at mem e = (case mem e of None \<Rightarrow> None
    | Some b \<Rightarrow> Some (Pte_of (le32 b (the (mem (e + 1))) (the (mem (e + 2))) (the (mem (e + 3))))))"

text \<open>The page frame that a virtual page number is mapped to.\<close>

definition large_frame :: "Pte \<Rightarrow> u32 \<Rightarrow> u32" where
  "large_frame pde vpn = page_address pde OR push_bit 12 (vpn AND 0x3FF)"

definition table_offset :: "u32 \<Rightarrow> u32" where
  "table_offset vpn = push_bit 2 (vpn AND 0x3FF)"

definition frame :: "(u32 \<Rightarrow> u8 option) \<Rightarrow> u32 \<Rightarrow> u32 \<Rightarrow> u32 option" where
  "frame mem cr3 vpn =
     (case entry_at mem (cr3 + push_bit 2 (drop_bit 10 vpn)) of None \<Rightarrow> None
      | Some pde \<Rightarrow>
          if pte_largePage pde then Some (large_frame pde vpn)
          else if \<not> pte_valid pde then None
          else case entry_at mem (page_address pde + table_offset vpn) of None \<Rightarrow> None
            | Some pte \<Rightarrow> if pte_valid pte then Some (page_address pte) else None)"

definition walk :: "(u32 \<Rightarrow> u8 option) \<Rightarrow> u32 \<Rightarrow> u32 \<Rightarrow> u32 option" where
  "walk mem cr3 v = map_option (\<lambda>f. f OR (v AND 0xFFF)) (frame mem cr3 (drop_bit 12 v))"

text \<open>The byte at a virtual address.\<close>

definition vbyte :: "(u32 \<Rightarrow> u8 option) \<Rightarrow> u32 \<Rightarrow> u32 \<Rightarrow> u8 option" where
  "vbyte mem cr3 v = Option.bind (walk mem cr3 v) mem"

lemma read_Pte_entry:
  assumes "wf_mem m" and "unat e mod 4 = 0" and "m_physMemMap s = m"
  shows "read_Pte e s = (case entry_at (pmem m) e of None \<Rightarrow> Inl Uninitialised | Some p \<Rightarrow> Inr p)"
proof -
  define x where "x = unat e mod 4096"
  have "x mod 4 = 0" "x < 4096" using assms(2) by (simp_all add: x_def mod_mod_cancel)
  then have "x + 4 \<le> 4096" by presburger
  then have "in_page e (unat (4::u32))" by (simp add: in_page_def x_def)
  then show ?thesis
    unfolding read_Pte_def assms(3)
    by (subst mem_read_pmem [OF assms(1)])
      (auto simp: entry_at_def rd32_def upt_rec split: option.splits)
qed

lemma page_address_low: "page_address e AND 0xFFF = 0"
  by (simp add: page_address_def word_bits bit_simps)

lemma frame_aligned: "frame mem cr3 vpn = Some f \<Longrightarrow> f AND 0xFFF = 0"
proof -
  have "large_frame pde vpn AND 0xFFF = 0" for pde vpn
    by (simp add: large_frame_def page_address_def word_bits bit_simps)
  then show "frame mem cr3 vpn = Some f \<Longrightarrow> f AND 0xFFF = 0"
    by (auto simp: frame_def page_address_low split: option.splits if_splits)
qed

lemma walk_page:
  assumes "unat v mod 4096 + i < 4096"
  shows "walk mem cr3 (v + of_nat i) = map_option (\<lambda>p. p + of_nat i) (walk mem cr3 v)"
proof -
  have add: "f OR x = f + x" if "f AND 0xFFF = 0" "x AND 0xFFF = x" for f x :: u32
  proof (rule disjunctive_add_eq_or [symmetric])
    have "f AND (x AND 0xFFF) = x AND (f AND 0xFFF)" by (simp only: ac_simps)
    then show "f AND x = 0" unfolding that by simp
  qed
  have low: "(x AND 0xFFF) AND 0xFFF = x AND (0xFFF::u32)" for x by (simp add: word_bits bit_simps)
  show ?thesis
  proof (cases "frame mem cr3 (drop_bit 12 v)")
    case (Some f)
    note f = frame_aligned [OF Some]
    have "f OR ((v + of_nat i) AND 0xFFF) = f + ((v + of_nat i) AND 0xFFF)"
      by (rule add [OF f low])
    also have "\<dots> = (f OR (v AND 0xFFF)) + of_nat i"
      unfolding page_offset [OF assms] add [OF f low] by (simp only: add.assoc)
    finally show ?thesis unfolding walk_def same_page [OF assms] Some by simp
  qed (simp add: walk_def same_page [OF assms])
qed

lemma unat_and_3: "unat ((a::u32) AND 3) = unat a mod 4"
proof -
  have "a AND 3 = take_bit 2 a" by (simp add: take_bit_eq_mask mask_eq_exp_minus_1)
  then show ?thesis unfolding unsigned_take_bit_eq by (simp only: take_bit_nat_def unsigned_take_bit_eq) simp
qed

lemma unat_times_4: "unat (push_bit 2 x :: u32) mod 4 = 0"
proof -
  have "push_bit 2 x AND 3 = 0" by (simp add: word_bits bit_simps)
  then show ?thesis by (metis unat_and_3 unat_0)
qed

lemma entry_aligned:
  "unat (a::u32) mod 4 = 0 \<Longrightarrow> unat (a + push_bit 2 x) mod 4 = 0"
proof -
  assume "unat a mod 4 = 0"
  then have "(unat a + unat (push_bit 2 x)) mod 4 = 0" using unat_times_4 by (simp add: mod_add_eq [symmetric])
  moreover have "(unat a + unat (push_bit 2 x)) mod 4294967296 mod 4 = (unat a + unat (push_bit 2 x)) mod 4"
    by (rule mod_mod_cancel) simp
  ultimately show ?thesis by (simp add: unat_word_ariths)
qed

lemma page_address_mod: "unat (page_address e) mod 4 = 0"
proof -
  have "unat (page_address e) mod 4096 = 0"
    using page_address_low [of e] by (metis unat_0 unat_and_FFF)
  moreover have "unat (page_address e) mod 4096 mod 4 = unat (page_address e) mod 4"
    by (rule mod_mod_cancel) simp
  ultimately show ?thesis by simp
qed

lemma word_add_le:
  assumes "(a::u32) \<le> b" and "c \<le> b - a"
  shows "a + c \<le> b"
proof -
  have "unat c \<le> unat b - unat a" "unat a \<le> unat b"
    using assms by (simp_all add: word_le_nat_alt unat_sub)
  moreover have "unat b < 2 ^ LENGTH(32)" by (rule unsigned_less)
  ultimately have "unat a + unat c < 2 ^ LENGTH(32)" "unat a + unat c \<le> unat b" by linarith+
  then show ?thesis unfolding word_le_nat_alt by (simp only: unat_add_lem)
qed

section \<open>Transfers byte by byte\<close>

definition vbytes :: "(u32 \<Rightarrow> u8 option) \<Rightarrow> u32 \<Rightarrow> u32 \<Rightarrow> nat \<Rightarrow> bytes option" where
  "vbytes mem cr3 v n = those (map (\<lambda>i. vbyte mem cr3 (v + of_nat i)) [0..<n])"

lemma those_map_upt:
  "those (map f [0..<n]) =
     (if \<forall>i<n. f i \<noteq> None then Some (map (\<lambda>i. the (f i)) [0..<n]) else None)"
proof -
  have all: "those xs = (if None \<in> set xs then None else Some (map the xs))" for xs :: "'a option list"
    by (induction xs) (auto split: option.splits)
  have "None \<in> set (map f [0..<n]) \<longleftrightarrow> (\<exists>i<n. f i = None)"
    unfolding set_map set_upt image_iff by (metis atLeastLessThan_iff zero_le)
  then show ?thesis unfolding all by (simp add: comp_def)
qed

lemma vbytes_0 [simp]: "vbytes mem cr3 v 0 = Some []"
  by (simp add: vbytes_def)

lemma map_upt_add: "map f [0..<n + k] = map f [0..<n] @ map (\<lambda>i. f (n + i)) [0..<k]"
  by (induction k) simp_all

lemma vbytes_add:
  "vbytes mem cr3 v (n + k) = (case vbytes mem cr3 v n of None \<Rightarrow> None
     | Some a \<Rightarrow> map_option ((@) a) (vbytes mem cr3 (v + of_nat n) k))"
proof -
  let ?f = "\<lambda>i. vbyte mem cr3 (v + of_nat i)"
  have all: "(\<forall>i<n + k. ?f i \<noteq> None) \<longleftrightarrow> (\<forall>i<n. ?f i \<noteq> None) \<and> (\<forall>i<k. ?f (n + i) \<noteq> None)"
  proof (intro iffI allI impI conjI)
    fix i
    assume "(\<forall>i<n. ?f i \<noteq> None) \<and> (\<forall>i<k. ?f (n + i) \<noteq> None)" "i < n + k"
    then show "?f i \<noteq> None"
      by (cases "i < n") (simp, metis le_add_diff_inverse less_diff_conv2 not_less add.commute)
  qed (simp, metis nat_add_left_cancel_less)
  have "map (\<lambda>i. the (?f i)) [0..<n + k] =
      map (\<lambda>i. the (?f i)) [0..<n] @ map (\<lambda>i. the (?f (n + i))) [0..<k]"
    by (rule map_upt_add)
  then show ?thesis
    unfolding vbytes_def those_map_upt all by (simp add: add.assoc)
qed

lemma pmem_page:
  assumes "wf_mem m" and "in_page a n" and "i < n"
  shows "pmem m (a + of_nat i) = None \<longleftrightarrow> pmem m a = None"
  using assms(1)
proof (induction m)
  case (Cons r m)
  then have "wf_range r" "wf_mem m" by (simp_all add: wf_mem_def)
  then show ?case using Cons.IH range_byte [OF _ assms(2,3), of r] by auto
qed simp

lemma walk_offset:
  assumes "walk mem cr3 v = Some pa"
  shows "unat pa mod 4096 = unat v mod 4096"
proof -
  obtain f where f: "frame mem cr3 (drop_bit 12 v) = Some f" "pa = f OR (v AND 0xFFF)"
    using assms by (auto simp: walk_def)
  have "pa AND 0xFFF = (f AND 0xFFF) OR (v AND 0xFFF)"
    unfolding f(2) by (simp add: word_bits bit_simps)
  then have "pa AND 0xFFF = v AND 0xFFF" unfolding frame_aligned [OF f(1)] by simp
  then show ?thesis by (metis unat_and_FFF)
qed

lemma vbytes_chunk:
  assumes "wf_mem m" and "in_page v n"
  shows "vbytes (pmem m) cr3 v n =
    (case walk (pmem m) cr3 v of None \<Rightarrow> None
     | Some pa \<Rightarrow> if pmem m pa = None then None
         else Some (map (\<lambda>i. the (pmem m (pa + of_nat i))) [0..<n]))"
proof -
  have byte: "vbyte (pmem m) cr3 (v + of_nat i) =
      Option.bind (map_option (\<lambda>p. p + of_nat i) (walk (pmem m) cr3 v)) (pmem m)" if "i < n" for i
    using assms(2) that by (simp add: vbyte_def walk_page in_page_def)
  have n: "0 < n" using assms(2) by (simp add: in_page_def)
  show ?thesis
  proof (cases "walk (pmem m) cr3 v")
    case None
    then show ?thesis using byte n by (auto simp: vbytes_def those_map_upt)
  next
    case (Some pa)
    then have "in_page pa n" using assms(2) walk_offset [OF Some] by (simp add: in_page_def)
    then show ?thesis
      using Some byte n pmem_page [OF assms(1)] by (auto simp: vbytes_def those_map_upt)
  qed
qed

lemma page_room_next: "page_room (v + of_nat (page_room v)) = 4096"
proof -
  have "unat (v + of_nat (page_room v)) mod 4096 = 0"
  proof -
    have "(v + of_nat (page_room v)) AND 0xFFF = 0"
      unfolding page_end [symmetric] by (simp add: word_bits bit_simps)
    then show ?thesis by (metis unat_and_FFF unat_0)
  qed
  then show ?thesis by (simp add: page_room_def)
qed

text \<open>Storing bytes at consecutive virtual addresses under a fixed translation.\<close>

fun store :: "(u32 \<Rightarrow> u32) \<Rightarrow> (u32 \<Rightarrow> u8 option) \<Rightarrow> u32 \<Rightarrow> bytes \<Rightarrow> u32 \<Rightarrow> u8 option" where
  "store tr mem v [] = mem"
| "store tr mem v (b # bs) = store tr (mem(tr v \<mapsto> b)) (v + 1) bs"

lemma store_append: "store tr mem v (as @ bs) = store tr (store tr mem v as) (v + of_nat (length as)) bs"
  by (induction as arbitrary: mem v) (simp_all add: add.assoc)

lemma store_outside: "(\<And>i. i < length bs \<Longrightarrow> tr (v + of_nat i) \<noteq> x) \<Longrightarrow> store tr mem v bs x = mem x"
proof (induction bs arbitrary: mem v)
  case (Cons b bs)
  have "tr (v + 1 + of_nat i) \<noteq> x" if "i < length bs" for i
    using Cons.prems [of "Suc i"] that by (simp add: add.assoc)
  moreover have "tr v \<noteq> x" using Cons.prems [of 0] by simp
  ultimately show ?case using Cons.IH by simp
qed simp

lemma store_at:
  assumes "inj_on (\<lambda>i. tr (v + of_nat i)) {..<length bs}" and "i < length bs"
  shows "store tr mem v bs (tr (v + of_nat i)) = Some (bs ! i)"
proof -
  have "tr (v + of_nat i + of_nat (Suc k)) \<noteq> tr (v + of_nat i)" if "Suc k + i < length bs" for k
    using inj_onD [OF assms(1), of "Suc k + i" i] that assms(2) by (auto simp: ac_simps)
  then have rest: "store tr m (v + of_nat i + 1) (drop (Suc i) bs) (tr (v + of_nat i)) = m (tr (v + of_nat i))" for m
    by (intro store_outside) (simp add: add.assoc)
  have "bs = take i bs @ bs ! i # drop (Suc i) bs" by (rule id_take_nth_drop [OF assms(2)])
  then have "store tr mem v bs = store tr mem v (take i bs @ bs ! i # drop (Suc i) bs)" by simp
  then show ?thesis using assms(2) rest by (simp add: store_append)
qed

lemma store_chunk:
  assumes "in_page pa (length bs)" and "\<And>i. i < length bs \<Longrightarrow> tr (v + of_nat i) = pa + of_nat i"
  shows "store tr mem v bs = override pa bs mem"
proof
  fix x
  have small: "length bs \<le> 4096" using assms(1) by (simp add: in_page_def)
  have inj: "inj_on (\<lambda>i. tr (v + of_nat i)) {..<length bs}"
  proof (rule inj_onI)
    fix i j assume ij: "i \<in> {..<length bs}" "j \<in> {..<length bs}" "tr (v + of_nat i) = tr (v + of_nat j)"
    then have "(of_nat i :: u32) = of_nat j" using assms(2) by simp
    then have "unat (of_nat i :: u32) = unat (of_nat j :: u32)" by simp
    then show "i = j" using ij small by (simp add: unat_of_nat)
  qed
  show "store tr mem v bs x = override pa bs mem x"
  proof (cases "unat (x - pa) < length bs")
    case True
    have "x = tr (v + of_nat (unat (x - pa)))" using assms(2) [OF True] by simp
    then show ?thesis using store_at [OF inj True, of mem] True by (simp add: override_def)
  next
    case False
    have "tr (v + of_nat i) \<noteq> x" if "i < length bs" for i
      using False that small assms(2) [OF that] by (auto simp: unat_of_nat)
    then show ?thesis using False by (simp add: store_outside override_def)
  qed
qed

lemma mem_write_take:
  "unat sz \<le> length v \<Longrightarrow> mem_write m a sz v = mem_write m a sz (take (unat sz) v)"
  by (induction m) (simp_all add: memcpy_def)

text \<open>The bytes of the table entries that the walk of an address reads.\<close>

definition entry_bytes :: "u32 \<Rightarrow> u32 set" where
  "entry_bytes e = {e, e + 1, e + 2, e + 3}"

definition tables :: "(u32 \<Rightarrow> u8 option) \<Rightarrow> u32 \<Rightarrow> u32 \<Rightarrow> u32 set" where
  "tables mem cr3 v =
     (let vpn = drop_bit 12 v; e = cr3 + push_bit 2 (drop_bit 10 vpn) in
      entry_bytes e \<union> (case entry_at mem e of None \<Rightarrow> {}
        | Some pde \<Rightarrow> if pte_largePage pde then {} else entry_bytes (page_address pde + table_offset vpn)))"

lemma entry_cong: "(\<And>x. x \<in> entry_bytes e \<Longrightarrow> mem' x = mem x) \<Longrightarrow> entry_at mem' e = entry_at mem e"
proof -
  assume same: "\<And>x. x \<in> entry_bytes e \<Longrightarrow> mem' x = mem x"
  have "mem' e = mem e" "mem' (e + 1) = mem (e + 1)" "mem' (e + 2) = mem (e + 2)" "mem' (e + 3) = mem (e + 3)"
    by (simp_all add: same entry_bytes_def)
  then show ?thesis by (cases "mem e") (simp_all add: entry_at_def)
qed

lemma walk_cong:
  assumes "\<And>x. x \<in> tables mem cr3 v \<Longrightarrow> mem' x = mem x"
  shows "walk mem' cr3 v = walk mem cr3 v"
proof -
  let ?e = "cr3 + push_bit 2 (drop_bit 10 (drop_bit 12 v))"
  have e: "entry_at mem' ?e = entry_at mem ?e"
    using assms by (intro entry_cong) (simp add: tables_def Let_def)
  have "entry_at mem' (page_address p + table_offset (drop_bit 12 v)) =
      entry_at mem (page_address p + table_offset (drop_bit 12 v))"
    if "entry_at mem ?e = Some p" "\<not> pte_largePage p" for p
    using assms that by (intro entry_cong) (simp add: tables_def Let_def)
  then show ?thesis
    unfolding walk_def frame_def e by (simp split: option.split)
qed

text \<open>
  A range of virtual addresses that can be stored to: every byte is mapped,
  no two share a physical byte, and none lies in the tables that translate
  the range.
\<close>

definition storable :: "(u32 \<Rightarrow> u8 option) \<Rightarrow> u32 \<Rightarrow> u32 \<Rightarrow> nat \<Rightarrow> bool" where
  "storable mem cr3 v n \<longleftrightarrow>
     vbytes mem cr3 v n \<noteq> None \<and> inj_on (\<lambda>i. walk mem cr3 (v + of_nat i)) {..<n} \<and>
     (\<forall>i<n. \<forall>j<n. the (walk mem cr3 (v + of_nat j)) \<notin> tables mem cr3 (v + of_nat i))"

lemma vbytes_Some:
  "vbytes mem cr3 v n \<noteq> None \<longleftrightarrow> (\<forall>i<n. \<exists>pa. walk mem cr3 (v + of_nat i) = Some pa \<and> mem pa \<noteq> None)"
proof -
  have "vbyte mem cr3 a \<noteq> None \<longleftrightarrow> (\<exists>pa. walk mem cr3 a = Some pa \<and> mem pa \<noteq> None)" for a
    by (cases "walk mem cr3 a") (simp_all add: vbyte_def)
  then show ?thesis by (simp add: vbytes_def those_map_upt)
qed

lemma first_copy_room: "unat (first_copy v sz) = min (page_room v) (unat (sz - 0))"
proof -
  have "((v + PAGE_SIZE) AND NOT (PAGE_SIZE - 1)) - 1 - v + 1 = of_nat (page_room v)"
    using page_end [of v] by simp
  moreover have "unat (of_nat (page_room v) :: u32) = page_room v"
    using page_room_bounds [of v] by (simp add: unat_of_nat)
  ultimately show ?thesis by (simp add: first_copy_def Let_def word_less_nat_alt)
qed

lemma first_end: "((v + PAGE_SIZE) AND NOT (PAGE_SIZE - 1)) - 1 + 1 = v + of_nat (page_room v)"
  using page_end [of v] by simp

section \<open>The contract of the registers\<close>

text \<open>
  What \<open>Cpu\<close> relies on from an implementation of the virtual register
  operations: in a state that is ready, a register can be read, which changes
  neither the registers nor anything outside of the implementation, and a
  register that is plain storage can be written.
\<close>

locale register_file =
  fixes ops :: "'v cpu_ops"
    and ready :: "'v \<Rightarrow> bool"
    and reg :: "'v \<Rightarrow> CpuReg \<Rightarrow> u32"
    and plain :: "CpuReg set"
  assumes rd: "ready (impl s) \<Longrightarrow> r \<noteq> REG_MAX \<Longrightarrow>
      \<exists>i. vRegRead ops r s = Inr (Inr (reg (impl s) r), s\<lparr>impl := i\<rparr>)
        \<and> ready i \<and> reg i = reg (impl s)"
    and wr: "ready (impl s) \<Longrightarrow> r \<in> plain \<Longrightarrow>
      \<exists>i. vRegWrite ops r v s = Inr (Inr (), s\<lparr>impl := i\<rparr>)
        \<and> ready i \<and> reg i = (reg (impl s))(r := v)"
    and stack_pointer: "REG_ESP \<in> plain"
    and plain_registers: "REG_MAX \<notin> plain"
begin

definition kept :: "'v cpu \<Rightarrow> 'v cpu \<Rightarrow> bool" where
  "kept s s' \<longleftrightarrow> (\<exists>i. s' = s\<lparr>impl := i\<rparr> \<and> ready i \<and> reg i = reg (impl s))"

lemma kept_trans: "kept s t \<Longrightarrow> kept t u \<Longrightarrow> kept s u"
  by (auto simp: kept_def)

lemma kept_refl: "ready (impl s) \<Longrightarrow> kept s s"
  by (auto simp: kept_def intro!: exI [of _ "impl s"])

lemma kept_fields:
  "kept s s' \<Longrightarrow> m_physMemMap s' = m_physMemMap s \<and> ready (impl s') \<and> reg (impl s') = reg (impl s)
     \<and> m_pendingInterrupts s' = m_pendingInterrupts s
     \<and> m_interruptHandlerCredits s' = m_interruptHandlerCredits s"
  by (auto simp: kept_def)

lemma read_kept:
  "ready (impl s) \<Longrightarrow> r \<noteq> REG_MAX \<Longrightarrow>
     \<exists>s'. vRegRead ops r s = Inr (Inr (reg (impl s) r), s') \<and> kept s s'"
  using rd [of s r] by (auto simp: kept_def)

definition usable :: "'v cpu \<Rightarrow> bool" where
  "usable s \<longleftrightarrow> ready (impl s) \<and> wf_mem (m_physMemMap s) \<and> unat (reg (impl s) REG_CR3) mod 4 = 0"

abbreviation mem_of :: "'v cpu \<Rightarrow> u32 \<Rightarrow> u8 option" where
  "mem_of s \<equiv> pmem (m_physMemMap s)"

abbreviation cr3_of :: "'v cpu \<Rightarrow> u32" where
  "cr3_of s \<equiv> reg (impl s) REG_CR3"

lemma kept_usable: "kept s s' \<Longrightarrow> usable s \<Longrightarrow> usable s'"
  by (auto simp: kept_def usable_def)

lemma VirtualToPhysical_walk:
  assumes "usable s"
  shows "\<exists>s'. kept s s' \<and> (case walk (mem_of s) (cr3_of s) v of
      Some pa \<Rightarrow> VirtualToPhysical (vRegRead ops) v s = Inr (Some pa, s')
    | None \<Rightarrow> VirtualToPhysical (vRegRead ops) v s \<in> {Inr (None, s'), Inl Uninitialised})"
proof -
  have s: "ready (impl s)" "wf_mem (m_physMemMap s)" "unat (cr3_of s) mod 4 = 0"
    using assms by (simp_all add: usable_def)
  obtain s' where s': "vRegRead ops REG_CR3 s = Inr (Inr (cr3_of s), s')" "kept s s'"
    using read_kept [OF s(1), of REG_CR3] by auto
  then have m: "m_physMemMap s' = m_physMemMap s" by (simp add: kept_fields)
  note entry = read_Pte_entry [OF s(2) _ m]
  have pde: "push_bit 2 (drop_bit 10 (drop_bit 12 v)) = push_bit 2 (drop_bit 22 v)" by simp
  have pte: "push_bit 2 (drop_bit 22 (push_bit 10 v)) = table_offset (drop_bit 12 v)"
    by (simp add: table_offset_def word_bits bit_simps)
  have large: "page_address p OR (v AND 0x3FFFFF) = large_frame p (drop_bit 12 v) OR (v AND 0xFFF)" for p
    by (simp add: large_frame_def word_bits bit_simps)
  have pde_entry: "read_Pte (cr3_of s + push_bit 2 (drop_bit 22 v)) s' =
      (case entry_at (mem_of s) (cr3_of s + push_bit 2 (drop_bit 22 v)) of
         None \<Rightarrow> Inl Uninitialised | Some p \<Rightarrow> Inr p)"
    by (rule entry [OF entry_aligned [OF s(3)]])
  have pte_entry: "read_Pte (page_address p + table_offset (drop_bit 12 v)) s' =
      (case entry_at (mem_of s) (page_address p + table_offset (drop_bit 12 v)) of
         None \<Rightarrow> Inl Uninitialised | Some p \<Rightarrow> Inr p)" for p
    unfolding table_offset_def by (rule entry [OF entry_aligned [OF page_address_mod]])
  have const: "PAGE_SIZE_LARGE - 1 = (0x3FFFFF::u32)" "PAGE_SIZE - 1 = (0xFFF::u32)" by simp_all
  show ?thesis
    unfolding VirtualToPhysical_def s'(1) walk_def frame_def pde pte const
    by (intro exI [of _ s'] conjI s'(2))
      (simp add: pde_entry pte_entry large split: option.split)
qed

lemma read_chunk:
  assumes "usable s" and "in_page v (unat n)"
  shows "\<exists>s'. kept s s' \<and> (case vbytes (mem_of s) (cr3_of s) v (unat n) of
      Some bs \<Rightarrow> \<exists>pa. VirtualToPhysical (vRegRead ops) v s = Inr (Some pa, s') \<and>
        MemRead pa n s' = Inr (Inr bs, s')
    | None \<Rightarrow> VirtualToPhysical (vRegRead ops) v s \<in> {Inr (None, s'), Inl Uninitialised} \<or>
        (\<exists>pa. VirtualToPhysical (vRegRead ops) v s = Inr (Some pa, s') \<and>
          MemRead pa n s' = Inr (Inl CPUS_OP_INVALID_ADDRESS, s')))"
proof -
  have m: "wf_mem (m_physMemMap s)" using assms(1) by (simp add: usable_def)
  obtain s' where s': "kept s s'" and vtp: "case walk (mem_of s) (cr3_of s) v of
      Some pa \<Rightarrow> VirtualToPhysical (vRegRead ops) v s = Inr (Some pa, s')
    | None \<Rightarrow> VirtualToPhysical (vRegRead ops) v s \<in> {Inr (None, s'), Inl Uninitialised}"
    using VirtualToPhysical_walk [OF assms(1), of v] by auto
  have "in_page pa (unat n)" if "walk (mem_of s) (cr3_of s) v = Some pa" for pa
    using assms(2) walk_offset [OF that] by (simp add: in_page_def)
  then show ?thesis
    using s' vtp kept_fields [OF s'] unfolding vbytes_chunk [OF m assms(2)]
    by (intro exI [of _ s'])
      (auto simp: MemRead_def mem_read_pmem [OF m] split: option.splits)
qed

lemma vmem_read_loop_bytes:
  assumes "usable s" and "pos \<le> sz" and "unat (sz - pos) < n"
    and "srcEnd + 1 = srcStart + of_nat (page_room srcStart)"
    and "unat copySize = min (page_room srcStart) (unat (sz - pos))"
  shows "\<exists>s'. kept s s' \<and> (case vbytes (mem_of s) (cr3_of s) srcStart (unat (sz - pos)) of
      Some bs \<Rightarrow> vmem_read_loop (vRegRead ops) n srcStart srcEnd pos copySize sz buf s = Inr (Inr (buf @ bs), s')
    | None \<Rightarrow> vmem_read_loop (vRegRead ops) n srcStart srcEnd pos copySize sz buf s \<in>
        {Inr (Inl CPUS_OP_INVALID_ADDRESS, s'), Inl Uninitialised})"
  using assms
proof (induction n arbitrary: srcStart srcEnd pos copySize buf s)
  case (Suc n)
  show ?case
  proof (cases "pos < sz")
    case False
    then have "sz - pos = 0" using Suc.prems(2) by simp
    then show ?thesis using False Suc.prems(1) kept_refl by (auto simp: usable_def)
  next
    case True
    define k where "k = unat copySize"
    define pos' where "pos' = pos + copySize"
    define copy' where "copy' = (if PAGE_SIZE < sz - pos' then PAGE_SIZE else sz - pos')"
    have left: "0 < unat (sz - pos)" using True by (simp add: unat_gt_0)
    have k: "0 < k" "k \<le> page_room srcStart" "k \<le> unat (sz - pos)"
      using Suc.prems(5) left page_room_bounds by (simp_all add: k_def)
    have page: "in_page srcStart (unat copySize)"
      using k(1,2) by (simp add: in_page_def page_room_def k_def)
    have "copySize \<le> sz - pos" using k(3) by (simp add: k_def word_le_nat_alt)
    then have rest: "unat (sz - pos') = unat (sz - pos) - k"
      unfolding pos'_def diff_diff_add [symmetric] by (simp add: unat_sub k_def)
    have pos': "pos' \<le> sz"
      using word_add_le [OF Suc.prems(2) \<open>copySize \<le> sz - pos\<close>] by (simp add: pos'_def)
    have split: "vbytes (mem_of s) (cr3_of s) srcStart (unat (sz - pos)) =
        (case vbytes (mem_of s) (cr3_of s) srcStart k of None \<Rightarrow> None
         | Some a \<Rightarrow> map_option ((@) a) (vbytes (mem_of s) (cr3_of s) (srcEnd + 1) (unat (sz - pos'))))"
    proof (cases "k = page_room srcStart")
      case True
      then show ?thesis
        using vbytes_add [of "mem_of s" "cr3_of s" srcStart k "unat (sz - pos')"] k(3) rest
        unfolding Suc.prems(4) True [symmetric] by simp
    next
      case False
      then have "k = unat (sz - pos)" using Suc.prems(5) by (simp add: k_def)
      then show ?thesis using rest by (simp split: option.split)
    qed
    have next_page: "page_room (srcEnd + 1) = 4096"
      unfolding Suc.prems(4) by (rule page_room_next)
    have "unat copy' = min 4096 (unat (sz - pos'))"
      by (simp add: copy'_def word_less_nat_alt)
    then have IH: "usable t \<Longrightarrow> \<exists>s'. kept t s' \<and> (case vbytes (mem_of t) (cr3_of t) (srcEnd + 1) (unat (sz - pos')) of
      Some bs \<Rightarrow> vmem_read_loop (vRegRead ops) n (srcEnd + 1) (srcEnd + PAGE_SIZE) pos' copy' sz b t = Inr (Inr (b @ bs), s')
    | None \<Rightarrow> vmem_read_loop (vRegRead ops) n (srcEnd + 1) (srcEnd + PAGE_SIZE) pos' copy' sz b t \<in>
        {Inr (Inl CPUS_OP_INVALID_ADDRESS, s'), Inl Uninitialised})" for t b
      using Suc.IH [of t pos' "srcEnd + PAGE_SIZE" "srcEnd + 1" copy' b] pos' rest k(1) Suc.prems(3) left
      unfolding next_page by simp
    obtain s' where s': "kept s s'" and chunk: "case vbytes (mem_of s) (cr3_of s) srcStart k of
        Some bs \<Rightarrow> \<exists>pa. VirtualToPhysical (vRegRead ops) srcStart s = Inr (Some pa, s') \<and>
          MemRead pa copySize s' = Inr (Inr bs, s')
      | None \<Rightarrow> VirtualToPhysical (vRegRead ops) srcStart s \<in> {Inr (None, s'), Inl Uninitialised} \<or>
          (\<exists>pa. VirtualToPhysical (vRegRead ops) srcStart s = Inr (Some pa, s') \<and>
            MemRead pa copySize s' = Inr (Inl CPUS_OP_INVALID_ADDRESS, s'))"
      using read_chunk [OF Suc.prems(1) page] unfolding k_def by blast
    show ?thesis
    proof (cases "vbytes (mem_of s) (cr3_of s) srcStart k")
      case None
      then show ?thesis
        using chunk s' True split by (auto simp: check_result_def)
    next
      case (Some bs)
      then obtain pa where pa: "VirtualToPhysical (vRegRead ops) srcStart s = Inr (Some pa, s')"
        "MemRead pa copySize s' = Inr (Inr bs, s')"
        using chunk by auto
      obtain u where u: "kept s' u" and "case vbytes (mem_of s') (cr3_of s') (srcEnd + 1) (unat (sz - pos')) of
        Some cs \<Rightarrow> vmem_read_loop (vRegRead ops) n (srcEnd + 1) (srcEnd + PAGE_SIZE) pos' copy' sz (buf @ bs) s' =
          Inr (Inr ((buf @ bs) @ cs), u)
      | None \<Rightarrow> vmem_read_loop (vRegRead ops) n (srcEnd + 1) (srcEnd + PAGE_SIZE) pos' copy' sz (buf @ bs) s' \<in>
        {Inr (Inl CPUS_OP_INVALID_ADDRESS, u), Inl Uninitialised}"
        using IH [OF kept_usable [OF s' Suc.prems(1)], of "buf @ bs"] by blast
      then show ?thesis
        using kept_trans [OF s' u] kept_fields [OF s'] True pa Some split
        by (intro exI [of _ u])
          (simp add: check_result_def Let_def pos'_def [symmetric] copy'_def [symmetric] split: option.splits)
    qed
  qed
qed simp

text \<open>
  A chunk of a transfer to memory: the translation holds for every memory
  that differs from the current one in the bytes \<open>W\<close> only.
\<close>

definition robust :: "u32 set \<Rightarrow> (u32 \<Rightarrow> u32) \<Rightarrow> (u32 \<Rightarrow> u8 option) \<Rightarrow> u32 \<Rightarrow> u32 \<Rightarrow> nat \<Rightarrow> bool" where
  "robust W tr mem cr3 v n \<longleftrightarrow>
     (\<forall>mem'. (\<forall>x. x \<notin> W \<longrightarrow> mem' x = mem x) \<longrightarrow>
        (\<forall>i<n. walk mem' cr3 (v + of_nat i) = Some (tr (v + of_nat i)))) \<and>
     (\<forall>i<n. tr (v + of_nat i) \<in> W \<and> mem (tr (v + of_nat i)) \<noteq> None)"

definition stored :: "(u32 \<Rightarrow> u8 option) \<Rightarrow> 'v cpu \<Rightarrow> 'v cpu \<Rightarrow> bool" where
  "stored mem s s' \<longleftrightarrow>
     (\<exists>i m. s' = s\<lparr>impl := i, m_physMemMap := m\<rparr> \<and> ready i \<and> reg i = reg (impl s)
        \<and> wf_mem m \<and> pmem m = mem)"

lemma stored_usable: "stored mem s s' \<Longrightarrow> usable s \<Longrightarrow> usable s' \<and> mem_of s' = mem \<and> reg (impl s') = reg (impl s)"
  by (auto simp: stored_def usable_def)

lemma stored_trans: "stored mem s t \<Longrightarrow> stored mem' t u \<Longrightarrow> stored mem' s u"
  unfolding stored_def by (elim exE conjE) (simp, blast)

lemma write_chunk:
  assumes "usable s" and "in_page v (unat n)" and "unat n \<le> length b"
    and "robust W tr (mem_of s) (cr3_of s) v k" and "unat n \<le> k"
  shows "\<exists>pa s' s''. VirtualToPhysical (vRegRead ops) v s = Inr (Some pa, s') \<and>
    MemWrite pa n b s' = Inr (Inr (), s'') \<and>
    stored (store tr (mem_of s) v (take (unat n) b)) s s''"
proof -
  let ?b = "take (unat n) b"
  have m: "wf_mem (m_physMemMap s)" using assms(1) by (simp add: usable_def)
  have n: "0 < unat n" using assms(2) by (simp add: in_page_def)
  have tr: "walk (mem_of s) (cr3_of s) (v + of_nat i) = Some (tr (v + of_nat i))" if "i < k" for i
    using assms(4) that unfolding robust_def by blast
  then have pa: "walk (mem_of s) (cr3_of s) v = Some (tr v)"
    using tr [of 0] n assms(5) by simp
  have mapped: "mem_of s (tr v) \<noteq> None"
  proof -
    have "\<forall>i<k. mem_of s (tr (v + of_nat i)) \<noteq> None" using assms(4) unfolding robust_def by blast
    then show ?thesis using n assms(5) by (auto dest: spec [of _ 0])
  qed
  have lin: "tr (v + of_nat i) = tr v + of_nat i" if "i < unat n" for i
    using walk_page [of v i "mem_of s" "cr3_of s"] tr [of i] pa that assms(2,5) by (simp add: in_page_def)
  have page: "in_page (tr v) (unat n)" using assms(2) walk_offset [OF pa] by (simp add: in_page_def)
  obtain s' where s': "kept s s'" "VirtualToPhysical (vRegRead ops) v s = Inr (Some (tr v), s')"
    using VirtualToPhysical_walk [OF assms(1), of v] pa by auto
  have len: "length ?b = unat n" using assms(3) by simp
  obtain m' where m': "mem_write (m_physMemMap s) (tr v) n ?b = Inr (Inr (), m')" "wf_mem m'"
      "pmem m' = override (tr v) ?b (mem_of s)"
    using mem_write_pmem [OF m page len] mapped by auto
  then have "MemWrite (tr v) n b s' = Inr (Inr (), s'\<lparr>m_physMemMap := m'\<rparr>)"
    using kept_fields [OF s'(1)] by (simp add: MemWrite_def mem_write_take [OF assms(3)])
  moreover have "store tr (mem_of s) v ?b = pmem m'"
    unfolding m'(3) using page len lin by (intro store_chunk) auto
  ultimately show ?thesis
    using s' m'(2) by (intro exI [of _ "tr v"] exI [of _ s'] exI [of _ "s'\<lparr>m_physMemMap := m'\<rparr>"])
      (auto simp: stored_def kept_def)
qed

lemma robust_step:
  assumes "robust W tr mem cr3 v n" and "length b \<le> n"
  shows "robust W tr (store tr mem v b) cr3 (v + of_nat (length b)) (n - length b)"
proof -
  have W: "tr (v + of_nat i) \<in> W" if "i < n" for i using assms(1) that by (simp add: robust_def)
  have out: "store tr mem v b x = mem x" if "x \<notin> W" for x
    using W assms(2) that by (intro store_outside) force
  have mapped: "store tr mem' v' b' x \<noteq> None" if "mem' x \<noteq> None" for mem' v' b' x
    using that by (induction b' arbitrary: mem' v') auto
  have rng: "v + of_nat (length b) + of_nat i = v + of_nat (length b + i)" for i
    by (simp add: add.assoc)
  show ?thesis
    unfolding robust_def
  proof (intro conjI allI impI)
    fix mem' i
    assume "\<forall>x. x \<notin> W \<longrightarrow> mem' x = store tr mem v b x" and i: "i < n - length b"
    then have "\<forall>x. x \<notin> W \<longrightarrow> mem' x = mem x" using out by simp
    then show "walk mem' cr3 (v + of_nat (length b) + of_nat i) = Some (tr (v + of_nat (length b) + of_nat i))"
      using assms(1) less_diff_conv [of i n "length b"] i unfolding rng robust_def
      by (metis add.commute)
  next
    fix i
    assume "i < n - length b"
    then have i: "length b + i < n" by simp
    then show "tr (v + of_nat (length b) + of_nat i) \<in> W"
      "store tr mem v b (tr (v + of_nat (length b) + of_nat i)) \<noteq> None"
      using assms(1) W mapped unfolding rng robust_def by blast+
  qed
qed

lemma vmem_write_loop_store:
  assumes "usable s" and "pos \<le> sz" and "unat (sz - pos) < n"
    and "srcEnd + 1 = srcStart + of_nat (page_room srcStart)"
    and "unat copySize = min (page_room srcStart) (unat (sz - pos))"
    and "length b = unat sz"
    and "robust W tr (mem_of s) (cr3_of s) srcStart (unat (sz - pos))"
  shows "\<exists>s'. vmem_write_loop (vRegRead ops) n srcStart srcEnd pos copySize sz b s = Inr (Inr sz, s') \<and>
    stored (store tr (mem_of s) srcStart (drop (unat pos) b)) s s'"
  using assms
proof (induction n arbitrary: srcStart srcEnd pos copySize s)
  case (Suc n)
  show ?case
  proof (cases "pos < sz")
    case False
    then have "pos = sz" using Suc.prems(2) by simp
    then show ?thesis
      using Suc.prems(1,6) by (auto simp: stored_def usable_def intro!: exI [of _ s] exI [of _ "impl s"] exI [of _ "m_physMemMap s"])
  next
    case True
    define k where "k = unat copySize"
    define pos' where "pos' = pos + copySize"
    define copy' where "copy' = (if PAGE_SIZE < sz - pos' then PAGE_SIZE else sz - pos')"
    have left: "0 < unat (sz - pos)" using True by (simp add: unat_gt_0)
    have k: "0 < k" "k \<le> page_room srcStart" "k \<le> unat (sz - pos)"
      using Suc.prems(5) left page_room_bounds by (simp_all add: k_def)
    have page: "in_page srcStart (unat copySize)"
      using k(1,2) by (simp add: in_page_def page_room_def k_def)
    have c: "copySize \<le> sz - pos" using k(3) by (simp add: k_def word_le_nat_alt)
    then have rest: "unat (sz - pos') = unat (sz - pos) - k"
      unfolding pos'_def diff_diff_add [symmetric] by (simp add: unat_sub k_def)
    have pos': "pos' \<le> sz"
      using word_add_le [OF Suc.prems(2) c] by (simp add: pos'_def)
    have sum: "unat pos' = unat pos + k"
    proof -
      have "unat pos \<le> unat sz" using Suc.prems(2) by (simp add: word_le_nat_alt)
      moreover have "unat (sz - pos) = unat sz - unat pos" by (rule unat_sub [OF Suc.prems(2)])
      moreover have "unat sz < 2 ^ LENGTH(32)" by (rule unsigned_less)
      ultimately have "unat pos + unat copySize < 2 ^ LENGTH(32)" using k(3) unfolding k_def by linarith
      then show ?thesis unfolding pos'_def k_def by (simp only: unat_add_lem)
    qed
    let ?b = "drop (unat pos) b"
    have len: "unat copySize \<le> length ?b"
      using k(3) Suc.prems(2,6) by (simp add: k_def unat_sub)
    obtain pa s' s'' where chunk: "VirtualToPhysical (vRegRead ops) srcStart s = Inr (Some pa, s')"
        "MemWrite pa copySize ?b s' = Inr (Inr (), s'')"
        "stored (store tr (mem_of s) srcStart (take k ?b)) s s''"
      using write_chunk [OF Suc.prems(1) page len Suc.prems(7)] k(3) unfolding k_def by blast
    note s'' = stored_usable [OF chunk(3) Suc.prems(1)]
    have taken: "length (take k ?b) = k" using len by (simp add: k_def)
    have next_start: "robust W tr (mem_of s'') (cr3_of s'') (srcEnd + 1) (unat (sz - pos')) \<and>
        store tr (mem_of s'') (srcEnd + 1) (drop (unat pos') b) = store tr (mem_of s) srcStart ?b"
    proof -
      have drops: "drop (unat pos') b = drop k ?b" by (simp add: sum add.commute)
      have whole: "store tr (mem_of s) srcStart ?b =
          store tr (mem_of s'') (srcStart + of_nat k) (drop k ?b)"
        using store_append [of tr "mem_of s" srcStart "take k ?b" "drop k ?b"] s''
        unfolding taken append_take_drop_id by simp
      have rob: "robust W tr (mem_of s'') (cr3_of s'') (srcStart + of_nat k) (unat (sz - pos'))"
        using robust_step [OF Suc.prems(7), of "take k ?b"] taken k(3) s'' rest by simp
      show ?thesis
      proof (cases "k = page_room srcStart")
        case True
        then show ?thesis using rob whole drops unfolding Suc.prems(4) True [symmetric] by simp
      next
        case False
        then have "k = unat (sz - pos)" using Suc.prems(5) by (simp add: k_def)
        then have "unat (sz - pos') = 0" "length (drop k ?b) = 0"
          using rest Suc.prems(2,6) by (simp_all add: unat_sub)
        then show ?thesis using whole drops rob unfolding robust_def by simp
      qed
    qed
    have "page_room (srcEnd + 1) = 4096"
      unfolding Suc.prems(4) by (rule page_room_next)
    moreover have "unat copy' = min 4096 (unat (sz - pos'))"
      by (simp add: copy'_def word_less_nat_alt)
    moreover have "unat (sz - pos') < n" using rest k(1) Suc.prems(3) left by linarith
    ultimately obtain u where u: "vmem_write_loop (vRegRead ops) n (srcEnd + 1) (srcEnd + PAGE_SIZE) pos' copy' sz b s'' =
        Inr (Inr sz, u)" "stored (store tr (mem_of s'') (srcEnd + 1) (drop (unat pos') b)) s'' u"
      using Suc.IH [of s'' pos' "srcEnd + PAGE_SIZE" "srcEnd + 1" copy'] s'' pos' Suc.prems(6)
        next_start by auto
    then show ?thesis
      using True chunk next_start stored_trans [OF chunk(3) u(2)]
      by (intro exI [of _ u])
        (simp add: check_result_def Let_def pos'_def [symmetric] copy'_def [symmetric])
  qed
qed simp

subsection \<open>Whole transfers\<close>

lemma VMemRead_bytes:
  assumes "usable s"
  shows "\<exists>s'. kept s s' \<and> (case vbytes (mem_of s) (cr3_of s) v (unat sz) of
      Some bs \<Rightarrow> VMemRead (vRegRead ops) v sz s = Inr (Inr bs, s')
    | None \<Rightarrow> VMemRead (vRegRead ops) v sz s \<in> {Inr (Inl CPUS_OP_INVALID_ADDRESS, s'), Inl Uninitialised})"
  using vmem_read_loop_bytes [where sz = sz and n = "Suc (unat sz)" and buf = "[]" and pos = 0,
    OF assms _ _ first_end first_copy_room, of v]
  unfolding VMemRead_def append_Nil by simp

lemma storable_robust:
  assumes "storable mem cr3 v n"
  shows "robust ((\<lambda>i. the (walk mem cr3 (v + of_nat i))) ` {..<n}) (\<lambda>a. the (walk mem cr3 a)) mem cr3 v n"
    (is "robust ?W _ _ _ _ _")
  unfolding robust_def
proof (intro conjI allI impI)
  have mapped: "\<exists>pa. walk mem cr3 (v + of_nat i) = Some pa \<and> mem pa \<noteq> None" if "i < n" for i
    using assms that unfolding storable_def vbytes_Some by blast
  {
    fix i assume "i < n"
    then show "the (walk mem cr3 (v + of_nat i)) \<in> ?W" by simp
    show "mem (the (walk mem cr3 (v + of_nat i))) \<noteq> None" using mapped [OF \<open>i < n\<close>] by auto
  }
  fix mem' i
  assume same: "\<forall>x. x \<notin> ?W \<longrightarrow> mem' x = mem x" and i: "i < n"
  have "walk mem' cr3 (v + of_nat i) = walk mem cr3 (v + of_nat i)"
  proof (rule walk_cong)
    fix x
    assume "x \<in> tables mem cr3 (v + of_nat i)"
    then have "x \<notin> ?W" using assms i unfolding storable_def by auto
    then show "mem' x = mem x" using same by simp
  qed
  then show "walk mem' cr3 (v + of_nat i) = Some (the (walk mem cr3 (v + of_nat i)))"
    using mapped [OF i] by auto
qed

lemma VMemWrite_store:
  assumes "usable s" and "storable (mem_of s) (cr3_of s) v (unat sz)" and "length b = unat sz"
  shows "\<exists>s'. VMemWrite (vRegRead ops) v sz b s = Inr (Inr sz, s') \<and>
    stored (store (\<lambda>a. the (walk (mem_of s) (cr3_of s) a)) (mem_of s) v b) s s'"
  using vmem_write_loop_store [where sz = sz and n = "Suc (unat sz)" and pos = 0,
      OF assms(1) _ _ first_end first_copy_room assms(3)] storable_robust [OF assms(2)]
  unfolding VMemWrite_def by simp

text \<open>What is written can be read back.\<close>

lemma storable_read:
  assumes "storable mem cr3 v (length b)"
  shows "vbytes (store (\<lambda>a. the (walk mem cr3 a)) mem v b) cr3 v (length b) = Some b"
proof -
  let ?tr = "\<lambda>a. the (walk mem cr3 a)"
  let ?mem = "store ?tr mem v b"
  have some: "\<exists>pa. walk mem cr3 (v + of_nat i) = Some pa" if "i < length b" for i
    using assms that unfolding storable_def vbytes_Some by blast
  have inj: "inj_on (\<lambda>i. ?tr (v + of_nat i)) {..<length b}"
  proof (rule inj_onI)
    fix i j assume ij: "i \<in> {..<length b}" "j \<in> {..<length b}" "?tr (v + of_nat i) = ?tr (v + of_nat j)"
    then have "walk mem cr3 (v + of_nat i) = walk mem cr3 (v + of_nat j)"
      using some [of i] some [of j] by auto
    then show "i = j" using assms ij(1,2) unfolding storable_def by (auto dest: inj_onD)
  qed
  have same: "walk ?mem cr3 (v + of_nat i) = walk mem cr3 (v + of_nat i)" if "i < length b" for i
  proof (rule walk_cong, rule store_outside)
    fix x j assume "x \<in> tables mem cr3 (v + of_nat i)" "j < length b"
    then show "?tr (v + of_nat j) \<noteq> x" using assms that unfolding storable_def by blast
  qed
  have "vbyte ?mem cr3 (v + of_nat i) = Some (b ! i)" if "i < length b" for i
    using some [OF that] same [OF that] store_at [OF inj that, of mem] by (auto simp: vbyte_def)
  then show ?thesis unfolding vbytes_def those_map_upt by (auto intro!: nth_equalityI)
qed

lemma VMemWrite_VMemRead:
  assumes "usable s" and "storable (mem_of s) (cr3_of s) v (unat sz)" and "length b = unat sz"
  shows "\<exists>s' s''. VMemWrite (vRegRead ops) v sz b s = Inr (Inr sz, s') \<and> VMemRead (vRegRead ops) v sz s' = Inr (Inr b, s'')"
proof -
  obtain s' where s': "VMemWrite (vRegRead ops) v sz b s = Inr (Inr sz, s')"
    "stored (store (\<lambda>a. the (walk (mem_of s) (cr3_of s) a)) (mem_of s) v b) s s'"
    using VMemWrite_store [OF assms] by blast
  note u = stored_usable [OF s'(2) assms(1)]
  have "vbytes (mem_of s') (cr3_of s') v (unat sz) = Some b"
    using storable_read [of "mem_of s" "cr3_of s" v b] assms(2,3) u by simp
  then show ?thesis using s'(1) VMemRead_bytes [of s' v sz] u by auto
qed

subsection \<open>The stack\<close>

lemma rd32_bytes32: "rd32 (bytes32 v) 0 = v"
  by (simp add: rd32_def bytes32_def)

lemma Push_Pop:
  assumes "usable s"
    and "storable (mem_of s) (cr3_of s) (reg (impl s) REG_ESP - 4) 4"
  shows "\<exists>s' s''. Push ops v s = Inr (Inr (), s') \<and> reg (impl s') = (reg (impl s))(REG_ESP := reg (impl s) REG_ESP - 4) \<and>
    Pop ops s' = Inr (Inr v, s'') \<and> reg (impl s'') = reg (impl s)"
proof -
  let ?esp = "reg (impl s) REG_ESP"
  have rdy: "ready (impl s)" using assms(1) by (simp add: usable_def)
  obtain s1 where s1: "vRegRead ops REG_ESP s = Inr (Inr ?esp, s1)" "kept s s1"
    using read_kept [OF rdy, of REG_ESP] by auto
  note k1 = kept_fields [OF s1(2)]
  have u1: "usable s1" by (rule kept_usable [OF s1(2) assms(1)])
  have len: "length (bytes32 v) = unat (4::u32)" "unat (4::u32) = 4" by (simp_all add: bytes32_def)
  obtain s2 where s2: "VMemWrite (vRegRead ops) (?esp - 4) 4 (bytes32 v) s1 = Inr (Inr 4, s2)"
      "stored (store (\<lambda>a. the (walk (mem_of s1) (cr3_of s1) a)) (mem_of s1) (?esp - 4) (bytes32 v)) s1 s2"
    using VMemWrite_store [OF u1 _ len(1)] assms(2) k1 by auto
  note u2 = stored_usable [OF s2(2) u1]
  obtain i3 where s3: "vRegWrite ops REG_ESP (?esp - 4) s2 = Inr (Inr (), s2\<lparr>impl := i3\<rparr>)" "ready i3"
      "reg i3 = (reg (impl s2))(REG_ESP := ?esp - 4)"
    using wr [OF _ stack_pointer, of s2] u2 by (auto simp: usable_def)
  let ?s3 = "s2\<lparr>impl := i3\<rparr>"
  have u3: "usable ?s3" using u1 u2 s3 unfolding usable_def by auto
  have mem3: "vbytes (mem_of ?s3) (cr3_of ?s3) (?esp - 4) 4 = Some (bytes32 v)"
    using storable_read [of "mem_of s" "cr3_of s" "?esp - 4" "bytes32 v"] assms(2) u2 s3 k1 len
    by (simp del: store.simps)
  have push: "Push ops v s = Inr (Inr (), ?s3)"
    by (simp add: Push_def check_result_def s1 s2 s3)
  obtain s4 where s4: "vRegRead ops REG_ESP ?s3 = Inr (Inr (?esp - 4), s4)" "kept ?s3 s4"
    using read_kept [of ?s3 REG_ESP] s3 by auto
  note k4 = kept_fields [OF s4(2)]
  obtain s5 where s5: "VMemRead (vRegRead ops) (?esp - 4) 4 s4 = Inr (Inr (bytes32 v), s5)" "kept s4 s5"
    using VMemRead_bytes [OF kept_usable [OF s4(2) u3], of "?esp - 4" 4] mem3 k4 by auto
  note k5 = kept_fields [OF s5(2)]
  obtain i6 where s6: "vRegWrite ops REG_ESP ?esp s5 = Inr (Inr (), s5\<lparr>impl := i6\<rparr>)"
      "reg i6 = (reg (impl s5))(REG_ESP := ?esp)"
    using wr [OF _ stack_pointer, of s5] k5 by auto
  have "Pop ops ?s3 = Inr (Inr v, s5\<lparr>impl := i6\<rparr>)"
    by (simp add: Pop_def check_result_def s4 s5 s6 op_ok_def rd32_bytes32)
  moreover have "reg i6 = reg (impl s)" using s6(2) k5 k4 s3(3) u2 k1 by auto
  ultimately show ?thesis using push s3(3) u2 k1 by auto
qed

end

end
