(* ===== verification/CpuQueue_Laws.thy ===== *)
theory CpuQueue_Laws
  imports CpuMem
begin

text \<open>
  Laws of the interrupt queue of the CPU base class and of the descriptor
  tables. What the queue relies on from an implementation is the contract
  \<open>interrupt_port\<close>; \<open>log\<close> abstracts the implementation to the vectors that were
  handed to it, in order.
\<close>

section \<open>The interrupt queue\<close>

text \<open>
  Runs and interrupts in any order: \<open>n\<close> counts the runs, \<open>raised\<close> lists the
  vectors that entered the queue, from another thread or from the devices
  that a run reaches.
\<close>

inductive cpu_events ::
  "credit_constants \<Rightarrow> 'v cpu_ops \<Rightarrow> 'v cpu \<Rightarrow> nat \<Rightarrow> u8 list \<Rightarrow> 'v cpu \<Rightarrow> bool"
  for k :: credit_constants and ops :: "'v cpu_ops" and s :: "'v cpu" where
  idle: "cpu_events k ops s 0 [] s"
| running: "cpu_events k ops s n raised t \<Longrightarrow> HandleInterruptQueue k ops t = Inr t' \<Longrightarrow>
    vRunImpl ops t' = Inr (st, u) \<Longrightarrow> m_pendingInterrupts u = m_pendingInterrupts t' @ vs \<Longrightarrow>
    cpu_events k ops s (Suc n) (raised @ vs) u"
| interrupted: "cpu_events k ops s n raised t \<Longrightarrow> Cpu_Interrupt ops v t = Inr (r, u) \<Longrightarrow>
    cpu_events k ops s n (raised @ [v]) u"

definition wf_credits :: "credit_constants \<Rightarrow> bool" where
  "wf_credits k \<longleftrightarrow> kInterruptHandlerIncrement k = 1"

lemma wf_credits_builds: "wf_credits release_build" "wf_credits debug_build"
  by (simp_all add: wf_credits_def release_build_def debug_build_def)

locale interrupt_port =
  fixes ops :: "'v cpu_ops"
    and log :: "'v \<Rightarrow> u8 list"
  assumes inject: "vInjectInterrupt ops v s = Inr (r, s') \<Longrightarrow>
      \<exists>i. s' = s\<lparr>impl := i\<rparr> \<and> log i = log (impl s) @ [v]"
    and can_inject: "vCanInjectInterrupt ops s = Inr (c, s') \<Longrightarrow>
      \<exists>i. s' = s\<lparr>impl := i\<rparr> \<and> log i = log (impl s)"
    and window: "vRequestInterruptWindow ops s = Inr s' \<Longrightarrow>
      \<exists>i. s' = s\<lparr>impl := i\<rparr> \<and> log i = log (impl s)"
    and run: "vRunImpl ops s = Inr (st, s') \<Longrightarrow>
      log (impl s') = log (impl s) \<and> m_interruptHandlerCredits s' = m_interruptHandlerCredits s"
    and accept: "vInterruptImpl ops v s = Inr (res, s') \<Longrightarrow>
      \<exists>i. s' = s\<lparr>impl := i\<rparr> \<and> log i = log (impl s)"
begin

text \<open>Handling the queue takes at most one vector, the oldest, and pays for it.\<close>

lemma HandleInterruptQueue_step:
  assumes "HandleInterruptQueue k ops s = Inr s'" and "wf_credits k"
    and "m_interruptHandlerCredits s \<le> kInterruptHandlerMaxCredits k"
  shows "\<exists>vs. log (impl s') = log (impl s) @ vs
    \<and> m_pendingInterrupts s = vs @ m_pendingInterrupts s'
    \<and> unat (m_interruptHandlerCredits s') + unat (kInterruptHandlerCost k) * length vs
        \<le> unat (m_interruptHandlerCredits s) + 1
    \<and> m_interruptHandlerCredits s' \<le> kInterruptHandlerMaxCredits k"
proof -
  define t where "t = (if m_interruptHandlerCredits s < kInterruptHandlerMaxCredits k
     then s\<lparr>m_interruptHandlerCredits := m_interruptHandlerCredits s + kInterruptHandlerIncrement k\<rparr>
     else s)"
  have inc: "kInterruptHandlerIncrement k = 1" using assms(2) by (simp add: wf_credits_def)
  have sum: "unat (m_interruptHandlerCredits s + 1) = unat (m_interruptHandlerCredits s) + 1"
    if "m_interruptHandlerCredits s < kInterruptHandlerMaxCredits k"
  proof -
    have "unat (m_interruptHandlerCredits s) + unat (1::u8) < 2 ^ LENGTH(8)"
      using that unsigned_less [of "kInterruptHandlerMaxCredits k", where 'a = nat] by (simp add: word_less_nat_alt)
    then show ?thesis by (simp only: unat_add_lem) simp
  qed
  have t: "unat (m_interruptHandlerCredits t) \<le> unat (m_interruptHandlerCredits s) + 1"
    "unat (m_interruptHandlerCredits t) \<le> unat (kInterruptHandlerMaxCredits k)"
    "m_pendingInterrupts t = m_pendingInterrupts s" "impl t = impl s"
    using sum assms(3) by (auto simp: t_def inc word_le_nat_alt word_less_nat_alt)
  consider (none) "m_pendingInterrupts s = []" "s' = t"
    | (some) c u where "vCanInjectInterrupt ops t = Inr (c, u)"
        "(if c then InjectPendingInterrupt k ops u else vRequestInterruptWindow ops u) = Inr s'"
    using assms(1) t(3) unfolding HandleInterruptQueue_def t_def [symmetric] Let_def
    by (auto simp: bindr_Inr_iff split: if_splits)
  then show ?thesis
  proof cases
    case none
    then show ?thesis using t by (intro exI [of _ "[]"]) (simp add: word_le_nat_alt)
  next
    case some
    obtain i where u: "u = t\<lparr>impl := i\<rparr>" "log i = log (impl s)"
      using can_inject [OF some(1)] t(4) by auto
    show ?thesis
    proof (cases "c \<and> \<not> m_interruptHandlerCredits u < kInterruptHandlerCost k \<and> m_pendingInterrupts u \<noteq> []")
      case False
      then have "s' = u \<or> vRequestInterruptWindow ops u = Inr s'"
        using some(2) by (auto simp: InjectPendingInterrupt_def split: if_splits list.splits)
      then show ?thesis
        using window [of u s'] u t by (intro exI [of _ "[]"]) (auto simp: word_le_nat_alt)
    next
      case True
      then obtain v rest where q: "m_pendingInterrupts u = v # rest" by (auto simp: neq_Nil_conv)
      define w where "w = u\<lparr>m_interruptHandlerCredits := m_interruptHandlerCredits u - kInterruptHandlerCost k,
          m_pendingInterrupts := rest\<rparr>"
      obtain r where "vInjectInterrupt ops v w = Inr (r, s')"
        using some(2) True q by (auto simp: InjectPendingInterrupt_def w_def bindr_Inr_iff)
      from inject [OF this] obtain j where j: "s' = w\<lparr>impl := j\<rparr>" "log j = log (impl w) @ [v]" by blast
      have "kInterruptHandlerCost k \<le> m_interruptHandlerCredits u" using True leI by blast
      then have "unat (m_interruptHandlerCredits u - kInterruptHandlerCost k) + unat (kInterruptHandlerCost k) =
          unat (m_interruptHandlerCredits u)"
        by (simp add: unat_sub word_le_nat_alt)
      then show ?thesis
        using j u t q by (intro exI [of _ "[v]"]) (auto simp: w_def word_le_nat_alt)
    qed
  qed
qed

text \<open>The credits bound the rate of interrupts and the vectors leave in the order they came.\<close>

lemma events_rate:
  assumes "cpu_events k ops s n raised t" and "wf_credits k"
    and "m_interruptHandlerCredits s \<le> kInterruptHandlerMaxCredits k"
  shows "m_interruptHandlerCredits t \<le> kInterruptHandlerMaxCredits k \<and>
    (\<exists>vs. log (impl t) = log (impl s) @ vs \<and> m_pendingInterrupts s @ raised = vs @ m_pendingInterrupts t
      \<and> unat (m_interruptHandlerCredits t) + unat (kInterruptHandlerCost k) * length vs
          \<le> unat (m_interruptHandlerCredits s) + n)"
  using assms(1)
proof (induction rule: cpu_events.induct)
  case (running n raised t t' st u vs)
  then obtain ws where ws: "log (impl t) = log (impl s) @ ws"
    "m_pendingInterrupts s @ raised = ws @ m_pendingInterrupts t"
    "unat (m_interruptHandlerCredits t) + unat (kInterruptHandlerCost k) * length ws
       \<le> unat (m_interruptHandlerCredits s) + n"
    and credits: "m_interruptHandlerCredits t \<le> kInterruptHandlerMaxCredits k"
    by blast
  obtain xs where xs: "log (impl t') = log (impl t) @ xs"
    "m_pendingInterrupts t = xs @ m_pendingInterrupts t'"
    "unat (m_interruptHandlerCredits t') + unat (kInterruptHandlerCost k) * length xs
       \<le> unat (m_interruptHandlerCredits t) + 1"
    and max: "m_interruptHandlerCredits t' \<le> kInterruptHandlerMaxCredits k"
    using HandleInterruptQueue_step [OF running(2) assms(2) credits] by blast
  show ?case
    using running(4) run [OF running(3)] ws xs max
    by (auto intro!: exI [of _ "ws @ xs"] simp: distrib_left)
next
  case (interrupted n raised t v r u)
  then show ?case
    using accept [of v "t\<lparr>m_pendingInterrupts := m_pendingInterrupts t @ [v]\<rparr>" r u]
    by (auto simp: Cpu_Interrupt_def)
qed (use assms(3) in auto)

end

section \<open>Descriptors\<close>

lemma u4_eq_bits: "(x::4 word) = y \<longleftrightarrow> list_all (\<lambda>n. bit x n = bit y n) [0,1,2,3]"
  and u2_eq_bits: "(a::2 word) = b \<longleftrightarrow> list_all (\<lambda>n. bit a n = bit b n) [0,1]"
  and u1_eq_bits: "(c::1 word) = d \<longleftrightarrow> bit c 0 = bit d 0"
  by (simp_all add: word_eq_bits upt_rec eval_nat_numeral)

lemma bit_beyond_field:
  "4 \<le> n \<Longrightarrow> \<not> bit (a::4 word) n" "2 \<le> n \<Longrightarrow> \<not> bit (b::2 word) n" "1 \<le> n \<Longrightarrow> \<not> bit (c::1 word) n"
  by (auto dest: bit_imp_le_length)

lemmas field_bits = word_bits u4_eq_bits u2_eq_bits u1_eq_bits bit_beyond_field

lemma rd16_bytes: "rd16 (a # b # xs) 0 = le16 a b" "rd16 (p # q # a # b # xs) 2 = le16 a b"
  "rd16 (p # q # r # s # t # u # a # b # xs) 6 = le16 a b"
  by (simp_all add: rd16_def eval_nat_numeral)

lemma GDTEntry_of_bytes [simp]: "GDTEntry_of (GDTEntry_bytes e) = e"
proof -
  have "ucast (ucast (limitHigh e) OR push_bit 4 (ucast (flags e)) :: u8) = limitHigh e"
    "ucast (drop_bit 4 (ucast (limitHigh e) OR push_bit 4 (ucast (flags e)) :: u8)) = flags e"
    by (simp_all add: field_bits bit_simps)
  then show ?thesis by (simp add: GDTEntry_of_def GDTEntry_bytes_def rd16_bytes)
qed

lemma IDTEntry_of_bytes [simp]: "IDTEntry_of (IDTEntry_bytes e) = e"
proof -
  let ?b = "ucast (idt_type e) OR push_bit 4 (ucast (storageSegment e))
        OR push_bit 5 (ucast (privilegeLevel e)) OR push_bit 7 (ucast (present e)) :: u8"
  have "ucast ?b = idt_type e" "ucast (drop_bit 4 ?b) = storageSegment e"
    "ucast (drop_bit 5 ?b) = privilegeLevel e" "ucast (drop_bit 7 ?b) = present e"
    by (simp_all add: field_bits bit_simps)
  then show ?thesis by (simp add: IDTEntry_of_def IDTEntry_bytes_def rd16_bytes)
qed

lemma GetBase_Set [simp]: "GetBase (GDTEntry_Set base limit acc fl) = base"
  by (simp add: GetBase_def GDTEntry_Set_def word_bits bit_simps)

lemma GetLimit_Set:
  "GetLimit (GDTEntry_Set base limit acc fl) =
     (if bit fl 3 then push_bit 12 (limit AND 0xFFFFF) OR 0xFFF else limit AND 0xFFFFF)"
proof -
  have lim: "ucast (limitLow (GDTEntry_Set base limit acc fl)) OR
      push_bit 16 (ucast (limitHigh (GDTEntry_Set base limit acc fl))) = limit AND 0xFFFFF"
    by (simp add: GDTEntry_Set_def word_bits bit_simps)
  have "tst (flags (GDTEntry_Set base limit acc fl)) 8 \<longleftrightarrow> bit fl 3"
    by (simp add: GDTEntry_Set_def u4_eq_bits bit_simps)
  then show ?thesis by (simp add: GetLimit_def lim Let_def)
qed

lemma GetOffset_Set [simp]: "GetOffset (IDTEntry_Set offset sel ty att) = offset"
  by (simp add: GetOffset_def IDTEntry_Set_def word_bits bit_simps)

lemma GetOffset_SetOffset [simp]: "GetOffset (SetOffset offset e) = offset"
  by (simp add: GetOffset_def SetOffset_def word_bits bit_simps)


end
