(* ===== verification/Haxm_Laws.thy ===== *)
theory Haxm_Laws
  imports Haxm CpuMem_Laws CpuQueue_Laws
begin

text \<open>
  Laws of the HAXM module: its register cache implements the registers of the
  virtual CPU, which makes it a \<open>register_file\<close>; its injection of interrupts is
  an \<open>interrupt_port\<close>; and the string operations of its I/O exits.
\<close>

section \<open>The register cache\<close>

text \<open>The registers as a client sees them: the cached ones, or the driver's when the cache is out of date.\<close>

definition current :: "'h haxm_driver \<Rightarrow> ('h, 'd) haxm \<Rightarrow> vcpu_state" where
  "current D v = (if m_regsDirty v then the (fst (hax_get_regs D (drv v))) else m_regs v)"

definition readable :: "'h haxm_driver \<Rightarrow> ('h, 'd) haxm \<Rightarrow> bool" where
  "readable D v \<longleftrightarrow> (m_regsDirty v \<longrightarrow> fst (hax_get_regs D (drv v)) \<noteq> None)"

definition haxm_reg :: "'h haxm_driver \<Rightarrow> ('h, 'd) haxm \<Rightarrow> CpuReg \<Rightarrow> u32" where
  "haxm_reg D v r = the (get_reg r (current D v))"

definition plain_regs :: "CpuReg set" where
  "plain_regs = {REG_EIP, REG_EAX, REG_ECX, REG_EDX, REG_EBX, REG_ESI, REG_EDI, REG_ESP, REG_EBP,
     REG_CR0, REG_CR2, REG_CR3, REG_CR4}"

lemma current_clean: "\<not> m_regsDirty v \<Longrightarrow> current D v = m_regs v"
  by (simp add: current_def)

lemma get_reg_None [simp]: "get_reg r regs = None \<longleftrightarrow> r = REG_MAX"
  by (cases r) simp_all

lemma Refresh_ready:
  assumes "readable D (impl s)"
  shows "\<exists>i. RefreshRegisters D False s = Inr (Inr (), s\<lparr>impl := i\<rparr>) \<and> \<not> m_regsDirty i
    \<and> m_regs i = current D (impl s) \<and> (m_regsChanged i \<longleftrightarrow> m_regsChanged (impl s))"
proof (cases "m_regsDirty (impl s)")
  case True
  then show ?thesis
    using assms
    by (cases "hax_get_regs D (drv (impl s))")
      (auto simp: RefreshRegisters_def readable_def current_def op_ok_def haxm_GetRegisters_def upd_haxm_def)
qed (auto simp: RefreshRegisters_def current_def op_ok_def intro!: exI [of _ "impl s"])

lemma low_half_low [simp]: "ucast (low_half v r) = v"
  by (rule bit_word_eqI) (auto simp: low_half_def bit_simps)

lemma get_set_reg:
  assumes "r \<in> plain_regs" and "q \<noteq> REG_MAX"
  shows "the (get_reg q (set_reg r v regs)) = (if q = r then v else the (get_reg q regs))"
proof -
  have cr: "ucast (ucast v :: u64) = v" by (simp add: word_bits bit_simps)
  have set: "r \<in> plain_regs \<longleftrightarrow> r \<in> set [REG_EIP, REG_EAX, REG_ECX, REG_EDX, REG_EBX, REG_ESI,
      REG_EDI, REG_ESP, REG_EBP, REG_CR0, REG_CR2, REG_CR3, REG_CR4]"
    by (simp add: plain_regs_def)
  show ?thesis
    using assms(1) by (cases r; simp only: set list.set insert_iff empty_iff CpuReg.distinct simp_thms;
      cases q; simp add: cr plain_regs_def)
qed

lemma plain_not_segment: "r \<in> plain_regs \<Longrightarrow> r \<notin> set segment_regs \<and> r \<noteq> REG_MAX"
  by (auto simp: plain_regs_def segment_regs_def)

lemma haxm_RegRead_current:
  assumes "readable D (impl s)" and "r \<noteq> REG_MAX"
  shows "\<exists>i. haxm_RegRead D r s = Inr (Inr (haxm_reg D (impl s) r), s\<lparr>impl := i\<rparr>)
    \<and> readable D i \<and> current D i = current D (impl s)"
proof -
  obtain i where "RefreshRegisters D False s = Inr (Inr (), s\<lparr>impl := i\<rparr>)" "\<not> m_regsDirty i"
      "m_regs i = current D (impl s)"
    using Refresh_ready [OF assms(1)] by blast
  moreover obtain v where "get_reg r (current D (impl s)) = Some v"
    using assms(2) by (cases "get_reg r (current D (impl s))") auto
  ultimately show ?thesis
    by (intro exI [of _ i])
      (simp add: haxm_RegRead_def check_result_def haxm_reg_def op_ok_def readable_def current_clean)
qed

lemma haxm_RegWrite_plain:
  assumes "readable D (impl s)" and "r \<in> plain_regs"
  shows "\<exists>i. haxm_RegWrite D r v s = Inr (Inr (), s\<lparr>impl := i\<rparr>)
    \<and> readable D i \<and> current D i = set_reg r v (current D (impl s)) \<and> m_regsChanged i"
proof -
  obtain i where "RefreshRegisters D False s = Inr (Inr (), s\<lparr>impl := i\<rparr>)" "\<not> m_regsDirty i"
      "m_regs i = current D (impl s)"
    using Refresh_ready [OF assms(1)] by blast
  then show ?thesis
    using plain_not_segment [OF assms(2)]
    by (intro exI [of _ "i\<lparr>m_regs := set_reg r v (m_regs i), m_regsChanged := True\<rparr>"])
      (simp add: haxm_RegWrite_def check_result_def write_reg_def op_ok_def readable_def upd_haxm_def
        current_clean)
qed

interpretation haxm: register_file "HaxmCpu D io junk" "readable D" "haxm_reg D" plain_regs
  for D io junk
proof
  fix s :: "('a, 'b) haxm_cpu" and r v
  assume ready: "readable D (impl s)"
  {
    assume "r \<noteq> REG_MAX"
    then show "\<exists>i. vRegRead (HaxmCpu D io junk) r s = Inr (Inr (haxm_reg D (impl s) r), s\<lparr>impl := i\<rparr>)
        \<and> readable D i \<and> haxm_reg D i = haxm_reg D (impl s)"
      using haxm_RegRead_current [OF ready] by (force simp: HaxmCpu_def haxm_reg_def)
  }
  assume r: "r \<in> plain_regs"
  obtain i where i: "haxm_RegWrite D r v s = Inr (Inr (), s\<lparr>impl := i\<rparr>)" "readable D i"
      "current D i = set_reg r v (current D (impl s))"
    using haxm_RegWrite_plain [OF ready r] by blast
  have "haxm_reg D i q = ((haxm_reg D (impl s))(r := v)) q" for q
    using get_set_reg [OF r, of q] plain_not_segment [OF r] unfolding haxm_reg_def i(3)
    by (cases "q = REG_MAX") auto
  then have "haxm_reg D i = (haxm_reg D (impl s))(r := v)" by (rule ext)
  then show "\<exists>i. vRegWrite (HaxmCpu D io junk) r v s = Inr (Inr (), s\<lparr>impl := i\<rparr>)
      \<and> readable D i \<and> haxm_reg D i = (haxm_reg D (impl s))(r := v)"
    using i(1,2) by (auto simp: HaxmCpu_def)
qed (simp_all add: plain_regs_def)

lemma HaxmCpu_RegRead [simp]: "vRegRead (HaxmCpu D io junk) = haxm_RegRead D"
  by (simp add: HaxmCpu_def)

text \<open>
  The contract of the driver: it returns the registers that were set last.
\<close>

definition driver_registers :: "'h haxm_driver \<Rightarrow> ('h \<Rightarrow> vcpu_state) \<Rightarrow> bool" where
  "driver_registers D R \<longleftrightarrow>
     (\<forall>h. \<exists>h'. hax_get_regs D h = (Some (R h), h') \<and> R h' = R h) \<and>
     (\<forall>r h. \<exists>h'. hax_set_regs D r h = (True, h') \<and> R h' = r) \<and>
     (\<forall>f h. R (snd (hax_set_fpu D f h)) = R h)"

text \<open>
  A change that is not yet written back is never overwritten by a refresh,
  and a cache that is up to date and unchanged equals the virtual CPU.
\<close>

definition coherent :: "('h \<Rightarrow> vcpu_state) \<Rightarrow> ('h, 'd) haxm \<Rightarrow> bool" where
  "coherent R v \<longleftrightarrow> \<not> (m_regsDirty v \<and> m_regsChanged v) \<and>
     (\<not> m_regsDirty v \<and> \<not> m_regsChanged v \<longrightarrow> m_regs v = R (drv v))"

lemma coherent_refresh:
  assumes "driver_registers D R" and "coherent R (impl s)"
  shows "\<exists>i. RefreshRegisters D False s = Inr (Inr (), s\<lparr>impl := i\<rparr>) \<and> \<not> m_regsDirty i
    \<and> m_regs i = current D (impl s) \<and> coherent R i"
proof (cases "m_regsDirty (impl s)")
  case True
  obtain h' where h': "hax_get_regs D (drv (impl s)) = (Some (R (drv (impl s))), h')" "R h' = R (drv (impl s))"
    using assms(1) unfolding driver_registers_def by blast
  then show ?thesis
    using True assms(2)
    by (simp add: RefreshRegisters_def haxm_GetRegisters_def upd_haxm_def op_ok_def current_def coherent_def)
      (rule exI, rule conjI, rule refl, simp)
next
  case False
  then show ?thesis
    using assms(2) by (auto simp: RefreshRegisters_def op_ok_def current_def intro!: exI [of _ "impl s"])
qed

lemma UpdateRegisters_flushes:
  assumes "driver_registers D R" and "coherent R (impl s)"
  shows "R (drv (impl (UpdateRegisters D s))) = current D (impl s)
    \<and> current D (impl (UpdateRegisters D s)) = current D (impl s) \<and> coherent R (impl (UpdateRegisters D s))"
proof -
  define t where "t = (if m_regsChanged (impl s)
     then upd_haxm (m_regsChanged_update (\<lambda>_. False)) (snd (haxm_SetRegisters D (m_regs (impl s)) s)) else s)"
  obtain h' where h': "hax_set_regs D (m_regs (impl s)) (drv (impl s)) = (True, h')" "R h' = m_regs (impl s)"
    using assms(1) unfolding driver_registers_def by blast
  have get: "fst (hax_get_regs D h) = Some (R h)" for h
    using assms(1) unfolding driver_registers_def by (metis fst_conv)
  have t: "R (drv (impl t)) = current D (impl s)" "current D (impl t) = current D (impl s)" "coherent R (impl t)"
    using assms(2) h' get by (auto simp: t_def haxm_SetRegisters_def upd_haxm_def current_def coherent_def)
  have fpu: "R (snd (hax_set_fpu D f h)) = R h" for f h
    using assms(1) by (simp add: driver_registers_def)
  show ?thesis
    unfolding UpdateRegisters_def t_def [symmetric] Let_def
    using t fpu get
    by (auto simp: haxm_SetFPURegisters_def upd_haxm_def current_def coherent_def split: prod.splits)
      (metis snd_conv)+
qed


section \<open>A sample machine for the witnesses\<close>

text \<open>A driver that stores the registers and the vectors it is given, and never runs anything.\<close>

definition sample_driver :: "(vcpu_state \<times> u32 list) haxm_driver" where
  "sample_driver = \<lparr>hax_create = (\<lambda>h. (CPUS_INIT_OK, h)), hax_block_aligned = (\<lambda>_. True),
     hax_alloc_ram = (\<lambda>_ h. (True, h)), hax_set_ram = (\<lambda>_ _ _ h. (True, h)),
     hax_get_regs = (\<lambda>h. (Some (fst h), h)), hax_set_regs = (\<lambda>r h. (True, (r, snd h))),
     hax_get_fpu = (\<lambda>h. (None, h)), hax_set_fpu = (\<lambda>_ h. (True, h)),
     hax_run = (\<lambda>m t b h. (True, m, t, b, h)),
     hax_interrupt = (\<lambda>v h. (True, (fst h, snd h @ [v]))), hax_set_debug = (\<lambda>_ h. (True, h))\<rparr>"

definition sample_segment :: segment_desc where
  "sample_segment = \<lparr>seg_selector = 0, seg_limit = 0, seg_base = 0, seg_ar = 0\<rparr>"

definition sample_regs :: "u64 \<Rightarrow> vcpu_state" where
  "sample_regs esp = \<lparr>r_rax = 0, r_rcx = 0, r_rdx = 0, r_rbx = 0, r_rsp = esp, r_rbp = 0, r_rsi = 0,
     r_rdi = 0, r_rip = 0, r_rflags = 2, r_cs = sample_segment, r_ss = sample_segment,
     r_ds = sample_segment, r_es = sample_segment, r_fs = sample_segment, r_gs = sample_segment,
     r_tr = sample_segment, r_gdt = sample_segment, r_idt = sample_segment,
     r_cr0 = 0, r_cr2 = 0, r_cr3 = 0, r_cr4 = 0, r_others = []\<rparr>"

definition sample_tunnel :: hax_tunnel where
  "sample_tunnel = \<lparr>exit_status = 0, ready_for_interrupt_injection = 1, request_interrupt_window = 0,
     io_direction = 0, io_df = 0, io_size = 0, io_port_number = 0, io_count = 0,
     debug_rip = 0, debug_dr6 = 0\<rparr>"

text \<open>One page of memory; the first entry of the page directory in it maps the first 4 MB.\<close>

definition sample_page :: bytes where
  "sample_page = 0x81 # replicate 4095 0"

definition sample_cpu_with :: "'h \<Rightarrow> 'd \<Rightarrow> ('h, 'd) haxm_cpu" where
  "sample_cpu_with h d = \<lparr>
     m_physMemMap = [\<lparr>data = sample_page, startingAddress = 0, endingAddress = 0xFFF\<rparr>],
     m_pendingInterrupts = [], m_interruptHandlerCredits = 200,
     impl = \<lparr>m_regs = sample_regs 0, m_fpuRegs = [], m_regsDirty = True, m_fpuRegsDirty = True,
       m_regsChanged = False, m_fpuRegsChanged = False, exitReason = CPU_EXIT_NORMAL,
       m_tunnel = sample_tunnel, m_ioTunnel = [], m_debug = \<lparr>dbg_control = 0, dbg_dr = replicate 8 0\<rparr>,
       drv = h, devs = d\<rparr>\<rparr>"

definition sample_cpu :: "u64 \<Rightarrow> 'd \<Rightarrow> (vcpu_state \<times> u32 list, 'd) haxm_cpu" where
  "sample_cpu esp = sample_cpu_with (sample_regs esp, [])"

definition sample_port :: "('h, u32) haxm_cpu io_port" where
  "sample_port = \<lparr>
     port_IORead = (\<lambda>a z s w. Inr (upd_haxm (devs_update (\<lambda>d. d + 1)) s, devs (impl s), True)),
     port_IOWrite = (\<lambda>a w z s. Inr (s, True)),
     port_MMIORead = (\<lambda>a z s w. Inr (s, w, False)), port_MMIOWrite = (\<lambda>a w z s. Inr (s, False))\<rparr>"

text \<open>An I/O mapper without devices.\<close>

definition no_devices :: "(unit, unit) device_ops" where
  "no_devices = \<lparr>dev_IORead = \<lambda>_. IODevice_Read, dev_IOWrite = \<lambda>_. IODevice_Write,
     dev_MMIORead = \<lambda>_. IODevice_Read, dev_MMIOWrite = \<lambda>_. IODevice_Write\<rparr>"

definition no_ports :: "('h, unit) haxm_cpu io_port" where
  "no_ports = device_port no_devices
     \<lparr>m_mappedIODevices = [], m_mappedMMIODevices = [], m_dynamicDevices = []\<rparr> (\<lambda>d. ([], d))"

lemma sample_driver_registers: "driver_registers sample_driver fst"
  by (simp add: driver_registers_def sample_driver_def)

lemma sample_coherent: "coherent fst (impl (sample_cpu esp d))"
  by (simp add: coherent_def sample_cpu_def sample_cpu_with_def)

lemma sample_current [simp]: "current sample_driver (impl (sample_cpu esp d)) = sample_regs esp"
  by (simp add: current_def sample_cpu_def sample_cpu_with_def sample_driver_def)

lemma sample_readable [simp]: "readable sample_driver (impl (sample_cpu esp d))"
  by (simp add: readable_def sample_driver_def)


section \<open>Guest memory\<close>

abbreviation guest_mem :: "'v cpu \<Rightarrow> u32 \<Rightarrow> u8 option" where
  "guest_mem s \<equiv> pmem (m_physMemMap s)"

definition sound_cpu :: "'h haxm_driver \<Rightarrow> ('h, 'd) haxm_cpu \<Rightarrow> bool" where
  "sound_cpu D s \<longleftrightarrow> readable D (impl s) \<and> wf_mem (m_physMemMap s)
     \<and> unat (haxm_reg D (impl s) REG_CR3) mod 4 = 0"

lemma sound_usable: "haxm.usable D s \<longleftrightarrow> sound_cpu D s"
  by (simp add: haxm.usable_def sound_cpu_def)

abbreviation page_directory :: "'h haxm_driver \<Rightarrow> ('h, 'd) haxm_cpu \<Rightarrow> u32" where
  "page_directory D s \<equiv> haxm_reg D (impl s) REG_CR3"

text \<open>C2: Reading a range of virtual memory page by page, each page through the first
  physical range that holds it, succeeds exactly when every byte of the range is mapped
  and yields what reading it byte by byte through the page tables yields; otherwise the
  read reports an invalid address or has met an entry outside of the guest memory. It always ends and never leaves
  a buffer.\<close>

theorem VMemRead_bytewise:
  assumes "sound_cpu D s"
  shows "\<exists>s'. m_physMemMap s' = m_physMemMap s \<and>
    (case vbytes (guest_mem s) (page_directory D s) v (unat sz) of
       Some bs \<Rightarrow> VMemRead (haxm_RegRead D) v sz s = Inr (Inr bs, s')
     | None \<Rightarrow> VMemRead (haxm_RegRead D) v sz s \<in>
         {Inr (Inl CPUS_OP_INVALID_ADDRESS, s'), Inl Uninitialised})"
  using haxm.VMemRead_bytes [where D = D and s = s and v = v and sz = sz] haxm.kept_fields [where s = s] assms
  unfolding sound_usable HaxmCpu_RegRead by blast

lemma sample_nth: "0 < n \<Longrightarrow> n < 4096 \<Longrightarrow> sample_page ! n = 0"
  by (simp add: sample_page_def nth_Cons')

lemma sample_mem:
  "guest_mem (sample_cpu esp d) a = (if a \<le> 0xFFF then Some (sample_page ! unat a) else None)"
  by (simp add: sample_cpu_def sample_cpu_with_def)

lemma sample_byte: "a \<noteq> 0 \<Longrightarrow> a \<le> 0xFFF \<Longrightarrow> sample_page ! unat (a::u32) = 0"
  by (rule sample_nth) (simp_all add: word_le_nat_alt unat_gt_0)

lemma sample_sound: "sound_cpu sample_driver (sample_cpu esp d)"
proof -
  have "haxm_reg sample_driver (impl (sample_cpu esp d)) REG_CR3 = 0"
    by (simp add: haxm_reg_def sample_regs_def)
  moreover have "wf_mem (m_physMemMap (sample_cpu esp d))"
    by (simp add: sample_cpu_def sample_cpu_with_def wf_mem_def wf_range_def sample_page_def)
  ultimately show ?thesis by (simp add: sound_cpu_def)
qed

lemma sample_directory [simp]: "page_directory sample_driver (sample_cpu esp d) = 0"
  by (simp add: haxm_reg_def sample_regs_def)

lemma sample_entry:
  "entry_at (guest_mem (sample_cpu esp d)) 0 = Some (Pte_of 0x81)"
  by (simp add: entry_at_def sample_mem sample_byte) (simp add: sample_page_def le32_def)

text \<open>The first page is mapped to itself.\<close>

lemma sample_walk:
  assumes "v \<le> 0xFFF"
  shows "walk (guest_mem (sample_cpu esp d)) 0 v = Some v"
proof -
  have v: "drop_bit 12 v = 0" "v AND 0xFFF = v"
  proof -
    have "unat v < 4096" using assms by (simp add: word_le_nat_alt)
    then have "unat (drop_bit 12 v) = 0" "unat (v AND 0xFFF) = unat v"
      unfolding unat_drop_bit_eq unat_and_FFF by (simp_all add: drop_bit_nat_def)
    then show "drop_bit 12 v = 0" "v AND 0xFFF = v" by (simp_all only: unat_eq_0 word_unat_eq_iff)
  qed
  have "page_address (Pte_of 0x81) = 0" "pte_largePage (Pte_of 0x81)" by code_simp+
  then show ?thesis
    unfolding walk_def frame_def v by (simp add: sample_entry large_frame_def)
qed

theorem VMemRead_bytewise_witness:
  "\<exists>s'. VMemRead (haxm_RegRead sample_driver) 0x10 2 (sample_cpu 0 ()) = Inr (Inr [0, 0], s')"
proof -
  have "vbytes (guest_mem (sample_cpu 0 ())) 0 0x10 2 = Some [0, 0]"
    by (simp add: vbytes_def vbyte_def upt_rec sample_walk sample_mem sample_nth)
  then show ?thesis
    using VMemRead_bytewise [OF sample_sound [where esp = 0 and d = "()"], of "0x10" 2] by auto
qed

text \<open>C12: Writing a range of virtual memory whose bytes are all mapped, to different physical
  addresses and outside of the tables that translate them, succeeds: the guest memory is the
  old one with the bytes stored one after the other through the page tables, the registers are
  unchanged, and reading the range returns what was written.\<close>

theorem VMemWrite_stores:
  assumes "sound_cpu D s" and "storable (guest_mem s) (page_directory D s) v (unat sz)"
    and "length b = unat sz"
  shows "\<exists>s' s''. VMemWrite (haxm_RegRead D) v sz b s = Inr (Inr sz, s') \<and>
    guest_mem s' = store (\<lambda>a. the (walk (guest_mem s) (page_directory D s) a)) (guest_mem s) v b \<and>
    sound_cpu D s' \<and> haxm_reg D (impl s') = haxm_reg D (impl s) \<and>
    VMemRead (haxm_RegRead D) v sz s' = Inr (Inr b, s'')"
proof -
  note u = assms(1) [folded sound_usable]
  obtain s' where s': "VMemWrite (haxm_RegRead D) v sz b s = Inr (Inr sz, s')"
    "haxm.stored D (store (\<lambda>a. the (walk (guest_mem s) (page_directory D s) a)) (guest_mem s) v b) s s'"
    using haxm.VMemWrite_store [OF u assms(2,3)] unfolding HaxmCpu_RegRead by blast
  then show ?thesis
    using haxm.stored_usable [OF s'(2) u] haxm.VMemWrite_VMemRead [OF u assms(2,3)]
    unfolding sound_usable HaxmCpu_RegRead by force
qed

lemma sample_tables:
  assumes "v \<le> 0xFFF"
  shows "tables (guest_mem (sample_cpu esp d)) 0 v = {0, 1, 2, 3}"
proof -
  have "drop_bit 10 (drop_bit 12 v) = 0"
  proof -
    have "unat v < 4096" using assms by (simp add: word_le_nat_alt)
    then have "unat (drop_bit 12 v) = 0" unfolding unat_drop_bit_eq by (simp add: drop_bit_nat_def)
    then show ?thesis by (simp add: unat_eq_0)
  qed
  moreover have "pte_largePage (Pte_of 0x81)" by code_simp
  ultimately show ?thesis by (auto simp: tables_def sample_entry entry_bytes_def Let_def)
qed

text \<open>A few bytes of the sample page beyond its first word.\<close>

lemma sample_storable:
  assumes "4 \<le> unat v" and "unat v + n \<le> 4096"
  shows "storable (guest_mem (sample_cpu esp d)) 0 v n"
proof -
  have at: "unat (v + of_nat i) = unat v + i" if "i < n" for i
  proof -
    have i: "unat (of_nat i :: u32) = i" using that assms(2) by (simp add: unat_of_nat)
    have "unat v + unat (of_nat i :: u32) < 2 ^ LENGTH(32)"
      unfolding i using that assms(2) by simp
    then show ?thesis using unat_add_lem [of v "of_nat i"] unfolding i by blast
  qed
  then have le: "v + of_nat i \<le> 0xFFF" if "i < n" for i
    using assms(2) that by (simp add: word_le_nat_alt)
  note walk = sample_walk [OF le]
  have "inj_on (\<lambda>i. walk (guest_mem (sample_cpu esp d)) 0 (v + of_nat i)) {..<n}"
  proof (rule inj_onI)
    fix i j assume "i \<in> {..<n}" "j \<in> {..<n}"
      "walk (guest_mem (sample_cpu esp d)) 0 (v + of_nat i) = walk (guest_mem (sample_cpu esp d)) 0 (v + of_nat j)"
    then have "unat (v + of_nat i) = unat (v + of_nat j)" by (simp add: walk)
    then show "i = j" using at \<open>i \<in> {..<n}\<close> \<open>j \<in> {..<n}\<close> by simp
  qed
  moreover have "v + of_nat j \<notin> {0, 1, 2, 3}" if "j < n" for j
    using at [OF that] assms(1) by (auto simp: word_unat_eq_iff)
  ultimately show ?thesis
    unfolding storable_def vbytes_Some using le by (simp add: walk sample_tables sample_mem)
qed

theorem VMemWrite_stores_witness:
  "\<exists>s' s''. VMemWrite (haxm_RegRead sample_driver) 0x10 2 [1, 2] (sample_cpu 0 ()) = Inr (Inr 2, s') \<and>
    VMemRead (haxm_RegRead sample_driver) 0x10 2 s' = Inr (Inr [1, 2], s'')"
proof -
  have "storable (guest_mem (sample_cpu 0 ())) (page_directory sample_driver (sample_cpu 0 ())) 0x10 (unat (2::u32))"
    using sample_storable [of "0x10" 2 0 "()"] by simp
  then show ?thesis
    using VMemWrite_stores [OF sample_sound [where esp = 0 and d = "()"], of "0x10" 2 "[1, 2]"] by auto
qed

text \<open>A value that is pushed onto the stack is the value that is popped next, and the
  stack pointer and all other registers are then what they were, when the new top of the
  stack is mapped outside of the tables that translate it.\<close>

theorem push_pop_roundtrip:
  assumes "sound_cpu D s"
    and "storable (guest_mem s) (page_directory D s) (haxm_reg D (impl s) REG_ESP - 4) 4"
  shows "\<exists>s' s''. Push (HaxmCpu D io junk) v s = Inr (Inr (), s') \<and>
    haxm_reg D (impl s') REG_ESP = haxm_reg D (impl s) REG_ESP - 4 \<and>
    Pop (HaxmCpu D io junk) s' = Inr (Inr v, s'') \<and> haxm_reg D (impl s'') = haxm_reg D (impl s)"
  using haxm.Push_Pop [where io = io and junk = junk and v = v,
    OF assms(1) [folded sound_usable] assms(2)] by auto

theorem push_pop_roundtrip_witness:
  "\<exists>s' s''. Push (HaxmCpu sample_driver no_ports 0) 0xDEADBEEF (sample_cpu 0x100 ()) = Inr (Inr (), s') \<and>
    Pop (HaxmCpu sample_driver no_ports 0) s' = Inr (Inr 0xDEADBEEF, s'')"
proof -
  have "haxm_reg sample_driver (impl (sample_cpu 0x100 ())) REG_ESP = 0x100"
    by (simp add: haxm_reg_def sample_regs_def)
  then show ?thesis
    using push_pop_roundtrip [OF sample_sound [where esp = "0x100" and d = "()"], of no_ports 0 "0xDEADBEEF"]
      sample_storable [of "0xFC" 4 "0x100" "()"] by auto
qed

section \<open>Interrupts\<close>

text \<open>
  A driver together with the list of the vectors it was handed; it behaves as
  the driver does.
\<close>

definition recording :: "'h haxm_driver \<Rightarrow> ('h \<times> u8 list) haxm_driver" where
  "recording D = \<lparr>
     hax_create = (\<lambda>(h, l). let (st, h) = hax_create D h in (st, (h, l))),
     hax_block_aligned = hax_block_aligned D,
     hax_alloc_ram = (\<lambda>n (h, l). let (ok, h) = hax_alloc_ram D n h in (ok, (h, l))),
     hax_set_ram = (\<lambda>a n r (h, l). let (ok, h) = hax_set_ram D a n r h in (ok, (h, l))),
     hax_get_regs = (\<lambda>(h, l). let (r, h) = hax_get_regs D h in (r, (h, l))),
     hax_set_regs = (\<lambda>r (h, l). let (ok, h) = hax_set_regs D r h in (ok, (h, l))),
     hax_get_fpu = (\<lambda>(h, l). let (r, h) = hax_get_fpu D h in (r, (h, l))),
     hax_set_fpu = (\<lambda>r (h, l). let (ok, h) = hax_set_fpu D r h in (ok, (h, l))),
     hax_run = (\<lambda>m t b (h, l). let (ok, m, t, b, h) = hax_run D m t b h in (ok, m, t, b, (h, l))),
     hax_interrupt = (\<lambda>v (h, l). let (ok, h) = hax_interrupt D v h in (ok, (h, l @ [ucast v]))),
     hax_set_debug = (\<lambda>d (h, l). let (ok, h) = hax_set_debug D d h in (ok, (h, l)))\<rparr>"

abbreviation recorded :: "('h \<times> u8 list, 'd) haxm \<Rightarrow> u8 list" where
  "recorded v \<equiv> snd (drv v)"

definition keeps_log :: "('h \<times> u8 list, 'd) haxm_cpu \<Rightarrow> ('h \<times> u8 list, 'd) haxm_cpu \<Rightarrow> bool" where
  "keeps_log s s' \<longleftrightarrow> recorded (impl s') = recorded (impl s)
     \<and> m_interruptHandlerCredits s' = m_interruptHandlerCredits s"

lemma keeps_log_trans: "keeps_log s t \<Longrightarrow> keeps_log t u \<Longrightarrow> keeps_log s u"
  by (simp add: keeps_log_def)

lemma keeps_log_refl [simp]: "keeps_log s s"
  by (simp add: keeps_log_def)

lemma keeps_log_upd:
  "(\<And>v. recorded (f v) = recorded v) \<Longrightarrow> keeps_log s (upd_haxm f s)"
  by (simp add: keeps_log_def upd_haxm_def)

lemma keeps_log_drain: "keeps_log s (drain_interrupts drain d s)"
  by (simp add: keeps_log_def drain_interrupts_def upd_haxm_def split: prod.split)

lemma port_keeps_log:
  "port_IORead (device_port ops io drain) a z s w = Inr (s', r) \<Longrightarrow> keeps_log s s'"
  "port_IOWrite (device_port ops io drain) a w z s = Inr (s', ok) \<Longrightarrow> keeps_log s s'"
  "port_MMIORead (device_port ops io drain) a z s w = Inr (s', r) \<Longrightarrow> keeps_log s s'"
  "port_MMIOWrite (device_port ops io drain) a w z s = Inr (s', ok) \<Longrightarrow> keeps_log s s'"
  by (auto simp: device_port_def bindr_Inr_iff keeps_log_drain)

lemma element_keeps_log:
  "haxm_element (device_port ops io drain) p dir sz off s = Inr s' \<Longrightarrow> keeps_log s s'"
  unfolding haxm_element_def
  by (auto simp: bindr_Inr_iff split: if_splits dest!: port_keeps_log
      intro: keeps_log_trans [OF _ keeps_log_upd])

lemma elements_keep_log:
  "haxm_elements (device_port ops io drain) p dir sz offs s = Inr s' \<Longrightarrow> keeps_log s s'"
  by (induction offs arbitrary: s)
    (auto simp: bindr_Inr_iff dest!: element_keeps_log intro: keeps_log_trans)

lemma mmio_keeps_log:
  "HandleFastMMIO (device_port ops io drain) junk s = Inr (st, s') \<Longrightarrow> keeps_log s s'"
  unfolding HandleFastMMIO_def Let_def
  by (auto simp: bindr_Inr_iff split: if_splits dest!: port_keeps_log
      intro: keeps_log_trans [OF _ keeps_log_upd] keeps_log_trans)

lemma exec_keeps_log:
  assumes "haxm_HandleExecResult (device_port ops io drain) junk status s = Inr (st, s')"
  shows "keeps_log s s'"
proof -
  define t where "t = upd_haxm (\<lambda>v. v\<lparr>m_regsDirty := True, m_fpuRegsDirty := True\<rparr>) s"
  define u where "u = (case exit_reason (m_tunnel (impl t)) of
     Some r \<Rightarrow> upd_haxm (exitReason_update (\<lambda>_. r)) t | None \<Rightarrow> t)"
  have "keeps_log s t" "keeps_log t u"
    by (auto simp: t_def u_def intro: keeps_log_upd split: option.split)
  moreover have "s' = t \<or> keeps_log u s'"
    using assms unfolding haxm_HandleExecResult_def t_def [symmetric] Let_def u_def [symmetric]
    by (auto simp: haxm_HandleIO_def bindr_Inr_iff split: if_splits dest: elements_keep_log mmio_keeps_log)
  ultimately show ?thesis by (auto intro: keeps_log_trans)
qed

lemma vcpu_keeps_log:
  "keeps_log s (snd (haxm_vcpu_Run (recording D) s))"
  "keeps_log s (UpdateRegisters (recording D) s)"
  "keeps_log s (snd (haxm_SetDebug (recording D) s))"
  by (auto simp: keeps_log_def haxm_vcpu_Run_def recording_def UpdateRegisters_def haxm_SetDebug_def
      haxm_SetRegisters_def haxm_SetFPURegisters_def upd_haxm_def Let_def split: prod.splits)

lemma vector_width [simp]: "ucast (ucast v :: u32) = (v :: u8)"
  by (simp add: word_bits bit_simps)

interpretation haxm_irq: interrupt_port "HaxmCpu (recording D) (device_port ops io drain) junk" recorded
  for D :: "'h haxm_driver" and ops :: "('n, 'd) device_ops" and io drain junk
proof
  fix s s' :: "('h \<times> u8 list, 'd) haxm_cpu" and v :: u8
  {
    fix r assume "vInjectInterrupt (HaxmCpu (recording D) (device_port ops io drain) junk) v s = Inr (r, s')"
    then show "\<exists>i. s' = s\<lparr>impl := i\<rparr> \<and> recorded i = recorded (impl s) @ [v]"
      by (auto simp: HaxmCpu_def haxm_InjectInterrupt_def haxm_vcpu_Interrupt_def recording_def op_ok_def
          op_fail_def upd_haxm_def upd_tunnel_def Let_def split: prod.splits if_splits)
  next
    fix c assume "vCanInjectInterrupt (HaxmCpu (recording D) (device_port ops io drain) junk) s = Inr (c, s')"
    then show "\<exists>i. s' = s\<lparr>impl := i\<rparr> \<and> recorded i = recorded (impl s)"
      by (auto simp: HaxmCpu_def haxm_CanInjectInterrupt_def intro!: exI [of _ "impl s"])
  next
    assume "vRequestInterruptWindow (HaxmCpu (recording D) (device_port ops io drain) junk) s = Inr s'"
    then show "\<exists>i. s' = s\<lparr>impl := i\<rparr> \<and> recorded i = recorded (impl s)"
      by (auto simp: HaxmCpu_def haxm_RequestInterruptWindow_def upd_tunnel_def upd_haxm_def)
  next
    fix st assume "vRunImpl (HaxmCpu (recording D) (device_port ops io drain) junk) s = Inr (st, s')"
    then obtain status u where u: "haxm_vcpu_Run (recording D) (UpdateRegisters (recording D) s) = (status, u)"
      "haxm_HandleExecResult (device_port ops io drain) junk status u = Inr (st, s')"
      by (auto simp: HaxmCpu_def haxm_RunImpl_def Let_def split: prod.splits)
    have "keeps_log (UpdateRegisters (recording D) s) u"
      using vcpu_keeps_log(1) [of "UpdateRegisters (recording D) s" D] u(1) by simp
    then have "keeps_log s s'"
      using exec_keeps_log [OF u(2)] vcpu_keeps_log(2) keeps_log_trans by blast
    then show "recorded (impl s') = recorded (impl s) \<and>
        m_interruptHandlerCredits s' = m_interruptHandlerCredits s"
      by (simp add: keeps_log_def)
  next
    fix res assume "vInterruptImpl (HaxmCpu (recording D) (device_port ops io drain) junk) v s = Inr (res, s')"
    then show "\<exists>i. s' = s\<lparr>impl := i\<rparr> \<and> recorded i = recorded (impl s)"
      by (auto simp: HaxmCpu_def haxm_InterruptImpl_def intro!: exI [of _ "impl s"])
  }
qed

text \<open>C7: However runs of the CPU, interrupts from other threads and interrupts that devices raise
  during a run follow one another, the vectors are handed to the virtual CPU in the order
  they came, none is invented or reordered, and their number is bounded by the credits:
  from \<open>c\<close> credits, \<open>n\<close> runs deliver at most \<open>(c + n) / cost\<close> vectors, and the credits never
  exceed the maximum.\<close>

theorem interrupt_rate_and_order:
  assumes "cpu_events k (HaxmCpu (recording D) (device_port ops io drain) junk) s n raised t"
    and "wf_credits k" and "m_interruptHandlerCredits s \<le> kInterruptHandlerMaxCredits k"
  shows "m_interruptHandlerCredits t \<le> kInterruptHandlerMaxCredits k \<and>
    (\<exists>vs. recorded (impl t) = recorded (impl s) @ vs
      \<and> m_pendingInterrupts s @ raised = vs @ m_pendingInterrupts t
      \<and> unat (kInterruptHandlerCost k) * length vs
          \<le> unat (m_interruptHandlerCredits s) + n - unat (m_interruptHandlerCredits t))"
  using haxm_irq.events_rate [OF assms] by auto

theorem interrupt_rate_and_order_witness:
  "\<exists>t. cpu_events release_build (HaxmCpu (recording sample_driver) no_ports 0)
      (sample_cpu_with ((sample_regs 0, []), []) ()) 1 [0x31] t
    \<and> recorded (impl t) @ m_pendingInterrupts t = [0x31]"
proof -
  let ?ops = "HaxmCpu (recording sample_driver) no_ports 0"
  let ?s = "sample_cpu_with ((sample_regs 0, []), []) ()"
  have raise: "Cpu_Interrupt ?ops 0x31 ?s = Inr (INTR_SUCCESS, ?s\<lparr>m_pendingInterrupts := [0x31]\<rparr>)"
    by (simp add: Cpu_Interrupt_def HaxmCpu_def haxm_InterruptImpl_def sample_cpu_with_def)
  obtain t where inject: "HandleInterruptQueue release_build ?ops (?s\<lparr>m_pendingInterrupts := [0x31]\<rparr>) = Inr t"
      and t: "m_pendingInterrupts t = []" "exit_status (m_tunnel (impl t)) = 0"
        "\<not> m_regsChanged (impl t)" "\<not> m_fpuRegsChanged (impl t)"
    by (simp add: HandleInterruptQueue_def HaxmCpu_def haxm_CanInjectInterrupt_def release_build_def
        InjectPendingInterrupt_def haxm_InjectInterrupt_def haxm_vcpu_Interrupt_def recording_def
        sample_driver_def sample_cpu_with_def sample_tunnel_def op_ok_def upd_haxm_def upd_tunnel_def)
  obtain u where "vRunImpl ?ops t = Inr (CPUS_OK, u)" "m_pendingInterrupts u = []"
    using t by (simp add: HaxmCpu_def haxm_RunImpl_def UpdateRegisters_def haxm_vcpu_Run_def recording_def
        sample_driver_def haxm_HandleExecResult_def exit_reason_def upd_haxm_def split: prod.splits)
  then have "cpu_events release_build ?ops ?s 1 ([] @ [0x31] @ []) u"
    using cpu_events.running [OF cpu_events.interrupted [OF cpu_events.idle raise] inject, of CPUS_OK u "[]"] t
    by simp
  then have run: "cpu_events release_build ?ops ?s 1 [0x31] u" by simp
  have "m_interruptHandlerCredits ?s \<le> kInterruptHandlerMaxCredits release_build"
    by (simp add: sample_cpu_with_def release_build_def)
  then have "recorded (impl u) @ m_pendingInterrupts u = [0x31]"
    using interrupt_rate_and_order [OF run [unfolded no_ports_def] wf_credits_builds(1)]
    by (auto simp: sample_cpu_with_def)
  then show ?thesis using run by blast
qed

section \<open>String input\<close>

definition byte_of :: "u32 \<Rightarrow> nat \<Rightarrow> u8" where
  "byte_of v k = ucast (drop_bit (8 * k) v)"

lemma nth_wr32_byte:
  "j < length b \<Longrightarrow> wr32 b off v ! j = (if off \<le> j \<and> j < off + 4 then byte_of v (j - off) else b ! j)"
proof (cases "off \<le> j \<and> j < off + 4")
  case True
  assume "j < length b"
  moreover obtain k where "j = off + k" "k < 4" using True le_Suc_ex by force
  then have "j = off + k" "k = 0 \<or> k = 1 \<or> k = 2 \<or> k = 3" by linarith+
  ultimately show ?thesis by (elim disjE) (simp_all add: nth_wr32 byte_of_def)
next
  case False
  assume "j < length b"
  then show ?thesis using False by (auto simp: nth_wr32)
qed

text \<open>A port whose reads yield \<open>f\<close> of the state of the devices, which then goes on to \<open>g\<close>.\<close>

definition reads_port :: "('h, 'd) haxm_cpu io_port \<Rightarrow> u16 \<Rightarrow> u16 \<Rightarrow> ('d \<Rightarrow> u32) \<Rightarrow> ('d \<Rightarrow> 'd) \<Rightarrow> bool" where
  "reads_port io p sz f g \<longleftrightarrow> (\<forall>s w. port_IORead io (ucast p) (ucast sz) s w =
     Inr (upd_haxm (devs_update g) s, f (devs (impl s)), True))"

lemma haxm_elements_input:
  assumes "reads_port io p sz f g" and "dir \<noteq> 0" and "\<forall>off\<in>set offs. off + 4 \<le> length (m_ioTunnel (impl s))"
  shows "\<exists>s'. haxm_elements io p dir sz offs s = Inr s' \<and>
    m_ioTunnel (impl s') = fold (\<lambda>(i, off) b. wr32 b off (f ((g ^^ i) (devs (impl s)))))
      (enumerate 0 offs) (m_ioTunnel (impl s))"
proof -
  have "\<exists>s'. haxm_elements io p dir sz offs s = Inr s' \<and>
      m_ioTunnel (impl s') = fold (\<lambda>(i, off) b. wr32 b off (f ((g ^^ i) d)))
        (enumerate n offs) (m_ioTunnel (impl s))"
    if "devs (impl s) = (g ^^ n) d" and "\<forall>off\<in>set offs. off + 4 \<le> length (m_ioTunnel (impl s))" for n d
    using that
  proof (induction offs arbitrary: s n)
    case (Cons off offs)
    let ?s = "upd_haxm (m_ioTunnel_update (\<lambda>b. wr32 b off (f ((g ^^ n) d)))) (upd_haxm (devs_update g) s)"
    have el: "haxm_element io p dir sz off s = Inr ?s"
      using assms(1,2) Cons.prems by (simp add: haxm_element_def reads_port_def)
    have "devs (impl ?s) = (g ^^ Suc n) d" "m_ioTunnel (impl ?s) = wr32 (m_ioTunnel (impl s)) off (f ((g ^^ n) d))"
      using Cons.prems by (simp_all add: upd_haxm_def)
    then show ?case using Cons.IH [of ?s "Suc n"] Cons.prems by (simp add: el)
  qed simp
  from this [of 0] show ?thesis using assms(3) by simp
qed

lemma fold_ascending:
  assumes "sz * n + 4 \<le> length b + sz" and "sz \<le> 4" and "0 < sz" and "j < sz * n"
  shows "fold (\<lambda>(i, off) b. wr32 b off (v i)) (enumerate 0 (map (\<lambda>i. i * sz) [0..<n])) b ! j =
    byte_of (v (j div sz)) (j mod sz)"
  using assms
proof (induction n)
  case (Suc n)
  let ?F = "\<lambda>n. fold (\<lambda>(i, off) b. wr32 b off (v i)) (enumerate 0 (map (\<lambda>i. i * sz) [0..<n])) b"
  have len: "length (fold (\<lambda>(i, off) b. wr32 b off (v i)) xs b) = length b" for xs :: "(nat \<times> nat) list"
    by (induction xs arbitrary: b) auto
  have step: "?F (Suc n) = wr32 (?F n) (n * sz) (v n)" by (simp add: enumerate_append_eq)
  have j: "j < length (?F n)" using Suc.prems unfolding len by simp
  show ?case
  proof (cases "j < sz * n")
    case True
    then have "wr32 (?F n) (n * sz) (v n) ! j = ?F n ! j"
      using nth_wr32_byte [OF j, of "n * sz" "v n"] by (simp add: mult.commute)
    then show ?thesis using Suc.IH Suc.prems True step by simp
  next
    case False
    then have "j div sz = n" "j mod sz = j - n * sz"
      using Suc.prems(3,4) div_nat_eqI [of sz n j] by (simp_all add: mult.commute modulo_nat_def minus_mult_div_eq_mod [symmetric])
    then show ?thesis
      unfolding step nth_wr32_byte [OF j] using False Suc.prems by (simp add: mult.commute)
  qed
qed simp

lemma fold_descending:
  assumes "n + 3 \<le> length b" and "\<And>i. i < n \<Longrightarrow> unat (v i) < 256" and "j < n" and "m \<le> n" and "n - m \<le> j"
  shows "fold (\<lambda>(i, off) b. wr32 b off (v i)) (enumerate 0 (map (\<lambda>i. n - Suc i) [0..<m])) b ! j =
    (if j = n - m then ucast (v (m - 1)) else 0)"
  using assms(4,5)
proof (induction m)
  case (Suc m)
  let ?F = "\<lambda>m. fold (\<lambda>(i, off) b. wr32 b off (v i)) (enumerate 0 (map (\<lambda>i. n - Suc i) [0..<m])) b"
  have len: "length (fold (\<lambda>(i, off) b. wr32 b off (v i)) xs b) = length b" for xs :: "(nat \<times> nat) list"
    by (induction xs arbitrary: b) auto
  have step: "?F (Suc m) = wr32 (?F m) (n - Suc m) (v m)" by (simp add: enumerate_append_eq)
  have j: "j < length (?F m)" using assms(1,3) unfolding len by simp
  have high: "byte_of (v m) k = 0" if "0 < k" for k
  proof -
    have "unat (v m) div 2 ^ (8 * k) = 0"
    proof -
      have "(256::nat) = 2 ^ 8" by simp
      also have "\<dots> \<le> 2 ^ (8 * k)" using that by (intro power_increasing) simp_all
      finally show ?thesis using assms(2) [of m] Suc.prems by simp
    qed
    then have "drop_bit (8 * k) (v m) = 0"
      by (simp add: unat_eq_0 [symmetric] unat_drop_bit_eq drop_bit_nat_def)
    then show ?thesis by (simp add: byte_of_def)
  qed
  show ?case
    unfolding step nth_wr32_byte [OF j]
    using Suc.IH Suc.prems assms(3) high by (auto simp: byte_of_def)
qed (use assms(3) in simp)

text \<open>C19: A string input with the direction flag clear stores the elements one after the other.
  With the flag set, an input of bytes keeps only the byte that is read last: every read stores
  four bytes, and those of the next, lower element clear the elements above it.\<close>

theorem string_input:
  assumes "reads_port io p sz f g" and "dir \<noteq> 0" and "sz \<in> {1, 2, 4}"
    and "unat sz * unat count + 4 \<le> length (m_ioTunnel (impl s)) + unat sz"
  shows "\<exists>s'. haxm_HandleIO io 0 p dir sz count s = Inr (CPUS_OK, s') \<and>
    (\<forall>j < unat sz * unat count. m_ioTunnel (impl s') ! j =
       byte_of (f ((g ^^ (j div unat sz)) (devs (impl s)))) (j mod unat sz)) \<and>
    (sz = 1 \<longrightarrow> df \<noteq> 0 \<longrightarrow> (\<forall>i < unat count. unat (f ((g ^^ i) (devs (impl s)))) < 256) \<longrightarrow>
      (\<exists>s''. haxm_HandleIO io df p dir sz count s = Inr (CPUS_OK, s'') \<and>
        (\<forall>j < unat count. m_ioTunnel (impl s'') ! j =
           (if j = 0 then ucast (f ((g ^^ (unat count - 1)) (devs (impl s)))) else 0))))"
proof -
  have sz: "0 < unat sz" "unat sz \<le> 4" using assms(3) by auto
  let ?v = "\<lambda>i. f ((g ^^ i) (devs (impl s)))"
  have fits: "\<forall>off\<in>set (map (string_offset d (unat sz) (unat count)) [0..<unat count]).
      off + 4 \<le> length (m_ioTunnel (impl s))" for d
  proof -
    have "string_offset d (unat sz) (unat count) i + 4 \<le> length (m_ioTunnel (impl s))" if "i < unat count" for i
    proof -
      have "unat sz * i + unat sz \<le> unat sz * unat count"
        using that by (metis Suc_leI add.commute mult_Suc_right mult_le_mono2)
      then have "unat sz * unat count - unat sz - i * unat sz + 4 \<le> length (m_ioTunnel (impl s))"
        "i * unat sz + 4 \<le> length (m_ioTunnel (impl s))"
        using assms(4) unfolding mult.commute [of i] by arith+
      then show ?thesis by (simp add: string_offset_def)
    qed
    then show ?thesis by auto
  qed
  have up: "string_offset False (unat sz) (unat count) = (\<lambda>i. i * unat sz)"
    by (rule ext) (simp add: string_offset_def)
  obtain s' where s': "haxm_HandleIO io 0 p dir sz count s = Inr (CPUS_OK, s')"
    "m_ioTunnel (impl s') = fold (\<lambda>(i, off) b. wr32 b off (?v i))
       (enumerate 0 (map (\<lambda>i. i * unat sz) [0..<unat count])) (m_ioTunnel (impl s))"
    using haxm_elements_input [OF assms(1,2) fits [of False]]
    by (auto simp: haxm_HandleIO_def up)
  have down: "\<exists>s''. haxm_HandleIO io df p dir sz count s = Inr (CPUS_OK, s'') \<and>
        (\<forall>j < unat count. m_ioTunnel (impl s'') ! j = (if j = 0 then ucast (?v (unat count - 1)) else 0))"
    if down_case: "sz = 1" "df \<noteq> 0" "\<forall>i < unat count. unat (?v i) < 256"
  proof -
    have low: "string_offset True (unat sz) (unat count) = (\<lambda>i. unat count - Suc i)"
      by (rule ext) (simp add: string_offset_def down_case(1))
    obtain s'' where s'': "haxm_HandleIO io df p dir sz count s = Inr (CPUS_OK, s'')"
      "m_ioTunnel (impl s'') = fold (\<lambda>(i, off) b. wr32 b off (?v i))
         (enumerate 0 (map (\<lambda>i. unat count - Suc i) [0..<unat count])) (m_ioTunnel (impl s))"
      using haxm_elements_input [OF assms(1,2) fits [of True]] down_case(2)
      unfolding low by (auto simp: haxm_HandleIO_def low)
    have "m_ioTunnel (impl s'') ! j = (if j = 0 then ucast (?v (unat count - 1)) else 0)" if "j < unat count" for j
      using fold_descending [of "unat count" "m_ioTunnel (impl s)" ?v j "unat count"] assms(4)
        \<open>sz = 1\<close> \<open>\<forall>i < unat count. unat (?v i) < 256\<close> that
      unfolding s''(2) by simp
    then show ?thesis using s''(1) by blast
  qed
  have "\<forall>j < unat sz * unat count. m_ioTunnel (impl s') ! j = byte_of (?v (j div unat sz)) (j mod unat sz)"
    unfolding s'(2) by (intro allI impI) (rule fold_ascending [OF assms(4) sz(2,1)])
  then show ?thesis using s'(1) down by blast
qed

theorem string_input_witness:
  "\<exists>s' s''. haxm_HandleIO sample_port 0 0x60 1 1 2 (upd_haxm (m_ioTunnel_update (\<lambda>_. replicate 8 0)) (sample_cpu 0 5))
      = Inr (CPUS_OK, s') \<and> m_ioTunnel (impl s') ! 0 = 5 \<and> m_ioTunnel (impl s') ! 1 = 6 \<and>
    haxm_HandleIO sample_port 1 0x60 1 1 2 (upd_haxm (m_ioTunnel_update (\<lambda>_. replicate 8 0)) (sample_cpu 0 5))
      = Inr (CPUS_OK, s'') \<and> m_ioTunnel (impl s'') ! 0 = 6 \<and> m_ioTunnel (impl s'') ! 1 = 0"
proof -
  let ?s = "upd_haxm (m_ioTunnel_update (\<lambda>_. replicate 8 0)) (sample_cpu 0 (5::u32))"
  have port: "reads_port sample_port 0x60 1 (\<lambda>d. d) (\<lambda>d. d + 1)"
    by (simp add: reads_port_def sample_port_def)
  have len: "unat (1::u16) * unat (2::u16) + 4 \<le> length (m_ioTunnel (impl ?s)) + unat (1::u16)"
    by (simp add: upd_haxm_def)
  have devs: "devs (impl ?s) = 5" by (simp add: upd_haxm_def sample_cpu_def sample_cpu_with_def)
  have vals: "\<forall>i<unat (2::u16). unat (((\<lambda>d. d + 1) ^^ i) (5::u32)) < 256"
    by (auto simp: less_2_cases_iff)
  have "byte_of 5 0 = 5" "byte_of 6 0 = 6" by code_simp+
  then show ?thesis
    using string_input [OF port, of 1 2 ?s 1] len vals unfolding devs by force
qed

section \<open>Well-formed memory\<close>

definition wf_region :: "MemoryRegion \<Rightarrow> bool" where
  "wf_region r \<longleftrightarrow> unat (m_start r) mod 4096 = 0 \<and> m_size r mod 4096 = 0 \<and> 0 < m_size r
     \<and> unat (m_start r) + m_size r \<le> 2 ^ 32 \<and> length (m_data r) = m_size r"

lemma wf_region_range:
  assumes "wf_region r"
  shows "wf_range \<lparr>data = m_data r, startingAddress = m_start r,
    endingAddress = m_start r + of_nat (m_size r) - 1\<rparr>"
proof -
  let ?n = "m_size r - 1"
  have n: "0 < m_size r" "unat (m_start r) + ?n < 2 ^ LENGTH(32)" "?n < 2 ^ LENGTH(32)"
    using assms by (auto simp: wf_region_def)
  have last: "m_start r + of_nat (m_size r) - 1 = m_start r + of_nat ?n" (is "?e = _")
    using n(1) by (simp add: of_nat_diff)
  have un: "unat (of_nat ?n :: u32) = ?n" using n(3) by (simp add: unat_of_nat)
  have e: "unat ?e = unat (m_start r) + ?n"
    unfolding last using unat_add_lem [of "m_start r" "of_nat ?n"] n(2) un by simp
  have "?e - m_start r = of_nat ?n" unfolding last by simp
  then have "unat (?e - m_start r) = ?n" using un by simp
  moreover have "(unat (m_start r) + ?n) mod 4096 = 4095"
  proof -
    obtain a b where ab: "unat (m_start r) = 4096 * a" "m_size r = 4096 * b"
      using assms unfolding wf_region_def by (metis mult_div_mod_eq add.right_neutral)
    then have "unat (m_start r) + ?n = 4095 + (a + (b - 1)) * 4096" using n(1) by (cases b) auto
    then show ?thesis by (simp only: mod_mult_self1) simp
  qed
  ultimately show ?thesis
    using assms n(1) by (simp add: wf_range_def wf_region_def e word_le_nat_alt)
qed

abbreviation wf_cpu :: "'a \<times> 'v cpu \<Rightarrow> bool" where
  "wf_cpu r \<equiv> wf_mem (m_physMemMap (snd r))"

lemma wheneverI_eq: "(\<And>p. m = Inr p \<Longrightarrow> Q p) \<Longrightarrow> whenever Q m"
  by (cases m) auto

lemma whenever_check:
  assumes "whenever wf_cpu (m s)" and "\<And>a s'. wf_mem (m_physMemMap s') \<Longrightarrow> whenever wf_cpu (f a s')"
  shows "whenever wf_cpu (check_result m f s)"
  unfolding check_result_def whenever_bindr
  by (rule whenever_mono [OF assms(1)]) (auto split: sum.split intro: assms(2))

lemma mem_write_wf:
  "wf_mem m \<Longrightarrow> whenever (\<lambda>r. wf_mem (snd r)) (mem_write m a sz v)"
proof (induction m)
  case (Cons r m)
  have "wf_mem (r\<lparr>data := d\<rparr> # m)" if "memcpy (data r) off v n = Inr d" for off n d
    using memcpy_Inr [OF that] Cons.prems by (simp add: wf_mem_def wf_range_def)
  moreover have "whenever (\<lambda>q. wf_mem (snd q)) (mem_write m a sz v)" and r: "wf_range r"
    using Cons by (simp_all add: wf_mem_def)
  ultimately show ?case
    by (auto simp: whenever_iff bindr_Inr_iff wf_mem_def)
qed simp

lemma MemWrite_wf: "wf_mem (m_physMemMap s) \<Longrightarrow> whenever wf_cpu (MemWrite a sz v s)"
  using mem_write_wf [of "m_physMemMap s" a sz v]
  by (auto simp: MemWrite_def whenever_iff bindr_Inr_iff)

lemma MemRead_wf: "wf_mem (m_physMemMap s) \<Longrightarrow> whenever wf_cpu (MemRead a sz s)"
  by (auto simp: MemRead_def whenever_iff bindr_Inr_iff)

lemma Refresh_wf: "wf_mem (m_physMemMap s) \<Longrightarrow> whenever wf_cpu (RefreshRegisters D fpu s)"
  by (auto simp: RefreshRegisters_def haxm_GetRegisters_def haxm_GetFPURegisters_def upd_haxm_def
      op_ok_def op_fail_def Let_def split: option.splits prod.splits)

lemma haxm_RegRead_wf: "wf_mem (m_physMemMap s) \<Longrightarrow> whenever wf_cpu (haxm_RegRead D r s)"
  unfolding haxm_RegRead_def
  by (rule whenever_check [OF Refresh_wf]) (auto simp: op_ok_def op_fail_def split: option.split)

lemma VirtualToPhysical_wf:
  "wf_mem (m_physMemMap s) \<Longrightarrow> whenever wf_cpu (VirtualToPhysical (haxm_RegRead D) v s)"
  unfolding VirtualToPhysical_def whenever_bindr
  by (rule whenever_mono [OF haxm_RegRead_wf])
    (auto simp: whenever_iff bindr_Inr_iff split: sum.splits if_splits)

lemma vmem_write_loop_wf:
  fixes s :: "('h, 'd) haxm_cpu"
  shows "wf_mem (m_physMemMap s) \<Longrightarrow>
     whenever wf_cpu (vmem_write_loop (haxm_RegRead D) n a e p c sz b s)"
proof (induction n arbitrary: a e p c s)
  case (Suc n)
  have "whenever wf_cpu (check_result (MemWrite pa c v) (\<lambda>_.
      vmem_write_loop (haxm_RegRead D) n a' e' p' c' sz b) t)" if "wf_mem (m_physMemMap t)" for pa v a' e' p' c' and t :: "('h, 'd) haxm_cpu"
    by (intro whenever_check MemWrite_wf [OF that] Suc.IH)
  then show ?case
    using whenever_mono [OF VirtualToPhysical_wf [OF Suc.prems]] Suc.prems
    by (auto simp: Let_def split: option.split)
qed simp

lemma VMemWrite_wf:
  "wf_mem (m_physMemMap s) \<Longrightarrow> whenever wf_cpu (VMemWrite (haxm_RegRead D) v sz b s)"
  unfolding VMemWrite_def by (rule vmem_write_loop_wf)

lemma VMemRead_wf:
  fixes s :: "('h, 'd) haxm_cpu"
  shows "wf_mem (m_physMemMap s) \<Longrightarrow>
     whenever wf_cpu (vmem_read_loop (haxm_RegRead D) n a e p c sz b s)"
proof (induction n arbitrary: a e p c b s)
  case (Suc n)
  have "whenever wf_cpu (check_result (MemRead pa c) (\<lambda>bs.
      vmem_read_loop (haxm_RegRead D) n a' e' p' c' sz (b @ bs)) t)" if "wf_mem (m_physMemMap t)" for pa a' e' p' c' and t :: "('h, 'd) haxm_cpu"
    by (intro whenever_check MemRead_wf [OF that] Suc.IH)
  then show ?case
    using whenever_mono [OF VirtualToPhysical_wf [OF Suc.prems]] Suc.prems
    by (auto simp: Let_def split: option.split)
qed simp

lemma haxm_Load_wf:
  "wf_mem (m_physMemMap s) \<Longrightarrow>
     whenever (\<lambda>s. wf_mem (m_physMemMap s)) (haxm_LoadSegmentSelector D sel reg s)"
  unfolding haxm_LoadSegmentSelector_def Let_def whenever_bindr VMemRead_def
  by (rule whenever_mono [OF VMemRead_wf]) (auto simp: upd_haxm_def split: sum.split)

lemma haxm_RegWrite_wf: "wf_mem (m_physMemMap s) \<Longrightarrow> whenever wf_cpu (haxm_RegWrite D r v s)"
  unfolding haxm_RegWrite_def
proof (rule whenever_check [OF Refresh_wf])
  fix a and s' :: "('a, 'b) haxm_cpu"
  assume "wf_mem (m_physMemMap s')"
  from haxm_Load_wf [OF this, of D "ucast v" r] this
  show "whenever wf_cpu (bindr (write_reg D r v s') (\<lambda>q. case q of
      None \<Rightarrow> op_fail CPUS_OP_INVALID_REGISTER s'
    | Some s \<Rightarrow> op_ok () (upd_haxm (m_regsChanged_update (\<lambda>_. True)) s)))"
    by (auto simp: write_reg_def op_ok_def op_fail_def upd_haxm_def whenever_iff bindr_Inr_iff split: if_splits)
qed

lemma haxm_GDT_wf:
  "wf_mem (m_physMemMap s) \<Longrightarrow> whenever wf_cpu (haxm_GetGDT D s)"
  "wf_mem (m_physMemMap s) \<Longrightarrow> whenever wf_cpu (haxm_GetIDT D s)"
  unfolding haxm_GetGDT_def haxm_GetIDT_def
  by (rule whenever_check [OF Refresh_wf]; simp add: op_ok_def Let_def)+

lemma AllocateMemory_mem: "m_physMemMap (snd (haxm_AllocateMemory D n a rom s)) = m_physMemMap s"
  by (simp add: haxm_AllocateMemory_def upd_haxm_def Let_def split: prod.split)

lemma MemMapSubregion_mem:
  "haxm_MemMapSubregion D r s = Inr (st, t) \<Longrightarrow> m_physMemMap t = m_physMemMap s"
  using AllocateMemory_mem [of D "of_nat (m_size r)" "m_start r" "m_type r = MEM_REGION_ROM" s]
  by (cases "m_type r"; cases "haxm_AllocateMemory D (of_nat (m_size r)) (m_start r) (m_type r = MEM_REGION_ROM) s")
    (simp_all add: haxm_MemMapSubregion_def)

lemma MemMap_wf:
  fixes s :: "('h, 'd) haxm_cpu"
  assumes "\<forall>r\<in>set subs. m_type r \<noteq> MEM_REGION_MMIO \<longrightarrow> wf_region r" and "wf_mem (m_physMemMap s)"
  shows "whenever wf_cpu (map_subregions (HaxmCpu D io junk) subs s)"
  using assms
proof (induction subs arbitrary: s)
  case (Cons r subs)
  have app: "wf_mem (m_physMemMap t @ [\<lparr>data = m_data r, startingAddress = m_start r,
      endingAddress = m_start r + of_nat (m_size r) - 1\<rparr>])"
    if "wf_mem (m_physMemMap t)" "m_type r = MEM_REGION_RAM \<or> m_type r = MEM_REGION_ROM" for t :: "('h, 'd) haxm_cpu"
    using that wf_region_range [of r] Cons.prems(1) by (auto simp: wf_mem_def)
  have map: "vMemMapSubregion (HaxmCpu D io junk) = haxm_MemMapSubregion D" by (simp add: HaxmCpu_def)
  have IH: "whenever wf_cpu (map_subregions (HaxmCpu D io junk) subs t)"
    if "wf_mem (m_physMemMap t)" for t :: "('h, 'd) haxm_cpu"
    using Cons.IH [OF _ that] Cons.prems(1) by simp
  show ?case
    unfolding map_subregions.simps whenever_bindr map
  proof (rule wheneverI_eq)
    fix p
    assume "haxm_MemMapSubregion D r s = Inr p"
    then have "wf_mem (m_physMemMap (snd p))"
      using MemMapSubregion_mem [of D r s "fst p" "snd p"] Cons.prems(2) by simp
    then show "whenever wf_cpu (case p of (st, s) \<Rightarrow> if st \<noteq> CPUS_MMAP_OK then Inr (st, s)
       else map_subregions (HaxmCpu D io junk) subs
         (if m_type r = MEM_REGION_RAM \<or> m_type r = MEM_REGION_ROM
          then s\<lparr>m_physMemMap := m_physMemMap s @
            [\<lparr>data = m_data r, startingAddress = m_start r,
              endingAddress = m_start r + of_nat (m_size r) - 1\<rparr>]\<rparr>
          else s))"
      using IH app [of "snd p"] by (cases p) simp
  qed
qed simp



section \<open>Requests that are refused\<close>

text \<open>A vector that the virtual CPU refuses is lost: handling the queue spends the credits
  and takes the vector from the pending ones before it looks at no status at all, and the CPU
  runs on.\<close>

theorem refused_interrupt_is_lost:
  assumes "m_pendingInterrupts s = v # rest" and "m_interruptHandlerCredits s = kInterruptHandlerMaxCredits release_build"
    and "ready_for_interrupt_injection (m_tunnel (impl s)) \<noteq> 0"
    and "hax_interrupt D (ucast v) (drv (impl s)) = (False, h)"
  shows "HandleInterruptQueue release_build (HaxmCpu D io junk) s =
    Inr (upd_haxm (drv_update (\<lambda>_. h))
      (s\<lparr>m_pendingInterrupts := rest, m_interruptHandlerCredits := 198\<rparr>))"
  using assms
  by (simp add: HandleInterruptQueue_def HaxmCpu_def haxm_CanInjectInterrupt_def InjectPendingInterrupt_def
      haxm_InjectInterrupt_def haxm_vcpu_Interrupt_def release_build_def op_fail_def upd_haxm_def)

theorem refused_interrupt_is_lost_witness:
  "\<exists>s t. m_pendingInterrupts s = [0x31] \<and>
    HandleInterruptQueue release_build (HaxmCpu (sample_driver\<lparr>hax_interrupt := \<lambda>_ h. (False, h)\<rparr>) no_ports 0) s = Inr t
    \<and> m_pendingInterrupts t = []"
proof -
  let ?s = "sample_cpu 0 ()\<lparr>m_pendingInterrupts := [0x31]\<rparr>"
  have "m_pendingInterrupts ?s = [0x31]" by simp
  moreover have "m_interruptHandlerCredits ?s = kInterruptHandlerMaxCredits release_build"
    "ready_for_interrupt_injection (m_tunnel (impl ?s)) \<noteq> 0"
    by (simp_all add: sample_cpu_def sample_cpu_with_def release_build_def sample_tunnel_def)
  moreover have "hax_interrupt (sample_driver\<lparr>hax_interrupt := \<lambda>_ h. (False, h)\<rparr>) (ucast (0x31::u8)) (drv (impl ?s))
      = (False, drv (impl ?s))" by simp
  ultimately have run: "HandleInterruptQueue release_build
      (HaxmCpu (sample_driver\<lparr>hax_interrupt := \<lambda>_ h. (False, h)\<rparr>) no_ports 0) ?s =
    Inr (upd_haxm (drv_update (\<lambda>_. drv (impl ?s)))
      (?s\<lparr>m_pendingInterrupts := [], m_interruptHandlerCredits := 198\<rparr>))" (is "_ = Inr ?t")
    by (rule refused_interrupt_is_lost)
  show ?thesis
  proof (intro exI conjI)
    show "m_pendingInterrupts ?s = [0x31]" by simp
    show "HandleInterruptQueue release_build
      (HaxmCpu (sample_driver\<lparr>hax_interrupt := \<lambda>_ h. (False, h)\<rparr>) no_ports 0) ?s = Inr ?t"
      by (rule run)
    show "m_pendingInterrupts ?t = []" by (simp add: upd_haxm_def)
  qed
qed

text \<open>The registers written before an invalid one are cached, and not marked as changed.\<close>

lemma bulk_write_not_marked:
  assumes "\<not> m_regsDirty (impl s)" and "\<not> m_regsChanged (impl s)"
  shows "haxm_RegWrites D [(REG_EAX, v), (REG_MAX, w)] s =
    Inr (Inl CPUS_OP_INVALID_REGISTER, upd_haxm (m_regs_update (set_reg REG_EAX v)) s)"
  using assms by (simp add: haxm_RegWrites_def check_result_def RefreshRegisters_def write_reg_def
      segment_regs_def op_ok_def op_fail_def)

text \<open>Only the first of the four breakpoints has an effect.\<close>

lemma breakpoints_of_first:
  "haxm_SetHardwareBreakpoints D (b # bs) s = haxm_SetHardwareBreakpoints D (b # bs') s"
  by (simp add: haxm_SetHardwareBreakpoints_def)

end
