(* ===== verification/Machine_Irqs.thy ===== *)
theory Machine_Irqs
  imports Machine_Laws Haxm_Laws
begin

text \<open>
  The console from power on: \<open>InitHardware\<close> brings the hardware up well formed, and an
  interrupt of the timer or of the ATA interface goes all the way, from the access or the
  step of the thread that causes it to the vector in the queue of the CPU.
\<close>

section \<open>Power on\<close>

lemma ResetPic_Slave:
  assumes "m_IRR (chips s Master) = 0"
  shows "\<exists>s'. ResetPic Slave s = Inr s' \<and> chips s' Slave = reset_chip (chips s Slave)
    \<and> chips s' Master = (set_line 2 False (chips s Master))\<lparr>m_InterruptOutput := False\<rparr>
    \<and> cpuInts s' = cpuInts s"
proof -
  let ?t = "upd_chip Slave reset_chip s"
  have frames: "pic_frames = Suc (Suc (Suc 97))" by (simp add: pic_frames_def)
  have slave: "GetIRQ ?t Slave = None" unfolding GetIRQ_None by (simp add: requested_def reset_chip_def)
  let ?u = "upd_chip Master (set_line 2 False) (note_output Slave ?t)"
  have "GetIRQ ?u Master = None"
    unfolding GetIRQ_None using assms by (simp add: requested_def note_output_def bit_IRR_set_line)
  then have "ResetPic Slave s = Inr (note_output Master ?u)"
    unfolding ResetPic_def frames by (simp only: UpdateIRQ_Slave slave SetIRQ.simps UpdateIRQ_Master) simp
  then show ?thesis using slave \<open>GetIRQ ?u Master = None\<close>
    by (simp add: note_output_def) (simp add: reset_chip_def)
qed

lemma pic_all: "(\<forall>q. P q) \<longleftrightarrow> P Master \<and> P Slave"
  by (metis pic.exhaust)

lemma i8259_boots:
  "returns (\<lambda>p. wf_pic p \<and> stable p \<and> cpuInts p = cpuInts s
     \<and> (\<forall>q. m_IRR (chips p q) = 0 \<and> m_ISR (chips p q) = 0 \<and> m_IMR (chips p q) = 0)) (i8259_Reset s)"
proof -
  let ?m = "upd_chip Master reset_chip s"
  have "m_IRR (chips ?m Master) = 0" by (simp add: reset_chip_def)
  from ResetPic_Slave [OF this] obtain t where t: "ResetPic Slave ?m = Inr t"
    "chips t Slave = reset_chip (chips s Slave)"
    "chips t Master = (set_line 2 False (reset_chip (chips s Master)))\<lparr>m_InterruptOutput := False\<rparr>"
    "cpuInts t = cpuInts s" by auto
  have "m_IRR (set_line 2 False (reset_chip c)) = 0" for c
    by (rule bit_word_eqI) (simp add: bit_IRR_set_line reset_chip_def)
  then show ?thesis using t
    by (auto simp: i8259_Reset_def ResetPic_Master wf_pic_def wf_chip_def stable_def stable_chip_def reset_chip_def
        pic_all)
qed

lemma insert_dev_keys: "fst ` set (insert_dev k p ds) = insert k (fst ` set ds)"
  by (induction k p ds rule: insert_dev.induct) (simp_all add: insert_commute)

lemma connect_keys:
  "whenever (\<lambda>b'. set (map fst (m_Devices b')) = set (map fst ds) \<union> set (map fst (m_Devices b))) (connect_all ds b)"
proof (induction ds b rule: connect_all.induct)
  case (2 k p ds b)
  have mapped: "map_of ds k = Some q \<Longrightarrow> k \<in> fst ` set ds" for ds :: "(u32 \<times> board pci_dev) list" and q
    by (drule map_of_SomeD) force
  have "whenever (\<lambda>b'. set (map fst (m_Devices b')) = insert k (set (map fst (m_Devices b)))) (ConnectDevice board_ops k p b)"
    by (cases "map_of (m_Devices b) k"; cases "dev_Init board_ops p")
      (simp_all add: ConnectDevice_def insert_dev_keys insert_absorb mapped)
  moreover have "whenever (\<lambda>b'. set (map fst (m_Devices b')) = set (map fst ((k, p) # ds)) \<union> set (map fst (m_Devices b)))
      (connect_all ds c)" if "set (map fst (m_Devices c)) = insert k (set (map fst (m_Devices b)))" for c
    by (rule whenever_mono [OF 2]) (use that in simp)
  ultimately show ?case by (auto elim!: whenever_mono simp del: list.set_map)
qed simp

lemma xbox_bus_keys:
  "whenever (\<lambda>b. LPC_address \<in> set (map fst (m_Devices b))) (xbox_PCIBus smb rom bios mcpxROM debugKit)"
  using connect_keys [of "xbox_devices smb rom bios mcpxROM debugKit" new_PCIBus]
  by (auto simp: xbox_PCIBus_def xbox_devices_def LPC_address_def ConfigureIRQs_def whenever_iff bindr_Inr_iff)

lemma hardware_boots:
  fixes chrs :: "'c option list"
  assumes "length rom = XBOX_ROM_AREA_SIZE" and "length mcpxROM = 512"
    and "length bios = 256 * 1024 \<or> length bios = 1024 * 1024"
    and "length junk = 256" and "length eeprom = 256" and "length fifo_junk = 16" and "length chrs = 2"
  shows "returns (\<lambda>(s, io). machine_ok s \<and> io = xbox_MapIO se \<and> (mach_SuperIO s \<noteq> None \<longleftrightarrow> se)
      \<and> cpuInts (mach_i8259 s) = cpuInts pic0
      \<and> (\<forall>q. m_IRR (chips (mach_i8259 s) q) = 0 \<and> m_ISR (chips (mach_i8259 s) q) = 0))
    (InitHardware hw se rom bios mcpxROM junk fifo_junk eeprom pic0 chrs c0 nanos)"
proof -
  obtain p where p: "i8259_Reset pic0 = Inr p" "wf_pic p" "stable p" "cpuInts p = cpuInts pic0"
    "\<forall>q. m_IRR (chips p q) = 0 \<and> m_ISR (chips p q) = 0"
    using i8259_boots [of pic0] by (auto simp: returns_iff)
  have "wf_smbus (xbox_SMBus hw junk eeprom)" using assms by (intro wf_xbox_SMBus)
  then obtain b where b: "xbox_PCIBus (xbox_SMBus hw junk eeprom) rom bios mcpxROM (hw = DebugKit) = Inr b"
    "wf_bus board_good b" "LPC_address \<in> set (map fst (m_Devices b))"
    using xbox_bus_returns [OF _ assms(1-3), of "xbox_SMBus hw junk eeprom" "hw = DebugKit"]
      xbox_bus_keys [of "xbox_SMBus hw junk eeprom" rom bios mcpxROM "hw = DebugKit"]
    by (auto simp: returns_iff whenever_iff)
  have "wf_superio (new_SuperIO chrs fifo_junk c0 nanos)" using assms by (intro new_SuperIO_wf)
  then show ?thesis using p b
    by (simp add: InitHardware_def machine_ok_def lines_ok_def wf_xbox_ATA)
qed


definition booted_xbox :: "fault + unit machine \<times> io_dev IOMapper" where
  "booted_xbox = InitHardware Revision1_0 True (replicate XBOX_ROM_AREA_SIZE 0) (replicate (256 * 1024) 0)
     (replicate 512 0) (replicate 256 0) (replicate 16 0) (replicate 256 0) booted [Some (), None] () 0"


lemma xbox_boots: "returns (\<lambda>(s, io). machine_ok s) booted_xbox"
  unfolding booted_xbox_def
  by (rule returns_mono [OF hardware_boots]) (simp_all add: case_prod_beta)


theorem SMBus_interrupt_route_witness:
  "returns (\<lambda>(s, io). \<exists>p :: board pci_dev. raise_acpi [True] s =
     (let irq = m_configSpace (dev_config p) ! 0x65 in
      if irq = 0 \<or> 16 \<le> irq then Inr s
      else bindr (HandleIRQ irq True (mach_i8259 s)) (\<lambda>q. Inr (s\<lparr>mach_i8259 := q\<rparr>)))) booted_xbox"
proof -
  have "\<exists>p :: board pci_dev. raise_acpi [True] s =
     (let irq = m_configSpace (dev_config p) ! 0x65 in
      if irq = 0 \<or> 16 \<le> irq then Inr s
      else bindr (HandleIRQ irq True (mach_i8259 s)) (\<lambda>q. Inr (s\<lparr>mach_i8259 := q\<rparr>)))"
    if ok: "machine_ok s" for s :: "unit machine"
  proof -
    obtain p where "map_of (m_Devices (mach_PCIBus s)) LPC_address = Some p"
      using LPC_present [OF machine_okD(6) [OF ok]] ..
    from SMBus_interrupt_route [OF machine_okD(6) [OF ok] this] show ?thesis by (rule exI)
  qed
  then show ?thesis
    by (intro returns_mono [OF xbox_boots]) (simp only: split_beta)
qed

section \<open>From the device to the CPU\<close>

text \<open>Controllers with nothing requested, raised or in service, and no automatic end of interrupt.\<close>

definition pic_idle :: "i8259 \<Rightarrow> bool" where
  "pic_idle s \<longleftrightarrow> (\<forall>p. m_IRR (chips s p) = 0 \<and> m_PreviousIRR (chips s p) = 0 \<and> m_ISR (chips s p) = 0
     \<and> \<not> m_AutoEOI (chips s p))"

text \<open>A line of the master that is raised and lowered once sends one vector and can rise again.\<close>

lemma master_pulse:
  assumes idle: "pic_idle s" and i: "i < 8" "i \<noteq> 2" and unmasked: "\<not> bit (m_IMR (chips s Master)) i"
  shows "\<exists>t u. RaiseIRQ i s = Inr t \<and> cpuInts t = cpuInts s @ [m_Base (chips s Master) + of_nat i]
    \<and> LowerIRQ i t = Inr u \<and> cpuInts u = cpuInts t \<and> m_PreviousIRR (chips u Master) = 0
    \<and> m_IRR (chips u Master) = 0 \<and> m_ISR (chips u Master) = push_bit i 1 \<and> chips u Slave = chips s Slave"
proof -
  have zero: "m_IRR (chips s p) = 0" "m_PreviousIRR (chips s p) = 0" "m_ISR (chips s p) = 0" "\<not> m_AutoEOI (chips s p)" for p
    using idle by (auto simp: pic_idle_def)
  let ?t = "upd_chip Master (set_line i True) s"
  let ?c = "chips s Master"
  have line: "blocking p (set_line k a c) = blocking p c" "rank (set_line k a c) = rank c" for p k a c
    by (simp_all add: blocking_def rank_def fun_eq_iff)
  have "GetIRQ ?t Master = Some i"
    unfolding GetIRQ_correct using i unmasked
    by (simp add: line requested_def blocking_def zero bit_IRR_set_line)
  then obtain t where t: "RaiseIRQ i s = Inr t" "cpuInts t = cpuInts s @ [m_Base ?c + of_nat i]"
    "chips t = (chips ?t)(Master := (acknowledge i (chips ?t Master))\<lparr>m_InterruptOutput := False\<rparr>)"
    using update_master_delivers [of ?t i 99] i zero by (auto simp: RaiseIRQ_def set_as_update)
  have m: "chips t Master = (acknowledge i (set_line i True ?c))\<lparr>m_InterruptOutput := False\<rparr>" using t(3) by simp
  have isr: "m_ISR (chips t Master) = push_bit i 1"
    by (simp add: m m_ISR_acknowledge zero del: push_bit_of_1)
  let ?u = "upd_chip Master (set_line i False) t"
  have bits: "\<not> bit (m_IRR (chips ?u Master)) j" "\<not> bit (m_PreviousIRR (chips ?u Master)) j" for j
    using i by (simp_all add: m bit_IRR_set_line bit_Prev_set_line bit_IRR_acknowledge zero)
  then have regs: "m_IRR (chips ?u Master) = 0" "m_PreviousIRR (chips ?u Master) = 0"
    by (auto intro: bit_word_eqI)
  have "GetIRQ ?u Master = None" unfolding GetIRQ_None using bits by (simp add: requested_def)
  then have "LowerIRQ i t = Inr (note_output Master ?u)"
    using i by (simp add: LowerIRQ_def set_as_update UpdateIRQ_Master [of 98, simplified])
  then show ?thesis using t(1,2) regs isr t(3)
    by (intro exI [of _ t] exI [of _ "note_output Master ?u"]) (simp add: note_output_def)
qed

text \<open>C13: a cycle of the running timer's thread sends the vector of line 0 to the CPU exactly once and leaves the line
  low, so that the next cycle can send it again after the end of interrupt.\<close>

theorem timer_cycle_interrupts:
  assumes idle: "pic_idle (mach_i8259 s)" and "\<not> bit (m_IMR (chips (mach_i8259 s) Master)) 0"
    and timer: "m_timerThread (mach_i8254 s) = Testing" "i8254.m_running (mach_i8254 s)"
  shows "\<exists>t u. timer_step s = Some (Inr t) \<and> timer_step t = Some (Inr u)
    \<and> cpuInts (mach_i8259 t) = cpuInts (mach_i8259 s) @ [m_Base (chips (mach_i8259 s) Master)]
    \<and> cpuInts (mach_i8259 u) = cpuInts (mach_i8259 t) \<and> mach_i8254 u = mach_i8254 s
    \<and> m_PreviousIRR (chips (mach_i8259 u) Master) = 0 \<and> m_IRR (chips (mach_i8259 u) Master) = 0
    \<and> m_ISR (chips (mach_i8259 u) Master) = 1"
proof -
  obtain p q where "HandleIRQ 0 True (mach_i8259 s) = Inr p" "HandleIRQ 0 False p = Inr q"
    "cpuInts p = cpuInts (mach_i8259 s) @ [m_Base (chips (mach_i8259 s) Master)]" "cpuInts q = cpuInts p"
    "m_PreviousIRR (chips q Master) = 0" "m_IRR (chips q Master) = 0" "m_ISR (chips q Master) = 1"
    using master_pulse [OF idle, of 0] assms(2) by (auto simp: HandleIRQ_def)
  then show ?thesis using timer
    by (simp add: timer_step_def i8254_Run_step_def numeral_3_eq_3)
qed

definition booted_timer :: "unit machine" where
  "booted_timer = \<lparr>mach_i8259 = booted, mach_i8254 = \<lparr>i8254.m_running = True, m_timerThread = Testing\<rparr>, mach_ATA = xbox_ATA,
     mach_SuperIO = None, mach_PCIBus = ide_bus, mach_GSI = xbox_GSI, mach_IRQs = [], mach_acpiIRQs = []\<rparr>"

lemma booted_idle: "pic_idle booted"
  unfolding pic_idle_def pic_all by (simp add: booted_chips idle_chip_def)

theorem timer_cycle_interrupts_witness:
  "\<exists>t u. timer_step booted_timer = Some (Inr t) \<and> timer_step t = Some (Inr u) \<and> cpuInts (mach_i8259 t) = [0x30]"
proof -
  have "\<not> bit (m_IMR (chips booted Master)) 0" by (simp add: booted_chips idle_chip_def)
  with timer_cycle_interrupts [of booted_timer] show ?thesis
    using booted_idle by (auto simp: booted_timer_def booted_chips)
qed

text \<open>A write of the CPU to an I/O port, through the mapper and the devices, as the HAXM module makes it.\<close>

definition cpu_port :: "'c chr_ops \<Rightarrow> bool \<Rightarrow> ('h, 'c machine) haxm_cpu io_port" where
  "cpu_port ops enableSuperIO = device_port (machine_ops ops) (xbox_MapIO enableSuperIO) machine_drain"

lemma ATA_port: "responder se 0x1F7 = Dev_ATA" "LookupDevice (m_mappedIODevices (xbox_MapIO se)) 0x1F7 = Some Dev_ATA"
proof -
  obtain m where m: "map_ranges MapDevice [] (xbox_ports se) = (m, True)"
    "LookupDevice m 0x1F7 = map_option (\<lambda>(b, n, d). d) (find (\<lambda>r. IOMap.in_range r 0x1F7) (xbox_ports se))"
    using xbox_ports_mapped by blast
  then show "LookupDevice (m_mappedIODevices (xbox_MapIO se)) 0x1F7 = Some Dev_ATA"
    by (simp add: xbox_MapIO_maps xbox_ports_def port_lists IOMap.in_range_def)
  then show "responder se 0x1F7 = Dev_ATA" by (simp add: responder_def)
qed

lemma secondary_untouched: "ATA_IOWrite 0x1F7 v sz a = Inr (b, h) \<Longrightarrow> secondary b = secondary a"
  by (auto simp: ATA_IOWrite_def bindr_Inr_iff)

text \<open>C1: the command Identify Device that the CPU writes to the primary channel reaches the disk through the I/O
  mapper, and the disk's interrupt comes back through both interrupt controllers: the CPU's queue
  gets exactly one more vector, that of line 14.\<close>

theorem identify_interrupts_CPU:
  fixes cpu :: "('h, 'c machine) haxm_cpu"
  defines "s \<equiv> devs (impl cpu)"
  assumes ok: "wf_ata (mach_ATA s)" and idle: "pic_idle (mach_i8259 s)" and none: "cpuInts (mach_i8259 s) = []"
    and unmasked: "\<not> bit (m_IMR (chips (mach_i8259 s) Slave)) 6" "\<not> bit (m_IMR (chips (mach_i8259 s) Master)) 2"
    and disk: "aget (m_devs (primary (mach_ATA s))) (GetSelectedDeviceIndex (primary (mach_ATA s))) = Inr d"
      "m_driver d = dummy_hd" "m_devIndex d = drop_bit 4 (deviceHead (ata_channel.m_regs (primary (mach_ATA s)))) AND 1"
    and ready: "tst (status (ata_channel.m_regs (primary (mach_ATA s)))) StReady" "status (ata_channel.m_regs (primary (mach_ATA s))) AND StBusy = 0"
    and irq: "m_irqNum (primary (mach_ATA s)) = 14" "AreInterruptsEnabled (primary (mach_ATA s))"
      "\<not> m_interrupt (primary (mach_ATA s))"
  shows "returns (\<lambda>(cpu', h). transferring dummy_answer 0 (primary (mach_ATA (devs (impl cpu'))))
      \<and> m_pendingInterrupts cpu' = m_pendingInterrupts cpu @ [m_Base (chips (mach_i8259 s) Slave) + 6])
    (port_IOWrite (cpu_port ops se) 0x1F7 0xEC 1 cpu)"
proof -
  have "drv_IsAttached dummy_hd" by (simp add: dummy_hd_def)
  from identify_starts [OF dummy.identifying_driver_axioms this ok disk ready] irq
  obtain a h where a: "ATA_IOWrite 0x1F7 0xEC 1 (mach_ATA s) = Inr (a, h)" "transferring dummy_answer 0 (primary a)"
    "chan_irqs (primary a) = chan_irqs (primary (mach_ATA s)) @ [(14, True)]" by auto
  then have calls: "ata_calls (mach_ATA s) a = [(14, True)]"
    using secondary_untouched [OF a(1)] by (simp add: ata_calls_def calls_since_def)
  have zero: "m_IRR (chips (mach_i8259 s) p) = 0" "m_PreviousIRR (chips (mach_i8259 s) p) = 0"
    "m_ISR (chips (mach_i8259 s) p) = 0" "\<not> m_AutoEOI (chips (mach_i8259 s) p)" for p
    using idle by (auto simp: pic_idle_def)
  obtain p where p: "HandleIRQ 14 True (mach_i8259 s) = Inr p"
    "cpuInts p = [m_Base (chips (mach_i8259 s) Slave) + 6]"
    using slave_delivers [of 6 "mach_i8259 s"] unmasked
    by (auto simp: zero requested_def blocking_def HandleIRQ_def none)
  show ?thesis using a calls p
    by (simp add: cpu_port_def device_port_def IOMapper_IOWrite_def ATA_port machine_ops_def with_ATA_def
        drain_interrupts_def machine_drain_def upd_haxm_def s_def [symmetric] numeral_3_eq_3)
qed

theorem identify_interrupts_CPU_witness:
  "returns (\<lambda>(cpu', h). m_pendingInterrupts cpu' = [0x3E])
    (port_IOWrite (cpu_port null_chr_driver False) 0x1F7 0xEC 1 (sample_cpu_with () booted_timer))"
proof -
  let ?d = "SetDeviceDriver dummy_hd (new_ATADevice 0)"
  let ?cpu = "sample_cpu_with () booted_timer"
  have ata: "mach_ATA booted_timer = xbox_ATA" "mach_i8259 booted_timer = booted" by (simp_all add: booted_timer_def)
  have disk: "aget (m_devs (primary xbox_ATA)) (GetSelectedDeviceIndex (primary xbox_ATA)) = Inr ?d"
    "m_driver ?d = dummy_hd" "m_devIndex ?d = drop_bit 4 (deviceHead (ata_channel.m_regs (primary xbox_ATA))) AND 1"
    "tst (status (ata_channel.m_regs (primary xbox_ATA))) StReady" "status (ata_channel.m_regs (primary xbox_ATA)) AND StBusy = 0"
    "m_irqNum (primary xbox_ATA) = 14" "AreInterruptsEnabled (primary xbox_ATA)" "\<not> m_interrupt (primary xbox_ATA)"
    by (simp_all add: xbox_ATA_def new_ATA_def new_ATAChannel_def new_ATADevice_def SetDeviceDriver_def Let_def
        new_ATARegisters_def aget_def GetSelectedDeviceIndex_def AreInterruptsEnabled_def)
  have dev: "devs (impl ?cpu) = booted_timer" "m_pendingInterrupts ?cpu = []" by (simp_all add: sample_cpu_with_def)
  have pic: "cpuInts booted = []" "\<not> bit (m_IMR (chips booted Slave)) 6" "\<not> bit (m_IMR (chips booted Master)) 2"
    "m_Base (chips booted Slave) = 0x38"
    by (simp_all add: booted_chips idle_chip_def)
  have "returns (\<lambda>(cpu', h). transferring dummy_answer 0 (primary (mach_ATA (devs (impl cpu'))))
      \<and> m_pendingInterrupts cpu' = m_pendingInterrupts ?cpu @ [m_Base (chips (mach_i8259 (devs (impl ?cpu))) Slave) + 6])
    (port_IOWrite (cpu_port null_chr_driver False) 0x1F7 0xEC 1 ?cpu)"
    by (rule identify_interrupts_CPU [where d = ?d]) (simp_all only: dev ata wf_xbox_ATA booted_idle pic disk not_False_eq_True)
  then show ?thesis by (simp only: dev ata pic) (auto elim: returns_mono)
qed

end
