(* ===== verification/Xbox.thy ===== *)
theory Xbox
  imports Machine_Irqs
begin

text \<open>
  The top-level class \<open>Xbox\<close>, \<open>core/openxbox/xbox.cpp\<close>: the initialisation of memory, ROM
  images and CPU, the emulation loop \<open>RunCpu\<close> and the search for the kernel's data. A file
  is its contents, or \<open>None\<close> when it cannot be opened; whether an allocation succeeds is an
  argument. The log output, the dumps of registers and memory and the GDB server are left out,
  and \<open>Stop\<close> is called by the loop only. A variable that a failed read was to fill keeps its value.
\<close>

section \<open>Settings\<close>

record settings =
  cpu_singleStep :: bool
  ram_expanded :: bool
  emu_stopOnSMCFatalErrors :: bool
  emu_stopOnBugChecks :: bool
  hw_model :: HardwareModel
  hw_enableSuperIO :: bool
  rom_mcpx :: "bytes option"
  rom_bios :: "bytes option"

datatype EmulatorStatus =
    EMUS_OK | EMUS_INIT_ALLOC_MEM_RGN_FAILED | EMUS_INIT_ALLOC_RAM_FAILED | EMUS_INIT_ALLOC_RAM_RGN_FAILED
  | EMUS_INIT_ALLOC_ROM_FAILED | EMUS_INIT_ALLOC_ROM_RGN_FAILED | EMUS_INIT_MCPX_ROM_NOT_FOUND
  | EMUS_INIT_MCPX_ROM_INVALID_SIZE | EMUS_INIT_BIOS_ROM_NOT_FOUND | EMUS_INIT_BIOS_ROM_INVALID_SIZE
  | EMUS_INIT_NO_CPU_MODULE | EMUS_INIT_CPU_CREATE_FAILED | EMUS_INIT_CPU_INIT_FAILED
  | EMUS_INIT_CPU_MEM_MAP_FAILED | EMUS_INIT_DEBUGGER_FAILED

definition InitFixupSettings :: "settings \<Rightarrow> settings" where
  "InitFixupSettings s =
     (if hw_model s = DebugKit then s\<lparr>hw_enableSuperIO := True, ram_expanded := True\<rparr> else s)"

section \<open>Memory\<close>

definition XBOX_RAM_SIZE_RETAIL :: nat where
  "XBOX_RAM_SIZE_RETAIL = 64 * 1024 * 1024"

definition XBOX_RAM_SIZE_DEBUG :: nat where
  "XBOX_RAM_SIZE_DEBUG = 128 * 1024 * 1024"

abbreviation ROM_BASE :: u32 where "ROM_BASE \<equiv> 0xFF000000"

text \<open>
  The regions, and the two images. The result of \<open>valloc\<close> is compared with null, the result of
  \<open>mmap\<close> too; \<open>ram_ok\<close> and \<open>rom_ok\<close> say that the memory was given.
\<close>

definition InitRAM :: "bool \<Rightarrow> settings \<Rightarrow> MemoryRegion \<Rightarrow> EmulatorStatus + MemoryRegion" where
  "InitRAM ram_ok st mem =
     (let m_ramSize = (if ram_expanded st then XBOX_RAM_SIZE_DEBUG else XBOX_RAM_SIZE_RETAIL)
      in if \<not> ram_ok then Inl EMUS_INIT_ALLOC_RAM_FAILED
         else Inr (AddSubRegion (new_MemoryRegion MEM_REGION_RAM 0 m_ramSize (replicate m_ramSize 0)) mem))"

definition InitROM :: "bool \<Rightarrow> settings \<Rightarrow> MemoryRegion \<Rightarrow> EmulatorStatus + MemoryRegion \<times> bytes \<times> bytes" where
  "InitROM rom_ok st mem =
     (if \<not> rom_ok then Inl EMUS_INIT_ALLOC_ROM_FAILED
      else
        let mem = AddSubRegion
              (new_MemoryRegion MEM_REGION_ROM ROM_BASE XBOX_ROM_AREA_SIZE (replicate XBOX_ROM_AREA_SIZE 0)) mem
        in case rom_mcpx st of
             None \<Rightarrow> Inl EMUS_INIT_MCPX_ROM_NOT_FOUND
           | Some mcpxROM \<Rightarrow>
               if length mcpxROM \<noteq> 512 then Inl EMUS_INIT_MCPX_ROM_INVALID_SIZE
               else (case rom_bios st of
                   None \<Rightarrow> Inl EMUS_INIT_BIOS_ROM_NOT_FOUND
                 | Some bios \<Rightarrow>
                     if length bios \<noteq> 256 * 1024 \<and> length bios \<noteq> 1024 * 1024
                     then Inl EMUS_INIT_BIOS_ROM_INVALID_SIZE
                     else Inr (mem, bios, mcpxROM)))"

text \<open>The region of 4 GiB that holds the others, and the steps in their order.\<close>

definition InitMemory :: "bool \<Rightarrow> bool \<Rightarrow> settings \<Rightarrow> EmulatorStatus + MemoryRegion \<times> bytes \<times> bytes" where
  "InitMemory ram_ok rom_ok st =
     (case InitRAM ram_ok st (new_MemoryRegion MEM_REGION_NONE 0 0x100000000 []) of
        Inl e \<Rightarrow> Inl e
      | Inr mem \<Rightarrow> InitROM rom_ok st mem)"

text \<open>\<open>module\<close> is the CPU module, and what its \<open>GetCPU\<close> returns.\<close>

definition InitCPU ::
  "credit_constants \<Rightarrow> 'v cpu_ops \<Rightarrow> 'v cpu option option \<Rightarrow> MemoryRegion \<Rightarrow> fault + (EmulatorStatus + 'v cpu)" where
  "InitCPU k ops module mem =
     (case module of
        None \<Rightarrow> Inr (Inl EMUS_INIT_NO_CPU_MODULE)
      | Some None \<Rightarrow> Inr (Inl EMUS_INIT_CPU_CREATE_FAILED)
      | Some (Some cpu) \<Rightarrow>
          bindr (Cpu_Initialize k ops cpu) (\<lambda>(st, cpu).
          if st \<noteq> CPUS_INIT_OK then Inr (Inl EMUS_INIT_CPU_INIT_FAILED)
          else bindr (MemMap ops mem cpu) (\<lambda>(st, cpu).
               if st \<noteq> CPUS_MMAP_OK then Inr (Inl EMUS_INIT_CPU_MEM_MAP_FAILED)
               else Inr (Inr cpu))))"

text \<open>
  The ROM area is one array: the LPC bridge writes it and the CPU has it mapped. The model has a
  copy in each, and \<open>share_rom\<close> carries the contents over after the bridge has run.
\<close>

definition LPC_rom :: "board pci_bus \<Rightarrow> bytes option" where
  "LPC_rom b =
     (case map_of (m_Devices b) LPC_address of
        Some (Leaf d (LPC l)) \<Rightarrow> Some (m_rom l)
      | _ \<Rightarrow> None)"

definition share_rom :: "board pci_bus \<Rightarrow> 'v cpu \<Rightarrow> 'v cpu" where
  "share_rom b cpu =
     (case LPC_rom b of
        None \<Rightarrow> cpu
      | Some rom \<Rightarrow> cpu\<lparr>m_physMemMap :=
          map (\<lambda>r. if startingAddress r = ROM_BASE then r\<lparr>data := rom\<rparr> else r) (m_physMemMap cpu)\<rparr>)"

text \<open>The I/O mapper of the console, with that.\<close>

definition xbox_port :: "'c chr_ops \<Rightarrow> bool \<Rightarrow> ('h, 'c machine) haxm_cpu io_port" where
  "xbox_port ops enableSuperIO =
     (let p = cpu_port ops enableSuperIO in
      p\<lparr>port_IOWrite := (\<lambda>addr v sz s. bindr (port_IOWrite p addr v sz s)
        (\<lambda>(s, ok). Inr (share_rom (mach_PCIBus (devs (impl s))) s, ok)))\<rparr>)"

definition xbox_CPU :: "'h haxm_driver \<Rightarrow> 'c chr_ops \<Rightarrow> bool \<Rightarrow> u32 \<Rightarrow> ('h, 'c machine) haxm cpu_ops" where
  "xbox_CPU D ops enableSuperIO junk = HaxmCpu D (xbox_port ops enableSuperIO) junk"

text \<open>The contents of the EEPROM that the emulator is built with.\<close>

definition kDefaultEEPROM :: bytes where
  "kDefaultEEPROM = [
    0xe3, 0x1c, 0x5c, 0x23, 0x6a, 0x58, 0x68, 0x37, 0xb7, 0x12, 0x26, 0x6c, 0x99, 0x11, 0x30, 0xd1,
    0xe2, 0x3e, 0x4d, 0x56, 0xf7, 0x73, 0x2b, 0x73, 0x85, 0xfe, 0x7f, 0x0a, 0x08, 0xef, 0x15, 0x3c,
    0x77, 0xee, 0x6d, 0x4e, 0x93, 0x2f, 0x28, 0xee, 0xf8, 0x61, 0xf7, 0x94, 0x17, 0x1f, 0xfc, 0x11,
    0x0b, 0x84, 0x44, 0xed, 0x31, 0x30, 0x35, 0x35, 0x38, 0x31, 0x31, 0x31, 0x34, 0x30, 0x30, 0x33,
    0x00, 0x50, 0xf2, 0x4f, 0x65, 0x52, 0x00, 0x00, 0x0a, 0x1e, 0x35, 0x33, 0x71, 0x85, 0x31, 0x4d,
    0x59, 0x12, 0x38, 0x48, 0x1c, 0x91, 0x53, 0x60, 0x00, 0x01, 0x40, 0x00, 0x00, 0x00, 0x00, 0x00,
    0x75, 0x61, 0x57, 0xfb, 0x2c, 0x01, 0x00, 0x00, 0x45, 0x53, 0x54, 0x00, 0x45, 0x44, 0x54, 0x00,
    0x00, 0x00, 0x00, 0x00, 0x00, 0x00, 0x00, 0x00, 0x0a, 0x05, 0x00, 0x02, 0x04, 0x01, 0x00, 0x02,
    0x00, 0x00, 0x00, 0x00, 0x00, 0x00, 0x00, 0x00, 0x00, 0x00, 0x00, 0x00, 0xc4, 0xff, 0xff, 0xff,
    0x01, 0x00, 0x00, 0x00, 0x00, 0x00, 0x00, 0x00] @ replicate 104 0"

section \<open>The emulator\<close>

record 'v xbox =
  m_settings :: settings
  m_cpu :: "'v cpu"
  m_should_run :: bool
  m_lastSMCErrorCode :: u8
  m_lastBugCheckCode :: u32
  m_kernelVersion :: bytes
  m_kernelDataFound :: bool
  m_kExp_KiBugCheckData :: u32
  m_kExp_XboxKrnlVersion :: u32

text \<open>What the loop calls besides the CPU: the error register of the SMC, the exit information, the timer.\<close>

record 'v xbox_env =
  env_SMC_error :: "'v cpu \<Rightarrow> u8"
  env_exit_reason :: "'v cpu \<Rightarrow> CpuExitReason"
  env_stop_timer :: "'v cpu \<Rightarrow> 'v cpu"

definition Stop :: "'v xbox_env \<Rightarrow> 'v xbox \<Rightarrow> 'v xbox" where
  "Stop env x = x\<lparr>m_cpu := env_stop_timer env (m_cpu x), m_should_run := False\<rparr>"

text \<open>\<open>if (m_cpu->VMemRead(...)) return false\<close>.\<close>

definition read_or_false ::
  "'v cpu_ops \<Rightarrow> u32 \<Rightarrow> u32 \<Rightarrow> (bytes \<Rightarrow> 'v xbox \<Rightarrow> fault + bool \<times> 'v xbox) \<Rightarrow> 'v xbox \<Rightarrow> fault + bool \<times> 'v xbox" where
  "read_or_false ops addr n k x =
     bindr (VMemRead (vRegRead ops) addr n (m_cpu x)) (\<lambda>(r, cpu).
       let x = x\<lparr>m_cpu := cpu\<rparr> in
       case r of Inl _ \<Rightarrow> Inr (False, x) | Inr bs \<Rightarrow> k bs x)"

text \<open>A translation whose result is only printed.\<close>

definition translate_and_print :: "'v cpu_ops \<Rightarrow> u32 \<Rightarrow> 'v xbox \<Rightarrow> fault + 'v xbox" where
  "translate_and_print ops addr x =
     bindr (VirtualToPhysical (vRegRead ops) addr (m_cpu x)) (\<lambda>(_, cpu). Inr (x\<lparr>m_cpu := cpu\<rparr>))"

abbreviation KERNEL_BASE :: u32 where "KERNEL_BASE \<equiv> 0x80010000"

definition get_export :: "'v cpu_ops \<Rightarrow> u32 \<Rightarrow> u32 \<Rightarrow> (u32 \<Rightarrow> 'v xbox \<Rightarrow> 'v xbox) \<Rightarrow>
  ('v xbox \<Rightarrow> fault + bool \<times> 'v xbox) \<Rightarrow> 'v xbox \<Rightarrow> fault + bool \<times> 'v xbox" where
  "get_export ops exportsTableAddress num put k =
     read_or_false ops (exportsTableAddress + (num - 1) * 4) 4 (\<lambda>bs x. k (put (rd32 bs 0 + KERNEL_BASE) x))"

definition kernel_found :: "'v cpu_ops \<Rightarrow> u32 \<Rightarrow> u32 \<Rightarrow> u32 \<Rightarrow> 'v xbox \<Rightarrow> fault + bool \<times> 'v xbox" where
  "kernel_found ops peHeaderAddress baseOfCode exportsTableAddress x =
     bindr (translate_and_print ops peHeaderAddress x) (\<lambda>x.
     bindr (translate_and_print ops baseOfCode x) (\<lambda>x.
     bindr (translate_and_print ops exportsTableAddress x) (\<lambda>x.
     bindr (translate_and_print ops (m_kExp_KiBugCheckData x) x) (\<lambda>x.
     bindr (translate_and_print ops (m_kExp_XboxKrnlVersion x) x) (\<lambda>x.
     let x = x\<lparr>m_kernelDataFound := True\<rparr> in
     bindr (VMemRead (vRegRead ops) (m_kExp_XboxKrnlVersion x) 8 (m_cpu x)) (\<lambda>(r, cpu).
       let x = x\<lparr>m_cpu := cpu\<rparr> in
       Inr (True, case r of Inl _ \<Rightarrow> x | Inr bs \<Rightarrow> x\<lparr>m_kernelVersion := bs\<rparr>)))))))"

definition read_headers :: "'v cpu_ops \<Rightarrow> 'v xbox \<Rightarrow> fault + bool \<times> 'v xbox" where
  "read_headers ops =
     read_or_false ops 0x8001003C 4 (\<lambda>bs.
       let peHeaderAddress = rd32 bs 0 + KERNEL_BASE in
     read_or_false ops peHeaderAddress 2 (\<lambda>bs x.
       if rd16 bs 0 \<noteq> 0x4550 then Inr (False, x)
       else
         read_or_false ops (peHeaderAddress + 0x2C) 4 (\<lambda>bs.
           let baseOfCode = rd32 bs 0 + KERNEL_BASE in
         read_or_false ops (baseOfCode + 0x1C) 4 (\<lambda>bs.
           let exportsTableAddress = rd32 bs 0 + KERNEL_BASE in
         get_export ops exportsTableAddress 162 (\<lambda>v x. x\<lparr>m_kExp_KiBugCheckData := v\<rparr>) (
         get_export ops exportsTableAddress 324 (\<lambda>v x. x\<lparr>m_kExp_XboxKrnlVersion := v\<rparr>) (
         kernel_found ops peHeaderAddress baseOfCode exportsTableAddress)))) x))"

text \<open>The result of \<open>RegRead\<close> is not looked at: \<open>eip\<close> is then used without a value.\<close>

definition LocateKernelData :: "'v cpu_ops \<Rightarrow> 'v xbox \<Rightarrow> fault + bool \<times> 'v xbox" where
  "LocateKernelData ops x =
     (if m_kernelDataFound x then Inr (True, x)
      else bindr (vRegRead ops REG_EIP (m_cpu x)) (\<lambda>(r, cpu).
        let x = x\<lparr>m_cpu := cpu\<rparr> in
        case r of
          Inl _ \<Rightarrow> Inl Uninitialised
        | Inr eip \<Rightarrow>
            if eip \<ge> 0x80000000
            then read_or_false ops KERNEL_BASE 2 (\<lambda>bs x.
                   if rd16 bs 0 \<noteq> 0x5A4D then Inr (False, x) else read_headers ops x) x
            else read_headers ops x))"

section \<open>The emulation loop\<close>

definition note_bug_check :: "'v cpu_ops \<Rightarrow> 'v xbox \<Rightarrow> fault + 'v xbox" where
  "note_bug_check ops x =
     (if \<not> emu_stopOnBugChecks (m_settings x) then Inr x
      else bindr (LocateKernelData ops x) (\<lambda>(found, x).
        if \<not> found then Inr x
        else bindr (VMemRead (vRegRead ops) (m_kExp_KiBugCheckData x) 20 (m_cpu x)) (\<lambda>(r, cpu).
          let x = x\<lparr>m_cpu := cpu\<rparr> in
          case r of
            Inl _ \<Rightarrow> Inr x
          | Inr bs \<Rightarrow>
              let code = rd32 bs 0 in
              Inr (if code \<noteq> 0 \<and> m_lastBugCheckCode x \<noteq> code then x\<lparr>m_lastBugCheckCode := code\<rparr> else x))))"

text \<open>One pass of the loop: the status of the CPU, the state, and whether a \<open>break\<close> ends the loop.\<close>

definition RunCpu_pass ::
  "credit_constants \<Rightarrow> 'v cpu_ops \<Rightarrow> 'v xbox_env \<Rightarrow> 'v xbox \<Rightarrow> fault + CPUStatus \<times> 'v xbox \<times> bool" where
  "RunCpu_pass k ops env x =
     bindr (if cpu_singleStep (m_settings x) then Cpu_Step k ops (m_cpu x) else Cpu_Run k ops (m_cpu x)) (\<lambda>(result, cpu).
       let x = x\<lparr>m_cpu := cpu\<rparr> in
       if result \<noteq> CPUS_OK then Inr (result, Stop env x, True)
       else
         let smcErrorCode = env_SMC_error env (m_cpu x);
             fatal = smcErrorCode \<noteq> 0 \<and> m_lastSMCErrorCode x \<noteq> smcErrorCode
         in if fatal \<and> emu_stopOnSMCFatalErrors (m_settings x) then Inr (result, Stop env x, True)
            else bindr (note_bug_check ops (if fatal then x\<lparr>m_lastSMCErrorCode := smcErrorCode\<rparr> else x)) (\<lambda>x.
              let reason = env_exit_reason env (m_cpu x) in
              Inr (result,
                (if reason = CPU_EXIT_HLT \<or> reason = CPU_EXIT_SHUTDOWN then Stop env x else x), False)))"

text \<open>The loop may run forever: \<open>None\<close> is a run that does not return.\<close>

partial_function (option) RunCpu_loop ::
  "credit_constants \<Rightarrow> 'v cpu_ops \<Rightarrow> 'v xbox_env \<Rightarrow> CPUStatus \<Rightarrow> 'v xbox \<Rightarrow> (fault + CPUStatus \<times> 'v xbox) option" where
  "RunCpu_loop k ops env result x =
     (if \<not> m_should_run x then Some (Inr (result, x))
      else case RunCpu_pass k ops env x of
        Inl e \<Rightarrow> Some (Inl e)
      | Inr (result, x, brk) \<Rightarrow> if brk then Some (Inr (result, x)) else RunCpu_loop k ops env result x)"

text \<open>\<open>Inl ()\<close> is the result -1 of a call while the emulator is stopped.\<close>

definition RunCpu ::
  "credit_constants \<Rightarrow> 'v cpu_ops \<Rightarrow> 'v xbox_env \<Rightarrow> 'v xbox \<Rightarrow> (fault + (unit + CPUStatus) \<times> 'v xbox) option" where
  "RunCpu k ops env x =
     (if \<not> m_should_run x then Some (Inr (Inl (), x))
      else case RunCpu_loop k ops env CPUS_OK x of
        None \<Rightarrow> None
      | Some (Inl e) \<Rightarrow> Some (Inl e)
      | Some (Inr (result, x)) \<Rightarrow> Some (Inr (Inr result, x)))"

section \<open>The emulator on the HAXM module\<close>

definition SMC_error_register :: "'c machine \<Rightarrow> u8" where
  "SMC_error_register m =
     (case map_of (m_Devices (mach_PCIBus m)) SMBus_address of
        Some (Leaf d (SMBusCtl smb)) \<Rightarrow>
          (case map_of (smb_devices smb) (drop_bit 1 kSMBusAddress_SystemMicroController) of
             Some (SMC s) \<Rightarrow> SMC_GetRegister SMC_ErrorCode s
           | _ \<Rightarrow> 0)
      | _ \<Rightarrow> 0)"

definition stop_timer :: "'c machine \<Rightarrow> 'c machine" where
  "stop_timer m = m\<lparr>mach_i8254 := i8254_Reset (mach_i8254 m)\<rparr>"

definition haxm_env :: "('h, 'c machine) haxm xbox_env" where
  "haxm_env = \<lparr>env_SMC_error = (\<lambda>cpu. SMC_error_register (devs (impl cpu))),
     env_exit_reason = (\<lambda>cpu. exitReason (impl cpu)),
     env_stop_timer = upd_haxm (devs_update stop_timer)\<rparr>"

text \<open>What the program finds uninitialised, and the host's clock, when it starts.\<close>

record 'c power_on =
  p_junk :: bytes
  p_fifo_junk :: bytes
  p_pic :: i8259
  p_chrs :: "'c option list"
  p_chr :: 'c
  p_nanos :: u64
  p_io :: u32

definition Initialize ::
  "credit_constants \<Rightarrow> 'h haxm_driver \<Rightarrow> 'c chr_ops \<Rightarrow> bool \<Rightarrow> bool \<Rightarrow> 'c power_on \<Rightarrow>
   ('h, 'c machine) haxm_cpu option option \<Rightarrow> settings \<Rightarrow>
   fault + (EmulatorStatus + ('h, 'c machine) haxm xbox)" where
  "Initialize k D ops ram_ok rom_ok p0 module st =
     (let st = InitFixupSettings st in
      case InitMemory ram_ok rom_ok st of
        Inl e \<Rightarrow> Inr (Inl e)
      | Inr (mem, bios, mcpxROM) \<Rightarrow>
          bindr (InitCPU k (xbox_CPU D ops (hw_enableSuperIO st) (p_io p0)) module mem) (\<lambda>r.
          case r of
            Inl e \<Rightarrow> Inr (Inl e)
          | Inr cpu \<Rightarrow>
              bindr (InitHardware (hw_model st) (hw_enableSuperIO st) (replicate XBOX_ROM_AREA_SIZE 0) bios mcpxROM
                       (p_junk p0) (p_fifo_junk p0) kDefaultEEPROM (p_pic p0) (p_chrs p0) (p_chr p0) (p_nanos p0))
                (\<lambda>(m, io). Inr (Inr
                  \<lparr>m_settings = st,
                   m_cpu = share_rom (mach_PCIBus m) (upd_haxm (devs_update (\<lambda>_. m)) cpu),
                   m_should_run = False, m_lastSMCErrorCode = 0, m_lastBugCheckCode = 0,
                   m_kernelVersion = replicate 8 0, m_kernelDataFound = False, m_kExp_KiBugCheckData = 0,
                   m_kExp_XboxKrnlVersion = 0\<rparr>))))"

text \<open>\<open>Run\<close>, with the thread of the CPU as a call: it is joined at once.\<close>

definition Xbox_Run ::
  "credit_constants \<Rightarrow> 'h haxm_driver \<Rightarrow> 'c chr_ops \<Rightarrow> bool \<Rightarrow> bool \<Rightarrow> 'c power_on \<Rightarrow>
   ('h, 'c machine) haxm_cpu option option \<Rightarrow> settings \<Rightarrow>
   (fault + (EmulatorStatus \<times> ('h, 'c machine) haxm xbox option)) option" where
  "Xbox_Run k D ops ram_ok rom_ok p0 module st =
     (case Initialize k D ops ram_ok rom_ok p0 module st of
        Inl e \<Rightarrow> Some (Inl e)
      | Inr (Inl st) \<Rightarrow> Some (Inr (st, None))
      | Inr (Inr x) \<Rightarrow>
          (case RunCpu k (xbox_CPU D ops (hw_enableSuperIO (m_settings x)) (p_io p0)) haxm_env (x\<lparr>m_should_run := True\<rparr>) of
             None \<Rightarrow> None
           | Some (Inl e) \<Rightarrow> Some (Inl e)
           | Some (Inr (_, x)) \<Rightarrow> Some (Inr (EMUS_OK, Some x))))"

end
