(* ===== verification/Xbox_Laws.thy ===== *)
theory Xbox_Laws
  imports Xbox
begin

text \<open>
  What \<open>Xbox\<close> promises: a console that is initialised fetches its first instructions from the
  secret ROM, the loop stops for the reasons that are documented and no others, and the
  search for the kernel's data leaves everything but its findings alone.
\<close>

section \<open>Power on\<close>

lemma map_of_insert_dev:
  "map_of ds k = None \<Longrightarrow> map_of (insert_dev k p ds) k' = (if k' = k then Some p else map_of ds k')"
  by (induction k p ds rule: insert_dev.induct) (auto split: if_splits)

lemma connect_keeps:
  assumes "ConnectDevice ops k p b = Inr c" and "map_of (m_Devices b) j = Some q"
  shows "map_of (m_Devices c) j = Some q"
  using assms by (auto simp: ConnectDevice_def bindr_Inr_iff map_of_insert_dev split: if_splits)

lemma connect_all_keeps:
  "connect_all ds b = Inr c \<Longrightarrow> map_of (m_Devices b) j = Some q \<Longrightarrow> map_of (m_Devices c) j = Some q"
  by (induction ds b rule: connect_all.induct) (auto simp: bindr_Inr_iff dest: connect_keeps)

lemma connect_all_finds:
  assumes "connect_all ds b = Inr c" and "(k, p) \<in> set ds" and "distinct (map fst ds)" and "map_of (m_Devices b) k = None"
  shows "\<exists>q. dev_Init board_ops p = Inr q \<and> map_of (m_Devices c) k = Some (set_addr k q)"
  using assms
proof (induction ds b rule: connect_all.induct)
  case (2 j q ds b)
  obtain b' where b': "ConnectDevice board_ops j q b = Inr b'" "connect_all ds b' = Inr c"
    using 2(2) by (auto simp: bindr_Inr_iff)
  show ?case
  proof (cases "j = k")
    case True
    then have "p = q" using 2(3,4) by (auto simp: rev_image_eqI)
    then show ?thesis using b' 2(5) connect_all_keeps [OF b'(2), of k]
      by (auto simp: True ConnectDevice_def bindr_Inr_iff map_of_insert_dev)
  next
    case False
    then have "map_of (m_Devices b') k = None"
      using b'(1) 2(5) by (auto simp: ConnectDevice_def bindr_Inr_iff map_of_insert_dev split: if_splits)
    then show ?thesis using 2(1) b' 2(3,4) False by auto
  qed
qed simp

definition ROM_image :: "bool \<Rightarrow> bytes \<Rightarrow> bytes \<Rightarrow> nat \<Rightarrow> u8" where
  "ROM_image debugKit bios mcpxROM i =
     (if \<not> debugKit \<and> XBOX_ROM_AREA_SIZE - 512 \<le> i then mcpxROM ! (i - (XBOX_ROM_AREA_SIZE - 512))
      else bios ! (i mod length bios))"

lemma bus_rom:
  assumes "xbox_PCIBus smb (replicate XBOX_ROM_AREA_SIZE 0) bios mcpxROM debugKit = Inr b"
    and "length mcpxROM = 512" and "length bios = 256 * 1024 \<or> length bios = 1024 * 1024"
  shows "\<exists>rom. LPC_rom b = Some rom \<and> length rom = XBOX_ROM_AREA_SIZE
    \<and> (\<forall>i<XBOX_ROM_AREA_SIZE. rom ! i = ROM_image debugKit bios mcpxROM i)"
proof -
  let ?ds = "xbox_devices smb (replicate XBOX_ROM_AREA_SIZE 0) bios mcpxROM debugKit"
  let ?l = "new_LPC 0x10DE 0x01B2 0xD4 (replicate XBOX_ROM_AREA_SIZE 0) bios (length bios) mcpxROM (\<not> debugKit)"
  obtain c where c: "connect_all ?ds new_PCIBus = Inr c" "b = ConfigureIRQs LPCIRQMapper 12 c"
    using assms(1) by (auto simp: xbox_PCIBus_def bindr_Inr_iff)
  have mem: "(LPC_address, leaf_dev ?l) \<in> set ?ds" and dist: "distinct (map fst ?ds)"
    by (simp_all add: xbox_devices_def LPC_address_def PCI_DEVID_def PCI_DEVFN_def)
  obtain q where q: "dev_Init board_ops (leaf_dev ?l) = Inr q" "map_of (m_Devices c) LPC_address = Some (set_addr LPC_address q)"
    using connect_all_finds [OF c(1) mem dist] by (auto simp: new_PCIBus_def)
  obtain l where l: "snd ?l = LPC l" "lpc_ok l" "m_initMcpxROM l = (\<not> debugKit)" "m_mcpxROM l = mcpxROM" "m_bios l = bios"
    "m_biosSize l = length bios"
    using assms(2,3) by (auto simp: new_LPC_def lpc_ok_def XBOX_ROM_AREA_SIZE_def)
  obtain l' where l': "LPC_Reset l = Inr l'" "lpc_ok l'" "\<forall>i<XBOX_ROM_AREA_SIZE. m_rom l' ! i =
     (if m_initMcpxROM l \<and> XBOX_ROM_AREA_SIZE - 512 \<le> i
      then m_mcpxROM l ! (i - (XBOX_ROM_AREA_SIZE - 512)) else bios_image l i)"
    using LPC_Reset_rom [OF l(2)] by (auto simp: returns_iff)
  have "\<exists>d. q = Leaf d (LPC l')"
    using q(1) l(1) l'(1) by (cases ?l) (auto simp: leaf_dev_def board_ops_def LPC_Init_def Let_def)
  then show ?thesis
    using q(2) l' l by (auto simp: c(2) LPC_rom_def ConfigureIRQs_def lpc_ok_def ROM_image_def bios_image_def)
qed

lemma xbox_CPU_maps: "vMemMapSubregion (xbox_CPU D ops se junk) = haxm_MemMapSubregion D"
  "vInitializeImpl (xbox_CPU D ops se junk) = haxm_InitializeImpl D"
  "vRegRead (xbox_CPU D ops se junk) = haxm_RegRead D"
  by (simp_all add: xbox_CPU_def HaxmCpu_def)

definition range_of :: "MemoryRegion \<Rightarrow> PhysicalMemoryRange" where
  "range_of r = \<lparr>data = m_data r, startingAddress = m_start r, endingAddress = m_start r + of_nat (m_size r) - 1\<rparr>"

lemma map_subregions_mem:
  assumes "map_subregions (xbox_CPU D ops se junk) subs s = Inr (CPUS_MMAP_OK, t)"
    and "\<forall>r \<in> set subs. m_type r \<in> {MEM_REGION_RAM, MEM_REGION_ROM}"
  shows "m_physMemMap t = m_physMemMap s @ map range_of subs"
  using assms
proof (induction subs arbitrary: s)
  case (Cons r subs)
  then obtain st u where u: "haxm_MemMapSubregion D r s = Inr (st, u)"
    by (auto simp: xbox_CPU_maps bindr_Inr_iff)
  have r: "m_type r = MEM_REGION_RAM \<or> m_type r = MEM_REGION_ROM" using Cons.prems(2) by auto
  then have "map_subregions (xbox_CPU D ops se junk) subs (u\<lparr>m_physMemMap := m_physMemMap u @ [range_of r]\<rparr>) = Inr (CPUS_MMAP_OK, t)"
    using Cons.prems(1) u by (auto simp: xbox_CPU_maps range_of_def split: if_splits)
  then show ?case using Cons.IH Cons.prems(2) MemMapSubregion_mem [OF u] by fastforce
qed simp

lemma InitMemory_images:
  assumes "InitMemory ram_ok rom_ok st = Inr (mem, bios, mcpxROM)"
  shows "rom_bios st = Some bios \<and> rom_mcpx st = Some mcpxROM \<and> length mcpxROM = 512
    \<and> (length bios = 256 * 1024 \<or> length bios = 1024 * 1024)
    \<and> (\<exists>n. m_start mem = 0 \<and> m_subregions mem =
       [new_MemoryRegion MEM_REGION_ROM ROM_BASE XBOX_ROM_AREA_SIZE (replicate XBOX_ROM_AREA_SIZE 0),
        new_MemoryRegion MEM_REGION_RAM 0 n (replicate n 0)])"
  using assms
  by (auto simp: InitMemory_def InitRAM_def InitROM_def new_MemoryRegion_def Let_def split: sum.splits option.splits if_splits)

lemma InitCPU_mem:
  assumes "InitCPU k (xbox_CPU D ops se junk) (Some (Some cpu0)) mem = Inr (Inr cpu)" and "m_physMemMap cpu0 = []"
    and "\<forall>r \<in> set (m_subregions mem). m_type r \<in> {MEM_REGION_RAM, MEM_REGION_ROM}"
  shows "m_physMemMap cpu = map range_of (m_subregions mem)"
proof -
  obtain c where "Cpu_Initialize k (xbox_CPU D ops se junk) cpu0 = Inr (CPUS_INIT_OK, c)"
    "map_subregions (xbox_CPU D ops se junk) (m_subregions mem) c = Inr (CPUS_MMAP_OK, cpu)"
    using assms(1) by (auto simp: InitCPU_def MemMap_def bindr_Inr_iff split: if_splits)
  moreover from this(1) have "m_physMemMap c = []"
    using assms(2) by (auto simp: Cpu_Initialize_def xbox_CPU_maps haxm_InitializeImpl_def upd_haxm_def split: prod.splits)
  ultimately show ?thesis using map_subregions_mem assms(3) by fastforce
qed

lemma unat_u32_le: "unat (w :: u32) \<le> 0xFFFFFFFF"
proof -
  have "unat w < 2 ^ LENGTH(32)" by (rule unsigned_less)
  then show ?thesis by simp
qed

lemma read_shared_rom:
  assumes "length rom = XBOX_ROM_AREA_SIZE" and "ROM_BASE \<le> a" and "unat (a - ROM_BASE) + n \<le> XBOX_ROM_AREA_SIZE"
    and "0 < n" and "n < 2 ^ 32"
  shows "mem_read (\<lparr>data = rom, startingAddress = ROM_BASE, endingAddress = 0xFFFFFFFF\<rparr> # rs) a (of_nat n) =
    Inr (Inr (map (\<lambda>i. rom ! (unat (a - ROM_BASE) + i)) [0..<n]))"
proof -
  have "unat (of_nat n :: u32) = n" using assms(5) by (simp add: unat_of_nat)
  moreover have "holds_range \<lparr>data = rom, startingAddress = ROM_BASE, endingAddress = 0xFFFFFFFF\<rparr> a (of_nat n)"
    using assms(2) unat_u32_le [of "a + of_nat n - 1"] by (simp add: holds_range_def word_le_nat_alt)
  moreover have "take n (drop m rom) = map (\<lambda>i. rom ! (m + i)) [0..<n]" if "m + n \<le> length rom" for m
    using that by (intro nth_equalityI) simp_all
  ultimately show ?thesis using assms(1,3) by (simp add: Let_def)
qed

lemma rom_of_booted:
  assumes "InitHardware hw se (replicate XBOX_ROM_AREA_SIZE 0) bios mcpxROM junk fj ee pic chrs c0 nanos = Inr (m, io)"
    and "length mcpxROM = 512" and "length bios = 256 * 1024 \<or> length bios = 1024 * 1024"
  shows "\<exists>rom. LPC_rom (mach_PCIBus m) = Some rom \<and> length rom = XBOX_ROM_AREA_SIZE
    \<and> (\<forall>i<XBOX_ROM_AREA_SIZE. rom ! i = ROM_image (hw = DebugKit) bios mcpxROM i)"
proof -
  have "xbox_PCIBus (xbox_SMBus hw junk ee) (replicate XBOX_ROM_AREA_SIZE 0) bios mcpxROM (hw = DebugKit) = Inr (mach_PCIBus m)"
    using assms(1) by (auto simp: InitHardware_def bindr_Inr_iff)
  then show ?thesis by (rule bus_rom [OF _ assms(2,3)])
qed

text \<open>C3: a console that has been initialised fetches its first instructions from the right images: the 16 MiB below the top of the
  address space read as repeated copies of the BIOS with, but on a development kit, the secret ROM in their last 512 bytes.\<close>

theorem xbox_reset_vector:
  assumes "Initialize k D ops ram_ok rom_ok p0 (Some (Some cpu0)) st = Inr (Inr x)" and "m_physMemMap cpu0 = []"
    and "rom_bios st = Some bios" and "rom_mcpx st = Some mcpxROM"
  shows "(\<forall>a\<ge>ROM_BASE. mem_read (m_physMemMap (m_cpu x)) a 1 =
      Inr (Inr [ROM_image (hw_model st = DebugKit) bios mcpxROM (unat (a - ROM_BASE))]))
    \<and> (hw_model st \<noteq> DebugKit \<longrightarrow> mem_read (m_physMemMap (m_cpu x)) 0xFFFFFE00 512 = Inr (Inr mcpxROM))"
proof -
  let ?st = "InitFixupSettings st"
  have st: "hw_model ?st = hw_model st" "rom_bios ?st = rom_bios st" "rom_mcpx ?st = rom_mcpx st"
    by (simp_all add: InitFixupSettings_def)
  obtain mem where mem: "InitMemory ram_ok rom_ok ?st = Inr (mem, bios, mcpxROM)"
    using assms(1,3,4) InitMemory_images [of ram_ok rom_ok ?st] st
    by (cases "InitMemory ram_ok rom_ok ?st") (auto simp: Initialize_def)
  note images = InitMemory_images [OF mem]
  obtain r where r: "InitCPU k (xbox_CPU D ops (hw_enableSuperIO ?st) (p_io p0)) (Some (Some cpu0)) mem = Inr r"
    using assms(1) by (auto simp: Initialize_def mem Let_def bindr_Inr_iff)
  then obtain cpu m io where cpu: "InitCPU k (xbox_CPU D ops (hw_enableSuperIO ?st) (p_io p0)) (Some (Some cpu0)) mem = Inr (Inr cpu)"
    and hw: "InitHardware (hw_model st) (hw_enableSuperIO ?st) (replicate XBOX_ROM_AREA_SIZE 0) bios mcpxROM
      (p_junk p0) (p_fifo_junk p0) kDefaultEEPROM (p_pic p0) (p_chrs p0) (p_chr p0) (p_nanos p0) = Inr (m, io)"
    and x: "m_cpu x = share_rom (mach_PCIBus m) (upd_haxm (devs_update (\<lambda>_. m)) cpu)"
    using assms(1) by (cases r) (auto simp: Initialize_def mem st Let_def bindr_Inr_iff)
  obtain n where "m_subregions mem =
       [new_MemoryRegion MEM_REGION_ROM ROM_BASE XBOX_ROM_AREA_SIZE (replicate XBOX_ROM_AREA_SIZE 0),
        new_MemoryRegion MEM_REGION_RAM 0 n (replicate n 0)]" using images by blast
  moreover from this have "m_physMemMap cpu = map range_of (m_subregions mem)"
    by (intro InitCPU_mem [OF cpu assms(2)]) (simp add: new_MemoryRegion_def)
  ultimately have map: "m_physMemMap cpu =
      [\<lparr>data = replicate XBOX_ROM_AREA_SIZE 0, startingAddress = ROM_BASE, endingAddress = 0xFFFFFFFF\<rparr>,
       \<lparr>data = replicate n 0, startingAddress = 0, endingAddress = of_nat n - 1\<rparr>]"
    by (simp add: range_of_def new_MemoryRegion_def XBOX_ROM_AREA_SIZE_def)
  obtain rom where rom: "LPC_rom (mach_PCIBus m) = Some rom" "length rom = XBOX_ROM_AREA_SIZE"
    "\<And>i. i < XBOX_ROM_AREA_SIZE \<Longrightarrow> rom ! i = ROM_image (hw_model st = DebugKit) bios mcpxROM i"
    using rom_of_booted [OF hw] images by blast
  have phys: "m_physMemMap (m_cpu x) =
      [\<lparr>data = rom, startingAddress = ROM_BASE, endingAddress = 0xFFFFFFFF\<rparr>,
       \<lparr>data = replicate n 0, startingAddress = 0, endingAddress = of_nat n - 1\<rparr>]"
    by (simp add: x share_rom_def rom(1) upd_haxm_def map)
  have "mem_read (m_physMemMap (m_cpu x)) a 1 =
      Inr (Inr [ROM_image (hw_model st = DebugKit) bios mcpxROM (unat (a - ROM_BASE))])" if "ROM_BASE \<le> a" for a
  proof -
    have "unat (a - ROM_BASE) < XBOX_ROM_AREA_SIZE"
      using that unat_u32_le [of a] by (simp add: unat_sub word_le_nat_alt XBOX_ROM_AREA_SIZE_def)
    then show ?thesis
      using read_shared_rom [OF rom(2) that, of 1] rom(3) unfolding phys by simp
  qed
  moreover have "mem_read (m_physMemMap (m_cpu x)) 0xFFFFFE00 512 = Inr (Inr mcpxROM)" if "hw_model st \<noteq> DebugKit"
  proof -
    have "map (\<lambda>i. rom ! (XBOX_ROM_AREA_SIZE - 512 + i)) [0..<512] = mcpxROM"
      using images that by (intro nth_equalityI) (simp_all add: rom(3) ROM_image_def XBOX_ROM_AREA_SIZE_def)
    then show ?thesis
      using read_shared_rom [OF rom(2), of "0xFFFFFE00" 512] unfolding phys by (simp add: XBOX_ROM_AREA_SIZE_def)
  qed
  ultimately show ?thesis by blast
qed

text \<open>A console that comes up, on the sample driver.\<close>

definition sample_settings :: "bytes \<Rightarrow> bytes \<Rightarrow> settings" where
  "sample_settings bios mcpxROM = \<lparr>cpu_singleStep = False, ram_expanded = False, emu_stopOnSMCFatalErrors = True,
     emu_stopOnBugChecks = False, hw_model = Revision1_0, hw_enableSuperIO = True, rom_mcpx = Some mcpxROM,
     rom_bios = Some bios\<rparr>"

definition sample_power_on :: "unit power_on" where
  "sample_power_on = \<lparr>p_junk = replicate 256 0, p_fifo_junk = replicate 16 0, p_pic = booted, p_chrs = [Some (), None],
     p_chr = (), p_nanos = 0, p_io = 0\<rparr>"

definition blank_cpu :: "(vcpu_state \<times> u32 list, unit machine) haxm_cpu" where
  "blank_cpu = (sample_cpu 0 booted_timer)\<lparr>m_physMemMap := []\<rparr>"

lemma map_sample:
  assumes "m_type r = MEM_REGION_RAM \<or> m_type r = MEM_REGION_ROM" and "\<not> tst (of_nat (m_size r) :: u32) 0xFFF"
  shows "haxm_MemMapSubregion sample_driver r s = Inr (CPUS_MMAP_OK, upd_haxm (\<lambda>v. v) s)"
  using assms
  by (cases "m_type r") (simp_all add: haxm_MemMapSubregion_def haxm_AllocateMemory_def sample_driver_def upd_haxm_def Let_def)

lemma sample_console_boots:
  assumes "length bios = 256 * 1024" and "length mcpxROM = 512"
  shows "\<exists>x. Initialize release_build sample_driver ops True True sample_power_on (Some (Some blank_cpu))
    (sample_settings bios mcpxROM) = Inr (Inr x)"
proof -
  let ?ram = "new_MemoryRegion MEM_REGION_RAM 0 XBOX_RAM_SIZE_RETAIL (replicate XBOX_RAM_SIZE_RETAIL 0)"
  let ?rom = "new_MemoryRegion MEM_REGION_ROM ROM_BASE XBOX_ROM_AREA_SIZE (replicate XBOX_ROM_AREA_SIZE 0)"
  let ?st = "InitFixupSettings (sample_settings bios mcpxROM)"
  obtain mem where mem: "InitMemory True True ?st = Inr (mem, bios, mcpxROM)" "m_start mem = 0" "m_subregions mem = [?rom, ?ram]"
    using assms by (auto simp: InitMemory_def InitRAM_def InitROM_def InitFixupSettings_def sample_settings_def new_MemoryRegion_def Let_def)
  have create: "hax_create sample_driver h = (CPUS_INIT_OK, h)" for h by (simp add: sample_driver_def)
  have "\<exists>cpu. InitCPU release_build (xbox_CPU sample_driver ops True 0) (Some (Some blank_cpu)) mem = Inr (Inr cpu)"
    using mem(2,3)
    by (simp add: InitCPU_def Cpu_Initialize_def MemMap_def xbox_CPU_maps map_sample haxm_InitializeImpl_def
        new_MemoryRegion_def XBOX_RAM_SIZE_RETAIL_def XBOX_ROM_AREA_SIZE_def create)
  then obtain cpu where cpu: "InitCPU release_build (xbox_CPU sample_driver ops True 0) (Some (Some blank_cpu)) mem = Inr (Inr cpu)"
    by blast
  obtain m io where "InitHardware Revision1_0 True (replicate XBOX_ROM_AREA_SIZE 0) bios mcpxROM (replicate 256 0) (replicate 16 0)
      kDefaultEEPROM booted [Some (), None] () 0 = Inr (m, io)"
    using hardware_boots [where rom = "replicate XBOX_ROM_AREA_SIZE 0" and mcpxROM = mcpxROM and bios = bios
        and junk = "replicate 256 0" and eeprom = kDefaultEEPROM and fifo_junk = "replicate 16 0" and chrs = "[Some (), None]"
        and se = True and hw = Revision1_0 and ?pic0.0 = booted and ?c0.0 = "()" and nanos = 0] assms
    by (auto simp: returns_iff kDefaultEEPROM_def)
  then show ?thesis
    by (simp add: Initialize_def mem(1) cpu) (simp add: InitFixupSettings_def sample_settings_def sample_power_on_def Let_def cpu)
qed

theorem xbox_reset_vector_witness:
  "\<exists>x. Initialize release_build sample_driver null_chr_driver True True sample_power_on (Some (Some blank_cpu))
      (sample_settings (replicate (256 * 1024) 1) (replicate 512 2)) = Inr (Inr x)
    \<and> mem_read (m_physMemMap (m_cpu x)) 0xFFFFFE00 512 = Inr (Inr (replicate 512 2))"
proof -
  obtain x where "Initialize release_build sample_driver null_chr_driver True True sample_power_on (Some (Some blank_cpu))
      (sample_settings (replicate (256 * 1024) 1) (replicate 512 2)) = Inr (Inr x)"
    using sample_console_boots [of "replicate (256 * 1024) 1" "replicate 512 2" null_chr_driver] by auto
  then show ?thesis
    using xbox_reset_vector [where x = x and bios = "replicate (256 * 1024) 1" and mcpxROM = "replicate 512 2"]
    by (force simp: blank_cpu_def sample_settings_def)
qed

end
