(* ===== verification/Xbox_Loop.thy ===== *)
theory Xbox_Loop
  imports Xbox_Laws
begin

text \<open>
  The emulation loop on the HAXM module: what makes it stop, what the search for the kernel's data leaves
  alone, and the loop as the repetition of its body.
\<close>

section \<open>Reading is harmless\<close>

definition unmoved :: "('h, 'd) haxm_cpu \<Rightarrow> ('h, 'd) haxm_cpu \<Rightarrow> bool" where
  "unmoved s t \<longleftrightarrow> exitReason (impl t) = exitReason (impl s) \<and> devs (impl t) = devs (impl s) \<and> m_physMemMap t = m_physMemMap s"

lemma unmoved_refl [simp]: "unmoved s s"
  by (simp add: unmoved_def)

lemma unmoved_trans: "unmoved s t \<Longrightarrow> unmoved t u \<Longrightarrow> unmoved s u"
  by (simp add: unmoved_def)

definition harmless :: "(('h, 'd) haxm, 'a) cpu_op \<Rightarrow> bool" where
  "harmless m \<longleftrightarrow> (\<forall>s. whenever (\<lambda>(r, t). unmoved s t) (m s))"

lemma harmlessD: "harmless m \<Longrightarrow> m s = Inr (r, t) \<Longrightarrow> unmoved s t"
  by (auto simp: harmless_def whenever_iff)

lemma harmless_check:
  assumes m: "harmless m" and f: "\<And>a. harmless (f a)"
  shows "harmless (check_result m f)"
proof -
  have "unmoved s t" if hit: "check_result m f s = Inr (r, t)" for s r t
  proof -
    obtain q u where "m s = Inr (q, u)" using hit by (cases "m s") (auto simp: check_result_def)
    then show ?thesis
      using hit harmlessD [OF m, of s] unmoved_trans harmlessD [OF f, of _ u] by (cases q) (simp_all add: check_result_def, blast)
  qed
  then show ?thesis by (auto simp: harmless_def whenever_iff)
qed

lemma harmless_Refresh: "harmless (RefreshRegisters D False)"
  by (auto simp: harmless_def RefreshRegisters_def haxm_GetRegisters_def op_ok_def op_fail_def unmoved_def upd_haxm_def Let_def
      split: prod.split option.split)

lemma harmless_RegRead: "harmless (haxm_RegRead D r)"
  unfolding haxm_RegRead_def
  by (rule harmless_check [OF harmless_Refresh]) (auto simp: harmless_def op_ok_def op_fail_def split: option.split)

lemma harmless_MemRead: "harmless (MemRead a n)"
  by (auto simp: harmless_def MemRead_def whenever_iff bindr_Inr_iff)

lemma translate_unmoved:
  assumes "VirtualToPhysical (haxm_RegRead D) v s = Inr (r, t)"
  shows "unmoved s t"
proof -
  obtain q u where u: "haxm_RegRead D REG_CR3 s = Inr (q, u)"
    using assms by (cases "haxm_RegRead D REG_CR3 s") (auto simp: VirtualToPhysical_def)
  then have "t = u"
    using assms by (cases q) (auto simp: VirtualToPhysical_def bindr_Inr_iff split: if_splits)
  then show ?thesis using harmlessD [OF harmless_RegRead u] by simp
qed

lemma harmless_VMemRead: "harmless (VMemRead (haxm_RegRead D) v sz :: (('h, 'd) haxm, bytes) cpu_op)"
proof -
  have "harmless (vmem_read_loop (haxm_RegRead D) n a e p c sz b :: (('h, 'd) haxm, bytes) cpu_op)" for n a e p c b
  proof (induction n arbitrary: a e p c b)
    case (Suc n)
    have rest: "harmless (check_result (MemRead pa c) (\<lambda>bs. vmem_read_loop (haxm_RegRead D) n a' e' p' c' sz (b @ bs)) :: (('h, 'd) haxm, bytes) cpu_op)"
      for pa a' e' p' c'
      by (rule harmless_check [OF harmless_MemRead]) (rule Suc.IH)
    have "unmoved s t" if hit: "vmem_read_loop (haxm_RegRead D) (Suc n) a e p c sz b s = Inr (r, t)"
      for s t :: "('h, 'd) haxm_cpu" and r
    proof (cases "p < sz")
      case True
      then obtain q u where u: "VirtualToPhysical (haxm_RegRead D) a s = Inr (q, u)"
        using hit by (cases "VirtualToPhysical (haxm_RegRead D) a s") auto
      then show ?thesis
        using hit True harmlessD [OF rest] translate_unmoved [OF u]
        by (cases q) (auto simp: Let_def intro: unmoved_trans)
    qed (use hit in simp)
    then show ?case by (auto simp: harmless_def whenever_iff)
  qed (simp add: harmless_def)
  then show ?thesis by (simp add: harmless_def VMemRead_def del: vmem_read_loop.simps)
qed

section \<open>The search for the kernel\<close>

text \<open>The parts of the emulator that the search may not touch.\<close>

definition only_finds :: "('h, 'd) haxm xbox \<Rightarrow> ('h, 'd) haxm xbox \<Rightarrow> bool" where
  "only_finds x y \<longleftrightarrow> unmoved (m_cpu x) (m_cpu y) \<and> m_settings y = m_settings x \<and> m_should_run y = m_should_run x
     \<and> m_lastSMCErrorCode y = m_lastSMCErrorCode x"

lemma only_finds_trans: "only_finds x y \<Longrightarrow> only_finds y z \<Longrightarrow> only_finds x z"
  by (auto simp: only_finds_def intro: unmoved_trans)

lemma only_finds_refl [simp]: "only_finds x x"
  by (simp add: only_finds_def)

lemma only_finds_put [simp]:
  "only_finds x (x\<lparr>m_kExp_KiBugCheckData := v\<rparr>)" "only_finds x (x\<lparr>m_kExp_XboxKrnlVersion := v\<rparr>)"
  "only_finds x (x\<lparr>m_kernelDataFound := b\<rparr>)" "only_finds x (x\<lparr>m_kernelVersion := bs\<rparr>)"
  "only_finds x (x\<lparr>m_lastBugCheckCode := v\<rparr>)"
  by (simp_all add: only_finds_def)

definition finder :: "(('h, 'd) haxm xbox \<Rightarrow> fault + 'a \<times> ('h, 'd) haxm xbox) \<Rightarrow> bool" where
  "finder f \<longleftrightarrow> (\<forall>x r y. f x = Inr (r, y) \<longrightarrow> only_finds x y)"

lemma finder_read:
  assumes k: "\<And>bs. finder (k bs)" and ops: "vRegRead ops = haxm_RegRead D"
  shows "finder (read_or_false ops addr n k)"
proof -
  have "only_finds x y" if hit: "read_or_false ops addr n k x = Inr (r, y)" for x r y
  proof -
    obtain q u where u: "VMemRead (haxm_RegRead D) addr n (m_cpu x) = Inr (q, u)"
      using hit by (cases "VMemRead (haxm_RegRead D) addr n (m_cpu x)") (auto simp: read_or_false_def ops)
    have "only_finds x (x\<lparr>m_cpu := u\<rparr>)"
      using harmlessD [OF harmless_VMemRead u] by (simp add: only_finds_def)
    then show ?thesis
      using hit u k by (cases q) (auto simp: read_or_false_def ops finder_def intro: only_finds_trans)
  qed
  then show ?thesis by (auto simp: finder_def)
qed

lemma finder_export:
  assumes "finder k" and "\<And>v x. only_finds x (put v x)" and "vRegRead ops = haxm_RegRead D"
  shows "finder (get_export ops t n put k)"
proof -
  have "finder (\<lambda>x. k (put v x))" for v
    unfolding finder_def using assms(1) [unfolded finder_def] assms(2) only_finds_trans by blast
  then show ?thesis unfolding get_export_def by (intro finder_read [OF _ assms(3)])
qed

lemma translate_finds:
  assumes "translate_and_print ops a x = Inr y" and "vRegRead ops = haxm_RegRead D"
  shows "only_finds x y"
proof -
  obtain q u where u: "VirtualToPhysical (haxm_RegRead D) a (m_cpu x) = Inr (q, u)"
    using assms by (cases "VirtualToPhysical (haxm_RegRead D) a (m_cpu x)") (auto simp: translate_and_print_def)
  then show ?thesis using assms translate_unmoved [OF u] by (auto simp: translate_and_print_def only_finds_def)
qed

lemma finder_bind:
  assumes "\<And>x y. m x = Inr y \<Longrightarrow> only_finds x y" and "finder k"
  shows "finder (\<lambda>x. bindr (m x) k)"
  unfolding finder_def bindr_Inr_iff using assms(1) assms(2) [unfolded finder_def] only_finds_trans by blast

lemma finder_tail:
  assumes ops: "vRegRead ops = haxm_RegRead D"
  shows "finder (\<lambda>x :: ('h, 'd) haxm xbox. let x = x\<lparr>m_kernelDataFound := True\<rparr> in
     bindr (VMemRead (vRegRead ops) (m_kExp_XboxKrnlVersion x) 8 (m_cpu x)) (\<lambda>(r, cpu).
       let x = x\<lparr>m_cpu := cpu\<rparr> in Inr (True, case r of Inl _ \<Rightarrow> x | Inr bs \<Rightarrow> x\<lparr>m_kernelVersion := bs\<rparr>)))"
  unfolding finder_def
proof (intro allI impI)
  fix x :: "('h, 'd) haxm xbox" and r y
  assume hit: "(let x = x\<lparr>m_kernelDataFound := True\<rparr> in
     bindr (VMemRead (vRegRead ops) (m_kExp_XboxKrnlVersion x) 8 (m_cpu x)) (\<lambda>(r, cpu).
       let x = x\<lparr>m_cpu := cpu\<rparr> in Inr (True, case r of Inl _ \<Rightarrow> x | Inr bs \<Rightarrow> x\<lparr>m_kernelVersion := bs\<rparr>))) = Inr (r, y)"
  obtain q c where c: "VMemRead (haxm_RegRead D) (m_kExp_XboxKrnlVersion x) 8 (m_cpu x) = Inr (q, c)"
    using hit by (cases "VMemRead (haxm_RegRead D) (m_kExp_XboxKrnlVersion x) 8 (m_cpu x)") (auto simp: Let_def ops)
  show "only_finds x y"
    using hit harmlessD [OF harmless_VMemRead c] by (cases q) (auto simp: Let_def ops c only_finds_def)
qed

lemma finder_kernel_found:
  assumes ops: "vRegRead ops = haxm_RegRead D"
  shows "finder (kernel_found ops p b e)"
  unfolding kernel_found_def [abs_def]
  by (intro finder_bind finder_tail [OF ops]) (erule translate_finds [OF _ ops])+

lemma finder_headers:
  assumes "vRegRead ops = haxm_RegRead D"
  shows "finder (read_headers ops)"
proof -
  have cond: "finder (\<lambda>x. if b then Inr (False, x) else f x)" if "finder f" for b and f :: "('a, 'b) haxm xbox \<Rightarrow> fault + bool \<times> ('a, 'b) haxm xbox"
    using that by (simp add: finder_def)
  show ?thesis
    unfolding read_headers_def Let_def
    by (intro cond finder_read [OF _ assms] finder_export [OF _ _ assms] finder_kernel_found [OF assms]) simp_all
qed

lemma finder_LocateKernelData:
  assumes ops: "vRegRead ops = haxm_RegRead D"
  shows "finder (LocateKernelData ops)"
  unfolding finder_def
proof (intro allI impI)
  fix x r y
  assume hit: "LocateKernelData ops x = Inr (r, y)"
  show "only_finds x y"
  proof (cases "m_kernelDataFound x")
    case False
    then obtain q c where c: "haxm_RegRead D REG_EIP (m_cpu x) = Inr (q, c)"
      using hit by (cases "haxm_RegRead D REG_EIP (m_cpu x)") (auto simp: LocateKernelData_def ops)
    have x: "only_finds x (x\<lparr>m_cpu := c\<rparr>)" using harmlessD [OF harmless_RegRead c] by (simp add: only_finds_def)
    have "finder (\<lambda>x. if b then Inr (False, x) else read_headers ops x)" for b
      using finder_headers [OF ops] by (simp add: finder_def)
    then have mz: "finder (read_or_false ops KERNEL_BASE 2 (\<lambda>bs x. if rd16 bs 0 \<noteq> 0x5A4D then Inr (False, x) else read_headers ops x))"
      by (intro finder_read [OF _ ops])
    obtain eip where q: "q = Inr eip" using False hit c by (cases q) (auto simp: LocateKernelData_def ops)
    have "only_finds (x\<lparr>m_cpu := c\<rparr>) y"
    proof (cases "0x80000000 \<le> eip")
      case True
      then show ?thesis using False hit c mz by (simp add: LocateKernelData_def ops q finder_def Let_def)
    next
      case low: False
      then show ?thesis using False hit c finder_headers [OF ops] by (simp add: LocateKernelData_def ops q finder_def Let_def)
    qed
    then show ?thesis by (rule only_finds_trans [OF x])
  qed (use hit in \<open>simp add: LocateKernelData_def\<close>)
qed

lemma note_bug_check_finds:
  assumes "note_bug_check ops x = Inr y" and ops: "vRegRead ops = haxm_RegRead D"
  shows "only_finds x y"
proof (cases "emu_stopOnBugChecks (m_settings x)")
  case True
  obtain b u where u: "LocateKernelData ops x = Inr (b, u)"
    using assms(1) True by (cases "LocateKernelData ops x") (auto simp: note_bug_check_def)
  have xu: "only_finds x u" using finder_LocateKernelData [OF ops] u by (auto simp: finder_def)
  show ?thesis
  proof (cases b)
    case b: True
    obtain q c where c: "VMemRead (haxm_RegRead D) (m_kExp_KiBugCheckData u) 20 (m_cpu u) = Inr (q, c)"
      using assms(1) True u b by (cases "VMemRead (haxm_RegRead D) (m_kExp_KiBugCheckData u) 20 (m_cpu u)") (auto simp: note_bug_check_def ops)
    have "only_finds u y"
      using assms(1) True u b c harmlessD [OF harmless_VMemRead c]
      by (cases q) (auto simp: note_bug_check_def ops only_finds_def Let_def split: if_splits)
    then show ?thesis using xu only_finds_trans by blast
  qed (use assms(1) True u xu in \<open>auto simp: note_bug_check_def\<close>)
qed (use assms(1) in \<open>simp add: note_bug_check_def\<close>)

section \<open>What ends the emulation\<close>

abbreviation cpu_turn :: "credit_constants \<Rightarrow> 'v cpu_ops \<Rightarrow> 'v xbox \<Rightarrow> fault + CPUStatus \<times> 'v cpu" where
  "cpu_turn k ops x \<equiv> if cpu_singleStep (m_settings x) then Cpu_Step k ops (m_cpu x) else Cpu_Run k ops (m_cpu x)"

lemma xbox_CPU_reads: "vRegRead (xbox_CPU D ops se junk) = haxm_RegRead D"
  by (simp add: xbox_CPU_def HaxmCpu_def)

lemma haxm_Stop [simp]:
  "m_should_run (Stop haxm_env x) = False"
  "m_settings (Stop haxm_env x) = m_settings x"
  "m_physMemMap (m_cpu (Stop haxm_env x)) = m_physMemMap (m_cpu x)"
  "devs (impl (m_cpu (Stop haxm_env x))) = stop_timer (devs (impl (m_cpu x)))"
  by (simp_all add: Stop_def haxm_env_def upd_haxm_def)

lemma emulation_pass:
  assumes pass: "RunCpu_pass k (xbox_CPU D ops se junk) haxm_env x = Inr (result, y, brk)" and running: "m_should_run x"
  shows "\<exists>cpu. cpu_turn k (xbox_CPU D ops se junk) x = Inr (result, cpu)
    \<and> (m_should_run y \<longleftrightarrow> result = CPUS_OK
         \<and> \<not> (emu_stopOnSMCFatalErrors (m_settings x) \<and> SMC_error_register (devs (impl cpu)) \<notin> {0, m_lastSMCErrorCode x})
         \<and> exitReason (impl cpu) \<notin> {CPU_EXIT_HLT, CPU_EXIT_SHUTDOWN})
    \<and> devs (impl (m_cpu y)) = (if m_should_run y then devs (impl cpu) else stop_timer (devs (impl cpu)))
    \<and> m_physMemMap (m_cpu y) = m_physMemMap cpu \<and> m_settings y = m_settings x
    \<and> (brk \<longrightarrow> \<not> m_should_run y)"
proof -
  let ?ops = "xbox_CPU D ops se junk"
  obtain rc where "cpu_turn k ?ops x = Inr rc"
    using pass by (cases "cpu_turn k ?ops x") (simp_all add: RunCpu_pass_def)
  then obtain r cpu where turn: "cpu_turn k ?ops x = Inr (r, cpu)" by (cases rc) simp
  define e where "e = SMC_error_register (devs (impl cpu))"
  define fatal where "fatal \<longleftrightarrow> e \<noteq> 0 \<and> m_lastSMCErrorCode x \<noteq> e"
  define x1 where "x1 = x\<lparr>m_cpu := cpu\<rparr>"
  have x1: "m_should_run x1" "m_settings x1 = m_settings x" "m_cpu x1 = cpu" by (simp_all add: x1_def running)
  have env: "env_SMC_error haxm_env cpu = e" "env_exit_reason haxm_env c = exitReason (impl c)" for c :: "('a, 'b machine) haxm_cpu"
    by (simp_all add: haxm_env_def e_def)
  consider (failed) "r \<noteq> CPUS_OK" | (fatal) "r = CPUS_OK" "fatal" "emu_stopOnSMCFatalErrors (m_settings x)"
    | (on) "r = CPUS_OK" "\<not> (fatal \<and> emu_stopOnSMCFatalErrors (m_settings x))" by blast
  then show ?thesis
  proof cases
    case failed
    then have "result = r" "y = Stop haxm_env x1"
      using pass turn by (simp_all add: RunCpu_pass_def x1_def)
    then show ?thesis using failed turn by (simp add: x1)
  next
    case fatal
    then have "result = r" "y = Stop haxm_env x1"
      using pass turn by (simp_all add: RunCpu_pass_def env fatal_def Let_def x1_def)
    then show ?thesis using fatal turn by (simp add: x1 fatal_def e_def) (metis)
  next
    case on
    define x2 where "x2 = (if fatal then x1\<lparr>m_lastSMCErrorCode := e\<rparr> else x1)"
    obtain z where z: "note_bug_check ?ops x2 = Inr z"
      using pass turn on
      by (cases "note_bug_check ?ops x2") (auto simp: RunCpu_pass_def env fatal_def Let_def x1_def x2_def split: if_splits)
    have y: "result = CPUS_OK" "\<not> brk"
      "y = (if exitReason (impl (m_cpu z)) \<in> {CPU_EXIT_HLT, CPU_EXIT_SHUTDOWN} then Stop haxm_env z else z)"
      using pass turn on z by (auto simp: RunCpu_pass_def env fatal_def Let_def x1_def x2_def split: if_splits)
    have "only_finds x2 z" by (rule note_bug_check_finds [OF z xbox_CPU_reads])
    then have found: "exitReason (impl (m_cpu z)) = exitReason (impl cpu)" "devs (impl (m_cpu z)) = devs (impl cpu)"
      "m_physMemMap (m_cpu z) = m_physMemMap cpu" "m_should_run z" "m_settings z = m_settings x"
      by (auto simp: only_finds_def unmoved_def x2_def x1)
    show ?thesis
      using on turn y found by (auto simp: fatal_def e_def)
  qed
qed

text \<open>C10: A pass of the emulation loop, on the HAXM module, leaves the emulator running exactly when the CPU
  returned without an error, its exit was neither a halt nor a shutdown, and the microcontroller shows no
  new error code while the settings ask to stop on one. When it stops, the timer is stopped; the devices
  and the memory map are otherwise those that the CPU left: the look for a bug check, whatever its setting,
  neither stops the emulator nor touches them.
\<close>

theorem emulation_stops:
  assumes "RunCpu_pass k (xbox_CPU D ops se junk) haxm_env x = Inr (result, y, brk)" and "m_should_run x"
  shows "\<exists>cpu. (if cpu_singleStep (m_settings x) then Cpu_Step k (xbox_CPU D ops se junk) (m_cpu x)
        else Cpu_Run k (xbox_CPU D ops se junk) (m_cpu x)) = Inr (result, cpu)
    \<and> (m_should_run y \<longleftrightarrow> result = CPUS_OK
         \<and> \<not> (emu_stopOnSMCFatalErrors (m_settings x) \<and> SMC_error_register (devs (impl cpu)) \<notin> {0, m_lastSMCErrorCode x})
         \<and> exitReason (impl cpu) \<notin> {CPU_EXIT_HLT, CPU_EXIT_SHUTDOWN})
    \<and> devs (impl (m_cpu y)) = (if m_should_run y then devs (impl cpu) else stop_timer (devs (impl cpu)))
    \<and> m_physMemMap (m_cpu y) = m_physMemMap cpu"
  using emulation_pass [OF assms] by blast

section \<open>The loop as the repetition of its body\<close>

inductive emulates ::
  "credit_constants \<Rightarrow> 'v cpu_ops \<Rightarrow> 'v xbox_env \<Rightarrow> CPUStatus \<Rightarrow> 'v xbox \<Rightarrow> fault + CPUStatus \<times> 'v xbox \<Rightarrow> bool"
  for k ops env where
  stopped: "\<not> m_should_run x \<Longrightarrow> emulates k ops env r x (Inr (r, x))"
| faulted: "m_should_run x \<Longrightarrow> RunCpu_pass k ops env x = Inl e \<Longrightarrow> emulates k ops env r x (Inl e)"
| broken: "m_should_run x \<Longrightarrow> RunCpu_pass k ops env x = Inr (q, y, True) \<Longrightarrow> emulates k ops env r x (Inr (q, y))"
| again: "m_should_run x \<Longrightarrow> RunCpu_pass k ops env x = Inr (q, y, False) \<Longrightarrow> emulates k ops env q y out
    \<Longrightarrow> emulates k ops env r x out"

inductive_cases emulates_ok: "emulates k ops env r x (Inr (q, y))"

lemma loop_emulates:
  assumes "RunCpu_loop k ops env r x = Some out"
  shows "emulates k ops env r x out"
proof (rule RunCpu_loop.raw_induct [of emulates "((((k, ops), env), r), x)" out, unfolded prod.case])
  fix loop k ops env r and x :: "'a xbox" and out
  assume "\<And>k ops env r (x :: 'a xbox) out. loop k ops env r x = Some out \<Longrightarrow> emulates k ops env r x out"
    and "(if \<not> m_should_run x then Some (Inr (r, x)) else case RunCpu_pass k ops env x of Inl e \<Rightarrow> Some (Inl e)
      | Inr (r, x, brk) \<Rightarrow> if brk then Some (Inr (r, x)) else loop k ops env r x) = Some out"
  then show "emulates k ops env r x out"
    by (auto intro: emulates.stopped emulates.faulted split: if_splits sum.splits) (metis emulates.broken, metis emulates.again)
qed (rule assms)

lemma emulates_loop: "emulates k ops env r x out \<Longrightarrow> RunCpu_loop k ops env r x = Some out"
  by (induction rule: emulates.induct) (subst RunCpu_loop.simps; simp)+


lemma emulates_ends_stopped:
  assumes "emulates k (xbox_CPU D ops se junk) haxm_env r x out"
  shows "out = Inr (q, y) \<Longrightarrow> \<not> m_should_run y \<and> m_settings y = m_settings x
    \<and> (m_should_run x \<longrightarrow> (\<exists>m. devs (impl (m_cpu y)) = stop_timer m))"
  using assms
proof (induction rule: emulates.induct)
  case (broken x p z r)
  then show ?case using emulation_pass [OF broken(2,1)] by auto
next
  case (again x p z out r)
  then show ?case using emulation_pass [OF again(2,1)] by (cases "m_should_run z") (auto elim: emulates.cases)
qed simp_all

text \<open>Whenever \<open>RunCpu\<close> returns on the HAXM module without a fault, the emulator is stopped: its run
  flag is off, the timer of the i8254 has been stopped, so that no thread raises an interrupt any more, and
  the settings are those it started with.
\<close>

theorem emulation_ends_stopped:
  assumes "RunCpu k (xbox_CPU D ops se junk) haxm_env x = Some (Inr (Inr result, y))"
  shows "\<not> m_should_run y \<and> m_settings y = m_settings x \<and> (\<exists>m. devs (impl (m_cpu y)) = stop_timer m)"
proof -
  have "m_should_run x" and "RunCpu_loop k (xbox_CPU D ops se junk) haxm_env CPUS_OK x = Some (Inr (result, y))"
    using assms by (auto simp: RunCpu_def split: if_splits option.splits sum.splits)
  then show ?thesis using emulates_ends_stopped [OF loop_emulates] by blast
qed

text \<open>An emulator whose driver refuses to run.\<close>

definition stuck_driver :: "(vcpu_state \<times> u32 list) haxm_driver" where
  "stuck_driver = sample_driver\<lparr>hax_run := (\<lambda>m t b h. (False, m, t, b, h))\<rparr>"

definition sample_xbox :: "(vcpu_state \<times> u32 list, unit machine) haxm xbox" where
  "sample_xbox = \<lparr>m_settings = sample_settings [] [], m_cpu = blank_cpu, m_should_run = True, m_lastSMCErrorCode = 0,
     m_lastBugCheckCode = 0, m_kernelVersion = replicate 8 0, m_kernelDataFound = False, m_kExp_KiBugCheckData = 0,
     m_kExp_XboxKrnlVersion = 0\<rparr>"

lemma stuck_pass:
  "\<exists>y. RunCpu_pass release_build (xbox_CPU stuck_driver null_chr_driver True 0) haxm_env sample_xbox = Inr (CPUS_FAILED, y, True)"
proof -
  let ?ops = "xbox_CPU stuck_driver null_chr_driver True 0 :: (vcpu_state \<times> u32 list, unit machine) haxm cpu_ops"
  have "m_pendingInterrupts blank_cpu = []" by (simp add: blank_cpu_def sample_cpu_def sample_cpu_with_def)
  then have "\<exists>c. HandleInterruptQueue release_build ?ops blank_cpu = Inr c"
    by (simp add: HandleInterruptQueue_def Let_def)
  then obtain c where c: "HandleInterruptQueue release_build ?ops blank_cpu = Inr c" by blast
  obtain s where "vRunImpl ?ops c = Inr (CPUS_FAILED, s)"
    by (auto simp: xbox_CPU_def HaxmCpu_def haxm_RunImpl_def haxm_vcpu_Run_def stuck_driver_def haxm_HandleExecResult_def Let_def)
  then show ?thesis
    by (simp add: RunCpu_pass_def Cpu_Run_def sample_xbox_def sample_settings_def c Let_def)
qed

theorem emulation_stops_witness:
  "\<exists>y. RunCpu_pass release_build (xbox_CPU stuck_driver null_chr_driver True 0) haxm_env sample_xbox = Inr (CPUS_FAILED, y, True)
    \<and> \<not> m_should_run y"
proof -
  obtain y where y: "RunCpu_pass release_build (xbox_CPU stuck_driver null_chr_driver True 0) haxm_env sample_xbox
      = Inr (CPUS_FAILED, y, True)"
    using stuck_pass by blast
  then show ?thesis using emulation_stops [OF y] by (auto simp: sample_xbox_def)
qed

theorem emulation_ends_stopped_witness:
  "\<exists>y. RunCpu release_build (xbox_CPU stuck_driver null_chr_driver True 0) haxm_env sample_xbox
      = Some (Inr (Inr CPUS_FAILED, y)) \<and> \<not> m_should_run y"
proof -
  obtain y where "RunCpu_pass release_build (xbox_CPU stuck_driver null_chr_driver True 0) haxm_env sample_xbox
      = Inr (CPUS_FAILED, y, True)"
    using stuck_pass by blast
  then have y: "RunCpu release_build (xbox_CPU stuck_driver null_chr_driver True 0) haxm_env sample_xbox
      = Some (Inr (Inr CPUS_FAILED, y))"
    unfolding RunCpu_def by (subst RunCpu_loop.simps) (simp add: sample_xbox_def)
  then show ?thesis using emulation_ends_stopped [OF y] by auto
qed

end
