(* ===== verification/Gdb.thy ===== *)
theory Gdb
  imports CpuMem
begin

text \<open>
  The GDB server, \<open>core/openxbox/gdbserver.cpp\<close>: a stub of the remote serial protocol that
  reads and writes registers and memory of the CPU. The connection is the bytes that the client will
  send before it closes, the bytes sent to it, and how many more it takes before sending fails. A
  \<open>char\<close> is a \<open>u8\<close>; \<open>EOF\<close> is -1, which the byte 0xFF turns into when it is read as a \<open>char\<close>.
  Functions that return \<open>EOF\<close> or a value return an option. The macro \<open>ASSERT\<close> is \<open>assert\<close>
  in all builds. The sockets are opened and closed elsewhere.
\<close>

section \<open>State\<close>

definition DBG_CPU_I386_NUM_REGISTERS :: nat where
  "DBG_CPU_I386_NUM_REGISTERS = 16"

abbreviation (input) DBG_CPU_I386_REG_PC :: nat where "DBG_CPU_I386_REG_PC \<equiv> 8"
abbreviation (input) DBG_CPU_I386_REG_PS :: nat where "DBG_CPU_I386_REG_PS \<equiv> 9"

record 'v gdb =
  peer_connected :: bool
  peer_in :: bytes
  peer_out :: bytes
  peer_room :: nat
  g_cpu :: "'v cpu"
  signum :: u32
  registers :: "u32 list"

section \<open>Bytes\<close>

definition dbg_sys_getc :: "'v gdb \<Rightarrow> u8 option \<times> 'v gdb" where
  "dbg_sys_getc s =
     (if \<not> peer_connected s then (None, s)
      else case peer_in s of
        [] \<Rightarrow> (None, s)
      | c # cs \<Rightarrow> (if c = 0xFF then None else Some c, s\<lparr>peer_in := cs\<rparr>))"

definition dbg_sys_putchar :: "u8 \<Rightarrow> 'v gdb \<Rightarrow> bool \<times> 'v gdb" where
  "dbg_sys_putchar ch s =
     (if \<not> peer_connected s \<or> peer_room s = 0 then (False, s)
      else (True, s\<lparr>peer_out := peer_out s @ [ch], peer_room := peer_room s - 1\<rparr>))"

fun dbg_write :: "bytes \<Rightarrow> 'v gdb \<Rightarrow> bool \<times> 'v gdb" where
  "dbg_write [] s = (True, s)"
| "dbg_write (c # cs) s = (let (ok, s) = dbg_sys_putchar c s in if ok then dbg_write cs s else (False, s))"

fun dbg_read_loop :: "nat \<Rightarrow> 'v gdb \<Rightarrow> bytes option \<times> 'v gdb" where
  "dbg_read_loop 0 s = (Some [], s)"
| "dbg_read_loop (Suc n) s =
     (case dbg_sys_getc s of
        (None, s) \<Rightarrow> (None, s)
      | (Some c, s) \<Rightarrow> (let (r, s) = dbg_read_loop n s in (map_option ((#) c) r, s)))"

definition dbg_read :: "nat \<Rightarrow> nat \<Rightarrow> 'v gdb \<Rightarrow> bytes option \<times> 'v gdb" where
  "dbg_read buf_len n s = (if buf_len < n then (None, s) else dbg_read_loop n s)"

section \<open>Numbers\<close>

text \<open>\<open>-\<close>, \<open>+\<close>, \<open>0\<close>, \<open>x\<close>, \<open>X\<close> and the delimiters of packets.\<close>

abbreviation (input) c_minus :: u8 where "c_minus \<equiv> 0x2D"
abbreviation (input) c_plus :: u8 where "c_plus \<equiv> 0x2B"
abbreviation (input) c_zero :: u8 where "c_zero \<equiv> 0x30"
abbreviation (input) c_x :: u8 where "c_x \<equiv> 0x78"
abbreviation (input) c_X :: u8 where "c_X \<equiv> 0x58"
abbreviation (input) c_dollar :: u8 where "c_dollar \<equiv> 0x24"
abbreviation (input) c_hash :: u8 where "c_hash \<equiv> 0x23"
abbreviation (input) c_brace :: u8 where "c_brace \<equiv> 0x7D"
abbreviation (input) c_star :: u8 where "c_star \<equiv> 0x2A"
abbreviation (input) c_comma :: u8 where "c_comma \<equiv> 0x2C"
abbreviation (input) c_colon :: u8 where "c_colon \<equiv> 0x3A"
abbreviation (input) c_equals :: u8 where "c_equals \<equiv> 0x3D"

definition dbg_get_digit :: "nat \<Rightarrow> u8" where
  "dbg_get_digit v =
     (let digits = [0x30, 0x31, 0x32, 0x33, 0x34, 0x35, 0x36, 0x37, 0x38, 0x39, 0x61, 0x62, 0x63, 0x64, 0x65, 0x66]
      in if v \<le> 0xF then digits ! v else 0xFF)"

definition dbg_get_val :: "u8 \<Rightarrow> u8 \<Rightarrow> u8 option" where
  "dbg_get_val digit base =
     (case if 0x30 \<le> digit \<and> digit \<le> 0x39 then Some (digit - 0x30)
           else if 0x61 \<le> digit \<and> digit \<le> 0x66 then Some (digit - 0x61 + 0xA)
           else if 0x41 \<le> digit \<and> digit \<le> 0x46 then Some (digit - 0x41 + 0xA)
           else None of
        None \<Rightarrow> None
      | Some v \<Rightarrow> if v < base then Some v else None)"

definition dbg_is_printable_char :: "u8 \<Rightarrow> bool" where
  "dbg_is_printable_char ch \<longleftrightarrow> 0x20 \<le> ch \<and> ch \<le> 0x7E"

text \<open>
  The pointer \<open>str\<close> is the rest of its array, \<open>len\<close> what the caller says of it. The value is an
  \<open>int\<close>, with the wrap-around of the machine; the result is the value and the number of characters
  before \<open>endptr\<close>, or \<open>None\<close> for a null \<open>endptr\<close>.
\<close>

fun strtol_digits :: "u8 \<Rightarrow> bytes \<Rightarrow> nat \<Rightarrow> u32 \<Rightarrow> bool \<Rightarrow> nat \<Rightarrow> fault + u32 \<times> bool \<times> nat" where
  "strtol_digits base [] left v valid pos = (if left = 0 then Inr (v, valid, pos) else Inl OutOfBounds)"
| "strtol_digits base (c # cs) left v valid pos =
     (if left = 0 \<or> c = 0 then Inr (v, valid, pos)
      else case dbg_get_val c base of
        None \<Rightarrow> Inr (v, valid, pos)
      | Some tmp \<Rightarrow> strtol_digits base cs (left - 1) (v * ucast base + ucast tmp) True (pos + 1))"

definition hex_prefix :: "bytes \<Rightarrow> nat \<Rightarrow> nat \<Rightarrow> fault + bool" where
  "hex_prefix str len pos =
     (if pos + 2 < len
      then bindr (aget str pos) (\<lambda>c.
        if c = c_zero then bindr (aget str (pos + 1)) (\<lambda>d. Inr (d = c_x \<or> d = c_X)) else Inr False)
      else Inr False)"

definition dbg_strtol :: "bytes \<Rightarrow> nat \<Rightarrow> u8 \<Rightarrow> fault + (u32 \<times> nat) option" where
  "dbg_strtol str len base =
     (if len < 1 then Inr None
      else bindr (aget str 0) (\<lambda>c.
        let negative = (c = c_minus); pos = (if c = c_minus \<or> c = c_plus then 1 else 0) in
        bindr (hex_prefix str len pos) (\<lambda>prefixed.
          let base = (if prefixed then 16 else base); pos = (if prefixed then pos + 2 else pos);
              base = (if base = 0 then 10 else base) in
          bindr (strtol_digits base (drop pos str) (len - pos) 0 False pos) (\<lambda>(v, valid, pos).
            Inr (if valid then Some (if negative then - v else v, pos) else None)))))"

section \<open>Encodings\<close>

text \<open>What an encoder writes at the start of its buffer of \<open>buf_len\<close> bytes.\<close>

fun enc_hex_loop :: "bytes \<Rightarrow> bytes" where
  "enc_hex_loop [] = []"
| "enc_hex_loop (d # ds) =
     dbg_get_digit (unat (drop_bit 4 d AND 0xF)) # dbg_get_digit (unat (d AND 0xF)) # enc_hex_loop ds"

definition dbg_enc_hex :: "nat \<Rightarrow> bytes \<Rightarrow> bytes option" where
  "dbg_enc_hex buf_len ds = (if buf_len < length ds * 2 then None else Some (enc_hex_loop ds))"

text \<open>A decoder reads from the rest of an array; a character that is no digit fails an assertion.\<close>

definition dec_nibble :: "bytes \<Rightarrow> (u8 \<Rightarrow> bytes \<Rightarrow> fault + 'a) \<Rightarrow> fault + 'a" where
  "dec_nibble buf k =
     (case buf of
        [] \<Rightarrow> Inl OutOfBounds
      | c # cs \<Rightarrow> (case dbg_get_val c 16 of None \<Rightarrow> Inl AssertFailed | Some tmp \<Rightarrow> k tmp cs))"

fun dec_hex_loop :: "nat \<Rightarrow> bytes \<Rightarrow> fault + bytes" where
  "dec_hex_loop 0 buf = Inr []"
| "dec_hex_loop (Suc n) buf =
     dec_nibble buf (\<lambda>hi buf. dec_nibble buf (\<lambda>lo buf.
       bindr (dec_hex_loop n buf) (\<lambda>ds. Inr ((push_bit 4 hi OR lo) # ds))))"

definition dbg_dec_hex :: "bytes \<Rightarrow> nat \<Rightarrow> nat \<Rightarrow> fault + bytes option" where
  "dbg_dec_hex buf buf_len data_len =
     (if buf_len \<noteq> data_len * 2 then Inr None else bindr (dec_hex_loop data_len buf) (\<lambda>ds. Inr (Some ds)))"

fun enc_bin_loop :: "nat \<Rightarrow> bytes \<Rightarrow> fault + bytes" where
  "enc_bin_loop left [] = Inr []"
| "enc_bin_loop left (d # ds) =
     (if d \<in> {c_dollar, c_hash, c_brace, c_star}
      then if left \<le> 1 then Inl AssertFailed
           else bindr (enc_bin_loop (left - 2) ds) (\<lambda>r. Inr (c_brace # (d XOR 0x20) # r))
      else if left = 0 then Inl AssertFailed
           else bindr (enc_bin_loop (left - 1) ds) (\<lambda>r. Inr (d # r)))"

definition dbg_enc_bin :: "nat \<Rightarrow> bytes \<Rightarrow> fault + bytes" where
  "dbg_enc_bin buf_len ds = enc_bin_loop buf_len ds"

text \<open>\<open>left\<close> counts what is left to read, \<open>room\<close> what is left to write.\<close>

fun dec_bin_loop :: "bytes \<Rightarrow> nat \<Rightarrow> nat \<Rightarrow> fault + bytes" where
  "dec_bin_loop [] left room = (if left = 0 then Inr [] else if room = 0 then Inl AssertFailed else Inl OutOfBounds)"
| "dec_bin_loop (c # cs) left room =
     (if left = 0 then Inr []
      else if room = 0 then Inl AssertFailed
      else if c = c_brace
           then if left = 1 then Inl AssertFailed
                else (case cs of
                    [] \<Rightarrow> Inl OutOfBounds
                  | d # ds \<Rightarrow> bindr (dec_bin_loop ds (left - 2) (room - 1)) (\<lambda>r. Inr ((d XOR 0x20) # r)))
           else bindr (dec_bin_loop cs (left - 1) (room - 1)) (\<lambda>r. Inr (c # r)))"

definition dbg_dec_bin :: "bytes \<Rightarrow> nat \<Rightarrow> nat \<Rightarrow> fault + bytes option" where
  "dbg_dec_bin buf buf_len data_len = bindr (dec_bin_loop buf buf_len data_len) (\<lambda>ds. Inr (Some ds))"

section \<open>Packets\<close>

fun dbg_checksum :: "bytes \<Rightarrow> u8" where
  "dbg_checksum [] = 0"
| "dbg_checksum (c # cs) = c + dbg_checksum cs"

definition dbg_recv_ack :: "'v gdb \<Rightarrow> nat option \<times> 'v gdb" where
  "dbg_recv_ack s =
     (let (response, s) = dbg_sys_getc s in
      (if response = Some c_plus then Some 0 else if response = Some c_minus then Some 1 else None, s))"

definition dbg_send_packet :: "bytes \<Rightarrow> 'v gdb \<Rightarrow> nat option \<times> 'v gdb" where
  "dbg_send_packet pkt s =
     (let (ok, s) = dbg_sys_putchar c_dollar s in
      if \<not> ok then (None, s) else
      let (ok, s) = dbg_write pkt s in
      if \<not> ok then (None, s) else
      case dbg_enc_hex 2 [dbg_checksum pkt] of
        None \<Rightarrow> (None, s)
      | Some h \<Rightarrow>
          let (ok, s) = dbg_write (c_hash # h) s in
          if \<not> ok then (None, s) else dbg_recv_ack s)"

lemma getc_shortens: "dbg_sys_getc s = (Some c, s') \<Longrightarrow> length (peer_in s') < length (peer_in s)"
  by (auto simp: dbg_sys_getc_def split: if_splits list.splits)

text \<open>\<open>recv_start\<close> waits for the start of a packet, \<open>recv_data\<close> reads up to its end.\<close>

function recv_start :: "'v gdb \<Rightarrow> bool \<times> 'v gdb" where
  "recv_start s =
     (case dbg_sys_getc s of
        (None, s') \<Rightarrow> (False, s')
      | (Some c, s') \<Rightarrow> if c = c_dollar then (True, s') else recv_start s')"
  by pat_completeness auto
termination
  by (relation "measure (\<lambda>s. length (peer_in s))") (auto dest: getc_shortens [OF sym])

function recv_data :: "bytes \<Rightarrow> nat \<Rightarrow> 'v gdb \<Rightarrow> nat option \<times> bytes \<times> 'v gdb" where
  "recv_data pkt_buf pkt_len s =
     (case dbg_sys_getc s of
        (None, s') \<Rightarrow> (None, pkt_buf, s')
      | (Some c, s') \<Rightarrow>
          if c = c_hash then (Some pkt_len, pkt_buf, s')
          else if pkt_len \<ge> length pkt_buf then (None, pkt_buf, s')
          else recv_data (pkt_buf[pkt_len := c]) (pkt_len + 1) s')"
  by pat_completeness auto
termination
  by (relation "measure (\<lambda>(_, _, s). length (peer_in s))") (auto dest: getc_shortens [OF sym])

declare recv_start.simps [simp del] recv_data.simps [simp del]

definition dbg_recv_packet :: "bytes \<Rightarrow> 'v gdb \<Rightarrow> fault + nat option \<times> bytes \<times> 'v gdb" where
  "dbg_recv_packet pkt_buf s =
     (let (started, s) = recv_start s in
      if \<not> started then Inr (None, pkt_buf, s) else
      let (r, pkt_buf, s) = recv_data pkt_buf 0 s in
      case r of
        None \<Rightarrow> Inr (None, pkt_buf, s)
      | Some pkt_len \<Rightarrow>
          let (csum, s) = dbg_read 2 2 s in
          (case csum of
             None \<Rightarrow> Inr (None, pkt_buf, s)
           | Some buf \<Rightarrow>
               bindr (dbg_dec_hex buf 2 1) (\<lambda>r.
                 case r of
                   None \<Rightarrow> Inr (None, pkt_buf, s)
                 | Some expected_csum \<Rightarrow>
                     if [dbg_checksum (take pkt_len pkt_buf)] \<noteq> expected_csum
                     then Inr (None, pkt_buf, snd (dbg_sys_putchar c_minus s))
                     else Inr (Some pkt_len, pkt_buf, snd (dbg_sys_putchar c_plus s)))))"

text \<open>The senders that build their packet in \<open>pkt_buf\<close>.\<close>

definition into_buf :: "bytes \<Rightarrow> bytes \<Rightarrow> bytes" where
  "into_buf bs buf = bs @ drop (length bs) buf"

definition dbg_send_ok_packet :: "'v gdb \<Rightarrow> nat option \<times> 'v gdb" where
  "dbg_send_ok_packet s = dbg_send_packet [0x4F, 0x4B] s"

definition send_letter_hex :: "u8 \<Rightarrow> bytes \<Rightarrow> bytes \<Rightarrow> 'v gdb \<Rightarrow> nat option \<times> bytes \<times> 'v gdb" where
  "send_letter_hex letter ds buf s =
     (case dbg_enc_hex (length buf - 1) ds of
        None \<Rightarrow> (None, into_buf [letter] buf, s)
      | Some h \<Rightarrow> (let (r, s) = dbg_send_packet (letter # h) s in (r, into_buf (letter # h) buf, s)))"

definition dbg_send_conmsg_packet :: "bytes \<Rightarrow> bytes \<Rightarrow> 'v gdb \<Rightarrow> nat option \<times> bytes \<times> 'v gdb" where
  "dbg_send_conmsg_packet buf msg s =
     (if length buf < 2 then (None, buf, s) else send_letter_hex 0x4F msg buf s)"

definition dbg_send_signal_packet :: "bytes \<Rightarrow> u8 \<Rightarrow> 'v gdb \<Rightarrow> nat option \<times> bytes \<times> 'v gdb" where
  "dbg_send_signal_packet buf signal s =
     (if length buf < 4 then (None, buf, s) else send_letter_hex 0x53 [signal] buf s)"

definition dbg_send_error_packet :: "bytes \<Rightarrow> u8 \<Rightarrow> 'v gdb \<Rightarrow> nat option \<times> bytes \<times> 'v gdb" where
  "dbg_send_error_packet buf error s =
     (if length buf < 4 then (None, buf, s) else send_letter_hex 0x45 [error] buf s)"

section \<open>Memory and registers\<close>

text \<open>The status of the accesses is not looked at: a byte that could not be read has no value.\<close>

definition dbg_sys_mem_readb :: "'v cpu_ops \<Rightarrow> u32 \<Rightarrow> 'v gdb \<Rightarrow> fault + u8 option \<times> 'v gdb" where
  "dbg_sys_mem_readb ops addr s =
     bindr (VMemRead (vRegRead ops) addr 1 (g_cpu s)) (\<lambda>(r, cpu).
       Inr (case r of Inl _ \<Rightarrow> None | Inr bs \<Rightarrow> Some (hd bs), s\<lparr>g_cpu := cpu\<rparr>))"

definition dbg_sys_mem_writeb :: "'v cpu_ops \<Rightarrow> u32 \<Rightarrow> u8 \<Rightarrow> 'v gdb \<Rightarrow> fault + 'v gdb" where
  "dbg_sys_mem_writeb ops addr v s =
     bindr (VMemWrite (vRegRead ops) addr 1 [v] (g_cpu s)) (\<lambda>(_, cpu). Inr (s\<lparr>g_cpu := cpu\<rparr>))"

definition dbg_sys_continue :: "'v gdb \<Rightarrow> 'v gdb" where
  "dbg_sys_continue s =
     s\<lparr>registers := (registers s)[DBG_CPU_I386_REG_PS := registers s ! DBG_CPU_I386_REG_PS AND NOT (push_bit 8 1)]\<rparr>"

definition dbg_sys_step :: "'v gdb \<Rightarrow> 'v gdb" where
  "dbg_sys_step s =
     s\<lparr>registers := (registers s)[DBG_CPU_I386_REG_PS := registers s ! DBG_CPU_I386_REG_PS OR push_bit 8 1]\<rparr>"

fun mem_readbs :: "'v cpu_ops \<Rightarrow> u32 \<Rightarrow> nat \<Rightarrow> 'v gdb \<Rightarrow> fault + u8 option list \<times> 'v gdb" where
  "mem_readbs ops addr 0 s = Inr ([], s)"
| "mem_readbs ops addr (Suc n) s =
     bindr (dbg_sys_mem_readb ops addr s) (\<lambda>(b, s).
     bindr (mem_readbs ops (addr + 1) n s) (\<lambda>(bs, s). Inr (b # bs, s)))"

fun mem_writebs :: "'v cpu_ops \<Rightarrow> u32 \<Rightarrow> nat \<Rightarrow> bytes \<Rightarrow> 'v gdb \<Rightarrow> fault + 'v gdb" where
  "mem_writebs ops addr 0 ds s = Inr s"
| "mem_writebs ops addr (Suc n) [] s = Inl Uninitialised"
| "mem_writebs ops addr (Suc n) (d # ds) s =
     bindr (dbg_sys_mem_writeb ops addr d s) (mem_writebs ops (addr + 1) n ds)"

text \<open>All encoders are called with \<open>dbg_enc_hex\<close>; \<open>dec\<close> is \<open>dbg_dec_hex\<close> or \<open>dbg_dec_bin\<close>.\<close>

definition dbg_mem_read :: "'v cpu_ops \<Rightarrow> nat \<Rightarrow> u32 \<Rightarrow> nat \<Rightarrow> 'v gdb \<Rightarrow> fault + bytes option \<times> 'v gdb" where
  "dbg_mem_read ops buf_len addr n s =
     (if n > 64 then Inr (None, s)
      else bindr (mem_readbs ops addr n s) (\<lambda>(ds, s).
        case those ds of None \<Rightarrow> Inl Uninitialised | Some ds \<Rightarrow> Inr (dbg_enc_hex buf_len ds, s)))"

definition dbg_mem_write :: "'v cpu_ops \<Rightarrow> (bytes \<Rightarrow> nat \<Rightarrow> nat \<Rightarrow> fault + bytes option) \<Rightarrow>
  bytes \<Rightarrow> nat \<Rightarrow> u32 \<Rightarrow> nat \<Rightarrow> 'v gdb \<Rightarrow> fault + bool \<times> 'v gdb" where
  "dbg_mem_write ops dec buf buf_len addr n s =
     (if n > 64 then Inr (False, s)
      else bindr (dec buf buf_len n) (\<lambda>r.
        case r of
          None \<Rightarrow> Inr (False, s)
        | Some ds \<Rightarrow> bindr (mem_writebs ops addr n ds s) (\<lambda>s. Inr (True, s))))"

section \<open>Commands\<close>

text \<open>
  \<open>ptr_next\<close> is an index into \<open>pkt_buf\<close>, and \<open>pkt_len - ptr_next\<close> is computed in 64 bits:
  it wraps around when the index is beyond the packet. A command ends with the status of what it
  has sent (\<open>None\<close> is \<open>EOF\<close>), at the label \<open>error\<close>, or leaves the loop.
\<close>

datatype reply = Status "nat option" | Goto_error | Leave

type_synonym 'v answer = "fault + reply \<times> bytes \<times> 'v gdb"

definition token_remaining_buf :: "nat \<Rightarrow> nat \<Rightarrow> nat" where
  "token_remaining_buf pkt_len ptr_next = (pkt_len + 2 ^ 64 - ptr_next) mod 2 ^ 64"

definition token_expect_seperator ::
  "u8 \<Rightarrow> nat \<Rightarrow> bytes \<Rightarrow> 'v gdb \<Rightarrow> (nat \<Rightarrow> 'v answer) \<Rightarrow> 'v answer" where
  "token_expect_seperator c ptr_next buf s k =
     bindr (aget buf ptr_next) (\<lambda>d. if d \<noteq> c then Inr (Goto_error, buf, s) else k (ptr_next + 1))"

definition token_expect_integer_arg ::
  "nat \<Rightarrow> nat \<Rightarrow> bytes \<Rightarrow> 'v gdb \<Rightarrow> (u32 \<Rightarrow> nat \<Rightarrow> 'v answer) \<Rightarrow> 'v answer" where
  "token_expect_integer_arg ptr_next pkt_len buf s k =
     bindr (dbg_strtol (drop ptr_next buf) (token_remaining_buf pkt_len ptr_next) 16) (\<lambda>r.
       case r of None \<Rightarrow> Inr (Goto_error, buf, s) | Some (v, n) \<Rightarrow> k v (ptr_next + n))"

text \<open>An \<open>int\<close> that is stored into a \<open>size_t\<close>.\<close>

definition to_size :: "u32 \<Rightarrow> nat" where
  "to_size v = unat (scast v :: u64)"

definition sends :: "(nat option \<times> 'v gdb) \<Rightarrow> bytes \<Rightarrow> 'v answer" where
  "sends r buf = Inr (Status (fst r), buf, snd r)"

definition send_encoded :: "bytes option \<Rightarrow> bytes \<Rightarrow> 'v gdb \<Rightarrow> 'v answer" where
  "send_encoded h buf s =
     (case h of
        None \<Rightarrow> Inr (Goto_error, buf, s)
      | Some h \<Rightarrow> sends (dbg_send_packet h s) (into_buf h buf))"

definition cmd_g :: "bytes \<Rightarrow> 'v gdb \<Rightarrow> 'v answer" where
  "cmd_g buf s = send_encoded (dbg_enc_hex (length buf) (concat (map bytes32 (registers s)))) buf s"

definition cmd_G :: "bytes \<Rightarrow> nat \<Rightarrow> 'v gdb \<Rightarrow> 'v answer" where
  "cmd_G buf pkt_len s =
     bindr (dbg_dec_hex (drop 1 buf) (pkt_len - 1) (4 * DBG_CPU_I386_NUM_REGISTERS)) (\<lambda>r.
       case r of
         None \<Rightarrow> Inr (Goto_error, buf, s)
       | Some ds \<Rightarrow>
           sends (dbg_send_ok_packet
             (s\<lparr>registers := map (\<lambda>i. rd32 ds (4 * i)) [0..<DBG_CPU_I386_NUM_REGISTERS]\<rparr>)) buf)"

definition cmd_p :: "bytes \<Rightarrow> nat \<Rightarrow> 'v gdb \<Rightarrow> 'v answer" where
  "cmd_p buf pkt_len s =
     token_expect_integer_arg 1 pkt_len buf s (\<lambda>addr _.
       if unat addr \<ge> DBG_CPU_I386_NUM_REGISTERS then Inr (Goto_error, buf, s)
       else bindr (aget (registers s) (unat addr)) (\<lambda>v.
         send_encoded (dbg_enc_hex (length buf) (bytes32 v)) buf s))"

definition cmd_P :: "bytes \<Rightarrow> nat \<Rightarrow> 'v gdb \<Rightarrow> 'v answer" where
  "cmd_P buf pkt_len s =
     token_expect_integer_arg 1 pkt_len buf s (\<lambda>addr p.
     token_expect_seperator c_equals p buf s (\<lambda>p.
       if unat addr \<ge> DBG_CPU_I386_NUM_REGISTERS then Inr (Goto_error, buf, s)
       else bindr (dbg_dec_hex (drop p buf) (token_remaining_buf pkt_len p) 4) (\<lambda>r.
         case r of
           None \<Rightarrow> Inr (Goto_error, buf, s)
         | Some ds \<Rightarrow>
             bindr (aset (registers s) (unat addr) (rd32 ds 0)) (\<lambda>rs.
               sends (dbg_send_ok_packet (s\<lparr>registers := rs\<rparr>)) buf))))"

definition cmd_m :: "'v cpu_ops \<Rightarrow> bytes \<Rightarrow> nat \<Rightarrow> 'v gdb \<Rightarrow> 'v answer" where
  "cmd_m ops buf pkt_len s =
     token_expect_integer_arg 1 pkt_len buf s (\<lambda>addr p.
     token_expect_seperator c_comma p buf s (\<lambda>p.
     token_expect_integer_arg p pkt_len buf s (\<lambda>n p.
     bindr (dbg_mem_read ops (length buf) addr (to_size n) s) (\<lambda>(h, s). send_encoded h buf s))))"

definition cmd_write :: "'v cpu_ops \<Rightarrow> (bytes \<Rightarrow> nat \<Rightarrow> nat \<Rightarrow> fault + bytes option) \<Rightarrow>
  bytes \<Rightarrow> nat \<Rightarrow> 'v gdb \<Rightarrow> 'v answer" where
  "cmd_write ops dec buf pkt_len s =
     token_expect_integer_arg 1 pkt_len buf s (\<lambda>addr p.
     token_expect_seperator c_comma p buf s (\<lambda>p.
     token_expect_integer_arg p pkt_len buf s (\<lambda>n p.
     token_expect_seperator c_colon p buf s (\<lambda>p.
     bindr (dbg_mem_write ops dec (drop p buf) (token_remaining_buf pkt_len p) addr (to_size n) s) (\<lambda>(ok, s).
       if \<not> ok then Inr (Goto_error, buf, s) else sends (dbg_send_ok_packet s) buf)))))"

definition dbg_command :: "'v cpu_ops \<Rightarrow> bytes \<Rightarrow> nat \<Rightarrow> 'v gdb \<Rightarrow> 'v answer" where
  "dbg_command ops buf pkt_len s =
     bindr (aget buf 0) (\<lambda>c.
       if c = 0x67 then cmd_g buf s
       else if c = 0x47 then cmd_G buf pkt_len s
       else if c = 0x70 then cmd_p buf pkt_len s
       else if c = 0x50 then cmd_P buf pkt_len s
       else if c = 0x6D then cmd_m ops buf pkt_len s
       else if c = 0x4D then cmd_write ops dbg_dec_hex buf pkt_len s
       else if c = 0x58 then cmd_write ops dbg_dec_bin buf pkt_len s
       else if c = 0x63 then Inr (Leave, buf, dbg_sys_continue s)
       else if c = 0x73 then Inr (Leave, buf, dbg_sys_step s)
       else if c = 0x3F
            then (let (r, buf, s) = dbg_send_signal_packet buf 0 s in Inr (Status r, buf, s))
       else sends (dbg_send_packet [] s) buf)"

text \<open>
  The loop of \<open>dbg_main\<close>; \<open>False\<close> is the result \<open>EOF\<close>. Each pass takes a byte from the connection,
  so the number of bytes bounds the passes.
\<close>

fun dbg_main_loop :: "'v cpu_ops \<Rightarrow> nat \<Rightarrow> bytes \<Rightarrow> 'v gdb \<Rightarrow> fault + bool \<times> 'v gdb" where
  "dbg_main_loop ops 0 buf s = Inl EndlessLoop"
| "dbg_main_loop ops (Suc n) buf s =
     bindr (dbg_recv_packet buf s) (\<lambda>(r, buf, s).
       case r of
         None \<Rightarrow> Inr (True, s)
       | Some pkt_len \<Rightarrow>
           if pkt_len = 0 then dbg_main_loop ops n buf s
           else bindr (dbg_command ops buf pkt_len s) (\<lambda>(reply, buf, s).
             case reply of
               Leave \<Rightarrow> Inr (True, s)
             | Goto_error \<Rightarrow> (let (_, buf, s) = dbg_send_error_packet buf 0 s in dbg_main_loop ops n buf s)
             | Status r \<Rightarrow> if r = None then Inr (False, s) else dbg_main_loop ops n buf s))"

text \<open>\<open>junk\<close> is what the array \<open>pkt_buf\<close> holds before anything is stored.\<close>

definition dbg_main :: "'v cpu_ops \<Rightarrow> bytes \<Rightarrow> 'v gdb \<Rightarrow> fault + bool \<times> 'v gdb" where
  "dbg_main ops junk s =
     (let (r, buf, s) = dbg_send_signal_packet junk 0 s in
      if r = None then Inr (False, s) else dbg_main_loop ops (Suc (length (peer_in s))) buf s)"

definition Debug_registers :: "CpuReg list" where
  "Debug_registers = [REG_EAX, REG_ECX, REG_EDX, REG_EBX, REG_ESP, REG_EBP, REG_ESI, REG_EDI, REG_EIP, REG_EFLAGS,
     REG_CS, REG_SS, REG_DS, REG_ES, REG_FS, REG_GS]"

datatype debug_result = No_client | Main_failed | Debug_done

text \<open>
  The operations on several registers are virtual: \<open>reads\<close> and \<open>writes\<close> are \<open>RegReads\<close> and \<open>RegWrites\<close>
  of the base class, or what a module overrides them with.
\<close>

definition Debug :: "'v cpu_ops \<Rightarrow> (CpuReg list \<Rightarrow> ('v, u32 list) cpu_op) \<Rightarrow>
  ((CpuReg \<times> u32) list \<Rightarrow> ('v, unit) cpu_op) \<Rightarrow> bytes \<Rightarrow> u32 \<Rightarrow> 'v gdb \<Rightarrow> fault + debug_result \<times> 'v gdb" where
  "Debug ops reads writes junk signal s =
     (if \<not> peer_connected s then Inr (No_client, s)
      else bindr (reads Debug_registers (g_cpu s)) (\<lambda>(r, cpu).
        case r of
          Inl _ \<Rightarrow> Inl Uninitialised
        | Inr vals \<Rightarrow>
            let vals = (if signal = 3 then vals[DBG_CPU_I386_REG_PC := vals ! DBG_CPU_I386_REG_PC - 1] else vals) in
            bindr (dbg_main ops junk (s\<lparr>g_cpu := cpu, signum := signal, registers := vals\<rparr>)) (\<lambda>(ok, s).
              if \<not> ok then Inr (Main_failed, s)
              else bindr (writes (zip (take 10 Debug_registers) (registers s)) (g_cpu s)) (\<lambda>(_, cpu).
                Inr (Debug_done, s\<lparr>g_cpu := cpu\<rparr>)))))"

end
