(* ===== verification/Gdb_Laws.thy ===== *)
theory Gdb_Laws
  imports Gdb CpuMem_Laws
begin

text \<open>
  Laws of the GDB server: the encodings invert each other, a packet that one side sends is the
  packet that the other receives, the loop ends when the connection does, and the
  memory commands read and write guest memory byte by byte. The CPU is used through the contract
  \<open>debugged_cpu\<close>, which extends \<open>register_file\<close>.
\<close>

section \<open>Encodings\<close>

lemma digit_val: "n < 16 \<Longrightarrow> dbg_get_val (dbg_get_digit n) 16 = Some (of_nat n)"
proof -
  have "list_all (\<lambda>n. dbg_get_val (dbg_get_digit n) 16 = Some (of_nat n)) [0..<16]" by code_simp
  then show "n < 16 \<Longrightarrow> ?thesis" by (simp add: list_all_iff)
qed

lemma nibbles:
  fixes d :: u8
  shows "unat (drop_bit 4 d AND 0xF) < 16" and "unat (d AND 0xF) < 16"
    and "push_bit 4 (drop_bit 4 d) AND 0xF0 OR d AND 0xF = d"
proof -
  have "d AND 0xF = take_bit 4 d" for d :: u8 by (simp add: take_bit_eq_mask mask_eq_exp_minus_1)
  then show "unat (drop_bit 4 d AND 0xF) < 16" "unat (d AND 0xF) < 16"
    by (simp_all only: unsigned_take_bit_eq) (simp_all add: take_bit_eq_mod)
  show "push_bit 4 (drop_bit 4 d) AND 0xF0 OR d AND 0xF = d"
    by (simp add: u8_eq_bits bit_simps)
qed

lemma dec_nibble_digit [simp]:
  "n < 16 \<Longrightarrow> dec_nibble (dbg_get_digit n # buf) k = k (of_nat n) buf"
  by (simp add: dec_nibble_def digit_val)

lemma length_enc_hex [simp]: "length (enc_hex_loop ds) = 2 * length ds"
  by (induction ds) simp_all

lemma dec_enc_hex: "dec_hex_loop (length ds) (enc_hex_loop ds @ rest) = Inr ds"
  by (induction ds) (simp_all add: nibbles)

lemma dec_enc_bin:
  assumes "enc_bin_loop left ds = Inr e" and "length ds \<le> room"
  shows "dec_bin_loop (e @ rest) (length e) room = Inr ds"
  using assms
proof (induction left ds arbitrary: e room rule: enc_bin_loop.induct)
  case (1 left)
  then show ?case by (cases rest) auto
next
  case (2 left d ds)
  then show ?case
    by (auto simp: bindr_Inr_iff xor.assoc split: if_splits)
qed

lemma enc_bin_escapes: "enc_bin_loop left ds = Inr e \<Longrightarrow> c_dollar \<notin> set e \<and> c_hash \<notin> set e \<and> c_star \<notin> set e"
  by (induction left ds arbitrary: e rule: enc_bin_loop.induct) (auto simp: bindr_Inr_iff split: if_splits)

section \<open>Packets\<close>

definition frame_of :: "bytes \<Rightarrow> bytes" where
  "frame_of pkt = c_dollar # pkt @ c_hash # enc_hex_loop [dbg_checksum pkt]"

definition clean :: "bytes \<Rightarrow> bool" where
  "clean pkt \<longleftrightarrow> c_hash \<notin> set pkt \<and> 0xFF \<notin> set pkt"

definition sent :: "bytes \<Rightarrow> 'v gdb \<Rightarrow> 'v gdb" where
  "sent bs s = s\<lparr>peer_out := peer_out s @ bs, peer_room := peer_room s - length bs\<rparr>"

lemma sent_fields [simp]:
  "peer_connected (sent bs s) = peer_connected s" "peer_in (sent bs s) = peer_in s"
  "peer_out (sent bs s) = peer_out s @ bs" "peer_room (sent bs s) = peer_room s - length bs"
  "g_cpu (sent bs s) = g_cpu s" "registers (sent bs s) = registers s"
  by (simp_all add: sent_def)

lemma sent_sent [simp]: "sent b (sent a s) = sent (a @ b) s"
  by (simp add: sent_def)

lemma sent_commute: "sent bs (s\<lparr>peer_in := r, g_cpu := c\<rparr>) = (sent bs s)\<lparr>g_cpu := c, peer_in := r\<rparr>"
  "sent bs (s\<lparr>g_cpu := c, peer_in := r\<rparr>) = (sent bs s)\<lparr>g_cpu := c, peer_in := r\<rparr>"
  "sent bs (s\<lparr>peer_in := r\<rparr>) = (sent bs s)\<lparr>peer_in := r\<rparr>" "sent bs (s\<lparr>g_cpu := c\<rparr>) = (sent bs s)\<lparr>g_cpu := c\<rparr>"
  "s\<lparr>peer_in := r, g_cpu := c\<rparr> = s\<lparr>g_cpu := c, peer_in := r\<rparr>"
  by (cases s; simp add: sent_def)+

lemma putchar_sent: "peer_connected s \<Longrightarrow> 0 < peer_room s \<Longrightarrow> dbg_sys_putchar c s = (True, sent [c] s)"
  by (simp add: dbg_sys_putchar_def sent_def)

lemma write_sent: "peer_connected s \<Longrightarrow> length bs \<le> peer_room s \<Longrightarrow> dbg_write bs s = (True, sent bs s)"
  by (induction bs arbitrary: s) (simp_all add: putchar_sent, simp add: sent_def)

lemma send_frame:
  assumes "peer_connected s" and "length pkt + 4 \<le> peer_room s"
  shows "dbg_send_packet pkt s = dbg_recv_ack (sent (frame_of pkt) s)"
  using assms by (simp add: dbg_send_packet_def putchar_sent write_sent dbg_enc_hex_def frame_of_def)

lemma recv_ack_plus:
  "peer_connected s \<Longrightarrow> peer_in s = c_plus # rest \<Longrightarrow> dbg_recv_ack s = (Some 0, s\<lparr>peer_in := rest\<rparr>)"
  by (simp add: dbg_recv_ack_def dbg_sys_getc_def)

lemma recv_start_noise:
  assumes "peer_connected s" and "peer_in s = noise @ c_dollar # rest" and "c_dollar \<notin> set noise" "0xFF \<notin> set noise"
  shows "recv_start s = (True, s\<lparr>peer_in := rest\<rparr>)"
  using assms
proof (induction noise arbitrary: s)
  case Nil
  then show ?case by (simp add: recv_start.simps [of s] dbg_sys_getc_def)
next
  case (Cons c noise)
  then show ?case by (subst recv_start.simps) (auto simp: dbg_sys_getc_def)
qed

lemma recv_data_packet:
  assumes "peer_connected s" and "peer_in s = pkt @ c_hash # rest" and "clean pkt" and "n + length pkt \<le> length buf"
  shows "recv_data buf n s =
    (Some (n + length pkt), take n buf @ pkt @ drop (n + length pkt) buf, s\<lparr>peer_in := rest\<rparr>)"
  using assms
proof (induction pkt arbitrary: s n buf)
  case Nil
  then show ?case by (simp add: recv_data.simps [of buf n s] dbg_sys_getc_def)
next
  case (Cons c pkt)
  have "recv_data (buf[n := c]) (n + 1) (s\<lparr>peer_in := pkt @ c_hash # rest\<rparr>) =
    (Some (n + 1 + length pkt), take (n + 1) (buf[n := c]) @ pkt @ drop (n + 1 + length pkt) (buf[n := c]),
     s\<lparr>peer_in := rest\<rparr>)"
    using Cons.prems Cons.IH [of "s\<lparr>peer_in := pkt @ c_hash # rest\<rparr>" "n + 1" "buf[n := c]"] by (simp add: clean_def)
  then show ?case
    using Cons.prems by (subst recv_data.simps)
      (simp add: dbg_sys_getc_def clean_def take_Suc_conv_app_nth drop_update_cancel)
qed

lemma digit_not_FF: "n < 16 \<Longrightarrow> dbg_get_digit n \<noteq> 0xFF"
proof -
  have "list_all (\<lambda>n. dbg_get_digit n \<noteq> 0xFF) [0..<16]" by code_simp
  then show "n < 16 \<Longrightarrow> ?thesis" by (simp add: list_all_iff)
qed

lemma recv_frame:
  assumes "peer_connected s" and "peer_in s = noise @ frame_of pkt @ rest" and "clean pkt" and "length pkt \<le> length buf"
    and "c_dollar \<notin> set noise" and "0xFF \<notin> set noise"
  shows "dbg_recv_packet buf s =
    Inr (Some (length pkt), into_buf pkt buf, snd (dbg_sys_putchar c_plus (s\<lparr>peer_in := rest\<rparr>)))"
proof -
  define d where "d = enc_hex_loop [dbg_checksum pkt]"
  have start: "recv_start s = (True, s\<lparr>peer_in := pkt @ c_hash # d @ rest\<rparr>)"
    using assms by (intro recv_start_noise [where noise = noise]) (simp_all add: frame_of_def d_def)
  have packet: "recv_data buf 0 (s\<lparr>peer_in := pkt @ c_hash # d @ rest\<rparr>) =
      (Some (length pkt), into_buf pkt buf, s\<lparr>peer_in := d @ rest\<rparr>)"
    using recv_data_packet [of "s\<lparr>peer_in := pkt @ c_hash # d @ rest\<rparr>" pkt "d @ rest" 0 buf] assms by (simp add: into_buf_def)
  have two: "dbg_read 2 2 (s\<lparr>peer_in := d @ rest\<rparr>) = (Some d, s\<lparr>peer_in := rest\<rparr>)"
    using assms(1) by (simp add: d_def dbg_read_def numeral_2_eq_2 dbg_sys_getc_def digit_not_FF nibbles)
  have csum: "dbg_dec_hex d 2 1 = Inr (Some [dbg_checksum pkt])"
    using dec_enc_hex [of "[dbg_checksum pkt]" "[]"] by (simp add: dbg_dec_hex_def d_def)
  have "take (length pkt) (into_buf pkt buf) = pkt" by (simp add: into_buf_def)
  then show ?thesis
    unfolding dbg_recv_packet_def start by (simp add: packet two csum [unfolded One_nat_def])
qed

section \<open>Numbers\<close>

definition is_hex :: "bytes \<Rightarrow> bool" where
  "is_hex xs \<longleftrightarrow> xs \<noteq> [] \<and> (\<forall>c \<in> set xs. dbg_get_val c 16 \<noteq> None)"

definition hexval_from :: "u32 \<Rightarrow> bytes \<Rightarrow> u32" where
  "hexval_from = foldl (\<lambda>v c. v * 16 + ucast (the (dbg_get_val c 16)))"

abbreviation hexval :: "bytes \<Rightarrow> u32" where
  "hexval \<equiv> hexval_from 0"

text \<open>A number ends where the packet does or at a separator.\<close>

definition ends :: "nat \<Rightarrow> bytes \<Rightarrow> bool" where
  "ends left rest \<longleftrightarrow> left = 0 \<or> (\<exists>c cs. rest = c # cs \<and> c \<in> {c_comma, c_colon, c_equals})"

lemma separator_no_digit: "c \<in> {c_comma, c_colon, c_equals} \<Longrightarrow> dbg_get_val c 16 = None \<and> c \<noteq> c_x \<and> c \<noteq> c_X"
  by (elim insertE) (simp_all add: dbg_get_val_def)

lemma digit_no_sign:
  assumes "dbg_get_val c 16 \<noteq> None"
  shows "c \<notin> {0, c_minus, c_plus, c_x, c_X, c_hash, 0xFF}"
proof
  assume "c \<in> {0, c_minus, c_plus, c_x, c_X, c_hash, 0xFF}"
  then have "dbg_get_val c 16 = None" by (elim insertE) (simp_all add: dbg_get_val_def)
  then show False using assms by simp
qed

lemma strtol_digits_hex:
  assumes "\<forall>c \<in> set xs. dbg_get_val c 16 \<noteq> None" and "length xs \<le> left" and "ends (left - length xs) rest"
  shows "strtol_digits 16 (xs @ rest) left v ok pos = Inr (hexval_from v xs, ok \<or> xs \<noteq> [], pos + length xs)"
  using assms
proof (induction xs arbitrary: left v ok pos)
  case Nil
  then show ?case by (cases rest) (auto simp: ends_def hexval_from_def dbg_get_val_def)
next
  case (Cons c xs)
  then show ?case using digit_no_sign [of c] by (auto simp: hexval_from_def ucast_id)
qed

lemma no_hex_prefix:
  assumes "is_hex xs" and "length xs \<le> len" and "ends (len - length xs) rest"
  shows "hex_prefix (xs @ rest) len 0 = Inr False"
proof (cases "2 < len")
  case True
  then obtain d where d: "aget (xs @ rest) 1 = Inr d" "d \<noteq> c_x \<and> d \<noteq> c_X"
  proof (cases xs)
    case (Cons c ys)
    show ?thesis
    proof (cases ys)
      case Nil
      then show ?thesis using that assms(3) True Cons separator_no_digit by (auto simp: ends_def aget_def)
    next
      case (Cons e zs)
      then have "dbg_get_val e 16 \<noteq> None" using assms(1) \<open>xs = c # ys\<close> by (simp add: is_hex_def)
      then show ?thesis using that \<open>xs = c # ys\<close> Cons digit_no_sign [of e] by (auto simp: aget_def)
    qed
  qed (use assms(1) in \<open>simp add: is_hex_def\<close>)
  then show ?thesis using assms(1) by (cases xs) (auto simp: hex_prefix_def is_hex_def aget_def)
qed (simp add: hex_prefix_def)

lemma strtol_hex:
  assumes "is_hex xs" and "length xs \<le> len" and "ends (len - length xs) rest"
  shows "dbg_strtol (xs @ rest) len 16 = Inr (Some (hexval xs, length xs))"
proof -
  obtain c ys where xs: "xs = c # ys" using assms(1) by (cases xs) (auto simp: is_hex_def)
  have "dbg_get_val c 16 \<noteq> None" using assms(1) xs by (simp add: is_hex_def)
  then have c: "c \<noteq> c_minus" "c \<noteq> c_plus" using digit_no_sign [of c] by auto
  have "strtol_digits 16 (xs @ rest) len 0 False 0 = Inr (hexval xs, True, length xs)"
    using strtol_digits_hex [of xs len rest 0 False 0] assms by (simp add: is_hex_def)
  moreover have "aget (xs @ rest) 0 = Inr c" by (simp add: xs aget_def)
  ultimately show ?thesis
    using no_hex_prefix [OF assms] assms(2) c xs by (simp add: dbg_strtol_def)
qed

lemma integer_arg:
  assumes "drop p buf = xs @ rest" and "is_hex xs" and "p + length xs \<le> n" and "n < 2 ^ 64"
    and "ends (n - p - length xs) rest"
  shows "token_expect_integer_arg p n buf s k = k (hexval xs) (p + length xs)"
proof -
  have "n + 2 ^ 64 - p = (n - p) + 2 ^ 64" using assms(3) by simp
  then have "token_remaining_buf n p = n - p" using assms(4) unfolding token_remaining_buf_def by (simp only: mod_add_self2) simp
  then show ?thesis
    using strtol_hex [OF assms(2), of "n - p" rest] assms by (simp add: token_expect_integer_arg_def)
qed

lemma seperator: "drop p buf = c # rest \<Longrightarrow> token_expect_seperator c p buf s k = k (p + 1)"
  by (cases "p < length buf") (auto simp: token_expect_seperator_def aget_def hd_drop_conv_nth [symmetric])

lemma to_size_small: "unat v \<le> 64 \<Longrightarrow> to_size v = unat v"
proof -
  have "list_all (\<lambda>n. to_size (of_nat n) = n) [0..<65]" by code_simp
  then have "\<forall>n \<in> set [0..<65]. to_size (of_nat n) = n" unfolding list_all_iff .
  then have "unat v < 65 \<Longrightarrow> to_size (of_nat (unat v)) = unat v" by (metis atLeastLessThan_iff le0 set_upt)
  then show "unat v \<le> 64 \<Longrightarrow> ?thesis" by simp
qed

section \<open>Memory commands\<close>

definition read_request :: "bytes \<Rightarrow> bytes \<Rightarrow> bytes" where
  "read_request xs ys = 0x6D # xs @ c_comma # ys"

definition write_request :: "bytes \<Rightarrow> bytes \<Rightarrow> bytes \<Rightarrow> bytes" where
  "write_request xs ys ds = 0x4D # xs @ c_comma # ys @ c_colon # enc_hex_loop ds"

lemma clean_hex: "is_hex xs \<Longrightarrow> clean xs"
  using digit_no_sign by (fastforce simp: is_hex_def clean_def)

lemma clean_append [simp]: "clean (xs @ ys) \<longleftrightarrow> clean xs \<and> clean ys" "clean (c # xs) \<longleftrightarrow> c \<noteq> c_hash \<and> c \<noteq> 0xFF \<and> clean xs"
  "clean []"
  by (auto simp: clean_def)

lemma clean_enc_hex: "clean (enc_hex_loop ds)"
proof -
  have "list_all (\<lambda>n. dbg_get_digit n \<noteq> c_hash \<and> dbg_get_digit n \<noteq> 0xFF) [0..<16]" by code_simp
  then have "n < 16 \<Longrightarrow> dbg_get_digit n \<noteq> c_hash \<and> dbg_get_digit n \<noteq> 0xFF" for n by (simp add: list_all_iff)
  then show ?thesis by (induction ds) (simp_all add: nibbles)
qed

lemma command_m:
  assumes "is_hex xs" and "is_hex ys" and "length (read_request xs ys) \<le> length buf" and "length buf \<le> 256"
    and "unat (hexval ys) \<le> 64"
  shows "dbg_command ops (into_buf (read_request xs ys) buf) (length (read_request xs ys)) s =
    bindr (dbg_mem_read ops (length buf) (hexval xs) (unat (hexval ys)) s)
      (\<lambda>(h, s). send_encoded h (into_buf (read_request xs ys) buf) s)"
proof -
  let ?n = "length (read_request xs ys)" and ?b = "into_buf (read_request xs ys) buf"
  obtain z where b: "?b = 0x6D # xs @ c_comma # ys @ z" by (simp add: into_buf_def read_request_def)
  have n: "?n = 2 + length xs + length ys" by (simp add: read_request_def)
  have len: "length ?b = length buf" using assms(3) by (simp add: into_buf_def)
  have 1: "token_expect_integer_arg 1 ?n ?b s k = k (hexval xs) (1 + length xs)" for k
    by (rule integer_arg [where rest = "c_comma # ys @ z"]) (use assms n b in \<open>simp_all add: ends_def\<close>)
  have 2: "token_expect_seperator c_comma (1 + length xs) ?b s k = k (2 + length xs)" for k
    using seperator [of "1 + length xs" ?b c_comma "ys @ z" s k] by (simp add: b)
  have 3: "token_expect_integer_arg (2 + length xs) ?n ?b s k = k (hexval ys) (2 + length xs + length ys)" for k
    by (rule integer_arg [where rest = z]) (use assms n b in \<open>simp_all add: ends_def\<close>)
  have "aget ?b 0 = Inr 0x6D" by (simp add: b aget_def)
  then have "dbg_command ops ?b ?n s = cmd_m ops ?b ?n s" by (simp add: dbg_command_def)
  then show ?thesis by (simp only: cmd_m_def 1 2 3 len to_size_small [OF assms(5)])
qed

lemma command_M:
  assumes "is_hex xs" and "is_hex ys" and "length (write_request xs ys ds) \<le> length buf" and "length buf \<le> 256"
    and "unat (hexval ys) = length ds" and "length ds \<le> 64"
  shows "dbg_command ops (into_buf (write_request xs ys ds) buf) (length (write_request xs ys ds)) s =
    bindr (mem_writebs ops (hexval xs) (length ds) ds s)
      (\<lambda>s. sends (dbg_send_ok_packet s) (into_buf (write_request xs ys ds) buf))"
proof -
  let ?n = "length (write_request xs ys ds)" and ?b = "into_buf (write_request xs ys ds) buf"
  obtain z where b: "?b = 0x4D # xs @ c_comma # ys @ c_colon # enc_hex_loop ds @ z"
    by (simp add: into_buf_def write_request_def)
  have n: "?n = 3 + length xs + length ys + 2 * length ds" by (simp add: write_request_def)
  have 1: "token_expect_integer_arg 1 ?n ?b s k = k (hexval xs) (1 + length xs)" for k
    by (rule integer_arg [where rest = "c_comma # ys @ c_colon # enc_hex_loop ds @ z"])
      (use assms n b in \<open>simp_all add: ends_def\<close>)
  have 2: "token_expect_seperator c_comma (1 + length xs) ?b s k = k (2 + length xs)" for k
    using seperator [of "1 + length xs" ?b c_comma _ s k] by (simp add: b)
  have 3: "token_expect_integer_arg (2 + length xs) ?n ?b s k = k (hexval ys) (2 + length xs + length ys)" for k
    by (rule integer_arg [where rest = "c_colon # enc_hex_loop ds @ z"]) (use assms n b in \<open>simp_all add: ends_def\<close>)
  have 4: "token_expect_seperator c_colon (2 + length xs + length ys) ?b s k = k (3 + length xs + length ys)" for k
    using seperator [of "2 + length xs + length ys" ?b c_colon _ s k] by (simp add: b numeral_3_eq_3)
  have left: "token_remaining_buf ?n (3 + length xs + length ys) = length ds * 2"
    using assms(3,4) n by (simp add: token_remaining_buf_def)
  have rest: "drop (3 + length xs + length ys) ?b = enc_hex_loop ds @ z" by (simp add: b numeral_3_eq_3)
  have "dbg_dec_hex (enc_hex_loop ds @ z) (length ds * 2) (length ds) = Inr (Some ds)"
    by (simp add: dbg_dec_hex_def dec_enc_hex)
  then have stores: "dbg_mem_write ops dbg_dec_hex (enc_hex_loop ds @ z) (length ds * 2) a (length ds) s =
      bindr (mem_writebs ops a (length ds) ds s) (\<lambda>s. Inr (True, s))" for a
    using assms(6) by (simp add: dbg_mem_write_def)
  have "aget ?b 0 = Inr 0x4D" by (simp add: b aget_def)
  then have "dbg_command ops ?b ?n s = cmd_write ops dbg_dec_hex ?b ?n s" by (simp add: dbg_command_def)
  also have "\<dots> = bindr (dbg_mem_write ops dbg_dec_hex (enc_hex_loop ds @ z) (length ds * 2) (hexval xs) (length ds) s)
      (\<lambda>(ok, s). if \<not> ok then Inr (Goto_error, ?b, s) else sends (dbg_send_ok_packet s) ?b)"
    by (simp only: cmd_write_def 1 2 3 4 left rest to_size_small assms(5,6) order.refl)
  finally show ?thesis unfolding stores by (cases "mem_writebs ops (hexval xs) (length ds) ds s") simp_all
qed

section \<open>The loop ends\<close>

text \<open>No operation adds to what the client will send, and a packet takes some of it.\<close>

abbreviation left_of :: "'v gdb \<Rightarrow> nat" where
  "left_of s \<equiv> length (peer_in s)"

lemma getc_left: "dbg_sys_getc s = (c, s') \<Longrightarrow> left_of s' \<le> left_of s"
  by (auto simp: dbg_sys_getc_def split: if_splits list.splits)

lemma putchar_left: "dbg_sys_putchar c s = (ok, s') \<Longrightarrow> peer_in s' = peer_in s"
  by (auto simp: dbg_sys_putchar_def split: if_splits)

lemma putchar_snd [simp]: "peer_in (snd (dbg_sys_putchar c s)) = peer_in s"
  by (simp add: dbg_sys_putchar_def)

lemma write_left: "dbg_write bs s = (ok, s') \<Longrightarrow> peer_in s' = peer_in s"
  by (induction bs arbitrary: s) (auto split: prod.splits if_splits dest: putchar_left)

lemma recv_ack_left: "dbg_recv_ack s = (r, s') \<Longrightarrow> left_of s' \<le> left_of s"
  by (auto simp: dbg_recv_ack_def split: prod.splits dest: getc_left)

lemma send_packet_left: "dbg_send_packet pkt s = (r, s') \<Longrightarrow> left_of s' \<le> left_of s"
  unfolding dbg_send_packet_def
  by (auto split: prod.splits option.splits if_splits simp del: dbg_write.simps dest!: putchar_left write_left recv_ack_left)

lemma send_packet_left': "left_of (snd (dbg_send_packet pkt s)) \<le> left_of s"
  using send_packet_left [of pkt s] by (cases "dbg_send_packet pkt s") simp

lemma send_letter_left: "send_letter_hex letter ds buf s = (r, b, s') \<Longrightarrow> left_of s' \<le> left_of s"
  by (auto simp: send_letter_hex_def split: prod.splits option.splits dest: send_packet_left)

lemma mem_readbs_left: "mem_readbs ops a n s = Inr (bs, s') \<Longrightarrow> peer_in s' = peer_in s"
  by (induction ops a n s arbitrary: bs s' rule: mem_readbs.induct)
    (fastforce simp: bindr_Inr_iff dbg_sys_mem_readb_def)+

lemma mem_writebs_left: "mem_writebs ops a n ds s = Inr s' \<Longrightarrow> peer_in s' = peer_in s"
  by (induction ops a n ds s arbitrary: s' rule: mem_writebs.induct)
    (fastforce simp: bindr_Inr_iff dbg_sys_mem_writeb_def)+

definition no_more :: "'v gdb \<Rightarrow> 'v answer \<Rightarrow> bool" where
  "no_more s = whenever (\<lambda>(_, _, s'). left_of s' \<le> left_of s)"

named_theorems answers

lemma no_more_Inr [answers]: "left_of s' \<le> left_of s \<Longrightarrow> no_more s (Inr (r, b, s'))"
  by (simp add: no_more_def)

lemma no_more_sends [answers]: "left_of (snd r) \<le> left_of s \<Longrightarrow> no_more s (sends r b)"
  by (simp add: no_more_def sends_def)

lemma no_more_bindr [answers]: "(\<And>x. m = Inr x \<Longrightarrow> no_more s (f x)) \<Longrightarrow> no_more s (bindr m f)"
  by (cases m) (simp_all add: no_more_def)

lemma no_more_fault [answers]: "no_more s (Inl e)"
  by (simp add: no_more_def)

lemma no_more_if [answers]: "(b \<Longrightarrow> no_more s x) \<Longrightarrow> (\<not> b \<Longrightarrow> no_more s y) \<Longrightarrow> no_more s (if b then x else y)"
  by simp

lemma no_more_option [answers]: "(x = None \<Longrightarrow> no_more s n) \<Longrightarrow> (\<And>v. x = Some v \<Longrightarrow> no_more s (f v)) \<Longrightarrow>
    no_more s (case x of None \<Rightarrow> n | Some v \<Rightarrow> f v)"
  by (cases x) auto

lemma no_more_integer [answers]: "(\<And>v q. no_more s (k v q)) \<Longrightarrow> no_more s (token_expect_integer_arg p n b s k)"
  unfolding token_expect_integer_arg_def by (intro answers) (auto intro: answers)

lemma no_more_seperator [answers]: "(\<And>q. no_more s (k q)) \<Longrightarrow> no_more s (token_expect_seperator c p b s k)"
  unfolding token_expect_seperator_def by (intro answers) simp_all

lemma no_more_encoded [answers]: "left_of t \<le> left_of s \<Longrightarrow> no_more s (send_encoded h b t)"
  unfolding send_encoded_def using order_trans [OF send_packet_left'] by (intro answers) auto

lemma dbg_command_left: "no_more s (dbg_command ops buf n s)"
proof -
  have ok: "left_of (snd (dbg_send_ok_packet t)) \<le> left_of t" for t :: "'v gdb"
    by (simp add: dbg_send_ok_packet_def send_packet_left')
  have read: "dbg_mem_read ops k a m s = Inr (h, t) \<Longrightarrow> left_of t \<le> left_of s" for k a m h t
    using mem_readbs_left [of ops a m s]
    by (fastforce simp: dbg_mem_read_def bindr_Inr_iff split: if_splits option.splits)
  have wr: "dbg_mem_write ops dec b k a m s = Inr (r, t) \<Longrightarrow> left_of t \<le> left_of s" for dec b k a m r t
    using mem_writebs_left [of ops a m _ s]
    by (fastforce simp: dbg_mem_write_def bindr_Inr_iff split: if_splits option.splits)
  have regs: "no_more s (cmd_g buf s)" "no_more s (cmd_p buf n s)"
    unfolding cmd_g_def cmd_p_def by (intro answers order.refl)+
  have writes: "no_more s (cmd_G buf n s)" "no_more s (cmd_P buf n s)"
    unfolding cmd_G_def cmd_P_def by (intro answers order.refl order_trans [OF ok]; simp)+
  have mems: "no_more s (cmd_m ops buf n s)"
    unfolding cmd_m_def by (intro answers) (auto intro!: answers dest: read)
  have memw: "no_more s (cmd_write ops dec buf n s)" for dec
    unfolding cmd_write_def by (intro answers) (auto intro!: answers order_trans [OF ok] dest: wr)
  have signal: "no_more s (let (r, b, t) = dbg_send_signal_packet buf 0 s in Inr (Status r, b, t))"
    by (auto simp: dbg_send_signal_packet_def no_more_def split: prod.splits dest: send_letter_left)
  show ?thesis
    unfolding dbg_command_def
    by (intro answers regs writes mems memw signal send_packet_left')
      (simp_all add: dbg_sys_continue_def dbg_sys_step_def)
qed

lemma recv_start_left: "recv_start s = (ok, s') \<Longrightarrow> left_of s' \<le> left_of s"
proof (induction s rule: recv_start.induct)
  case (1 s)
  then show ?case
    by (subst (asm) (2) recv_start.simps) (fastforce split: prod.splits option.splits if_splits dest: getc_left)
qed

lemma recv_data_left: "recv_data b n s = (r, b', s') \<Longrightarrow> left_of s' \<le> left_of s"
proof (induction b n s rule: recv_data.induct)
  case (1 b n s)
  then show ?case
    by (subst (asm) (2) recv_data.simps) (fastforce split: prod.splits option.splits if_splits dest: getc_left)
qed

lemma recv_data_takes: "recv_data b n s = (Some k, b', s') \<Longrightarrow> left_of s' < left_of s"
  by (subst (asm) recv_data.simps)
    (fastforce split: prod.splits option.splits if_splits dest: getc_shortens recv_data_left)

lemma read_left: "dbg_read_loop n s = (r, s') \<Longrightarrow> left_of s' \<le> left_of s"
  by (induction n arbitrary: s r) (fastforce dest: getc_left split: prod.splits option.splits)+

lemma recv_packet_takes:
  assumes "dbg_recv_packet buf s = Inr (Some n, buf', s')"
  shows "left_of s' < left_of s"
proof -
  obtain ok t where t: "recv_start s = (ok, t)" by fastforce
  obtain r b u where u: "recv_data buf 0 t = (r, b, u)" by (metis prod_cases3)
  obtain c v where v: "dbg_read_loop 2 u = (c, v)" by fastforce
  have ok "r \<noteq> None" "c \<noteq> None"
    using assms by (cases ok; cases r; cases c; simp add: dbg_recv_packet_def dbg_read_def t u v)+
  then obtain k cs where k: "r = Some k" "c = Some cs" by blast
  obtain d where "dbg_dec_hex cs 2 1 = Inr (Some d)" "s' = snd (dbg_sys_putchar c_plus v)"
    using assms \<open>ok\<close> by (auto simp: dbg_recv_packet_def dbg_read_def t u v k bindr_Inr_iff split: if_splits option.splits)
  then show ?thesis
    using recv_start_left [OF t] recv_data_takes [OF u [unfolded k]] read_left [OF v] by simp
qed

lemma send_error_left: "dbg_send_error_packet buf e s = (r, b, s') \<Longrightarrow> left_of s' \<le> left_of s"
  by (auto simp: dbg_send_error_packet_def split: if_splits dest: send_letter_left)

text \<open>Nothing else runs out of fuel, so the loop always ends.\<close>

definition finishes :: "fault + 'a \<Rightarrow> bool" where
  "finishes m \<longleftrightarrow> m \<noteq> Inl EndlessLoop"

named_theorems finish

lemma finishes_bindr [finish]: "finishes m \<Longrightarrow> (\<And>x. m = Inr x \<Longrightarrow> finishes (f x)) \<Longrightarrow> finishes (bindr m f)"
  by (cases m) (auto simp: finishes_def)

lemma finishes_basic [finish]:
  "finishes (Inr x)" "finishes (Inl OutOfBounds)" "finishes (Inl AssertFailed)" "finishes (Inl Uninitialised)"
  "finishes (aget xs i)" "finishes (aset ys j w)" "finishes (memcpy d k v n)"
  by (simp_all add: finishes_def aget_def aset_def memcpy_def)

lemma finishes_if [finish]: "(b \<Longrightarrow> finishes x) \<Longrightarrow> (\<not> b \<Longrightarrow> finishes y) \<Longrightarrow> finishes (if b then x else y)"
  by simp

lemma finishes_option [finish]:
  "(x = None \<Longrightarrow> finishes n) \<Longrightarrow> (\<And>v. x = Some v \<Longrightarrow> finishes (f v)) \<Longrightarrow> finishes (case x of None \<Rightarrow> n | Some v \<Rightarrow> f v)"
  by (cases x) auto

lemma finishes_sum [finish]:
  "(\<And>v. finishes (f v)) \<Longrightarrow> (\<And>v. finishes (g v)) \<Longrightarrow> finishes (case x of Inl v \<Rightarrow> f v | Inr v \<Rightarrow> g v)"
  by (cases x) auto

lemma finishes_prod [finish]: "(\<And>a b. x = (a, b) \<Longrightarrow> finishes (f a b)) \<Longrightarrow> finishes (case x of (a, b) \<Rightarrow> f a b)"
  by (cases x) auto

lemma finishes_list [finish]:
  "(x = [] \<Longrightarrow> finishes n) \<Longrightarrow> (\<And>a b. x = a # b \<Longrightarrow> finishes (f a b)) \<Longrightarrow> finishes (case x of [] \<Rightarrow> n | a # b \<Rightarrow> f a b)"
  by (cases x) auto

lemma finishes_check [finish]:
  "finishes (m s) \<Longrightarrow> (\<And>a t. finishes (f a t)) \<Longrightarrow> finishes (check_result m f s)"
  unfolding check_result_def by (intro finish)

lemma finishes_mem: "finishes (mem_read m a n)" "finishes (mem_write m a n v)"
  by (induction m) (auto simp: Let_def intro!: finish)

lemma finishes_vmem:
  assumes rd: "\<And>r c. finishes (vRegRead ops r c)"
  shows "finishes (VMemRead (vRegRead ops) v 1 c)" and "finishes (VMemWrite (vRegRead ops) v 1 b c)"
proof -
  have pte: "finishes (read_Pte a c)" for a c
    unfolding read_Pte_def by (intro finish finishes_mem)
  have walk: "finishes (VirtualToPhysical (vRegRead ops) a c)" for a c
    unfolding VirtualToPhysical_def by (intro finish rd pte)
  have acc: "finishes (MemRead a k c)" "finishes (MemWrite a k d c)" for a k d c
    unfolding MemRead_def MemWrite_def by (intro finish finishes_mem)+
  have "unat (first_copy v 1) = 1"
    using first_copy_room [of v 1] page_room_bounds [of v] by simp
  then have one: "first_copy v 1 = 1" by (simp add: word_unat_eq_iff)
  show "finishes (VMemRead (vRegRead ops) v 1 c)" "finishes (VMemWrite (vRegRead ops) v 1 b c)"
    unfolding VMemRead_def VMemWrite_def one
    by (simp_all add: numeral_2_eq_2) (intro finish walk acc; simp add: finishes_basic)+
qed

lemma finishes_strtol: "finishes (dbg_strtol str len base)"
proof -
  have "finishes (strtol_digits base xs left v ok pos)" for base xs left v ok pos
    by (induction base xs left v ok pos rule: strtol_digits.induct) (auto intro!: finish split: option.split)
  then show ?thesis
    unfolding dbg_strtol_def hex_prefix_def Let_def by (intro finish)
qed

lemma finishes_seperator [finish]: "(\<And>q. finishes (k q)) \<Longrightarrow> finishes (token_expect_seperator c p buf s k)"
  unfolding token_expect_seperator_def by (intro finish)

lemma finishes_integer [finish]: "(\<And>v q. finishes (k v q)) \<Longrightarrow> finishes (token_expect_integer_arg p n buf s k)"
  unfolding token_expect_integer_arg_def by (intro finish finishes_strtol)

lemma finishes_hex [finish]: "finishes (dbg_dec_hex buf k n)"
proof -
  have "finishes (dec_hex_loop n buf)" for n buf
    by (induction n buf rule: dec_hex_loop.induct) (auto simp: dec_nibble_def intro!: finish)
  then show ?thesis unfolding dbg_dec_hex_def by (intro finish)
qed

lemma finishes_bin [finish]: "finishes (dbg_dec_bin buf k n)"
proof -
  have "finishes (dec_bin_loop buf k n)" for buf k n
    by (induction buf k n rule: dec_bin_loop.induct) (auto intro!: finish)
  then show ?thesis unfolding dbg_dec_bin_def by (intro finish)
qed

lemma finishes_command:
  assumes rd: "\<And>r c. finishes (vRegRead ops r c)"
  shows "finishes (dbg_command ops buf n s)"
proof -
  have reads: "finishes (mem_readbs ops a k s)" for a k s
    by (induction k arbitrary: a s)
      (auto simp: dbg_sys_mem_readb_def intro!: finish finishes_vmem [OF rd])
  have writes: "finishes (mem_writebs ops a k ds s)" for a k ds s
  proof (induction k arbitrary: a ds s)
    case (Suc k)
    then show ?case
      by (cases ds) (auto simp: dbg_sys_mem_writeb_def intro!: finish finishes_vmem [OF rd])
  qed (simp add: finishes_basic)
  have encoded: "finishes (send_encoded h b t)" "finishes (sends r b)" for h b t r
    unfolding send_encoded_def sends_def by (intro finish)+
  show ?thesis
    unfolding dbg_command_def cmd_g_def cmd_G_def cmd_p_def cmd_P_def cmd_m_def cmd_write_def
      dbg_mem_read_def dbg_mem_write_def Let_def
    by (intro finish encoded reads writes)
qed

lemma finishes_recv: "finishes (dbg_recv_packet buf s)"
  unfolding dbg_recv_packet_def Let_def by (intro finish)

lemma main_loop_finishes:
  assumes rd: "\<And>r c. finishes (vRegRead ops r c)" and "left_of s < n"
  shows "finishes (dbg_main_loop ops n buf s)"
  using assms(2)
proof (induction n arbitrary: buf s)
  case (Suc n)
  have packet: "left_of t < n" if "dbg_recv_packet buf s = Inr (Some k, b, t)" for k b t
    using recv_packet_takes [OF that] Suc.prems by simp
  have command: "left_of u < n"
    if "dbg_recv_packet buf s = Inr (Some k, b, t)" "dbg_command ops b k t = Inr (q, c, u)" for k b t q c u
    using packet [OF that(1)] that(2) dbg_command_left [of t ops b k] by (simp add: no_more_def)
  show ?case
    unfolding dbg_main_loop.simps
  proof (intro finish finishes_recv finishes_command rd)
    fix x r y b t k
    assume "dbg_recv_packet buf s = Inr x" "x = (r, y)" "y = (b, t)" "r = Some k"
    then show "finishes (dbg_main_loop ops n b t)" using packet by (intro Suc.IH) simp
    fix z q w c u
    assume "dbg_command ops b k t = Inr z" "z = (q, w)" "w = (c, u)"
    then have u: "left_of u < n"
      using command \<open>dbg_recv_packet buf s = Inr x\<close> \<open>x = (r, y)\<close> \<open>y = (b, t)\<close> \<open>r = Some k\<close> by simp
    show "finishes (case q of Status r \<Rightarrow> if r = None then Inr (False, u) else dbg_main_loop ops n c u
        | Goto_error \<Rightarrow> (let (_, buf, s) = dbg_send_error_packet c 0 u in dbg_main_loop ops n buf s)
        | Leave \<Rightarrow> Inr (True, u))"
      using u Suc.IH by (auto split: reply.split prod.split intro!: finish dest!: send_error_left intro: le_less_trans)
  qed
qed simp

text \<open>The contract of a CPU that the server debugs: the reads of its registers return as well.\<close>

locale debugged_cpu = register_file ops ready reg plain
  for ops :: "'v cpu_ops" and ready :: "'v \<Rightarrow> bool" and reg :: "'v \<Rightarrow> CpuReg \<Rightarrow> u32" and plain :: "CpuReg set" +
  assumes reads_finish: "finishes (vRegRead ops r c)"
begin

lemma server_finishes: "dbg_main ops junk s \<noteq> Inl EndlessLoop"
proof -
  have "finishes (dbg_main_loop ops (Suc (left_of t)) b t)" for b t
    by (intro main_loop_finishes reads_finish) simp
  then show ?thesis
    by (auto simp: dbg_main_def finishes_def split: prod.split simp del: dbg_main_loop.simps)
qed

lemma vbytes_Suc:
  "vbytes mem cr3 v (Suc n) = Some (b # bs) \<longleftrightarrow> vbytes mem cr3 v 1 = Some [b] \<and> vbytes mem cr3 (v + 1) n = Some bs"
proof -
  have one: "vbytes mem cr3 v 1 = map_option (\<lambda>b. [b]) (vbyte mem cr3 v)"
    by (simp add: vbytes_def split: option.split)
  show ?thesis using vbytes_add [of mem cr3 v 1 n] one by (auto split: option.splits)
qed

lemma length_vbytes: "vbytes mem cr3 v n = Some bs \<Longrightarrow> length bs = n"
  by (auto simp: vbytes_def those_map_upt split: if_splits)

lemma mem_readbs_bytes:
  assumes "usable (g_cpu s)" and "vbytes (mem_of (g_cpu s)) (cr3_of (g_cpu s)) v n = Some bs"
  shows "\<exists>c. mem_readbs ops v n s = Inr (map Some bs, s\<lparr>g_cpu := c\<rparr>) \<and> kept (g_cpu s) c"
  using assms
proof (induction n arbitrary: v bs s)
  case 0
  then have "kept (g_cpu s) (g_cpu s)" "bs = []" by (simp_all add: usable_def kept_refl)
  then show ?case by (intro exI [of _ "g_cpu s"]) simp
next
  case (Suc n)
  have "length bs = Suc n"
    by (rule length_vbytes [OF Suc.prems(2)])
  then obtain b cs where bs: "bs = b # cs" by (cases bs) auto
  have parts: "vbytes (mem_of (g_cpu s)) (cr3_of (g_cpu s)) v 1 = Some [b]"
    "vbytes (mem_of (g_cpu s)) (cr3_of (g_cpu s)) (v + 1) n = Some cs"
    using Suc.prems(2) unfolding bs vbytes_Suc by blast+
  obtain c where c: "kept (g_cpu s) c" "VMemRead (vRegRead ops) v 1 (g_cpu s) = Inr (Inr [b], c)"
    using VMemRead_bytes [OF Suc.prems(1), of v 1] parts(1) by auto
  have k: "mem_of c = mem_of (g_cpu s)" "cr3_of c = cr3_of (g_cpu s)" using kept_fields [OF c(1)] by auto
  have "usable (g_cpu (s\<lparr>g_cpu := c\<rparr>))" using kept_usable [OF c(1) Suc.prems(1)] by simp
  moreover have "vbytes (mem_of (g_cpu (s\<lparr>g_cpu := c\<rparr>))) (cr3_of (g_cpu (s\<lparr>g_cpu := c\<rparr>))) (v + 1) n = Some cs"
    using parts(2) by (simp add: k)
  ultimately obtain d where "mem_readbs ops (v + 1) n (s\<lparr>g_cpu := c\<rparr>) = Inr (map Some cs, s\<lparr>g_cpu := d\<rparr>)" "kept c d"
    using Suc.IH [of "s\<lparr>g_cpu := c\<rparr>" "v + 1" cs] by auto
  then show ?case
    using c(2) kept_trans [OF c(1)] by (intro exI [of _ d]) (simp add: bs dbg_sys_mem_readb_def)
qed

lemma robust_mono: "robust W tr mem cr3 v n \<Longrightarrow> k \<le> n \<Longrightarrow> robust W tr mem cr3 v k"
  unfolding robust_def by (meson less_le_trans)

lemma mem_writebs_store:
  assumes "usable (g_cpu s)" and "robust W tr (mem_of (g_cpu s)) (cr3_of (g_cpu s)) v (length ds)"
  shows "\<exists>c. mem_writebs ops v (length ds) ds s = Inr (s\<lparr>g_cpu := c\<rparr>) \<and>
    stored (store tr (mem_of (g_cpu s)) v ds) (g_cpu s) c"
  using assms
proof (induction ds arbitrary: v s)
  case Nil
  then show ?case
    by (auto simp: stored_def usable_def intro!: exI [of _ "g_cpu s"] exI [of _ "impl (g_cpu s)"] exI [of _ "m_physMemMap (g_cpu s)"])
next
  case (Cons d ds)
  have one: "robust W tr (mem_of (g_cpu s)) (cr3_of (g_cpu s)) v 1"
    using robust_mono [OF Cons.prems(2), of 1] by simp
  obtain c where c: "VMemWrite (vRegRead ops) v 1 [d] (g_cpu s) = Inr (Inr 1, c)"
    "stored (store tr (mem_of (g_cpu s)) v [d]) (g_cpu s) c"
    using vmem_write_loop_store [where sz = 1 and n = "Suc (unat 1)" and pos = 0 and b = "[d]" and tr = tr and W = W,
        OF Cons.prems(1) _ _ first_end first_copy_room, of v] one
    unfolding VMemWrite_def by auto
  note u = stored_usable [OF c(2) Cons.prems(1)]
  have "robust W tr (mem_of c) (cr3_of c) (v + 1) (length ds)"
    using robust_step [OF Cons.prems(2), of "[d]"] u by simp
  then obtain e where "mem_writebs ops (v + 1) (length ds) ds (s\<lparr>g_cpu := c\<rparr>) = Inr (s\<lparr>g_cpu := e\<rparr>)"
    "stored (store tr (mem_of c) (v + 1) ds) c e"
    using Cons.IH [of "s\<lparr>g_cpu := c\<rparr>" "v + 1"] u by (auto simp del: fun_upd_apply)
  then show ?case using c u stored_trans [OF c(2)] by (auto simp: dbg_sys_mem_writeb_def)
qed

text \<open>What a pass of the loop does with a request and the acknowledgment of its answer.\<close>

lemma pass_request:
  assumes "peer_connected s" and "peer_in s = frame_of pkt @ c_plus # rest" and "clean pkt" and "pkt \<noteq> []"
    and "length pkt \<le> length buf" and "0 < peer_room s"
    and "dbg_command ops (into_buf pkt buf) (length pkt) (sent [c_plus] (s\<lparr>peer_in := c_plus # rest\<rparr>)) =
      Inr (Status (Some st), buf', s')"
  shows "dbg_main_loop ops (Suc k) buf s = dbg_main_loop ops k buf' s'"
  using assms recv_frame [of s "[]" pkt "c_plus # rest" buf] by (simp add: putchar_sent)

lemma read_pass:
  fixes s :: "'v gdb"
  assumes u: "usable (g_cpu s)" and con: "peer_connected s" and buf: "length buf = 256"
    and req: "peer_in s = frame_of (read_request xs ys) @ c_plus # rest" "is_hex xs" "is_hex ys" "length (xs @ ys) \<le> 254"
    and n: "unat (hexval ys) = n" "n \<le> 64" and room: "2 * n + 5 \<le> peer_room s"
    and mem: "vbytes (mem_of (g_cpu s)) (cr3_of (g_cpu s)) (hexval xs) n = Some bs"
  shows "\<exists>c buf'. kept (g_cpu s) c \<and> length buf' = 256 \<and> dbg_main_loop ops (Suc k) buf s =
    dbg_main_loop ops k buf' (sent (c_plus # frame_of (enc_hex_loop bs)) (s\<lparr>g_cpu := c, peer_in := rest\<rparr>))"
proof -
  let ?pkt = "read_request xs ys"
  let ?s = "sent [c_plus] (s\<lparr>peer_in := c_plus # rest\<rparr>)"
  have len: "length bs = n" by (rule length_vbytes [OF mem])
  have fit: "length ?pkt \<le> length buf" using req(4) buf by (simp add: read_request_def)
  obtain c where c: "mem_readbs ops (hexval xs) n ?s = Inr (map Some bs, ?s\<lparr>g_cpu := c\<rparr>)" "kept (g_cpu s) c"
    using mem_readbs_bytes [of ?s "hexval xs" n bs] u mem by auto
  have those: "those (map Some bs) = Some bs" by (induction bs) simp_all
  have read: "dbg_mem_read ops (length buf) (hexval xs) n ?s = Inr (Some (enc_hex_loop bs), ?s\<lparr>g_cpu := c\<rparr>)"
    using c(1) n(2) len buf by (simp add: dbg_mem_read_def those dbg_enc_hex_def)
  let ?t = "sent (c_plus # frame_of (enc_hex_loop bs)) (s\<lparr>g_cpu := c, peer_in := rest\<rparr>)"
  have "dbg_send_packet (enc_hex_loop bs) (?s\<lparr>g_cpu := c\<rparr>) =
      dbg_recv_ack (sent (frame_of (enc_hex_loop bs)) (?s\<lparr>g_cpu := c\<rparr>))"
    using con room len by (intro send_frame) simp_all
  also have "\<dots> = (Some 0, ?t)"
    using con by (subst recv_ack_plus) (simp_all, simp add: sent_commute)
  finally have "dbg_command ops (into_buf ?pkt buf) (length ?pkt) ?s =
      Inr (Status (Some 0), into_buf (enc_hex_loop bs) (into_buf ?pkt buf), ?t)"
    using command_m [OF req(2,3) fit, of ops ?s] n buf by (simp add: read [unfolded buf] send_encoded_def sends_def)
  moreover have "clean ?pkt" using clean_hex req(2,3) by (simp add: read_request_def)
  moreover have "length (into_buf (enc_hex_loop bs) (into_buf ?pkt buf)) = 256"
    using fit len n(2) buf by (simp add: into_buf_def)
  ultimately show ?thesis
    using c(2) fit room pass_request [OF con req(1)] by (fastforce simp: read_request_def)
qed

lemma write_pass:
  fixes s :: "'v gdb"
  assumes u: "usable (g_cpu s)" and con: "peer_connected s" and buf: "length buf = 256"
    and req: "peer_in s = frame_of (write_request xs ys ds) @ c_plus # rest" "is_hex xs" "is_hex ys"
      "length (write_request xs ys ds) \<le> 256"
    and n: "unat (hexval ys) = length ds" "length ds \<le> 64" and room: "7 \<le> peer_room s"
    and mem: "storable (mem_of (g_cpu s)) (cr3_of (g_cpu s)) (hexval xs) (length ds)"
  shows "\<exists>c buf'. stored (store (\<lambda>a. the (walk (mem_of (g_cpu s)) (cr3_of (g_cpu s)) a)) (mem_of (g_cpu s)) (hexval xs) ds)
      (g_cpu s) c \<and> length buf' = 256 \<and> dbg_main_loop ops (Suc k) buf s =
    dbg_main_loop ops k buf' (sent (c_plus # frame_of [0x4F, 0x4B]) (s\<lparr>g_cpu := c, peer_in := rest\<rparr>))"
proof -
  let ?pkt = "write_request xs ys ds"
  let ?s = "sent [c_plus] (s\<lparr>peer_in := c_plus # rest\<rparr>)"
  have fit: "length ?pkt \<le> length buf" using req(4) buf by simp
  obtain c where c: "mem_writebs ops (hexval xs) (length ds) ds ?s = Inr (?s\<lparr>g_cpu := c\<rparr>)"
    "stored (store (\<lambda>a. the (walk (mem_of (g_cpu s)) (cr3_of (g_cpu s)) a)) (mem_of (g_cpu s)) (hexval xs) ds) (g_cpu s) c"
    using mem_writebs_store [of ?s _ _ "hexval xs" ds] storable_robust [OF mem] u by fastforce
  let ?t = "sent (c_plus # frame_of [0x4F, 0x4B]) (s\<lparr>g_cpu := c, peer_in := rest\<rparr>)"
  have "dbg_send_ok_packet (?s\<lparr>g_cpu := c\<rparr>) = dbg_recv_ack (sent (frame_of [0x4F, 0x4B]) (?s\<lparr>g_cpu := c\<rparr>))"
    using con room unfolding dbg_send_ok_packet_def by (intro send_frame) simp_all
  also have "\<dots> = (Some 0, ?t)"
    using con by (subst recv_ack_plus) (simp_all, simp add: sent_commute)
  finally have "dbg_command ops (into_buf ?pkt buf) (length ?pkt) ?s = Inr (Status (Some 0), into_buf ?pkt buf, ?t)"
    using command_M [OF req(2,3) fit, of ops ?s] n buf by (simp add: c(1) sends_def)
  moreover have "clean ?pkt" using clean_hex req(2,3) clean_enc_hex by (simp add: write_request_def)
  moreover have "length (into_buf ?pkt buf) = 256" using fit buf by (simp add: into_buf_def)
  ultimately show ?thesis
    using c(2) fit room pass_request [OF con req(1)] by (fastforce simp: write_request_def)
qed

lemma write_read_session:
  fixes s :: "'v gdb"
  assumes u: "usable (g_cpu s)" and con: "peer_connected s" and buf: "length buf = 256"
    and req: "peer_in s = frame_of (write_request xs ys ds) @ c_plus # frame_of (read_request xs ys) @ c_plus # rest"
      "is_hex xs" "is_hex ys" "length (write_request xs ys ds) \<le> 256"
    and n: "unat (hexval ys) = length ds" "length ds \<le> 64" and room: "2 * length ds + 12 \<le> peer_room s"
    and mem: "storable (mem_of (g_cpu s)) (cr3_of (g_cpu s)) (hexval xs) (length ds)"
  shows "\<exists>s' buf'. dbg_main_loop ops (Suc (Suc k)) buf s = dbg_main_loop ops k buf' s' \<and> peer_in s' = rest
    \<and> peer_out s' = peer_out s @ (c_plus # frame_of [0x4F, 0x4B]) @ (c_plus # frame_of (enc_hex_loop ds))
    \<and> usable (g_cpu s') \<and> reg (impl (g_cpu s')) = reg (impl (g_cpu s))
    \<and> mem_of (g_cpu s') = store (\<lambda>a. the (walk (mem_of (g_cpu s)) (cr3_of (g_cpu s)) a)) (mem_of (g_cpu s)) (hexval xs) ds"
proof -
  let ?mem = "store (\<lambda>a. the (walk (mem_of (g_cpu s)) (cr3_of (g_cpu s)) a)) (mem_of (g_cpu s)) (hexval xs) ds"
  obtain c buf1 where c: "stored ?mem (g_cpu s) c" "length buf1 = 256"
    "dbg_main_loop ops (Suc (Suc k)) buf s = dbg_main_loop ops (Suc k) buf1 (sent (c_plus # frame_of [0x4F, 0x4B])
      (s\<lparr>g_cpu := c, peer_in := frame_of (read_request xs ys) @ c_plus # rest\<rparr>))"
    using write_pass [OF u con buf req n _ mem, of "Suc k"] room by auto
  note m = stored_usable [OF c(1) u]
  let ?s = "sent (c_plus # frame_of [0x4F, 0x4B]) (s\<lparr>g_cpu := c, peer_in := frame_of (read_request xs ys) @ c_plus # rest\<rparr>)"
  have "vbytes (mem_of c) (cr3_of c) (hexval xs) (length ds) = Some ds"
    using storable_read [OF mem] m by simp
  then have vb: "vbytes (mem_of (g_cpu ?s)) (cr3_of (g_cpu ?s)) (hexval xs) (length ds) = Some ds" by simp
  have fit: "length (xs @ ys) \<le> 254" using req(4) by (simp add: write_request_def)
  have "length (frame_of [0x4F, 0x4B]) = 6" by (simp add: frame_of_def)
  then have r: "2 * length ds + 5 \<le> peer_room ?s" using room by simp
  have s: "usable (g_cpu ?s)" "peer_connected ?s" "peer_in ?s = frame_of (read_request xs ys) @ c_plus # rest"
    using m con by simp_all
  obtain d buf2 where d: "kept c d"
    "dbg_main_loop ops (Suc k) buf1 ?s =
      dbg_main_loop ops k buf2 (sent (c_plus # frame_of (enc_hex_loop ds)) (?s\<lparr>g_cpu := d, peer_in := rest\<rparr>))"
    using read_pass [OF s(1,2) c(2) s(3) req(2,3) fit n r vb, of k] by (auto simp del: dbg_main_loop.simps)
  show ?thesis
    using c(3) d(2) kept_usable [OF d(1)] kept_fields [OF d(1)] m
    by (intro exI [of _ "sent (c_plus # frame_of (enc_hex_loop ds)) (?s\<lparr>g_cpu := d, peer_in := rest\<rparr>)"] exI [of _ buf2])
      (simp del: dbg_main_loop.simps)
qed

end

end
