(* ===== verification/Gdb_Props.thy ===== *)
theory Gdb_Props
  imports Gdb_Laws Haxm_Laws
begin

text \<open>
  What the GDB server promises to a client, on the HAXM module where memory is involved.
\<close>

section \<open>The protocol\<close>

lemma ack_out: "dbg_recv_ack s = (r, s') \<Longrightarrow> peer_out s' = peer_out s"
  by (auto simp: dbg_recv_ack_def dbg_sys_getc_def split: if_splits list.splits prod.splits)

text \<open>C14: what \<open>dbg_send_packet\<close> puts on the connection is received by \<open>dbg_recv_packet\<close> as the packet that was sent, is
  acknowledged, and nothing that follows is taken, if the packet has neither the terminator nor the byte that reads as \<open>EOF\<close>.\<close>

theorem gdb_packet_roundtrip:
  assumes "clean pkt" and "length pkt \<le> length buf"
    and "peer_connected s" and "length pkt + 4 \<le> peer_room s"
    and "peer_connected t" and "c_dollar \<notin> set noise" and "0xFF \<notin> set noise"
    and "peer_in t = noise @ drop (length (peer_out s)) (peer_out (snd (dbg_send_packet pkt s))) @ rest"
  shows "dbg_recv_packet buf t =
    Inr (Some (length pkt), into_buf pkt buf, snd (dbg_sys_putchar c_plus (t\<lparr>peer_in := rest\<rparr>)))"
proof -
  have "drop (length (peer_out s)) (peer_out (snd (dbg_send_packet pkt s))) = frame_of pkt"
    using ack_out [of "sent (frame_of pkt) s"] by (cases "dbg_recv_ack (sent (frame_of pkt) s)") (simp add: send_frame [OF assms(3,4)])
  then show ?thesis using assms by (intro recv_frame) simp_all
qed

definition sample_gdb :: "'v cpu \<Rightarrow> bytes \<Rightarrow> 'v gdb" where
  "sample_gdb c bs = \<lparr>peer_connected = True, peer_in = bs, peer_out = [], peer_room = 1000, g_cpu = c, signum = 0,
     registers = replicate 16 0\<rparr>"

abbreviation (input) idle_gdb :: "bytes \<Rightarrow> (vcpu_state \<times> u32 list, unit) haxm gdb" where
  "idle_gdb bs \<equiv> sample_gdb (sample_cpu 0 ()) bs"

theorem gdb_packet_roundtrip_witness:
  "dbg_recv_packet [0, 0, 0] (idle_gdb ([1] @ drop (length (peer_out (idle_gdb [])))
       (peer_out (snd (dbg_send_packet [0x67] (idle_gdb [])))) @ [2])) =
     Inr (Some 1, [0x67, 0, 0], snd (dbg_sys_putchar c_plus (idle_gdb [2])))"
  using gdb_packet_roundtrip [of "[0x67]" "[0, 0, 0]" "idle_gdb []" "idle_gdb ([1] @ drop (length (peer_out (idle_gdb [])))
       (peer_out (snd (dbg_send_packet [0x67] (idle_gdb [])))) @ [2])" "[1]" "[2]"]
  by (simp add: clean_def into_buf_def sample_gdb_def)

text \<open>data that is encoded, as hexadecimal digits or as escaped bytes, decodes to itself, and the escaped form
  holds no character that delimits a packet.\<close>

theorem gdb_encodings_roundtrip:
  "(\<forall>h. dbg_enc_hex n ds = Some h \<longrightarrow> dbg_dec_hex (h @ rest) (length h) (length ds) = Inr (Some ds))
   \<and> (\<forall>b. dbg_enc_bin n ds = Inr b \<longrightarrow> dbg_dec_bin (b @ rest) (length b) (length ds) = Inr (Some ds)
        \<and> c_dollar \<notin> set b \<and> c_hash \<notin> set b \<and> c_star \<notin> set b)"
  using dec_enc_bin [of n ds _ "length ds" rest] enc_bin_escapes [of n ds]
  by (auto simp: dbg_enc_hex_def dbg_dec_hex_def dec_enc_hex dbg_enc_bin_def dbg_dec_bin_def split: if_splits)

theorem gdb_encodings_roundtrip_witness:
  "dbg_dec_hex [0x30, 0x33] 2 1 = Inr (Some [3]) \<and> dbg_dec_bin [0x7D, 0x03, 0x41] 3 2 = Inr (Some [0x23, 0x41])"
proof -
  have "dbg_enc_hex 2 [3] = Some [0x30, 0x33]" "dbg_enc_bin 3 [0x23, 0x41] = Inr [0x7D, 0x03, 0x41]"
    by code_simp+
  then show ?thesis
    using gdb_encodings_roundtrip [of 2 "[3]" "[]"] gdb_encodings_roundtrip [of 3 "[0x23, 0x41]" "[]"]
    by (simp add: numeral_2_eq_2 numeral_3_eq_3)
qed

interpretation haxm_gdb: debugged_cpu "HaxmCpu D io junk" "readable D" "haxm_reg D" plain_regs
  for D io junk
proof
  have "finishes (haxm_RegRead D r c)" for r c
    unfolding haxm_RegRead_def RefreshRegisters_def op_ok_def op_fail_def Let_def by (intro finish)
  then show "finishes (vRegRead (HaxmCpu D io junk) r c)" for r c by (simp add: HaxmCpu_def)
qed

text \<open>C30: the loop of the server ends, whatever the client sends: its passes are bounded by the bytes of the connection.\<close>

theorem gdb_server_ends:
  "dbg_main (HaxmCpu D io reg_junk) pkt_junk s \<noteq> Inl EndlessLoop"
  by (rule haxm_gdb.server_finishes)

text \<open>C31: a packet that arrives with a wrong checksum is not asked for again: it is refused and ends the debugging session,
  and the program runs on.\<close>

theorem gdb_corrupted_packet_ends:
  assumes "peer_connected s" and "peer_in s = noise @ c_dollar # pkt @ c_hash # h # l # rest"
    and "c_dollar \<notin> set noise" and "0xFF \<notin> set noise" and "clean pkt" and "length pkt \<le> length buf"
    and "dbg_get_val h 16 = Some x" and "dbg_get_val l 16 = Some y" and "push_bit 4 x OR y \<noteq> dbg_checksum pkt"
  shows "dbg_main_loop ops (Suc n) buf s = Inr (True, snd (dbg_sys_putchar c_minus (s\<lparr>peer_in := rest\<rparr>)))"
proof -
  have start: "recv_start s = (True, s\<lparr>peer_in := pkt @ c_hash # h # l # rest\<rparr>)"
    using assms(1-4) by (intro recv_start_noise [where noise = noise]) simp_all
  have packet: "recv_data buf 0 (s\<lparr>peer_in := pkt @ c_hash # h # l # rest\<rparr>) =
      (Some (length pkt), into_buf pkt buf, s\<lparr>peer_in := h # l # rest\<rparr>)"
    using recv_data_packet [of "s\<lparr>peer_in := pkt @ c_hash # h # l # rest\<rparr>" pkt "h # l # rest" 0 buf] assms(1,5,6)
    by (simp add: into_buf_def)
  have "h \<noteq> 0xFF" "l \<noteq> 0xFF" using digit_no_sign [of h] digit_no_sign [of l] assms(7,8) by auto
  then have two: "dbg_read 2 2 (s\<lparr>peer_in := h # l # rest\<rparr>) = (Some [h, l], s\<lparr>peer_in := rest\<rparr>)"
    using assms(1) by (simp add: dbg_read_def numeral_2_eq_2 dbg_sys_getc_def)
  have csum: "dbg_dec_hex [h, l] 2 1 = Inr (Some [push_bit 4 x OR y])"
    using assms(7,8) by (simp add: dbg_dec_hex_def dec_nibble_def)
  have "take (length pkt) (into_buf pkt buf) = pkt" by (simp add: into_buf_def)
  then have "dbg_recv_packet buf s = Inr (None, into_buf pkt buf, snd (dbg_sys_putchar c_minus (s\<lparr>peer_in := rest\<rparr>)))"
    unfolding dbg_recv_packet_def start using assms(9) by (simp add: packet two csum [unfolded One_nat_def])
  then show ?thesis by simp
qed

theorem gdb_corrupted_packet_ends_witness:
  "\<exists>s'. dbg_main_loop (HaxmCpu sample_driver no_ports 0) 1 (replicate 256 0)
     (idle_gdb [0x24, 0x67, 0x23, 0x30, 0x30, 0x24, 0x67]) = Inr (True, s')"
  using gdb_corrupted_packet_ends [of "idle_gdb [0x24, 0x67, 0x23, 0x30, 0x30, 0x24, 0x67]" "[]" "[0x67]" "0x30" "0x30"
      "[0x24, 0x67]" "replicate 256 0" 0 0 "HaxmCpu sample_driver no_ports 0" 0]
  by (simp add: sample_gdb_def clean_def dbg_get_val_def del: dbg_main_loop.simps)

section \<open>Memory\<close>

text \<open>C8: a session on the HAXM module that writes bytes to guest memory and reads them back: the client's two requests, with
  address and length in any number of hexadecimal digits, are answered by OK and by the bytes written; the memory is the old one
  with the bytes stored through the page tables, and no register has changed.\<close>

theorem gdb_memory_session:
  fixes s :: "('h, 'd) haxm gdb"
  assumes "sound_cpu D (g_cpu s)" and "peer_connected s" and "length buf = 256"
    and "peer_in s = frame_of (write_request xs ys ds) @ c_plus # frame_of (read_request xs ys) @ c_plus # rest"
    and "is_hex xs" and "is_hex ys" and "length (write_request xs ys ds) \<le> 256"
    and "unat (hexval ys) = length ds" and "length ds \<le> 64" and "2 * length ds + 12 \<le> peer_room s"
    and "storable (guest_mem (g_cpu s)) (page_directory D (g_cpu s)) (hexval xs) (length ds)"
  shows "\<exists>s' buf'. dbg_main_loop (HaxmCpu D io junk) (Suc (Suc k)) buf s = dbg_main_loop (HaxmCpu D io junk) k buf' s'
    \<and> peer_in s' = rest
    \<and> peer_out s' = peer_out s @ (c_plus # frame_of [0x4F, 0x4B]) @ (c_plus # frame_of (enc_hex_loop ds))
    \<and> sound_cpu D (g_cpu s') \<and> haxm_reg D (impl (g_cpu s')) = haxm_reg D (impl (g_cpu s))
    \<and> guest_mem (g_cpu s') = store (\<lambda>a. the (walk (guest_mem (g_cpu s)) (page_directory D (g_cpu s)) a))
        (guest_mem (g_cpu s)) (hexval xs) ds"
  using haxm_gdb.write_read_session [OF assms(1) [folded sound_usable] assms(2-), where io = io and junk = junk]
  unfolding sound_usable .

theorem gdb_memory_session_witness:
  "\<exists>s' buf'. dbg_main_loop (HaxmCpu sample_driver no_ports 0) (Suc (Suc 0)) (replicate 256 0)
      (idle_gdb (frame_of (write_request [0x31, 0x30] [0x32] [1, 2]) @ c_plus # frame_of (read_request [0x31, 0x30] [0x32]) @ [c_plus])) =
      dbg_main_loop (HaxmCpu sample_driver no_ports 0) 0 buf' s' \<and> peer_in s' = []"
proof -
  let ?s = "idle_gdb (frame_of (write_request [0x31, 0x30] [0x32] [1, 2]) @ c_plus # frame_of (read_request [0x31, 0x30] [0x32]) @ [c_plus])"
  have v: "hexval [0x31, 0x30] = 0x10" "hexval [0x32] = 2" "is_hex [0x31, 0x30]" "is_hex [0x32]"
    by (simp_all add: hexval_from_def is_hex_def dbg_get_val_def)
  have s: "sound_cpu sample_driver (g_cpu ?s)" "peer_connected ?s" "2 * length [1 :: u8, 2] + 12 \<le> peer_room ?s"
    using sample_sound [where esp = 0 and d = "()"] by (simp_all add: sample_gdb_def)
  have "storable (guest_mem (g_cpu ?s)) (page_directory sample_driver (g_cpu ?s)) (hexval [0x31, 0x30]) (length [1 :: u8, 2])"
    using sample_storable [of "0x10" "length [1 :: u8, 2]" 0 "()"] by (simp add: v sample_gdb_def)
  moreover have "unat (hexval [0x32]) = length [1 :: u8, 2]" by (simp add: v)
  ultimately show ?thesis
    using gdb_memory_session [of sample_driver ?s "replicate 256 0" "[0x31, 0x30]" "[0x32]" "[1, 2]" "[]", OF s(1,2) _ _ v(3,4) _ _ _ s(3)]
    by (fastforce simp: sample_gdb_def write_request_def simp del: dbg_main_loop.simps)
qed

end
