(* ===== verification/Iovec.thy ===== *)
theory Iovec
  imports Prelude
begin

text \<open>
  Scattered buffers, \<open>common/openxbox/iovec.cpp\<close>: vectors of pieces of memory that USB packets carry, filling
  a buffer from them and them from a buffer. A piece is an offset and a length in the memory that the
  vector points into. The space for the pieces never runs out.
\<close>

section \<open>Operations\<close>

record IOVector =
  IoVecStruct :: "(nat \<times> nat) list"
  AllocNumber :: nat
  Size :: nat

definition IoVecReset :: "IOVector \<Rightarrow> IOVector" where
  "IoVecReset qiov = qiov\<lparr>IoVecStruct := [], Size := 0\<rparr>"

definition IoVecAdd :: "nat \<Rightarrow> nat \<Rightarrow> IOVector \<Rightarrow> IOVector" where
  "IoVecAdd base n qiov =
     (let qiov = (if length (IoVecStruct qiov) = AllocNumber qiov
                  then qiov\<lparr>AllocNumber := 2 * AllocNumber qiov + 1\<rparr> else qiov)
      in qiov\<lparr>IoVecStruct := IoVecStruct qiov @ [(base, n)], Size := Size qiov + n\<rparr>)"

text \<open>The last argument is what is left of \<open>bytes - done\<close>; the result is what is stored into the buffer.\<close>

fun IoVecTobuffer :: "bytes \<Rightarrow> (nat \<times> nat) list \<Rightarrow> nat \<Rightarrow> nat \<Rightarrow> fault + bytes" where
  "IoVecTobuffer mem [] offset n = (if offset = 0 then Inr [] else Inl AssertFailed)"
| "IoVecTobuffer mem ((base, l) # iov) offset n =
     (if offset = 0 \<and> n = 0 then Inr []
      else if offset < l then
        let k = min (l - offset) n in
        if base + offset + k \<le> length mem
        then bindr (IoVecTobuffer mem iov 0 (n - k)) (\<lambda>bs. Inr (take k (drop (base + offset) mem) @ bs))
        else Inl OutOfBounds
      else IoVecTobuffer mem iov (offset - l) n)"

text \<open>The buffer is given from its start to the end of the object it lies in; the result is how much was taken from it.\<close>

fun IoVecFromBuffer :: "(nat \<times> nat) list \<Rightarrow> nat \<Rightarrow> bytes \<Rightarrow> nat \<Rightarrow> bytes \<Rightarrow> fault + nat \<times> bytes" where
  "IoVecFromBuffer [] offset buf n mem = (if offset = 0 then Inr (0, mem) else Inl AssertFailed)"
| "IoVecFromBuffer ((base, l) # iov) offset buf n mem =
     (if offset = 0 \<and> n = 0 then Inr (0, mem)
      else if offset < l then
        let k = min (l - offset) n in
        bindr (memcpy mem (base + offset) buf k) (\<lambda>mem.
        bindr (IoVecFromBuffer iov 0 (drop k buf) (n - k) mem) (\<lambda>(d, mem). Inr (k + d, mem)))
      else IoVecFromBuffer iov (offset - l) buf n mem)"

section \<open>The vector as a sequence of addresses\<close>

definition addresses :: "(nat \<times> nat) list \<Rightarrow> nat list" where
  "addresses iov = concat (map (\<lambda>(b, l). [b..<b + l]) iov)"

lemma addresses_simps [simp]:
  "addresses [] = []" "addresses ((b, l) # iov) = [b..<b + l] @ addresses iov"
  "addresses (u @ v) = addresses u @ addresses v"
  by (simp_all add: addresses_def)

lemma length_addresses: "length (addresses iov) = sum_list (map snd iov)"
  by (induction iov) auto

text \<open>\<open>Size\<close> is the number of addresses, and the array of pieces has room for them.\<close>

definition wf_iov :: "IOVector \<Rightarrow> bool" where
  "wf_iov q \<longleftrightarrow> Size q = length (addresses (IoVecStruct q)) \<and> length (IoVecStruct q) \<le> AllocNumber q"

lemma wf_iov_ops [simp]: "wf_iov (IoVecReset q)" "wf_iov q \<Longrightarrow> wf_iov (IoVecAdd base n q)"
  by (auto simp: wf_iov_def IoVecReset_def IoVecAdd_def Let_def)

fun store_all :: "nat list \<Rightarrow> bytes \<Rightarrow> bytes \<Rightarrow> bytes" where
  "store_all (a # as) (c # bs) mem = store_all as bs (mem[a := c])"
| "store_all as bs mem = mem"

lemma length_store_all [simp]: "length (store_all as bs mem) = length mem"
  by (induction as bs mem rule: store_all.induct) simp_all

lemma store_all_append:
  "length u = length bs \<Longrightarrow> store_all (u @ v) (bs @ cs) mem = store_all v cs (store_all u bs mem)"
  by (induction u bs mem rule: store_all.induct) simp_all

lemma store_all_other: "i \<notin> set as \<Longrightarrow> store_all as bs mem ! i = mem ! i"
  by (induction as bs mem rule: store_all.induct) auto

lemma store_all_same:
  "distinct as \<Longrightarrow> set as \<subseteq> {..<length mem} \<Longrightarrow> length bs = length as \<Longrightarrow> map ((!) (store_all as bs mem)) as = bs"
  by (induction as bs mem rule: store_all.induct) (auto simp: store_all_other)

lemma memcpy_store:
  assumes "n \<le> length src" and "off + n \<le> length dst"
  shows "memcpy dst off src n = Inr (store_all [off..<off + n] (take n src) dst)"
proof -
  let ?as = "[off..<off + n]"
  have same: "map ((!) (store_all ?as (take n src) dst)) ?as = take n src"
    using assms by (intro store_all_same) auto
  have "store_all ?as (take n src) dst ! i = src ! (i - off)" if "off \<le> i" "i < off + n" for i
    using arg_cong [OF same, of "\<lambda>xs. xs ! (i - off)"] that assms by simp
  then show ?thesis
    using assms by (auto simp: memcpy_def nth_append store_all_other not_less intro!: nth_equalityI)
qed

section \<open>What the transfers do\<close>

lemma IoVecTobuffer_addresses:
  assumes "set (addresses iov) \<subseteq> {..<length mem}" and "offset \<le> length (addresses iov)"
  shows "IoVecTobuffer mem iov offset n = Inr (map ((!) mem) (take n (drop offset (addresses iov))))"
  using assms
proof (induction mem iov offset n rule: IoVecTobuffer.induct)
  case (2 mem base l iov offset n)
  have room: "base + l \<le> length mem" if "0 < l"
    using "2.prems"(1) that by (cases l) (auto simp: subset_iff)
  show ?case
  proof (cases "offset < l")
    case True
    let ?k = "min (l - offset) n"
    have piece: "take ?k (drop (base + offset) mem) = map ((!) mem) (take n [base + offset..<base + l])"
      using room True by (intro nth_equalityI) auto
    have left: "n - ?k = n + offset - l" using True by (simp add: min_def)
    show ?thesis
      using 2 True room piece unfolding left by (auto simp: Let_def take_map drop_map left)
  next
    case False
    then show ?thesis using 2 by (cases "offset = 0 \<and> n = 0") (auto simp: take_map drop_map)
  qed
qed simp

lemma IoVecFromBuffer_addresses:
  assumes "set (addresses iov) \<subseteq> {..<length mem}" and "offset \<le> length (addresses iov)" and "n \<le> length buf"
  shows "IoVecFromBuffer iov offset buf n mem =
    Inr (min n (length (addresses iov) - offset), store_all (take n (drop offset (addresses iov))) (take n buf) mem)"
  using assms
proof (induction iov offset buf n mem rule: IoVecFromBuffer.induct)
  case (2 base l iov offset buf n mem)
  have room: "base + l \<le> length mem" if "0 < l"
    using "2.prems"(1) that by (cases l) (auto simp: subset_iff)
  show ?case
  proof (cases "offset < l \<and> \<not> (offset = 0 \<and> n = 0)")
    case True
    let ?k = "min (l - offset) n"
    have "base + offset + ?k \<le> length mem" using room True by linarith
    then have cpy: "memcpy mem (base + offset) buf ?k = Inr (store_all [base + offset..<base + offset + ?k] (take ?k buf) mem)"
      using "2.prems"(3) by (intro memcpy_store) auto
    have split: "take n [base + offset..<base + l] = [base + offset..<base + offset + ?k]"
      using True by (auto simp: min_def)
    have left: "n - ?k = n + offset - l" using True by (simp add: min_def)
    let ?mem = "store_all [base + offset..<base + offset + ?k] (take ?k buf) mem"
    have "IoVecFromBuffer iov 0 (drop ?k buf) (n - ?k) ?mem = Inr (min (n - ?k) (length (addresses iov)),
        store_all (take (n - ?k) (addresses iov)) (take (n - ?k) (drop ?k buf)) ?mem)"
      using 2 True cpy by (simp add: Let_def)
    then have "IoVecFromBuffer ((base, l) # iov) offset buf n mem = Inr (?k + min (n - ?k) (length (addresses iov)),
        store_all (take (n - ?k) (addresses iov)) (take (n - ?k) (drop ?k buf)) ?mem)"
      using True by (simp add: cpy Let_def)
    also have "store_all (take (n - ?k) (addresses iov)) (take (n - ?k) (drop ?k buf)) ?mem
        = store_all ([base + offset..<base + offset + ?k] @ take (n - ?k) (addresses iov))
            (take ?k buf @ take (n - ?k) (drop ?k buf)) mem"
      using "2.prems"(3) by (subst store_all_append) auto
    also have "take ?k buf @ take (n - ?k) (drop ?k buf) = take n buf"
      by (metis take_add le_add_diff_inverse min.cobounded2)
    also have "[base + offset..<base + offset + ?k] @ take (n - ?k) (addresses iov)
        = take n (drop offset (addresses ((base, l) # iov)))"
      using True by (simp add: split left)
    also have "?k + min (n - ?k) (length (addresses iov)) = min n (length (addresses ((base, l) # iov)) - offset)"
      using True by (auto simp: min_def)
    finally show ?thesis .
  next
    case False
    then show ?thesis using 2 by auto
  qed
qed simp

text \<open>bytes that are scattered into a vector of pieces of memory that do not overlap are gathered from it as they were,
  from any place in the vector, and no other byte of the memory is changed.\<close>

theorem iovec_roundtrip:
  assumes "distinct (addresses iov)" and "set (addresses iov) \<subseteq> {..<length mem}"
    and "offset + n \<le> length (addresses iov)" and "n \<le> length buf"
  shows "\<exists>mem'. IoVecFromBuffer iov offset buf n mem = Inr (n, mem') \<and> length mem' = length mem
    \<and> IoVecTobuffer mem' iov offset n = Inr (take n buf)
    \<and> (\<forall>i. i \<notin> set (take n (drop offset (addresses iov))) \<longrightarrow> mem' ! i = mem ! i)"
proof -
  let ?as = "take n (drop offset (addresses iov))"
  let ?mem = "store_all ?as (take n buf) mem"
  have "set ?as \<subseteq> {..<length mem}" using assms(2) by (meson set_drop_subset set_take_subset subset_trans)
  then have "map ((!) ?mem) ?as = take n buf"
    using assms by (intro store_all_same) auto
  then show ?thesis
    using assms by (simp add: IoVecFromBuffer_addresses IoVecTobuffer_addresses store_all_other)
qed

theorem iovec_roundtrip_witness:
  "\<exists>mem'. IoVecFromBuffer [(4, 2), (0, 3)] 1 [7, 8, 9] 3 (replicate 8 0) = Inr (3, mem')
    \<and> IoVecTobuffer mem' [(4, 2), (0, 3)] 1 3 = Inr [7, 8, 9]"
  using iovec_roundtrip [of "[(4, 2), (0, 3)]" "replicate 8 0" 1 3 "[7, 8, 9]"]
  by (auto simp: upt_rec)

end
