(* ===== verification/Usb.thy ===== *)
theory Usb
  imports Iovec
begin

text \<open>
  The USB device layer, \<open>core/openxbox/hw/pci/usb_pci.cpp\<close> with the types of
  \<open>hw/ohci/ohci_common.h\<close>: devices with their endpoints and descriptors, packets, and the control
  transfers on endpoint zero. A device class, \<open>USBDeviceClass\<close>, is a record of optional functions;
  they act on the packet, the device, with the state of its class, and the world around it, the controller.
  The controller has one packet object, whose pieces of memory lie in one buffer, \<open>m_UsbBuffer\<close>.
  Pointers to endpoints are selectors of the device; pointers to descriptors are the descriptors.
\<close>

section \<open>Constants\<close>

abbreviation (input) USB_MAX_ENDPOINTS :: nat where "USB_MAX_ENDPOINTS \<equiv> 15"
abbreviation (input) USB_MAX_INTERFACES :: nat where "USB_MAX_INTERFACES \<equiv> 16"

abbreviation (input) USB_ENDPOINT_XFER_CONTROL :: u8 where "USB_ENDPOINT_XFER_CONTROL \<equiv> 0"
abbreviation (input) USB_ENDPOINT_XFER_ISOC :: u8 where "USB_ENDPOINT_XFER_ISOC \<equiv> 1"
abbreviation (input) USB_ENDPOINT_XFER_INT :: u8 where "USB_ENDPOINT_XFER_INT \<equiv> 3"
abbreviation (input) USB_ENDPOINT_XFER_INVALID :: u8 where "USB_ENDPOINT_XFER_INVALID \<equiv> 255"
abbreviation (input) USB_INTERFACE_INVALID :: u8 where "USB_INTERFACE_INVALID \<equiv> 255"

abbreviation (input) USB_DIR_IN :: u8 where "USB_DIR_IN \<equiv> 0x80"

abbreviation (input) USB_TOKEN_SETUP :: u32 where "USB_TOKEN_SETUP \<equiv> 0x2D"
abbreviation (input) USB_TOKEN_IN :: u32 where "USB_TOKEN_IN \<equiv> 0x69"
abbreviation (input) USB_TOKEN_OUT :: u32 where "USB_TOKEN_OUT \<equiv> 0xE1"

abbreviation (input) USB_SPEED_LOW :: u32 where "USB_SPEED_LOW \<equiv> 0"
abbreviation (input) USB_SPEED_FULL :: u32 where "USB_SPEED_FULL \<equiv> 1"
abbreviation (input) USB_SPEED_MASK_LOW :: u32 where "USB_SPEED_MASK_LOW \<equiv> 1"
abbreviation (input) USB_SPEED_MASK_FULL :: u32 where "USB_SPEED_MASK_FULL \<equiv> 2"

abbreviation (input) USB_DEVICE_REMOTE_WAKEUP :: u32 where "USB_DEVICE_REMOTE_WAKEUP \<equiv> 1"

text \<open>The request types, with the request in the low byte.\<close>

abbreviation (input) DeviceRequest :: u32 where "DeviceRequest \<equiv> 0x8000"
abbreviation (input) DeviceOutRequest :: u32 where "DeviceOutRequest \<equiv> 0"
abbreviation (input) InterfaceRequest :: u32 where "InterfaceRequest \<equiv> 0x8100"
abbreviation (input) InterfaceOutRequest :: u32 where "InterfaceOutRequest \<equiv> 0x0100"
abbreviation (input) ClassInterfaceRequest :: u32 where "ClassInterfaceRequest \<equiv> 0xA100"
abbreviation (input) ClassInterfaceOutRequest :: u32 where "ClassInterfaceOutRequest \<equiv> 0x2100"
abbreviation (input) VendorInterfaceRequest :: u32 where "VendorInterfaceRequest \<equiv> 0xC100"
abbreviation (input) EndpointOutRequest :: u32 where "EndpointOutRequest \<equiv> 0x0200"

abbreviation (input) USB_REQ_GET_STATUS :: u32 where "USB_REQ_GET_STATUS \<equiv> 0"
abbreviation (input) USB_REQ_CLEAR_FEATURE :: u32 where "USB_REQ_CLEAR_FEATURE \<equiv> 1"
abbreviation (input) USB_REQ_SET_FEATURE :: u32 where "USB_REQ_SET_FEATURE \<equiv> 3"
abbreviation (input) USB_REQ_SET_ADDRESS :: u32 where "USB_REQ_SET_ADDRESS \<equiv> 5"
abbreviation (input) USB_REQ_GET_DESCRIPTOR :: u32 where "USB_REQ_GET_DESCRIPTOR \<equiv> 6"
abbreviation (input) USB_REQ_GET_CONFIGURATION :: u32 where "USB_REQ_GET_CONFIGURATION \<equiv> 8"
abbreviation (input) USB_REQ_SET_CONFIGURATION :: u32 where "USB_REQ_SET_CONFIGURATION \<equiv> 9"
abbreviation (input) USB_REQ_GET_INTERFACE :: u32 where "USB_REQ_GET_INTERFACE \<equiv> 10"
abbreviation (input) USB_REQ_SET_INTERFACE :: u32 where "USB_REQ_SET_INTERFACE \<equiv> 11"

abbreviation (input) USB_DT_DEVICE :: u8 where "USB_DT_DEVICE \<equiv> 1"
abbreviation (input) USB_DT_CONFIG :: u8 where "USB_DT_CONFIG \<equiv> 2"
abbreviation (input) USB_DT_STRING :: u8 where "USB_DT_STRING \<equiv> 3"
abbreviation (input) USB_DT_INTERFACE :: u8 where "USB_DT_INTERFACE \<equiv> 4"
abbreviation (input) USB_DT_ENDPOINT :: u8 where "USB_DT_ENDPOINT \<equiv> 5"

abbreviation (input) USB_RET_SUCCESS :: int where "USB_RET_SUCCESS \<equiv> 0"
abbreviation (input) USB_RET_NODEV :: int where "USB_RET_NODEV \<equiv> -1"
abbreviation (input) USB_RET_NAK :: int where "USB_RET_NAK \<equiv> -2"
abbreviation (input) USB_RET_STALL :: int where "USB_RET_STALL \<equiv> -3"
abbreviation (input) USB_RET_BABBLE :: int where "USB_RET_BABBLE \<equiv> -4"
abbreviation (input) USB_RET_IOERROR :: int where "USB_RET_IOERROR \<equiv> -5"
abbreviation (input) USB_RET_ASYNC :: int where "USB_RET_ASYNC \<equiv> -6"
abbreviation (input) USB_RET_ADD_TO_QUEUE :: int where "USB_RET_ADD_TO_QUEUE \<equiv> -7"

abbreviation (input) STR_MANUFACTURER :: u8 where "STR_MANUFACTURER \<equiv> 1"
abbreviation (input) STR_PRODUCT :: u8 where "STR_PRODUCT \<equiv> 2"
abbreviation (input) STR_SERIALNUMBER :: u8 where "STR_SERIALNUMBER \<equiv> 3"

section \<open>Descriptors\<close>

record USBDescOther =
  other_length :: u8
  other_data :: bytes

record USBDescEndpoint =
  bEndpointAddress :: u8
  ep_bmAttributes :: u8
  wMaxPacketSize :: u16
  bInterval :: u8
  bRefresh :: u8
  bSynchAddress :: u8
  is_audio :: bool
  extra :: "bytes option"

record USBDescIface =
  bInterfaceNumber :: u8
  bAlternateSetting :: u8
  bNumEndpoints :: u8
  bInterfaceClass :: u8
  bInterfaceSubClass :: u8
  bInterfaceProtocol :: u8
  iInterface :: u8
  ndesc :: u8
  descs :: "USBDescOther list"
  eps :: "USBDescEndpoint list"

record USBDescConfig =
  bNumInterfaces :: u8
  bConfigurationValue :: u8
  iConfiguration :: u8
  conf_bmAttributes :: u8
  bMaxPower :: u8
  nif :: u8
  ifs :: "USBDescIface list"

record USBDescDevice =
  bcdUSB :: u16
  bDeviceClass :: u8
  bDeviceSubClass :: u8
  bDeviceProtocol :: u8
  bMaxPacketSize0 :: u8
  bNumConfigurations :: u8
  confs :: "USBDescConfig list"

record USBDescID =
  idVendor :: u16
  idProduct :: u16
  bcdDevice :: u16
  iManufacturer :: u8
  iProduct :: u8
  iSerialNumber :: u8

record USBDesc =
  desc_id :: USBDescID
  full :: "USBDescDevice option"

section \<open>Devices and packets\<close>

record USBEndpoint =
  Num :: u8
  ep_pid :: u8
  ep_Type :: u8
  IfNum :: u8
  MaxPacketSize :: nat
  Pipeline :: bool
  Halted :: bool
  Queue :: "u32 list"

datatype ep_ref = Ctl | In_ep nat | Out_ep nat

datatype USBPacketState = USB_PACKET_UNDEFINED | USB_PACKET_SETUP | USB_PACKET_QUEUED | USB_PACKET_ASYNC
  | USB_PACKET_COMPLETE | USB_PACKET_CANCELED

text \<open>A queue holds the \<open>Id\<close> of its packets; it does not change while a packet is in a queue.\<close>

record USBPacket =
  Pid :: u32
  Id :: u32
  Endpoint :: "ep_ref option"
  packet_Stream :: u32
  IoVec :: IOVector
  m_UsbBuffer :: bytes
  Parameter :: u64
  ShortNotOK :: bool
  IntReq :: bool
  Status :: int
  ActualLength :: u32
  packet_State :: USBPacketState

datatype setup_state = SETUP_STATE_IDLE | SETUP_STATE_SETUP | SETUP_STATE_DATA | SETUP_STATE_ACK | SETUP_STATE_PARAM

datatype usb_state = USB_STATE_NOTATTACHED | USB_STATE_ATTACHED | USB_STATE_DEFAULT

record USBPort =
  Path :: string
  port_SpeedMask :: u32
  PortIndex :: nat

record 'k XboxDeviceState =
  Port :: "USBPort option"
  Speed :: u32
  SpeedMask :: u32
  Addr :: u8
  Attached :: nat
  dev_State :: usb_state
  SetupBuffer :: bytes
  DataBuffer :: bytes
  RemoteWakeup :: bool
  SetupState :: setup_state
  SetupLength :: u32
  SetupIndex :: u32
  EP_ctl :: USBEndpoint
  EP_in :: "USBEndpoint list"
  EP_out :: "USBEndpoint list"
  Strings :: "(u8 \<times> bytes) list"
  Device :: "USBDescDevice option"
  Configuration :: u32
  NumInterfaces :: nat
  AltSetting :: "u32 list"
  Config :: "USBDescConfig option"
  Ifaces :: "USBDescIface option list"
  klass_state :: 'k

text \<open>What a class does to its device and the world, and what it does with a packet.\<close>

type_synonym ('k, 'w) dev_op = "'k XboxDeviceState \<times> 'w \<Rightarrow> fault + 'k XboxDeviceState \<times> 'w"
type_synonym ('k, 'w) packet_op =
  "USBPacket \<times> 'k XboxDeviceState \<times> 'w \<Rightarrow> fault + USBPacket \<times> 'k XboxDeviceState \<times> 'w"

record ('k, 'w) USBDeviceClass =
  cancel_packet :: "('k, 'w) packet_op option"
  handle_attach :: "('k, 'w) dev_op option"
  handle_reset :: "('k, 'w) dev_op option"
  handle_control :: "(u32 \<Rightarrow> u32 \<Rightarrow> u32 \<Rightarrow> u32 \<Rightarrow> ('k, 'w) packet_op) option"
  handle_data :: "('k, 'w) packet_op option"
  set_interface :: "(nat \<Rightarrow> u32 \<Rightarrow> u32 \<Rightarrow> ('k, 'w) dev_op) option"
  flush_ep_queue :: "(ep_ref \<Rightarrow> ('k, 'w) dev_op) option"
  ep_stopped :: "(ep_ref \<Rightarrow> ('k, 'w) dev_op) option"
  usb_desc :: "USBDesc option"

definition USB_DeviceCancelPacket :: "('k, 'w) USBDeviceClass \<Rightarrow> ('k, 'w) packet_op" where
  "USB_DeviceCancelPacket klass t = (case cancel_packet klass of Some f \<Rightarrow> f t | None \<Rightarrow> Inr t)"

definition USB_DeviceHandleAttach :: "('k, 'w) USBDeviceClass \<Rightarrow> ('k, 'w) dev_op" where
  "USB_DeviceHandleAttach klass t = (case handle_attach klass of Some f \<Rightarrow> f t | None \<Rightarrow> Inr t)"

definition USB_DeviceHandleReset :: "('k, 'w) USBDeviceClass \<Rightarrow> ('k, 'w) dev_op" where
  "USB_DeviceHandleReset klass t = (case handle_reset klass of Some f \<Rightarrow> f t | None \<Rightarrow> Inr t)"

definition USB_DeviceHandleControl ::
  "('k, 'w) USBDeviceClass \<Rightarrow> u32 \<Rightarrow> u32 \<Rightarrow> u32 \<Rightarrow> u32 \<Rightarrow> ('k, 'w) packet_op" where
  "USB_DeviceHandleControl klass request val index n t =
     (case handle_control klass of Some f \<Rightarrow> f request val index n t | None \<Rightarrow> Inr t)"

definition USB_DeviceHandleData :: "('k, 'w) USBDeviceClass \<Rightarrow> ('k, 'w) packet_op" where
  "USB_DeviceHandleData klass t = (case handle_data klass of Some f \<Rightarrow> f t | None \<Rightarrow> Inr t)"

definition USB_DeviceSetInterface :: "('k, 'w) USBDeviceClass \<Rightarrow> nat \<Rightarrow> u32 \<Rightarrow> u32 \<Rightarrow> ('k, 'w) dev_op" where
  "USB_DeviceSetInterface klass iface alt_old alt_new t =
     (case set_interface klass of Some f \<Rightarrow> f iface alt_old alt_new t | None \<Rightarrow> Inr t)"

definition USB_DeviceFlushEPqueue :: "('k, 'w) USBDeviceClass \<Rightarrow> ep_ref \<Rightarrow> ('k, 'w) dev_op" where
  "USB_DeviceFlushEPqueue klass ep t = (case flush_ep_queue klass of Some f \<Rightarrow> f ep t | None \<Rightarrow> Inr t)"

definition USB_DeviceEPstopped :: "('k, 'w) USBDeviceClass \<Rightarrow> ep_ref \<Rightarrow> ('k, 'w) dev_op" where
  "USB_DeviceEPstopped klass ep t = (case ep_stopped klass of Some f \<Rightarrow> f ep t | None \<Rightarrow> Inr t)"

section \<open>Endpoints\<close>

definition get_EP :: "'k XboxDeviceState \<Rightarrow> ep_ref \<Rightarrow> fault + USBEndpoint" where
  "get_EP dev r = (case r of Ctl \<Rightarrow> Inr (EP_ctl dev) | In_ep i \<Rightarrow> aget (EP_in dev) i | Out_ep i \<Rightarrow> aget (EP_out dev) i)"

definition upd_EP :: "ep_ref \<Rightarrow> (USBEndpoint \<Rightarrow> USBEndpoint) \<Rightarrow> 'k XboxDeviceState \<Rightarrow> fault + 'k XboxDeviceState" where
  "upd_EP r f dev =
     (case r of
        Ctl \<Rightarrow> Inr (dev\<lparr>EP_ctl := f (EP_ctl dev)\<rparr>)
      | In_ep i \<Rightarrow> if i < length (EP_in dev) then Inr (dev\<lparr>EP_in := (EP_in dev)[i := f (EP_in dev ! i)]\<rparr>) else Inl OutOfBounds
      | Out_ep i \<Rightarrow> if i < length (EP_out dev) then Inr (dev\<lparr>EP_out := (EP_out dev)[i := f (EP_out dev ! i)]\<rparr>) else Inl OutOfBounds)"

definition USB_GetEP :: "u32 \<Rightarrow> nat \<Rightarrow> fault + ep_ref" where
  "USB_GetEP pid ep =
     (if ep = 0 then Inr Ctl
      else if \<not> (pid = USB_TOKEN_IN \<or> pid = USB_TOKEN_OUT) then Inl AssertFailed
      else if \<not> ep \<le> USB_MAX_ENDPOINTS then Inl AssertFailed
      else Inr (if pid = USB_TOKEN_IN then In_ep (ep - 1) else Out_ep (ep - 1)))"

definition USB_EPsetType :: "u32 \<Rightarrow> nat \<Rightarrow> u8 \<Rightarrow> 'k XboxDeviceState \<Rightarrow> fault + 'k XboxDeviceState" where
  "USB_EPsetType pid ep t dev = bindr (USB_GetEP pid ep) (\<lambda>r. upd_EP r (\<lambda>e. e\<lparr>ep_Type := t\<rparr>) dev)"

definition USB_EPsetIfnum :: "u32 \<Rightarrow> nat \<Rightarrow> u8 \<Rightarrow> 'k XboxDeviceState \<Rightarrow> fault + 'k XboxDeviceState" where
  "USB_EPsetIfnum pid ep n dev = bindr (USB_GetEP pid ep) (\<lambda>r. upd_EP r (\<lambda>e. e\<lparr>IfNum := n\<rparr>) dev)"

definition USB_EPsetMaxPacketSize :: "u32 \<Rightarrow> nat \<Rightarrow> u16 \<Rightarrow> 'k XboxDeviceState \<Rightarrow> fault + 'k XboxDeviceState" where
  "USB_EPsetMaxPacketSize pid ep raw dev =
     bindr (USB_GetEP pid ep) (\<lambda>r. upd_EP r (\<lambda>e. e\<lparr>MaxPacketSize := unat (raw AND 0x7FF)\<rparr>) dev)"

definition reset_ep :: "u32 \<Rightarrow> nat \<Rightarrow> USBEndpoint \<Rightarrow> USBEndpoint" where
  "reset_ep pid i e = e\<lparr>Num := of_nat (i + 1), ep_pid := ucast pid, ep_Type := USB_ENDPOINT_XFER_INVALID,
     IfNum := USB_INTERFACE_INVALID, MaxPacketSize := 0, Pipeline := False\<rparr>"

definition USB_EpReset :: "'k XboxDeviceState \<Rightarrow> 'k XboxDeviceState" where
  "USB_EpReset dev = dev\<lparr>
     EP_ctl := (EP_ctl dev)\<lparr>Num := 0, ep_Type := USB_ENDPOINT_XFER_CONTROL, IfNum := 0, MaxPacketSize := 64, Pipeline := False\<rparr>,
     EP_in := map (\<lambda>(i, e). reset_ep USB_TOKEN_IN i e) (List.enumerate 0 (EP_in dev)),
     EP_out := map (\<lambda>(i, e). reset_ep USB_TOKEN_OUT i e) (List.enumerate 0 (EP_out dev))\<rparr>"

definition USB_EpInit :: "'k XboxDeviceState \<Rightarrow> 'k XboxDeviceState" where
  "USB_EpInit dev =
     (let dev = USB_EpReset dev in dev\<lparr>
        EP_ctl := (EP_ctl dev)\<lparr>Queue := []\<rparr>,
        EP_in := map (\<lambda>e. e\<lparr>Queue := []\<rparr>) (EP_in dev),
        EP_out := map (\<lambda>e. e\<lparr>Queue := []\<rparr>) (EP_out dev)\<rparr>)"

section \<open>Packets\<close>

definition USB_IsPacketInflight :: "USBPacket \<Rightarrow> bool" where
  "USB_IsPacketInflight p \<longleftrightarrow> packet_State p = USB_PACKET_QUEUED \<or> packet_State p = USB_PACKET_ASYNC"

definition USB_PacketSetup ::
  "u32 \<Rightarrow> ep_ref option \<Rightarrow> u32 \<Rightarrow> u64 \<Rightarrow> bool \<Rightarrow> bool \<Rightarrow> USBPacket \<Rightarrow> fault + USBPacket" where
  "USB_PacketSetup pid ep strm ident short_not_ok int_req p =
     (if USB_IsPacketInflight p then Inl AssertFailed
      else Inr (p\<lparr>Id := ucast ident, Pid := pid, Endpoint := ep, packet_Stream := strm, Status := USB_RET_SUCCESS,
        ActualLength := 0, Parameter := 0, ShortNotOK := short_not_ok, IntReq := int_req,
        IoVec := IoVecReset (IoVec p), packet_State := USB_PACKET_SETUP\<rparr>))"

definition USB_PacketAddBuffer :: "nat \<Rightarrow> nat \<Rightarrow> USBPacket \<Rightarrow> USBPacket" where
  "USB_PacketAddBuffer ptr n p = p\<lparr>IoVec := IoVecAdd ptr n (IoVec p)\<rparr>"

text \<open>The pointer is a place \<open>off\<close> in an object, which is returned.\<close>

definition USB_PacketCopy :: "bytes \<Rightarrow> nat \<Rightarrow> nat \<Rightarrow> USBPacket \<Rightarrow> fault + bytes \<times> USBPacket" where
  "USB_PacketCopy obj off n p =
     (if \<not> unat (ActualLength p) + n \<le> Size (IoVec p) then Inl AssertFailed
      else
        let p' = p\<lparr>ActualLength := ActualLength p + of_nat n\<rparr>; iov = IoVecStruct (IoVec p); at = unat (ActualLength p) in
        if Pid p = USB_TOKEN_SETUP \<or> Pid p = USB_TOKEN_OUT
        then bindr (IoVecTobuffer (m_UsbBuffer p) iov at n) (\<lambda>bs.
             bindr (memcpy obj off bs (length bs)) (\<lambda>obj. Inr (obj, p')))
        else if Pid p = USB_TOKEN_IN
        then bindr (IoVecFromBuffer iov at (drop off obj) n (m_UsbBuffer p)) (\<lambda>(_, mem).
             Inr (obj, p'\<lparr>m_UsbBuffer := mem\<rparr>))
        else Inr (obj, p'))"

definition setup_request :: "'k XboxDeviceState \<Rightarrow> u32" where
  "setup_request s = push_bit 8 (ucast (SetupBuffer s ! 0)) OR ucast (SetupBuffer s ! 1)"

definition setup_word :: "nat \<Rightarrow> 'k XboxDeviceState \<Rightarrow> u32" where
  "setup_word i s = push_bit 8 (ucast (SetupBuffer s ! (i + 1))) OR ucast (SetupBuffer s ! i)"

abbreviation setup_value :: "'k XboxDeviceState \<Rightarrow> u32" where "setup_value \<equiv> setup_word 2"
abbreviation setup_index :: "'k XboxDeviceState \<Rightarrow> u32" where "setup_index \<equiv> setup_word 4"

definition DATA_BUFFER_SIZE :: nat where
  "DATA_BUFFER_SIZE = 4096"

definition control_in_buffer :: "('k, 'w) USBDeviceClass \<Rightarrow> u32 \<Rightarrow> ('k, 'w) packet_op" where
  "control_in_buffer klass n = (\<lambda>(p, s, w).
     USB_DeviceHandleControl klass (setup_request s) (setup_value s) (setup_index s) n (p, s, w))"

section \<open>Control transfers\<close>

definition USB_DoParameter :: "('k, 'w) USBDeviceClass \<Rightarrow> ('k, 'w) packet_op" where
  "USB_DoParameter klass = (\<lambda>(p, s, w).
     let s = s\<lparr>SetupBuffer := map (\<lambda>i. ucast (drop_bit (i * 8) (Parameter p))) [0..<8]\<rparr>;
         s = s\<lparr>SetupState := SETUP_STATE_PARAM, SetupLength := setup_word 6 s, SetupIndex := 0\<rparr>
     in if unat (SetupLength s) > DATA_BUFFER_SIZE then Inr (p\<lparr>Status := USB_RET_STALL\<rparr>, s, w)
        else bindr (if Pid p = USB_TOKEN_OUT
                    then bindr (USB_PacketCopy (DataBuffer s) 0 (unat (SetupLength s)) p) (\<lambda>(b, p). Inr (p, s\<lparr>DataBuffer := b\<rparr>))
                    else Inr (p, s)) (\<lambda>(p, s).
          bindr (control_in_buffer klass (SetupLength s) (p, s, w)) (\<lambda>(p, s, w).
          if Status p = USB_RET_ASYNC then Inr (p, s, w)
          else
            let s = (if ActualLength p < SetupLength s then s\<lparr>SetupLength := ActualLength p\<rparr> else s) in
            if Pid p = USB_TOKEN_IN
            then bindr (USB_PacketCopy (DataBuffer s) 0 (unat (SetupLength s)) (p\<lparr>ActualLength := 0\<rparr>)) (\<lambda>(b, p).
                   Inr (p, s\<lparr>DataBuffer := b\<rparr>, w))
            else Inr (p, s, w))))"

definition USB_DoTokenSetup :: "('k, 'w) USBDeviceClass \<Rightarrow> ('k, 'w) packet_op" where
  "USB_DoTokenSetup klass = (\<lambda>(p, s, w).
     if Size (IoVec p) \<noteq> 8 then Inr (p\<lparr>Status := USB_RET_STALL\<rparr>, s, w)
     else bindr (USB_PacketCopy (SetupBuffer s) 0 8 p) (\<lambda>(b, p).
       let p = p\<lparr>ActualLength := 0\<rparr>;
           s = s\<lparr>SetupBuffer := b\<rparr>;
           s = s\<lparr>SetupLength := setup_word 6 s, SetupIndex := 0\<rparr>
       in if tst (SetupBuffer s ! 0) USB_DIR_IN
          then bindr (control_in_buffer klass (SetupLength s) (p, s, w)) (\<lambda>(p, s, w).
            let s = (if Status p = USB_RET_ASYNC then s\<lparr>SetupState := SETUP_STATE_SETUP\<rparr> else s) in
            if Status p \<noteq> USB_RET_SUCCESS then Inr (p, s, w)
            else
              let s = (if ActualLength p < SetupLength s then s\<lparr>SetupLength := ActualLength p\<rparr> else s) in
              Inr (p\<lparr>ActualLength := 8\<rparr>, s\<lparr>SetupState := SETUP_STATE_DATA\<rparr>, w))
          else if unat (SetupLength s) > DATA_BUFFER_SIZE then Inr (p\<lparr>Status := USB_RET_STALL\<rparr>, s, w)
          else Inr (p\<lparr>ActualLength := 8\<rparr>,
                    s\<lparr>SetupState := (if SetupLength s = 0 then SETUP_STATE_ACK else SETUP_STATE_DATA)\<rparr>, w)))"

text \<open>The data stage, which both directions share.\<close>

definition data_stage :: "('k, 'w) packet_op" where
  "data_stage = (\<lambda>(p, s, w).
     let left = SetupLength s - SetupIndex s;
         n = (if unat left > Size (IoVec p) then of_nat (Size (IoVec p)) else left)
     in bindr (USB_PacketCopy (DataBuffer s) (unat (SetupIndex s)) (unat n) p) (\<lambda>(b, p).
       let s = s\<lparr>DataBuffer := b, SetupIndex := SetupIndex s + n\<rparr> in
       Inr (p, if SetupIndex s \<ge> SetupLength s then s\<lparr>SetupState := SETUP_STATE_ACK\<rparr> else s, w)))"

definition DoTokenIn :: "('k, 'w) USBDeviceClass \<Rightarrow> ('k, 'w) packet_op" where
  "DoTokenIn klass = (\<lambda>(p, s, w).
     case SetupState s of
       SETUP_STATE_ACK \<Rightarrow>
         if \<not> tst (SetupBuffer s ! 0) USB_DIR_IN
         then bindr (control_in_buffer klass (SetupLength s) (p, s, w)) (\<lambda>(p, s, w).
           if Status p = USB_RET_ASYNC then Inr (p, s, w)
           else Inr (p\<lparr>ActualLength := 0\<rparr>, s\<lparr>SetupState := SETUP_STATE_IDLE\<rparr>, w))
         else Inr (p, s, w)
     | SETUP_STATE_DATA \<Rightarrow>
         if tst (SetupBuffer s ! 0) USB_DIR_IN then data_stage (p, s, w)
         else Inr (p\<lparr>Status := USB_RET_STALL\<rparr>, s\<lparr>SetupState := SETUP_STATE_IDLE\<rparr>, w)
     | _ \<Rightarrow> Inr (p\<lparr>Status := USB_RET_STALL\<rparr>, s, w))"

definition DoTokenOut :: "('k, 'w) packet_op" where
  "DoTokenOut = (\<lambda>(p, s, w).
     case SetupState s of
       SETUP_STATE_ACK \<Rightarrow>
         if tst (SetupBuffer s ! 0) USB_DIR_IN then Inr (p, s\<lparr>SetupState := SETUP_STATE_IDLE\<rparr>, w) else Inr (p, s, w)
     | SETUP_STATE_DATA \<Rightarrow>
         if \<not> tst (SetupBuffer s ! 0) USB_DIR_IN then data_stage (p, s, w)
         else Inr (p\<lparr>Status := USB_RET_STALL\<rparr>, s\<lparr>SetupState := SETUP_STATE_IDLE\<rparr>, w)
     | _ \<Rightarrow> Inr (p\<lparr>Status := USB_RET_STALL\<rparr>, s, w))"

definition USB_ProcessOne :: "('k, 'w) USBDeviceClass \<Rightarrow> ('k, 'w) packet_op" where
  "USB_ProcessOne klass = (\<lambda>(p, s, w).
     case Endpoint p of
       None \<Rightarrow> Inl NullPointer
     | Some r \<Rightarrow> bindr (get_EP s r) (\<lambda>e.
         let p = p\<lparr>Status := USB_RET_SUCCESS\<rparr> in
         if Num e = 0 then
           if Parameter p \<noteq> 0 then USB_DoParameter klass (p, s, w)
           else if Pid p = USB_TOKEN_SETUP then USB_DoTokenSetup klass (p, s, w)
           else if Pid p = USB_TOKEN_IN then DoTokenIn klass (p, s, w)
           else if Pid p = USB_TOKEN_OUT then DoTokenOut (p, s, w)
           else Inr (p\<lparr>Status := USB_RET_STALL\<rparr>, s, w)
         else USB_DeviceHandleData klass (p, s, w)))"

definition USB_QueueOne :: "('k, 'w) packet_op" where
  "USB_QueueOne = (\<lambda>(p, s, w).
     case Endpoint p of
       None \<Rightarrow> Inl NullPointer
     | Some r \<Rightarrow> bindr (upd_EP r (\<lambda>e. e\<lparr>Queue := Queue e @ [Id p]\<rparr>) s) (\<lambda>s.
         Inr (p\<lparr>packet_State := USB_PACKET_QUEUED, Status := USB_RET_ASYNC\<rparr>, s, w)))"

text \<open>The endpoint of the packet was looked up in the device, so that the first assertion of the code holds.\<close>

definition USB_HandlePacket :: "('k, 'w) USBDeviceClass \<Rightarrow> ('k, 'w) packet_op" where
  "USB_HandlePacket klass = (\<lambda>(p, s, w).
     case Endpoint p of
       None \<Rightarrow> Inl NullPointer
     | Some r \<Rightarrow>
       if dev_State s \<noteq> USB_STATE_DEFAULT \<or> packet_State p \<noteq> USB_PACKET_SETUP then Inl AssertFailed
       else bindr (get_EP s r) (\<lambda>e.
         if Halted e \<and> Queue e \<noteq> [] then Inl AssertFailed
         else bindr (upd_EP r (\<lambda>e. e\<lparr>Halted := False\<rparr>) s) (\<lambda>s.
           if Queue e = [] \<or> Pipeline e \<or> packet_Stream p \<noteq> 0
           then bindr (USB_ProcessOne klass (p, s, w)) (\<lambda>(p, s, w).
             bindr (get_EP s r) (\<lambda>e.
             if Status p = USB_RET_ASYNC then
               if ep_Type e = USB_ENDPOINT_XFER_ISOC \<or> ep_Type e = USB_ENDPOINT_XFER_INT then Inl AssertFailed
               else bindr (upd_EP r (\<lambda>e. e\<lparr>Queue := Queue e @ [Id p]\<rparr>) s) (\<lambda>s.
                      Inr (p\<lparr>packet_State := USB_PACKET_ASYNC\<rparr>, s, w))
             else if Status p = USB_RET_ADD_TO_QUEUE then USB_QueueOne (p, s, w)
             else if \<not> (packet_Stream p \<noteq> 0 \<or> \<not> Pipeline e \<or> Queue e = []) then Inl AssertFailed
             else Inr (if Status p \<noteq> USB_RET_NAK then p\<lparr>packet_State := USB_PACKET_COMPLETE\<rparr> else p, s, w)))
           else USB_QueueOne (p, s, w))))"

definition USB_CancelPacket :: "('k, 'w) USBDeviceClass \<Rightarrow> ('k, 'w) packet_op" where
  "USB_CancelPacket klass = (\<lambda>(p, s, w).
     if \<not> USB_IsPacketInflight p then Inl AssertFailed
     else case Endpoint p of
       None \<Rightarrow> Inl NullPointer
     | Some r \<Rightarrow> bindr (upd_EP r (\<lambda>e. e\<lparr>Queue := remove1 (Id p) (Queue e)\<rparr>) s) (\<lambda>s.
         let callback = packet_State p = USB_PACKET_ASYNC; p = p\<lparr>packet_State := USB_PACKET_CANCELED\<rparr> in
         if callback then USB_DeviceCancelPacket klass (p, s, w) else Inr (p, s, w)))"

end
