(* ===== verification/UsbDesc.thy ===== *)
theory UsbDesc
  imports Usb "HOL-Library.AList"
begin

text \<open>
  The descriptors of USB devices and the standard requests for them, the second half of
  \<open>core/openxbox/hw/pci/usb_pci.cpp\<close>. A function that writes a descriptor into a buffer and returns its
  length gives the bytes it writes at the start of the buffer, or nothing for -1.
\<close>

section \<open>Reading descriptors\<close>

abbreviation lo8 :: "u16 \<Rightarrow> u8" where "lo8 v \<equiv> ucast v"
abbreviation hi8 :: "u16 \<Rightarrow> u8" where "hi8 v \<equiv> ucast (drop_bit 8 v)"

definition USB_ReadDeviceDesc :: "USBDescID \<Rightarrow> USBDescDevice \<Rightarrow> nat \<Rightarrow> bytes option" where
  "USB_ReadDeviceDesc i dev n =
     (if n < 0x12 then None
      else Some [0x12, USB_DT_DEVICE, lo8 (bcdUSB dev), hi8 (bcdUSB dev), bDeviceClass dev, bDeviceSubClass dev,
        bDeviceProtocol dev, bMaxPacketSize0 dev, lo8 (idVendor i), hi8 (idVendor i), lo8 (idProduct i), hi8 (idProduct i),
        lo8 (bcdDevice i), hi8 (bcdDevice i), iManufacturer i, iProduct i, iSerialNumber i, bNumConfigurations dev])"

definition USB_ReadOtherDesc :: "USBDescOther \<Rightarrow> nat \<Rightarrow> fault + bytes option" where
  "USB_ReadOtherDesc d n =
     bindr (if other_length d \<noteq> 0 then Inr (unat (other_length d)) else bindr (aget (other_data d) 0) (\<lambda>c. Inr (unat c))) (\<lambda>bLength.
       if n < bLength then Inr None
       else if length (other_data d) < bLength then Inl OutOfBounds
       else Inr (Some (take bLength (other_data d))))"

definition USB_ReadEndpointDesc :: "USBDescEndpoint \<Rightarrow> nat \<Rightarrow> fault + bytes option" where
  "USB_ReadEndpointDesc ep n =
     bindr (case extra ep of None \<Rightarrow> Inr 0 | Some e \<Rightarrow> bindr (aget e 0) (\<lambda>c. Inr (unat c))) (\<lambda>extralen.
       let bLength = (if is_audio ep then 9 else 7) in
       if n < bLength + extralen then Inr None
       else if (case extra ep of None \<Rightarrow> False | Some e \<Rightarrow> length e < extralen) then Inl OutOfBounds
       else Inr (Some ([of_nat bLength, USB_DT_ENDPOINT, bEndpointAddress ep, ep_bmAttributes ep,
           lo8 (wMaxPacketSize ep), hi8 (wMaxPacketSize ep), bInterval ep]
         @ (if is_audio ep then [bRefresh ep, bSynchAddress ep] else [])
         @ (case extra ep of None \<Rightarrow> [] | Some e \<Rightarrow> take extralen e))))"

text \<open>A loop that appends the descriptors of the items \<open>i\<close>, ..., \<open>n - 1\<close> of an array.\<close>

fun append_descs :: "('a \<Rightarrow> nat \<Rightarrow> fault + bytes option) \<Rightarrow> 'a list \<Rightarrow> nat \<Rightarrow> nat \<Rightarrow> bytes \<Rightarrow> fault + bytes option" where
  "append_descs read xs 0 len dest = Inr (Some dest)"
| "append_descs read [] (Suc n) len dest = Inl OutOfBounds"
| "append_descs read (x # xs) (Suc n) len dest =
     bindr (read x (len - length dest)) (\<lambda>r.
       case r of None \<Rightarrow> Inr None | Some d \<Rightarrow> append_descs read xs n len (dest @ d))"

definition USB_ReadInterfaceDesc :: "USBDescIface \<Rightarrow> nat \<Rightarrow> fault + bytes option" where
  "USB_ReadInterfaceDesc iface n =
     (if n < 9 then Inr None
      else
        let dest = [9, USB_DT_INTERFACE, bInterfaceNumber iface, bAlternateSetting iface, bNumEndpoints iface,
              bInterfaceClass iface, bInterfaceSubClass iface, bInterfaceProtocol iface, iInterface iface] in
        bindr (append_descs USB_ReadOtherDesc (descs iface) (unat (ndesc iface)) n dest) (\<lambda>r.
          case r of None \<Rightarrow> Inr None
          | Some dest \<Rightarrow> append_descs USB_ReadEndpointDesc (eps iface) (unat (bNumEndpoints iface)) n dest))"

text \<open>\<open>wTotalLength\<close> is stored last; it has 16 bits.\<close>

definition USB_ReadConfigurationDesc :: "USBDescConfig \<Rightarrow> nat \<Rightarrow> fault + bytes option" where
  "USB_ReadConfigurationDesc conf n =
     (if n < 9 then Inr None
      else
        let dest = [9, USB_DT_CONFIG, 0, 0, bNumInterfaces conf, bConfigurationValue conf, iConfiguration conf,
              conf_bmAttributes conf, bMaxPower conf] in
        bindr (append_descs USB_ReadInterfaceDesc (ifs conf) (unat (nif conf)) n dest) (\<lambda>r.
          case r of None \<Rightarrow> Inr None
          | Some dest \<Rightarrow> Inr (Some (wr16 dest 2 (of_nat (length dest))))))"

definition USBDesc_GetString :: "u8 \<Rightarrow> 'k XboxDeviceState \<Rightarrow> bytes option" where
  "USBDesc_GetString index dev = map_of (Strings dev) index"

definition USBDesc_SetString :: "u8 \<Rightarrow> bytes \<Rightarrow> 'k XboxDeviceState \<Rightarrow> 'k XboxDeviceState" where
  "USBDesc_SetString index str dev =
     (if map_of (Strings dev) index = None then dev\<lparr>Strings := (index, str) # Strings dev\<rparr>
      else dev\<lparr>Strings := AList.update index str (Strings dev)\<rparr>)"

text \<open>The loop stops at the length of the string or of the buffer, after whole characters.\<close>

definition wide :: "bytes \<Rightarrow> bytes" where
  "wide str = concat (map (\<lambda>c. [c, 0]) str)"

definition USB_ReadStringDesc :: "'k XboxDeviceState \<Rightarrow> u8 \<Rightarrow> nat \<Rightarrow> bytes option" where
  "USB_ReadStringDesc dev index n =
     (if n < 4 then None
      else if index = 0 then Some [4, USB_DT_STRING, 0x09, 0x04]
      else case USBDesc_GetString index dev of
        None \<Rightarrow> Some []
      | Some str \<Rightarrow> Some ([of_nat (length str * 2 + 2), USB_DT_STRING] @ wide (take ((n - 2) div 2) str)))"

section \<open>Configurations and interfaces\<close>

text \<open>No device sets \<open>UsbDesc\<close>, so that the descriptor is that of the class.\<close>

definition USBDesc_FindInterface :: "'k XboxDeviceState \<Rightarrow> u32 \<Rightarrow> u32 \<Rightarrow> fault + USBDescIface option" where
  "USBDesc_FindInterface dev i alt =
     (case Config dev of
        None \<Rightarrow> Inr None
      | Some c \<Rightarrow>
          if length (ifs c) < unat (nif c) then Inl OutOfBounds
          else Inr (find (\<lambda>f. ucast (bInterfaceNumber f) = i \<and> ucast (bAlternateSetting f) = alt) (take (unat (nif c)) (ifs c))))"

definition init_endpoint :: "USBDescIface \<Rightarrow> USBDescEndpoint \<Rightarrow> 'k XboxDeviceState \<Rightarrow> fault + 'k XboxDeviceState" where
  "init_endpoint iface e dev =
     (let pid = (if tst (bEndpointAddress e) USB_DIR_IN then USB_TOKEN_IN else USB_TOKEN_OUT);
          ep = unat (bEndpointAddress e AND 0xF)
      in bindr (USB_EPsetType pid ep (ep_bmAttributes e AND 3) dev) (\<lambda>dev.
         bindr (USB_EPsetIfnum pid ep (bInterfaceNumber iface) dev)
           (USB_EPsetMaxPacketSize pid ep (wMaxPacketSize e))))"

definition init_iface :: "USBDescIface option \<Rightarrow> 'k XboxDeviceState \<Rightarrow> fault + 'k XboxDeviceState" where
  "init_iface iface dev =
     (case iface of
        None \<Rightarrow> Inr dev
      | Some f \<Rightarrow>
          if length (eps f) < unat (bNumEndpoints f) then Inl OutOfBounds
          else for_each (init_endpoint f) (take (unat (bNumEndpoints f)) (eps f)) dev)"

definition USBDesc_EpInit :: "'k XboxDeviceState \<Rightarrow> fault + 'k XboxDeviceState" where
  "USBDesc_EpInit dev =
     (if length (Ifaces dev) < NumInterfaces dev then Inl OutOfBounds
      else for_each init_iface (take (NumInterfaces dev) (Ifaces dev)) (USB_EpInit dev))"

text \<open>The first part of the result is false for -1.\<close>

definition USBDesc_SetInterface ::
  "('k, 'w) USBDeviceClass \<Rightarrow> nat \<Rightarrow> u32 \<Rightarrow> 'k XboxDeviceState \<times> 'w \<Rightarrow> fault + bool \<times> 'k XboxDeviceState \<times> 'w" where
  "USBDesc_SetInterface klass index val = (\<lambda>(dev, w).
     bindr (USBDesc_FindInterface dev (of_nat index) val) (\<lambda>iface.
     case iface of
       None \<Rightarrow> Inr (False, dev, w)
     | Some f \<Rightarrow>
         bindr (aget (AltSetting dev) index) (\<lambda>old.
         bindr (aset (AltSetting dev) index val) (\<lambda>alts.
         bindr (aset (Ifaces dev) index (Some f)) (\<lambda>fs.
         bindr (USBDesc_EpInit (dev\<lparr>AltSetting := alts, Ifaces := fs\<rparr>)) (\<lambda>dev.
         bindr (if old \<noteq> val then USB_DeviceSetInterface klass index old val (dev, w) else Inr (dev, w)) (\<lambda>(dev, w).
         Inr (True, dev, w))))))))"

text \<open>The loop over the configurations goes on after a match, so that the test for a missing one never holds.\<close>

definition pick_config :: "u32 \<Rightarrow> USBDescConfig \<Rightarrow> 'k XboxDeviceState \<Rightarrow> fault + 'k XboxDeviceState" where
  "pick_config val c dev =
     (if ucast (bConfigurationValue c) = val
      then if unat (bNumInterfaces c) \<le> USB_MAX_INTERFACES
           then Inr (dev\<lparr>Configuration := val, NumInterfaces := unat (bNumInterfaces c), Config := Some c\<rparr>)
           else Inl AssertFailed
      else Inr dev)"

definition USBDesc_SetConfig ::
  "('k, 'w) USBDeviceClass \<Rightarrow> u32 \<Rightarrow> 'k XboxDeviceState \<times> 'w \<Rightarrow> fault + bool \<times> 'k XboxDeviceState \<times> 'w" where
  "USBDesc_SetConfig klass val = (\<lambda>(dev, w).
     bindr (if val = 0 then Inr (dev\<lparr>Configuration := 0, NumInterfaces := 0, Config := None\<rparr>)
            else case Device dev of
              None \<Rightarrow> Inl NullPointer
            | Some d \<Rightarrow>
                if length (confs d) < unat (bNumConfigurations d) then Inl OutOfBounds
                else for_each (pick_config val) (take (unat (bNumConfigurations d)) (confs d)) dev) (\<lambda>dev.
     bindr (for_each (\<lambda>i t. bindr (USBDesc_SetInterface klass i 0 t) (\<lambda>(_, t). Inr t)) [0..<NumInterfaces dev] (dev, w)) (\<lambda>(dev, w).
     let n = NumInterfaces dev in
     Inr (True, dev\<lparr>AltSetting := take n (AltSetting dev) @ replicate (USB_MAX_INTERFACES - n) 0,
         Ifaces := take n (Ifaces dev) @ replicate (USB_MAX_INTERFACES - n) None\<rparr>, w))))"

text \<open>For an unknown speed the device descriptor is left as it is.\<close>

definition USBDesc_SetDefaults :: "('k, 'w) USBDeviceClass \<Rightarrow> ('k, 'w) dev_op" where
  "USBDesc_SetDefaults klass = (\<lambda>(dev, w).
     case usb_desc klass of
       None \<Rightarrow> Inl AssertFailed
     | Some d \<Rightarrow>
         bindr (USBDesc_SetConfig klass 0
           (if Speed dev = USB_SPEED_LOW \<or> Speed dev = USB_SPEED_FULL then dev\<lparr>Device := full d\<rparr> else dev, w)) (\<lambda>(_, t). Inr t))"

definition USBDesc_Init :: "('k, 'w) USBDeviceClass \<Rightarrow> ('k, 'w) dev_op" where
  "USBDesc_Init klass = (\<lambda>(dev, w).
     case usb_desc klass of
       None \<Rightarrow> Inl AssertFailed
     | Some d \<Rightarrow>
         USBDesc_SetDefaults klass
           (dev\<lparr>Speed := USB_SPEED_FULL, SpeedMask := (if full d \<noteq> None then USB_SPEED_MASK_FULL else 0)\<rparr>, w))"

section \<open>Standard requests\<close>

text \<open>The results: -1, or 0 with the packet and the device.\<close>

definition read_descriptor :: "('k, 'w) USBDeviceClass \<Rightarrow> u32 \<Rightarrow> 'k XboxDeviceState \<Rightarrow> fault + bytes option" where
  "read_descriptor klass val dev =
     (let dtype = ucast (drop_bit 8 val) :: u8; index = ucast val :: u8 in
      if dtype = USB_DT_DEVICE then
        (case (usb_desc klass, Device dev) of
           (Some d, Some f) \<Rightarrow> Inr (USB_ReadDeviceDesc (desc_id d) f 256)
         | _ \<Rightarrow> Inl NullPointer)
      else if dtype = USB_DT_CONFIG then
        (case Device dev of
           None \<Rightarrow> Inl NullPointer
         | Some f \<Rightarrow>
             if index < bNumConfigurations f
             then bindr (aget (confs f) (unat index)) (\<lambda>c. USB_ReadConfigurationDesc c 256)
             else Inr None)
      else if dtype = USB_DT_STRING then Inr (USB_ReadStringDesc dev index 256)
      else Inr None)"

definition USBDesc_HandleStandardGetDescriptor ::
  "('k, 'w) USBDeviceClass \<Rightarrow> u32 \<Rightarrow> nat \<Rightarrow> USBPacket \<times> 'k XboxDeviceState \<Rightarrow> fault + bool \<times> USBPacket \<times> 'k XboxDeviceState" where
  "USBDesc_HandleStandardGetDescriptor klass val n = (\<lambda>(p, dev).
     bindr (read_descriptor klass val dev) (\<lambda>r.
       case r of
          None \<Rightarrow> Inr (False, p, dev)
        | Some [] \<Rightarrow> Inr (True, p, dev)
        | Some buf \<Rightarrow>
            let k = min (length buf) n in
            bindr (memcpy (DataBuffer dev) 0 buf k) (\<lambda>b.
              Inr (True, p\<lparr>ActualLength := of_nat k\<rparr>, dev\<lparr>DataBuffer := b\<rparr>))))"

definition put_data :: "bytes \<Rightarrow> USBPacket \<times> 'k XboxDeviceState \<Rightarrow> fault + USBPacket \<times> 'k XboxDeviceState" where
  "put_data bs = (\<lambda>(p, dev).
     bindr (memcpy (DataBuffer dev) 0 bs (length bs)) (\<lambda>b.
       Inr (p\<lparr>ActualLength := of_nat (length bs)\<rparr>, dev\<lparr>DataBuffer := b\<rparr>)))"

definition device_status :: "'k XboxDeviceState \<Rightarrow> fault + bytes" where
  "device_status dev =
     bindr (case Config dev of
         Some c \<Rightarrow> Inr c
       | None \<Rightarrow> (case Device dev of None \<Rightarrow> Inl NullPointer | Some d \<Rightarrow> aget (confs d) 0)) (\<lambda>c.
       Inr [(if tst (conf_bmAttributes c) 0x40 then 1 else 0) OR (if RemoteWakeup dev then 2 else 0), 0])"

definition USBDesc_HandleControl ::
  "('k, 'w) USBDeviceClass \<Rightarrow> u32 \<Rightarrow> u32 \<Rightarrow> u32 \<Rightarrow> u32 \<Rightarrow> USBPacket \<times> 'k XboxDeviceState \<times> 'w \<Rightarrow>
   fault + bool \<times> USBPacket \<times> 'k XboxDeviceState \<times> 'w" where
  "USBDesc_HandleControl klass request val index n = (\<lambda>(p, dev, w).
     if usb_desc klass = None then Inl AssertFailed
     else if request = DeviceOutRequest OR USB_REQ_SET_ADDRESS then Inr (True, p, dev\<lparr>Addr := ucast val\<rparr>, w)
     else if request = DeviceRequest OR USB_REQ_GET_DESCRIPTOR then
       bindr (USBDesc_HandleStandardGetDescriptor klass val (unat n) (p, dev)) (\<lambda>(ok, p, dev). Inr (ok, p, dev, w))
     else if request = DeviceRequest OR USB_REQ_GET_CONFIGURATION then
       bindr (put_data [case Config dev of Some c \<Rightarrow> bConfigurationValue c | None \<Rightarrow> 0] (p, dev)) (\<lambda>(p, dev). Inr (True, p, dev, w))
     else if request = DeviceOutRequest OR USB_REQ_SET_CONFIGURATION then
       bindr (USBDesc_SetConfig klass val (dev, w)) (\<lambda>(ok, dev, w). Inr (ok, p, dev, w))
     else if request = DeviceRequest OR USB_REQ_GET_STATUS then
       bindr (device_status dev) (\<lambda>bs. bindr (put_data bs (p, dev)) (\<lambda>(p, dev). Inr (True, p, dev, w)))
     else if request = DeviceOutRequest OR USB_REQ_CLEAR_FEATURE then
       (if val = USB_DEVICE_REMOTE_WAKEUP then Inr (True, p, dev\<lparr>RemoteWakeup := False\<rparr>, w) else Inr (False, p, dev, w))
     else if request = DeviceOutRequest OR USB_REQ_SET_FEATURE then
       (if val = USB_DEVICE_REMOTE_WAKEUP then Inr (True, p, dev\<lparr>RemoteWakeup := True\<rparr>, w) else Inr (False, p, dev, w))
     else if request = InterfaceRequest OR USB_REQ_GET_INTERFACE then
       (if unat index \<ge> NumInterfaces dev then Inr (False, p, dev, w)
        else bindr (aget (AltSetting dev) (unat index)) (\<lambda>a.
             bindr (put_data [ucast a] (p, dev)) (\<lambda>(p, dev). Inr (True, p, dev, w))))
     else if request = InterfaceOutRequest OR USB_REQ_SET_INTERFACE then
       bindr (USBDesc_SetInterface klass (unat index) val (dev, w)) (\<lambda>(ok, dev, w). Inr (ok, p, dev, w))
     else Inr (False, p, dev, w))"

end
