(* ===== verification/Xid.thy ===== *)
theory Xid
  imports UsbDesc "HOL-Library.Char_ord"
begin

text \<open>
  The gamepad, \<open>core/openxbox/hw/xid/xid_gamepad.cpp\<close>, as a device class. Its packed structures are the bytes
  of their fields, in order; their second byte is the length. Input devices are not implemented in the code:
  the report of the buttons stays as it was initialised. The device is attached to a port by its caller.
\<close>

section \<open>Names and serial numbers\<close>

definition chars :: "string \<Rightarrow> bytes" where
  "chars = map of_char"

fun to_string :: "nat \<Rightarrow> string" where
  "to_string n = (if n < 10 then [char_of (48 + n)] else to_string (n div 10) @ [char_of (48 + n mod 10)])"

declare to_string.simps [simp del]

definition USB_PortLocation :: "USBPort option \<Rightarrow> nat \<Rightarrow> USBPort \<Rightarrow> USBPort" where
  "USB_PortLocation upstream portnr port =
     port\<lparr>Path := (case upstream of Some u \<Rightarrow> Path u @ ''.'' @ to_string portnr | None \<Rightarrow> to_string portnr)\<rparr>"

definition USB_CreateSerial ::
  "string \<Rightarrow> USBDesc option \<Rightarrow> string \<Rightarrow> 'k XboxDeviceState \<Rightarrow> fault + 'k XboxDeviceState" where
  "USB_CreateSerial m_PciPath desc str dev =
     (case desc of
        None \<Rightarrow> Inl NullPointer
      | Some d \<Rightarrow>
          let index = iSerialNumber (desc_id d) in
          if index = 0 \<or> str = [] then Inl AssertFailed
          else case Port dev of
            None \<Rightarrow> Inl NullPointer
          | Some port \<Rightarrow> Inr (USBDesc_SetString index (chars (str @ ''-'' @ m_PciPath @ ''-'' @ Path port)) dev))"

text \<open>A device that has just been allocated: all zero.\<close>

definition zero_EP :: USBEndpoint where
  "zero_EP = \<lparr>Num = 0, ep_pid = 0, ep_Type = 0, IfNum = 0, MaxPacketSize = 0, Pipeline = False, Halted = False, Queue = []\<rparr>"

definition new_device :: "'k \<Rightarrow> 'k XboxDeviceState" where
  "new_device k = \<lparr>Port = None, Speed = 0, SpeedMask = 0, Addr = 0, Attached = 0, dev_State = USB_STATE_NOTATTACHED,
     SetupBuffer = replicate 8 0, DataBuffer = replicate 4096 0, RemoteWakeup = False, SetupState = SETUP_STATE_IDLE,
     SetupLength = 0, SetupIndex = 0, EP_ctl = zero_EP, EP_in = replicate USB_MAX_ENDPOINTS zero_EP,
     EP_out = replicate USB_MAX_ENDPOINTS zero_EP, Strings = [], Device = None, Configuration = 0, NumInterfaces = 0,
     AltSetting = replicate USB_MAX_INTERFACES 0, Config = None, Ifaces = replicate USB_MAX_INTERFACES None, klass_state = k\<rparr>"

section \<open>Descriptors\<close>

definition desc_endp_xbox_gamepad :: "USBDescEndpoint list" where
  "desc_endp_xbox_gamepad =
     [\<lparr>bEndpointAddress = USB_DIR_IN OR 2, ep_bmAttributes = USB_ENDPOINT_XFER_INT, wMaxPacketSize = 0x20, bInterval = 4,
       bRefresh = 0, bSynchAddress = 0, is_audio = False, extra = None\<rparr>,
      \<lparr>bEndpointAddress = 2, ep_bmAttributes = USB_ENDPOINT_XFER_INT, wMaxPacketSize = 0x20, bInterval = 4,
       bRefresh = 0, bSynchAddress = 0, is_audio = False, extra = None\<rparr>]"

definition desc_iface_xbox_gamepad :: USBDescIface where
  "desc_iface_xbox_gamepad = \<lparr>bInterfaceNumber = 0, bAlternateSetting = 0, bNumEndpoints = 2, bInterfaceClass = 0x58,
     bInterfaceSubClass = 0x42, bInterfaceProtocol = 0, iInterface = 0, ndesc = 0, descs = [], eps = desc_endp_xbox_gamepad\<rparr>"

definition desc_config_xbox_gamepad :: USBDescConfig where
  "desc_config_xbox_gamepad = \<lparr>bNumInterfaces = 1, bConfigurationValue = 1, iConfiguration = 0, conf_bmAttributes = 0x80,
     bMaxPower = 50, nif = 1, ifs = [desc_iface_xbox_gamepad]\<rparr>"

definition desc_device_xbox_gamepad :: USBDescDevice where
  "desc_device_xbox_gamepad = \<lparr>bcdUSB = 0x0110, bDeviceClass = 0, bDeviceSubClass = 0, bDeviceProtocol = 0,
     bMaxPacketSize0 = 0x40, bNumConfigurations = 1, confs = [desc_config_xbox_gamepad]\<rparr>"

definition desc_xbox_gamepad :: USBDesc where
  "desc_xbox_gamepad = \<lparr>desc_id = \<lparr>idVendor = 0x045E, idProduct = 0x0202, bcdDevice = 0x0100, iManufacturer = STR_MANUFACTURER,
     iProduct = STR_PRODUCT, iSerialNumber = STR_SERIALNUMBER\<rparr>, full = Some desc_device_xbox_gamepad\<rparr>"

definition desc_xid_xbox_gamepad :: bytes where
  "desc_xid_xbox_gamepad = [0x10, 0x42, 0x00, 0x01, 1, 1, 20, 6, 0xFF, 0xFF, 0xFF, 0xFF, 0xFF, 0xFF, 0xFF, 0xFF]"

section \<open>The class\<close>

record xid =
  in_state :: bytes
  in_state_capabilities :: bytes
  out_state :: bytes
  out_state_capabilities :: bytes

text \<open>The part of the class that the functions for descriptors use: no class has \<open>set_interface\<close>.\<close>

definition class_of :: "USBDesc \<Rightarrow> ('k, 'w) USBDeviceClass" where
  "class_of d = \<lparr>cancel_packet = None, handle_attach = None, handle_reset = None, handle_control = None, handle_data = None,
     set_interface = None, flush_ep_queue = None, ep_stopped = None, usb_desc = Some d\<rparr>"

abbreviation gamepad_base :: "(xid, 'w) USBDeviceClass" where
  "gamepad_base \<equiv> class_of desc_xbox_gamepad"

definition zero_xid :: xid where
  "zero_xid = \<lparr>in_state = replicate 20 0, in_state_capabilities = replicate 20 0, out_state = replicate 6 0,
     out_state_capabilities = replicate 6 0\<rparr>"

definition UsbXid_Initfn :: "string \<Rightarrow> (xid, 'w) dev_op" where
  "UsbXid_Initfn m_PciPath = (\<lambda>(dev, w).
     bindr (USB_CreateSerial m_PciPath (Some desc_xbox_gamepad) ''1'' dev) (\<lambda>dev.
     bindr (USBDesc_Init gamepad_base
       (USBDesc_SetString STR_PRODUCT (chars ''Microsoft Gamepad'')
         (USBDesc_SetString STR_MANUFACTURER (chars ''Cxbx-Reloaded'') dev), w)) (\<lambda>(dev, w).
     bindr (USB_GetEP USB_TOKEN_IN 2) (\<lambda>_.
     let x = klass_state dev in
     Inr (dev\<lparr>klass_state := x\<lparr>
       in_state := (in_state x)[1 := 20, 0 := 0], out_state := (out_state x)[1 := 6, 0 := 0],
       in_state_capabilities := (replicate 20 0xFF)[1 := 20, 0 := 0],
       out_state_capabilities := (replicate 6 0xFF)[1 := 6, 0 := 0]\<rparr>\<rparr>, w)))))"

definition UsbXid_Attach :: "(xid, 'w) dev_op" where
  "UsbXid_Attach = (\<lambda>(dev, w).
     case Port dev of
       None \<Rightarrow> Inl NullPointer
     | Some port \<Rightarrow>
         if tst (port_SpeedMask port) USB_SPEED_MASK_FULL
         then USBDesc_SetDefaults gamepad_base (dev\<lparr>Speed := USB_SPEED_FULL\<rparr>, w) else Inr (dev, w))"

definition UsbXid_HandleReset :: "(xid, 'w) dev_op" where
  "UsbXid_HandleReset t = Inr t"

text \<open>\<open>memcpy(data, src, n)\<close> and \<open>p->ActualLength = k\<close>.\<close>

definition reply_with :: "bytes \<Rightarrow> nat \<Rightarrow> u32 \<Rightarrow> USBPacket \<times> 'k XboxDeviceState \<times> 'w \<Rightarrow> fault + USBPacket \<times> 'k XboxDeviceState \<times> 'w" where
  "reply_with src n k = (\<lambda>(p, dev, w).
     bindr (memcpy (DataBuffer dev) 0 src n) (\<lambda>b. Inr (p\<lparr>ActualLength := k\<rparr>, dev\<lparr>DataBuffer := b\<rparr>, w)))"

definition stall :: "USBPacket \<times> 'k XboxDeviceState \<times> 'w \<Rightarrow> fault + USBPacket \<times> 'k XboxDeviceState \<times> 'w" where
  "stall = (\<lambda>(p, dev, w). Inr (p\<lparr>Status := USB_RET_STALL\<rparr>, dev, w))"

definition xid_capabilities :: "bytes \<Rightarrow> u32 \<Rightarrow> (xid, 'w) packet_op" where
  "xid_capabilities caps n =
     (let n = (if unat n > unat (caps ! 1) then ucast (caps ! 1) else n) in reply_with caps (unat n) n)"

definition zero_and_stall :: "u32 \<Rightarrow> (xid, 'w) packet_op" where
  "zero_and_stall n = (\<lambda>(p, dev, w).
     bindr (memcpy (DataBuffer dev) 0 (replicate (unat n) 0) (unat n)) (\<lambda>b. stall (p, dev\<lparr>DataBuffer := b\<rparr>, w)))"

definition UsbXid_HandleControl :: "u32 \<Rightarrow> u32 \<Rightarrow> u32 \<Rightarrow> u32 \<Rightarrow> (xid, 'w) packet_op" where
  "UsbXid_HandleControl request val index n t =
     bindr (USBDesc_HandleControl gamepad_base request val index n t) (\<lambda>(ok, p, dev, w).
       if ok then Inr (p, dev, w)
       else
         let x = klass_state dev in
         if request = ClassInterfaceRequest OR 1 then
           (if val = 0x0100 \<and> unat n \<le> unat (in_state x ! 1)
            then reply_with (in_state x) (unat (in_state x ! 1)) n (p, dev, w) else stall (p, dev, w))
         else if request = ClassInterfaceOutRequest OR 9 then
           (if val = 0x0200 then
              if unat n = unat (out_state x ! 1)
              then bindr (memcpy (out_state x) 0 (DataBuffer dev) 6) (\<lambda>st.
                     if st ! 1 \<noteq> 6 then Inl AssertFailed
                     else Inr (p\<lparr>ActualLength := n\<rparr>, dev\<lparr>klass_state := x\<lparr>out_state := st\<rparr>\<rparr>, w))
              else stall (p, dev, w)
            else Inl AssertFailed)
         else if request = VendorInterfaceRequest OR USB_REQ_GET_DESCRIPTOR then
           (if val = 0x4200
            then if unat (desc_xid_xbox_gamepad ! 0) \<le> unat n then reply_with desc_xid_xbox_gamepad 16 16 (p, dev, w) else Inl AssertFailed
            else Inl AssertFailed)
         else if request = VendorInterfaceRequest OR 1 then
           (if val = 0x0100 then xid_capabilities (in_state_capabilities x) n (p, dev, w)
            else if val = 0x0200 then xid_capabilities (out_state_capabilities x) n (p, dev, w)
            else Inl AssertFailed)
         else if request = 0xA000 OR USB_REQ_GET_DESCRIPTOR then zero_and_stall n (p, dev, w)
         else if request = EndpointOutRequest OR USB_REQ_CLEAR_FEATURE then zero_and_stall n (p, dev, w)
         else Inl AssertFailed)"

definition UsbXid_HandleData :: "(xid, 'w) packet_op" where
  "UsbXid_HandleData = (\<lambda>(p, dev, w).
     case Endpoint p of
       None \<Rightarrow> Inl NullPointer
     | Some r \<Rightarrow> bindr (get_EP dev r) (\<lambda>e.
         if Pid p = USB_TOKEN_IN then
           (if Num e = 2 then Inr (p\<lparr>Status := USB_RET_NAK\<rparr>, dev, w) else Inl AssertFailed)
         else if Pid p = USB_TOKEN_OUT then
           (if Num e = 2
            then let x = klass_state dev in
              bindr (USB_PacketCopy (out_state x) 0 (unat (out_state x ! 1)) p) (\<lambda>(st, p).
                Inr (p, dev\<lparr>klass_state := x\<lparr>out_state := st\<rparr>\<rparr>, w))
            else Inl AssertFailed)
         else Inl AssertFailed))"

definition gamepad_class :: "(xid, 'w) USBDeviceClass" where
  "gamepad_class = \<lparr>cancel_packet = None, handle_attach = Some UsbXid_Attach, handle_reset = Some UsbXid_HandleReset,
     handle_control = Some UsbXid_HandleControl, handle_data = Some UsbXid_HandleData, set_interface = None,
     flush_ep_queue = None, ep_stopped = None, usb_desc = Some desc_xbox_gamepad\<rparr>"

text \<open>What \<open>Init\<close> makes of a gamepad that has its port, before it is attached.\<close>

definition gamepad_Init :: "string \<Rightarrow> USBPort \<Rightarrow> 'w \<Rightarrow> fault + xid XboxDeviceState \<times> 'w" where
  "gamepad_Init m_PciPath port w =
     UsbXid_Initfn m_PciPath (USB_EpInit ((new_device zero_xid)\<lparr>Port := Some port\<rparr>), w)"

section \<open>Attaching a device\<close>

text \<open>What a port does when a device comes and goes is given by the functions of its controller or hub.\<close>

definition USB_Attach :: "('k, 'w) USBDeviceClass \<Rightarrow> (nat \<Rightarrow> ('k, 'w) dev_op) \<Rightarrow> ('k, 'w) dev_op" where
  "USB_Attach klass attach = (\<lambda>(dev, w).
     case Port dev of
       None \<Rightarrow> Inl NullPointer
     | Some port \<Rightarrow>
         if Attached dev = 0 \<or> dev_State dev \<noteq> USB_STATE_NOTATTACHED then Inl AssertFailed
         else bindr (attach (PortIndex port) (dev, w)) (\<lambda>(dev, w).
                USB_DeviceHandleAttach klass (dev\<lparr>dev_State := USB_STATE_ATTACHED\<rparr>, w)))"

definition USB_Detach :: "(nat \<Rightarrow> ('k, 'w) dev_op) \<Rightarrow> ('k, 'w) dev_op" where
  "USB_Detach detach = (\<lambda>(dev, w).
     case Port dev of
       None \<Rightarrow> Inl NullPointer
     | Some port \<Rightarrow>
         if dev_State dev = USB_STATE_NOTATTACHED then Inl AssertFailed
         else bindr (detach (PortIndex port) (dev, w)) (\<lambda>(dev, w). Inr (dev\<lparr>dev_State := USB_STATE_NOTATTACHED\<rparr>, w)))"

definition USB_DeviceReset :: "('k, 'w) USBDeviceClass \<Rightarrow> ('k, 'w) dev_op" where
  "USB_DeviceReset klass = (\<lambda>(dev, w).
     if Attached dev = 0 then Inr (dev, w)
     else USB_DeviceHandleReset klass (dev\<lparr>RemoteWakeup := False, Addr := 0, dev_State := USB_STATE_DEFAULT\<rparr>, w))"

definition USB_PortReset ::
  "('k, 'w) USBDeviceClass \<Rightarrow> (nat \<Rightarrow> ('k, 'w) dev_op) \<Rightarrow> (nat \<Rightarrow> ('k, 'w) dev_op) \<Rightarrow> ('k, 'w) dev_op" where
  "USB_PortReset klass attach detach t =
     bindr (USB_Detach detach t) (\<lambda>t. bindr (USB_Attach klass attach t) (USB_DeviceReset klass))"

definition USB_DeviceAttach :: "('k, 'w) USBDeviceClass \<Rightarrow> (nat \<Rightarrow> ('k, 'w) dev_op) \<Rightarrow> ('k, 'w) dev_op" where
  "USB_DeviceAttach klass attach = (\<lambda>(dev, w).
     if Port dev = None \<or> Attached dev \<noteq> 0 then Inl AssertFailed
     else USB_Attach klass attach (dev\<lparr>Attached := Attached dev + 1\<rparr>, w))"

definition USB_DeviceDetach :: "(nat \<Rightarrow> ('k, 'w) dev_op) \<Rightarrow> ('k, 'w) dev_op" where
  "USB_DeviceDetach detach = (\<lambda>(dev, w).
     if Port dev = None \<or> Attached dev = 0 then Inl AssertFailed
     else bindr (USB_Detach detach (dev, w)) (\<lambda>(dev, w). Inr (dev\<lparr>Attached := Attached dev - 1\<rparr>, w)))"

end
