(* ===== verification/Hub.thy ===== *)
theory Hub
  imports Xid
begin

text \<open>
  The USB hub, \<open>core/openxbox/hw/ohci/ohci_hub.cpp\<close>, as a device class. Only gamepads look for the ports of a
  hub, so that its state holds the gamepads of its ports. What the port above the hub does when it is woken up or a
  device below goes away is given by the functions of the controller, of which the model has those the hub calls.
\<close>

section \<open>Descriptors\<close>

abbreviation (input) NUM_PORTS :: nat where "NUM_PORTS \<equiv> 8"

definition desc_endp_hub :: USBDescEndpoint where
  "desc_endp_hub = \<lparr>bEndpointAddress = USB_DIR_IN OR 1, ep_bmAttributes = USB_ENDPOINT_XFER_INT, wMaxPacketSize = 2,
     bInterval = 0xFF, bRefresh = 0, bSynchAddress = 0, is_audio = False, extra = None\<rparr>"

definition desc_iface_hub :: USBDescIface where
  "desc_iface_hub = \<lparr>bInterfaceNumber = 0, bAlternateSetting = 0, bNumEndpoints = 1, bInterfaceClass = 9,
     bInterfaceSubClass = 0, bInterfaceProtocol = 0, iInterface = 0, ndesc = 0, descs = [], eps = [desc_endp_hub]\<rparr>"

definition desc_config_hub :: USBDescConfig where
  "desc_config_hub = \<lparr>bNumInterfaces = 1, bConfigurationValue = 1, iConfiguration = 0, conf_bmAttributes = 0xE0,
     bMaxPower = 0, nif = 1, ifs = [desc_iface_hub]\<rparr>"

definition desc_device_hub :: USBDescDevice where
  "desc_device_hub = \<lparr>bcdUSB = 0x0110, bDeviceClass = 9, bDeviceSubClass = 0, bDeviceProtocol = 0,
     bMaxPacketSize0 = 8, bNumConfigurations = 1, confs = [desc_config_hub]\<rparr>"

definition desc_hub :: USBDesc where
  "desc_hub = \<lparr>desc_id = \<lparr>idVendor = 0x0409, idProduct = 0x55AA, bcdDevice = 0x0101, iManufacturer = STR_MANUFACTURER,
     iProduct = STR_PRODUCT, iSerialNumber = STR_SERIALNUMBER\<rparr>, full = Some desc_device_hub\<rparr>"

definition HubDescriptor :: bytes where
  "HubDescriptor = [0x0A, 0x29, 8, 0x0A, 0x00, 0x01, 0x00, 0x00, 0x00, 0xFF]"

section \<open>Ports\<close>

abbreviation (input) PORT_STAT_CONNECTION :: u16 where "PORT_STAT_CONNECTION \<equiv> 0x0001"
abbreviation (input) PORT_STAT_ENABLE :: u16 where "PORT_STAT_ENABLE \<equiv> 0x0002"
abbreviation (input) PORT_STAT_SUSPEND :: u16 where "PORT_STAT_SUSPEND \<equiv> 0x0004"
abbreviation (input) PORT_STAT_RESET :: u16 where "PORT_STAT_RESET \<equiv> 0x0010"
abbreviation (input) PORT_STAT_POWER :: u16 where "PORT_STAT_POWER \<equiv> 0x0100"
abbreviation (input) PORT_STAT_LOW_SPEED :: u16 where "PORT_STAT_LOW_SPEED \<equiv> 0x0200"

abbreviation (input) PORT_STAT_C_CONNECTION :: u16 where "PORT_STAT_C_CONNECTION \<equiv> 0x0001"
abbreviation (input) PORT_STAT_C_ENABLE :: u16 where "PORT_STAT_C_ENABLE \<equiv> 0x0002"
abbreviation (input) PORT_STAT_C_SUSPEND :: u16 where "PORT_STAT_C_SUSPEND \<equiv> 0x0004"
abbreviation (input) PORT_STAT_C_OVERCURRENT :: u16 where "PORT_STAT_C_OVERCURRENT \<equiv> 0x0008"
abbreviation (input) PORT_STAT_C_RESET :: u16 where "PORT_STAT_C_RESET \<equiv> 0x0010"

abbreviation (input) ClearHubFeature :: u32 where "ClearHubFeature \<equiv> 0x2001"
abbreviation (input) ClearPortFeature :: u32 where "ClearPortFeature \<equiv> 0x2301"
abbreviation (input) GetHubDescriptor :: u32 where "GetHubDescriptor \<equiv> 0xA006"
abbreviation (input) GetHubStatus :: u32 where "GetHubStatus \<equiv> 0xA000"
abbreviation (input) GetPortStatus :: u32 where "GetPortStatus \<equiv> 0xA300"
abbreviation (input) SetHubFeature :: u32 where "SetHubFeature \<equiv> 0x2003"
abbreviation (input) SetPortFeature :: u32 where "SetPortFeature \<equiv> 0x2303"

abbreviation (input) PORT_ENABLE :: u32 where "PORT_ENABLE \<equiv> 1"
abbreviation (input) PORT_SUSPEND :: u32 where "PORT_SUSPEND \<equiv> 2"
abbreviation (input) PORT_RESET :: u32 where "PORT_RESET \<equiv> 4"
abbreviation (input) PORT_POWER :: u32 where "PORT_POWER \<equiv> 8"
abbreviation (input) PORT_C_CONNECTION :: u32 where "PORT_C_CONNECTION \<equiv> 16"
abbreviation (input) PORT_C_ENABLE :: u32 where "PORT_C_ENABLE \<equiv> 17"
abbreviation (input) PORT_C_SUSPEND :: u32 where "PORT_C_SUSPEND \<equiv> 18"
abbreviation (input) PORT_C_OVERCURRENT :: u32 where "PORT_C_OVERCURRENT \<equiv> 19"
abbreviation (input) PORT_C_RESET :: u32 where "PORT_C_RESET \<equiv> 20"

record USBHubPort =
  hub_port :: USBPort
  wPortStatus :: u16
  wPortChange :: u16
  port_Dev :: "xid XboxDeviceState option"

type_synonym hub = "USBHubPort list"

text \<open>
  The functions of the port above: \<open>wakeup\<close> with the index of that port, and \<open>child_detach\<close> with the port of the
  hub that the device is at, which says which device it is.
\<close>

record 'w USBPortOps =
  port_wakeup :: "nat \<Rightarrow> 'w \<Rightarrow> fault + 'w"
  port_child_detach :: "nat \<Rightarrow> xid XboxDeviceState \<Rightarrow> 'w \<Rightarrow> fault + xid XboxDeviceState \<times> 'w"

definition on_port :: "nat \<Rightarrow> (USBHubPort \<Rightarrow> USBHubPort) \<Rightarrow> hub XboxDeviceState \<Rightarrow> hub XboxDeviceState" where
  "on_port n f dev = dev\<lparr>klass_state := (klass_state dev)[n := f (klass_state dev ! n)]\<rparr>"

definition USB_Wakeup :: "'w USBPortOps \<Rightarrow> ('k, 'w) dev_op" where
  "USB_Wakeup ops = (\<lambda>(dev, w).
     case Port dev of
       Some port \<Rightarrow> if RemoteWakeup dev then bindr (port_wakeup ops (PortIndex port) w) (\<lambda>w. Inr (dev, w)) else Inr (dev, w)
     | None \<Rightarrow> Inr (dev, w))"

text \<open>The state of a port after a reset of the hub.\<close>

definition reset_port :: "USBHubPort \<Rightarrow> USBHubPort" where
  "reset_port port =
     (let port = port\<lparr>wPortStatus := PORT_STAT_POWER, wPortChange := 0\<rparr> in
      case port_Dev port of
        Some d \<Rightarrow>
          if Attached d \<noteq> 0
          then port\<lparr>wPortStatus := PORT_STAT_POWER OR PORT_STAT_CONNECTION OR (if Speed d = USB_SPEED_LOW then PORT_STAT_LOW_SPEED else 0),
                 wPortChange := PORT_STAT_C_CONNECTION\<rparr>
          else port
      | None \<Rightarrow> port)"

definition UsbHub_HandleReset :: "(hub, 'w) dev_op" where
  "UsbHub_HandleReset = (\<lambda>(dev, w). Inr (dev\<lparr>klass_state := map reset_port (klass_state dev)\<rparr>, w))"

section \<open>Requests\<close>

abbreviation hub_base :: "(hub, 'w) USBDeviceClass" where
  "hub_base \<equiv> class_of desc_hub"

text \<open>A port after the reset of its device.\<close>

definition enable_port :: "xid XboxDeviceState \<Rightarrow> USBHubPort \<Rightarrow> USBHubPort" where
  "enable_port d port = port\<lparr>port_Dev := Some d, wPortChange := wPortChange port OR PORT_STAT_C_RESET,
     wPortStatus := wPortStatus port OR PORT_STAT_ENABLE\<rparr>"

text \<open>A feature of a port is set; nothing for a stall.\<close>

definition set_port_feature :: "'w USBPortOps \<Rightarrow> u32 \<Rightarrow> nat \<Rightarrow> hub XboxDeviceState \<times> 'w \<Rightarrow> fault + (hub XboxDeviceState \<times> 'w) option" where
  "set_port_feature ops val n = (\<lambda>(dev, w).
     if val = PORT_SUSPEND then
       Inr (Some (on_port n (\<lambda>port. port\<lparr>wPortStatus := wPortStatus port OR PORT_STAT_SUSPEND\<rparr>) dev, w))
     else if val = PORT_RESET then
       (case port_Dev (klass_state dev ! n) of
          Some d \<Rightarrow>
            if Attached d \<noteq> 0
            then bindr (USB_DeviceReset gamepad_class (d, w)) (\<lambda>(d, w).
                   map_sum id Some (USB_Wakeup ops (on_port n (enable_port d) dev, w)))
            else Inr (Some (dev, w))
        | None \<Rightarrow> Inr (Some (dev, w)))
     else if val = PORT_POWER then Inr (Some (dev, w))
     else Inr None)"

definition clear_port_feature :: "u32 \<Rightarrow> USBHubPort \<Rightarrow> USBHubPort option" where
  "clear_port_feature val port =
     (if val = PORT_ENABLE then Some (port\<lparr>wPortStatus := wPortStatus port AND NOT PORT_STAT_ENABLE\<rparr>)
      else if val = PORT_C_ENABLE then Some (port\<lparr>wPortChange := wPortChange port AND NOT PORT_STAT_C_ENABLE\<rparr>)
      else if val = PORT_SUSPEND then Some (port\<lparr>wPortStatus := wPortStatus port AND NOT PORT_STAT_SUSPEND\<rparr>)
      else if val = PORT_C_SUSPEND then Some (port\<lparr>wPortChange := wPortChange port AND NOT PORT_STAT_C_SUSPEND\<rparr>)
      else if val = PORT_C_CONNECTION then Some (port\<lparr>wPortChange := wPortChange port AND NOT PORT_STAT_C_CONNECTION\<rparr>)
      else if val = PORT_C_OVERCURRENT then Some (port\<lparr>wPortChange := wPortChange port AND NOT PORT_STAT_C_OVERCURRENT\<rparr>)
      else if val = PORT_C_RESET then Some (port\<lparr>wPortChange := wPortChange port AND NOT PORT_STAT_C_RESET\<rparr>)
      else None)"

definition port_bytes :: "USBHubPort \<Rightarrow> bytes" where
  "port_bytes port = [lo8 (wPortStatus port), hi8 (wPortStatus port), lo8 (wPortChange port), hi8 (wPortChange port)]"

definition UsbHub_HandleControl :: "'w USBPortOps \<Rightarrow> u32 \<Rightarrow> u32 \<Rightarrow> u32 \<Rightarrow> u32 \<Rightarrow> (hub, 'w) packet_op" where
  "UsbHub_HandleControl ops request val index n t =
     bindr (USBDesc_HandleControl hub_base request val index n t) (\<lambda>(ok, p, dev, w).
       let port = unat (index - 1) in
       if ok then Inr (p, dev, w)
       else if request = EndpointOutRequest OR USB_REQ_CLEAR_FEATURE then
         (if val = 0 \<and> index \<noteq> 0x81 then stall (p, dev, w) else Inr (p, dev, w))
       else if request = GetHubStatus then reply_with [0, 0, 0, 0] 4 4 (p, dev, w)
       else if request = GetPortStatus then
         (if port < NUM_PORTS then reply_with (port_bytes (klass_state dev ! port)) 4 4 (p, dev, w) else stall (p, dev, w))
       else if request = SetHubFeature \<or> request = ClearHubFeature then
         (if val \<noteq> 0 \<and> val \<noteq> 1 then stall (p, dev, w) else Inr (p, dev, w))
       else if request = SetPortFeature then
         (if port < NUM_PORTS
          then bindr (set_port_feature ops val port (dev, w)) (\<lambda>r.
                 case r of Some (dev, w) \<Rightarrow> Inr (p, dev, w) | None \<Rightarrow> stall (p, dev, w))
          else stall (p, dev, w))
       else if request = ClearPortFeature then
         (if port < NUM_PORTS
          then case clear_port_feature val (klass_state dev ! port) of
                 Some hp \<Rightarrow> Inr (p, on_port port (\<lambda>_. hp) dev, w)
               | None \<Rightarrow> stall (p, dev, w)
          else stall (p, dev, w))
       else if request = GetHubDescriptor then reply_with HubDescriptor 10 10 (p, dev, w)
       else stall (p, dev, w))"

text \<open>Bit \<open>i + 1\<close> of the status is set when something has changed at port \<open>i\<close>.\<close>

definition hub_status :: "hub \<Rightarrow> u32" where
  "hub_status ports = foldl (\<lambda>st (i, port). if wPortChange port \<noteq> 0 then st OR push_bit (i + 1) 1 else st) 0 (List.enumerate 0 ports)"

definition UsbHub_HandleData :: "(hub, 'w) packet_op" where
  "UsbHub_HandleData = (\<lambda>(p, dev, w).
     case Endpoint p of
       None \<Rightarrow> Inl NullPointer
     | Some r \<Rightarrow> bindr (get_EP dev r) (\<lambda>e.
         if Pid p = USB_TOKEN_IN \<and> Num e = 1 then
           let st = hub_status (klass_state dev); n = (if Size (IoVec p) = 1 then 1 else 2) in
           if st = 0 then Inr (p\<lparr>Status := USB_RET_NAK\<rparr>, dev, w)
           else if n > Size (IoVec p) then Inr (p\<lparr>Status := USB_RET_BABBLE\<rparr>, dev, w)
           else bindr (USB_PacketCopy (take n [ucast st, ucast (drop_bit 8 st)] @ replicate (4 - n) 0) 0 n p) (\<lambda>(_, p). Inr (p, dev, w))
         else stall (p, dev, w)))"

section \<open>Devices below\<close>

text \<open>What \<open>attach\<close>, \<open>detach\<close> and \<open>wakeup\<close> of a port of the hub do; the device of the port is the one that is attached.\<close>

definition UsbHub_Attach :: "'w USBPortOps \<Rightarrow> nat \<Rightarrow> (xid, hub XboxDeviceState \<times> 'w) dev_op" where
  "UsbHub_Attach ops n = (\<lambda>(child, dev, w).
     if n < length (klass_state dev)
     then bindr (USB_Wakeup ops (on_port n (\<lambda>port. port\<lparr>
       wPortStatus := (if Speed child = USB_SPEED_LOW then wPortStatus port OR PORT_STAT_CONNECTION OR PORT_STAT_LOW_SPEED
                       else (wPortStatus port OR PORT_STAT_CONNECTION) AND NOT PORT_STAT_LOW_SPEED),
       wPortChange := wPortChange port OR PORT_STAT_C_CONNECTION\<rparr>) dev, w)) (\<lambda>t. Inr (child, t))
     else Inl OutOfBounds)"

definition UsbHub_Detach :: "'w USBPortOps \<Rightarrow> nat \<Rightarrow> (xid, hub XboxDeviceState \<times> 'w) dev_op" where
  "UsbHub_Detach ops n = (\<lambda>(child, dev, w).
     if n < length (klass_state dev)
     then bindr (USB_Wakeup ops (dev, w)) (\<lambda>(dev, w).
       if Port dev = None then Inl NullPointer
       else bindr (port_child_detach ops n child w) (\<lambda>(child, w).
         bindr (USB_Wakeup ops (on_port n (\<lambda>port.
           let port = port\<lparr>wPortStatus := wPortStatus port AND NOT PORT_STAT_CONNECTION,
                 wPortChange := wPortChange port OR PORT_STAT_C_CONNECTION\<rparr> in
           if tst (wPortStatus port) PORT_STAT_ENABLE
           then port\<lparr>wPortStatus := wPortStatus port AND NOT PORT_STAT_ENABLE, wPortChange := wPortChange port OR PORT_STAT_C_ENABLE\<rparr>
           else port) dev, w)) (\<lambda>t. Inr (child, t))))
     else Inl OutOfBounds)"

definition UsbHub_Wakeup :: "'w USBPortOps \<Rightarrow> nat \<Rightarrow> (hub, 'w) dev_op" where
  "UsbHub_Wakeup ops n = (\<lambda>(dev, w).
     if n < length (klass_state dev)
     then
       if tst (wPortStatus (klass_state dev ! n)) PORT_STAT_SUSPEND
       then USB_Wakeup ops (on_port n (\<lambda>port. port\<lparr>wPortChange := wPortChange port OR PORT_STAT_C_SUSPEND\<rparr>) dev, w)
       else Inr (dev, w)
     else Inl OutOfBounds)"

text \<open>The device that answers to an address: the one of a port, or with \<open>find_device\<close> of the hub one below it.\<close>

definition USB_FindDevice :: "('k XboxDeviceState \<Rightarrow> u8 \<Rightarrow> 'r option) \<Rightarrow> u8 \<Rightarrow> 'k XboxDeviceState option \<Rightarrow> 'r option option" where
  "USB_FindDevice find_device addr port_dev =
     (case port_dev of
        None \<Rightarrow> None
      | Some dev \<Rightarrow>
          if Attached dev = 0 \<or> dev_State dev \<noteq> USB_STATE_DEFAULT then None
          else if Addr dev = addr then Some None
          else map_option Some (find_device dev addr))"

definition no_device :: "'k XboxDeviceState \<Rightarrow> u8 \<Rightarrow> nat option" where
  "no_device dev addr = None"

definition UsbHub_FindDevice :: "hub XboxDeviceState \<Rightarrow> u8 \<Rightarrow> nat option" where
  "UsbHub_FindDevice dev addr =
     map_option fst (find (\<lambda>(_, port). tst (wPortStatus port) PORT_STAT_ENABLE \<and> USB_FindDevice no_device addr (port_Dev port) \<noteq> None)
       (List.enumerate 0 (klass_state dev)))"

section \<open>The class\<close>

definition hub_class :: "'w USBPortOps \<Rightarrow> (hub, 'w) USBDeviceClass" where
  "hub_class ops = \<lparr>cancel_packet = None, handle_attach = None, handle_reset = Some UsbHub_HandleReset,
     handle_control = Some (UsbHub_HandleControl ops), handle_data = Some UsbHub_HandleData, set_interface = None,
     flush_ep_queue = None, ep_stopped = None, usb_desc = Some desc_hub\<rparr>"

text \<open>Ports are registered with the controller, which keeps them until a device claims them.\<close>

definition USB_RegisterPort :: "nat \<Rightarrow> u32 \<Rightarrow> USBPort" where
  "USB_RegisterPort index speed_mask = USB_PortLocation None (index + 1) \<lparr>Path = '''', port_SpeedMask = speed_mask, PortIndex = index\<rparr>"

definition UsbHub_Initfn :: "string \<Rightarrow> (hub, USBPort list) dev_op" where
  "UsbHub_Initfn m_PciPath = (\<lambda>(dev, free).
     bindr (USB_CreateSerial m_PciPath (Some desc_hub) ''314159'' dev) (\<lambda>dev.
     bindr (USBDesc_Init hub_base
       (USBDesc_SetString STR_PRODUCT (chars ''Cxbx-Reloaded USB Hub'')
         (USBDesc_SetString STR_MANUFACTURER (chars ''Cxbx-Reloaded'') dev), free)) (\<lambda>(dev, free).
     bindr (USB_GetEP USB_TOKEN_IN 1) (\<lambda>_.
     let ports = map (\<lambda>i. USB_PortLocation (Port dev) (i + 1) (USB_RegisterPort i (USB_SPEED_MASK_LOW OR USB_SPEED_MASK_FULL))) [0..<NUM_PORTS]
     in UsbHub_HandleReset
          (dev\<lparr>klass_state := map (\<lambda>(hp, port). hp\<lparr>hub_port := port\<rparr>) (zip (klass_state dev) ports)\<rparr>, free @ ports)))))"

definition new_hub_port :: USBHubPort where
  "new_hub_port = \<lparr>hub_port = \<lparr>Path = '''', port_SpeedMask = 0, PortIndex = 0\<rparr>, wPortStatus = 0, wPortChange = 0, port_Dev = None\<rparr>"

definition hub_Init :: "string \<Rightarrow> USBPort \<Rightarrow> USBPort list \<Rightarrow> fault + hub XboxDeviceState \<times> USBPort list" where
  "hub_Init m_PciPath port free =
     UsbHub_Initfn m_PciPath (USB_EpInit ((new_device (replicate NUM_PORTS new_hub_port))\<lparr>Port := Some port\<rparr>), free)"

text \<open>A device claims the port with the path it looks for; the iterator is only set when there is one.\<close>

fun claim_port :: "string \<Rightarrow> USBPort list \<Rightarrow> fault + USBPort \<times> USBPort list" where
  "claim_port path [] = Inl Uninitialised"
| "claim_port path (port # free) =
     (if Path port = path then Inr (port, free)
      else bindr (claim_port path free) (\<lambda>(found, free). Inr (found, port # free)))"

end
