(* ===== verification/Timer.thy ===== *)
theory Timer
  imports Prelude
begin

text \<open>
  The timers of \<open>common/openxbox/cxbxtimer.cpp\<close>: objects that a thread of its own polls against the clock of the
  host until they expire or are told to exit. The state holds the objects, which are referred to by their index and
  gone once they are deleted, the list of the timers, the threads with the time they wait for, and the time of the
  host. What a timer calls is given to the thread, which makes one pass of its loop at a time.
\<close>

section \<open>Timers\<close>

abbreviation (input) CLOCK_REALTIME :: nat where "CLOCK_REALTIME \<equiv> 0"
abbreviation (input) CLOCK_VIRTUALTIME :: nat where "CLOCK_VIRTUALTIME \<equiv> 1"

record TimerObject =
  timer_Type :: nat
  ExpireTime_MS :: u64
  timer_Exit :: bool
  SlowdownFactor :: u32

record host_clock =
  timer_objects :: "TimerObject option list"
  TimerList :: "nat list"
  clock_threads :: "(nat \<times> u64) list"
  host_time :: u64

definition deref_timer :: "nat \<Rightarrow> 'z host_clock_scheme \<Rightarrow> fault + TimerObject" where
  "deref_timer i c =
     bindr (aget (timer_objects c) i) (\<lambda>t. case t of Some t \<Rightarrow> Inr t | None \<Rightarrow> Inl OutOfBounds)"

definition upd_timer :: "nat \<Rightarrow> (TimerObject \<Rightarrow> TimerObject) \<Rightarrow> 'z host_clock_scheme \<Rightarrow> fault + 'z host_clock_scheme" where
  "upd_timer i f c = bindr (deref_timer i c) (\<lambda>t. Inr (c\<lparr>timer_objects := (timer_objects c)[i := Some (f t)]\<rparr>))"

definition GetTime_NS :: "nat \<Rightarrow> 'z host_clock_scheme \<Rightarrow> fault + u64" where
  "GetTime_NS i c = bindr (deref_timer i c) (\<lambda>t.
     Inr (if timer_Type t = CLOCK_REALTIME then host_time c else host_time c div ucast (SlowdownFactor t)))"

definition GetNextExpireTime :: "nat \<Rightarrow> 'z host_clock_scheme \<Rightarrow> fault + u64" where
  "GetNextExpireTime i c = bindr (GetTime_NS i c) (\<lambda>now. bindr (deref_timer i c) (\<lambda>t. Inr (now + ExpireTime_MS t)))"

text \<open>The index of the timer is that of its last place in the list, and unassigned when it has none.\<close>

definition Timer_Destroy :: "nat \<Rightarrow> 'z host_clock_scheme \<Rightarrow> fault + 'z host_clock_scheme" where
  "Timer_Destroy i c =
     (case rev (filter (\<lambda>k. TimerList c ! k = i) [0..<length (TimerList c)]) of
        [] \<Rightarrow> Inl Uninitialised
      | index # _ \<Rightarrow>
          bindr (deref_timer i c) (\<lambda>_. Inr (c\<lparr>timer_objects := (timer_objects c)[i := None],
            TimerList := take index (TimerList c) @ drop (index + 1) (TimerList c)\<rparr>)))"

definition Timer_ChangeExpireTime :: "nat \<Rightarrow> u64 \<Rightarrow> 'z host_clock_scheme \<Rightarrow> fault + 'z host_clock_scheme" where
  "Timer_ChangeExpireTime i expire = upd_timer i (\<lambda>t. t\<lparr>ExpireTime_MS := expire\<rparr>)"

definition Timer_Exit :: "nat \<Rightarrow> 'z host_clock_scheme \<Rightarrow> fault + 'z host_clock_scheme" where
  "Timer_Exit i = upd_timer i (\<lambda>t. t\<lparr>timer_Exit := True\<rparr>)"

definition Timer_Create :: "u32 \<Rightarrow> 'z host_clock_scheme \<Rightarrow> nat \<times> 'z host_clock_scheme" where
  "Timer_Create factor c =
     (let i = length (timer_objects c);
          t = \<lparr>timer_Type = (if factor \<le> 1 then CLOCK_REALTIME else CLOCK_VIRTUALTIME), ExpireTime_MS = 0, timer_Exit = False,
            SlowdownFactor = (if factor < 1 then 1 else factor)\<rparr>
      in (i, c\<lparr>timer_objects := timer_objects c @ [Some t], TimerList := TimerList c @ [i]\<rparr>))"

text \<open>The thread starts with the time at which the timer expires first.\<close>

definition Timer_Start :: "nat \<Rightarrow> u64 \<Rightarrow> 'z host_clock_scheme \<Rightarrow> fault + 'z host_clock_scheme" where
  "Timer_Start i expire c =
     bindr (upd_timer i (\<lambda>t. t\<lparr>ExpireTime_MS := expire\<rparr>) c) (\<lambda>c.
     bindr (GetNextExpireTime i c) (\<lambda>due. Inr (c\<lparr>clock_threads := clock_threads c @ [(i, due)]\<rparr>)))"

section \<open>Threads\<close>

definition end_thread :: "nat \<Rightarrow> 'z host_clock_scheme \<Rightarrow> 'z host_clock_scheme" where
  "end_thread j c = c\<lparr>clock_threads := take j (clock_threads c) @ drop (j + 1) (clock_threads c)\<rparr>"

text \<open>A pass of the thread with number \<open>j\<close>.\<close>

definition ClockThread_pass ::
  "('z host_clock_scheme \<Rightarrow> fault + 'z host_clock_scheme) \<Rightarrow> nat \<Rightarrow> 'z host_clock_scheme \<Rightarrow> fault + 'z host_clock_scheme" where
  "ClockThread_pass callback j c =
     (let (i, due) = clock_threads c ! j;
          leave = (\<lambda>c. bindr (Timer_Destroy i c) (\<lambda>c. Inr (end_thread j c)))
      in bindr (GetTime_NS i c) (\<lambda>now.
         if now > due then
           bindr (deref_timer i c) (\<lambda>t.
           if timer_Exit t then leave c
           else bindr (callback c) (\<lambda>c. bindr (deref_timer i c) (\<lambda>t.
             if timer_Exit t then leave c
             else bindr (GetNextExpireTime i c) (\<lambda>due.
               Inr (c\<lparr>clock_threads := (clock_threads c)[j := (i, due)]\<rparr>)))))
         else Inr c))"

section \<open>No timer is used after its end\<close>

definition waiting :: "'z host_clock_scheme \<Rightarrow> nat list" where
  "waiting c = map fst (clock_threads c)"

lemma waiting_simps [simp]:
  "waiting (c\<lparr>timer_objects := os\<rparr>) = waiting c" "waiting (c\<lparr>TimerList := is\<rparr>) = waiting c"
  "waiting (c\<lparr>clock_threads := clock_threads d @ [(i, due)]\<rparr>) = waiting d @ [i]"
  by (simp_all add: waiting_def)

lemma waiting_nth: "j < length (waiting c) \<Longrightarrow> clock_threads c ! j = (i, due) \<Longrightarrow> waiting c ! j = i"
  by (simp add: waiting_def)

lemma waiting_end: "waiting (end_thread j c) = take j (waiting c) @ drop (j + 1) (waiting c)"
  by (simp add: waiting_def end_thread_def take_map drop_map)

lemma end_thread_fields [simp]:
  "timer_objects (end_thread j c) = timer_objects c" "TimerList (end_thread j c) = TimerList c"
  by (simp_all add: end_thread_def)

lemma waiting_rearm: "j < length (waiting c) \<Longrightarrow> waiting (c\<lparr>clock_threads := (clock_threads c)[j := (waiting c ! j, due)]\<rparr>) = waiting c"
  by (simp add: waiting_def map_update list_update_same_conv)

text \<open>
  The timers of the list are the ones that exist, each once, and every thread has a timer of its own.
\<close>

abbreviation alive :: "nat \<Rightarrow> 'z host_clock_scheme \<Rightarrow> bool" where
  "alive i c \<equiv> i < length (timer_objects c) \<and> timer_objects c ! i \<noteq> None"

definition wf_clock :: "'z host_clock_scheme \<Rightarrow> bool" where
  "wf_clock c \<longleftrightarrow> distinct (TimerList c) \<and> distinct (waiting c)
     \<and> (\<forall>i. i \<in> set (TimerList c) \<longleftrightarrow> alive i c) \<and> set (waiting c) \<subseteq> set (TimerList c)"

lemma wf_clockD:
  assumes "wf_clock c"
  shows "distinct (TimerList c)" "distinct (waiting c)" "i \<in> set (TimerList c) \<longleftrightarrow> alive i c" "i \<in> set (waiting c) \<Longrightarrow> alive i c"
  using assms by (auto simp: wf_clock_def)

lemma deref_alive: "returns Q (deref_timer i c) \<longleftrightarrow> alive i c \<and> Q (the (timer_objects c ! i))"
  by (auto simp: deref_timer_def aget_def split: option.splits)

lemma upd_timer_wf:
  "wf_clock c \<Longrightarrow> alive i c \<Longrightarrow> returns (\<lambda>d. wf_clock d \<and> waiting d = waiting c \<and> (\<forall>k. alive k d \<longleftrightarrow> alive k c)) (upd_timer i f c)"
  by (auto simp: upd_timer_def deref_alive wf_clock_def nth_list_update)

lemma GetTime_returns [simp]: "returns (\<lambda>_. True) (GetTime_NS i c) \<longleftrightarrow> alive i c"
  by (simp add: GetTime_NS_def deref_alive)

lemma GetNextExpireTime_returns [simp]: "returns (\<lambda>_. True) (GetNextExpireTime i c) \<longleftrightarrow> alive i c"
  by (auto simp: GetNextExpireTime_def GetTime_NS_def deref_alive)

lemma Timer_Create_wf:
  assumes "wf_clock c" and "Timer_Create f c = (i, d)"
  shows "wf_clock d" "alive i d" "i \<notin> set (waiting d)" "alive k c \<Longrightarrow> alive k d"
  using assms by (auto simp: Timer_Create_def wf_clock_def Let_def nth_append less_Suc_eq)

lemma Timer_Exit_wf:
  "wf_clock c \<Longrightarrow> alive i c \<Longrightarrow> returns (\<lambda>d. wf_clock d \<and> waiting d = waiting c \<and> (\<forall>k. alive k d \<longleftrightarrow> alive k c)) (Timer_Exit i c)"
  unfolding Timer_Exit_def by (rule upd_timer_wf)

lemma Timer_Start_wf:
  assumes "wf_clock c" and "alive i c" and "i \<notin> set (waiting c)"
  shows "returns (\<lambda>d. wf_clock d \<and> (\<forall>k. alive k d \<longleftrightarrow> alive k c)) (Timer_Start i expire c)"
  unfolding Timer_Start_def returns_bindr
proof (rule returns_mono [OF upd_timer_wf [OF assms(1,2)]])
  fix d
  assume d: "wf_clock d \<and> waiting d = waiting c \<and> (\<forall>k. alive k d \<longleftrightarrow> alive k c)"
  show "returns (\<lambda>due. returns (\<lambda>d. wf_clock d \<and> (\<forall>k. alive k d \<longleftrightarrow> alive k c))
      (Inr (d\<lparr>clock_threads := clock_threads d @ [(i, due)]\<rparr>))) (GetNextExpireTime i d)"
    by (rule returns_mono [OF GetNextExpireTime_returns [THEN iffD2]])
      (use d assms in \<open>auto simp: wf_clock_def\<close>)
qed

lemma only_place: "k < n \<Longrightarrow> filter (\<lambda>j. j = k) [0..<n] = [k]"
  by (induction n) (auto simp: less_Suc_eq)

text \<open>A thread that ends takes its timer, and no other one, with it.\<close>

lemma Timer_Destroy_listed:
  assumes c: "wf_clock c" and i: "alive i c"
  shows "Timer_Destroy i c = Inr (c\<lparr>timer_objects := (timer_objects c)[i := None], TimerList := remove1 i (TimerList c)\<rparr>)"
proof -
  obtain k where k: "k < length (TimerList c)" "TimerList c ! k = i"
    using i by (metis wf_clockD(3) [OF c] in_set_conv_nth)
  have uniq: "TimerList c ! j = i \<longleftrightarrow> j = k" if "j < length (TimerList c)" for j
    using wf_clockD(1) [OF c] k that by (auto simp: nth_eq_iff_index_eq)
  have "filter (\<lambda>j. TimerList c ! j = i) [0..<length (TimerList c)] = [k]"
    unfolding only_place [OF k(1), symmetric] using uniq by (intro filter_cong) auto
  moreover have "i \<notin> set (take k (TimerList c))" using uniq k(1) by (auto simp: in_set_conv_nth)
  then have "remove1 i (TimerList c) = take k (TimerList c) @ drop (k + 1) (TimerList c)"
    using k by (subst id_take_nth_drop [OF k(1)]) (simp add: remove1_append)
  moreover have "returns (\<lambda>_. True) (deref_timer i c)" using i by (simp add: deref_alive)
  ultimately show ?thesis by (auto simp: Timer_Destroy_def returns_iff)
qed

lemma leave_wf:
  assumes c: "wf_clock c" and j: "j < length (waiting c)" and i: "waiting c ! j = i"
  shows "returns (\<lambda>d. wf_clock d \<and> waiting d = remove1 i (waiting c) \<and> (\<forall>k. alive k d \<longleftrightarrow> alive k c \<and> k \<noteq> i))
    (bindr (Timer_Destroy i c) (\<lambda>c. Inr (end_thread j c)))"
proof -
  have live: "alive i c" using wf_clockD(4) [OF c] j i by (metis nth_mem)
  have "i \<notin> set (take j (waiting c))"
    using wf_clockD(2) [OF c] j i by (auto simp: in_set_conv_nth nth_eq_iff_index_eq)
  then have "take j (waiting c) @ drop (j + 1) (waiting c) = remove1 i (waiting c)"
    using i by (subst (3) id_take_nth_drop [OF j]) (simp add: remove1_append)
  then show ?thesis
    using c live by (auto simp: Timer_Destroy_listed waiting_end wf_clock_def nth_list_update set_remove1_eq)
qed

section \<open>The contract of a callback\<close>

text \<open>
  What a client keeps of the timers: its invariant implies that they are in order, its callback keeps it and the
  threads that run, and it survives the end of a timer that was told to exit and the next wait of a thread.
\<close>

locale clock_client =
  fixes inv :: "'z host_clock_scheme \<Rightarrow> bool"
    and callback :: "'z host_clock_scheme \<Rightarrow> fault + 'z host_clock_scheme"
  assumes inv_wf: "inv c \<Longrightarrow> wf_clock c"
    and callback_inv: "inv c \<Longrightarrow> returns (\<lambda>d. inv d \<and> (\<exists>new. waiting d = waiting c @ new)) (callback c)"
    and inv_gone: "inv c \<Longrightarrow> timer_objects c ! i = Some t \<Longrightarrow> timer_Exit t \<Longrightarrow>
      wf_clock (end_thread j (c\<lparr>timer_objects := (timer_objects c)[i := None], TimerList := remove1 i (TimerList c)\<rparr>)) \<Longrightarrow>
      inv (end_thread j (c\<lparr>timer_objects := (timer_objects c)[i := None], TimerList := remove1 i (TimerList c)\<rparr>))"
    and inv_rearm: "inv c \<Longrightarrow> wf_clock (c\<lparr>clock_threads := ts\<rparr>) \<Longrightarrow> inv (c\<lparr>clock_threads := ts\<rparr>)"
begin

lemma thread_leaves:
  assumes c: "inv c" and j: "j < length (waiting c)" "waiting c ! j = i" and t: "timer_objects c ! i = Some t" "timer_Exit t"
  shows "returns inv (bindr (Timer_Destroy i c) (\<lambda>c. Inr (end_thread j c)))"
  using leave_wf [OF inv_wf [OF c] j] inv_gone [OF c t] wf_clockD(4) [OF inv_wf [OF c]] j
  by (auto simp: Timer_Destroy_listed [OF inv_wf [OF c]])

lemma thread_waits:
  assumes c: "inv c" and j: "j < length (waiting c)" "waiting c ! j = i"
  shows "returns (\<lambda>due. inv (c\<lparr>clock_threads := (clock_threads c)[j := (i, due)]\<rparr>)) (GetNextExpireTime i c)"
proof -
  have "wf_clock (c\<lparr>clock_threads := (clock_threads c)[j := (i, due)]\<rparr>)" for due
    using inv_wf [OF c] waiting_rearm [OF j(1), of due] unfolding j(2) wf_clock_def by simp
  then show ?thesis
    using inv_rearm [OF c] wf_clockD(4) [OF inv_wf [OF c]] j by (auto intro!: returns_mono [OF GetNextExpireTime_returns [THEN iffD2]])
qed

lemma pass_returns:
  assumes c: "inv c" and j: "j < length (waiting c)"
  shows "returns inv (ClockThread_pass callback j c)"
proof -
  obtain i due where th: "clock_threads c ! j = (i, due)" by fastforce
  have i: "waiting c ! j = i" using waiting_nth [OF j th] .
  have live: "alive (waiting d ! j) d" if "inv d" "j < length (waiting d)" for d
    using wf_clockD(4) [OF inv_wf [OF that(1)]] that(2) by simp
  have called: "returns inv (bindr (deref_timer i d) (\<lambda>t. if timer_Exit t
        then bindr (Timer_Destroy i d) (\<lambda>c. Inr (end_thread j c))
        else bindr (GetNextExpireTime i d) (\<lambda>due. Inr (d\<lparr>clock_threads := (clock_threads d)[j := (i, due)]\<rparr>))))"
    if "inv d" "j < length (waiting d)" "waiting d ! j = i" for d
    using live [OF that(1,2)] thread_leaves [OF that] thread_waits [OF that] that(3) by (auto simp: deref_alive)
  have call: "returns (\<lambda>d. inv d \<and> j < length (waiting d) \<and> waiting d ! j = i) (callback c)"
    by (rule returns_mono [OF callback_inv [OF c]]) (use i j in \<open>auto simp: nth_append\<close>)
  have "returns inv (bindr (deref_timer i c) (\<lambda>t. if timer_Exit t
        then bindr (Timer_Destroy i c) (\<lambda>c. Inr (end_thread j c))
        else bindr (callback c) (\<lambda>d. bindr (deref_timer i d) (\<lambda>t. if timer_Exit t
          then bindr (Timer_Destroy i d) (\<lambda>c. Inr (end_thread j c))
          else bindr (GetNextExpireTime i d) (\<lambda>due. Inr (d\<lparr>clock_threads := (clock_threads d)[j := (i, due)]\<rparr>))))))"
    using live [OF c j] thread_leaves [OF c j i] returns_mono [OF call called] unfolding i by (auto simp: deref_alive)
  then show ?thesis
    unfolding ClockThread_pass_def th Let_def prod.case returns_bindr [of _ "GetTime_NS i c"]
    by (intro returns_mono [OF GetTime_returns [THEN iffD2]]) (use live [OF c j] c i in auto)
qed

end

end
