(* ===== verification/Ohci.thy ===== *)
theory Ohci
  imports Hub Timer CpuMem
begin

text \<open>
  The USB host controller, \<open>core/openxbox/hw/ohci/ohci.cpp\<close>, and the way the guest reaches it through its PCI
  device. Its four ports hold hubs, the only devices that look for them, with the gamepads of their ports below. The
  controller reads and writes descriptors through the CPU, and buffers and the communications area at addresses of
  the host; both are parameters. It has one packet, whose endpoint belongs to \<open>m_PacketDev\<close>. Each operation is one
  step: what the threads of the emulator do while another operation runs is left out.
\<close>

section \<open>Registers\<close>

abbreviation (input) OHCI_CTL_PLE :: u32 where "OHCI_CTL_PLE \<equiv> 0x04"
abbreviation (input) OHCI_CTL_CLE :: u32 where "OHCI_CTL_CLE \<equiv> 0x10"
abbreviation (input) OHCI_CTL_BLE :: u32 where "OHCI_CTL_BLE \<equiv> 0x20"
abbreviation (input) OHCI_CTL_HCFS :: u32 where "OHCI_CTL_HCFS \<equiv> 0xC0"

abbreviation (input) OHCI_STATUS_HCR :: u32 where "OHCI_STATUS_HCR \<equiv> 0x01"
abbreviation (input) OHCI_STATUS_CLF :: u32 where "OHCI_STATUS_CLF \<equiv> 0x02"
abbreviation (input) OHCI_STATUS_BLF :: u32 where "OHCI_STATUS_BLF \<equiv> 0x04"
abbreviation (input) OHCI_STATUS_SOC :: u32 where "OHCI_STATUS_SOC \<equiv> 0xC0"

abbreviation (input) OHCI_INTR_WD :: u32 where "OHCI_INTR_WD \<equiv> 0x02"
abbreviation (input) OHCI_INTR_SF :: u32 where "OHCI_INTR_SF \<equiv> 0x04"
abbreviation (input) OHCI_INTR_RD :: u32 where "OHCI_INTR_RD \<equiv> 0x08"
abbreviation (input) OHCI_INTR_UE :: u32 where "OHCI_INTR_UE \<equiv> 0x10"
abbreviation (input) OHCI_INTR_RHSC :: u32 where "OHCI_INTR_RHSC \<equiv> 0x40"
abbreviation (input) OHCI_INTR_MIE :: u32 where "OHCI_INTR_MIE \<equiv> 0x80000000"

abbreviation (input) OHCI_HCCA_MASK :: u32 where "OHCI_HCCA_MASK \<equiv> 0xFFFFFF00"
abbreviation (input) OHCI_DPTR_MASK :: u32 where "OHCI_DPTR_MASK \<equiv> 0xFFFFFFF0"
abbreviation (input) OHCI_FMI_FI :: u32 where "OHCI_FMI_FI \<equiv> 0x3FFF"
abbreviation (input) OHCI_FMI_FIT :: u32 where "OHCI_FMI_FIT \<equiv> 0x80000000"
abbreviation (input) OHCI_FMR_FRT :: u32 where "OHCI_FMR_FRT \<equiv> 0x80000000"
abbreviation (input) OHCI_LS_THRESH :: u32 where "OHCI_LS_THRESH \<equiv> 0x628"

abbreviation (input) OHCI_RHA_RW_MASK :: u32 where "OHCI_RHA_RW_MASK \<equiv> 0"
abbreviation (input) OHCI_RHA_NPS :: u32 where "OHCI_RHA_NPS \<equiv> 0x200"
abbreviation (input) OHCI_RHA_NOCP :: u32 where "OHCI_RHA_NOCP \<equiv> 0x1000"

abbreviation (input) OHCI_RHS_LPS :: u32 where "OHCI_RHS_LPS \<equiv> 0x01"
abbreviation (input) OHCI_RHS_DRWE :: u32 where "OHCI_RHS_DRWE \<equiv> 0x8000"
abbreviation (input) OHCI_RHS_LPSC :: u32 where "OHCI_RHS_LPSC \<equiv> 0x10000"
abbreviation (input) OHCI_RHS_OCIC :: u32 where "OHCI_RHS_OCIC \<equiv> 0x20000"
abbreviation (input) OHCI_RHS_CRWE :: u32 where "OHCI_RHS_CRWE \<equiv> 0x80000000"

abbreviation (input) OHCI_PORT_CCS :: u32 where "OHCI_PORT_CCS \<equiv> 0x01"
abbreviation (input) OHCI_PORT_PES :: u32 where "OHCI_PORT_PES \<equiv> 0x02"
abbreviation (input) OHCI_PORT_PSS :: u32 where "OHCI_PORT_PSS \<equiv> 0x04"
abbreviation (input) OHCI_PORT_PRS :: u32 where "OHCI_PORT_PRS \<equiv> 0x10"
abbreviation (input) OHCI_PORT_PPS :: u32 where "OHCI_PORT_PPS \<equiv> 0x100"
abbreviation (input) OHCI_PORT_LSDA :: u32 where "OHCI_PORT_LSDA \<equiv> 0x200"
abbreviation (input) OHCI_PORT_CSC :: u32 where "OHCI_PORT_CSC \<equiv> 0x10000"
abbreviation (input) OHCI_PORT_PESC :: u32 where "OHCI_PORT_PESC \<equiv> 0x20000"
abbreviation (input) OHCI_PORT_PSSC :: u32 where "OHCI_PORT_PSSC \<equiv> 0x40000"
abbreviation (input) OHCI_PORT_PRSC :: u32 where "OHCI_PORT_PRSC \<equiv> 0x100000"
abbreviation (input) OHCI_PORT_WTC :: u32 where "OHCI_PORT_WTC \<equiv> 0x1F0000"

text \<open>The states of the controller, \<open>OHCI_State\<close>.\<close>

abbreviation (input) OHCI_Reset :: u32 where "OHCI_Reset \<equiv> 0x00"
abbreviation (input) OHCI_Resume :: u32 where "OHCI_Resume \<equiv> 0x40"
abbreviation (input) OHCI_Operational :: u32 where "OHCI_Operational \<equiv> 0x80"
abbreviation (input) OHCI_Suspend :: u32 where "OHCI_Suspend \<equiv> 0xC0"

record OHCIPort =
  UsbPort :: USBPort
  HcRhPortStatus :: u32
  root_Dev :: "hub XboxDeviceState option"

record OHCI_Registers = host_clock +
  HcRevision :: u32
  HcControl :: u32
  HcCommandStatus :: u32
  HcInterruptStatus :: u32
  HcInterrupt :: u32
  HcHCCA :: u32
  HcPeriodCurrentED :: u32
  HcControlHeadED :: u32
  HcControlCurrentED :: u32
  HcBulkHeadED :: u32
  HcBulkCurrentED :: u32
  HcDoneHead :: u32
  HcFmInterval :: u32
  HcFmRemaining :: u32
  HcFmNumber :: u32
  HcPeriodicStart :: u32
  HcLSThreshold :: u32
  HcRhDescriptorA :: u32
  HcRhDescriptorB :: u32
  HcRhStatus :: u32
  RhPort :: "OHCIPort list"

text \<open>A hub at a port, or the device at a port of that hub.\<close>

datatype dev_ref = Root nat | Below nat nat

record 'm ohci = OHCI_Registers +
  m_bFrameTime :: bool
  m_pEOFtimer :: "nat option"
  m_SOFtime :: u64
  m_UsbPacket :: USBPacket
  m_PacketDev :: dev_ref
  m_OldHcControl :: u32
  m_IrqNum :: u8
  m_DoneCount :: int
  m_AsyncTD :: u32
  m_AsyncComplete :: bool
  ohci_memory :: 'm

definition m_UsbFrameTime :: u64 where
  "m_UsbFrameTime = 1000000"

definition m_TicksPerUsbTick :: u64 where
  "m_TicksPerUsbTick = 1000000000 div 12000000"

section \<open>Interrupts\<close>

text \<open>The code that would raise the line of the controller is commented out.\<close>

definition OHCI_UpdateInterrupt :: "'m ohci \<Rightarrow> 'm ohci" where
  "OHCI_UpdateInterrupt s = s"

definition OHCI_SetInterrupt :: "u32 \<Rightarrow> 'm ohci \<Rightarrow> 'm ohci" where
  "OHCI_SetInterrupt v s = OHCI_UpdateInterrupt (s\<lparr>HcInterruptStatus := HcInterruptStatus s OR v\<rparr>)"

section \<open>Ports\<close>

definition upd_port :: "nat \<Rightarrow> (OHCIPort \<Rightarrow> OHCIPort) \<Rightarrow> 'm ohci \<Rightarrow> 'm ohci" where
  "upd_port i f s = s\<lparr>RhPort := (RhPort s)[i := f (RhPort s ! i)]\<rparr>"

abbreviation port_status :: "nat \<Rightarrow> 'm ohci \<Rightarrow> u32" where
  "port_status i s \<equiv> HcRhPortStatus (RhPort s ! i)"

definition upd_status :: "nat \<Rightarrow> (u32 \<Rightarrow> u32) \<Rightarrow> 'm ohci \<Rightarrow> 'm ohci" where
  "upd_status i f = upd_port i (\<lambda>port. port\<lparr>HcRhPortStatus := f (HcRhPortStatus port)\<rparr>)"

definition OHCI_AsyncCancelDevice :: "('k, 'm ohci) USBDeviceClass \<Rightarrow> dev_ref \<Rightarrow> ('k, 'm ohci) dev_op" where
  "OHCI_AsyncCancelDevice klass r = (\<lambda>(dev, s).
     if m_AsyncTD s \<noteq> 0 \<and> USB_IsPacketInflight (m_UsbPacket s) \<and> m_PacketDev s = r
     then bindr (USB_CancelPacket klass (m_UsbPacket s, dev, s)) (\<lambda>(p, dev, s). Inr (dev, s\<lparr>m_UsbPacket := p, m_AsyncTD := 0\<rparr>))
     else Inr (dev, s))"

definition OHCI_Wakeup :: "nat \<Rightarrow> 'm ohci \<Rightarrow> fault + 'm ohci" where
  "OHCI_Wakeup i s =
     (if i < length (RhPort s)
      then
        let suspended = tst (port_status i s) OHCI_PORT_PSS;
            s = (if suspended then upd_status i (\<lambda>st. (st OR OHCI_PORT_PSSC) AND NOT OHCI_PORT_PSS) s else s);
            intr = (if suspended then OHCI_INTR_RHSC else 0)
        in if HcControl s AND OHCI_CTL_HCFS = OHCI_Suspend
           then Inr (OHCI_SetInterrupt OHCI_INTR_RD (s\<lparr>HcControl := (HcControl s AND NOT OHCI_CTL_HCFS) OR OHCI_Resume\<rparr>))
           else Inr (OHCI_SetInterrupt intr s)
      else Inl OutOfBounds)"

text \<open>What the controller offers to the hub at a port, and the class of that hub.\<close>

definition root_ops :: "nat \<Rightarrow> 'm ohci USBPortOps" where
  "root_ops i = \<lparr>port_wakeup = OHCI_Wakeup,
     port_child_detach = \<lambda>n child s. OHCI_AsyncCancelDevice gamepad_class (Below i n) (child, s)\<rparr>"

abbreviation root_class :: "nat \<Rightarrow> (hub, 'm ohci) USBDeviceClass" where
  "root_class i \<equiv> hub_class (root_ops i)"

definition OHCI_Detach :: "nat \<Rightarrow> (hub, 'm ohci) dev_op" where
  "OHCI_Detach i = (\<lambda>(dev, s).
     if i < length (RhPort s)
     then bindr (OHCI_AsyncCancelDevice (root_class i) (Root i) (dev, s)) (\<lambda>(dev, s).
       let old_state = port_status i s;
           st = (if tst old_state OHCI_PORT_CCS then (old_state AND NOT OHCI_PORT_CCS) OR OHCI_PORT_CSC else old_state);
           st = (if tst st OHCI_PORT_PES then (st AND NOT OHCI_PORT_PES) OR OHCI_PORT_PESC else st);
           s = upd_status i (\<lambda>_. st) s
       in Inr (dev, if old_state \<noteq> st then OHCI_SetInterrupt OHCI_INTR_RHSC s else s))
     else Inl OutOfBounds)"

definition OHCI_Attach :: "nat \<Rightarrow> (hub, 'm ohci) dev_op" where
  "OHCI_Attach i = (\<lambda>(dev, s).
     if i < length (RhPort s)
     then
       let old_state = port_status i s;
           st = old_state OR OHCI_PORT_CCS OR OHCI_PORT_CSC;
           st = (if Speed dev = USB_SPEED_LOW then st OR OHCI_PORT_LSDA else st AND NOT OHCI_PORT_LSDA);
           s = upd_status i (\<lambda>_. st) s;
           s = (if HcControl s AND OHCI_CTL_HCFS = OHCI_Suspend then OHCI_SetInterrupt OHCI_INTR_RD s else s)
       in Inr (dev, if old_state \<noteq> st then OHCI_SetInterrupt OHCI_INTR_RHSC s else s)
     else Inl OutOfBounds)"

text \<open>An operation on a packet and the device it is for, with the functions for hubs and for gamepads.\<close>

definition on_device :: "dev_ref \<Rightarrow> (hub, 'm ohci) packet_op \<Rightarrow> (xid, 'm ohci) packet_op \<Rightarrow>
  USBPacket \<times> 'm ohci \<Rightarrow> fault + USBPacket \<times> 'm ohci" where
  "on_device r f g = (\<lambda>(p, s).
     let i = (case r of Root i \<Rightarrow> i | Below i n \<Rightarrow> i) in
     bindr (aget (RhPort s) i) (\<lambda>port.
     case root_Dev port of None \<Rightarrow> Inl NullPointer | Some dev \<Rightarrow>
       case r of
         Root i \<Rightarrow> bindr (f (p, dev, s)) (\<lambda>(p, dev, s). Inr (p, upd_port i (\<lambda>port. port\<lparr>root_Dev := Some dev\<rparr>) s))
       | Below i n \<Rightarrow>
           bindr (aget (klass_state dev) n) (\<lambda>hp.
           case port_Dev hp of None \<Rightarrow> Inl NullPointer | Some child \<Rightarrow>
             bindr (g (p, child, s)) (\<lambda>(p, child, s).
             Inr (p, upd_port i (\<lambda>port. port\<lparr>root_Dev := Some (on_port n (\<lambda>hp. hp\<lparr>port_Dev := Some child\<rparr>) dev)\<rparr>) s)))))"

definition run_packet :: "dev_ref \<Rightarrow> (hub, 'm ohci) packet_op \<Rightarrow> (xid, 'm ohci) packet_op \<Rightarrow> 'm ohci \<Rightarrow> fault + 'm ohci" where
  "run_packet r f g s = bindr (on_device r f g (m_UsbPacket s, s)) (\<lambda>(p, s). Inr (s\<lparr>m_UsbPacket := p\<rparr>))"

text \<open>An operation that has no packet.\<close>

definition lift_op :: "('k, 'w) dev_op \<Rightarrow> ('k, 'w) packet_op" where
  "lift_op f = (\<lambda>(p, t). bindr (f t) (\<lambda>t. Inr (p, t)))"

definition run_device :: "dev_ref \<Rightarrow> (hub, 'm ohci) dev_op \<Rightarrow> (xid, 'm ohci) dev_op \<Rightarrow> 'm ohci \<Rightarrow> fault + 'm ohci" where
  "run_device r f g s = bindr (on_device r (lift_op f) (lift_op g) (m_UsbPacket s, s)) (\<lambda>(_, s). Inr s)"

text \<open>A packet that waits for its device is cancelled.\<close>

definition cancel_pending :: "'m ohci \<Rightarrow> fault + 'm ohci" where
  "cancel_pending s =
     (let r = m_PacketDev s; i = (case r of Root i \<Rightarrow> i | Below i n \<Rightarrow> i) in
      bindr (run_packet r (USB_CancelPacket (root_class i)) (USB_CancelPacket gamepad_class) s) (\<lambda>s. Inr (s\<lparr>m_AsyncTD := 0\<rparr>)))"

definition OHCI_PortPower :: "nat \<Rightarrow> bool \<Rightarrow> 'm ohci \<Rightarrow> 'm ohci" where
  "OHCI_PortPower i p =
     (if p then upd_status i (\<lambda>st. st OR OHCI_PORT_PPS)
      else upd_status i (\<lambda>st. st AND NOT (OHCI_PORT_PPS OR OHCI_PORT_CCS OR OHCI_PORT_PSS OR OHCI_PORT_PRS)))"

definition OHCI_PortSetIfConnected :: "nat \<Rightarrow> u32 \<Rightarrow> 'm ohci \<Rightarrow> 'm ohci \<times> bool" where
  "OHCI_PortSetIfConnected i v s =
     (if v = 0 then (s, False)
      else if \<not> tst (port_status i s) OHCI_PORT_CCS then (upd_status i (\<lambda>st. st OR OHCI_PORT_CSC) s, False)
      else (upd_status i (\<lambda>st. st OR v) s, \<not> tst (port_status i s) v))"

definition reset_root_device :: "nat \<Rightarrow> 'm ohci \<Rightarrow> fault + 'm ohci" where
  "reset_root_device i s =
     (case root_Dev (RhPort s ! i) of
        None \<Rightarrow> Inr s
      | Some _ \<Rightarrow> run_device (Root i) (USB_DeviceReset (root_class i)) Inr s)"

definition OHCI_PortSetStatus :: "nat \<Rightarrow> u32 \<Rightarrow> 'm ohci \<Rightarrow> fault + 'm ohci" where
  "OHCI_PortSetStatus n v s =
     (let old_state = port_status n s;
          s = upd_status n (\<lambda>st. st AND NOT (v AND OHCI_PORT_WTC)) s;
          s = (if tst v OHCI_PORT_CCS then upd_status n (\<lambda>st. st AND NOT OHCI_PORT_PES) s else s);
          s = fst (OHCI_PortSetIfConnected n (v AND OHCI_PORT_PES) s);
          s = fst (OHCI_PortSetIfConnected n (v AND OHCI_PORT_PSS) s);
          (s, reset) = OHCI_PortSetIfConnected n (v AND OHCI_PORT_PRS) s
      in bindr (if reset
                then bindr (reset_root_device n s) (\<lambda>s.
                  Inr (upd_status n (\<lambda>st. (st AND NOT OHCI_PORT_PRS) OR OHCI_PORT_PES OR OHCI_PORT_PRSC) s))
                else Inr s) (\<lambda>s.
         let s = (if tst v OHCI_PORT_LSDA then OHCI_PortPower n False s else s);
             s = (if tst v OHCI_PORT_PPS then OHCI_PortPower n True s else s)
         in Inr (if old_state \<noteq> port_status n s then OHCI_SetInterrupt OHCI_INTR_RHSC s else s)))"

definition OHCI_SetHubStatus :: "u32 \<Rightarrow> 'm ohci \<Rightarrow> 'm ohci" where
  "OHCI_SetHubStatus v s =
     (let old_state = HcRhStatus s;
          s = (if tst v OHCI_RHS_OCIC then s\<lparr>HcRhStatus := HcRhStatus s AND NOT OHCI_RHS_OCIC\<rparr> else s);
          s = (if tst v OHCI_RHS_LPS then fold (\<lambda>i. OHCI_PortPower i False) [0..<4] s else s);
          s = (if tst v OHCI_RHS_LPSC then fold (\<lambda>i. OHCI_PortPower i True) [0..<4] s else s);
          s = (if tst v OHCI_RHS_DRWE then s\<lparr>HcRhStatus := HcRhStatus s OR OHCI_RHS_DRWE\<rparr> else s);
          s = (if tst v OHCI_RHS_CRWE then s\<lparr>HcRhStatus := HcRhStatus s AND NOT OHCI_RHS_DRWE\<rparr> else s)
      in if old_state \<noteq> HcRhStatus s then OHCI_SetInterrupt OHCI_INTR_RHSC s else s)"

fun find_device :: "u8 \<Rightarrow> nat list \<Rightarrow> 'm ohci \<Rightarrow> dev_ref option" where
  "find_device addr [] s = None"
| "find_device addr (i # is) s =
     (if \<not> tst (port_status i s) OHCI_PORT_PES then find_device addr is s
      else case USB_FindDevice UsbHub_FindDevice addr (root_Dev (RhPort s ! i)) of
             Some None \<Rightarrow> Some (Root i)
           | Some (Some n) \<Rightarrow> Some (Below i n)
           | None \<Rightarrow> find_device addr is s)"

definition OHCI_FindDevice :: "u8 \<Rightarrow> 'm ohci \<Rightarrow> dev_ref option" where
  "OHCI_FindDevice addr = find_device addr [0..<4]"

section \<open>States of the controller\<close>

definition OHCI_BusStop :: "'m ohci \<Rightarrow> fault + 'm ohci" where
  "OHCI_BusStop s =
     bindr (case m_pEOFtimer s of Some t \<Rightarrow> Timer_Exit t s | None \<Rightarrow> Inr s) (\<lambda>s. Inr (s\<lparr>m_pEOFtimer := None\<rparr>))"

definition OHCI_SOF :: "bool \<Rightarrow> 'm ohci \<Rightarrow> fault + 'm ohci" where
  "OHCI_SOF bCreate s =
     (case m_pEOFtimer s of
        None \<Rightarrow> Inl NullPointer
      | Some t \<Rightarrow> bindr (GetTime_NS t s) (\<lambda>now.
          bindr (if bCreate then Timer_Start t m_UsbFrameTime (s\<lparr>m_SOFtime := now\<rparr>) else Inr (s\<lparr>m_SOFtime := now\<rparr>)) (\<lambda>s.
          Inr (OHCI_SetInterrupt OHCI_INTR_SF s))))"

definition OHCI_BusStart :: "'m ohci \<Rightarrow> fault + 'm ohci" where
  "OHCI_BusStart s = (let (t, s) = Timer_Create 50 s in OHCI_SOF True (s\<lparr>m_pEOFtimer := Some t\<rparr>))"

definition OHCI_FatalError :: "'m ohci \<Rightarrow> fault + 'm ohci" where
  "OHCI_FatalError s = OHCI_BusStop (OHCI_SetInterrupt OHCI_INTR_UE s)"

definition stop_endpoints :: "nat \<Rightarrow> 'm ohci \<Rightarrow> fault + 'm ohci" where
  "stop_endpoints i s =
     (case root_Dev (RhPort s ! i) of
        None \<Rightarrow> Inr s
      | Some dev \<Rightarrow>
          if Attached dev = 0 then Inr s
          else let stopped = USB_DeviceEPstopped (root_class i) in
            run_device (Root i) (\<lambda>t. bindr (stopped Ctl t)
              (for_each (\<lambda>j t. bindr (stopped (In_ep j) t) (stopped (Out_ep j))) [0..<USB_MAX_ENDPOINTS])) Inr s)"

definition OHCI_StopEndpoints :: "'m ohci \<Rightarrow> fault + 'm ohci" where
  "OHCI_StopEndpoints = for_each stop_endpoints [0..<4]"

definition reset_root_port :: "nat \<Rightarrow> 'm ohci \<Rightarrow> fault + 'm ohci" where
  "reset_root_port i s =
     (let s = upd_status i (\<lambda>_. 0) s in
      case root_Dev (RhPort s ! i) of
        None \<Rightarrow> Inr s
      | Some dev \<Rightarrow>
          if Attached dev = 0 then Inr s
          else run_device (Root i) (USB_PortReset (root_class i) OHCI_Attach OHCI_Detach) Inr s)"

definition OHCI_StateReset :: "'m ohci \<Rightarrow> fault + 'm ohci" where
  "OHCI_StateReset s =
     bindr (OHCI_BusStop s) (\<lambda>s.
     let s = s\<lparr>m_OldHcControl := 0, HcRevision := 0x10, HcControl := 0, HcCommandStatus := 0, HcInterruptStatus := 0,
           HcInterrupt := OHCI_INTR_MIE, HcHCCA := 0, HcPeriodCurrentED := 0, HcControlHeadED := 0, HcControlCurrentED := 0,
           HcBulkHeadED := 0, HcBulkCurrentED := 0, HcDoneHead := 0, HcFmInterval := 0x27782EDF, HcFmRemaining := 0,
           HcFmNumber := 0, HcPeriodicStart := 0, HcLSThreshold := OHCI_LS_THRESH,
           HcRhDescriptorA := OHCI_RHA_NOCP OR OHCI_RHA_NPS OR 4, HcRhDescriptorB := 0, HcRhStatus := 0, m_DoneCount := 7\<rparr>
     in bindr (for_each reset_root_port [0..<4] s) (\<lambda>s.
        bindr (if m_AsyncTD s \<noteq> 0 then cancel_pending s else Inr s) OHCI_StopEndpoints))"

definition OHCI_ChangeState :: "u32 \<Rightarrow> 'm ohci \<Rightarrow> fault + 'm ohci" where
  "OHCI_ChangeState v s =
     (let OldState = HcControl s AND OHCI_CTL_HCFS; s = s\<lparr>HcControl := v\<rparr>; NewState = HcControl s AND OHCI_CTL_HCFS
      in if OldState = NewState then Inr s
         else if NewState = OHCI_Operational then OHCI_BusStart s
         else if NewState = OHCI_Suspend then OHCI_BusStop s
         else if NewState = OHCI_Resume then Inr s
         else OHCI_StateReset s)"

section \<open>Access to the registers\<close>

text \<open>\<open>(a * b) / c\<close>, of which the high and the low half are computed one after the other.\<close>

definition Muldiv64 :: "u64 \<Rightarrow> u32 \<Rightarrow> u32 \<Rightarrow> u64" where
  "Muldiv64 a b c =
     (let rl = (a AND 0xFFFFFFFF) * ucast b; rh = drop_bit 32 a * ucast b + drop_bit 32 rl; c = ucast c :: u64
      in push_bit 32 (rh div c) OR (((push_bit 32 (rh mod c) + (rl AND 0xFFFFFFFF)) div c) AND 0xFFFFFFFF))"

definition OHCI_GetFrameRemaining :: "'m ohci \<Rightarrow> fault + u32" where
  "OHCI_GetFrameRemaining s =
     (if HcControl s AND OHCI_CTL_HCFS \<noteq> OHCI_Operational then Inr (HcFmRemaining s AND OHCI_FMR_FRT)
      else case m_pEOFtimer s of
        None \<Rightarrow> Inl NullPointer
      | Some t \<Rightarrow> bindr (GetTime_NS t s) (\<lambda>now.
          let ticks = now - m_SOFtime s in
          if ticks \<ge> m_UsbFrameTime then Inr (HcFmRemaining s AND OHCI_FMR_FRT)
          else
            let ticks = Muldiv64 1 (ucast ticks) (ucast m_TicksPerUsbTick);
                frame = ucast (ucast (HcFmInterval s AND OHCI_FMI_FI) - ticks) :: u16
            in Inr ((HcFmRemaining s AND OHCI_FMR_FRT) OR ucast frame)))"

text \<open>The registers up to the ports, in their order, but for \<open>HcFmRemaining\<close>, which is computed.\<close>

definition registers :: "'m ohci \<Rightarrow> u32 list" where
  "registers s = [HcRevision s, HcControl s, HcCommandStatus s, HcInterruptStatus s, HcInterrupt s, HcInterrupt s, HcHCCA s,
     HcPeriodCurrentED s, HcControlHeadED s, HcControlCurrentED s, HcBulkHeadED s, HcBulkCurrentED s, HcDoneHead s,
     HcFmInterval s, HcFmRemaining s, HcFmNumber s, HcPeriodicStart s, HcLSThreshold s, HcRhDescriptorA s, HcRhDescriptorB s,
     HcRhStatus s]"

definition OHCI_ReadRegister :: "u32 \<Rightarrow> 'm ohci \<Rightarrow> fault + u32" where
  "OHCI_ReadRegister addr s =
     (let n = unat (drop_bit 2 addr) in
      if tst addr 3 then Inr 0xFFFFFFFF
      else if n = 14 then OHCI_GetFrameRemaining s
      else if n < 21 then Inr (registers s ! n)
      else if n < 25 then Inr (port_status (n - 21) s OR OHCI_PORT_PPS)
      else Inr 0xFFFFFFFF)"

definition OHCI_WriteRegister :: "u32 \<Rightarrow> u32 \<Rightarrow> 'm ohci \<Rightarrow> fault + 'm ohci" where
  "OHCI_WriteRegister addr v s =
     (let n = unat (drop_bit 2 addr) in
      if tst addr 3 then Inr s
      else if n = 1 then OHCI_ChangeState v s
      else if n = 2 then
        let s = s\<lparr>HcCommandStatus := HcCommandStatus s OR (v AND NOT OHCI_STATUS_SOC)\<rparr> in
        if tst (HcCommandStatus s) OHCI_STATUS_HCR then OHCI_StateReset s else Inr s
      else if n = 3 then Inr (OHCI_UpdateInterrupt (s\<lparr>HcInterruptStatus := HcInterruptStatus s AND NOT v\<rparr>))
      else if n = 4 then Inr (OHCI_UpdateInterrupt (s\<lparr>HcInterrupt := HcInterrupt s OR v\<rparr>))
      else if n = 5 then Inr (OHCI_UpdateInterrupt (s\<lparr>HcInterrupt := HcInterrupt s AND NOT v\<rparr>))
      else if n = 6 then Inr (s\<lparr>HcHCCA := v AND OHCI_HCCA_MASK\<rparr>)
      else if n = 8 then Inr (s\<lparr>HcControlHeadED := v AND OHCI_DPTR_MASK\<rparr>)
      else if n = 9 then Inr (s\<lparr>HcControlCurrentED := v AND OHCI_DPTR_MASK\<rparr>)
      else if n = 10 then Inr (s\<lparr>HcBulkHeadED := v AND OHCI_DPTR_MASK\<rparr>)
      else if n = 11 then Inr (s\<lparr>HcBulkCurrentED := v AND OHCI_DPTR_MASK\<rparr>)
      else if n = 13 then Inr (s\<lparr>HcFmInterval := v AND NOT 0xC000\<rparr>)
      else if n = 16 then Inr (s\<lparr>HcPeriodicStart := v AND 0x3FFF\<rparr>)
      else if n = 17 then Inr (s\<lparr>HcLSThreshold := v AND 0xFFF\<rparr>)
      else if n = 18 then Inr (s\<lparr>HcRhDescriptorA := (HcRhDescriptorA s AND NOT OHCI_RHA_RW_MASK) OR (v AND OHCI_RHA_RW_MASK)\<rparr>)
      else if n = 20 then Inr (OHCI_SetHubStatus v s)
      else if 21 \<le> n \<and> n < 25 then OHCI_PortSetStatus (n - 21) v s
      else Inr s)"

end
