(* ===== verification/OhciList.thy ===== *)
theory OhciList
  imports Ohci
begin

text \<open>
  The transfers of the host controller, \<open>core/openxbox/hw/ohci/ohci.cpp\<close>: the descriptors of endpoints and transfers
  in the memory of the guest, the copies of their buffers, the service of the lists and the end of a frame. The
  loops over the lists follow what the guest has written, so that they may not return.
\<close>

section \<open>Descriptors\<close>

type_synonym field = "u32 \<times> nat"

abbreviation (input) ED_FA :: field where "ED_FA \<equiv> (0x7F, 0)"
abbreviation (input) ED_EN :: field where "ED_EN \<equiv> (0x780, 7)"
abbreviation (input) ED_D :: field where "ED_D \<equiv> (0x1800, 11)"
abbreviation (input) ED_MPS :: field where "ED_MPS \<equiv> (0x07FF0000, 16)"
abbreviation (input) TD_DP :: field where "TD_DP \<equiv> (0x180000, 19)"
abbreviation (input) TD_DI :: field where "TD_DI \<equiv> (0xE00000, 21)"
abbreviation (input) TD_EC :: field where "TD_EC \<equiv> (0x0C000000, 26)"
abbreviation (input) TD_CC :: field where "TD_CC \<equiv> (0xF0000000, 28)"
abbreviation (input) TD_SF :: field where "TD_SF \<equiv> (0xFFFF, 0)"
abbreviation (input) TD_FC :: field where "TD_FC \<equiv> (0x07000000, 24)"
abbreviation (input) TD_PSW_CC :: field where "TD_PSW_CC \<equiv> (0xF000, 12)"
abbreviation (input) TD_PSW_SIZE :: field where "TD_PSW_SIZE \<equiv> (0xFFF, 0)"

abbreviation (input) OHCI_ED_K :: u32 where "OHCI_ED_K \<equiv> 0x4000"
abbreviation (input) OHCI_ED_F :: u32 where "OHCI_ED_F \<equiv> 0x8000"
abbreviation (input) OHCI_ED_H :: u32 where "OHCI_ED_H \<equiv> 1"
abbreviation (input) OHCI_ED_C :: u32 where "OHCI_ED_C \<equiv> 2"
abbreviation (input) OHCI_TD_R :: u32 where "OHCI_TD_R \<equiv> 0x40000"
abbreviation (input) OHCI_TD_T0 :: u32 where "OHCI_TD_T0 \<equiv> 0x01000000"
abbreviation (input) OHCI_TD_T1 :: u32 where "OHCI_TD_T1 \<equiv> 0x02000000"

abbreviation (input) OHCI_TD_DIR_SETUP :: u32 where "OHCI_TD_DIR_SETUP \<equiv> 0"
abbreviation (input) OHCI_TD_DIR_OUT :: u32 where "OHCI_TD_DIR_OUT \<equiv> 1"
abbreviation (input) OHCI_TD_DIR_IN :: u32 where "OHCI_TD_DIR_IN \<equiv> 2"

abbreviation (input) OHCI_CC_NOERROR :: u32 where "OHCI_CC_NOERROR \<equiv> 0x0"
abbreviation (input) OHCI_CC_STALL :: u32 where "OHCI_CC_STALL \<equiv> 0x4"
abbreviation (input) OHCI_CC_DEVICENOTRESPONDING :: u32 where "OHCI_CC_DEVICENOTRESPONDING \<equiv> 0x5"
abbreviation (input) OHCI_CC_UNDEXPETEDPID :: u32 where "OHCI_CC_UNDEXPETEDPID \<equiv> 0x7"
abbreviation (input) OHCI_CC_DATAOVERRUN :: u32 where "OHCI_CC_DATAOVERRUN \<equiv> 0x8"
abbreviation (input) OHCI_CC_DATAUNDERRUN :: u32 where "OHCI_CC_DATAUNDERRUN \<equiv> 0x9"

abbreviation (input) OHCI_PAGE_MASK :: u32 where "OHCI_PAGE_MASK \<equiv> 0xFFFFF000"
abbreviation (input) OHCI_OFFSET_MASK :: u32 where "OHCI_OFFSET_MASK \<equiv> 0xFFF"

definition OHCI_BM :: "u32 \<Rightarrow> field \<Rightarrow> u32" where
  "OHCI_BM v f = drop_bit (snd f) (v AND fst f)"

definition OHCI_SET_BM :: "field \<Rightarrow> u32 \<Rightarrow> u32 \<Rightarrow> u32" where
  "OHCI_SET_BM f newval v = (v AND NOT (fst f)) OR (push_bit (snd f) newval AND fst f)"

text \<open>The same on the 16 bits of a packet status word.\<close>

definition SET_PSW :: "field \<Rightarrow> u32 \<Rightarrow> u16 \<Rightarrow> u16" where
  "SET_PSW f newval v = ucast (OHCI_SET_BM f newval (ucast v))"

record OHCI_ED =
  ed_Flags :: u32
  TailP :: u32
  HeadP :: u32
  NextED :: u32

record OHCI_TD =
  td_Flags :: u32
  CurrentBufferPointer :: u32
  NextTD :: u32
  BufferEnd :: u32

record OHCI_ISO_TD =
  iso_Flags :: u32
  BufferPage0 :: u32
  iso_NextTD :: u32
  iso_BufferEnd :: u32
  iso_Offset :: "u16 list"

record OHCI_HCCA =
  HccaInterrruptTable :: "u32 list"
  HccaFrameNumber :: u16
  HccaPad1 :: u16
  HccaDoneHead :: u32

text \<open>The objects as they lie in memory.\<close>

definition bytes16 :: "u16 \<Rightarrow> bytes" where
  "bytes16 v = [ucast v, ucast (drop_bit 8 v)]"

definition ED_bytes :: "OHCI_ED \<Rightarrow> bytes" where
  "ED_bytes ed = concat (map bytes32 [ed_Flags ed, TailP ed, HeadP ed, NextED ed])"

definition ED_of :: "bytes \<Rightarrow> OHCI_ED" where
  "ED_of bs = \<lparr>ed_Flags = rd32 bs 0, TailP = rd32 bs 4, HeadP = rd32 bs 8, NextED = rd32 bs 12\<rparr>"

definition TD_bytes :: "OHCI_TD \<Rightarrow> bytes" where
  "TD_bytes td = concat (map bytes32 [td_Flags td, CurrentBufferPointer td, NextTD td, BufferEnd td])"

definition TD_of :: "bytes \<Rightarrow> OHCI_TD" where
  "TD_of bs = \<lparr>td_Flags = rd32 bs 0, CurrentBufferPointer = rd32 bs 4, NextTD = rd32 bs 8, BufferEnd = rd32 bs 12\<rparr>"

definition IsoTD_bytes :: "OHCI_ISO_TD \<Rightarrow> bytes" where
  "IsoTD_bytes td = concat (map bytes32 [iso_Flags td, BufferPage0 td, iso_NextTD td, iso_BufferEnd td])
     @ concat (map bytes16 (iso_Offset td))"

definition IsoTD_of :: "bytes \<Rightarrow> OHCI_ISO_TD" where
  "IsoTD_of bs = \<lparr>iso_Flags = rd32 bs 0, BufferPage0 = rd32 bs 4, iso_NextTD = rd32 bs 8, iso_BufferEnd = rd32 bs 12,
     iso_Offset = map (\<lambda>i. rd16 bs (16 + 2 * i)) [0..<8]\<rparr>"

definition HCCA_bytes :: "OHCI_HCCA \<Rightarrow> bytes" where
  "HCCA_bytes h = concat (map bytes32 (HccaInterrruptTable h)) @ bytes16 (HccaFrameNumber h) @ bytes16 (HccaPad1 h) @ bytes32 (HccaDoneHead h)"

definition HCCA_of :: "bytes \<Rightarrow> OHCI_HCCA" where
  "HCCA_of bs = \<lparr>HccaInterrruptTable = map (\<lambda>i. rd32 bs (4 * i)) [0..<32], HccaFrameNumber = rd16 bs 128,
     HccaPad1 = rd16 bs 130, HccaDoneHead = rd32 bs 132\<rparr>"

abbreviation (input) sizeof_ED :: nat where "sizeof_ED \<equiv> 16"
abbreviation (input) sizeof_TD :: nat where "sizeof_TD \<equiv> 16"
abbreviation (input) sizeof_ISO_TD :: nat where "sizeof_ISO_TD \<equiv> 32"
abbreviation (input) sizeof_HCCA :: nat where "sizeof_HCCA \<equiv> 136"
abbreviation (input) offsetof_HeadP :: nat where "offsetof_HeadP \<equiv> 8"
abbreviation (input) offsetof_FrameNumber :: nat where "offsetof_FrameNumber \<equiv> 128"

section \<open>Memory\<close>

text \<open>
  What the controller uses of memory: \<open>VMemRead\<close> and \<open>VMemWrite\<close> of the CPU, whose results it ignores, so that a
  failed read leaves its object unassigned, and addresses of the host.
\<close>

record 'm dma =
  cpu_read :: "u32 \<Rightarrow> nat \<Rightarrow> 'm \<Rightarrow> fault + bytes \<times> 'm"
  cpu_write :: "u32 \<Rightarrow> bytes \<Rightarrow> 'm \<Rightarrow> fault + 'm"
  host_read :: "u64 \<Rightarrow> nat \<Rightarrow> 'm \<Rightarrow> fault + bytes"
  host_write :: "u64 \<Rightarrow> bytes \<Rightarrow> 'm \<Rightarrow> fault + 'm"

definition cpu_dma :: "(CpuReg \<Rightarrow> ('v, u32) cpu_op) \<Rightarrow> (u64 \<Rightarrow> nat \<Rightarrow> 'v cpu \<Rightarrow> fault + bytes) \<Rightarrow>
  (u64 \<Rightarrow> bytes \<Rightarrow> 'v cpu \<Rightarrow> fault + 'v cpu) \<Rightarrow> 'v cpu dma" where
  "cpu_dma rd hread hwrite = \<lparr>
     cpu_read = \<lambda>a n s. bindr (VMemRead rd a (of_nat n) s) (\<lambda>(r, s).
       case r of Inl _ \<Rightarrow> Inl Uninitialised | Inr bs \<Rightarrow> Inr (bs, s)),
     cpu_write = \<lambda>a bs s. bindr (VMemWrite rd a (of_nat (length bs)) bs s) (\<lambda>(_, s). Inr s),
     host_read = hread, host_write = hwrite\<rparr>"

abbreviation (input) CONTIGUOUS_MEMORY_BASE :: "'a::len word" where "CONTIGUOUS_MEMORY_BASE \<equiv> 0x80000000"
abbreviation (input) XBOX_MEMORY_SIZE :: u32 where "XBOX_MEMORY_SIZE \<equiv> 0x04000000"

text \<open>A part of an object.\<close>

definition object_part :: "bytes \<Rightarrow> nat \<Rightarrow> nat \<Rightarrow> fault + bytes" where
  "object_part bs off n = (if off + n \<le> length bs then Inr (take n (drop off bs)) else Inl OutOfBounds)"

definition read_object :: "'m dma \<Rightarrow> (bytes \<Rightarrow> 'a) \<Rightarrow> nat \<Rightarrow> u32 \<Rightarrow> 'm ohci \<Rightarrow> fault + 'a option \<times> 'm ohci" where
  "read_object mem of_bytes n paddr s =
     (if paddr \<noteq> 0
      then bindr (cpu_read mem paddr n (ohci_memory s)) (\<lambda>(bs, m). Inr (Some (of_bytes bs), s\<lparr>ohci_memory := m\<rparr>))
      else Inr (None, s))"

definition write_object :: "'m dma \<Rightarrow> u32 \<Rightarrow> bytes \<Rightarrow> 'm ohci \<Rightarrow> fault + bool \<times> 'm ohci" where
  "write_object mem paddr bs s =
     (if paddr \<noteq> 0 then bindr (cpu_write mem paddr bs (ohci_memory s)) (\<lambda>m. Inr (False, s\<lparr>ohci_memory := m\<rparr>)) else Inr (True, s))"

text \<open>No object is an error, and so is the flag of a write.\<close>

definition OHCI_ReadED :: "'m dma \<Rightarrow> u32 \<Rightarrow> 'm ohci \<Rightarrow> fault + OHCI_ED option \<times> 'm ohci" where
  "OHCI_ReadED mem = read_object mem ED_of sizeof_ED"

text \<open>The source of the write is \<open>Ed + OffsetOfHeadP\<close>, which counts in descriptors.\<close>

definition OHCI_WriteED :: "'m dma \<Rightarrow> u32 \<Rightarrow> OHCI_ED \<Rightarrow> 'm ohci \<Rightarrow> fault + bool \<times> 'm ohci" where
  "OHCI_WriteED mem paddr ed s =
     (if paddr \<noteq> 0 then bindr (object_part (ED_bytes ed) (offsetof_HeadP * sizeof_ED) 4) (\<lambda>bs. write_object mem paddr bs s)
      else Inr (True, s))"

definition OHCI_ReadTD :: "'m dma \<Rightarrow> u32 \<Rightarrow> 'm ohci \<Rightarrow> fault + OHCI_TD option \<times> 'm ohci" where
  "OHCI_ReadTD mem = read_object mem TD_of sizeof_TD"

definition OHCI_WriteTD :: "'m dma \<Rightarrow> u32 \<Rightarrow> OHCI_TD \<Rightarrow> 'm ohci \<Rightarrow> fault + bool \<times> 'm ohci" where
  "OHCI_WriteTD mem paddr td = write_object mem paddr (TD_bytes td)"

definition OHCI_ReadIsoTD :: "'m dma \<Rightarrow> u32 \<Rightarrow> 'm ohci \<Rightarrow> fault + OHCI_ISO_TD option \<times> 'm ohci" where
  "OHCI_ReadIsoTD mem = read_object mem IsoTD_of sizeof_ISO_TD"

definition OHCI_WriteIsoTD :: "'m dma \<Rightarrow> u32 \<Rightarrow> OHCI_ISO_TD \<Rightarrow> 'm ohci \<Rightarrow> fault + bool \<times> 'm ohci" where
  "OHCI_WriteIsoTD mem paddr td = write_object mem paddr (IsoTD_bytes td)"

definition OHCI_ReadHCCA :: "'m dma \<Rightarrow> u32 \<Rightarrow> 'm ohci \<Rightarrow> fault + OHCI_HCCA option" where
  "OHCI_ReadHCCA mem paddr s =
     (if paddr \<noteq> 0
      then bindr (host_read mem (ucast (paddr + CONTIGUOUS_MEMORY_BASE)) sizeof_HCCA (ohci_memory s)) (\<lambda>bs. Inr (Some (HCCA_of bs)))
      else Inr None)"

text \<open>The offset has the size of a pointer, so that this sum does not wrap around.\<close>

definition OHCI_WriteHCCA :: "'m dma \<Rightarrow> u32 \<Rightarrow> OHCI_HCCA \<Rightarrow> 'm ohci \<Rightarrow> fault + bool \<times> 'm ohci" where
  "OHCI_WriteHCCA mem paddr h s =
     (if paddr \<noteq> 0
      then bindr (host_write mem (ucast paddr + of_nat offsetof_FrameNumber + CONTIGUOUS_MEMORY_BASE)
             (take 8 (drop offsetof_FrameNumber (HCCA_bytes h))) (ohci_memory s)) (\<lambda>m. Inr (False, s\<lparr>ohci_memory := m\<rparr>))
      else Inr (True, s))"

text \<open>Bytes from place \<open>off\<close> of the buffer of the controller to memory, or from memory.\<close>

definition OHCI_FindAndCopyTD :: "'m dma \<Rightarrow> u32 \<Rightarrow> nat \<Rightarrow> nat \<Rightarrow> bool \<Rightarrow> 'm ohci \<Rightarrow> fault + bool \<times> 'm ohci" where
  "OHCI_FindAndCopyTD mem paddr off n bIsWrite s =
     (let ptr = ucast (paddr + (if paddr < XBOX_MEMORY_SIZE then CONTIGUOUS_MEMORY_BASE else 0)); buf = m_UsbBuffer (m_UsbPacket s) in
      if paddr = 0 then Inr (True, s)
      else if bIsWrite
      then bindr (object_part buf off n) (\<lambda>bs.
           bindr (host_write mem ptr bs (ohci_memory s)) (\<lambda>m. Inr (False, s\<lparr>ohci_memory := m\<rparr>)))
      else bindr (host_read mem ptr n (ohci_memory s)) (\<lambda>bs.
           bindr (memcpy buf off bs n) (\<lambda>buf. Inr (False, s\<lparr>m_UsbPacket := (m_UsbPacket s)\<lparr>m_UsbBuffer := buf\<rparr>\<rparr>))))"

text \<open>A buffer that starts at one address and goes on at the start of the page of another.\<close>

definition copy_pages :: "'m dma \<Rightarrow> u32 \<Rightarrow> u32 \<Rightarrow> nat \<Rightarrow> bool \<Rightarrow> 'm ohci \<Rightarrow> fault + bool \<times> 'm ohci" where
  "copy_pages mem ptr final len bIsWrite s =
     (let n = min (unat (0x1000 - (ptr AND OHCI_OFFSET_MASK))) len in
      bindr (OHCI_FindAndCopyTD mem ptr 0 n bIsWrite s) (\<lambda>(err, s).
      if err then Inr (True, s)
      else if n = len then Inr (False, s)
      else OHCI_FindAndCopyTD mem (final AND NOT OHCI_OFFSET_MASK) n (len - n) bIsWrite s))"

definition OHCI_CopyTD :: "'m dma \<Rightarrow> OHCI_TD \<Rightarrow> nat \<Rightarrow> bool \<Rightarrow> 'm ohci \<Rightarrow> fault + bool \<times> 'm ohci" where
  "OHCI_CopyTD mem td = copy_pages mem (CurrentBufferPointer td) (BufferEnd td)"

definition OHCI_CopyIsoTD :: "'m dma \<Rightarrow> u32 \<Rightarrow> u32 \<Rightarrow> nat \<Rightarrow> bool \<Rightarrow> 'm ohci \<Rightarrow> fault + bool \<times> 'm ohci" where
  "OHCI_CopyIsoTD = copy_pages"

section \<open>Transfers\<close>

definition on_fatal :: "bool \<Rightarrow> 'm ohci \<Rightarrow> fault + 'm ohci" where
  "on_fatal err s = (if err then OHCI_FatalError s else Inr s)"

text \<open>The token of a direction; nothing for a reserved one.\<close>

definition token_pid :: "u32 \<Rightarrow> u32 option" where
  "token_pid direction =
     (if direction = OHCI_TD_DIR_IN then Some USB_TOKEN_IN
      else if direction = OHCI_TD_DIR_OUT then Some USB_TOKEN_OUT
      else if direction = OHCI_TD_DIR_SETUP then Some USB_TOKEN_SETUP
      else None)"

definition td_direction :: "OHCI_ED \<Rightarrow> OHCI_TD \<Rightarrow> u32" where
  "td_direction ed td =
     (let d = OHCI_BM (ed_Flags ed) ED_D in
      if d = OHCI_TD_DIR_OUT \<or> d = OHCI_TD_DIR_IN then d else OHCI_BM (td_Flags td) TD_DP)"

text \<open>How many bytes lie between two addresses of a buffer, which may cross a page.\<close>

definition span :: "u32 \<Rightarrow> u32 \<Rightarrow> nat" where
  "span start final =
     unat (if start AND OHCI_PAGE_MASK \<noteq> final AND OHCI_PAGE_MASK
           then (final AND OHCI_OFFSET_MASK) + 0x1001 - (start AND OHCI_OFFSET_MASK)
           else final - start + 1)"

definition td_length :: "OHCI_TD \<Rightarrow> nat" where
  "td_length td = (if CurrentBufferPointer td \<noteq> 0 \<and> BufferEnd td \<noteq> 0 then span (CurrentBufferPointer td) (BufferEnd td) else 0)"

definition td_packetlen :: "OHCI_ED \<Rightarrow> OHCI_TD \<Rightarrow> u32 \<Rightarrow> nat" where
  "td_packetlen ed td direction =
     (let n = td_length td in
      if n \<noteq> 0 \<and> direction \<noteq> OHCI_TD_DIR_IN then min (unat (OHCI_BM (ed_Flags ed) ED_MPS)) n else n)"

text \<open>The packet is set up and handled by its device; nothing answers for a device that is not there.\<close>

definition submit_packet :: "OHCI_ED \<Rightarrow> u32 \<Rightarrow> u32 \<Rightarrow> nat \<Rightarrow> bool \<Rightarrow> bool \<Rightarrow> 'm ohci \<Rightarrow> fault + (dev_ref \<times> ep_ref) option \<times> 'm ohci" where
  "submit_packet ed pid ident n short_not_ok int_req s =
     (case OHCI_FindDevice (ucast (OHCI_BM (ed_Flags ed) ED_FA)) s of
        None \<Rightarrow>
          bindr (USB_PacketSetup pid None 0 (ucast ident) short_not_ok int_req (m_UsbPacket s)) (\<lambda>p.
          Inr (None, s\<lparr>m_UsbPacket := (USB_PacketAddBuffer 0 n p)\<lparr>Status := USB_RET_NODEV\<rparr>\<rparr>))
      | Some r \<Rightarrow>
          bindr (USB_GetEP pid (unat (OHCI_BM (ed_Flags ed) ED_EN))) (\<lambda>ep.
          bindr (USB_PacketSetup pid (Some ep) 0 (ucast ident) short_not_ok int_req (m_UsbPacket s)) (\<lambda>p.
          let s = s\<lparr>m_UsbPacket := USB_PacketAddBuffer 0 n p, m_PacketDev := r\<rparr>; i = (case r of Root i \<Rightarrow> i | Below i _ \<Rightarrow> i) in
          bindr (run_packet r (USB_HandlePacket (root_class i)) (USB_HandlePacket gamepad_class) s) (\<lambda>s.
          Inr (Some (r, ep), s)))))"

definition flush_queue :: "(dev_ref \<times> ep_ref) option \<Rightarrow> 'm ohci \<Rightarrow> fault + 'm ohci" where
  "flush_queue d s =
     (case d of
        None \<Rightarrow> Inl NullPointer
      | Some (r, ep) \<Rightarrow>
          let i = (case r of Root i \<Rightarrow> i | Below i _ \<Rightarrow> i) in
          run_device r (USB_DeviceFlushEPqueue (root_class i) ep) (USB_DeviceFlushEPqueue gamepad_class ep) s)"

definition packet_result :: "USBPacket \<Rightarrow> int" where
  "packet_result p = (if Status p = USB_RET_SUCCESS then sint (ActualLength p) else Status p)"

abbreviation (input) unsigned_int :: "int \<Rightarrow> nat" where
  "unsigned_int ret \<equiv> nat (ret mod 2 ^ 32)"

definition advance_buffer :: "int \<Rightarrow> OHCI_TD \<Rightarrow> OHCI_TD" where
  "advance_buffer ret td =
     (if (CurrentBufferPointer td AND 0xFFF) + of_int ret > 0xFFF
      then td\<lparr>CurrentBufferPointer := (BufferEnd td AND NOT 0xFFF) + ((CurrentBufferPointer td + of_int ret) AND 0xFFF)\<rparr>
      else td\<lparr>CurrentBufferPointer := CurrentBufferPointer td + of_int ret\<rparr>)"

text \<open>The condition code of a failed transfer, and its error count for a response that is not known.\<close>

definition td_failed :: "int \<Rightarrow> u32 \<Rightarrow> u32" where
  "td_failed ret w =
     (if ret \<ge> 0 then OHCI_SET_BM TD_CC OHCI_CC_DATAUNDERRUN w
      else if ret = USB_RET_IOERROR \<or> ret = USB_RET_NODEV then OHCI_SET_BM TD_CC OHCI_CC_DEVICENOTRESPONDING w
      else if ret = USB_RET_STALL then OHCI_SET_BM TD_CC OHCI_CC_STALL w
      else if ret = USB_RET_BABBLE then OHCI_SET_BM TD_CC OHCI_CC_DATAOVERRUN w
      else OHCI_SET_BM TD_EC 3 (OHCI_SET_BM TD_CC OHCI_CC_UNDEXPETEDPID w))"

text \<open>A descriptor that is done goes to the head of the done queue, and the endpoint moves on.\<close>

definition retire_td :: "u32 \<Rightarrow> OHCI_ED \<times> OHCI_TD \<times> 'm ohci \<Rightarrow> OHCI_ED \<times> OHCI_TD \<times> 'm ohci" where
  "retire_td addr = (\<lambda>(ed, td, s).
     let ed = ed\<lparr>HeadP := (HeadP ed AND NOT OHCI_DPTR_MASK) OR (NextTD td AND OHCI_DPTR_MASK)\<rparr>;
         td = td\<lparr>NextTD := HcDoneHead s\<rparr>;
         s = s\<lparr>HcDoneHead := addr\<rparr>;
         i = uint (OHCI_BM (td_Flags td) TD_DI);
         s = (if i < m_DoneCount s then s\<lparr>m_DoneCount := i\<rparr> else s);
         s = (if OHCI_BM (td_Flags td) TD_CC \<noteq> OHCI_CC_NOERROR then s\<lparr>m_DoneCount := 0\<rparr> else s)
     in (ed, td, s))"

definition write_td :: "'m dma \<Rightarrow> u32 \<Rightarrow> OHCI_ED \<times> OHCI_TD \<times> 'm ohci \<Rightarrow> fault + bool \<times> OHCI_ED \<times> 'm ohci" where
  "write_td mem addr = (\<lambda>(ed, td, s).
     bindr (OHCI_WriteTD mem addr td s) (\<lambda>(err, s).
     if err then bindr (OHCI_FatalError s) (\<lambda>s. Inr (True, ed, s))
     else Inr (OHCI_BM (td_Flags td) TD_CC \<noteq> OHCI_CC_NOERROR, ed, s)))"

text \<open>The result of the transfer is written back; the answer tells whether the endpoint is done for now.\<close>

definition finish_td :: "'m dma \<Rightarrow> u32 \<Rightarrow> u32 \<Rightarrow> nat \<Rightarrow> nat \<Rightarrow> OHCI_ED \<times> OHCI_TD \<times> 'm ohci \<Rightarrow> fault + bool \<times> OHCI_ED \<times> 'm ohci" where
  "finish_td mem addr direction n packetlen = (\<lambda>(ed, td, s).
     let ret = packet_result (m_UsbPacket s); flag_r = tst (td_Flags td) OHCI_TD_R in
     bindr (if ret \<ge> 0 \<and> direction = OHCI_TD_DIR_IN
            then bindr (OHCI_CopyTD mem td (nat ret) True s) (\<lambda>(err, s). on_fatal err s)
            else Inr s) (\<lambda>s.
     let ret = (if ret \<ge> 0 \<and> direction \<noteq> OHCI_TD_DIR_IN then sint (of_nat packetlen :: u32) else ret);
         td = (if ret \<ge> 0 then advance_buffer ret td else td)
     in if unsigned_int ret = packetlen \<or> (direction = OHCI_TD_DIR_IN \<and> ret \<ge> 0 \<and> flag_r)
        then
          let td = (if unsigned_int ret = n then td\<lparr>CurrentBufferPointer := 0\<rparr> else td);
              w = (td_Flags td OR OHCI_TD_T1) XOR OHCI_TD_T0;
              td = td\<lparr>td_Flags := OHCI_SET_BM TD_EC 0 (OHCI_SET_BM TD_CC OHCI_CC_NOERROR w)\<rparr>
          in if direction \<noteq> OHCI_TD_DIR_IN \<and> unsigned_int ret \<noteq> n then write_td mem addr (ed, td, s)
             else write_td mem addr (retire_td addr (ed\<lparr>HeadP := (HeadP ed AND NOT OHCI_ED_C) OR
                    (if tst (td_Flags td) OHCI_TD_T0 then OHCI_ED_C else 0)\<rparr>, td, s))
        else if ret = USB_RET_NAK then Inr (True, ed, s)
        else write_td mem addr (retire_td addr (ed\<lparr>HeadP := HeadP ed OR OHCI_ED_H\<rparr>, td\<lparr>td_Flags := td_failed ret (td_Flags td)\<rparr>, s))))"

definition OHCI_ServiceTD :: "'m dma \<Rightarrow> OHCI_ED \<Rightarrow> 'm ohci \<Rightarrow> fault + bool \<times> OHCI_ED \<times> 'm ohci" where
  "OHCI_ServiceTD mem ed s =
     (let addr = HeadP ed AND OHCI_DPTR_MASK; completion = (addr = m_AsyncTD s) in
      if completion \<and> \<not> m_AsyncComplete s then Inr (True, ed, s)
      else bindr (OHCI_ReadTD mem addr s) (\<lambda>(r, s).
        case r of None \<Rightarrow> bindr (OHCI_FatalError s) (\<lambda>s. Inr (False, ed, s)) | Some td \<Rightarrow>
        let direction = td_direction ed td in
        case token_pid direction of None \<Rightarrow> Inr (True, ed, s) | Some pid \<Rightarrow>
        let n = td_length td; packetlen = td_packetlen ed td direction in
        bindr (if n \<noteq> 0 \<and> direction \<noteq> OHCI_TD_DIR_IN \<and> \<not> completion
               then bindr (OHCI_CopyTD mem td packetlen False s) (\<lambda>(err, s). on_fatal err s)
               else Inr s) (\<lambda>s.
        if completion then finish_td mem addr direction n packetlen (ed, td, s\<lparr>m_AsyncTD := 0, m_AsyncComplete := False\<rparr>)
        else if m_AsyncTD s \<noteq> 0 then Inr (True, ed, s)
        else bindr (submit_packet ed pid addr packetlen (\<not> tst (td_Flags td) OHCI_TD_R) (OHCI_BM (td_Flags td) TD_DI = 0) s) (\<lambda>(d, s).
          if Status (m_UsbPacket s) = USB_RET_ASYNC
          then bindr (flush_queue d s) (\<lambda>s. Inr (True, ed, s\<lparr>m_AsyncTD := addr\<rparr>))
          else finish_td mem addr direction n packetlen (ed, td, s)))))"

section \<open>Isochronous transfers\<close>

definition iso_address :: "OHCI_ISO_TD \<Rightarrow> u32 \<Rightarrow> u32" where
  "iso_address td offset =
     ((if tst offset 0x1000 then iso_BufferEnd td else BufferPage0 td) AND OHCI_PAGE_MASK) OR (offset AND OHCI_OFFSET_MASK)"

definition retire_iso :: "u32 \<Rightarrow> OHCI_ED \<times> OHCI_ISO_TD \<times> 'm ohci \<Rightarrow> OHCI_ED \<times> OHCI_ISO_TD \<times> 'm ohci" where
  "retire_iso addr = (\<lambda>(ed, td, s).
     let ed = ed\<lparr>HeadP := (HeadP ed AND NOT OHCI_DPTR_MASK) OR (iso_NextTD td AND OHCI_DPTR_MASK)\<rparr>;
         td = td\<lparr>iso_NextTD := HcDoneHead s\<rparr>;
         s = s\<lparr>HcDoneHead := addr\<rparr>;
         i = uint (OHCI_BM (iso_Flags td) TD_DI)
     in (ed, td, if i < m_DoneCount s then s\<lparr>m_DoneCount := i\<rparr> else s))"

definition set_psw :: "nat \<Rightarrow> u32 \<Rightarrow> u32 option \<Rightarrow> OHCI_ISO_TD \<Rightarrow> OHCI_ISO_TD" where
  "set_psw R cc sz td = td\<lparr>iso_Offset := (iso_Offset td)[R :=
     (case sz of Some n \<Rightarrow> SET_PSW TD_PSW_SIZE n | None \<Rightarrow> id) (SET_PSW TD_PSW_CC cc (iso_Offset td ! R))]\<rparr>"

text \<open>The status of a packet that failed.\<close>

definition iso_failed :: "nat \<Rightarrow> int \<Rightarrow> nat \<Rightarrow> OHCI_ISO_TD \<Rightarrow> OHCI_ISO_TD" where
  "iso_failed R ret len =
     (if ret > int len then set_psw R OHCI_CC_DATAOVERRUN (Some (of_nat len))
      else if ret \<ge> 0 then set_psw R OHCI_CC_DATAUNDERRUN None
      else if ret = USB_RET_IOERROR \<or> ret = USB_RET_NODEV then set_psw R OHCI_CC_DEVICENOTRESPONDING (Some 0)
      else if ret = USB_RET_NAK \<or> ret = USB_RET_STALL then set_psw R OHCI_CC_STALL (Some 0)
      else set_psw R OHCI_CC_UNDEXPETEDPID None)"

definition finish_iso :: "'m dma \<Rightarrow> u32 \<Rightarrow> u32 \<Rightarrow> nat \<Rightarrow> bool \<Rightarrow> u32 \<Rightarrow> u32 \<Rightarrow> nat \<Rightarrow> OHCI_ED \<times> OHCI_ISO_TD \<times> 'm ohci \<Rightarrow>
  fault + bool \<times> OHCI_ED \<times> 'm ohci" where
  "finish_iso mem addr dir R final start_addr end_addr len = (\<lambda>(ed, td, s).
     let ret = packet_result (m_UsbPacket s);
         ok = dir = OHCI_TD_DIR_IN \<and> ret \<ge> 0 \<and> unsigned_int ret \<le> len
     in bindr (if ok then OHCI_CopyIsoTD mem start_addr end_addr (nat ret) True s else Inr (False, s)) (\<lambda>(err, s).
        if err then bindr (OHCI_FatalError s) (\<lambda>s. Inr (True, ed, s))
        else
          let td = (if ok then set_psw R OHCI_CC_NOERROR (Some (of_int ret)) td
                    else if dir = OHCI_TD_DIR_OUT \<and> unsigned_int ret = len then set_psw R OHCI_CC_NOERROR (Some 0) td
                    else iso_failed R ret len td);
              (ed, td, s) = (if final then retire_iso addr (ed, td\<lparr>iso_Flags := OHCI_SET_BM TD_CC OHCI_CC_NOERROR (iso_Flags td)\<rparr>, s)
                             else (ed, td, s))
          in bindr (OHCI_WriteIsoTD mem addr td s) (\<lambda>(err, s). bindr (on_fatal err s) (\<lambda>s. Inr (True, ed, s)))))"

text \<open>One packet, number \<open>R\<close>, of the descriptor is transferred.\<close>

definition iso_packet :: "'m dma \<Rightarrow> OHCI_ED \<Rightarrow> u32 \<Rightarrow> OHCI_ISO_TD \<Rightarrow> bool \<Rightarrow> nat \<Rightarrow> nat \<Rightarrow> u32 \<Rightarrow> 'm ohci \<Rightarrow>
  fault + bool \<times> OHCI_ED \<times> 'm ohci" where
  "iso_packet mem ed addr td completion R frame_count dir s =
     (case token_pid dir of None \<Rightarrow> Inr (True, ed, s) | Some pid \<Rightarrow>
      if BufferPage0 td = 0 \<or> iso_BufferEnd td = 0 then Inr (True, ed, s)
      else bindr (aget (iso_Offset td) R) (\<lambda>so. bindr (aget (iso_Offset td) (R + 1)) (\<lambda>no.
        let start_offset = ucast so; next_offset = ucast no in
        if \<not> tst (OHCI_BM start_offset TD_PSW_CC) 0xE \<or> (R < frame_count \<and> \<not> tst (OHCI_BM next_offset TD_PSW_CC) 0xE)
           \<or> (R < frame_count \<and> start_offset > next_offset)
        then Inr (True, ed, s)
        else
          let start_addr = iso_address td start_offset;
              end_addr = (if R < frame_count then iso_address td (next_offset - 1) else iso_BufferEnd td);
              len = span start_addr end_addr
          in bindr (if len \<noteq> 0 \<and> dir \<noteq> OHCI_TD_DIR_IN then OHCI_CopyIsoTD mem start_addr end_addr len False s
                    else Inr (False, s)) (\<lambda>(err, s).
             if err then bindr (OHCI_FatalError s) (\<lambda>s. Inr (True, ed, s))
             else bindr (if completion then Inr (None, s)
                    else submit_packet ed pid addr len False (R = frame_count \<and> OHCI_BM (iso_Flags td) TD_DI = 0) s) (\<lambda>(d, s).
               if \<not> completion \<and> Status (m_UsbPacket s) = USB_RET_ASYNC
               then bindr (flush_queue d s) (\<lambda>s. Inr (True, ed, s))
               else finish_iso mem addr dir R (R = frame_count) start_addr end_addr len (ed, td, s))))))"

definition OHCI_ServiceIsoTD :: "'m dma \<Rightarrow> bool \<Rightarrow> OHCI_ED \<Rightarrow> 'm ohci \<Rightarrow> fault + bool \<times> OHCI_ED \<times> 'm ohci" where
  "OHCI_ServiceIsoTD mem completion ed s =
     (let addr = HeadP ed AND OHCI_DPTR_MASK in
      bindr (OHCI_ReadIsoTD mem addr s) (\<lambda>(r, s).
      case r of None \<Rightarrow> bindr (OHCI_FatalError s) (\<lambda>s. Inr (False, ed, s)) | Some td \<Rightarrow>
      let relative_frame_number = sint (ucast (HcFmNumber s) - ucast (OHCI_BM (iso_Flags td) TD_SF) :: u16);
          frame_count = uint (OHCI_BM (iso_Flags td) TD_FC)
      in if relative_frame_number < 0 then Inr (True, ed, s)
         else if relative_frame_number > frame_count
         then
           let (ed, td, s) = retire_iso addr (ed, td\<lparr>iso_Flags := OHCI_SET_BM TD_CC OHCI_CC_DATAOVERRUN (iso_Flags td)\<rparr>, s) in
           bindr (OHCI_WriteIsoTD mem addr td s) (\<lambda>(err, s).
           if err then bindr (OHCI_FatalError s) (\<lambda>s. Inr (True, ed, s)) else Inr (False, ed, s))
         else iso_packet mem ed addr td completion (nat relative_frame_number) (nat frame_count) (OHCI_BM (ed_Flags ed) ED_D) s))"

section \<open>Lists\<close>

text \<open>The descriptors of an endpoint, until one ends the service or the tail is reached.\<close>

partial_function (option) service_TDs :: "'m dma \<Rightarrow> bool \<Rightarrow> bool \<Rightarrow> OHCI_ED \<Rightarrow> 'm ohci \<Rightarrow> (fault + bool \<times> OHCI_ED \<times> 'm ohci) option" where
  "service_TDs mem completion active ed s =
     (if HeadP ed AND OHCI_DPTR_MASK = TailP ed then Some (Inr (active, ed, s))
      else case (if tst (ed_Flags ed) OHCI_ED_F then OHCI_ServiceIsoTD mem completion ed s else OHCI_ServiceTD mem ed s) of
             Inl e \<Rightarrow> Some (Inl e)
           | Inr (stop, ed, s) \<Rightarrow> if stop then Some (Inr (True, ed, s)) else service_TDs mem completion True ed s)"

text \<open>An endpoint that is halted or skipped only loses a packet that waits for its device.\<close>

definition pause_endpoint :: "OHCI_ED \<Rightarrow> 'm ohci \<Rightarrow> fault + 'm ohci" where
  "pause_endpoint ed s =
     (if m_AsyncTD s \<noteq> 0 \<and> HeadP ed AND OHCI_DPTR_MASK = m_AsyncTD s
      then bindr (cancel_pending s) (\<lambda>s.
        case Endpoint (m_UsbPacket s) of None \<Rightarrow> Inl NullPointer | Some ep \<Rightarrow>
          let r = m_PacketDev s; i = (case r of Root i \<Rightarrow> i | Below i _ \<Rightarrow> i) in
          run_device r (USB_DeviceEPstopped (root_class i) ep) (USB_DeviceEPstopped gamepad_class ep) s)
      else Inr s)"

partial_function (option) service_EDs :: "'m dma \<Rightarrow> bool \<Rightarrow> u32 \<Rightarrow> bool \<Rightarrow> 'm ohci \<Rightarrow> (fault + bool \<times> 'm ohci) option" where
  "service_EDs mem completion current active s =
     (if current = 0 then Some (Inr (active, s))
      else case OHCI_ReadED mem current s of
             Inl e \<Rightarrow> Some (Inl e)
           | Inr (None, s) \<Rightarrow> Some (bindr (OHCI_FatalError s) (\<lambda>s. Inr (False, s)))
           | Inr (Some ed, s) \<Rightarrow>
               if tst (HeadP ed) OHCI_ED_H \<or> tst (ed_Flags ed) OHCI_ED_K
               then case pause_endpoint ed s of
                      Inl e \<Rightarrow> Some (Inl e)
                    | Inr s \<Rightarrow> service_EDs mem completion (NextED ed AND OHCI_DPTR_MASK) active s
               else case service_TDs mem completion active ed s of
                      None \<Rightarrow> None
                    | Some (Inl e) \<Rightarrow> Some (Inl e)
                    | Some (Inr (active, ed', s)) \<Rightarrow>
                        (case OHCI_WriteED mem current ed' s of
                           Inl e \<Rightarrow> Some (Inl e)
                         | Inr (err, s) \<Rightarrow>
                             if err then Some (bindr (OHCI_FatalError s) (\<lambda>s. Inr (False, s)))
                             else service_EDs mem completion (NextED ed AND OHCI_DPTR_MASK) active s))"

definition OHCI_ServiceEDlist :: "'m dma \<Rightarrow> u32 \<Rightarrow> bool \<Rightarrow> 'm ohci \<Rightarrow> (bool \<times> 'm ohci) outcome" where
  "OHCI_ServiceEDlist mem head completion = service_EDs mem completion head False"

definition OHCI_ProcessLists :: "'m dma \<Rightarrow> bool \<Rightarrow> 'm ohci \<Rightarrow> 'm ohci outcome" where
  "OHCI_ProcessLists mem completion s =
     obind (if tst (HcControl s) OHCI_CTL_CLE \<and> tst (HcCommandStatus s) OHCI_STATUS_CLF
            then obind (OHCI_ServiceEDlist mem (HcControlHeadED s) completion s) (\<lambda>(active, s).
              Some (Inr (if active then s
                else s\<lparr>HcControlCurrentED := 0, HcCommandStatus := HcCommandStatus s AND NOT OHCI_STATUS_CLF\<rparr>)))
            else Some (Inr s)) (\<lambda>s.
     if tst (HcControl s) OHCI_CTL_BLE \<and> tst (HcCommandStatus s) OHCI_STATUS_BLF
     then obind (OHCI_ServiceEDlist mem (HcBulkHeadED s) completion s) (\<lambda>(active, s).
       Some (Inr (if active then s
         else s\<lparr>HcBulkCurrentED := 0, HcCommandStatus := HcCommandStatus s AND NOT OHCI_STATUS_BLF\<rparr>)))
     else Some (Inr s))"

text \<open>A device has completed the packet that waited for it.\<close>

definition OHCI_AsyncCompletePacket :: "'m dma \<Rightarrow> 'm ohci \<Rightarrow> 'm ohci outcome" where
  "OHCI_AsyncCompletePacket mem s = OHCI_ProcessLists mem True (s\<lparr>m_AsyncComplete := True\<rparr>)"

section \<open>The end of a frame\<close>

definition unlock :: "'m ohci \<Rightarrow> 'm ohci" where
  "unlock s = s\<lparr>m_bFrameTime := False\<rparr>"

text \<open>What follows the lists: the frame is counted, the done queue handed over, and the next frame starts.\<close>

definition next_frame :: "'m dma \<Rightarrow> OHCI_HCCA \<Rightarrow> 'm ohci \<Rightarrow> fault + 'm ohci" where
  "next_frame mem hcca s =
     (let s = s\<lparr>HcFmRemaining := (if HcFmInterval s AND OHCI_FMI_FIT = 0 then HcFmRemaining s AND NOT OHCI_FMR_FRT
                                else HcFmRemaining s OR OHCI_FMR_FRT)\<rparr>;
          s = s\<lparr>HcFmNumber := (HcFmNumber s + 1) AND 0xFFFF\<rparr>;
          hcca = hcca\<lparr>HccaFrameNumber := ucast (HcFmNumber s)\<rparr>;
          (hcca, s) =
            (if m_DoneCount s = 0 \<and> \<not> tst (HcInterruptStatus s) OHCI_INTR_WD
             then let head = (if tst (HcInterrupt s) (HcInterruptStatus s) then HcDoneHead s OR 1 else HcDoneHead s) in
               (hcca\<lparr>HccaDoneHead := head\<rparr>, OHCI_SetInterrupt OHCI_INTR_WD (s\<lparr>HcDoneHead := 0, m_DoneCount := 7\<rparr>))
             else (hcca, s));
          s = (if m_DoneCount s \<noteq> 7 \<and> m_DoneCount s \<noteq> 0 then s\<lparr>m_DoneCount := m_DoneCount s - 1\<rparr> else s)
      in bindr (OHCI_SOF False s) (\<lambda>s.
         bindr (OHCI_WriteHCCA mem (HcHCCA s) hcca s) (\<lambda>(err, s). bindr (on_fatal err s) (\<lambda>s. Inr (unlock s)))))"

text \<open>The worker waits for the flag, which only another thread can clear.\<close>

definition OHCI_FrameBoundaryWorker :: "'m dma \<Rightarrow> 'm ohci \<Rightarrow> 'm ohci outcome" where
  "OHCI_FrameBoundaryWorker mem s =
     (if m_bFrameTime s then None
      else
        let s = s\<lparr>m_bFrameTime := True\<rparr> in
        obind (Some (OHCI_ReadHCCA mem (HcHCCA s) s)) (\<lambda>r.
        case r of None \<Rightarrow> Some (bindr (OHCI_FatalError s) (\<lambda>s. Inr (unlock s))) | Some hcca \<Rightarrow>
        obind (if tst (HcControl s) OHCI_CTL_PLE
               then obind (OHCI_ServiceEDlist mem (HccaInterrruptTable hcca ! unat (HcFmNumber s AND 0x1F)) False s) (\<lambda>(_, s). Some (Inr s))
               else Some (Inr s)) (\<lambda>s.
        obind (if tst (m_OldHcControl s AND NOT (HcControl s)) (OHCI_CTL_BLE OR OHCI_CTL_CLE)
               then Some (bindr (if m_AsyncTD s \<noteq> 0 then cancel_pending s else Inr s) OHCI_StopEndpoints)
               else Some (Inr s)) (\<lambda>s.
        obind (OHCI_ProcessLists mem False (s\<lparr>m_OldHcControl := HcControl s\<rparr>)) (\<lambda>s.
        if tst (HcInterruptStatus s) OHCI_INTR_UE then Some (Inr (unlock s))
        else Some (next_frame mem hcca s))))))"

text \<open>A pass of a thread of the timers, whose callback is the worker.\<close>

definition frame_callback :: "'m dma \<Rightarrow> 'm ohci \<Rightarrow> fault + 'm ohci" where
  "frame_callback mem s = (case OHCI_FrameBoundaryWorker mem s of Some r \<Rightarrow> r | None \<Rightarrow> Inl EndlessLoop)"

section \<open>The device of the controller\<close>

definition new_ohci :: "u8 \<Rightarrow> 'm \<Rightarrow> u64 \<Rightarrow> 'm ohci" where
  "new_ohci Irq m now = \<lparr>timer_objects = [], TimerList = [], clock_threads = [], host_time = now,
     HcRevision = 0, HcControl = 0, HcCommandStatus = 0, HcInterruptStatus = 0, HcInterrupt = 0, HcHCCA = 0, HcPeriodCurrentED = 0,
     HcControlHeadED = 0, HcControlCurrentED = 0, HcBulkHeadED = 0, HcBulkCurrentED = 0, HcDoneHead = 0, HcFmInterval = 0,
     HcFmRemaining = 0, HcFmNumber = 0, HcPeriodicStart = 0, HcLSThreshold = 0, HcRhDescriptorA = 0, HcRhDescriptorB = 0, HcRhStatus = 0,
     RhPort = map (\<lambda>i. \<lparr>UsbPort = USB_RegisterPort (i + (if Irq = 9 then 4 else 0)) (USB_SPEED_MASK_LOW OR USB_SPEED_MASK_FULL),
       HcRhPortStatus = 0, root_Dev = None\<rparr>) [0..<4],
     m_bFrameTime = False, m_pEOFtimer = None, m_SOFtime = 0,
     m_UsbPacket = \<lparr>Pid = 0, Id = 0, Endpoint = None, packet_Stream = 0,
       IoVec = \<lparr>IoVecStruct = [], AllocNumber = 1, Size = 0\<rparr>, m_UsbBuffer = replicate 8192 0, Parameter = 0, ShortNotOK = False,
       IntReq = False, Status = 0, ActualLength = 0, packet_State = USB_PACKET_UNDEFINED\<rparr>,
     m_PacketDev = Root 0, m_OldHcControl = 0, m_IrqNum = Irq, m_DoneCount = 0, m_AsyncTD = 0, m_AsyncComplete = False,
     ohci_memory = m\<rparr>"

definition OHCI_OHCI :: "u8 \<Rightarrow> 'm \<Rightarrow> u64 \<Rightarrow> fault + 'm ohci" where
  "OHCI_OHCI Irq m now = OHCI_StateReset (new_ohci Irq m now)"

definition USB_PCIMMIORead :: "nat \<Rightarrow> u32 \<Rightarrow> 'm ohci \<Rightarrow> fault + u32" where
  "USB_PCIMMIORead barIndex addr s = (if barIndex = 0 then OHCI_ReadRegister addr s else Inl AssertFailed)"

definition USB_PCIMMIOWrite :: "nat \<Rightarrow> u32 \<Rightarrow> u32 \<Rightarrow> 'm ohci \<Rightarrow> fault + 'm ohci" where
  "USB_PCIMMIOWrite barIndex addr v s = (if barIndex = 0 then OHCI_WriteRegister addr v s else Inl AssertFailed)"

end
