(* ===== verification/Usb_Laws.thy ===== *)
theory Usb_Laws
  imports UsbDesc
begin

text \<open>
  Control transfers: what a token does to the buffers of packet and device, transfers in both directions as
  sequences of tokens, and the state that a refused setup packet leaves behind.
\<close>

section \<open>Copies of packets with one piece\<close>

text \<open>The packets of the controller: one piece, at the start of its buffer.\<close>

definition one_piece :: "nat \<Rightarrow> USBPacket \<Rightarrow> bool" where
  "one_piece n p \<longleftrightarrow> IoVecStruct (IoVec p) = [(0, n)] \<and> Size (IoVec p) = n \<and> n \<le> length (m_UsbBuffer p)
     \<and> ActualLength p = 0 \<and> n < 2 ^ 32"

lemma copy_out:
  assumes p: "one_piece n p" and "Pid p = USB_TOKEN_SETUP \<or> Pid p = USB_TOKEN_OUT" and k: "k \<le> n" "off + k \<le> length obj"
  shows "USB_PacketCopy obj off k p =
    Inr (take off obj @ take k (m_UsbBuffer p) @ drop (off + k) obj, p\<lparr>ActualLength := of_nat k\<rparr>)"
proof -
  have "IoVecTobuffer (m_UsbBuffer p) [(0, n)] 0 k = Inr (take k (m_UsbBuffer p))"
    using p k by (cases "n = 0"; cases "k = 0") (auto simp: one_piece_def min_def Let_def)
  moreover have len: "length (take k (m_UsbBuffer p)) = k" using p k by (auto simp: one_piece_def)
  then have "memcpy obj off (take k (m_UsbBuffer p)) (length (take k (m_UsbBuffer p)))
      = Inr (take off obj @ take k (m_UsbBuffer p) @ drop (off + k) obj)"
    using k unfolding len memcpy_def by (simp add: min_def)
  ultimately show ?thesis
    using p assms(2) k by (auto simp: USB_PacketCopy_def one_piece_def Let_def simp del: length_take)
qed

lemma copy_in:
  assumes p: "one_piece n p" and "Pid p = USB_TOKEN_IN" and k: "k \<le> n" "off + k \<le> length obj"
  shows "USB_PacketCopy obj off k p = Inr (obj, p\<lparr>ActualLength := of_nat k,
    m_UsbBuffer := take k (drop off obj) @ drop k (m_UsbBuffer p)\<rparr>)"
proof -
  have "IoVecFromBuffer [(0, n)] 0 (drop off obj) k (m_UsbBuffer p) =
      Inr (k, take k (drop off obj) @ drop k (m_UsbBuffer p))"
    using p k by (cases "n = 0"; cases "k = 0") (auto simp: one_piece_def min_def memcpy_def Let_def)
  then show ?thesis
    using p assms(2) k by (auto simp: USB_PacketCopy_def one_piece_def Let_def)
qed

lemma copy_beyond:
  assumes "one_piece n p" and "Pid p = USB_TOKEN_SETUP \<or> Pid p = USB_TOKEN_OUT" and "k \<le> n" and "length obj < off + k"
  shows "USB_PacketCopy obj off k p = Inl OutOfBounds"
proof -
  have "IoVecTobuffer (m_UsbBuffer p) [(0, n)] 0 k = Inr (take k (m_UsbBuffer p))"
    using assms by (cases "n = 0"; cases "k = 0") (auto simp: one_piece_def min_def Let_def)
  then show ?thesis
    using assms by (auto simp: USB_PacketCopy_def one_piece_def memcpy_def min_def Let_def)
qed

section \<open>Tokens of the controller\<close>

text \<open>What the controller does with a packet for endpoint zero: it loads its buffer, sets the packet up and submits it.
  The identification and the two flags of the packet, which no device looks at, stay as they were.\<close>

definition submit :: "('k, 'w) USBDeviceClass \<Rightarrow> u32 \<Rightarrow> bytes \<Rightarrow> nat \<Rightarrow> ('k, 'w) packet_op" where
  "submit klass pid load n = (\<lambda>(p, s, w).
     bindr (USB_PacketSetup pid (Some Ctl) 0 (ucast (Id p)) (ShortNotOK p) (IntReq p)
       (p\<lparr>m_UsbBuffer := load @ drop (length load) (m_UsbBuffer p)\<rparr>)) (\<lambda>p.
     USB_HandlePacket klass (USB_PacketAddBuffer 0 n p, s, w)))"

text \<open>A device that answers on endpoint zero, with its buffers.\<close>

definition ready_device :: "'k XboxDeviceState \<Rightarrow> bool" where
  "ready_device s \<longleftrightarrow> dev_State s = USB_STATE_DEFAULT \<and> Num (EP_ctl s) = 0 \<and> Queue (EP_ctl s) = []
     \<and> \<not> Pipeline (EP_ctl s) \<and> \<not> Halted (EP_ctl s)
     \<and> length (SetupBuffer s) = 8 \<and> length (DataBuffer s) = DATA_BUFFER_SIZE"

definition idle_packet :: "USBPacket \<Rightarrow> bool" where
  "idle_packet p \<longleftrightarrow> \<not> USB_IsPacketInflight p \<and> length (m_UsbBuffer p) = 8192"

definition token :: "u32 \<Rightarrow> bytes \<Rightarrow> nat \<Rightarrow> USBPacket \<Rightarrow> USBPacket" where
  "token pid load n p = USB_PacketAddBuffer 0 n (p\<lparr>m_UsbBuffer := load @ drop (length load) (m_UsbBuffer p),
     Pid := pid, Endpoint := Some Ctl, packet_Stream := 0, Status := USB_RET_SUCCESS, ActualLength := 0,
     Parameter := 0, IoVec := IoVecReset (IoVec p), packet_State := USB_PACKET_SETUP\<rparr>)"

lemma token_fields [simp]:
  "Pid (token pid load n p) = pid" "Endpoint (token pid load n p) = Some Ctl" "Status (token pid load n p) = USB_RET_SUCCESS"
  "ActualLength (token pid load n p) = 0" "Parameter (token pid load n p) = 0" "packet_Stream (token pid load n p) = 0"
  "packet_State (token pid load n p) = USB_PACKET_SETUP" "Size (IoVec (token pid load n p)) = n"
  "m_UsbBuffer (token pid load n p) = load @ drop (length load) (m_UsbBuffer p)"
  "(token pid load n p)\<lparr>Status := USB_RET_SUCCESS\<rparr> = token pid load n p"
  by (simp_all add: token_def USB_PacketAddBuffer_def IoVecAdd_def IoVecReset_def Let_def)

lemma one_piece_token [simp]:
  "idle_packet p \<Longrightarrow> length load \<le> n \<Longrightarrow> n \<le> 8192 \<Longrightarrow> one_piece n (token pid load n p)"
  by (auto simp: one_piece_def token_def idle_packet_def USB_PacketAddBuffer_def IoVecAdd_def IoVecReset_def Let_def)

text \<open>What a token that does not fail does; the class leaves the endpoints alone.\<close>

definition process :: "('k, 'w) USBDeviceClass \<Rightarrow> ('k, 'w) packet_op" where
  "process klass = (\<lambda>(p, s, w).
     if Pid p = USB_TOKEN_SETUP then USB_DoTokenSetup klass (p, s, w)
     else if Pid p = USB_TOKEN_IN then DoTokenIn klass (p, s, w)
     else if Pid p = USB_TOKEN_OUT then DoTokenOut (p, s, w)
     else Inr (p\<lparr>Status := USB_RET_STALL\<rparr>, s, w))"

lemma submit_handles:
  assumes "idle_packet p"
  shows "submit klass pid load n (p, s, w) = USB_HandlePacket klass (token pid load n p, s, w)"
proof -
  have "(ucast (ucast (Id p) :: u64) :: u32) = Id p" by (rule bit_word_eqI) (simp add: bit_simps)
  then show ?thesis
    using assms by (simp add: submit_def token_def USB_PacketSetup_def idle_packet_def USB_IsPacketInflight_def)
qed

lemma submit_process:
  assumes "idle_packet p" and s: "ready_device s"
    and "process klass (token pid load n p, s, w) = Inr (q, t, w')" and "\<not> Pipeline (EP_ctl t)"
    and "Status q = USB_RET_SUCCESS \<or> Status q = USB_RET_STALL"
  shows "submit klass pid load n (p, s, w) = Inr (q\<lparr>packet_State := USB_PACKET_COMPLETE\<rparr>, t, w')"
proof -
  have "s\<lparr>EP_ctl := (EP_ctl s)\<lparr>Halted := False\<rparr>\<rparr> = s"
    using s by (simp add: ready_device_def)
  then have same: "upd_EP Ctl (\<lambda>e. e\<lparr>Halted := False\<rparr>) s = Inr s" by (simp add: upd_EP_def)
  have one: "USB_ProcessOne klass (token pid load n p, s, w) = Inr (q, t, w')"
    using assms(3) s by (simp add: USB_ProcessOne_def get_EP_def process_def ready_device_def)
  have eps: "get_EP u Ctl = Inr (EP_ctl u)" for u :: "'a XboxDeviceState" by (simp add: get_EP_def)
  have st: "Status q \<noteq> USB_RET_ASYNC" "Status q \<noteq> USB_RET_ADD_TO_QUEUE" "Status q \<noteq> USB_RET_NAK" using assms(5) by auto
  have "submit klass pid load n (p, s, w) = USB_HandlePacket klass (token pid load n p, s, w)"
    by (rule submit_handles [OF assms(1)])
  also have "\<dots> = Inr (q\<lparr>packet_State := USB_PACKET_COMPLETE\<rparr>, t, w')"
    using s unfolding ready_device_def USB_HandlePacket_def
    by (simp only: prod.case token_fields option.case eps bindr.simps same one assms(4) not_False_eq_True if_False if_True st simp_thms)
  finally show ?thesis .
qed

lemma ready_pipeline: "ready_device s \<Longrightarrow> \<not> Pipeline (EP_ctl s)"
  by (simp add: ready_device_def)

lemma idle_token: "idle_packet p \<Longrightarrow> length load \<le> 8192 \<Longrightarrow> idle_packet (token pid load n p)"
  by (simp add: idle_packet_def USB_IsPacketInflight_def)

lemma submit_faults:
  assumes "idle_packet p" and s: "ready_device s" and "process klass (token pid load n p, s, w) = Inl e"
  shows "submit klass pid load n (p, s, w) = Inl e"
proof -
  have "s\<lparr>EP_ctl := (EP_ctl s)\<lparr>Halted := False\<rparr>\<rparr> = s"
    using s by (simp add: ready_device_def)
  then have same: "upd_EP Ctl (\<lambda>e. e\<lparr>Halted := False\<rparr>) s = Inr s" by (simp add: upd_EP_def)
  have one: "USB_ProcessOne klass (token pid load n p, s, w) = Inl e"
    using assms(3) s by (simp add: USB_ProcessOne_def get_EP_def process_def ready_device_def)
  have eps: "get_EP u Ctl = Inr (EP_ctl u)" for u :: "'a XboxDeviceState" by (simp add: get_EP_def)
  have "submit klass pid load n (p, s, w) = USB_HandlePacket klass (token pid load n p, s, w)"
    by (rule submit_handles [OF assms(1)])
  also have "\<dots> = Inl e"
    using s unfolding ready_device_def USB_HandlePacket_def
    by (simp only: prod.case token_fields option.case eps bindr.simps same one not_False_eq_True if_False if_True simp_thms)
  finally show ?thesis .
qed

lemma le16_width: "unat (push_bit 8 (ucast a) OR ucast b :: u32) < 0x10000" for a b :: u8
proof -
  have "push_bit 8 (ucast a) OR ucast b = (ucast (le16 b a) :: u32)"
    by (rule bit_word_eqI) (auto simp: le16_def bit_simps dest: bit_imp_le_length)
  moreover have "unat (le16 b a) < 2 ^ LENGTH(16)" by (rule unsigned_less)
  ultimately show ?thesis by (simp add: unsigned_ucast_eq take_bit_nat_eq_self)
qed

lemma idle_complete [simp]: "length (m_UsbBuffer q) = 8192 \<Longrightarrow> idle_packet (q\<lparr>packet_State := USB_PACKET_COMPLETE\<rparr>)"
  by (simp add: idle_packet_def USB_IsPacketInflight_def)

section \<open>Reading\<close>

text \<open>Devices that only differ in the registers of control transfers.\<close>

definition same_device :: "'k XboxDeviceState \<Rightarrow> 'k XboxDeviceState \<Rightarrow> bool" where
  "same_device s t \<longleftrightarrow>
     t\<lparr>SetupBuffer := [], DataBuffer := [], SetupState := SETUP_STATE_IDLE, SetupLength := 0, SetupIndex := 0\<rparr> =
     s\<lparr>SetupBuffer := [], DataBuffer := [], SetupState := SETUP_STATE_IDLE, SetupLength := 0, SetupIndex := 0\<rparr>"

lemma same_device_refl [simp]: "same_device s s"
  by (simp add: same_device_def)

lemma same_device_trans: "same_device s t \<Longrightarrow> same_device t u \<Longrightarrow> same_device s u"
  by (simp add: same_device_def)

lemma same_device_fields:
  assumes "same_device s t"
  shows "klass_state t = klass_state s" "Device t = Device s" "Config t = Config s" "Strings t = Strings s"
    "RemoteWakeup t = RemoteWakeup s" "Addr t = Addr s" "Attached t = Attached s" "NumInterfaces t = NumInterfaces s"
    "EP_in t = EP_in s" "EP_out t = EP_out s" "EP_ctl t = EP_ctl s" "Ifaces t = Ifaces s" "AltSetting t = AltSetting s"
    "Configuration t = Configuration s" "dev_State t = dev_State s"
  using arg_cong [OF assms [unfolded same_device_def], of klass_state] arg_cong [OF assms [unfolded same_device_def], of Device]
    arg_cong [OF assms [unfolded same_device_def], of Config] arg_cong [OF assms [unfolded same_device_def], of Strings]
    arg_cong [OF assms [unfolded same_device_def], of RemoteWakeup] arg_cong [OF assms [unfolded same_device_def], of Addr]
    arg_cong [OF assms [unfolded same_device_def], of Attached] arg_cong [OF assms [unfolded same_device_def], of NumInterfaces]
    arg_cong [OF assms [unfolded same_device_def], of EP_in] arg_cong [OF assms [unfolded same_device_def], of EP_out]
    arg_cong [OF assms [unfolded same_device_def], of EP_ctl] arg_cong [OF assms [unfolded same_device_def], of Ifaces]
    arg_cong [OF assms [unfolded same_device_def], of AltSetting] arg_cong [OF assms [unfolded same_device_def], of Configuration]
    arg_cong [OF assms [unfolded same_device_def], of dev_State]
  by simp_all

lemma same_device_put [simp]:
  "same_device s (t\<lparr>SetupBuffer := b\<rparr>) = same_device s t" "same_device s (t\<lparr>DataBuffer := b\<rparr>) = same_device s t"
  "same_device s (t\<lparr>SetupState := st\<rparr>) = same_device s t" "same_device s (t\<lparr>SetupLength := l\<rparr>) = same_device s t"
  "same_device s (t\<lparr>SetupIndex := l\<rparr>) = same_device s t"
  "same_device (s\<lparr>SetupBuffer := b\<rparr>) t = same_device s t" "same_device (s\<lparr>DataBuffer := b\<rparr>) t = same_device s t"
  "same_device (s\<lparr>SetupState := st\<rparr>) t = same_device s t" "same_device (s\<lparr>SetupLength := l\<rparr>) t = same_device s t"
  "same_device (s\<lparr>SetupIndex := l\<rparr>) t = same_device s t"
  by (simp_all add: same_device_def)

text \<open>The device is in the data stage of a transfer of \<open>bs\<close> to the host, of which the first \<open>i\<close> bytes are sent.\<close>

definition reading :: "nat \<Rightarrow> bytes \<Rightarrow> 'k XboxDeviceState \<Rightarrow> bool" where
  "reading i bs s \<longleftrightarrow> ready_device s \<and> tst (SetupBuffer s ! 0) USB_DIR_IN \<and> length bs \<le> DATA_BUFFER_SIZE
     \<and> take (length bs) (DataBuffer s) = bs \<and> i \<le> length bs \<and> SetupLength s = of_nat (length bs) \<and> SetupIndex s = of_nat i
     \<and> (SetupState s = SETUP_STATE_DATA \<and> (i < length bs \<or> bs = []) \<or> SetupState s = SETUP_STATE_ACK \<and> i = length bs)"

lemma unat_small [simp]: "n \<le> DATA_BUFFER_SIZE \<Longrightarrow> unat (of_nat n :: u32) = n"
  by (simp add: unat_of_nat take_bit_nat_eq_self DATA_BUFFER_SIZE_def)

lemma of_nat_diff_small: "i \<le> n \<Longrightarrow> (of_nat n :: u32) - of_nat i = of_nat (n - i)"
  by simp

lemma data_stage_in:
  assumes p: "one_piece n p" "Pid p = USB_TOKEN_IN" and s: "length (DataBuffer s) = DATA_BUFFER_SIZE"
    and i: "i \<le> l" "l \<le> DATA_BUFFER_SIZE" "SetupLength s = of_nat l" "SetupIndex s = of_nat i"
  defines "k \<equiv> min n (l - i)"
  shows "data_stage (p, s, w) = Inr (p\<lparr>ActualLength := of_nat k, m_UsbBuffer := take k (drop i (DataBuffer s)) @ drop k (m_UsbBuffer p)\<rparr>,
    s\<lparr>SetupIndex := of_nat (i + k), SetupState := (if i + k = l then SETUP_STATE_ACK else SetupState s)\<rparr>, w)"
proof -
  have small: "l - i \<le> DATA_BUFFER_SIZE" "k \<le> DATA_BUFFER_SIZE" "i + k \<le> DATA_BUFFER_SIZE" "i \<le> DATA_BUFFER_SIZE"
    using i by (auto simp: k_def)
  have left: "SetupLength s - SetupIndex s = of_nat (l - i)" using i by simp
  have count: "(if unat (SetupLength s - SetupIndex s) > Size (IoVec p) then of_nat (Size (IoVec p)) else SetupLength s - SetupIndex s) = (of_nat k :: u32)"
    using p small(1) unfolding left by (simp add: one_piece_def k_def min_def)
  have cpy: "USB_PacketCopy (DataBuffer s) i k p = Inr (DataBuffer s, p\<lparr>ActualLength := of_nat k,
      m_UsbBuffer := take k (drop i (DataBuffer s)) @ drop k (m_UsbBuffer p)\<rparr>)"
    using p i s by (intro copy_in) (auto simp: k_def)
  have last: "of_nat l \<le> (of_nat i + of_nat k :: u32) \<longleftrightarrow> i + k = l"
    using i small unat_small [of "i + k"] by (auto simp: word_le_nat_alt k_def)
  show ?thesis
    unfolding data_stage_def Let_def prod.case count using small i cpy last by simp
qed

lemma in_token:
  assumes p: "idle_packet p" and s: "reading i bs s" and n: "n \<le> 8192"
  defines "k \<equiv> min n (length bs - i)"
  shows "\<exists>q t. submit klass USB_TOKEN_IN [] n (p, s, w) = Inr (q, t, w) \<and> idle_packet q \<and> Status q = USB_RET_SUCCESS
    \<and> ActualLength q = of_nat k \<and> take k (m_UsbBuffer q) = take n (drop i bs) \<and> reading (i + k) bs t \<and> same_device s t"
proof -
  let ?p = "token USB_TOKEN_IN [] n p"
  have one: "one_piece n ?p" using p n by simp
  have r: "ready_device s" and dir: "tst (SetupBuffer s ! 0) USB_DIR_IN" and data: "take (length bs) (DataBuffer s) = bs"
    and len: "length bs \<le> DATA_BUFFER_SIZE" "i \<le> length bs" "length (DataBuffer s) = DATA_BUFFER_SIZE"
    and regs: "SetupLength s = of_nat (length bs)" "SetupIndex s = of_nat i"
    using s by (auto simp: reading_def ready_device_def)
  show ?thesis
  proof (cases "SetupState s = SETUP_STATE_DATA")
    case True
    let ?q = "?p\<lparr>ActualLength := of_nat k, m_UsbBuffer := take k (drop i (DataBuffer s)) @ drop k (m_UsbBuffer ?p)\<rparr>"
    let ?t = "s\<lparr>SetupIndex := of_nat (i + k), SetupState := (if i + k = length bs then SETUP_STATE_ACK else SetupState s)\<rparr>"
    have "process klass (?p, s, w) = data_stage (?p, s, w)"
      using True dir by (simp add: process_def DoTokenIn_def)
    also have "\<dots> = Inr (?q, ?t, w)"
      unfolding k_def by (rule data_stage_in [OF one _ len(3,2,1) regs]) simp
    finally have "process klass (?p, s, w) = Inr (?q, ?t, w)" .
    from submit_process [OF p r this] ready_pipeline [OF r] have "submit klass USB_TOKEN_IN [] n (p, s, w) = Inr (?q\<lparr>packet_State := USB_PACKET_COMPLETE\<rparr>, ?t, w)"
      by simp
    moreover have "idle_packet (?q\<lparr>packet_State := USB_PACKET_COMPLETE\<rparr>)"
      using p n len by (intro idle_complete) (auto simp: idle_packet_def k_def)
    moreover have "take k (drop i (DataBuffer s)) = take n (drop i bs)"
      using len by (subst data [symmetric]) (simp add: k_def drop_take min.commute)
    moreover have "reading (i + k) bs ?t"
      using s True by (auto simp: reading_def ready_device_def k_def)
    ultimately show ?thesis using len p by (intro exI conjI) (auto simp: k_def min_def)
  next
    case False
    then have i: "i = length bs" and ack: "SetupState s = SETUP_STATE_ACK" using s by (auto simp: reading_def)
    have "process klass (?p, s, w) = Inr (?p, s, w)"
      using ack dir by (simp add: process_def DoTokenIn_def)
    from submit_process [OF p r this] ready_pipeline [OF r] have "submit klass USB_TOKEN_IN [] n (p, s, w) = Inr (?p\<lparr>packet_State := USB_PACKET_COMPLETE\<rparr>, s, w)"
      by simp
    then show ?thesis
      using s p i by (intro exI [of _ "?p\<lparr>packet_State := USB_PACKET_COMPLETE\<rparr>"] exI [of _ s])
        (auto simp: idle_packet_def USB_IsPacketInflight_def k_def)
  qed
qed

fun read_tokens :: "('k, 'w) USBDeviceClass \<Rightarrow> nat list \<Rightarrow> USBPacket \<times> 'k XboxDeviceState \<times> 'w \<Rightarrow>
  fault + bytes \<times> USBPacket \<times> 'k XboxDeviceState \<times> 'w" where
  "read_tokens klass [] t = Inr ([], t)"
| "read_tokens klass (n # ns) t =
     bindr (submit klass USB_TOKEN_IN [] n t) (\<lambda>(p, s, w).
       if Status p \<noteq> USB_RET_SUCCESS then Inr ([], p, s, w)
       else bindr (read_tokens klass ns (p, s, w)) (\<lambda>(bs, t). Inr (take (unat (ActualLength p)) (m_UsbBuffer p) @ bs, t)))"

lemma read_tokens_reading:
  assumes "idle_packet p" and "reading i bs s" and "\<forall>n\<in>set ns. n \<le> 8192"
  shows "\<exists>q t. read_tokens klass ns (p, s, w) = Inr (take (sum_list ns) (drop i bs), q, t, w) \<and> idle_packet q
    \<and> reading (min (length bs) (i + sum_list ns)) bs t \<and> same_device s t"
  using assms
proof (induction ns arbitrary: p i s)
  case Nil
  then show ?case by (auto simp: reading_def)
next
  case (Cons n ns)
  let ?k = "min n (length bs - i)"
  obtain q t where q: "submit klass USB_TOKEN_IN [] n (p, s, w) = Inr (q, t, w)" "idle_packet q" "Status q = USB_RET_SUCCESS"
    "ActualLength q = of_nat ?k" "take ?k (m_UsbBuffer q) = take n (drop i bs)" "reading (i + ?k) bs t" "same_device s t"
    using in_token [OF Cons.prems(1,2), of n klass w] Cons.prems(3) by auto
  have small: "?k \<le> DATA_BUFFER_SIZE" using Cons.prems(2) by (auto simp: reading_def)
  obtain q' t' where "read_tokens klass ns (q, t, w) = Inr (take (sum_list ns) (drop (i + ?k) bs), q', t', w)" "idle_packet q'"
    "reading (min (length bs) (i + ?k + sum_list ns)) bs t'" "same_device t t'"
    using Cons.IH [OF q(2,6)] Cons.prems(3) by auto
  moreover have "take n (drop i bs) @ take (sum_list ns) (drop (i + ?k) bs) = take (n + sum_list ns) (drop i bs)"
    by (cases "n \<le> length bs - i") (simp_all add: take_add add.commute min_def)
  moreover have "min (length bs) (i + ?k + sum_list ns) = min (length bs) (i + (n + sum_list ns))"
    using Cons.prems(2) by (auto simp: reading_def min_def)
  ultimately show ?case using q small same_device_trans by (auto simp: add.assoc)
qed

section \<open>The setup stage\<close>

definition load_setup :: "bytes \<Rightarrow> 'k XboxDeviceState \<Rightarrow> 'k XboxDeviceState" where
  "load_setup load s = s\<lparr>SetupBuffer := load, SetupLength := push_bit 8 (ucast (load ! 7)) OR ucast (load ! 6), SetupIndex := 0\<rparr>"

abbreviation wLength :: "bytes \<Rightarrow> u32" where
  "wLength load \<equiv> push_bit 8 (ucast (load ! 7)) OR ucast (load ! 6)"

lemma load_setup_fields [simp]:
  "SetupBuffer (load_setup load s) = load" "SetupLength (load_setup load s) = wLength load" "SetupIndex (load_setup load s) = 0"
  "SetupState (load_setup load s) = SetupState s" "DataBuffer (load_setup load s) = DataBuffer s"
  "EP_ctl (load_setup load s) = EP_ctl s" "klass_state (load_setup load s) = klass_state s"
  "Device (load_setup load s) = Device s" "Config (load_setup load s) = Config s" "Strings (load_setup load s) = Strings s"
  "dev_State (load_setup load s) = dev_State s" "RemoteWakeup (load_setup load s) = RemoteWakeup s"
  "EP_in (load_setup load s) = EP_in s" "EP_out (load_setup load s) = EP_out s" "Ifaces (load_setup load s) = Ifaces s"
  "AltSetting (load_setup load s) = AltSetting s" "NumInterfaces (load_setup load s) = NumInterfaces s"
  "Configuration (load_setup load s) = Configuration s" "Addr (load_setup load s) = Addr s"
  by (simp_all add: load_setup_def)

lemma same_device_load [simp]:
  "same_device s (load_setup load t) = same_device s t" "same_device (load_setup load s) t = same_device s t"
  by (simp_all add: load_setup_def)

lemma setup_copy:
  assumes "idle_packet p" and "length load = 8" and "length (SetupBuffer s) = 8"
  shows "USB_PacketCopy (SetupBuffer s) 0 8 (token USB_TOKEN_SETUP load 8 p) =
    Inr (load, (token USB_TOKEN_SETUP load 8 p)\<lparr>ActualLength := 8\<rparr>)"
  using assms copy_out [of 8 "token USB_TOKEN_SETUP load 8 p" 8 0 "SetupBuffer s"] by simp

lemma process_setup:
  assumes "idle_packet p" and "ready_device s" and "length load = 8"
  shows "process klass (token USB_TOKEN_SETUP load 8 p, s, w) =
    (let p = token USB_TOKEN_SETUP load 8 p; s = load_setup load s in
     if tst (load ! 0) USB_DIR_IN
     then bindr (control_in_buffer klass (wLength load) (p, s, w)) (\<lambda>(p, s, w).
            let s = (if Status p = USB_RET_ASYNC then s\<lparr>SetupState := SETUP_STATE_SETUP\<rparr> else s) in
            if Status p \<noteq> USB_RET_SUCCESS then Inr (p, s, w)
            else
              let s = (if ActualLength p < SetupLength s then s\<lparr>SetupLength := ActualLength p\<rparr> else s) in
              Inr (p\<lparr>ActualLength := 8\<rparr>, s\<lparr>SetupState := SETUP_STATE_DATA\<rparr>, w))
     else if unat (wLength load) > DATA_BUFFER_SIZE then Inr (p\<lparr>Status := USB_RET_STALL\<rparr>, s, w)
     else Inr (p\<lparr>ActualLength := 8\<rparr>, s\<lparr>SetupState := (if wLength load = 0 then SETUP_STATE_ACK else SETUP_STATE_DATA)\<rparr>, w))"
proof -
  have clear: "(token USB_TOKEN_SETUP load 8 p)\<lparr>ActualLength := 8\<rparr>\<lparr>ActualLength := 0\<rparr> = token USB_TOKEN_SETUP load 8 p"
    by (simp add: token_def USB_PacketAddBuffer_def)
  have s8: "length (SetupBuffer s) = 8" using assms(2) by (simp add: ready_device_def)
  have load: "(let s = s\<lparr>SetupBuffer := load\<rparr> in s\<lparr>SetupLength := setup_word 6 s, SetupIndex := 0\<rparr>) = load_setup load s"
    by (simp add: load_setup_def setup_word_def Let_def)
  show ?thesis
    by (simp add: process_def USB_DoTokenSetup_def setup_copy [OF assms(1,3) s8] clear load [unfolded Let_def] Let_def)
qed

text \<open>A request that the class answers with \<open>bs\<close> starts the data stage.\<close>

definition answers :: "('k, 'w) USBDeviceClass \<Rightarrow> bytes \<Rightarrow> bytes \<Rightarrow> 'k XboxDeviceState \<Rightarrow> 'w \<Rightarrow> bool" where
  "answers klass load bs s w \<longleftrightarrow> length bs \<le> unat (wLength load) \<and> length bs \<le> DATA_BUFFER_SIZE
     \<and> (\<forall>p. control_in_buffer klass (wLength load) (p, load_setup load s, w) =
        Inr (p\<lparr>ActualLength := of_nat (length bs)\<rparr>, (load_setup load s)\<lparr>DataBuffer := bs @ drop (length bs) (DataBuffer s)\<rparr>, w))"

lemma setup_reads:
  assumes p: "idle_packet p" and s: "ready_device s" and load: "length load = 8" "tst (load ! 0) USB_DIR_IN"
    and ans: "answers klass load bs s w"
  shows "\<exists>q t. submit klass USB_TOKEN_SETUP load 8 (p, s, w) = Inr (q, t, w) \<and> idle_packet q \<and> Status q = USB_RET_SUCCESS
    \<and> ActualLength q = 8 \<and> reading 0 bs t \<and> same_device s t"
proof -
  let ?p = "token USB_TOKEN_SETUP load 8 p"
  let ?t = "(load_setup load s)\<lparr>DataBuffer := bs @ drop (length bs) (DataBuffer s), SetupLength := of_nat (length bs),
    SetupState := SETUP_STATE_DATA\<rparr>"
  have len: "length bs \<le> DATA_BUFFER_SIZE" "length bs \<le> unat (wLength load)" using ans by (auto simp: answers_def)
  have full: "wLength load = of_nat (length bs)" if "\<not> (of_nat (length bs) :: u32) < wLength load"
    using len that by (simp add: word_less_nat_alt word_unat_eq_iff)
  have "process klass (?p, s, w) = Inr (?p\<lparr>ActualLength := 8\<rparr>,
      (if of_nat (length bs) < wLength load then ?t
       else (load_setup load s)\<lparr>DataBuffer := bs @ drop (length bs) (DataBuffer s), SetupState := SETUP_STATE_DATA\<rparr>), w)"
    using ans load(2) by (simp add: process_setup [OF p s load(1)] answers_def Let_def)
  also have "(if of_nat (length bs) < wLength load then ?t
       else (load_setup load s)\<lparr>DataBuffer := bs @ drop (length bs) (DataBuffer s), SetupState := SETUP_STATE_DATA\<rparr>) = ?t"
    using full by (auto simp: load_setup_def)
  finally have "process klass (?p, s, w) = Inr (?p\<lparr>ActualLength := 8\<rparr>, ?t, w)" .
  from submit_process [OF p s this] ready_pipeline [OF s] have "submit klass USB_TOKEN_SETUP load 8 (p, s, w)
      = Inr (?p\<lparr>ActualLength := 8, packet_State := USB_PACKET_COMPLETE\<rparr>, ?t, w)" by simp
  moreover have "reading 0 bs ?t"
    using s load len by (auto simp: reading_def ready_device_def)
  ultimately show ?thesis
    using p load by (intro exI [of _ "?p\<lparr>ActualLength := 8, packet_State := USB_PACKET_COMPLETE\<rparr>"] exI [of _ ?t])
      (auto simp: idle_packet_def USB_IsPacketInflight_def)
qed

text \<open>The status stage of a read: an empty packet to the device.\<close>

lemma status_out:
  assumes p: "idle_packet p" and s: "reading (length bs) bs s" and ack: "SetupState s = SETUP_STATE_ACK" and n: "n \<le> 8192"
  shows "\<exists>q t. submit klass USB_TOKEN_OUT [] n (p, s, w) = Inr (q, t, w) \<and> idle_packet q \<and> Status q = USB_RET_SUCCESS
    \<and> t = s\<lparr>SetupState := SETUP_STATE_IDLE\<rparr>"
proof -
  let ?p = "token USB_TOKEN_OUT [] n p"
  have r: "ready_device s" and dir: "tst (SetupBuffer s ! 0) USB_DIR_IN" using s by (auto simp: reading_def)
  have "process klass (?p, s, w) = Inr (?p, s\<lparr>SetupState := SETUP_STATE_IDLE\<rparr>, w)"
    using ack dir by (simp add: process_def DoTokenOut_def)
  from submit_process [OF p r this] ready_pipeline [OF r] show ?thesis
    using p by (auto simp: idle_packet_def USB_IsPacketInflight_def)
qed

text \<open>A whole transfer to the host, with the sizes of its packets.\<close>

definition control_read :: "('k, 'w) USBDeviceClass \<Rightarrow> bytes \<Rightarrow> nat list \<Rightarrow> USBPacket \<times> 'k XboxDeviceState \<times> 'w \<Rightarrow>
  fault + bytes \<times> USBPacket \<times> 'k XboxDeviceState \<times> 'w" where
  "control_read klass load ns t =
     bindr (submit klass USB_TOKEN_SETUP load 8 t) (\<lambda>(p, s, w).
       if Status p \<noteq> USB_RET_SUCCESS then Inr ([], p, s, w)
       else bindr (read_tokens klass ns (p, s, w)) (\<lambda>(bs, t).
         bindr (submit klass USB_TOKEN_OUT [] 0 t) (\<lambda>t. Inr (bs, t))))"

lemma control_read_answer:
  assumes p: "idle_packet p" and s: "ready_device s" and load: "length load = 8" "tst (load ! 0) USB_DIR_IN"
    and ans: "answers klass load bs s w" and ns: "\<forall>n\<in>set ns. n \<le> 8192" "length bs \<le> sum_list ns" and bs: "bs \<noteq> []"
  shows "\<exists>q t. control_read klass load ns (p, s, w) = Inr (bs, q, t, w) \<and> idle_packet q \<and> Status q = USB_RET_SUCCESS
    \<and> ready_device t \<and> same_device s t"
proof -
  obtain q t where q: "submit klass USB_TOKEN_SETUP load 8 (p, s, w) = Inr (q, t, w)" "idle_packet q"
      "Status q = USB_RET_SUCCESS" "reading 0 bs t" "same_device s t"
    using setup_reads [OF p s load ans] by blast
  obtain q' t' where q': "read_tokens klass ns (q, t, w) = Inr (bs, q', t', w)" "idle_packet q'" "reading (length bs) bs t'" "same_device t t'"
    using read_tokens_reading [OF q(2,4) ns(1), of klass w] ns(2) by auto
  have ack: "SetupState t' = SETUP_STATE_ACK" using q'(3) bs by (auto simp: reading_def)
  obtain q'' where "submit klass USB_TOKEN_OUT [] 0 (q', t', w) = Inr (q'', t'\<lparr>SetupState := SETUP_STATE_IDLE\<rparr>, w)"
      "idle_packet q''" "Status q'' = USB_RET_SUCCESS"
    using status_out [OF q'(2,3) ack, of 0 klass w] by auto
  then show ?thesis
    using q q' same_device_trans by (auto simp: control_read_def reading_def ready_device_def)
qed

section \<open>Writing\<close>

text \<open>The device has taken the first \<open>i\<close> bytes of \<open>ds\<close>.\<close>

definition writing :: "nat \<Rightarrow> bytes \<Rightarrow> 'k XboxDeviceState \<Rightarrow> bool" where
  "writing i ds s \<longleftrightarrow> ready_device s \<and> \<not> tst (SetupBuffer s ! 0) USB_DIR_IN \<and> length ds \<le> DATA_BUFFER_SIZE
     \<and> i \<le> length ds \<and> take i (DataBuffer s) = take i ds \<and> SetupLength s = of_nat (length ds) \<and> SetupIndex s = of_nat i
     \<and> SetupState s = (if i < length ds then SETUP_STATE_DATA else SETUP_STATE_ACK)"

lemma unat_word [simp]: "n < 0x10000 \<Longrightarrow> unat (of_nat n :: u32) = n"
  by (simp add: unat_of_nat take_bit_nat_eq_self)

lemma data_stage_size:
  assumes "Size (IoVec p) = n" and "i + n \<le> l" and "l < 0x10000" and "SetupLength s = of_nat l" and "SetupIndex s = of_nat i"
  shows "(if unat (SetupLength s - SetupIndex s) > Size (IoVec p) then of_nat (Size (IoVec p)) else SetupLength s - SetupIndex s) = (of_nat n :: u32)"
proof -
  have left: "SetupLength s - SetupIndex s = of_nat (l - i)" using assms by simp
  have "unat (of_nat (l - i) :: u32) = l - i" using assms(3) by (intro unat_word) simp
  then show ?thesis using assms unfolding left by (cases "l - i = n") (auto simp del: of_nat_diff)
qed

lemma data_stage_out:
  assumes p: "one_piece n p" "Pid p = USB_TOKEN_OUT" and s: "length (DataBuffer s) = DATA_BUFFER_SIZE"
    and i: "i + n \<le> l" "l < 0x10000" "SetupLength s = of_nat l" "SetupIndex s = of_nat i" "i + n \<le> DATA_BUFFER_SIZE"
  shows "data_stage (p, s, w) = Inr (p\<lparr>ActualLength := of_nat n\<rparr>,
    s\<lparr>DataBuffer := take i (DataBuffer s) @ take n (m_UsbBuffer p) @ drop (i + n) (DataBuffer s),
      SetupIndex := of_nat (i + n), SetupState := (if i + n = l then SETUP_STATE_ACK else SetupState s)\<rparr>, w)"
proof -
  have count: "(if unat (SetupLength s - SetupIndex s) > Size (IoVec p) then of_nat (Size (IoVec p)) else SetupLength s - SetupIndex s) = (of_nat n :: u32)"
    using p i by (intro data_stage_size) (auto simp: one_piece_def)
  have cpy: "USB_PacketCopy (DataBuffer s) i n p = Inr (take i (DataBuffer s) @ take n (m_UsbBuffer p) @ drop (i + n) (DataBuffer s),
      p\<lparr>ActualLength := of_nat n\<rparr>)"
    using p i s by (intro copy_out) auto
  have last: "of_nat l \<le> (of_nat i + of_nat n :: u32) \<longleftrightarrow> i + n = l"
    using i unat_word [of "i + n"] by (auto simp: word_le_nat_alt)
  show ?thesis
    unfolding data_stage_def Let_def prod.case count using i cpy last by simp
qed

lemma data_stage_beyond:
  assumes p: "one_piece n p" "Pid p = USB_TOKEN_OUT" and s: "length (DataBuffer s) = DATA_BUFFER_SIZE"
    and i: "i + n \<le> l" "l < 0x10000" "SetupLength s = of_nat l" "SetupIndex s = of_nat i" "DATA_BUFFER_SIZE < i + n"
  shows "data_stage (p, s, w) = Inl OutOfBounds"
proof -
  have count: "(if unat (SetupLength s - SetupIndex s) > Size (IoVec p) then of_nat (Size (IoVec p)) else SetupLength s - SetupIndex s) = (of_nat n :: u32)"
    using p i by (intro data_stage_size) (auto simp: one_piece_def)
  have "USB_PacketCopy (DataBuffer s) i n p = Inl OutOfBounds"
    using p i s by (intro copy_beyond) auto
  then show ?thesis
    unfolding data_stage_def Let_def prod.case count using i by simp
qed

lemma out_token:
  assumes p: "idle_packet p" and s: "writing i ds s" and c: "c = take (length c) (drop i ds)" "c \<noteq> []" "length c \<le> 8192"
  shows "\<exists>q t. submit klass USB_TOKEN_OUT c (length c) (p, s, w) = Inr (q, t, w) \<and> idle_packet q \<and> Status q = USB_RET_SUCCESS
    \<and> writing (i + length c) ds t \<and> same_device s t \<and> SetupBuffer t = SetupBuffer s"
proof -
  let ?p = "token USB_TOKEN_OUT c (length c) p"
  let ?t = "s\<lparr>DataBuffer := take i (DataBuffer s) @ c @ drop (i + length c) (DataBuffer s),
      SetupIndex := of_nat (i + length c), SetupState := (if i + length c = length ds then SETUP_STATE_ACK else SetupState s)\<rparr>"
  have fits: "i + length c \<le> length ds" using c(1,2) by (metis add.commute length_drop length_take min.cobounded1 le_diff_conv2 nat_le_linear take_eq_Nil drop_all length_greater_0_conv)
  have one: "one_piece (length c) ?p" using p c(3) by simp
  have r: "ready_device s" using s by (simp add: writing_def)
  have state: "SetupState s = SETUP_STATE_DATA" "\<not> tst (SetupBuffer s ! 0) USB_DIR_IN"
    using s fits c(2) by (cases c; auto simp: writing_def)+
  have len: "length (DataBuffer s) = DATA_BUFFER_SIZE" and max: "length ds \<le> DATA_BUFFER_SIZE"
    and regs: "SetupLength s = of_nat (length ds)" "SetupIndex s = of_nat i"
    using s by (auto simp: writing_def ready_device_def)
  have "process klass (?p, s, w) = data_stage (?p, s, w)"
    using state by (simp add: process_def DoTokenOut_def)
  also have "\<dots> = Inr (?p\<lparr>ActualLength := of_nat (length c)\<rparr>, ?t, w)"
    using data_stage_out [OF one token_fields(1) len fits _ regs, of w] fits max by (simp add: DATA_BUFFER_SIZE_def)
  finally have "process klass (?p, s, w) = Inr (?p\<lparr>ActualLength := of_nat (length c)\<rparr>, ?t, w)" .
  from submit_process [OF p r this] ready_pipeline [OF r] have sub: "submit klass USB_TOKEN_OUT c (length c) (p, s, w)
      = Inr (?p\<lparr>ActualLength := of_nat (length c), packet_State := USB_PACKET_COMPLETE\<rparr>, ?t, w)" by simp
  have "take i (DataBuffer s) @ c = take (i + length c) ds"
    using s c(1) by (simp add: writing_def take_add)
  moreover have "length (take i (DataBuffer s)) = i"
    using s by (simp add: writing_def ready_device_def)
  ultimately have "writing (i + length c) ds ?t"
    using s fits c(2) by (auto simp: writing_def ready_device_def)
  then show ?thesis
    using p sub c(3) by (intro exI [of _ "?p\<lparr>ActualLength := of_nat (length c), packet_State := USB_PACKET_COMPLETE\<rparr>"] exI [of _ ?t])
      (auto simp: idle_packet_def USB_IsPacketInflight_def)
qed

fun write_tokens :: "('k, 'w) USBDeviceClass \<Rightarrow> bytes list \<Rightarrow> ('k, 'w) packet_op" where
  "write_tokens klass [] t = Inr t"
| "write_tokens klass (c # cs) t =
     bindr (submit klass USB_TOKEN_OUT c (length c) t) (\<lambda>(p, s, w).
       if Status p \<noteq> USB_RET_SUCCESS then Inr (p, s, w) else write_tokens klass cs (p, s, w))"

lemma write_tokens_writing:
  assumes "idle_packet p" and "writing i ds s" and "concat cs = drop i ds" and "\<forall>c\<in>set cs. c \<noteq> [] \<and> length c \<le> 8192"
    and "Status p = USB_RET_SUCCESS"
  shows "\<exists>q t. write_tokens klass cs (p, s, w) = Inr (q, t, w) \<and> idle_packet q \<and> writing (length ds) ds t
    \<and> same_device s t \<and> SetupBuffer t = SetupBuffer s \<and> Status q = USB_RET_SUCCESS"
  using assms
proof (induction cs arbitrary: p i s)
  case Nil
  then have "i = length ds" by (auto simp: writing_def)
  then show ?case using Nil by auto
next
  case (Cons c cs)
  have c: "c = take (length c) (drop i ds)" and rest: "concat cs = drop (i + length c) ds"
    using Cons.prems(3) by (metis append_eq_conv_conj concat.simps(2), metis append_eq_conv_conj concat.simps(2) drop_drop add.commute)
  obtain q t where "submit klass USB_TOKEN_OUT c (length c) (p, s, w) = Inr (q, t, w)" "idle_packet q" "Status q = USB_RET_SUCCESS"
      "writing (i + length c) ds t" "same_device s t" "SetupBuffer t = SetupBuffer s"
    using out_token [OF Cons.prems(1,2) c, of klass w] Cons.prems(4) by auto
  then show ?case using Cons.IH [of q "i + length c" t] rest Cons.prems(4) same_device_trans by fastforce
qed

definition control_write :: "('k, 'w) USBDeviceClass \<Rightarrow> bytes \<Rightarrow> bytes list \<Rightarrow> ('k, 'w) packet_op" where
  "control_write klass load cs t =
     bindr (submit klass USB_TOKEN_SETUP load 8 t) (\<lambda>(p, s, w).
       if Status p \<noteq> USB_RET_SUCCESS then Inr (p, s, w)
       else bindr (write_tokens klass cs (p, s, w)) (submit klass USB_TOKEN_IN [] 0))"

text \<open>The class acts once, in the status stage, with the data in the buffer of the device.\<close>

lemma control_write_status:
  assumes p: "idle_packet p" and s: "ready_device s" and load: "length load = 8" "\<not> tst (load ! 0) USB_DIR_IN"
    and ds: "wLength load = of_nat (length (concat cs))" "length (concat cs) \<le> DATA_BUFFER_SIZE"
    and cs: "\<forall>c\<in>set cs. c \<noteq> [] \<and> length c \<le> 8192"
  shows "\<exists>q t. control_write klass load cs (p, s, w) = submit klass USB_TOKEN_IN [] 0 (q, t, w) \<and> idle_packet q \<and> ready_device t
    \<and> writing (length (concat cs)) (concat cs) t \<and> same_device s t \<and> SetupBuffer t = load \<and>
    process klass (token USB_TOKEN_IN [] 0 q, t, w) =
      bindr (control_in_buffer klass (wLength load) (token USB_TOKEN_IN [] 0 q, t, w)) (\<lambda>(p, s, w).
        if Status p = USB_RET_ASYNC then Inr (p, s, w) else Inr (p\<lparr>ActualLength := 0\<rparr>, s\<lparr>SetupState := SETUP_STATE_IDLE\<rparr>, w))"
proof -
  let ?p = "token USB_TOKEN_SETUP load 8 p"
  let ?ds = "concat cs"
  let ?t = "(load_setup load s)\<lparr>SetupState := (if wLength load = 0 then SETUP_STATE_ACK else SETUP_STATE_DATA)\<rparr>"
  let ?q = "?p\<lparr>ActualLength := 8, packet_State := USB_PACKET_COMPLETE\<rparr>"
  have len: "unat (wLength load) = length ?ds" using ds by simp
  then have zero: "wLength load = 0 \<longleftrightarrow> ?ds = []" by (metis length_0_conv unat_eq_zero)
  have "process klass (?p, s, w) = Inr (?p\<lparr>ActualLength := 8\<rparr>, ?t, w)"
    using load(2) ds(2) len by (simp add: process_setup [OF p s load(1)] Let_def)
  from submit_process [OF p s this] ready_pipeline [OF s] have sub: "submit klass USB_TOKEN_SETUP load 8 (p, s, w) = Inr (?q, ?t, w)" by simp
  have idle: "idle_packet ?q" using p load(1) by (intro idle_complete) (simp add: idle_packet_def)
  have start: "writing 0 ?ds ?t"
    using s load ds zero by (auto simp: writing_def ready_device_def)
  obtain q t where q: "write_tokens klass cs (?q, ?t, w) = Inr (q, t, w)" "idle_packet q" "writing (length ?ds) ?ds t"
      "same_device s t" "SetupBuffer t = load"
    using write_tokens_writing [OF idle start _ cs, of klass w] by auto
  have state: "SetupState t = SETUP_STATE_ACK" "SetupLength t = wLength load" "ready_device t"
    using q(3) ds(1) by (auto simp: writing_def)
  have "process klass (token USB_TOKEN_IN [] 0 q, t, w) =
      bindr (control_in_buffer klass (wLength load) (token USB_TOKEN_IN [] 0 q, t, w)) (\<lambda>(p, s, w).
        if Status p = USB_RET_ASYNC then Inr (p, s, w) else Inr (p\<lparr>ActualLength := 0\<rparr>, s\<lparr>SetupState := SETUP_STATE_IDLE\<rparr>, w))"
    using state(1,2) q(5) load(2) by (simp add: process_def DoTokenIn_def)
  then show ?thesis using q state(3) by (intro exI [of _ q] exI [of _ t]) (simp add: control_write_def sub)
qed

lemma control_write_acts:
  assumes p: "idle_packet p" and s: "ready_device s" and load: "length load = 8" "\<not> tst (load ! 0) USB_DIR_IN"
    and ds: "wLength load = of_nat (length (concat cs))" "length (concat cs) \<le> DATA_BUFFER_SIZE"
    and cs: "\<forall>c\<in>set cs. c \<noteq> [] \<and> length c \<le> 8192"
    and act: "\<And>p t. idle_packet p \<Longrightarrow> Status p = USB_RET_SUCCESS \<Longrightarrow> writing (length (concat cs)) (concat cs) t \<Longrightarrow> SetupBuffer t = load
      \<Longrightarrow> same_device s t \<Longrightarrow> \<exists>q u w'. control_in_buffer klass (wLength load) (p, t, w) = Inr (q, u, w') \<and> P u w'
        \<and> Status q = USB_RET_SUCCESS \<and> \<not> Pipeline (EP_ctl u) \<and> length (m_UsbBuffer q) = 8192"
  shows "\<exists>q u w'. control_write klass load cs (p, s, w) = Inr (q, u\<lparr>SetupState := SETUP_STATE_IDLE\<rparr>, w') \<and> Status q = USB_RET_SUCCESS
    \<and> P u w' \<and> idle_packet q"
proof -
  obtain q t where q: "control_write klass load cs (p, s, w) = submit klass USB_TOKEN_IN [] 0 (q, t, w)" "idle_packet q" "ready_device t"
    "writing (length (concat cs)) (concat cs) t" "same_device s t" "SetupBuffer t = load"
    "process klass (token USB_TOKEN_IN [] 0 q, t, w) =
      bindr (control_in_buffer klass (wLength load) (token USB_TOKEN_IN [] 0 q, t, w)) (\<lambda>(p, s, w).
        if Status p = USB_RET_ASYNC then Inr (p, s, w) else Inr (p\<lparr>ActualLength := 0\<rparr>, s\<lparr>SetupState := SETUP_STATE_IDLE\<rparr>, w))"
    using control_write_status [OF p s load ds cs, of klass w] by (elim exE conjE)
  obtain x u w' where x: "control_in_buffer klass (wLength load) (token USB_TOKEN_IN [] 0 q, t, w) = Inr (x, u, w')" "P u w'"
      "Status x = USB_RET_SUCCESS" "\<not> Pipeline (EP_ctl u)" "length (m_UsbBuffer x) = 8192"
    using act [OF idle_token [OF q(2), where load = "[]" and pid = USB_TOKEN_IN and n = 0] token_fields(3) q(4,6,5)] by auto
  have "process klass (token USB_TOKEN_IN [] 0 q, t, w) = Inr (x\<lparr>ActualLength := 0\<rparr>, u\<lparr>SetupState := SETUP_STATE_IDLE\<rparr>, w')"
    using x(1,3) by (simp add: q(7))
  from submit_process [OF q(2,3) this] x(3,4)
  have "control_write klass load cs (p, s, w) =
      Inr (x\<lparr>ActualLength := 0, packet_State := USB_PACKET_COMPLETE\<rparr>, u\<lparr>SetupState := SETUP_STATE_IDLE\<rparr>, w')"
    using q(1) by simp
  then show ?thesis
    using x(2,3,5) by (intro exI [of _ "x\<lparr>ActualLength := 0, packet_State := USB_PACKET_COMPLETE\<rparr>"] exI [of _ u] exI [of _ w'])
      (auto simp: idle_packet_def USB_IsPacketInflight_def)
qed

lemma control_write_faults:
  assumes p: "idle_packet p" and s: "ready_device s" and load: "length load = 8" "\<not> tst (load ! 0) USB_DIR_IN"
    and ds: "wLength load = of_nat (length (concat cs))" "length (concat cs) \<le> DATA_BUFFER_SIZE"
    and cs: "\<forall>c\<in>set cs. c \<noteq> [] \<and> length c \<le> 8192"
    and act: "\<And>p t. writing (length (concat cs)) (concat cs) t \<Longrightarrow> SetupBuffer t = load \<Longrightarrow> same_device s t \<Longrightarrow>
      control_in_buffer klass (wLength load) (p, t, w) = Inl e"
  shows "control_write klass load cs (p, s, w) = Inl e"
proof -
  obtain q t where q: "control_write klass load cs (p, s, w) = submit klass USB_TOKEN_IN [] 0 (q, t, w)" "idle_packet q" "ready_device t"
    "writing (length (concat cs)) (concat cs) t" "same_device s t" "SetupBuffer t = load"
    "process klass (token USB_TOKEN_IN [] 0 q, t, w) =
      bindr (control_in_buffer klass (wLength load) (token USB_TOKEN_IN [] 0 q, t, w)) (\<lambda>(p, s, w).
        if Status p = USB_RET_ASYNC then Inr (p, s, w) else Inr (p\<lparr>ActualLength := 0\<rparr>, s\<lparr>SetupState := SETUP_STATE_IDLE\<rparr>, w))"
    using control_write_status [OF p s load ds cs, of klass w] by (elim exE conjE)
  have "process klass (token USB_TOKEN_IN [] 0 q, t, w) = Inl e" using act [OF q(4,6,5)] by (simp add: q(7))
  from submit_faults [OF q(2,3) this] show ?thesis using q(1) by simp
qed

section \<open>A refused setup packet\<close>

text \<open>The device is in the data stage of a transfer that its buffer cannot hold.\<close>

definition overfull :: "nat \<Rightarrow> nat \<Rightarrow> 'k XboxDeviceState \<Rightarrow> bool" where
  "overfull i l s \<longleftrightarrow> ready_device s \<and> \<not> tst (SetupBuffer s ! 0) USB_DIR_IN \<and> SetupState s = SETUP_STATE_DATA
     \<and> DATA_BUFFER_SIZE < l \<and> l < 0x10000 \<and> SetupLength s = of_nat l \<and> SetupIndex s = of_nat i"

lemma write_tokens_overfull:
  assumes "idle_packet p" and "overfull i l s" and "\<forall>c\<in>set cs. length c \<le> 8192"
    and "i \<le> DATA_BUFFER_SIZE" and "DATA_BUFFER_SIZE < i + length (concat cs)" and "i + length (concat cs) \<le> l"
  shows "write_tokens klass cs (p, s, w) = Inl OutOfBounds"
  using assms
proof (induction cs arbitrary: p i s)
  case (Cons c cs)
  let ?p = "token USB_TOKEN_OUT c (length c) p"
  have r: "ready_device s" and len: "length (DataBuffer s) = DATA_BUFFER_SIZE" and l: "l < 0x10000" and fits: "i + length c \<le> l"
    and regs: "SetupLength s = of_nat l" "SetupIndex s = of_nat i"
    using Cons.prems(2,6) by (auto simp: overfull_def ready_device_def)
  have one: "one_piece (length c) ?p" using Cons.prems(1,3) by simp
  have data: "process klass (?p, s, w) = data_stage (?p, s, w)"
    using Cons.prems(2) by (simp add: process_def DoTokenOut_def overfull_def)
  show ?case
  proof (cases "i + length c \<le> DATA_BUFFER_SIZE")
    case True
    let ?t = "s\<lparr>DataBuffer := take i (DataBuffer s) @ c @ drop (i + length c) (DataBuffer s), SetupIndex := of_nat (i + length c),
      SetupState := SETUP_STATE_DATA\<rparr>"
    have more: "i + length c \<noteq> l" using True Cons.prems(2) by (auto simp: overfull_def)
    have "process klass (?p, s, w) = Inr (?p\<lparr>ActualLength := of_nat (length c)\<rparr>, ?t, w)"
      using data_stage_out [OF one token_fields(1) len fits l regs True, of w] Cons.prems(2) more data by (simp add: overfull_def)
    from submit_process [OF Cons.prems(1) r this] ready_pipeline [OF r]
    have "submit klass USB_TOKEN_OUT c (length c) (p, s, w)
        = Inr (?p\<lparr>ActualLength := of_nat (length c), packet_State := USB_PACKET_COMPLETE\<rparr>, ?t, w)" by simp
    moreover have "overfull (i + length c) l ?t"
      using Cons.prems(2) True by (auto simp: overfull_def ready_device_def)
    moreover have "idle_packet (?p\<lparr>ActualLength := of_nat (length c), packet_State := USB_PACKET_COMPLETE\<rparr>)"
      using Cons.prems(1,3) by (intro idle_complete) (auto simp: idle_packet_def)
    ultimately show ?thesis using Cons.IH [of _ "i + length c" ?t] Cons.prems(3,5,6) True by (simp add: add.assoc)
  next
    case False
    then have "process klass (?p, s, w) = Inl OutOfBounds"
      using data_stage_beyond [OF one token_fields(1) len fits l regs] data by simp
    from submit_faults [OF Cons.prems(1) r this] show ?thesis by simp
  qed
qed simp

text \<open>C32: a setup packet that announces more than the buffer of the device holds is refused with a stall, but its length is kept:
  when an earlier transfer was in its data stage, the packets that follow are written beyond the end of the buffer, whatever the
  class of the device.\<close>

theorem refused_setup_overflows:
  assumes p: "idle_packet p" and s: "ready_device s" and "length load = 8" and "length load' = 8"
    and "\<not> tst (load ! 0) USB_DIR_IN" and "\<not> tst (load' ! 0) USB_DIR_IN"
    and "wLength load \<noteq> 0" and "unat (wLength load) \<le> DATA_BUFFER_SIZE" and "DATA_BUFFER_SIZE < length (concat cs)"
    and "length (concat cs) \<le> unat (wLength load')" and "\<forall>c\<in>set cs. length c \<le> 8192"
  shows "\<exists>q t r u. submit klass USB_TOKEN_SETUP load 8 (p, s, w) = Inr (q, t, w) \<and> Status q = USB_RET_SUCCESS
    \<and> submit klass USB_TOKEN_SETUP load' 8 (q, t, w) = Inr (r, u, w) \<and> Status r = USB_RET_STALL
    \<and> write_tokens klass cs (r, u, w) = Inl OutOfBounds"
proof -
  let ?p = "token USB_TOKEN_SETUP load 8 p"
  let ?q = "?p\<lparr>ActualLength := 8, packet_State := USB_PACKET_COMPLETE\<rparr>"
  let ?t = "(load_setup load s)\<lparr>SetupState := SETUP_STATE_DATA\<rparr>"
  let ?r = "(token USB_TOKEN_SETUP load' 8 ?q)\<lparr>Status := USB_RET_STALL, packet_State := USB_PACKET_COMPLETE\<rparr>"
  let ?u = "load_setup load' ?t"
  have "process klass (?p, s, w) = Inr (?p\<lparr>ActualLength := 8\<rparr>, ?t, w)"
    using assms by (simp add: process_setup Let_def)
  from submit_process [OF p s this] ready_pipeline [OF s]
  have first: "submit klass USB_TOKEN_SETUP load 8 (p, s, w) = Inr (?q, ?t, w)" by simp
  have q: "idle_packet ?q" using p assms(3) by (intro idle_complete) (simp add: idle_packet_def)
  have t: "ready_device ?t" using s assms(3) by (simp add: ready_device_def)
  have "process klass (token USB_TOKEN_SETUP load' 8 ?q, ?t, w) = Inr ((token USB_TOKEN_SETUP load' 8 ?q)\<lparr>Status := USB_RET_STALL\<rparr>, ?u, w)"
    using assms by (simp add: process_setup [OF q t] Let_def)
  from submit_process [OF q t this] ready_pipeline [OF t]
  have second: "submit klass USB_TOKEN_SETUP load' 8 (?q, ?t, w) = Inr (?r, ?u, w)" by simp
  have "unat (wLength load') < 0x10000"
    by (simp add: le16_width)
  then have "overfull 0 (unat (wLength load')) ?u"
    using t assms by (simp add: overfull_def ready_device_def)
  moreover have "idle_packet ?r" using q assms(3,4) by (intro idle_complete) (simp add: idle_packet_def)
  ultimately have "write_tokens klass cs (?r, ?u, w) = Inl OutOfBounds"
    using assms by (intro write_tokens_overfull [of _ 0]) auto
  then show ?thesis using first second by (intro exI [of _ ?q] exI [of _ ?t] exI [of _ ?r] exI [of _ ?u]) simp
qed

section \<open>Classes that answer\<close>

text \<open>
  The contract between the control transfers and a class: on its devices it answers the requests of \<open>reply\<close>,
  which depends neither on the registers of the transfer nor on the data buffer.
\<close>

locale control_class =
  fixes klass :: "('k, 'w) USBDeviceClass"
    and valid :: "'k XboxDeviceState \<Rightarrow> bool"
    and reply :: "'k XboxDeviceState \<Rightarrow> bytes \<Rightarrow> bytes option"
  assumes valid_ready: "valid s \<Longrightarrow> ready_device s"
    and valid_same: "valid s \<Longrightarrow> same_device s t \<Longrightarrow> ready_device t \<Longrightarrow> valid t"
    and reply_same: "same_device s t \<Longrightarrow> reply t load = reply s load"
    and replies: "valid s \<Longrightarrow> length load = 8 \<Longrightarrow> reply s load = Some bs \<Longrightarrow> answers klass load bs s w"
begin

lemma read_reply:
  assumes "idle_packet p" and s: "valid s" and load: "length load = 8" "tst (load ! 0) USB_DIR_IN" "reply s load = Some bs"
    and "\<forall>n\<in>set ns. n \<le> 8192" and "length bs \<le> sum_list ns" and "bs \<noteq> []"
  shows "\<exists>q t. control_read klass load ns (p, s, w) = Inr (bs, q, t, w) \<and> idle_packet q \<and> Status q = USB_RET_SUCCESS
    \<and> valid t \<and> same_device s t"
proof -
  obtain q t where "control_read klass load ns (p, s, w) = Inr (bs, q, t, w)" "idle_packet q" "Status q = USB_RET_SUCCESS"
      "ready_device t" "same_device s t"
    using control_read_answer [OF assms(1) valid_ready [OF s] load(1,2) replies [OF s load(1,3)] assms(6-8)] by blast
  then show ?thesis using valid_same [OF s] by blast
qed

end

text \<open>The requests of a session, each with the sizes of its packets.\<close>

fun control_reads :: "('k, 'w) USBDeviceClass \<Rightarrow> (bytes \<times> nat list) list \<Rightarrow> USBPacket \<times> 'k XboxDeviceState \<times> 'w \<Rightarrow>
  fault + bytes list \<times> USBPacket \<times> 'k XboxDeviceState \<times> 'w" where
  "control_reads klass [] t = Inr ([], t)"
| "control_reads klass ((load, ns) # rs) t =
     bindr (control_read klass load ns t) (\<lambda>(bs, t). bindr (control_reads klass rs t) (\<lambda>(bss, t). Inr (bs # bss, t)))"

context control_class
begin

definition answered :: "'k XboxDeviceState \<Rightarrow> bytes \<times> nat list \<Rightarrow> bool" where
  "answered s r \<longleftrightarrow> length (fst r) = 8 \<and> tst (fst r ! 0) USB_DIR_IN \<and> (\<forall>n\<in>set (snd r). n \<le> 8192)
     \<and> (\<exists>bs. reply s (fst r) = Some bs \<and> bs \<noteq> [] \<and> length bs \<le> sum_list (snd r))"

lemma session:
  assumes "idle_packet p" and "valid s" and "\<forall>r\<in>set rs. answered s r"
  shows "\<exists>q t. control_reads klass rs (p, s, w) = Inr (map (\<lambda>r. the (reply s (fst r))) rs, q, t, w) \<and> idle_packet q
    \<and> valid t \<and> same_device s t"
  using assms
proof (induction rs arbitrary: p s)
  case (Cons r rs)
  obtain load ns where r: "r = (load, ns)" by (cases r)
  obtain bs where bs: "reply s load = Some bs" "bs \<noteq> []" "length bs \<le> sum_list ns" "length load = 8" "tst (load ! 0) USB_DIR_IN"
      "\<forall>n\<in>set ns. n \<le> 8192"
    using Cons.prems(3) r by (auto simp: answered_def)
  obtain q t where q: "control_read klass load ns (p, s, w) = Inr (bs, q, t, w)" "idle_packet q" "valid t" "same_device s t"
    using read_reply [OF Cons.prems(1,2) bs(4,5,1,6,3,2), of w] by blast
  have "\<forall>r\<in>set rs. answered t r" using Cons.prems(3) reply_same [OF q(4)] by (simp add: answered_def)
  then obtain q' t' where "control_reads klass rs (q, t, w) = Inr (map (\<lambda>r. the (reply t (fst r))) rs, q', t', w)"
      "idle_packet q'" "valid t'" "same_device t t'"
    using Cons.IH [OF q(2,3)] by blast
  then show ?case using q r bs(1) reply_same [OF q(4)] same_device_trans [OF q(4)] by auto
qed simp

end

text \<open>What the standard requests answer.\<close>

definition standard_reply :: "('k, 'w) USBDeviceClass \<Rightarrow> 'k XboxDeviceState \<Rightarrow> u32 \<Rightarrow> u32 \<Rightarrow> u32 \<Rightarrow> bytes option" where
  "standard_reply klass dev request val n =
     (if request = 0x8006 then
        (case read_descriptor klass val dev of
           Inr (Some bs) \<Rightarrow> if bs = [] then None else Some (take (unat n) bs)
         | _ \<Rightarrow> None)
      else if request = 0x8008 \<and> 1 \<le> n then
        Some [case Config dev of Some c \<Rightarrow> bConfigurationValue c | None \<Rightarrow> 0]
      else if request = 0x8000 \<and> 2 \<le> n then
        (case device_status dev of Inr bs \<Rightarrow> Some bs | _ \<Rightarrow> None)
      else None)"

lemma memcpy_prefix:
  "n \<le> length src \<Longrightarrow> n \<le> length dst \<Longrightarrow> memcpy dst 0 src n = Inr (take n src @ drop n dst)"
  by (simp add: memcpy_def)

lemma standard_reply_same:
  assumes "same_device s t"
  shows "standard_reply klass t request val n = standard_reply klass s request val n"
  unfolding standard_reply_def read_descriptor_def USB_ReadStringDesc_def USBDesc_GetString_def device_status_def
    same_device_fields [OF assms] ..

lemma standard_answers:
  assumes "usb_desc klass \<noteq> None" and "length (DataBuffer dev) = DATA_BUFFER_SIZE"
    and reply: "standard_reply klass dev request val n = Some bs" and short: "length bs \<le> DATA_BUFFER_SIZE"
  shows "USBDesc_HandleControl klass request val index n (p, dev, w) =
    Inr (True, p\<lparr>ActualLength := of_nat (length bs)\<rparr>, dev\<lparr>DataBuffer := bs @ drop (length bs) (DataBuffer dev)\<rparr>, w)"
proof -
  consider (desc) ds where "request = 0x8006" "read_descriptor klass val dev = Inr (Some ds)" "ds \<noteq> []" "bs = take (unat n) ds"
    | (config) "request = 0x8008" "bs = [case Config dev of Some c \<Rightarrow> bConfigurationValue c | None \<Rightarrow> 0]"
    | (state) "request = 0x8000" "device_status dev = Inr bs"
    using reply by (auto simp: standard_reply_def split: if_splits sum.splits option.splits)
  then show ?thesis
  proof cases
    case desc
    then obtain d ds' where ds: "ds = d # ds'" by (cases ds) auto
    have "memcpy (DataBuffer dev) 0 ds (min (length ds) (unat n)) = Inr (bs @ drop (length bs) (DataBuffer dev))"
      using desc(4) short assms(2) by (subst memcpy_prefix) (auto simp: min_def)
    then show ?thesis
      using assms(1) desc ds by (simp add: USBDesc_HandleControl_def USBDesc_HandleStandardGetDescriptor_def Let_def)
  next
    case config
    then show ?thesis
      using assms(1,2) by (simp add: USBDesc_HandleControl_def put_data_def memcpy_prefix DATA_BUFFER_SIZE_def)
  next
    case state
    then show ?thesis
      using assms(1,2) short by (simp add: USBDesc_HandleControl_def put_data_def memcpy_prefix DATA_BUFFER_SIZE_def)
  qed
qed

lemma standard_reply_length:
  "standard_reply klass dev request val n = Some bs \<Longrightarrow> length bs \<le> unat n"
  by (auto simp: standard_reply_def device_status_def word_le_nat_alt bindr_Inr_iff split: if_splits sum.splits option.splits)

text \<open>No descriptor of a device with one configuration is longer than the buffer that the code reads it into.\<close>

lemma wide_length [simp]: "length (wide str) = 2 * length str"
  by (induction str) (auto simp: wide_def)

lemma standard_length:
  assumes f: "Device s = Some f" "confs f = [c]" "bNumConfigurations f = 1" "USB_ReadConfigurationDesc c 256 = Inr (Some cs)" "length cs \<le> 256"
    and reply: "standard_reply klass s request val n = Some bs"
  shows "length bs \<le> 256"
proof (cases "request = 0x8006")
  case True
  then obtain ds where ds: "read_descriptor klass val s = Inr (Some ds)" "bs = take (unat n) ds"
    using reply by (auto simp: standard_reply_def split: if_splits sum.splits option.splits)
  have "aget (confs f) (unat (ucast val :: u8)) = Inr c" if "(ucast val :: u8) < 1"
    using that f(2) by (simp add: aget_def)
  then have "length ds \<le> 256"
    using ds(1) f
    by (auto simp: read_descriptor_def Let_def USB_ReadDeviceDesc_def USB_ReadStringDesc_def split: if_splits option.splits)
  then show ?thesis using ds(2) by (simp add: min.coboundedI1)
next
  case False
  then show ?thesis using reply
    by (auto simp: standard_reply_def device_status_def bindr_Inr_iff split: if_splits sum.splits option.splits)
qed

end
