(* ===== verification/Xid_Laws.thy ===== *)
theory Xid_Laws
  imports Xid Usb_Laws
begin

text \<open>
  What the gamepad answers to control transfers: it satisfies the contract of a class, \<open>control_class\<close>, so that
  enumeration works with packets of any size. Configurations and reports are written; requests that the class does not
  know end in an assertion.
\<close>

section \<open>The requests\<close>

definition request_of :: "bytes \<Rightarrow> u32" where
  "request_of load = push_bit 8 (ucast (load ! 0)) OR ucast (load ! 1)"

definition value_of :: "bytes \<Rightarrow> u32" where
  "value_of load = push_bit 8 (ucast (load ! 3)) OR ucast (load ! 2)"

lemma setup_of_load [simp]:
  "setup_request (load_setup load s) = request_of load" "setup_value (load_setup load s) = value_of load"
  by (simp_all add: setup_request_def setup_word_def request_of_def value_of_def)

definition gamepad_request :: "xid \<Rightarrow> u32 \<Rightarrow> u32 \<Rightarrow> u32 \<Rightarrow> bytes option" where
  "gamepad_request x request val n =
     (if request = 0xC106 \<and> val = 0x4200 \<and> 16 \<le> unat n then Some desc_xid_xbox_gamepad
      else if request = 0xC101 \<and> val = 0x0100 then Some (take (unat n) (in_state_capabilities x))
      else if request = 0xC101 \<and> val = 0x0200 then Some (take (unat n) (out_state_capabilities x))
      else if request = 0xA101 \<and> val = 0x0100 \<and> n = 20 then Some (in_state x)
      else None)"

definition gamepad_reply :: "xid XboxDeviceState \<Rightarrow> bytes \<Rightarrow> bytes option" where
  "gamepad_reply s load =
     (case standard_reply (gamepad_base :: (xid, unit) USBDeviceClass) s (request_of load) (value_of load) (wLength load) of
        Some bs \<Rightarrow> Some bs
      | None \<Rightarrow> gamepad_request (klass_state s) (request_of load) (value_of load) (wLength load))"

definition valid_gamepad :: "xid XboxDeviceState \<Rightarrow> bool" where
  "valid_gamepad s \<longleftrightarrow> ready_device s \<and> Device s = Some desc_device_xbox_gamepad
     \<and> length (EP_in s) = USB_MAX_ENDPOINTS \<and> length (EP_out s) = USB_MAX_ENDPOINTS
     \<and> length (AltSetting s) = USB_MAX_INTERFACES \<and> length (Ifaces s) = USB_MAX_INTERFACES
     \<and> (Config s = None \<and> NumInterfaces s = 0 \<or> Config s = Some desc_config_xbox_gamepad \<and> NumInterfaces s = 1)
     \<and> length (out_state (klass_state s)) = 6 \<and> out_state (klass_state s) ! 1 = 6
     \<and> length (in_state (klass_state s)) = 20 \<and> in_state (klass_state s) ! 1 = 20
     \<and> length (in_state_capabilities (klass_state s)) = 20 \<and> in_state_capabilities (klass_state s) ! 1 = 20
     \<and> length (out_state_capabilities (klass_state s)) = 6 \<and> out_state_capabilities (klass_state s) ! 1 = 6"

lemma standard_reply_class:
  fixes k :: "('k, 'w) USBDeviceClass" and k' :: "('k, 'v) USBDeviceClass"
  assumes "usb_desc k = usb_desc k'"
  shows "standard_reply k s request val n = standard_reply k' s request val n"
  unfolding standard_reply_def read_descriptor_def assms ..

lemma usb_desc_class [simp]: "usb_desc (class_of d) = Some d" "set_interface (class_of d) = None"
  by (simp_all add: class_of_def)

lemma standard_unknown:
  assumes "usb_desc klass \<noteq> None" and "request \<notin> {0x8000, 0x8006, 0x8008, 0x8100, 0, 1, 3, 5, 9, 0x010A, 0x010B, 0x810A}"
  shows "USBDesc_HandleControl klass request val index n (p, dev, w) = Inr (False, p, dev, w)"
  using assms by (simp add: USBDesc_HandleControl_def)

text \<open>The descriptors of the gamepad.\<close>

lemma gamepad_config: "USB_ReadConfigurationDesc desc_config_xbox_gamepad 256 = Inr (Some
  [9, 2, 32, 0, 1, 1, 0, 128, 50, 9, 4, 0, 0, 2, 88, 66, 0, 0, 7, 5, 130, 3, 32, 0, 4, 7, 5, 2, 3, 32, 0, 4])"
  by code_simp

lemma gamepad_device: "USB_ReadDeviceDesc (desc_id desc_xbox_gamepad) desc_device_xbox_gamepad 256 = Some
  [18, 1, 16, 1, 0, 0, 0, 64, 94, 4, 2, 2, 0, 1, 1, 2, 3, 1]"
  by code_simp

lemma gamepad_confs: "bNumConfigurations desc_device_xbox_gamepad = 1" "confs desc_device_xbox_gamepad = [desc_config_xbox_gamepad]"
  by (simp_all add: desc_device_xbox_gamepad_def)

lemma gamepad_standard_length:
  assumes "Device s = Some desc_device_xbox_gamepad" and "standard_reply klass s request val n = Some bs"
  shows "length bs \<le> 256"
  using standard_length [OF assms(1) gamepad_confs(2,1) gamepad_config _ assms(2)] by simp

lemma reply_all:
  "length bs = n \<Longrightarrow> n \<le> length (DataBuffer s) \<Longrightarrow> m \<le> n \<Longrightarrow>
    reply_with bs m k (p, s, w) = Inr (p\<lparr>ActualLength := k\<rparr>, s\<lparr>DataBuffer := take m bs @ drop m (DataBuffer s)\<rparr>, w)"
  by (simp add: reply_with_def memcpy_def)

lemma capabilities_reply:
  assumes "length caps = k" and "caps ! 1 = of_nat k" and "k \<le> 20" and "length (DataBuffer s) = DATA_BUFFER_SIZE"
  shows "xid_capabilities caps n (p, s, w) = Inr (p\<lparr>ActualLength := of_nat (length (take (unat n) caps))\<rparr>,
    s\<lparr>DataBuffer := take (unat n) caps @ drop (length (take (unat n) caps)) (DataBuffer s)\<rparr>, w)"
proof -
  have k: "unat (caps ! 1) = k" using assms(2,3) by (simp add: unat_of_nat take_bit_nat_eq_self)
  define m where "m = (if unat n > k then ucast (caps ! 1) else n :: u32)"
  have m: "unat m = min (unat n) k" using k assms(3) by (simp add: m_def unsigned_ucast_eq take_bit_nat_eq_self)
  then have "m = of_nat (min (unat n) k)" by (simp flip: m)
  have "xid_capabilities caps n (p, s, w) = reply_with caps (unat m) m (p, s, w)"
    unfolding xid_capabilities_def m_def Let_def k ..
  then have "xid_capabilities caps n (p, s, w) = reply_with caps (min (unat n) k) (of_nat (min (unat n) k)) (p, s, w)"
    using m \<open>m = of_nat (min (unat n) k)\<close> by simp
  moreover have "k \<le> length (DataBuffer s)" using assms(3,4) by (simp add: DATA_BUFFER_SIZE_def)
  ultimately show ?thesis using assms(1)
    by (simp add: reply_all [OF assms(1)] min.commute) (simp add: min_def)
qed

lemma xid_length: "length desc_xid_xbox_gamepad = 16" and xid_first: "desc_xid_xbox_gamepad ! 0 = 16"
  by (simp_all add: desc_xid_xbox_gamepad_def)

lemma gamepad_class_answers:
  assumes s: "valid_gamepad s" and reply: "gamepad_request (klass_state s) request val n = Some bs"
  shows "UsbXid_HandleControl request val index n (p, s, w) =
    Inr (p\<lparr>ActualLength := of_nat (length bs)\<rparr>, s\<lparr>DataBuffer := bs @ drop (length bs) (DataBuffer s)\<rparr>, w)"
proof -
  let ?x = "klass_state s"
  have buf: "length (DataBuffer s) = DATA_BUFFER_SIZE" using s by (simp add: valid_gamepad_def ready_device_def)
  have std: "USBDesc_HandleControl gamepad_base request val index n (p, s, w) = Inr (False, p, s, w)"
    using reply by (intro standard_unknown) (auto simp: gamepad_request_def split: if_splits)
  consider "request = 0xC106" "val = 0x4200" "16 \<le> unat n" "bs = desc_xid_xbox_gamepad"
    | "request = 0xC101" "val = 0x0100" "bs = take (unat n) (in_state_capabilities ?x)"
    | "request = 0xC101" "val = 0x0200" "bs = take (unat n) (out_state_capabilities ?x)"
    | "request = 0xA101" "val = 0x0100" "n = 20" "bs = in_state ?x"
    using reply by (auto simp: gamepad_request_def split: if_splits)
  then show ?thesis
  proof cases
    case 1
    then show ?thesis using buf std
      by (simp add: UsbXid_HandleControl_def reply_with_def memcpy_def xid_length xid_first DATA_BUFFER_SIZE_def)
  next
    case 2
    then show ?thesis using s buf capabilities_reply [of "in_state_capabilities ?x" 20 s n p w] std
      by (simp add: UsbXid_HandleControl_def valid_gamepad_def)
  next
    case 3
    then show ?thesis using s buf capabilities_reply [of "out_state_capabilities ?x" 6 s n p w] std
      by (simp add: UsbXid_HandleControl_def valid_gamepad_def)
  next
    case 4
    then show ?thesis using s buf std
      by (simp add: UsbXid_HandleControl_def valid_gamepad_def reply_with_def memcpy_def DATA_BUFFER_SIZE_def)
  qed
qed

text \<open>The gamepad meets the contract of a class.\<close>

lemma gamepad_answers:
  assumes s: "valid_gamepad s" and reply: "gamepad_reply s load = Some bs" and "length load = 8"
  shows "answers gamepad_class load bs s w"
proof -
  let ?s = "load_setup load s"
  have dev: "Device ?s = Some desc_device_xbox_gamepad" "length (DataBuffer ?s) = DATA_BUFFER_SIZE" and valid: "valid_gamepad ?s"
    using s by (simp_all add: valid_gamepad_def ready_device_def assms(3))
  have handle: "control_in_buffer gamepad_class (wLength load) (p, ?s, w) =
      UsbXid_HandleControl (request_of load) (value_of load) (setup_index ?s) (wLength load) (p, ?s, w)" for p
    by (simp add: control_in_buffer_def USB_DeviceHandleControl_def gamepad_class_def)
  show ?thesis
  proof (cases "standard_reply (gamepad_base :: (xid, unit) USBDeviceClass) s (request_of load) (value_of load) (wLength load)")
    case None
    then have r: "gamepad_request (klass_state s) (request_of load) (value_of load) (wLength load) = Some bs"
      using reply by (simp add: gamepad_reply_def)
    then have "gamepad_request (klass_state ?s) (request_of load) (value_of load) (wLength load) = Some bs" by simp
    from gamepad_class_answers [OF valid this] have "control_in_buffer gamepad_class (wLength load) (p, ?s, w) =
        Inr (p\<lparr>ActualLength := of_nat (length bs)\<rparr>, ?s\<lparr>DataBuffer := bs @ drop (length bs) (DataBuffer ?s)\<rparr>, w)" for p
      by (simp add: handle)
    moreover have "length bs \<le> unat (wLength load) \<and> length bs \<le> 20"
      using r s by (auto simp: gamepad_request_def valid_gamepad_def desc_xid_xbox_gamepad_def split: if_splits)
    ultimately show ?thesis by (auto simp: answers_def DATA_BUFFER_SIZE_def)
  next
    case (Some ds)
    then have r: "standard_reply (gamepad_base :: (xid, unit) USBDeviceClass) s (request_of load) (value_of load) (wLength load) = Some bs"
      using reply by (simp add: gamepad_reply_def)
    have len: "length bs \<le> 256" "length bs \<le> unat (wLength load)"
      using gamepad_standard_length [OF _ r] standard_reply_length [OF r] s by (auto simp: valid_gamepad_def)
    have "standard_reply gamepad_base ?s (request_of load) (value_of load) (wLength load) = Some bs"
      unfolding r [symmetric] by (rule trans [OF standard_reply_class standard_reply_same]) simp_all
    from standard_answers [OF _ dev(2) this] len(1)
    have "USBDesc_HandleControl gamepad_base (request_of load) (value_of load) index (wLength load) (p, ?s, w) =
        Inr (True, p\<lparr>ActualLength := of_nat (length bs)\<rparr>, ?s\<lparr>DataBuffer := bs @ drop (length bs) (DataBuffer ?s)\<rparr>, w)" for index p
      by (simp add: DATA_BUFFER_SIZE_def)
    then show ?thesis
      using len by (simp add: answers_def handle UsbXid_HandleControl_def DATA_BUFFER_SIZE_def)
  qed
qed

lemma gamepad_reply_same: "same_device s t \<Longrightarrow> gamepad_reply t load = gamepad_reply s load"
  unfolding gamepad_reply_def standard_reply_same [of s t] same_device_fields ..

interpretation gamepad: control_class gamepad_class valid_gamepad gamepad_reply
  by unfold_locales (auto simp: valid_gamepad_def same_device_fields intro: gamepad_answers gamepad_reply_same)

section \<open>Plugging the gamepad in\<close>

text \<open>The gamepad is made, attached to its port and reset by the controller or hub.\<close>

definition plug_gamepad :: "string \<Rightarrow> USBPort \<Rightarrow> (nat \<Rightarrow> (xid, 'w) dev_op) \<Rightarrow> 'w \<Rightarrow> fault + xid XboxDeviceState \<times> 'w" where
  "plug_gamepad path port attach w =
     bindr (gamepad_Init path port w) (\<lambda>t. bindr (USB_DeviceAttach gamepad_class attach t) (USB_DeviceReset gamepad_class))"

lemma set_config_none:
  "USBDesc_SetConfig klass 0 (dev, w) = Inr (True, dev\<lparr>Configuration := 0, NumInterfaces := 0, Config := None,
     AltSetting := replicate USB_MAX_INTERFACES 0, Ifaces := replicate USB_MAX_INTERFACES None\<rparr>, w)"
  by (simp add: USBDesc_SetConfig_def Let_def)

lemma set_defaults_gamepad:
  "Speed dev = USB_SPEED_FULL \<Longrightarrow> USBDesc_SetDefaults gamepad_base (dev, w) =
    Inr (dev\<lparr>Device := Some desc_device_xbox_gamepad, Configuration := 0, NumInterfaces := 0, Config := None,
      AltSetting := replicate USB_MAX_INTERFACES 0, Ifaces := replicate USB_MAX_INTERFACES None\<rparr>, w)"
  by (simp add: USBDesc_SetDefaults_def set_config_none desc_xbox_gamepad_def)

lemma serial_number: "iSerialNumber (desc_id desc_xbox_gamepad) = 3"
  by (simp add: desc_xbox_gamepad_def)

lemma gamepad_Init_valid:
  "\<exists>s. gamepad_Init path port w = Inr (s, w) \<and> valid_gamepad (s\<lparr>dev_State := USB_STATE_DEFAULT\<rparr>) \<and> Port s = Some port
    \<and> Attached s = 0 \<and> dev_State s = USB_STATE_NOTATTACHED"
  by (simp add: gamepad_Init_def UsbXid_Initfn_def USB_CreateSerial_def serial_number new_device_def USB_EpInit_def
    USBDesc_Init_def set_defaults_gamepad USB_GetEP_def valid_gamepad_def ready_device_def zero_xid_def zero_EP_def
    USB_EpReset_def USBDesc_SetString_def DATA_BUFFER_SIZE_def Let_def)

lemma valid_gamepad_update [simp]:
  "valid_gamepad (s\<lparr>RemoteWakeup := r\<rparr>) = valid_gamepad s" "valid_gamepad (s\<lparr>Addr := a\<rparr>) = valid_gamepad s"
  "valid_gamepad (s\<lparr>Attached := n\<rparr>) = valid_gamepad s" "valid_gamepad (s\<lparr>Speed := sp\<rparr>) = valid_gamepad s"
  "valid_gamepad (s\<lparr>dev_State := st\<rparr>\<lparr>dev_State := st'\<rparr>) = valid_gamepad (s\<lparr>dev_State := st'\<rparr>)"
  "valid_gamepad (s\<lparr>SetupState := x\<rparr>) = valid_gamepad s"
  by (simp_all add: valid_gamepad_def ready_device_def)

lemma attach_gamepad:
  assumes "Port s = Some port" and "tst (port_SpeedMask port) USB_SPEED_MASK_FULL" and "valid_gamepad (s\<lparr>dev_State := USB_STATE_DEFAULT\<rparr>)"
  shows "\<exists>t. UsbXid_Attach (s, w) = Inr (t, w) \<and> valid_gamepad (t\<lparr>dev_State := USB_STATE_DEFAULT\<rparr>) \<and> Attached t = Attached s \<and> Config t = None"
  using assms set_defaults_gamepad [of "s\<lparr>Speed := USB_SPEED_FULL\<rparr>" w]
  by (simp add: UsbXid_Attach_def valid_gamepad_def ready_device_def)

lemma reset_gamepad:
  "Attached t \<noteq> 0 \<Longrightarrow> USB_DeviceReset gamepad_class (t, w) = Inr (t\<lparr>RemoteWakeup := False, Addr := 0, dev_State := USB_STATE_DEFAULT\<rparr>, w)"
  by (simp add: USB_DeviceReset_def USB_DeviceHandleReset_def UsbXid_HandleReset_def gamepad_class_def)

lemma plugged_gamepad:
  assumes speed: "tst (port_SpeedMask port) USB_SPEED_MASK_FULL" and attach: "\<And>dev. attach (PortIndex port) (dev, w) = Inr (dev, w')"
  shows "\<exists>s. plug_gamepad path port attach w = Inr (s, w') \<and> valid_gamepad s \<and> Addr s = 0 \<and> Config s = None"
proof -
  obtain s where s: "gamepad_Init path port w = Inr (s, w)" "valid_gamepad (s\<lparr>dev_State := USB_STATE_DEFAULT\<rparr>)" "Port s = Some port"
      "Attached s = 0" "dev_State s = USB_STATE_NOTATTACHED"
    using gamepad_Init_valid [of path port w] by blast
  define b where "b = s\<lparr>Attached := 1, dev_State := USB_STATE_ATTACHED\<rparr>"
  have b: "Port b = Some port" "valid_gamepad (b\<lparr>dev_State := USB_STATE_DEFAULT\<rparr>)" "Attached b = 1"
    using s(2,3) by (simp_all add: b_def valid_gamepad_def ready_device_def)
  obtain t where t: "UsbXid_Attach (b, w') = Inr (t, w')" "valid_gamepad (t\<lparr>dev_State := USB_STATE_DEFAULT\<rparr>)" "Attached t = 1" "Config t = None"
    using attach_gamepad [OF b(1) speed b(2), of w'] b(3) by auto
  have "USB_DeviceAttach gamepad_class attach (s, w) = UsbXid_Attach (b, w')"
    using s(3,4,5) attach by (simp add: USB_DeviceAttach_def USB_Attach_def USB_DeviceHandleAttach_def gamepad_class_def b_def)
  then have "plug_gamepad path port attach w = Inr (t\<lparr>RemoteWakeup := False, Addr := 0, dev_State := USB_STATE_DEFAULT\<rparr>, w')"
    using t s(1) reset_gamepad [of t w'] by (simp add: plug_gamepad_def)
  then show ?thesis using t(2,4) by (simp add: valid_gamepad_def ready_device_def)
qed

section \<open>Enumeration\<close>

definition get_descriptor :: "u8 \<Rightarrow> u16 \<Rightarrow> bytes" where
  "get_descriptor ty n = [0x80, 6, 0, ty, 0, 0, lo8 n, hi8 n]"

definition gamepad_table :: "u8 \<Rightarrow> bytes" where
  "gamepad_table ty =
     (if ty = USB_DT_DEVICE then [18, 1, 16, 1, 0, 0, 0, 64, 0x5E, 0x04, 0x02, 0x02, 0x00, 0x01, 1, 2, 3, 1]
      else [9, 2, 32, 0, 1, 1, 0, 0x80, 50, 9, 4, 0, 0, 2, 0x58, 0x42, 0, 0, 7, 5, 0x82, 3, 32, 0, 4, 7, 5, 0x02, 3, 32, 0, 4])"

lemma two_bytes: "push_bit 8 (ucast (hi8 n)) OR ucast (lo8 n) = (ucast n :: u32)"
  by (simp add: word_bits bit_simps)

lemma unat_u16 [simp]: "unat (ucast n :: u32) = unat n" for n :: u16
proof -
  have "unat n < 2 ^ LENGTH(16)" by (rule unsigned_less)
  then show ?thesis by (simp add: unsigned_ucast_eq take_bit_nat_eq_self)
qed

lemma get_descriptor_fields [simp]:
  "length (get_descriptor ty n) = 8" "tst (get_descriptor ty n ! 0) USB_DIR_IN" "request_of (get_descriptor ty n) = 0x8006"
  "value_of (get_descriptor ty n) = push_bit 8 (ucast ty)" "wLength (get_descriptor ty n) = ucast n"
  using two_bytes [of n] by (simp_all add: get_descriptor_def request_of_def value_of_def)

lemma gamepad_descriptor:
  assumes "valid_gamepad s" and "ty = USB_DT_DEVICE \<or> ty = USB_DT_CONFIG"
  shows "gamepad_reply s (get_descriptor ty n) = Some (take (unat n) (gamepad_table ty))"
proof -
  have "Device s = Some desc_device_xbox_gamepad" using assms(1) by (simp add: valid_gamepad_def)
  moreover have "aget (confs desc_device_xbox_gamepad) 0 = Inr desc_config_xbox_gamepad"
    by (simp add: gamepad_confs aget_def)
  ultimately have "read_descriptor (gamepad_base :: (xid, unit) USBDeviceClass) (push_bit 8 (ucast ty)) s = Inr (Some (gamepad_table ty))"
    using assms(2) by (auto simp: read_descriptor_def Let_def gamepad_config gamepad_device gamepad_confs gamepad_table_def)
  moreover have "gamepad_table ty \<noteq> []" by (simp add: gamepad_table_def)
  ultimately show ?thesis
    by (simp add: gamepad_reply_def standard_reply_def)
qed

text \<open>C33: a gamepad that is plugged into a full-speed port and reset is enumerated: any sequence of requests for its device and
  configuration descriptors, each of any length and in packets of any sizes that add up to it, returns the descriptors up to
  that length.\<close>

theorem gamepad_enumeration:
  assumes "tst (port_SpeedMask port) USB_SPEED_MASK_FULL" and "\<And>dev. attach (PortIndex port) (dev, w) = Inr (dev, w')"
    and p: "idle_packet p"
    and rs: "\<And>ty n ns. (ty, n, ns) \<in> set rs \<Longrightarrow>
      (ty = USB_DT_DEVICE \<or> ty = USB_DT_CONFIG) \<and> n \<noteq> 0 \<and> (\<forall>k\<in>set ns. k \<le> 8192) \<and> unat n \<le> sum_list ns"
  shows "\<exists>s q t. plug_gamepad path port attach w = Inr (s, w')
    \<and> control_reads gamepad_class (map (\<lambda>(ty, n, ns). (get_descriptor ty n, ns)) rs) (p, s, w')
      = Inr (map (\<lambda>(ty, n, ns). take (unat n) (gamepad_table ty)) rs, q, t, w') \<and> valid_gamepad t"
proof -
  obtain s where s: "plug_gamepad path port attach w = Inr (s, w')" "valid_gamepad s"
    using plugged_gamepad [where port = port and attach = attach and w = w and w' = w' and path = path, OF assms(1,2)] by blast
  let ?rs = "map (\<lambda>(ty, n, ns). (get_descriptor ty n, ns)) rs"
  have "gamepad.answered s r" if elem: "r \<in> set ?rs" for r
  proof -
    obtain x where x: "x \<in> set rs" "r = (\<lambda>(ty, n, ns). (get_descriptor ty n, ns)) x"
      using elem unfolding set_map by (elim imageE) blast
    obtain ty n ns where "x = (ty, n, ns)" by (cases x)
    then have r: "r = (get_descriptor ty n, ns)" "(ty, n, ns) \<in> set rs" using x by auto
    moreover have "take (unat n) (gamepad_table ty) \<noteq> []"
      using rs [OF r(2)] by (simp add: gamepad_table_def unat_eq_zero)
    ultimately show ?thesis
      using rs [OF r(2)] gamepad_descriptor [OF s(2)] by (auto simp: gamepad.answered_def)
  qed
  then obtain q t where "control_reads gamepad_class ?rs (p, s, w') = Inr (map (\<lambda>r. the (gamepad_reply s (fst r))) ?rs, q, t, w')"
      "valid_gamepad t"
    using gamepad.session [OF p s(2), of ?rs w'] by blast
  moreover have "map (\<lambda>r. the (gamepad_reply s (fst r))) ?rs = map (\<lambda>(ty, n, ns). take (unat n) (gamepad_table ty)) rs"
    using rs gamepad_descriptor [OF s(2)] by auto
  ultimately show ?thesis using s by auto
qed

text \<open>A packet that has not been used, and a port.\<close>

definition fresh_packet :: USBPacket where
  "fresh_packet = \<lparr>Pid = 0, Id = 0, Endpoint = None, packet_Stream = 0, IoVec = \<lparr>IoVecStruct = [], AllocNumber = 0, Size = 0\<rparr>,
     m_UsbBuffer = replicate 8192 0, Parameter = 0, ShortNotOK = False, IntReq = False, Status = 0, ActualLength = 0,
     packet_State = USB_PACKET_UNDEFINED\<rparr>"

definition full_port :: USBPort where
  "full_port = \<lparr>Path = ''1.2'', port_SpeedMask = 3, PortIndex = 1\<rparr>"

lemma idle_fresh: "idle_packet fresh_packet"
  by (simp add: idle_packet_def fresh_packet_def USB_IsPacketInflight_def)

theorem gamepad_enumeration_witness:
  "\<exists>s q t. plug_gamepad ''0:02.0'' full_port (\<lambda>_. Inr) () = Inr (s, ())
    \<and> control_reads gamepad_class [(get_descriptor USB_DT_DEVICE 8, [8]), (get_descriptor USB_DT_CONFIG 80, [8, 64, 8])] (fresh_packet, s, ())
      = Inr ([[18, 1, 16, 1, 0, 0, 0, 64],
          [9, 2, 32, 0, 1, 1, 0, 0x80, 50, 9, 4, 0, 0, 2, 0x58, 0x42, 0, 0, 7, 5, 0x82, 3, 32, 0, 4, 7, 5, 0x02, 3, 32, 0, 4]], q, t, ())
    \<and> valid_gamepad t"
proof -
  have "(ty = USB_DT_DEVICE \<or> ty = USB_DT_CONFIG) \<and> n \<noteq> 0 \<and> (\<forall>k\<in>set ns. k \<le> 8192) \<and> unat n \<le> sum_list ns"
    if "(ty, n, ns) \<in> set [(USB_DT_DEVICE, 8, [8]), (USB_DT_CONFIG, 80, [8, 64, 8])]" for ty and n :: u16 and ns
    using that by auto
  then show ?thesis
    using gamepad_enumeration [where port = full_port and attach = "\<lambda>_. Inr" and w = "()" and w' = "()" and path = "''0:02.0''"
      and p = fresh_packet and rs = "[(USB_DT_DEVICE, 8, [8]), (USB_DT_CONFIG, 80, [8, 64, 8])]", OF _ _ idle_fresh]
    by (simp add: full_port_def gamepad_table_def)
qed

section \<open>Configurations\<close>

text \<open>What the device becomes when the host selects a configuration: one, none, or one that does not exist.\<close>

definition set_request :: "u8 \<Rightarrow> u8 \<Rightarrow> bytes" where
  "set_request r v = [0, r, v, 0, 0, 0, 0, 0]"

definition get_request :: "u8 \<Rightarrow> bytes" where
  "get_request r = [0x80, r, 0, 0, 0, 0, 1, 0]"

text \<open>The endpoints of the interface.\<close>

definition gamepad_endpoints :: "xid XboxDeviceState \<Rightarrow> bool" where
  "gamepad_endpoints s \<longleftrightarrow> (\<forall>e\<in>{EP_in s ! 1, EP_out s ! 1}. ep_Type e = USB_ENDPOINT_XFER_INT \<and> IfNum e = 0
     \<and> MaxPacketSize e = 32 \<and> Num e = 2 \<and> Queue e = [])"

lemma init_in: "1 < length (EP_in dev) \<Longrightarrow> init_endpoint desc_iface_xbox_gamepad (desc_endp_xbox_gamepad ! 0) dev =
    Inr (dev\<lparr>EP_in := (EP_in dev)[1 := (EP_in dev ! 1)\<lparr>ep_Type := USB_ENDPOINT_XFER_INT, IfNum := 0, MaxPacketSize := 32\<rparr>]\<rparr>)"
  by (simp add: init_endpoint_def desc_endp_xbox_gamepad_def USB_EPsetType_def USB_EPsetIfnum_def USB_EPsetMaxPacketSize_def
    USB_GetEP_def upd_EP_def desc_iface_xbox_gamepad_def Let_def)

lemma init_out: "1 < length (EP_out dev) \<Longrightarrow> init_endpoint desc_iface_xbox_gamepad (desc_endp_xbox_gamepad ! 1) dev =
    Inr (dev\<lparr>EP_out := (EP_out dev)[1 := (EP_out dev ! 1)\<lparr>ep_Type := USB_ENDPOINT_XFER_INT, IfNum := 0, MaxPacketSize := 32\<rparr>]\<rparr>)"
  by (simp add: init_endpoint_def desc_endp_xbox_gamepad_def USB_EPsetType_def USB_EPsetIfnum_def USB_EPsetMaxPacketSize_def
    USB_GetEP_def upd_EP_def desc_iface_xbox_gamepad_def Let_def)

lemma gamepad_iface:
  "eps desc_iface_xbox_gamepad = [desc_endp_xbox_gamepad ! 0, desc_endp_xbox_gamepad ! 1]"
  "bNumEndpoints desc_iface_xbox_gamepad = 2"
  by (simp_all add: desc_iface_xbox_gamepad_def desc_endp_xbox_gamepad_def)

lemma ep_init_gamepad:
  assumes "valid_gamepad s" and "NumInterfaces s = 1" and "Ifaces s ! 0 = Some desc_iface_xbox_gamepad"
  shows "\<exists>t. USBDesc_EpInit s = Inr t \<and> valid_gamepad t \<and> Config t = Config s \<and> NumInterfaces t = 1 \<and> AltSetting t = AltSetting s
    \<and> Ifaces t = Ifaces s \<and> gamepad_endpoints t"
proof -
  have ifs: "take 1 (Ifaces s) = [Some desc_iface_xbox_gamepad]" "Ifaces s \<noteq> []"
    using assms by (cases "Ifaces s"; auto simp: valid_gamepad_def)+
  define e where "e = USB_EpInit s"
  have "length (EP_in e) = 15" "length (EP_out e) = 15" "EP_in e ! 1 = (reset_ep USB_TOKEN_IN 1 (EP_in s ! 1))\<lparr>Queue := []\<rparr>"
      "EP_out e ! 1 = (reset_ep USB_TOKEN_OUT 1 (EP_out s ! 1))\<lparr>Queue := []\<rparr>" and valid: "valid_gamepad e"
      "Config e = Config s" "NumInterfaces e = NumInterfaces s" "AltSetting e = AltSetting s" "Ifaces e = Ifaces s"
    using assms(1) by (simp_all add: e_def USB_EpInit_def USB_EpReset_def valid_gamepad_def ready_device_def Let_def nth_enumerate_eq)
  moreover define f where "f = e\<lparr>EP_in := (EP_in e)[1 := (EP_in e ! 1)\<lparr>ep_Type := USB_ENDPOINT_XFER_INT, IfNum := 0, MaxPacketSize := 32\<rparr>]\<rparr>"
  moreover have "init_endpoint desc_iface_xbox_gamepad (desc_endp_xbox_gamepad ! 0) e = Inr f"
    using calculation by (simp add: init_in f_def)
  ultimately show ?thesis
    using assms(2) ifs init_out [of f]
    by (simp add: USBDesc_EpInit_def init_iface_def gamepad_iface e_def [symmetric] gamepad_endpoints_def reset_ep_def
      del: One_nat_def) (simp add: valid_gamepad_def ready_device_def)
qed

lemma set_interface_gamepad:
  assumes "valid_gamepad s" and "Config s = Some desc_config_xbox_gamepad"
  shows "\<exists>t. USBDesc_SetInterface gamepad_base 0 0 (s, w) = Inr (True, t, w) \<and> valid_gamepad t \<and> Config t = Config s
    \<and> NumInterfaces t = 1 \<and> gamepad_endpoints t"
proof -
  have "USBDesc_FindInterface s 0 0 = Inr (Some desc_iface_xbox_gamepad)"
    using assms(2) by (simp add: USBDesc_FindInterface_def desc_config_xbox_gamepad_def desc_iface_xbox_gamepad_def)
  moreover define e where "e = s\<lparr>AltSetting := (AltSetting s)[0 := 0], Ifaces := (Ifaces s)[0 := Some desc_iface_xbox_gamepad]\<rparr>"
  moreover have "valid_gamepad e" "NumInterfaces e = 1" "Ifaces e ! 0 = Some desc_iface_xbox_gamepad" "Config e = Config s"
    using assms by (auto simp: e_def valid_gamepad_def ready_device_def)
  moreover obtain t where "USBDesc_EpInit e = Inr t" "valid_gamepad t" "Config t = Config e" "NumInterfaces t = 1" "gamepad_endpoints t"
    using ep_init_gamepad [OF calculation(3,4,5)] by blast
  ultimately show ?thesis
    using assms by (simp add: USBDesc_SetInterface_def aget_def aset_def valid_gamepad_def USB_DeviceSetInterface_def)
qed

lemma valid_gamepad_zero:
  "valid_gamepad s \<Longrightarrow> valid_gamepad (s\<lparr>Configuration := 0, NumInterfaces := 0, Config := None,
    AltSetting := replicate USB_MAX_INTERFACES 0, Ifaces := replicate USB_MAX_INTERFACES None\<rparr>)"
  by (simp add: valid_gamepad_def ready_device_def)

lemma valid_gamepad_rest:
  "valid_gamepad s \<Longrightarrow> NumInterfaces s = n \<Longrightarrow> valid_gamepad (s\<lparr>AltSetting := take n (AltSetting s) @ replicate (USB_MAX_INTERFACES - n) 0,
    Ifaces := take n (Ifaces s) @ replicate (USB_MAX_INTERFACES - n) None\<rparr>)"
  by (auto simp: valid_gamepad_def ready_device_def)

lemma gamepad_set_config:
  assumes s: "valid_gamepad s" and c: "c = (if v = 0 then None else if v = 1 then Some desc_config_xbox_gamepad else Config s)"
  shows "\<exists>t. USBDesc_SetConfig gamepad_base v (s, w) = Inr (True, t, w) \<and> valid_gamepad t \<and> Config t = c
    \<and> (c \<noteq> None \<longrightarrow> gamepad_endpoints t)"
proof (cases "v = 0")
  case True
  then show ?thesis using valid_gamepad_zero [OF s] c by (simp add: set_config_none)
next
  case False
  define d where "d = (if v = 1 then s\<lparr>Configuration := 1, NumInterfaces := 1, Config := Some desc_config_xbox_gamepad\<rparr> else s)"
  have d: "valid_gamepad d" "Config d = c" using s c False by (auto simp: d_def valid_gamepad_def ready_device_def)
  have "pick_config v desc_config_xbox_gamepad s = Inr d"
    by (simp add: pick_config_def d_def desc_config_xbox_gamepad_def)
  then have pick: "USBDesc_SetConfig gamepad_base v (s, w) =
      bindr (for_each (\<lambda>i t. bindr (USBDesc_SetInterface gamepad_base i 0 t) (\<lambda>(_, t). Inr t)) [0..<NumInterfaces d] (d, w)) (\<lambda>(dev, w).
        let n = NumInterfaces dev in
        Inr (True, dev\<lparr>AltSetting := take n (AltSetting dev) @ replicate (USB_MAX_INTERFACES - n) 0,
          Ifaces := take n (Ifaces dev) @ replicate (USB_MAX_INTERFACES - n) None\<rparr>, w))"
    using s False by (simp add: USBDesc_SetConfig_def valid_gamepad_def gamepad_confs)
  show ?thesis
  proof (cases "c = None")
    case True
    then have "NumInterfaces d = 0" using d by (auto simp: valid_gamepad_def)
    then show ?thesis using d True valid_gamepad_rest [OF d(1)] by (simp add: pick Let_def)
  next
    case False
    then have conf: "Config d = Some desc_config_xbox_gamepad" "NumInterfaces d = 1" using d by (auto simp: valid_gamepad_def)
    obtain t where "USBDesc_SetInterface gamepad_base 0 0 (d, w) = Inr (True, t, w)" "valid_gamepad t" "Config t = Config d"
        "NumInterfaces t = 1" "gamepad_endpoints t"
      using set_interface_gamepad [OF d(1) conf(1), of w] by blast
    then show ?thesis using d(2) conf valid_gamepad_rest [of t 1]
      by (simp add: pick Let_def gamepad_endpoints_def)
  qed
qed

lemma setup_of_buffer:
  "SetupBuffer t = load \<Longrightarrow> setup_request t = request_of load" "SetupBuffer t = load \<Longrightarrow> setup_value t = value_of load"
  by (simp_all add: setup_request_def setup_word_def request_of_def value_of_def)

lemma gamepad_handles:
  "SetupBuffer t = load \<Longrightarrow> control_in_buffer gamepad_class n (p, t, w) =
    UsbXid_HandleControl (request_of load) (value_of load) (setup_index t) n (p, t, w)"
  by (simp add: control_in_buffer_def USB_DeviceHandleControl_def gamepad_class_def setup_of_buffer)

lemma set_request_fields [simp]:
  "length (set_request r v) = 8" "\<not> tst (set_request r v ! 0) USB_DIR_IN" "request_of (set_request r v) = ucast r"
  "value_of (set_request r v) = ucast v" "wLength (set_request r v) = 0"
  by (simp_all add: set_request_def request_of_def value_of_def)

lemma get_request_fields [simp]:
  "length (get_request r) = 8" "tst (get_request r ! 0) USB_DIR_IN" "request_of (get_request r) = 0x8000 OR ucast r"
  "value_of (get_request r) = 0" "wLength (get_request r) = 1"
  by (simp_all add: get_request_def request_of_def value_of_def)

text \<open>What selecting configuration \<open>v\<close> leaves.\<close>

definition selected :: "u8 \<Rightarrow> xid XboxDeviceState \<Rightarrow> USBDescConfig option" where
  "selected v s = (if v = 0 then None else if v = 1 then Some desc_config_xbox_gamepad else Config s)"

lemma small_word: "ucast v = (0 :: u32) \<longleftrightarrow> v = 0" "ucast v = (1 :: u32) \<longleftrightarrow> v = 1" for v :: u8
  by (simp_all add: word_bits bit_simps)

lemma selected_word:
  "selected v s = (if (ucast v :: u32) = 0 then None else if (ucast v :: u32) = 1 then Some desc_config_xbox_gamepad else Config s)"
  unfolding selected_def small_word ..

lemma gamepad_selects:
  assumes "idle_packet p" and "Status p = USB_RET_SUCCESS" and "writing n ds t" and "SetupBuffer t = set_request 9 v"
    and "same_device s t" and s: "valid_gamepad s"
  shows "\<exists>q u w'. control_in_buffer gamepad_class (wLength (set_request 9 v)) (p, t, w) = Inr (q, u, w')
    \<and> (w' = w \<and> valid_gamepad u \<and> Config u = selected v s \<and> (v = 1 \<longrightarrow> gamepad_endpoints u))
    \<and> Status q = USB_RET_SUCCESS \<and> \<not> Pipeline (EP_ctl u) \<and> length (m_UsbBuffer q) = 8192"
proof -
  have t: "valid_gamepad t" using gamepad.valid_same [OF s assms(5)] assms(3) by (simp add: writing_def)
  have conf: "Config t = Config s" by (rule same_device_fields [OF assms(5)])
  obtain u where u: "USBDesc_SetConfig gamepad_base (ucast v) (t, w) = Inr (True, u, w)" "valid_gamepad u" "Config u = selected v t"
      "selected v t \<noteq> None \<longrightarrow> gamepad_endpoints u"
    using gamepad_set_config [OF t selected_word [of v t], of w] by blast
  moreover have "selected v t = selected v s" using conf by (simp add: selected_def)
  moreover have "v = 1 \<Longrightarrow> selected v t \<noteq> None" by (simp add: selected_def)
  moreover have "control_in_buffer gamepad_class (wLength (set_request 9 v)) (p, t, w) = Inr (p, u, w)"
    using u(1) by (simp add: gamepad_handles [OF assms(4)] UsbXid_HandleControl_def USBDesc_HandleControl_def)
  moreover have "\<not> Pipeline (EP_ctl u)" using u(2) by (simp add: valid_gamepad_def ready_device_def)
  moreover have "length (m_UsbBuffer p) = 8192" using assms(1) by (simp add: idle_packet_def)
  ultimately show ?thesis using assms(2) by auto
qed

lemma select_configuration:
  assumes p: "idle_packet p" and s: "valid_gamepad s"
  shows "\<exists>q u w'. control_write gamepad_class (set_request 9 v) [] (p, s, w) = Inr (q, u\<lparr>SetupState := SETUP_STATE_IDLE\<rparr>, w')
    \<and> Status q = USB_RET_SUCCESS
    \<and> (w' = w \<and> valid_gamepad u \<and> Config u = selected v s \<and> (v = 1 \<longrightarrow> gamepad_endpoints u)) \<and> idle_packet q"
proof (rule control_write_acts [OF p gamepad.valid_ready [OF s]])
  show "wLength (set_request 9 v) = of_nat (length (concat []))" by (simp del: One_nat_def)
  show "\<exists>q u w'. control_in_buffer gamepad_class (wLength (set_request 9 v)) (p, t, w) = Inr (q, u, w')
    \<and> (w' = w \<and> valid_gamepad u \<and> Config u = selected v s \<and> (v = 1 \<longrightarrow> gamepad_endpoints u))
    \<and> Status q = USB_RET_SUCCESS \<and> \<not> Pipeline (EP_ctl u) \<and> length (m_UsbBuffer q) = 8192"
    if "idle_packet p" "Status p = USB_RET_SUCCESS" "writing (length (concat [])) (concat []) t" "SetupBuffer t = set_request 9 v" "same_device s t"
    for p t using that by (rule gamepad_selects) (rule s)
qed simp_all

text \<open>selecting a configuration of the gamepad always succeeds, and the host reads back 1 or 0 when it asked for these, with the
  two interrupt endpoints set up for configuration 1; any other number, which no configuration has, is accepted as well and leaves
  the configuration as it was.\<close>

theorem configuration_roundtrip:
  assumes p: "idle_packet p" and s: "valid_gamepad s"
  shows "\<exists>q t r u. control_write gamepad_class (set_request 9 v) [] (p, s, w) = Inr (q, t, w) \<and> Status q = USB_RET_SUCCESS
    \<and> control_read gamepad_class (get_request 8) [1] (q, t, w) =
        Inr ([if v \<le> 1 then v else case Config s of None \<Rightarrow> 0 | Some c \<Rightarrow> bConfigurationValue c], r, u, w)
    \<and> valid_gamepad u \<and> (v = 1 \<longrightarrow> gamepad_endpoints t)"
proof -
  obtain q u where q: "control_write gamepad_class (set_request 9 v) [] (p, s, w) = Inr (q, u\<lparr>SetupState := SETUP_STATE_IDLE\<rparr>, w)"
      "Status q = USB_RET_SUCCESS" "valid_gamepad u" "Config u = selected v s" "v = 1 \<longrightarrow> gamepad_endpoints u" "idle_packet q"
    using select_configuration [OF p s, of v w] by blast
  let ?u = "u\<lparr>SetupState := SETUP_STATE_IDLE\<rparr>"
  let ?v = "if v \<le> 1 then v else case Config s of None \<Rightarrow> 0 | Some c \<Rightarrow> bConfigurationValue c"
  have "gamepad_reply ?u (get_request 8) = Some [case selected v s of None \<Rightarrow> 0 | Some c \<Rightarrow> bConfigurationValue c]"
    using q(4) by (simp add: gamepad_reply_def standard_reply_def)
  moreover have "v \<le> 1 \<longleftrightarrow> v = 0 \<or> v = 1" by (auto simp: word_le_nat_alt word_unat_eq_iff le_Suc_eq)
  then have "(case selected v s of None \<Rightarrow> 0 | Some c \<Rightarrow> bConfigurationValue c) = ?v"
    by (auto simp: selected_def desc_config_xbox_gamepad_def)
  ultimately have "gamepad_reply ?u (get_request 8) = Some [?v]" by simp
  then obtain r x where "control_read gamepad_class (get_request 8) [1] (q, ?u, w) = Inr ([?v], r, x, w)" "valid_gamepad x"
    using gamepad.read_reply [OF q(6), of ?u "get_request 8" "[?v]" "[1]" w] q(3) by auto
  moreover have "gamepad_endpoints ?u" if "v = 1" using that q(5) by (simp add: gamepad_endpoints_def)
  ultimately show ?thesis using q(1,2) by blast
qed

text \<open>A gamepad for the examples.\<close>

definition sample_gamepad :: "xid XboxDeviceState" where
  "sample_gamepad = (case plug_gamepad ''0:02.0'' full_port (\<lambda>_. Inr) () of Inr (s, _) \<Rightarrow> s | Inl _ \<Rightarrow> new_device zero_xid)"

lemma sample_valid: "valid_gamepad sample_gamepad" and sample_Config: "Config sample_gamepad = None"
proof -
  obtain s where "plug_gamepad ''0:02.0'' full_port (\<lambda>_. Inr) () = Inr (s, ())" "valid_gamepad s" "Config s = None"
    using plugged_gamepad [where port = full_port and attach = "\<lambda>_. Inr" and w = "()" and w' = "()" and path = "''0:02.0''"]
    by (auto simp: full_port_def)
  then show "valid_gamepad sample_gamepad" "Config sample_gamepad = None" by (simp_all add: sample_gamepad_def)
qed

theorem configuration_roundtrip_witness:
  "\<exists>q t r u. control_write gamepad_class (set_request 9 7) [] (fresh_packet, sample_gamepad, ()) = Inr (q, t, ()) \<and> Status q = USB_RET_SUCCESS
    \<and> control_read gamepad_class (get_request 8) [1] (q, t, ()) = Inr ([0], r, u, ()) \<and> valid_gamepad u"
  using configuration_roundtrip [OF idle_fresh sample_valid, of 7 "()"] by (auto simp: sample_Config word_le_nat_alt)

theorem refused_setup_overflows_witness:
  "\<exists>q t r u. submit gamepad_class USB_TOKEN_SETUP [0x21, 9, 0, 2, 0, 0, 8, 0] 8 (fresh_packet, sample_gamepad, ()) = Inr (q, t, ()) \<and> Status q = USB_RET_SUCCESS
    \<and> submit gamepad_class USB_TOKEN_SETUP [0x21, 9, 0, 2, 0, 0, 0, 0x20] 8 (q, t, ()) = Inr (r, u, ()) \<and> Status r = USB_RET_STALL
    \<and> write_tokens gamepad_class [replicate 4096 0, [1, 2, 3, 4]] (r, u, ()) = Inl OutOfBounds"
  using refused_setup_overflows [of fresh_packet sample_gamepad "[0x21, 9, 0, 2, 0, 0, 8, 0]" "[0x21, 9, 0, 2, 0, 0, 0, 0x20]"
      "[replicate 4096 0, [1, 2, 3, 4]]" gamepad_class "()"] idle_fresh sample_valid
  by (simp add: valid_gamepad_def DATA_BUFFER_SIZE_def)

section \<open>Reports\<close>

definition set_report :: bytes where
  "set_report = [0x21, 9, 0, 2, 0, 0, 6, 0]"

lemma set_report_fields [simp]:
  "length set_report = 8" "\<not> tst (set_report ! 0) USB_DIR_IN" "request_of set_report = 0x2109" "value_of set_report = 0x0200" "wLength set_report = 6"
  by (simp_all add: set_report_def request_of_def value_of_def)

text \<open>The class copies the report and only then looks at its length byte.\<close>

lemma gamepad_reports:
  assumes "writing (length ds) ds t" and "SetupBuffer t = set_report" and "same_device s t" and s: "valid_gamepad s" and "length ds = 6"
  shows "control_in_buffer gamepad_class (wLength set_report) (p, t, w) =
    (if ds ! 1 = 6 then Inr (p\<lparr>ActualLength := 6\<rparr>, t\<lparr>klass_state := (klass_state t)\<lparr>out_state := ds\<rparr>\<rparr>, w) else Inl AssertFailed)"
proof -
  have t: "valid_gamepad t" using gamepad.valid_same [OF s assms(3)] assms(1) by (simp add: writing_def)
  have out: "length (out_state (klass_state t)) = 6" "out_state (klass_state t) ! 1 = 6"
    using t by (simp_all add: valid_gamepad_def)
  have ds: "take 6 (DataBuffer t) = ds" "6 \<le> length (DataBuffer t)"
    using assms(1,5) by (simp_all add: writing_def ready_device_def DATA_BUFFER_SIZE_def)
  have cpy: "memcpy (out_state (klass_state t)) 0 (DataBuffer t) 6 = Inr ds"
    using ds out(1) by (simp add: memcpy_def)
  have "USBDesc_HandleControl gamepad_base 0x2109 0x0200 (setup_index t) 6 (p, t, w) = Inr (False, p, t, w)"
    by (rule standard_unknown) simp_all
  then show ?thesis
    unfolding gamepad_handles [OF assms(2)] set_report_fields UsbXid_HandleControl_def
    using out(2) cpy by simp
qed

lemma gamepad_stores:
  assumes "idle_packet p" and "Status p = USB_RET_SUCCESS" and "writing (length ds) ds t" and "SetupBuffer t = set_report"
    and "same_device s t" and s: "valid_gamepad s" and "length ds = 6" and "ds ! 1 = 6"
  shows "\<exists>q u w'. control_in_buffer gamepad_class (wLength set_report) (p, t, w) = Inr (q, u, w')
    \<and> (w' = w \<and> valid_gamepad u \<and> out_state (klass_state u) = ds)
    \<and> Status q = USB_RET_SUCCESS \<and> \<not> Pipeline (EP_ctl u) \<and> length (m_UsbBuffer q) = 8192"
proof -
  have t: "valid_gamepad t" using gamepad.valid_same [OF s assms(5)] assms(3) by (simp add: writing_def)
  let ?u = "t\<lparr>klass_state := (klass_state t)\<lparr>out_state := ds\<rparr>\<rparr>"
  have "valid_gamepad ?u \<and> \<not> Pipeline (EP_ctl ?u)" using t assms(7,8) by (simp add: valid_gamepad_def ready_device_def)
  moreover have "control_in_buffer gamepad_class (wLength set_report) (p, t, w) = Inr (p\<lparr>ActualLength := 6\<rparr>, ?u, w)"
    using gamepad_reports [OF assms(3-7), of p w] assms(8) by simp
  ultimately show ?thesis using assms(1,2) by (auto simp: idle_packet_def)
qed

text \<open>a report of six bytes that is sent to the gamepad, in packets of any sizes, becomes its output state when its length byte
  is 6, and a report with any other length byte ends in a failed assertion.\<close>

theorem report_written:
  assumes p: "idle_packet p" and s: "valid_gamepad s" and "length (concat cs) = 6" and cs: "[] \<notin> set cs"
  shows "if concat cs ! 1 = 6
    then \<exists>q t. control_write gamepad_class set_report cs (p, s, w) = Inr (q, t, w) \<and> Status q = USB_RET_SUCCESS
      \<and> out_state (klass_state t) = concat cs \<and> valid_gamepad t
    else control_write gamepad_class set_report cs (p, s, w) = Inl AssertFailed"
proof -
  have small: "length c \<le> 6" if "c \<in> set cs" for c
    using that assms(3) member_le_sum_list [of "length c" "map length cs"] by (simp add: length_concat)
  have len: "wLength set_report = of_nat (length (concat cs))" "length (concat cs) \<le> DATA_BUFFER_SIZE"
      "\<forall>c\<in>set cs. c \<noteq> [] \<and> length c \<le> 8192"
    using assms(3) cs le_trans [OF small, of _ 8192] by (auto simp: DATA_BUFFER_SIZE_def)
  show ?thesis
  proof (cases "concat cs ! 1 = 6")
    case True
    have "\<exists>q u w'. control_write gamepad_class set_report cs (p, s, w) = Inr (q, u\<lparr>SetupState := SETUP_STATE_IDLE\<rparr>, w')
        \<and> Status q = USB_RET_SUCCESS \<and> (w' = w \<and> valid_gamepad u \<and> out_state (klass_state u) = concat cs) \<and> idle_packet q"
      by (rule control_write_acts [OF p gamepad.valid_ready [OF s] set_report_fields(1,2) len], rule gamepad_stores [OF _ _ _ _ _ s assms(3) True])
    then show ?thesis using True by auto
  next
    case False
    have "control_write gamepad_class set_report cs (p, s, w) = Inl AssertFailed"
      using gamepad_reports [OF _ _ _ s assms(3)] False
      by (intro control_write_faults [OF p gamepad.valid_ready [OF s] set_report_fields(1,2) len]) simp
    then show ?thesis using False by simp
  qed
qed

theorem report_written_witness:
  "\<exists>q t. control_write gamepad_class set_report [[0, 6, 1, 2], [3, 4]] (fresh_packet, sample_gamepad, ()) = Inr (q, t, ())
    \<and> Status q = USB_RET_SUCCESS \<and> out_state (klass_state t) = [0, 6, 1, 2, 3, 4] \<and> valid_gamepad t"
  using report_written [OF idle_fresh sample_valid, of "[[0, 6, 1, 2], [3, 4]]" "()"] by simp

section \<open>Requests that the gamepad does not know\<close>

lemma request_direction: "tst (load ! 0) USB_DIR_IN \<Longrightarrow> bit (request_of load) 15"
  using and_exp_eq_0_iff_not_bit [of "load ! 0" 7] by (simp add: request_of_def bit_simps)

lemma value_high: "ucast (drop_bit 8 (value_of load)) = load ! 3"
  by (simp add: value_of_def word_bits bit_simps)

lemma request_not: "bit (request_of load) 15 \<Longrightarrow> \<not> bit r 15 \<Longrightarrow> request_of load \<noteq> r"
  by auto

text \<open>C34: a setup packet with a request to the host that the gamepad does not know, or for a descriptor of another type than device,
  configuration and string, ends in a failed assertion instead of a stall.\<close>

theorem unknown_requests_assert:
  assumes p: "idle_packet p" and s: "valid_gamepad s" and load: "length load = 8" "tst (load ! 0) USB_DIR_IN"
    and unknown: "request_of load \<notin> {0x8000, 0x8006, 0x8008, 0x8100, 0x810A, 0xA101, 0xC106, 0xC101, 0xA006}
      \<or> request_of load = 0x8006 \<and> load ! 3 \<notin> {USB_DT_DEVICE, USB_DT_CONFIG, USB_DT_STRING}"
  shows "submit gamepad_class USB_TOKEN_SETUP load 8 (p, s, w) = Inl AssertFailed"
proof -
  let ?r = "request_of load" and ?t = "token USB_TOKEN_SETUP load 8 p" and ?s = "load_setup load s"
  have "?r \<notin> {0, 1, 3, 5, 9, 0x010A, 0x010B, 0x2109, 0x0201}"
    using request_not [OF request_direction [OF load(2)]] by simp
  moreover have "USBDesc_HandleControl gamepad_base ?r (value_of load) index n (?t, ?s, w) = Inr (False, ?t, ?s, w)" for index n
  proof (cases "?r = 0x8006")
    case True
    then show ?thesis using unknown
      by (simp add: USBDesc_HandleControl_def USBDesc_HandleStandardGetDescriptor_def read_descriptor_def value_high Let_def)
  next
    case False
    then show ?thesis using unknown calculation by (intro standard_unknown) auto
  qed
  ultimately have "UsbXid_HandleControl ?r (value_of load) (setup_index ?s) n (?t, ?s, w) = Inl AssertFailed" for n
    using unknown by (auto simp: UsbXid_HandleControl_def)
  then have "process gamepad_class (?t, s, w) = Inl AssertFailed"
    using load(2) process_setup [OF p gamepad.valid_ready [OF s] load(1), of gamepad_class w]
    by (simp add: gamepad_handles [of ?s load] Let_def)
  then show ?thesis by (rule submit_faults [OF p gamepad.valid_ready [OF s]])
qed

theorem unknown_requests_assert_witness:
  "submit gamepad_class USB_TOKEN_SETUP [0x80, 6, 0, 6, 0, 0, 10, 0] 8 (fresh_packet, sample_gamepad, ()) = Inl AssertFailed"
  using unknown_requests_assert [OF idle_fresh sample_valid, of "[0x80, 6, 0, 6, 0, 0, 10, 0]" "()"]
  by (simp add: request_of_def)

end
