(* ===== verification/Hub_Laws.thy ===== *)
theory Hub_Laws
  imports Hub Xid_Laws
begin

text \<open>
  What the hub answers, as a second class that meets \<open>control_class\<close>; the reset of a port, which enables it and its
  gamepad; and the status of the ports that the interrupt endpoint reports.
\<close>

section \<open>The hub as a class\<close>

abbreviation index_of :: "bytes \<Rightarrow> u32" where
  "index_of load \<equiv> push_bit 8 (ucast (load ! 5)) OR ucast (load ! 4)"

definition hub_request :: "hub \<Rightarrow> u32 \<Rightarrow> u32 \<Rightarrow> u32 \<Rightarrow> bytes option" where
  "hub_request ports request index n =
     (if request = GetHubStatus \<and> 4 \<le> unat n then Some [0, 0, 0, 0]
      else if request = GetPortStatus \<and> 4 \<le> unat n \<and> unat (index - 1) < NUM_PORTS then Some (port_bytes (ports ! unat (index - 1)))
      else if request = GetHubDescriptor \<and> 10 \<le> unat n then Some HubDescriptor
      else None)"

definition hub_reply :: "hub XboxDeviceState \<Rightarrow> bytes \<Rightarrow> bytes option" where
  "hub_reply s load =
     (case standard_reply (hub_base :: (hub, unit) USBDeviceClass) s (request_of load) (value_of load) (wLength load) of
        Some bs \<Rightarrow> Some bs
      | None \<Rightarrow> hub_request (klass_state s) (request_of load) (index_of load) (wLength load))"

definition valid_hub :: "hub XboxDeviceState \<Rightarrow> bool" where
  "valid_hub s \<longleftrightarrow> ready_device s \<and> Device s = Some desc_device_hub \<and> length (klass_state s) = NUM_PORTS"

lemma hub_config: "USB_ReadConfigurationDesc desc_config_hub 256 = Inr (Some
  [9, 2, 25, 0, 1, 1, 0, 0xE0, 0, 9, 4, 0, 0, 1, 9, 0, 0, 0, 7, 5, 0x81, 3, 2, 0, 0xFF])"
  by code_simp

lemma hub_confs: "bNumConfigurations desc_device_hub = 1" "confs desc_device_hub = [desc_config_hub]"
  by (simp_all add: desc_device_hub_def)

lemma hub_standard_length:
  assumes "Device s = Some desc_device_hub" and "standard_reply klass s request val n = Some bs"
  shows "length bs \<le> 256"
  using standard_length [OF assms(1) hub_confs(2,1) hub_config _ assms(2)] by simp

lemma reply_whole:
  "length bs = n \<Longrightarrow> n \<le> length (DataBuffer s) \<Longrightarrow>
    reply_with bs n k (p, s, w) = Inr (p\<lparr>ActualLength := k\<rparr>, s\<lparr>DataBuffer := bs @ drop n (DataBuffer s)\<rparr>, w)"
  by (simp add: reply_with_def memcpy_def)

lemma hub_class_answers:
  assumes s: "valid_hub s" and reply: "hub_request (klass_state s) request index n = Some bs"
  shows "UsbHub_HandleControl ops request val index n (p, s, w) =
    Inr (p\<lparr>ActualLength := of_nat (length bs)\<rparr>, s\<lparr>DataBuffer := bs @ drop (length bs) (DataBuffer s)\<rparr>, w)"
proof -
  have buf: "length (DataBuffer s) = 4096" using s by (simp add: valid_hub_def ready_device_def DATA_BUFFER_SIZE_def)
  have std: "USBDesc_HandleControl hub_base request val index n (p, s, w) = Inr (False, p, s, w)"
    using reply by (intro standard_unknown) (auto simp: hub_request_def split: if_splits)
  consider "request = GetHubStatus" "bs = [0, 0, 0, 0]"
    | "request = GetPortStatus" "unat (index - 1) < NUM_PORTS" "bs = port_bytes (klass_state s ! unat (index - 1))"
    | "request = GetHubDescriptor" "bs = HubDescriptor"
    using reply by (auto simp: hub_request_def split: if_splits)
  then show ?thesis
  proof cases
    case 1
    then show ?thesis using std buf by (simp add: UsbHub_HandleControl_def reply_whole Let_def) (simp add: numeral_eq_Suc)
  next
    case 2
    have "length bs = 4" using 2 by (simp add: port_bytes_def)
    then show ?thesis using 2 std buf by (simp add: UsbHub_HandleControl_def reply_whole Let_def)
  next
    case 3
    have "length HubDescriptor = 10" by (simp add: HubDescriptor_def)
    then show ?thesis using 3 std buf by (simp add: UsbHub_HandleControl_def reply_whole Let_def)
  qed
qed

lemma hub_handles:
  "SetupBuffer t = load \<Longrightarrow> control_in_buffer (hub_class ops) n (p, t, w) =
    UsbHub_HandleControl ops (request_of load) (value_of load) (index_of load) n (p, t, w)"
  by (simp add: control_in_buffer_def USB_DeviceHandleControl_def hub_class_def setup_of_buffer) (simp add: setup_word_def)

lemma hub_answers:
  assumes s: "valid_hub s" and reply: "hub_reply s load = Some bs" and "length load = 8"
  shows "answers (hub_class ops) load bs s w"
proof -
  let ?s = "load_setup load s"
  have dev: "Device s = Some desc_device_hub" "length (DataBuffer ?s) = DATA_BUFFER_SIZE" and valid: "valid_hub ?s"
    using s by (simp_all add: valid_hub_def ready_device_def assms(3))
  note handle = hub_handles [of ?s load, OF load_setup_fields(1)]
  show ?thesis
  proof (cases "standard_reply (hub_base :: (hub, unit) USBDeviceClass) s (request_of load) (value_of load) (wLength load)")
    case None
    then have r: "hub_request (klass_state ?s) (request_of load) (index_of load) (wLength load) = Some bs"
      using reply by (simp add: hub_reply_def)
    have "length bs \<le> unat (wLength load) \<and> length bs \<le> 10"
      using r by (auto simp: hub_request_def port_bytes_def HubDescriptor_def split: if_splits)
    then show ?thesis using hub_class_answers [OF valid r] by (auto simp: answers_def handle DATA_BUFFER_SIZE_def)
  next
    case (Some ds)
    then have r: "standard_reply (hub_base :: (hub, unit) USBDeviceClass) s (request_of load) (value_of load) (wLength load) = Some bs"
      using reply by (simp add: hub_reply_def)
    have len: "length bs \<le> 256" "length bs \<le> unat (wLength load)"
      using hub_standard_length [OF dev(1) r] standard_reply_length [OF r] by auto
    have "standard_reply hub_base ?s (request_of load) (value_of load) (wLength load) = Some bs"
      unfolding r [symmetric] by (rule trans [OF standard_reply_class standard_reply_same]) simp_all
    from standard_answers [OF _ dev(2) this] len(1)
    have "USBDesc_HandleControl hub_base (request_of load) (value_of load) index (wLength load) (p, ?s, w) =
        Inr (True, p\<lparr>ActualLength := of_nat (length bs)\<rparr>, ?s\<lparr>DataBuffer := bs @ drop (length bs) (DataBuffer ?s)\<rparr>, w)" for index p
      by (simp add: DATA_BUFFER_SIZE_def)
    then show ?thesis
      using len by (simp add: answers_def handle UsbHub_HandleControl_def DATA_BUFFER_SIZE_def Let_def)
  qed
qed

lemma hub_reply_same: "same_device s t \<Longrightarrow> hub_reply t load = hub_reply s load"
  unfolding hub_reply_def standard_reply_same [of s t] same_device_fields ..

interpretation hub: control_class "hub_class ops" valid_hub hub_reply for ops
  by unfold_locales (auto simp: valid_hub_def same_device_fields intro: hub_answers hub_reply_same)

section \<open>Resetting a port\<close>

definition port_request :: "u8 \<Rightarrow> u8 \<Rightarrow> nat \<Rightarrow> bytes" where
  "port_request r v i = [0x23, r, v, 0, of_nat (i + 1), 0, 0, 0]"

definition get_port_status :: "nat \<Rightarrow> bytes" where
  "get_port_status i = [0xA3, 0, 0, 0, of_nat (i + 1), 0, 4, 0]"

lemma port_index: "i < NUM_PORTS \<Longrightarrow> ucast (of_nat (i + 1) :: u8) - 1 = (of_nat i :: u32)"
  by (auto simp: less_8_cases)

lemma port_request_fields [simp]:
  "length (port_request r v i) = 8" "\<not> tst (port_request r v i ! 0) USB_DIR_IN" "request_of (port_request r v i) = 0x2300 OR ucast r"
  "value_of (port_request r v i) = ucast v" "index_of (port_request r v i) = ucast (of_nat (i + 1) :: u8)" "wLength (port_request r v i) = 0"
  by (simp_all add: port_request_def request_of_def value_of_def)

lemma get_port_status_fields [simp]:
  "length (get_port_status i) = 8" "tst (get_port_status i ! 0) USB_DIR_IN" "request_of (get_port_status i) = GetPortStatus"
  "value_of (get_port_status i) = 0" "index_of (get_port_status i) = ucast (of_nat (i + 1) :: u8)" "wLength (get_port_status i) = 4"
  by (simp_all add: get_port_status_def request_of_def value_of_def)

text \<open>A port whose gamepad has been reset, and the world when the port above was told.\<close>

definition reset_done :: "xid XboxDeviceState \<Rightarrow> USBHubPort \<Rightarrow> USBHubPort" where
  "reset_done d = enable_port (d\<lparr>RemoteWakeup := False, Addr := 0, dev_State := USB_STATE_DEFAULT\<rparr>)"

definition woken :: "'w USBPortOps \<Rightarrow> 'k XboxDeviceState \<Rightarrow> 'w \<Rightarrow> fault + 'w" where
  "woken ops s w =
     (case Port s of Some port \<Rightarrow> if RemoteWakeup s then port_wakeup ops (PortIndex port) w else Inr w | None \<Rightarrow> Inr w)"

lemma USB_Wakeup_woken: "USB_Wakeup ops (s, w) = bindr (woken ops s w) (\<lambda>w. Inr (s, w))"
  by (simp add: USB_Wakeup_def woken_def split: option.splits)

lemma same_device_port:
  assumes "same_device s t"
  shows "Port t = Port s"
  using arg_cong [OF assms [unfolded same_device_def], of Port] by simp

lemma on_port_fields [simp]:
  "Port (on_port i f t) = Port t" "RemoteWakeup (on_port i f t) = RemoteWakeup t" "EP_ctl (on_port i f t) = EP_ctl t"
  "Device (on_port i f t) = Device t" "ready_device (on_port i f t) = ready_device t"
  "klass_state (on_port i f t) = (klass_state t)[i := f (klass_state t ! i)]"
  by (simp_all add: on_port_def ready_device_def)

lemma woken_on_port: "woken ops (on_port i f t) w = woken ops t w"
  unfolding woken_def on_port_fields ..

lemma port_number: "i < NUM_PORTS \<Longrightarrow> unat ((ucast (of_nat (i + 1) :: u8) :: u32) - 1) = i"
  unfolding port_index by (intro unat_word) simp

lemma hub_resets:
  assumes "idle_packet p" and "Status p = USB_RET_SUCCESS" and "writing n ds t" and "SetupBuffer t = port_request 3 4 i"
    and "same_device s t" and s: "valid_hub s" and i: "i < NUM_PORTS" and d: "port_Dev (klass_state s ! i) = Some d" "Attached d \<noteq> 0"
    and wake: "woken ops s w = Inr v"
  shows "\<exists>q u w'. control_in_buffer (hub_class ops) (wLength (port_request 3 4 i)) (p, t, w) = Inr (q, u, w')
    \<and> (w' = v \<and> valid_hub u \<and> klass_state u = (klass_state s)[i := reset_done d (klass_state s ! i)])
    \<and> Status q = USB_RET_SUCCESS \<and> \<not> Pipeline (EP_ctl u) \<and> length (m_UsbBuffer q) = 8192"
proof -
  have t: "valid_hub t" using hub.valid_same [OF s assms(5)] assms(3) by (simp add: writing_def)
  have k: "klass_state t = klass_state s" by (rule same_device_fields [OF assms(5)])
  have w: "woken ops t w = woken ops s w"
    unfolding woken_def same_device_port [OF assms(5)] same_device_fields [OF assms(5)] ..
  define u where "u = on_port i (reset_done d) t"
  have u: "valid_hub u" "\<not> Pipeline (EP_ctl u)" "klass_state u = (klass_state s)[i := reset_done d (klass_state s ! i)]"
    using t by (simp_all add: u_def valid_hub_def k) (simp add: ready_device_def)
  have "woken ops u w = Inr v" unfolding wake [symmetric] w [symmetric] u_def by (rule woken_on_port)
  then have set: "set_port_feature ops PORT_RESET i (t, w) = Inr (Some (u, v))"
    using d unfolding u_def reset_done_def by (simp add: set_port_feature_def k reset_gamepad USB_Wakeup_woken)
  have "USBDesc_HandleControl hub_base 0x2303 4 x 0 (p, t, w) = Inr (False, p, t, w)" for x
    by (rule standard_unknown) simp_all
  then have "UsbHub_HandleControl ops 0x2303 4 x 0 (p, t, w) = Inr (p, u, v)" if "unat (x - 1) = i" for x
    using i set that by (simp add: UsbHub_HandleControl_def Let_def)
  from this [OF port_number [OF i]]
  have "control_in_buffer (hub_class ops) (wLength (port_request 3 4 i)) (p, t, w) = Inr (p, u, v)"
    unfolding hub_handles [OF assms(4)] port_request_fields by simp
  then show ?thesis using u assms(1,2) by (auto simp: idle_packet_def)
qed

lemma reset_port_writes:
  assumes p: "idle_packet p" and s: "valid_hub s" and i: "i < NUM_PORTS" and d: "port_Dev (klass_state s ! i) = Some d" "Attached d \<noteq> 0"
    and wake: "woken ops s w = Inr v"
  shows "\<exists>q u w'. control_write (hub_class ops) (port_request 3 4 i) [] (p, s, w) = Inr (q, u\<lparr>SetupState := SETUP_STATE_IDLE\<rparr>, w')
    \<and> Status q = USB_RET_SUCCESS
    \<and> (w' = v \<and> valid_hub u \<and> klass_state u = (klass_state s)[i := reset_done d (klass_state s ! i)]) \<and> idle_packet q"
proof (rule control_write_acts [OF p hub.valid_ready [OF s]])
  show "wLength (port_request 3 4 i) = of_nat (length (concat []))" by simp
  show "\<exists>q u w'. control_in_buffer (hub_class ops) (wLength (port_request 3 4 i)) (p, t, w) = Inr (q, u, w')
    \<and> (w' = v \<and> valid_hub u \<and> klass_state u = (klass_state s)[i := reset_done d (klass_state s ! i)])
    \<and> Status q = USB_RET_SUCCESS \<and> \<not> Pipeline (EP_ctl u) \<and> length (m_UsbBuffer q) = 8192"
    if "idle_packet p" "Status p = USB_RET_SUCCESS" "writing (length (concat [])) (concat []) t" "SetupBuffer t = port_request 3 4 i" "same_device s t"
    for p t using that s i d wake by (rule hub_resets)
qed simp_all

lemma find_first:
  assumes "i < length xs" and "P (i, xs ! i)" and "\<And>j. j < length xs \<Longrightarrow> j \<noteq> i \<Longrightarrow> \<not> P (j, xs ! j)"
  shows "find P (List.enumerate 0 xs) = Some (i, xs ! i)"
  unfolding find_Some_iff using assms
  by (intro exI [of _ i]) (auto simp: nth_enumerate_eq)

text \<open>C35: when the host resets a port of the hub that has a gamepad, the port is enabled and notes that the reset is done, as the host
  reads from the status of the port, the other ports stay as they are, the port above is woken when the hub may do so, and the
  gamepad, and no other device, then answers at address 0.\<close>

theorem port_reset_enables:
  assumes p: "idle_packet p" and s: "valid_hub s" and i: "i < NUM_PORTS" and d: "port_Dev (klass_state s ! i) = Some d" "Attached d \<noteq> 0"
    and wake: "woken ops s w = Inr v"
    and quiet: "\<And>j. j < NUM_PORTS \<Longrightarrow> j \<noteq> i \<Longrightarrow> USB_FindDevice no_device 0 (port_Dev (klass_state s ! j)) = None"
  defines "port \<equiv> reset_done d (klass_state s ! i)"
  shows "\<exists>q t r u. control_write (hub_class ops) (port_request 3 4 i) [] (p, s, w) = Inr (q, t, v) \<and> Status q = USB_RET_SUCCESS
    \<and> control_read (hub_class ops) (get_port_status i) [4] (q, t, v) =
        Inr ([lo8 (wPortStatus port), hi8 (wPortStatus port), lo8 (wPortChange port), hi8 (wPortChange port)], r, u, v)
    \<and> tst (wPortStatus port) PORT_STAT_ENABLE \<and> tst (wPortChange port) PORT_STAT_C_RESET
    \<and> klass_state u = (klass_state s)[i := port] \<and> valid_hub u \<and> UsbHub_FindDevice u 0 = Some i"
proof -
  obtain q u where q: "control_write (hub_class ops) (port_request 3 4 i) [] (p, s, w) = Inr (q, u\<lparr>SetupState := SETUP_STATE_IDLE\<rparr>, v)"
      "Status q = USB_RET_SUCCESS" "valid_hub u" "klass_state u = (klass_state s)[i := port]" "idle_packet q"
    using reset_port_writes [OF p s i d wake] by (auto simp: port_def)
  let ?u = "u\<lparr>SetupState := SETUP_STATE_IDLE\<rparr>"
  have len: "length (klass_state s) = NUM_PORTS" using s by (simp add: valid_hub_def)
  have valid: "valid_hub ?u" using q(3) by (simp add: valid_hub_def ready_device_def)
  have reply: "hub_reply ?u (get_port_status i) = Some (port_bytes port)"
    using i len q(4) port_number [OF i]
    by (simp add: hub_reply_def standard_reply_def hub_request_def)
  have load: "length (get_port_status i) = 8" "tst (get_port_status i ! 0) USB_DIR_IN" by simp_all
  have ns: "\<forall>n\<in>set [4]. n \<le> (8192 :: nat)" "length (port_bytes port) \<le> sum_list [4]" "port_bytes port \<noteq> []"
    by (simp_all add: port_bytes_def)
  obtain r x where r: "control_read (hub_class ops) (get_port_status i) [4] (q, ?u, v) = Inr (port_bytes port, r, x, v)"
      "valid_hub x" "same_device ?u x"
    using hub.read_reply [OF q(5) valid load reply ns, of ops "v"] by blast
  have x: "klass_state x = (klass_state s)[i := port]"
    using same_device_fields(1) [OF r(3)] q(4) by simp
  have on: "tst (wPortStatus port) PORT_STAT_ENABLE" "tst (wPortChange port) PORT_STAT_C_RESET"
    by (simp_all add: port_def reset_done_def enable_port_def word_bits bit_simps)
  have "USB_FindDevice no_device 0 (port_Dev port) \<noteq> None"
    using d(2) by (simp add: port_def reset_done_def enable_port_def USB_FindDevice_def)
  then have "UsbHub_FindDevice x 0 = Some i"
    using i len quiet on(1) unfolding UsbHub_FindDevice_def by (subst find_first [of i]) (auto simp: x)
  then show ?thesis using q(1,2) r x on by (auto simp: port_bytes_def)
qed

text \<open>A hub with a gamepad at its second port.\<close>

definition no_ops :: "unit USBPortOps" where
  "no_ops = \<lparr>port_wakeup = \<lambda>_ w. Inr w, port_child_detach = \<lambda>_ d w. Inr (d, w)\<rparr>"

definition sample_hub :: "hub XboxDeviceState" where
  "sample_hub = (new_device ((replicate NUM_PORTS new_hub_port)[1 := new_hub_port\<lparr>wPortStatus := 0x101, wPortChange := 1,
     port_Dev := Some (sample_gamepad\<lparr>Attached := 1\<rparr>)\<rparr>]))\<lparr>dev_State := USB_STATE_DEFAULT, Device := Some desc_device_hub\<rparr>"

lemma sample_hub_valid: "valid_hub sample_hub"
  by (simp add: sample_hub_def valid_hub_def ready_device_def new_device_def zero_EP_def DATA_BUFFER_SIZE_def)

theorem port_reset_enables_witness:
  "\<exists>q t r u. control_write (hub_class no_ops) (port_request 3 4 1) [] (fresh_packet, sample_hub, ()) = Inr (q, t, ()) \<and> Status q = USB_RET_SUCCESS
    \<and> control_read (hub_class no_ops) (get_port_status 1) [4] (q, t, ()) = Inr ([0x03, 0x01, 0x11, 0x00], r, u, ())
    \<and> valid_hub u \<and> UsbHub_FindDevice u 0 = Some 1"
proof -
  have ports: "klass_state sample_hub = (replicate NUM_PORTS new_hub_port)[1 := new_hub_port\<lparr>wPortStatus := 0x101, wPortChange := 1,
      port_Dev := Some (sample_gamepad\<lparr>Attached := 1\<rparr>)\<rparr>]"
    by (simp add: sample_hub_def new_device_def)
  have "USB_FindDevice no_device 0 (port_Dev (klass_state sample_hub ! j)) = None" if "j < NUM_PORTS" "j \<noteq> 1" for j
    using that by (simp add: ports nth_list_update new_hub_port_def USB_FindDevice_def)
  moreover have wake: "woken no_ops sample_hub () = Inr ()" by (simp add: woken_def no_ops_def split: option.splits)
  ultimately show ?thesis
    using port_reset_enables [OF idle_fresh sample_hub_valid _ _ _ wake, of 1 "sample_gamepad\<lparr>Attached := 1\<rparr>"]
    by (auto simp: ports reset_done_def enable_port_def)
qed

section \<open>The status of the ports\<close>

lemma bit_hub_status:
  "length ports \<le> 31 \<Longrightarrow> bit (hub_status ports) k \<longleftrightarrow> (\<exists>i<length ports. k = Suc i \<and> wPortChange (ports ! i) \<noteq> 0)"
proof (induction ports rule: rev_induct)
  case Nil
  then show ?case by (simp add: hub_status_def)
next
  case (snoc port ports)
  have "hub_status (ports @ [port]) = (if wPortChange port \<noteq> 0 then hub_status ports OR push_bit (length ports + 1) 1 else hub_status ports)"
    by (simp add: hub_status_def enumerate_append_eq)
  moreover have "bit (push_bit (length ports + 1) (1 :: u32)) k \<longleftrightarrow> k = length ports + 1"
    using snoc.prems unfolding bit_push_bit_1 by auto
  ultimately have "bit (hub_status (ports @ [port])) k \<longleftrightarrow> bit (hub_status ports) k \<or> wPortChange port \<noteq> 0 \<and> k = Suc (length ports)"
    by (auto simp only: bit_or_iff split: if_splits)
  then show ?case
    using snoc by (auto simp: nth_append less_Suc_eq)
qed

lemma hub_status_0:
  assumes "length ports \<le> 31"
  shows "hub_status ports = 0 \<longleftrightarrow> (\<forall>port\<in>set ports. wPortChange port = 0)"
proof -
  have "hub_status ports = 0 \<longleftrightarrow> (\<forall>k. \<not> bit (hub_status ports) k)" by (auto intro: bit_word_eqI)
  then show ?thesis using bit_hub_status [OF assms] by (auto simp: all_set_conv_all_nth)
qed

text \<open>an IN packet for the interrupt endpoint of the hub is refused with NAK when nothing has changed at any port, and otherwise
  returns two bytes in which exactly the bits of the changed ports, counted from one, are set.\<close>

theorem status_change_reported:
  assumes p: "one_piece n p" "2 \<le> n" and "Pid p = USB_TOKEN_IN" and "Endpoint p = Some (In_ep 0)"
    and "Num (EP_in s ! 0) = 1" and "0 < length (EP_in s)" and len: "length (klass_state s) = NUM_PORTS"
  shows "if \<forall>port\<in>set (klass_state s). wPortChange port = 0
    then UsbHub_HandleData (p, s, w) = Inr (p\<lparr>Status := USB_RET_NAK\<rparr>, s, w)
    else \<exists>q lo hi. UsbHub_HandleData (p, s, w) = Inr (q, s, w) \<and> ActualLength q = 2 \<and> take 2 (m_UsbBuffer q) = [lo, hi]
      \<and> (\<forall>k. bit (le16 lo hi) k \<longleftrightarrow> (\<exists>i<NUM_PORTS. k = Suc i \<and> wPortChange (klass_state s ! i) \<noteq> 0))"
proof -
  let ?st = "hub_status (klass_state s)"
  have size: "Size (IoVec p) = n" "n \<noteq> 1" using p by (auto simp: one_piece_def)
  have ep: "get_EP s (In_ep 0) = Inr (EP_in s ! 0)" using assms(6) by (simp add: get_EP_def aget_def)
  have zero: "?st = 0 \<longleftrightarrow> (\<forall>port\<in>set (klass_state s). wPortChange port = 0)" using len by (intro hub_status_0) simp
  let ?lo = "ucast ?st :: u8" and ?hi = "ucast (drop_bit 8 ?st) :: u8"
  have cpy: "USB_PacketCopy [?lo, ?hi, 0, 0] 0 2 p = Inr ([?lo, ?hi, 0, 0], p\<lparr>ActualLength := of_nat 2,
      m_UsbBuffer := take 2 (drop 0 [?lo, ?hi, 0, 0]) @ drop 2 (m_UsbBuffer p)\<rparr>)"
    by (rule copy_in [OF p(1) assms(3)]) (use p(2) in simp_all)
  have bits: "bit (le16 ?lo ?hi) k \<longleftrightarrow> (\<exists>i<NUM_PORTS. k = Suc i \<and> wPortChange (klass_state s ! i) \<noteq> 0)" for k
  proof -
    have "bit (le16 ?lo ?hi) k \<longleftrightarrow> k < 16 \<and> bit ?st k"
      by (auto simp: le16_def bit_simps)
    then show ?thesis using bit_hub_status [of "klass_state s" k] len by auto
  qed
  show ?thesis
  proof (cases "?st = 0")
    case True
    then show ?thesis using zero assms(3-5) ep by (simp add: UsbHub_HandleData_def)
  next
    case False
    have "UsbHub_HandleData (p, s, w) = Inr (p\<lparr>ActualLength := 2, m_UsbBuffer := [?lo, ?hi] @ drop 2 (m_UsbBuffer p)\<rparr>, s, w)"
      using False size p(2) assms(3-5) ep cpy by (simp add: UsbHub_HandleData_def numeral_2_eq_2 Let_def)
    then show ?thesis using bits False zero by auto
  qed
qed

definition status_packet :: USBPacket where
  "status_packet = USB_PacketAddBuffer 0 8 (fresh_packet\<lparr>Pid := USB_TOKEN_IN, Endpoint := Some (In_ep 0)\<rparr>)"

theorem status_change_reported_witness:
  "\<exists>q lo hi. UsbHub_HandleData (status_packet, USB_EpInit sample_hub, ()) = Inr (q, USB_EpInit sample_hub, ()) \<and> ActualLength q = 2
    \<and> take 2 (m_UsbBuffer q) = [lo, hi] \<and> bit (le16 lo hi) 2"
proof -
  let ?s = "USB_EpInit sample_hub"
  have p: "one_piece 8 status_packet" "Pid status_packet = USB_TOKEN_IN" "Endpoint status_packet = Some (In_ep 0)"
    by (simp_all add: status_packet_def one_piece_def fresh_packet_def USB_PacketAddBuffer_def IoVecAdd_def Let_def)
  have s: "Num (EP_in ?s ! 0) = 1" "0 < length (EP_in ?s)" "length (klass_state ?s) = NUM_PORTS"
    by (simp_all add: sample_hub_def new_device_def USB_EpInit_def USB_EpReset_def reset_ep_def Let_def nth_enumerate_eq)
  have change: "wPortChange (klass_state ?s ! 1) \<noteq> 0"
    by (simp add: sample_hub_def new_device_def USB_EpInit_def USB_EpReset_def Let_def)
  moreover have "klass_state ?s ! 1 \<in> set (klass_state ?s)" by (rule nth_mem) (simp add: s(3))
  ultimately have changed: "\<not> (\<forall>port\<in>set (klass_state ?s). wPortChange port = 0)" by blast
  have "\<exists>q lo hi. UsbHub_HandleData (status_packet, ?s, ()) = Inr (q, ?s, ()) \<and> ActualLength q = 2 \<and> take 2 (m_UsbBuffer q) = [lo, hi]
      \<and> (\<forall>k. bit (le16 lo hi) k \<longleftrightarrow> (\<exists>i<NUM_PORTS. k = Suc i \<and> wPortChange (klass_state ?s ! i) \<noteq> 0))"
    using status_change_reported [OF p(1) _ p(2,3) s, of "()"] changed by simp
  moreover have "\<exists>i<NUM_PORTS. (2 :: nat) = Suc i \<and> wPortChange (klass_state ?s ! i) \<noteq> 0" using change(1) by (intro exI [of _ 1]) simp
  ultimately show ?thesis by blast
qed

end
