(* ===== verification/Ohci_Laws.thy ===== *)
theory Ohci_Laws
  imports OhciList Hub_Laws
begin

text \<open>
  The registers and the ports of the host controller: every access returns and keeps the controller well formed, a hub
  that is plugged in answers once its port is reset, and the second controller of the console cannot take a hub.
\<close>

section \<open>Well-formed controllers\<close>

text \<open>The hub of a port knows the number of the port, and is at least attached; no packet waits for its device.\<close>

definition wf_root :: "nat \<Rightarrow> hub XboxDeviceState \<Rightarrow> bool" where
  "wf_root i d \<longleftrightarrow> (\<exists>port. Port d = Some port \<and> PortIndex port = i) \<and> (Attached d \<noteq> 0 \<longrightarrow> dev_State d \<noteq> USB_STATE_NOTATTACHED)"

definition wf_ports :: "OHCIPort list \<Rightarrow> bool" where
  "wf_ports ps \<longleftrightarrow> length ps = 4 \<and> (\<forall>i<4. \<forall>d. root_Dev (ps ! i) = Some d \<longrightarrow> wf_root i d)"

definition wf_timer :: "'m ohci \<Rightarrow> bool" where
  "wf_timer s \<longleftrightarrow> wf_clock s \<and> (\<forall>t. m_pEOFtimer s = Some t \<longrightarrow> alive t s \<and> \<not> timer_Exit (the (timer_objects s ! t)))"

definition wf_ohci :: "'m ohci \<Rightarrow> bool" where
  "wf_ohci s \<longleftrightarrow> wf_ports (RhPort s) \<and> wf_timer s \<and> m_AsyncTD s = 0"

lemma waiting_registers [simp]:
  "waiting (s\<lparr>HcControl := v\<rparr>) = waiting s" "waiting (s\<lparr>HcCommandStatus := v\<rparr>) = waiting s" "waiting (s\<lparr>HcInterruptStatus := v\<rparr>) = waiting s"
  "waiting (s\<lparr>HcInterrupt := v\<rparr>) = waiting s" "waiting (s\<lparr>HcHCCA := v\<rparr>) = waiting s" "waiting (s\<lparr>HcControlHeadED := v\<rparr>) = waiting s"
  "waiting (s\<lparr>HcControlCurrentED := v\<rparr>) = waiting s" "waiting (s\<lparr>HcBulkHeadED := v\<rparr>) = waiting s" "waiting (s\<lparr>HcBulkCurrentED := v\<rparr>) = waiting s"
  "waiting (s\<lparr>HcDoneHead := v\<rparr>) = waiting s" "waiting (s\<lparr>HcFmInterval := v\<rparr>) = waiting s" "waiting (s\<lparr>HcFmRemaining := v\<rparr>) = waiting s"
  "waiting (s\<lparr>HcFmNumber := v\<rparr>) = waiting s" "waiting (s\<lparr>HcPeriodicStart := v\<rparr>) = waiting s" "waiting (s\<lparr>HcLSThreshold := v\<rparr>) = waiting s"
  "waiting (s\<lparr>HcRhDescriptorA := v\<rparr>) = waiting s" "waiting (s\<lparr>HcRhDescriptorB := v\<rparr>) = waiting s" "waiting (s\<lparr>HcRhStatus := v\<rparr>) = waiting s"
  "waiting (s\<lparr>HcRevision := v\<rparr>) = waiting s" "waiting (s\<lparr>HcPeriodCurrentED := v\<rparr>) = waiting s" "waiting (s\<lparr>RhPort := ps\<rparr>) = waiting s"
  for s :: "'m ohci"
  by (simp_all add: waiting_def)

lemma waiting_members [simp]:
  "waiting (s\<lparr>m_bFrameTime := b\<rparr>) = waiting s" "waiting (s\<lparr>m_pEOFtimer := t\<rparr>) = waiting s" "waiting (s\<lparr>m_SOFtime := time\<rparr>) = waiting s"
  "waiting (s\<lparr>m_UsbPacket := p\<rparr>) = waiting s" "waiting (s\<lparr>m_PacketDev := r\<rparr>) = waiting s" "waiting (s\<lparr>m_OldHcControl := v\<rparr>) = waiting s"
  "waiting (s\<lparr>m_DoneCount := i\<rparr>) = waiting s" "waiting (s\<lparr>m_AsyncTD := v\<rparr>) = waiting s" "waiting (s\<lparr>m_AsyncComplete := b\<rparr>) = waiting s"
  "waiting (s\<lparr>ohci_memory := m\<rparr>) = waiting s"
  by (simp_all add: waiting_def)

lemma wf_timer_registers [simp]:
  "wf_timer (s\<lparr>HcControl := v\<rparr>) = wf_timer s" "wf_timer (s\<lparr>HcCommandStatus := v\<rparr>) = wf_timer s" "wf_timer (s\<lparr>HcInterruptStatus := v\<rparr>) = wf_timer s"
  "wf_timer (s\<lparr>HcInterrupt := v\<rparr>) = wf_timer s" "wf_timer (s\<lparr>HcHCCA := v\<rparr>) = wf_timer s" "wf_timer (s\<lparr>HcControlHeadED := v\<rparr>) = wf_timer s"
  "wf_timer (s\<lparr>HcControlCurrentED := v\<rparr>) = wf_timer s" "wf_timer (s\<lparr>HcBulkHeadED := v\<rparr>) = wf_timer s" "wf_timer (s\<lparr>HcBulkCurrentED := v\<rparr>) = wf_timer s"
  "wf_timer (s\<lparr>HcDoneHead := v\<rparr>) = wf_timer s" "wf_timer (s\<lparr>HcFmInterval := v\<rparr>) = wf_timer s" "wf_timer (s\<lparr>HcFmRemaining := v\<rparr>) = wf_timer s"
  "wf_timer (s\<lparr>HcFmNumber := v\<rparr>) = wf_timer s" "wf_timer (s\<lparr>HcPeriodicStart := v\<rparr>) = wf_timer s" "wf_timer (s\<lparr>HcLSThreshold := v\<rparr>) = wf_timer s"
  "wf_timer (s\<lparr>HcRhDescriptorA := v\<rparr>) = wf_timer s" "wf_timer (s\<lparr>HcRhDescriptorB := v\<rparr>) = wf_timer s" "wf_timer (s\<lparr>HcRhStatus := v\<rparr>) = wf_timer s"
  "wf_timer (s\<lparr>HcRevision := v\<rparr>) = wf_timer s" "wf_timer (s\<lparr>HcPeriodCurrentED := v\<rparr>) = wf_timer s" "wf_timer (s\<lparr>RhPort := ps\<rparr>) = wf_timer s"
  by (simp_all add: wf_timer_def wf_clock_def)

lemma wf_timer_members [simp]:
  "wf_timer (s\<lparr>m_bFrameTime := b\<rparr>) = wf_timer s" "wf_timer (s\<lparr>m_SOFtime := time\<rparr>) = wf_timer s" "wf_timer (s\<lparr>m_UsbPacket := p\<rparr>) = wf_timer s"
  "wf_timer (s\<lparr>m_PacketDev := r\<rparr>) = wf_timer s" "wf_timer (s\<lparr>m_OldHcControl := v\<rparr>) = wf_timer s" "wf_timer (s\<lparr>m_DoneCount := i\<rparr>) = wf_timer s"
  "wf_timer (s\<lparr>m_AsyncTD := v\<rparr>) = wf_timer s" "wf_timer (s\<lparr>m_AsyncComplete := b\<rparr>) = wf_timer s" "wf_timer (s\<lparr>ohci_memory := m\<rparr>) = wf_timer s"
  by (simp_all add: wf_timer_def wf_clock_def)

lemma OHCI_SetInterrupt_fields [simp]:
  "RhPort (OHCI_SetInterrupt v s) = RhPort s" "m_AsyncTD (OHCI_SetInterrupt v s) = m_AsyncTD s" "wf_timer (OHCI_SetInterrupt v s) = wf_timer s"
  "HcControl (OHCI_SetInterrupt v s) = HcControl s" "m_pEOFtimer (OHCI_SetInterrupt v s) = m_pEOFtimer s"
  "HcInterruptStatus (OHCI_SetInterrupt v s) = HcInterruptStatus s OR v"
  by (simp_all add: OHCI_SetInterrupt_def OHCI_UpdateInterrupt_def)

lemma upd_port_fields [simp]:
  "RhPort (upd_port i f s) = (RhPort s)[i := f (RhPort s ! i)]" "m_AsyncTD (upd_port i f s) = m_AsyncTD s" "wf_timer (upd_port i f s) = wf_timer s"
  "HcControl (upd_port i f s) = HcControl s" "m_pEOFtimer (upd_port i f s) = m_pEOFtimer s" "HcInterruptStatus (upd_port i f s) = HcInterruptStatus s"
  by (simp_all add: upd_port_def)

lemma upd_status_fields [simp]:
  "m_AsyncTD (upd_status i f s) = m_AsyncTD s" "wf_timer (upd_status i f s) = wf_timer s" "HcControl (upd_status i f s) = HcControl s"
  "m_pEOFtimer (upd_status i f s) = m_pEOFtimer s" "HcInterruptStatus (upd_status i f s) = HcInterruptStatus s"
  by (simp_all add: upd_status_def)

lemma wf_ports_update:
  "wf_ports ps \<Longrightarrow> (\<And>d. root_Dev port = Some d \<Longrightarrow> wf_root i d) \<Longrightarrow> wf_ports (ps[i := port])"
  by (cases "i < 4") (auto simp: wf_ports_def nth_list_update)

lemma wf_ports_status [simp]: "wf_ports ps \<Longrightarrow> wf_ports (ps[i := (ps ! i)\<lparr>HcRhPortStatus := st\<rparr>])"
  by (cases "i < 4") (auto simp: wf_ports_def nth_list_update)

lemma wf_ports_length: "wf_ohci s \<Longrightarrow> length (RhPort s) = 4"
  by (simp add: wf_ohci_def wf_ports_def)

lemma wf_async: "wf_ohci s \<Longrightarrow> m_AsyncTD s = 0"
  by (simp add: wf_ohci_def)

lemma wf_upd_status [simp]: "wf_ohci s \<Longrightarrow> wf_ohci (upd_status i f s)"
  by (simp add: wf_ohci_def upd_status_def)

lemma wf_registers [simp]:
  "wf_ohci (s\<lparr>HcControl := v0\<rparr>) = wf_ohci s" "wf_ohci (s\<lparr>HcCommandStatus := v1\<rparr>) = wf_ohci s" "wf_ohci (s\<lparr>HcInterruptStatus := v2\<rparr>) = wf_ohci s"
  "wf_ohci (s\<lparr>HcInterrupt := v3\<rparr>) = wf_ohci s" "wf_ohci (s\<lparr>HcHCCA := v4\<rparr>) = wf_ohci s" "wf_ohci (s\<lparr>HcControlHeadED := v5\<rparr>) = wf_ohci s"
  "wf_ohci (s\<lparr>HcControlCurrentED := v6\<rparr>) = wf_ohci s" "wf_ohci (s\<lparr>HcBulkHeadED := v7\<rparr>) = wf_ohci s" "wf_ohci (s\<lparr>HcBulkCurrentED := v8\<rparr>) = wf_ohci s"
  "wf_ohci (s\<lparr>HcDoneHead := v9\<rparr>) = wf_ohci s" "wf_ohci (s\<lparr>HcFmInterval := v10\<rparr>) = wf_ohci s" "wf_ohci (s\<lparr>HcFmRemaining := v11\<rparr>) = wf_ohci s"
  "wf_ohci (s\<lparr>HcFmNumber := v12\<rparr>) = wf_ohci s" "wf_ohci (s\<lparr>HcPeriodicStart := v13\<rparr>) = wf_ohci s" "wf_ohci (s\<lparr>HcLSThreshold := v14\<rparr>) = wf_ohci s"
  "wf_ohci (s\<lparr>HcRhDescriptorA := v15\<rparr>) = wf_ohci s" "wf_ohci (s\<lparr>HcRhStatus := v16\<rparr>) = wf_ohci s" "wf_ohci (s\<lparr>m_DoneCount := v17\<rparr>) = wf_ohci s"
  "wf_ohci (s\<lparr>m_OldHcControl := v18\<rparr>) = wf_ohci s" "wf_ohci (s\<lparr>m_bFrameTime := v19\<rparr>) = wf_ohci s" "wf_ohci (s\<lparr>m_SOFtime := v20\<rparr>) = wf_ohci s"
  "wf_ohci (s\<lparr>ohci_memory := v21\<rparr>) = wf_ohci s" "wf_ohci (s\<lparr>m_UsbPacket := v22\<rparr>) = wf_ohci s" "wf_ohci (s\<lparr>m_PacketDev := v23\<rparr>) = wf_ohci s"
  by (simp_all add: wf_ohci_def)

lemma wf_OHCI_SetInterrupt [simp]: "wf_ohci (OHCI_SetInterrupt v s) = wf_ohci s"
  by (simp add: wf_ohci_def)

lemma wf_PortPower [simp]: "wf_ohci s \<Longrightarrow> wf_ohci (OHCI_PortPower i p s)"
  by (simp add: OHCI_PortPower_def)

lemma wf_PortSetIfConnected [simp]: "wf_ohci s \<Longrightarrow> wf_ohci (fst (OHCI_PortSetIfConnected i v s))"
  by (simp add: OHCI_PortSetIfConnected_def)

section \<open>Devices at the ports\<close>

lemma run_root:
  assumes "i < length (RhPort s)" and "root_Dev (RhPort s ! i) = Some d"
  shows "run_device (Root i) f g s = bindr (f (d, s)) (\<lambda>(d, s). Inr (upd_port i (\<lambda>port. port\<lparr>root_Dev := Some d\<rparr>) s))"
  using assms by (cases "f (d, s)") (auto simp: run_device_def on_device_def lift_op_def aget_def)

lemma run_root_wf:
  assumes s: "wf_ohci s" and i: "i < 4" and d: "root_Dev (RhPort s ! i) = Some d"
    and f: "returns (\<lambda>(d, s). wf_root i d \<and> wf_ohci s) (f (d, s))"
  shows "returns wf_ohci (run_device (Root i) f g s)"
proof -
  have len: "i < length (RhPort s)" using wf_ports_length [OF s] i by simp
  show ?thesis
    unfolding run_root [OF len d] returns_bindr
    by (intro returns_mono [OF f]) (auto simp: wf_ohci_def intro!: wf_ports_update)
qed

lemma cancel_nothing [simp]: "m_AsyncTD s = 0 \<Longrightarrow> OHCI_AsyncCancelDevice klass r (d, s) = Inr (d, s)"
  by (simp add: OHCI_AsyncCancelDevice_def)

lemma Detach_returns:
  "wf_ohci s \<Longrightarrow> i < 4 \<Longrightarrow> returns (\<lambda>(d', s). d' = d \<and> wf_ohci s) (OHCI_Detach i (d, s))"
  by (simp add: OHCI_Detach_def wf_ports_length wf_async Let_def)

lemma Attach_returns:
  "wf_ohci s \<Longrightarrow> i < 4 \<Longrightarrow> returns (\<lambda>(d', s). d' = d \<and> wf_ohci s) (OHCI_Attach i (d, s))"
  by (simp add: OHCI_Attach_def wf_ports_length Let_def)

lemma DeviceReset_root:
  "wf_root i d \<Longrightarrow> returns (\<lambda>(d', s'). wf_root i d' \<and> s' = s) (USB_DeviceReset (root_class i) (d, s))"
  by (simp add: USB_DeviceReset_def USB_DeviceHandleReset_def hub_class_def UsbHub_HandleReset_def wf_root_def)

lemma PortReset_root:
  assumes s: "wf_ohci s" and i: "i < 4" and d: "wf_root i d" "Attached d \<noteq> 0"
  shows "returns (\<lambda>(d, s). wf_root i d \<and> wf_ohci s) (USB_PortReset (root_class i) OHCI_Attach OHCI_Detach (d, s))"
proof -
  obtain port where port: "Port d = Some port" "PortIndex port = i" using d by (auto simp: wf_root_def)
  obtain s1 where s1: "OHCI_Detach i (d, s) = Inr (d, s1)" "wf_ohci s1" using Detach_returns [OF s i, of d] by (auto simp: returns_iff)
  let ?d = "d\<lparr>dev_State := USB_STATE_NOTATTACHED\<rparr>"
  obtain s2 where s2: "OHCI_Attach i (?d, s1) = Inr (?d, s2)" "wf_ohci s2" using Attach_returns [OF s1(2) i, of ?d] by (auto simp: returns_iff)
  have wf: "wf_root i (?d\<lparr>dev_State := USB_STATE_ATTACHED\<rparr>)" using d by (simp add: wf_root_def)
  have "returns (\<lambda>(d, s). wf_root i d \<and> wf_ohci s) (USB_DeviceReset (root_class i) (d\<lparr>dev_State := USB_STATE_ATTACHED\<rparr>, s2))"
    by (rule returns_mono [OF DeviceReset_root]) (use d wf s2 in \<open>auto simp: wf_root_def\<close>)
  then show ?thesis
    using d port s1(1) s2(1) by (simp add: USB_PortReset_def USB_Detach_def USB_Attach_def wf_root_def USB_DeviceHandleAttach_def hub_class_def)
qed

section \<open>States\<close>

lemma upd_timer_alive:
  "alive i c \<Longrightarrow> upd_timer i f c = Inr (c\<lparr>timer_objects := (timer_objects c)[i := Some (f (the (timer_objects c ! i)))]\<rparr>)"
  by (auto simp: upd_timer_def deref_timer_def aget_def)

lemma wf_clock_upd: "wf_clock c \<Longrightarrow> alive i c \<Longrightarrow> wf_clock (c\<lparr>timer_objects := (timer_objects c)[i := Some t]\<rparr>)"
  by (auto simp: wf_clock_def nth_list_update)

lemma wf_clock_members [simp]:
  "wf_clock (s\<lparr>m_pEOFtimer := t\<rparr>) = wf_clock s" "wf_clock (s\<lparr>m_SOFtime := time\<rparr>) = wf_clock s"
  by (simp_all add: wf_clock_def)

lemma BusStop_returns:
  assumes "wf_ohci s"
  shows "returns (\<lambda>t. wf_ohci t \<and> m_pEOFtimer t = None \<and> RhPort t = RhPort s \<and> HcControl t = HcControl s
    \<and> HcInterruptStatus t = HcInterruptStatus s) (OHCI_BusStop s)"
  using assms
  by (cases "m_pEOFtimer s")
    (auto simp: OHCI_BusStop_def Timer_Exit_def upd_timer_alive wf_ohci_def wf_timer_def intro!: wf_clock_upd)

lemma for_each_returns:
  "Q s \<Longrightarrow> (\<And>x s. x \<in> set xs \<Longrightarrow> Q s \<Longrightarrow> returns Q (f x s)) \<Longrightarrow> returns Q (for_each f xs s)"
  by (induction xs arbitrary: s) (auto intro: returns_mono)

lemma for_each_nothing [simp]: "for_each (\<lambda>x. Inr) xs s = Inr s"
  by (induction xs) simp_all

lemma EPstopped_hub [simp]: "USB_DeviceEPstopped (hub_class ops) ep t = Inr t"
  by (simp add: USB_DeviceEPstopped_def hub_class_def)

lemma same_port: "i < length (RhPort s) \<Longrightarrow> root_Dev (RhPort s ! i) = Some d \<Longrightarrow> upd_port i (\<lambda>port. port\<lparr>root_Dev := Some d\<rparr>) s = s"
  by (auto simp: upd_port_def list_update_same_conv intro: OHCIPort.equality OHCI_Registers.equality)

lemma stop_endpoints_nothing:
  "wf_ohci s \<Longrightarrow> i < 4 \<Longrightarrow> stop_endpoints i s = Inr s"
  by (auto simp: stop_endpoints_def run_root same_port wf_ports_length Let_def split: option.splits)

lemma StopEndpoints_nothing: "wf_ohci s \<Longrightarrow> OHCI_StopEndpoints s = Inr s"
  by (simp add: OHCI_StopEndpoints_def upt_rec stop_endpoints_nothing)

lemma Timer_Start_alive:
  assumes "alive i c"
  shows "\<exists>due. Timer_Start i expire c = Inr (c\<lparr>timer_objects := (timer_objects c)[i := Some ((the (timer_objects c ! i))\<lparr>ExpireTime_MS := expire\<rparr>)],
    clock_threads := clock_threads c @ [(i, due)]\<rparr>)"
  using assms by (auto simp: Timer_Start_def upd_timer_alive GetNextExpireTime_def GetTime_NS_def deref_timer_def aget_def)

lemma BusStart_returns:
  assumes s: "wf_ohci s"
  shows "returns (\<lambda>t. wf_ohci t \<and> m_pEOFtimer t \<noteq> None) (OHCI_BusStart s)"
proof -
  obtain t c where c: "Timer_Create 50 s = (t, c)" by fastforce
  have "wf_clock s" using s by (simp add: wf_ohci_def wf_timer_def)
  note new = Timer_Create_wf [OF this c]
  have fields: "RhPort c = RhPort s" "m_AsyncTD c = m_AsyncTD s" "\<not> timer_Exit (the (timer_objects c ! t))"
    using c by (auto simp: Timer_Create_def Let_def)
  have start: "returns (\<lambda>u. wf_ohci u \<and> m_pEOFtimer u \<noteq> None) (Timer_Start t e (c\<lparr>m_pEOFtimer := Some t, m_SOFtime := now\<rparr>))" for e now
    using Timer_Start_alive [of t "c\<lparr>m_pEOFtimer := Some t, m_SOFtime := now\<rparr>" e]
      Timer_Start_wf [of "c\<lparr>m_pEOFtimer := Some t, m_SOFtime := now\<rparr>" t e] new fields s
    by (auto simp: wf_ohci_def wf_timer_def)
  obtain now where "GetTime_NS t (c\<lparr>m_pEOFtimer := Some t\<rparr>) = Inr now"
    using new(2) GetTime_returns [of t "c\<lparr>m_pEOFtimer := Some t\<rparr>"] by (auto simp: returns_iff)
  then show ?thesis
    using returns_mono [OF start] by (simp add: OHCI_BusStart_def OHCI_SOF_def c)
qed

lemma wf_root_at: "wf_ohci s \<Longrightarrow> i < 4 \<Longrightarrow> root_Dev (RhPort s ! i) = Some d \<Longrightarrow> wf_root i d"
  by (simp add: wf_ohci_def wf_ports_def)

lemma reset_root_port_returns:
  assumes "wf_ohci s" and i: "i < 4"
  shows "returns wf_ohci (reset_root_port i s)"
proof -
  have s: "wf_ohci (upd_status i (\<lambda>_. 0) s)" using assms(1) by simp
  show ?thesis
  proof (cases "root_Dev (RhPort (upd_status i (\<lambda>_. 0) s) ! i)")
    case None
    then show ?thesis using s by (simp add: reset_root_port_def Let_def)
  next
    case (Some d)
    have "returns wf_ohci (run_device (Root i) (USB_PortReset (root_class i) OHCI_Attach OHCI_Detach) Inr (upd_status i (\<lambda>_. 0) s))" if "Attached d \<noteq> 0"
      by (rule run_root_wf [OF s i Some, where f = "USB_PortReset (root_class i) OHCI_Attach OHCI_Detach",
        OF PortReset_root [OF s i wf_root_at [OF s i Some] that]])
    then show ?thesis using s Some by (simp add: reset_root_port_def Let_def)
  qed
qed

lemma StateReset_returns: "wf_ohci s \<Longrightarrow> returns wf_ohci (OHCI_StateReset s)"
  unfolding OHCI_StateReset_def returns_bindr Let_def
proof (rule returns_mono [OF BusStop_returns])
  fix t :: "'a ohci"
  let ?t = "t\<lparr>m_OldHcControl := 0, HcRevision := 0x10, HcControl := 0, HcCommandStatus := 0, HcInterruptStatus := 0,
           HcInterrupt := OHCI_INTR_MIE, HcHCCA := 0, HcPeriodCurrentED := 0, HcControlHeadED := 0, HcControlCurrentED := 0,
           HcBulkHeadED := 0, HcBulkCurrentED := 0, HcDoneHead := 0, HcFmInterval := 0x27782EDF, HcFmRemaining := 0,
           HcFmNumber := 0, HcPeriodicStart := 0, HcLSThreshold := OHCI_LS_THRESH,
           HcRhDescriptorA := OHCI_RHA_NOCP OR OHCI_RHA_NPS OR 4, HcRhDescriptorB := 0, HcRhStatus := 0, m_DoneCount := 7\<rparr>"
  assume "wf_ohci t \<and> m_pEOFtimer t = None \<and> RhPort t = RhPort s \<and> HcControl t = HcControl s \<and> HcInterruptStatus t = HcInterruptStatus s"
  then have "wf_ohci t" by blast
  then have "wf_ohci ?t" by (simp add: wf_ohci_def)
  then have "returns wf_ohci (for_each reset_root_port [0..<4] ?t)"
    by (rule for_each_returns) (auto intro: reset_root_port_returns)
  then show "returns (\<lambda>s. returns (\<lambda>x. returns wf_ohci (OHCI_StopEndpoints x)) (if m_AsyncTD s \<noteq> 0 then cancel_pending s else Inr s))
      (for_each reset_root_port [0..<4] ?t)"
    by (rule returns_mono) (simp add: wf_async StopEndpoints_nothing)
qed

lemma ChangeState_returns:
  assumes "wf_ohci s"
  shows "returns wf_ohci (OHCI_ChangeState v s)"
proof -
  have s: "wf_ohci (s\<lparr>HcControl := v\<rparr>)" using assms by (simp add: wf_ohci_def)
  show ?thesis
    using s returns_mono [OF BusStart_returns [OF s]] returns_mono [OF BusStop_returns [OF s]] StateReset_returns [OF s]
    by (simp add: OHCI_ChangeState_def Let_def)
qed

section \<open>Accesses\<close>

lemma reset_root_device_returns:
  assumes s: "wf_ohci s" and i: "i < 4"
  shows "returns wf_ohci (reset_root_device i s)"
proof (cases "root_Dev (RhPort s ! i)")
  case None
  then show ?thesis using s by (simp add: reset_root_device_def)
next
  case (Some d)
  then show ?thesis
    unfolding reset_root_device_def Some option.case
    by (intro run_root_wf [OF s i Some] returns_mono [OF DeviceReset_root [OF wf_root_at [OF s i Some]]]) (use s in auto)
qed

lemma PortSetStatus_returns:
  assumes s: "wf_ohci s" and n: "n < 4"
  shows "returns wf_ohci (OHCI_PortSetStatus n v s)"
proof -
  obtain t reset where t: "OHCI_PortSetIfConnected n (v AND OHCI_PORT_PRS) (fst (OHCI_PortSetIfConnected n (v AND OHCI_PORT_PSS)
      (fst (OHCI_PortSetIfConnected n (v AND OHCI_PORT_PES) (if tst v OHCI_PORT_CCS
        then upd_status n (\<lambda>st. st AND NOT OHCI_PORT_PES) (upd_status n (\<lambda>st. st AND NOT (v AND OHCI_PORT_WTC)) s)
        else upd_status n (\<lambda>st. st AND NOT (v AND OHCI_PORT_WTC)) s))))) = (t, reset)" (is "?set = _") by fastforce
  have "wf_ohci (fst ?set)" using s by (intro wf_PortSetIfConnected) simp
  then have "wf_ohci t" unfolding t by simp
  then have "returns wf_ohci (if reset then bindr (reset_root_device n t) (\<lambda>s.
      Inr (upd_status n (\<lambda>st. (st AND NOT OHCI_PORT_PRS) OR OHCI_PORT_PES OR OHCI_PORT_PRSC) s)) else Inr t)"
    using reset_root_device_returns [of t n] n by (auto intro: returns_mono)
  then show ?thesis
    unfolding OHCI_PortSetStatus_def Let_def t prod.case returns_bindr by (rule returns_mono) simp
qed

lemma SetHubStatus_wf [simp]:
  assumes "wf_ohci s"
  shows "wf_ohci (OHCI_SetHubStatus v s)"
proof -
  have power: "wf_ohci t \<Longrightarrow> wf_ohci (fold (\<lambda>i. OHCI_PortPower i p) js t)" for p js and t :: "'a ohci"
    by (induction js arbitrary: t) simp_all
  show ?thesis using assms power unfolding OHCI_SetHubStatus_def Let_def by simp
qed

lemma WriteRegister_returns:
  assumes s: "wf_ohci s"
  shows "returns wf_ohci (OHCI_WriteRegister addr v s)"
  using s ChangeState_returns [OF s] StateReset_returns [of "s\<lparr>HcCommandStatus := _\<rparr>"] PortSetStatus_returns [OF s]
  by (auto simp: OHCI_WriteRegister_def OHCI_UpdateInterrupt_def Let_def)

lemma ReadRegister_returns:
  assumes "wf_ohci s" and "addr = 0x38 \<Longrightarrow> HcControl s AND OHCI_CTL_HCFS = OHCI_Operational \<Longrightarrow> m_pEOFtimer s \<noteq> None"
  shows "returns (\<lambda>_. True) (OHCI_ReadRegister addr s)"
proof -
  have "addr = 0x38" if "unat (drop_bit 2 addr) = 14" "\<not> tst addr 3"
  proof -
    have "drop_bit 2 addr = 14" using that(1) by (simp add: word_unat_eq_iff)
    moreover have "addr = push_bit 2 (drop_bit 2 addr) OR (addr AND 3)"
      by (simp add: word_bits bit_simps) (simp add: numeral_eq_Suc)
    ultimately show ?thesis using that(2) by simp
  qed
  then show ?thesis
    using assms by (auto simp: OHCI_ReadRegister_def OHCI_GetFrameRemaining_def wf_ohci_def wf_timer_def Let_def split: option.splits
      intro!: returns_mono [OF GetTime_returns [THEN iffD2]])
qed

text \<open>C36: a well-formed controller, one whose ports know their numbers and whose timer runs, stays so under every register access of the
  guest, and every access returns but one: the remaining time of a frame is read through a null pointer when the controller is
  operational and its timer was stopped by an error.\<close>

theorem ohci_accesses_return:
  assumes s: "wf_ohci s"
  shows "returns wf_ohci (USB_PCIMMIOWrite 0 addr v s)
    \<and> (USB_PCIMMIORead 0 addr s = Inl NullPointer \<longleftrightarrow>
         addr = 0x38 \<and> HcControl s AND OHCI_CTL_HCFS = OHCI_Operational \<and> m_pEOFtimer s = None)
    \<and> (\<forall>e. USB_PCIMMIORead 0 addr s = Inl e \<longrightarrow> e = NullPointer)"
proof (cases "addr = 0x38 \<and> HcControl s AND OHCI_CTL_HCFS = OHCI_Operational \<and> m_pEOFtimer s = None")
  case True
  then show ?thesis
    using WriteRegister_returns [OF s, of addr v]
    by (simp add: USB_PCIMMIOWrite_def USB_PCIMMIORead_def OHCI_ReadRegister_def OHCI_GetFrameRemaining_def)
next
  case False
  then have "returns (\<lambda>_. True) (OHCI_ReadRegister addr s)" by (intro ReadRegister_returns [OF s]) auto
  then show ?thesis
    using WriteRegister_returns [OF s, of addr v] False by (auto simp: USB_PCIMMIOWrite_def USB_PCIMMIORead_def returns_iff)
qed

section \<open>Plugging in and resetting\<close>

lemma port_register:
  assumes "i < 4"
  shows "unat (drop_bit 2 (0x54 + 4 * of_nat i :: u32)) = 21 + i" "\<not> tst (0x54 + 4 * of_nat i :: u32) 3"
proof -
  have "i \<in> {0, 1, 2, 3}" using assms by auto
  then show "unat (drop_bit 2 (0x54 + 4 * of_nat i :: u32)) = 21 + i" "\<not> tst (0x54 + 4 * of_nat i :: u32) 3" by auto
qed

lemma find_device_first:
  assumes "\<And>j. j \<in> set js \<Longrightarrow> \<not> tst (port_status j s) OHCI_PORT_PES \<or> USB_FindDevice UsbHub_FindDevice addr (root_Dev (RhPort s ! j)) = None"
    and "tst (port_status i s) OHCI_PORT_PES" and "USB_FindDevice UsbHub_FindDevice addr (root_Dev (RhPort s ! i)) = Some None"
  shows "find_device addr (js @ i # ks) s = Some (Root i)"
  using assms
proof (induction js)
  case Nil
  then show ?case by simp
next
  case (Cons j js)
  then have "find_device addr (js @ i # ks) s = Some (Root i)" by simp
  then show ?case using Cons.prems(1) [of j] by auto
qed

text \<open>A hub after its reset.\<close>

definition reset_hub :: "hub XboxDeviceState \<Rightarrow> hub XboxDeviceState" where
  "reset_hub d = d\<lparr>RemoteWakeup := False, Addr := 0, dev_State := USB_STATE_DEFAULT, klass_state := map reset_port (klass_state d)\<rparr>"

lemma DeviceReset_hub: "Attached d \<noteq> 0 \<Longrightarrow> USB_DeviceReset (hub_class ops) (d, w) = Inr (reset_hub d, w)"
  by (simp add: USB_DeviceReset_def USB_DeviceHandleReset_def hub_class_def UsbHub_HandleReset_def reset_hub_def)

text \<open>C37: when the guest resets a port with a hub, the port is enabled and reports the end of the reset, an interrupt is noted when
  its status has changed, the other ports stay as they are, the hub and its ports are reset, and it answers at address 0.\<close>

theorem port_reset_finds_hub:
  assumes s: "wf_ohci s" and i: "i < 4" and d: "root_Dev (RhPort s ! i) = Some d" "Attached d \<noteq> 0"
    and conn: "tst (port_status i s) OHCI_PORT_CCS" "\<not> tst (port_status i s) OHCI_PORT_PRS"
    and quiet: "\<And>j. j < i \<Longrightarrow> USB_FindDevice UsbHub_FindDevice 0 (root_Dev (RhPort s ! j)) = None"
  defines "st \<equiv> port_status i s OR OHCI_PORT_PES OR OHCI_PORT_PRSC"
  shows "\<exists>t. OHCI_WriteRegister (0x54 + 4 * of_nat i) OHCI_PORT_PRS s = Inr t \<and> wf_ohci t
    \<and> RhPort t = (RhPort s)[i := (RhPort s ! i)\<lparr>root_Dev := Some (reset_hub d), HcRhPortStatus := st\<rparr>]
    \<and> OHCI_ReadRegister (0x54 + 4 * of_nat i) t = Inr (st OR OHCI_PORT_PPS)
    \<and> HcInterruptStatus t = (if st = port_status i s then HcInterruptStatus s else HcInterruptStatus s OR OHCI_INTR_RHSC)
    \<and> OHCI_FindDevice 0 t = Some (Root i)"
proof -
  have len: "i < length (RhPort s)" using wf_ports_length [OF s] i by simp
  let ?u = "upd_status i (\<lambda>st. (st AND NOT OHCI_PORT_PRS) OR OHCI_PORT_PES OR OHCI_PORT_PRSC)
    (upd_port i (\<lambda>port. port\<lparr>root_Dev := Some (reset_hub d)\<rparr>) (upd_status i (\<lambda>st. st OR OHCI_PORT_PRS) s))"
  have "((port_status i s OR OHCI_PORT_PRS) AND NOT OHCI_PORT_PRS) OR OHCI_PORT_PES OR OHCI_PORT_PRSC = st"
    using conn(2) unfolding st_def by (simp add: word_bits bit_simps)
  then have u: "RhPort ?u = (RhPort s)[i := (RhPort s ! i)\<lparr>root_Dev := Some (reset_hub d), HcRhPortStatus := st\<rparr>]"
    using len by (simp add: upd_status_def)
  have reset: "reset_root_device i (upd_status i (\<lambda>st. st OR OHCI_PORT_PRS) s) =
      Inr (upd_port i (\<lambda>port. port\<lparr>root_Dev := Some (reset_hub d)\<rparr>) (upd_status i (\<lambda>st. st OR OHCI_PORT_PRS) s))"
    using len d by (simp add: reset_root_device_def run_root DeviceReset_hub upd_status_def)
  have same: "upd_status i (\<lambda>st. st) s = s" using len by (simp add: upd_status_def upd_port_def)
  have "OHCI_PortSetStatus i OHCI_PORT_PRS s = Inr (if st = port_status i s then ?u else OHCI_SetInterrupt OHCI_INTR_RHSC ?u)"
    using conn u len unfolding OHCI_PortSetStatus_def by (simp add: OHCI_PortSetIfConnected_def same reset Let_def eq_commute [of st])
  from this have wr: "OHCI_WriteRegister (0x54 + 4 * of_nat i) OHCI_PORT_PRS s = Inr (if st = port_status i s then ?u else OHCI_SetInterrupt OHCI_INTR_RHSC ?u)"
    using port_register [OF i] i by (simp add: OHCI_WriteRegister_def)
  define t where "t = (if st = port_status i s then ?u else OHCI_SetInterrupt OHCI_INTR_RHSC ?u)"
  have ports: "RhPort t = (RhPort s)[i := (RhPort s ! i)\<lparr>root_Dev := Some (reset_hub d), HcRhPortStatus := st\<rparr>]"
    unfolding u [symmetric] by (simp add: t_def)
  have irq: "HcInterruptStatus t = (if st = port_status i s then HcInterruptStatus s else HcInterruptStatus s OR OHCI_INTR_RHSC)"
    by (simp_all add: t_def upd_status_def)
  have "wf_ohci t"
    using WriteRegister_returns [OF s, of "0x54 + 4 * of_nat i" OHCI_PORT_PRS] unfolding wr t_def [symmetric] by simp
  moreover have "OHCI_ReadRegister (0x54 + 4 * of_nat i) t = Inr (st OR OHCI_PORT_PPS)"
    using port_register [OF i] i len by (simp add: OHCI_ReadRegister_def ports Let_def)
  moreover have "OHCI_FindDevice 0 t = Some (Root i)"
  proof -
    have "find_device 0 ([0..<i] @ i # [Suc i..<4]) t = Some (Root i)"
    proof (rule find_device_first)
      show "\<not> tst (port_status j t) OHCI_PORT_PES \<or> USB_FindDevice UsbHub_FindDevice 0 (root_Dev (RhPort t ! j)) = None" if "j \<in> set [0..<i]" for j
        using that quiet by (simp add: ports)
      show "tst (port_status i t) OHCI_PORT_PES" using len by (simp add: ports st_def word_bits bit_simps)
      show "USB_FindDevice UsbHub_FindDevice 0 (root_Dev (RhPort t ! i)) = Some None"
        using len d by (simp add: ports USB_FindDevice_def reset_hub_def)
    qed
    moreover have "i \<in> {0, 1, 2, 3}" using i by auto
    then have "[0..<4] = [0..<i] @ i # [Suc i..<4]" by (auto simp: upt_rec)
    ultimately show ?thesis by (simp only: OHCI_FindDevice_def)
  qed
  ultimately show ?thesis using wr ports irq unfolding t_def [symmetric] by auto
qed

text \<open>A controller with a hub at its second port, which has been attached.\<close>

definition sample_ohci :: "unit ohci" where
  "sample_ohci = (new_ohci 1 () 0)\<lparr>RhPort := (RhPort (new_ohci 1 () 0))[1 := \<lparr>UsbPort = USB_RegisterPort 1 3, HcRhPortStatus = 0x10201,
     root_Dev = Some (sample_hub\<lparr>Port := Some (USB_RegisterPort 1 3), Attached := 1, dev_State := USB_STATE_ATTACHED\<rparr>)\<rparr>]\<rparr>"

lemma new_ohci_timers: "wf_timer (new_ohci irq m now)" "waiting (new_ohci irq m now) = []"
  by (simp_all add: new_ohci_def wf_timer_def wf_clock_def waiting_def)

lemma new_ohci_fields [simp]:
  "m_AsyncTD (new_ohci irq m now) = 0" "m_pEOFtimer (new_ohci irq m now) = None" "HcControl (new_ohci irq m now) = 0"
  "m_IrqNum (new_ohci irq m now) = irq" "HcInterruptStatus (new_ohci irq m now) = 0" "length (RhPort (new_ohci irq m now)) = 4"
  "i < 4 \<Longrightarrow> RhPort (new_ohci irq m now) ! i =
    \<lparr>UsbPort = USB_RegisterPort (i + (if irq = 9 then 4 else 0)) 3, HcRhPortStatus = 0, root_Dev = None\<rparr>"
  by (simp_all add: new_ohci_def)

lemma PortIndex_location [simp]: "PortIndex (USB_PortLocation up n port) = PortIndex port"
  by (simp add: USB_PortLocation_def)

lemma sample_ports: "RhPort sample_ohci = [\<lparr>UsbPort = USB_RegisterPort 0 3, HcRhPortStatus = 0, root_Dev = None\<rparr>,
    \<lparr>UsbPort = USB_RegisterPort 1 3, HcRhPortStatus = 0x10201,
       root_Dev = Some (sample_hub\<lparr>Port := Some (USB_RegisterPort 1 3), Attached := 1, dev_State := USB_STATE_ATTACHED\<rparr>)\<rparr>,
    \<lparr>UsbPort = USB_RegisterPort 2 3, HcRhPortStatus = 0, root_Dev = None\<rparr>, \<lparr>UsbPort = USB_RegisterPort 3 3, HcRhPortStatus = 0, root_Dev = None\<rparr>]"
proof -
  have "[0..<4] = [0, 1, 2, 3 :: nat]" by code_simp
  then show ?thesis by (simp add: sample_ohci_def new_ohci_def)
qed

lemma sample_ohci_wf: "wf_ohci sample_ohci"
proof -
  have "wf_timer sample_ohci" "m_AsyncTD sample_ohci = 0" 
    using new_ohci_timers(1) [of 1 "()" 0] by (simp_all add: sample_ohci_def)
  moreover have "wf_ports (RhPort sample_ohci)"
    unfolding sample_ports wf_ports_def by (auto simp: less_Suc_eq numeral_eq_Suc wf_root_def USB_RegisterPort_def)
  ultimately show ?thesis by (simp add: wf_ohci_def)
qed

theorem ohci_accesses_return_witness:
  "returns wf_ohci (USB_PCIMMIOWrite 0 0x04 0x80 sample_ohci)
    \<and> USB_PCIMMIORead 0 0x38 (sample_ohci\<lparr>HcControl := OHCI_Operational\<rparr>) = Inl NullPointer"
proof -
  have "m_pEOFtimer sample_ohci = None" by (simp add: sample_ohci_def)
  then show ?thesis
    using ohci_accesses_return [OF sample_ohci_wf, where addr = "0x04" and v = "0x80"] sample_ohci_wf
      ohci_accesses_return [where s = "sample_ohci\<lparr>HcControl := OHCI_Operational\<rparr>" and addr = "0x38"] by simp
qed

theorem port_reset_finds_hub_witness:
  "\<exists>t. OHCI_WriteRegister 0x58 OHCI_PORT_PRS sample_ohci = Inr t \<and> OHCI_ReadRegister 0x58 t = Inr 0x110303
    \<and> tst (HcInterruptStatus t) OHCI_INTR_RHSC \<and> OHCI_FindDevice 0 t = Some (Root 1)"
proof -
  let ?d = "sample_hub\<lparr>Port := Some (USB_RegisterPort 1 3), Attached := 1, dev_State := USB_STATE_ATTACHED\<rparr>"
  have p: "root_Dev (RhPort sample_ohci ! 1) = Some ?d" "Attached ?d \<noteq> 0" "tst (port_status 1 sample_ohci) OHCI_PORT_CCS"
    "\<not> tst (port_status 1 sample_ohci) OHCI_PORT_PRS" "port_status 1 sample_ohci = 0x10201"
    by (simp_all add: sample_ports)
  have "USB_FindDevice UsbHub_FindDevice 0 (root_Dev (RhPort sample_ohci ! j)) = None" if "j < 1" for j
    using that by (simp add: sample_ports USB_FindDevice_def)
  from port_reset_finds_hub [OF sample_ohci_wf _ p(1,2,3,4) this] show ?thesis
    by (auto simp: p(5) [simplified])
qed

section \<open>The two controllers\<close>

text \<open>What a controller looks like after its construction.\<close>

lemma reset_quiet_port:
  "i < length (RhPort s) \<Longrightarrow> root_Dev (RhPort s ! i) = None \<Longrightarrow> port_status i s = 0 \<Longrightarrow> reset_root_port i s = Inr s"
  by (auto simp: reset_root_port_def upd_status_def upd_port_def list_update_same_conv Let_def intro: OHCIPort.equality)

lemma new_ohci_resets:
  "\<exists>s. OHCI_OHCI irq m now = Inr s \<and> wf_ohci s \<and> HcControl s = 0 \<and> RhPort s = RhPort (new_ohci irq m now)"
proof -
  let ?s = "(new_ohci irq m now)\<lparr>m_pEOFtimer := None, m_OldHcControl := 0, HcRevision := 0x10, HcControl := 0, HcCommandStatus := 0, HcInterruptStatus := 0,
           HcInterrupt := OHCI_INTR_MIE, HcHCCA := 0, HcPeriodCurrentED := 0, HcControlHeadED := 0, HcControlCurrentED := 0,
           HcBulkHeadED := 0, HcBulkCurrentED := 0, HcDoneHead := 0, HcFmInterval := 0x27782EDF, HcFmRemaining := 0,
           HcFmNumber := 0, HcPeriodicStart := 0, HcLSThreshold := OHCI_LS_THRESH,
           HcRhDescriptorA := 0x1204, HcRhDescriptorB := 0, HcRhStatus := 0, m_DoneCount := 7\<rparr>"
  have quiet: "for_each reset_root_port js ?s = Inr ?s" if "\<forall>j\<in>set js. j < 4" for js
    using that by (induction js) (simp_all add: reset_quiet_port)
  have "wf_timer ?s" using new_ohci_timers [of irq m now] by (simp add: wf_timer_def wf_clock_def)
  then have s: "wf_ohci ?s" by (simp add: wf_ohci_def wf_ports_def)
  then show ?thesis
    by (simp add: OHCI_OHCI_def OHCI_StateReset_def OHCI_BusStop_def quiet StopEndpoints_nothing Let_def)
qed

lemma Attach_free_port:
  assumes "i < length (RhPort s)" and "port_status i s = 0" and "HcControl s = 0"
  shows "OHCI_Attach i (d, s) = Inr (d, OHCI_SetInterrupt OHCI_INTR_RHSC (upd_status i (\<lambda>_. OHCI_PORT_CCS OR OHCI_PORT_CSC
    OR (if Speed d = USB_SPEED_LOW then OHCI_PORT_LSDA else 0)) s))"
  using assms by (simp add: OHCI_Attach_def Let_def)

text \<open>C38: a hub can be plugged into every port of the first controller, where it shows up as connected, with its speed, and an
  interrupt is noted; with the interrupt line of the second controller every port is outside of the array of ports.\<close>

theorem second_controller_overruns:
  assumes ctl: "OHCI_OHCI irq m now = Inr s" and i: "i < 4"
    and d: "Port d = Some (UsbPort (RhPort s ! i))" "Attached d = 0" "dev_State d = USB_STATE_NOTATTACHED"
  shows "if irq = 9 then USB_DeviceAttach (root_class i) OHCI_Attach (d, s) = Inl OutOfBounds
    else \<exists>d' t. USB_DeviceAttach (root_class i) OHCI_Attach (d, s) = Inr (d', t) \<and> wf_root i d' \<and> wf_ohci t
      \<and> OHCI_ReadRegister (0x54 + 4 * of_nat i) t = Inr (OHCI_PORT_CCS OR OHCI_PORT_CSC OR OHCI_PORT_PPS
          OR (if Speed d = USB_SPEED_LOW then OHCI_PORT_LSDA else 0))
      \<and> tst (HcInterruptStatus t) OHCI_INTR_RHSC"
proof -
  have s: "wf_ohci s" "RhPort s = RhPort (new_ohci irq m now)" "HcControl s = 0"
    using new_ohci_resets [of irq m now] ctl by auto
  have p: "PortIndex (UsbPort (RhPort s ! i)) = i + (if irq = 9 then 4 else 0)" "port_status i s = 0" "i < length (RhPort s)"
    using i by (simp_all add: s(2) USB_RegisterPort_def)
  have attach: "USB_DeviceAttach (root_class i) OHCI_Attach (d, s) =
      bindr (OHCI_Attach (PortIndex (UsbPort (RhPort s ! i))) (d\<lparr>Attached := 1\<rparr>, s)) (\<lambda>(d, t). Inr (d\<lparr>dev_State := USB_STATE_ATTACHED\<rparr>, t))"
    using d by (simp add: USB_DeviceAttach_def USB_Attach_def USB_DeviceHandleAttach_def hub_class_def)
  show ?thesis
  proof (cases "irq = 9")
    case True
    then show ?thesis using p s(2) unfolding attach by (simp add: OHCI_Attach_def)
  next
    case False
    define t where "t = OHCI_SetInterrupt OHCI_INTR_RHSC (upd_status i (\<lambda>_. OHCI_PORT_CCS OR OHCI_PORT_CSC
      OR (if Speed d = USB_SPEED_LOW then OHCI_PORT_LSDA else 0)) s)"
    have "USB_DeviceAttach (root_class i) OHCI_Attach (d, s) = Inr (d\<lparr>Attached := 1, dev_State := USB_STATE_ATTACHED\<rparr>, t)"
      unfolding attach using p False Attach_free_port [OF p(3,2) s(3), of "d\<lparr>Attached := 1\<rparr>"] by (simp add: t_def)
    moreover have "wf_root i (d\<lparr>Attached := 1, dev_State := USB_STATE_ATTACHED\<rparr>)"
      using d(1) p(1) False by (simp add: wf_root_def)
    moreover have "wf_ohci t" using s(1) by (simp add: t_def)
    moreover have "OHCI_ReadRegister (0x54 + 4 * of_nat i) t = Inr (OHCI_PORT_CCS OR OHCI_PORT_CSC OR OHCI_PORT_PPS
          OR (if Speed d = USB_SPEED_LOW then OHCI_PORT_LSDA else 0))"
      using port_register [OF i] i p(3) by (simp add: OHCI_ReadRegister_def t_def upd_status_def Let_def)
    moreover have "tst (HcInterruptStatus t) OHCI_INTR_RHSC" by (simp add: t_def word_bits bit_simps)
    ultimately show ?thesis using False by auto
  qed
qed

theorem second_controller_overruns_witness:
  "\<exists>s. OHCI_OHCI 9 () 0 = Inr s \<and> USB_DeviceAttach (root_class 2) OHCI_Attach
     (sample_hub\<lparr>Port := Some (UsbPort (RhPort s ! 2)), Attached := 0, dev_State := USB_STATE_NOTATTACHED\<rparr>, s) = Inl OutOfBounds"
proof -
  obtain s where s: "OHCI_OHCI 9 () 0 = Inr s" using new_ohci_resets [of 9 "()" 0] by auto
  then show ?thesis
    using second_controller_overruns [OF s, of 2 "sample_hub\<lparr>Port := Some (UsbPort (RhPort s ! 2)), Attached := 0, dev_State := USB_STATE_NOTATTACHED\<rparr>"]
    by auto
qed

end
