(* ===== verification/OhciFrame.thy ===== *)
theory OhciFrame
  imports Ohci_Laws
begin

text \<open>
  The end of a frame: what the worker does while the lists are disabled, and that its timer, under the contract of
  \<open>clock_client\<close>, counts the frames.
\<close>

section \<open>Idle frames\<close>

text \<open>The communications area can be read and written.\<close>

definition hcca_mapped :: "'m dma \<Rightarrow> u32 \<Rightarrow> bool" where
  "hcca_mapped mem a \<longleftrightarrow> a \<noteq> 0 \<and> (\<forall>m. returns (\<lambda>_. True) (host_read mem (ucast (a + CONTIGUOUS_MEMORY_BASE)) sizeof_HCCA m)) \<and>
     (\<forall>m bs. length bs = 8 \<longrightarrow> returns (\<lambda>_. True) (host_write mem (ucast a + of_nat offsetof_FrameNumber + CONTIGUOUS_MEMORY_BASE) bs m))"

definition idle :: "'m dma \<Rightarrow> 'm ohci \<Rightarrow> bool" where
  "idle mem s \<longleftrightarrow> wf_ohci s \<and> m_pEOFtimer s \<noteq> None \<and> \<not> m_bFrameTime s \<and> hcca_mapped mem (HcHCCA s)
     \<and> \<not> tst (HcControl s) OHCI_CTL_PLE \<and> \<not> tst (HcControl s) OHCI_CTL_CLE \<and> \<not> tst (HcControl s) OHCI_CTL_BLE
     \<and> \<not> tst (m_OldHcControl s AND NOT (HcControl s)) (OHCI_CTL_BLE OR OHCI_CTL_CLE) \<and> \<not> tst (HcInterruptStatus s) OHCI_INTR_UE"

lemma idle_wf: "idle mem s \<Longrightarrow> wf_ohci s"
  by (simp add: idle_def)

text \<open>The clock of two states is the same.\<close>

definition same_clock :: "'y host_clock_scheme \<Rightarrow> 'z host_clock_scheme \<Rightarrow> bool" where
  "same_clock c d \<longleftrightarrow> timer_objects c = timer_objects d \<and> TimerList c = TimerList d \<and> clock_threads c = clock_threads d \<and> host_time c = host_time d"

lemma same_clock_wf: "same_clock c d \<Longrightarrow> wf_clock c = wf_clock d \<and> waiting c = waiting d"
  by (simp add: same_clock_def wf_clock_def waiting_def)

text \<open>The frame number is the first of the eight bytes that are written to the area.\<close>

lemma length_bytes16 [simp]: "length (bytes16 v) = 2"
  by (simp add: bytes16_def)

lemma length_concat_same: "(\<And>x. x \<in> set xs \<Longrightarrow> length (f x) = n) \<Longrightarrow> length (concat (map f xs)) = length xs * n"
  by (induction xs) auto

lemma HCCA_frame:
  assumes "length (HccaInterrruptTable h) = 32"
  shows "take 8 (drop offsetof_FrameNumber (HCCA_bytes h)) = bytes16 (HccaFrameNumber h) @ bytes16 (HccaPad1 h) @ bytes32 (HccaDoneHead h)"
    (is "take 8 (drop _ (HCCA_bytes h)) = ?bs")
proof -
  have "length (concat (map bytes32 (HccaInterrruptTable h))) = offsetof_FrameNumber"
    using assms by (subst length_concat_same [where n = 4]) (simp_all add: bytes32_def)
  then have "drop offsetof_FrameNumber (HCCA_bytes h) = ?bs" by (simp add: HCCA_bytes_def)
  moreover have "length ?bs = 8" by (simp add: bytes32_def)
  ultimately show ?thesis by (metis take_all order_refl)
qed

text \<open>The number of the frame has been written, with what follows it.\<close>

definition frame_written :: "'m dma \<Rightarrow> u32 \<Rightarrow> 'm ohci \<Rightarrow> bool" where
  "frame_written mem a s \<longleftrightarrow> (\<exists>pad m. host_write mem (ucast a + of_nat offsetof_FrameNumber + CONTIGUOUS_MEMORY_BASE)
     (bytes16 (ucast (HcFmNumber s)) @ pad) m = Inr (ohci_memory s))"

lemma SOF_running:
  assumes "m_pEOFtimer s = Some t" and "alive t s"
  shows "\<exists>now. OHCI_SOF False s = Inr (OHCI_SetInterrupt OHCI_INTR_SF (s\<lparr>m_SOFtime := now\<rparr>))"
  using assms GetTime_returns [of t s] by (auto simp: OHCI_SOF_def returns_iff)


text \<open>What is written to the area, and the state in which the next frame starts.\<close>

definition frame_started :: "OHCI_HCCA \<Rightarrow> 'm ohci \<Rightarrow> OHCI_HCCA \<Rightarrow> 'm ohci \<Rightarrow> bool" where
  "frame_started h s h' u \<longleftrightarrow> HccaInterrruptTable h' = HccaInterrruptTable h \<and> HccaFrameNumber h' = ucast (HcFmNumber u)
     \<and> HcFmNumber u = (HcFmNumber s + 1) AND 0xFFFF \<and> same_clock u s \<and> m_pEOFtimer u = m_pEOFtimer s \<and> HcHCCA u = HcHCCA s
     \<and> HcControl u = HcControl s \<and> m_OldHcControl u = m_OldHcControl s
     \<and> HcInterruptStatus u AND OHCI_INTR_UE = HcInterruptStatus s AND OHCI_INTR_UE \<and> wf_ohci u = wf_ohci s"

lemma frame_starts:
  "\<exists>h' u. next_frame mem h s = bindr (OHCI_SOF False u) (\<lambda>s. bindr (OHCI_WriteHCCA mem (HcHCCA s) h' s) (\<lambda>(err, s).
      bindr (on_fatal err s) (\<lambda>s. Inr (unlock s)))) \<and> frame_started h s h' u"
  unfolding next_frame_def Let_def split_beta fst_conv snd_conv
  apply (intro exI, rule conjI, rule refl)
  apply (auto simp: frame_started_def same_clock_def OHCI_SetInterrupt_def OHCI_UpdateInterrupt_def bit.conj_disj_distrib2)
  done

lemma WriteHCCA_mapped:
  assumes "hcca_mapped mem (HcHCCA s)" and "length (HccaInterrruptTable h) = 32"
  shows "\<exists>m. OHCI_WriteHCCA mem (HcHCCA s) h s = Inr (False, s\<lparr>ohci_memory := m\<rparr>) \<and>
    host_write mem (ucast (HcHCCA s) + of_nat offsetof_FrameNumber + CONTIGUOUS_MEMORY_BASE)
      (bytes16 (HccaFrameNumber h) @ bytes16 (HccaPad1 h) @ bytes32 (HccaDoneHead h)) (ohci_memory s) = Inr m"
proof -
  have "returns (\<lambda>_. True) (host_write mem (ucast (HcHCCA s) + of_nat offsetof_FrameNumber + CONTIGUOUS_MEMORY_BASE)
      (bytes16 (HccaFrameNumber h) @ bytes16 (HccaPad1 h) @ bytes32 (HccaDoneHead h)) (ohci_memory s))"
    using assms(1) unfolding hcca_mapped_def by (auto simp: bytes32_def)
  then show ?thesis
    using assms by (auto simp: OHCI_WriteHCCA_def HCCA_frame hcca_mapped_def returns_iff)
qed

lemma next_frame_counts:
  assumes s: "wf_ohci s" "m_pEOFtimer s = Some i" and h: "length (HccaInterrruptTable h) = 32" and hc: "hcca_mapped mem (HcHCCA s)"
  shows "returns (\<lambda>t. wf_ohci t \<and> same_clock t s \<and> m_pEOFtimer t = m_pEOFtimer s \<and> \<not> m_bFrameTime t \<and> HcHCCA t = HcHCCA s
    \<and> HcControl t = HcControl s \<and> m_OldHcControl t = m_OldHcControl s \<and> HcInterruptStatus t AND OHCI_INTR_UE = HcInterruptStatus s AND OHCI_INTR_UE
    \<and> HcFmNumber t = (HcFmNumber s + 1) AND 0xFFFF
    \<and> frame_written mem (HcHCCA s) t) (next_frame mem h s)"
proof -
  obtain h' u where eq: "next_frame mem h s = bindr (OHCI_SOF False u) (\<lambda>s. bindr (OHCI_WriteHCCA mem (HcHCCA s) h' s) (\<lambda>(err, s).
      bindr (on_fatal err s) (\<lambda>s. Inr (unlock s))))" and u: "frame_started h s h' u"
    using frame_starts [of mem h s] by blast
  have "alive i u" using s u by (auto simp: frame_started_def wf_ohci_def wf_timer_def same_clock_def)
  then obtain now where sof: "OHCI_SOF False u = Inr (OHCI_SetInterrupt OHCI_INTR_SF (u\<lparr>m_SOFtime := now\<rparr>))" (is "_ = Inr ?v")
    using SOF_running [of u i] s(2) u by (auto simp: frame_started_def)
  have v: "HcHCCA ?v = HcHCCA s" "same_clock ?v s" "HcFmNumber ?v = HcFmNumber u" "ohci_memory ?v = ohci_memory u"
      "m_OldHcControl ?v = m_OldHcControl u" "HcInterruptStatus ?v AND OHCI_INTR_UE = HcInterruptStatus s AND OHCI_INTR_UE"
    using u by (auto simp: frame_started_def same_clock_def OHCI_SetInterrupt_def OHCI_UpdateInterrupt_def bit.conj_disj_distrib2)
  obtain m where m: "OHCI_WriteHCCA mem (HcHCCA s) h' ?v = Inr (False, ?v\<lparr>ohci_memory := m\<rparr>)"
      "host_write mem (ucast (HcHCCA s) + of_nat offsetof_FrameNumber + CONTIGUOUS_MEMORY_BASE)
      (bytes16 (HccaFrameNumber h') @ bytes16 (HccaPad1 h') @ bytes32 (HccaDoneHead h')) (ohci_memory ?v) = Inr m"
    using WriteHCCA_mapped [of mem ?v h'] hc h u unfolding v(1) frame_started_def by auto
  have "next_frame mem h s = Inr (unlock (?v\<lparr>ohci_memory := m\<rparr>))"
    unfolding eq by (simp add: sof m v on_fatal_def)
  moreover have "wf_ohci (unlock (?v\<lparr>ohci_memory := m\<rparr>))" using s(1) u by (simp add: unlock_def frame_started_def)
  moreover have "same_clock (unlock (?v\<lparr>ohci_memory := m\<rparr>)) s" using v(2) by (simp add: unlock_def same_clock_def)
  ultimately show ?thesis using u v m(2) by (auto simp: unlock_def frame_started_def frame_written_def)
qed

lemma service_disabled:
  "\<not> tst (HcControl s) OHCI_CTL_CLE \<Longrightarrow> \<not> tst (HcControl s) OHCI_CTL_BLE \<Longrightarrow> OHCI_ProcessLists mem b s = Some (Inr s)"
  by (simp add: OHCI_ProcessLists_def)

lemma idle_frame:
  assumes s: "idle mem s"
  shows "returns (\<lambda>t. idle mem t \<and> same_clock t s \<and> m_pEOFtimer t = m_pEOFtimer s \<and> HcHCCA t = HcHCCA s \<and> HcFmNumber t = (HcFmNumber s + 1) AND 0xFFFF
    \<and> frame_written mem (HcHCCA s) t) (frame_callback mem s)"
proof -
  obtain i where i: "m_pEOFtimer s = Some i" using s by (auto simp: idle_def)
  obtain bs where bs: "host_read mem (ucast (HcHCCA s + CONTIGUOUS_MEMORY_BASE)) sizeof_HCCA (ohci_memory s) = Inr bs" "HcHCCA s \<noteq> 0"
    using s unfolding idle_def hcca_mapped_def returns_iff by blast
  define u where "u = s\<lparr>m_bFrameTime := True, m_OldHcControl := HcControl s\<rparr>"
  have "frame_callback mem s = next_frame mem (HCCA_of bs) u"
    using s bs by (simp add: frame_callback_def OHCI_FrameBoundaryWorker_def OHCI_ReadHCCA_def Let_def idle_def service_disabled u_def)
  moreover have "wf_ohci u" "m_pEOFtimer u = Some i" "length (HccaInterrruptTable (HCCA_of bs)) = 32" "hcca_mapped mem (HcHCCA u)"
    using s i by (simp_all add: u_def idle_def HCCA_of_def)
  note next_frame_counts [OF this]
  ultimately show ?thesis
    using s by (auto simp: u_def idle_def same_clock_def elim!: returns_mono)
qed

text \<open>The worker keeps the contract of a callback, so that no pass of its threads uses a timer that is gone.\<close>

lemma idle_clock_members:
  assumes "idle mem c" and "wf_timer (c\<lparr>timer_objects := os, TimerList := ts, clock_threads := th\<rparr>)"
  shows "idle mem (c\<lparr>timer_objects := os, TimerList := ts, clock_threads := th\<rparr>)"
  using assms by (simp add: idle_def wf_ohci_def)

interpretation frames: clock_client "idle mem" "frame_callback mem" for mem
proof
  fix c :: "'a ohci"
  assume c: "idle mem c"
  show "wf_clock c" using c by (simp add: idle_def wf_ohci_def wf_timer_def)
  show "returns (\<lambda>d. idle mem d \<and> (\<exists>new. waiting d = waiting c @ new)) (frame_callback mem c)"
    using idle_frame [OF c] by (auto elim!: returns_mono dest: same_clock_wf)
  show "idle mem (c\<lparr>clock_threads := ts\<rparr>)" if "wf_clock (c\<lparr>clock_threads := ts\<rparr>)" for ts
    using c that by (auto simp: idle_def wf_ohci_def wf_timer_def)
  show "idle mem (end_thread j (c\<lparr>timer_objects := (timer_objects c)[i := None], TimerList := remove1 i (TimerList c)\<rparr>))"
    if gone: "timer_objects c ! i = Some t" "timer_Exit t"
      and d: "wf_clock (end_thread j (c\<lparr>timer_objects := (timer_objects c)[i := None], TimerList := remove1 i (TimerList c)\<rparr>))" (is "wf_clock ?d")
    for i j t
  proof -
    have "m_pEOFtimer c \<noteq> Some i" using c gone by (auto simp: idle_def wf_ohci_def wf_timer_def)
    then have "wf_timer ?d" using c d by (auto simp: idle_def wf_ohci_def wf_timer_def end_thread_def nth_list_update)
    then show ?thesis using c by (auto simp: idle_def wf_ohci_def end_thread_def)
  qed
qed

section \<open>The frame number\<close>

text \<open>The thread of the controller looks at the clock of the host.\<close>

definition pass_at :: "'m dma \<Rightarrow> nat \<Rightarrow> u64 \<Rightarrow> 'm ohci \<Rightarrow> fault + 'm ohci" where
  "pass_at mem j now s = ClockThread_pass (frame_callback mem) j (s\<lparr>host_time := now\<rparr>)"

text \<open>Whenever it looks, the virtual clock has passed the end of the frame.\<close>

fun due_at :: "u64 \<Rightarrow> u64 list \<Rightarrow> bool" where
  "due_at due [] = True"
| "due_at due (now # ts) = (now div 50 > due \<and> due_at (now div 50 + m_UsbFrameTime) ts)"

definition ticking :: "'m dma \<Rightarrow> nat \<Rightarrow> u64 \<Rightarrow> 'm ohci \<Rightarrow> bool" where
  "ticking mem j due s \<longleftrightarrow> idle mem s \<and> j < length (clock_threads s) \<and> (\<exists>i. clock_threads s ! j = (i, due) \<and> m_pEOFtimer s = Some i \<and>
     i < length (timer_objects s) \<and> timer_objects s ! i =
       Some \<lparr>timer_Type = CLOCK_VIRTUALTIME, ExpireTime_MS = m_UsbFrameTime, timer_Exit = False, SlowdownFactor = 50\<rparr>)"

lemma idle_clock [simp]: "idle mem (s\<lparr>host_time := now\<rparr>) = idle mem s" "wf_timer (s\<lparr>host_time := now\<rparr>) = wf_timer s" for s :: "'m ohci"
  by (simp_all add: idle_def wf_ohci_def wf_timer_def wf_clock_def waiting_def)

lemma idle_threads: "idle mem s \<Longrightarrow> map fst ts = waiting s \<Longrightarrow> idle mem (s\<lparr>clock_threads := ts\<rparr>)"
  by (auto simp: idle_def wf_ohci_def wf_timer_def wf_clock_def waiting_def)

lemma ticking_pass:
  assumes s: "ticking mem j due s" and now: "now div 50 > due"
  shows "returns (\<lambda>t. ticking mem j (now div 50 + m_UsbFrameTime) t \<and> HcHCCA t = HcHCCA s \<and> HcFmNumber t = (HcFmNumber s + 1) AND 0xFFFF
    \<and> frame_written mem (HcHCCA s) t) (pass_at mem j now s)"
proof -
  let ?t = "\<lparr>timer_Type = CLOCK_VIRTUALTIME, ExpireTime_MS = m_UsbFrameTime, timer_Exit = False, SlowdownFactor = 50\<rparr> :: TimerObject"
  let ?s = "s\<lparr>host_time := now\<rparr>"
  obtain i where i: "clock_threads s ! j = (i, due)" "m_pEOFtimer s = Some i" "i < length (timer_objects s)" "timer_objects s ! i = Some ?t"
      "j < length (clock_threads s)" "idle mem ?s" using s by (auto simp: ticking_def)
  have at: "deref_timer i c = Inr ?t" "GetTime_NS i c = Inr (now div 50)" "GetNextExpireTime i c = Inr (now div 50 + m_UsbFrameTime)"
    if "same_clock c ?s" for c :: "'b ohci"
    using that i(3,4) by (simp_all add: same_clock_def deref_timer_def aget_def GetTime_NS_def GetNextExpireTime_def)
  have "same_clock ?s ?s" by (simp add: same_clock_def)
  note this [THEN at(1)] this [THEN at(2)]
  then have "pass_at mem j now s = bindr (frame_callback mem ?s) (\<lambda>c. bindr (deref_timer i c) (\<lambda>t.
      if timer_Exit t then bindr (Timer_Destroy i c) (\<lambda>c. Inr (end_thread j c))
      else bindr (GetNextExpireTime i c) (\<lambda>due. Inr (c\<lparr>clock_threads := (clock_threads c)[j := (i, due)]\<rparr>))))"
    using now i(1) by (simp add: pass_at_def ClockThread_pass_def)
  moreover obtain c where c: "frame_callback mem ?s = Inr c" "idle mem c" "same_clock c ?s" "m_pEOFtimer c = Some i" "HcHCCA c = HcHCCA s"
      "HcFmNumber c = (HcFmNumber s + 1) AND 0xFFFF"
      "frame_written mem (HcHCCA s) c"
    using idle_frame [OF i(6)] i(2) by (auto simp: returns_iff)
  moreover have "ticking mem j (now div 50 + m_UsbFrameTime) (c\<lparr>clock_threads := (clock_threads c)[j := (i, now div 50 + m_UsbFrameTime)]\<rparr>)"
  proof -
    have "clock_threads c = clock_threads s" "timer_objects c = timer_objects s" using c(3) by (simp_all add: same_clock_def)
    moreover have "map fst ((clock_threads c)[j := (i, now div 50 + m_UsbFrameTime)]) = waiting c"
      using i(1,5) \<open>clock_threads c = clock_threads s\<close> by (simp add: waiting_def map_update list_update_same_conv)
    ultimately show ?thesis using idle_threads [OF c(2)] c(4) i(3-5) by (simp add: ticking_def)
  qed
  ultimately show ?thesis using at [OF c(3)] by (simp add: frame_written_def)
qed

lemma frame_number_add: "((x AND 0xFFFF) + y) AND 0xFFFF = (x + y) AND (0xFFFF :: u32)"
proof (rule word_eq_iff_unsigned [THEN iffD2])
  have low: "unat (z AND 0xFFFF) = unat z mod 65536" for z :: u32
  proof -
    have "z AND 0xFFFF = take_bit 16 z" by (simp add: take_bit_eq_mask mask_eq_exp_minus_1)
    then show ?thesis by (simp add: unat_mod take_bit_eq_mod)
  qed
  show "unat (((x AND 0xFFFF) + y) AND 0xFFFF) = unat ((x + y) AND 0xFFFF)"
    by (simp add: low unat_word_ariths mod_mod_cancel mod_add_left_eq)
qed

lemma ticking_passes:
  "ticking mem j due s \<Longrightarrow> due_at due ts \<Longrightarrow> ts \<noteq> [] \<Longrightarrow>
   returns (\<lambda>t. idle mem t \<and> HcFmNumber t = (HcFmNumber s + of_nat (length ts)) AND 0xFFFF
    \<and> frame_written mem (HcHCCA s) t) (for_each (pass_at mem j) ts s)"
proof (induction ts arbitrary: due s)
  case Nil
  then show ?case by simp
next
  case (Cons now ts)
  obtain t where t: "pass_at mem j now s = Inr t" "ticking mem j (now div 50 + m_UsbFrameTime) t" "HcHCCA t = HcHCCA s"
      "HcFmNumber t = (HcFmNumber s + 1) AND 0xFFFF"
      "frame_written mem (HcHCCA s) t"
    using ticking_pass [OF Cons.prems(1)] Cons.prems(2) by (auto simp: returns_iff)
  show ?case
  proof (cases "ts = []")
    case True
    then show ?thesis using t by (auto simp: ticking_def)
  next
    case False
    have num: "(HcFmNumber t + of_nat (length ts)) AND 0xFFFF = (HcFmNumber s + of_nat (length (now # ts))) AND 0xFFFF"
      unfolding t(4) by (simp add: frame_number_add add.assoc)
    show ?thesis using Cons.IH [OF t(2) _ False] Cons.prems(2) by (simp only: for_each.simps t(1,3) num due_at.simps bindr.simps)
  qed
qed


lemma frames_start:
  assumes s: "wf_ohci s" "HcControl s = OHCI_Reset" "\<not> m_bFrameTime s" "\<not> tst (m_OldHcControl s) (OHCI_CTL_BLE OR OHCI_CTL_CLE)"
    "\<not> tst (HcInterruptStatus s) OHCI_INTR_UE" "hcca_mapped mem (HcHCCA s)"
  shows "returns (\<lambda>t. ticking mem (length (clock_threads s)) (host_time s div 50 + m_UsbFrameTime) t \<and> HcHCCA t = HcHCCA s
    \<and> HcFmNumber t = HcFmNumber s) (OHCI_WriteRegister 0x04 OHCI_Operational s)"
proof -
  obtain t where t: "OHCI_BusStart (s\<lparr>HcControl := OHCI_Operational\<rparr>) = Inr t" "wf_ohci t"
    using BusStart_returns [of "s\<lparr>HcControl := OHCI_Operational\<rparr>"] s(1) by (auto simp: returns_iff)
  have "OHCI_WriteRegister 0x04 OHCI_Operational s = Inr t"
    using t(1) s(2) by (simp add: OHCI_WriteRegister_def OHCI_ChangeState_def)
  moreover have "ticking mem (length (clock_threads s)) (host_time s div 50 + m_UsbFrameTime) t \<and> HcHCCA t = HcHCCA s \<and> HcFmNumber t = HcFmNumber s"
  proof -
    have "t = OHCI_SetInterrupt OHCI_INTR_SF (s\<lparr>HcControl := OHCI_Operational,
        TimerList := TimerList s @ [length (timer_objects s)], m_pEOFtimer := Some (length (timer_objects s)), m_SOFtime := host_time s div 50,
        timer_objects := timer_objects s @ [Some \<lparr>timer_Type = CLOCK_VIRTUALTIME, ExpireTime_MS = m_UsbFrameTime, timer_Exit = False, SlowdownFactor = 50\<rparr>],
        clock_threads := clock_threads s @ [(length (timer_objects s), host_time s div 50 + m_UsbFrameTime)]\<rparr>)"
      using t(1) by (simp add: OHCI_BusStart_def OHCI_SOF_def Timer_Create_def Timer_Start_def upd_timer_def GetTime_NS_def GetNextExpireTime_def
          deref_timer_def aget_def Let_def nth_append word_le_nat_alt word_less_nat_alt OHCI_SetInterrupt_def OHCI_UpdateInterrupt_def)
    moreover have old: "(m_OldHcControl s AND w) AND 48 = 0" for w
    proof -
      have "(m_OldHcControl s AND w) AND 48 = (m_OldHcControl s AND 48) AND w" by (simp only: ac_simps)
      then show ?thesis using s(4) by simp
    qed
    ultimately show ?thesis
      using t(2) s by (simp add: ticking_def idle_def OHCI_SetInterrupt_def OHCI_UpdateInterrupt_def bit.conj_disj_distrib2 nth_append old)
  qed
  ultimately show ?thesis by simp
qed



section \<open>A memory\<close>

text \<open>
  Memory without translation, which the host sees at \<open>CONTIGUOUS_MEMORY_BASE\<close>; an instance of the parameter for the
  examples.
\<close>

definition stored :: "u32 \<Rightarrow> bytes \<Rightarrow> (u32 \<Rightarrow> u8) \<Rightarrow> u32 \<Rightarrow> u8" where
  "stored a bs m x = (if unat (x - a) < length bs then bs ! unat (x - a) else m x)"

definition loaded :: "u32 \<Rightarrow> nat \<Rightarrow> (u32 \<Rightarrow> u8) \<Rightarrow> bytes" where
  "loaded a n m = map (\<lambda>i. m (a + of_nat i)) [0..<n]"

definition host_range :: "u64 \<Rightarrow> nat \<Rightarrow> bool" where
  "host_range p n \<longleftrightarrow> CONTIGUOUS_MEMORY_BASE \<le> p \<and> p + of_nat n \<le> CONTIGUOUS_MEMORY_BASE + ucast XBOX_MEMORY_SIZE"

definition flat_memory :: "(u32 \<Rightarrow> u8) dma" where
  "flat_memory = \<lparr>cpu_read = \<lambda>a n m. Inr (loaded a n m, m), cpu_write = \<lambda>a bs m. Inr (stored a bs m),
     host_read = \<lambda>p n m. if host_range p n then Inr (loaded (ucast (p - CONTIGUOUS_MEMORY_BASE)) n m) else Inl OutOfBounds,
     host_write = \<lambda>p bs m. if host_range p (length bs) then Inr (stored (ucast (p - CONTIGUOUS_MEMORY_BASE)) bs m) else Inl OutOfBounds\<rparr>"

lemma loaded_stored: "n \<le> length bs \<Longrightarrow> length bs < 2 ^ 32 \<Longrightarrow> loaded a n (stored a bs m) = take n bs"
  by (rule nth_equalityI) (auto simp: loaded_def stored_def unat_of_nat)

definition apart :: "u32 \<Rightarrow> nat \<Rightarrow> u32 \<Rightarrow> nat \<Rightarrow> bool" where
  "apart a n b k \<longleftrightarrow> k \<le> unat (a - b) \<and> unat (a - b) + n \<le> 2 ^ 32"

lemma loaded_apart:
  assumes "apart a n b (length bs)"
  shows "loaded a n (stored b bs m) = loaded a n m"
proof -
  have "\<not> unat (a + of_nat i - b) < length bs" if "i < n" for i
  proof -
    have "unat (a - b) + i < 2 ^ 32" using assms that by (simp add: apart_def)
    moreover from this have "unat (of_nat i :: u32) = i" by (simp add: unat_of_nat)
    ultimately have "unat ((a - b) + of_nat i) = unat (a - b) + i" by (subst unat_add_lem [THEN iffD1]) simp_all
    moreover have "(a - b) + of_nat i = a + of_nat i - b" by simp
    ultimately show ?thesis using assms by (simp add: apart_def)
  qed
  then show ?thesis by (simp add: loaded_def stored_def)
qed

lemma new_ohci_wf: "wf_ohci (new_ohci irq m now)"
  using new_ohci_timers(1) [of irq m now] by (simp add: wf_ohci_def wf_ports_def)


end
