(* ===== verification/OhciList_Laws.thy ===== *)
theory OhciList_Laws
  imports OhciFrame
begin

text \<open>
  The lists of the host controller: what it leaves alone, why it can serve no endpoint to the end, and how a control
  transfer is carried out by its descriptors up to that point.
\<close>

section \<open>Lists of endpoints\<close>

text \<open>An endpoint in memory that is halted or skipped, with the one after it.\<close>

definition paused_ED :: "'m dma \<Rightarrow> 'm \<Rightarrow> u32 \<Rightarrow> u32 \<Rightarrow> bool" where
  "paused_ED mem m a next_ed \<longleftrightarrow> a \<noteq> 0 \<and> (case cpu_read mem a sizeof_ED m of
     Inl _ \<Rightarrow> False
   | Inr (bs, m') \<Rightarrow> m' = m \<and> (tst (HeadP (ED_of bs)) OHCI_ED_H \<or> tst (ed_Flags (ED_of bs)) OHCI_ED_K)
       \<and> NextED (ED_of bs) AND OHCI_DPTR_MASK = next_ed)"

lemma paused_ED_read:
  assumes "paused_ED mem (ohci_memory s) a b"
  obtains ed where "a \<noteq> 0" and "OHCI_ReadED mem a s = Inr (Some ed, s)" and "tst (HeadP ed) OHCI_ED_H \<or> tst (ed_Flags ed) OHCI_ED_K"
    and "NextED ed AND OHCI_DPTR_MASK = b"
  using assms by (auto simp: paused_ED_def OHCI_ReadED_def read_object_def split: sum.splits intro: that)

lemma pause_nothing [simp]: "m_AsyncTD s = 0 \<Longrightarrow> pause_endpoint ed s = Inr s"
  by (simp add: pause_endpoint_def)

lemma service_paused:
  assumes "paused_ED mem (ohci_memory s) a b" and "m_AsyncTD s = 0"
  shows "service_EDs mem c a active s = service_EDs mem c b active s"
proof -
  obtain ed where "a \<noteq> 0" "OHCI_ReadED mem a s = Inr (Some ed, s)" "tst (HeadP ed) OHCI_ED_H \<or> tst (ed_Flags ed) OHCI_ED_K"
      "NextED ed AND OHCI_DPTR_MASK = b"
    by (rule paused_ED_read [OF assms(1)])
  then show ?thesis using assms(2) by (subst service_EDs.simps) simp
qed

text \<open>Addresses of endpoints, each paused and followed by the next.\<close>

abbreviation paused_path :: "'m dma \<Rightarrow> 'm \<Rightarrow> u32 list \<Rightarrow> bool" where
  "paused_path mem m \<equiv> successively (paused_ED mem m)"

lemma service_path:
  "paused_path mem (ohci_memory s) (x # xs) \<Longrightarrow> m_AsyncTD s = 0 \<Longrightarrow> service_EDs mem c x active s = service_EDs mem c (last (x # xs)) active s"
proof (induction xs arbitrary: x)
  case (Cons y xs)
  then have "paused_ED mem (ohci_memory s) x y" "paused_path mem (ohci_memory s) (y # xs)" by simp_all
  then show ?case using service_paused Cons.IH Cons.prems(2) by (metis last_ConsR list.distinct(1))
qed simp

text \<open>A list that comes back to an endpoint of its own is served for ever.\<close>

lemma path_next: "successively R (x # xs) \<Longrightarrow> a \<in> set (butlast (x # xs)) \<Longrightarrow> \<exists>b\<in>set xs. R a b"
proof (induction xs arbitrary: x)
  case (Cons y xs)
  then show ?case by (cases "a = x") auto
qed simp

lemma path_closed: "xs \<noteq> [] \<Longrightarrow> last xs \<in> set (butlast (x # xs)) \<Longrightarrow> b \<in> set xs \<Longrightarrow> b \<in> set (butlast (x # xs))"
  by (cases xs rule: rev_cases) auto

lemma service_cycle:
  assumes step: "\<And>a. a \<in> C \<Longrightarrow> \<exists>b\<in>C. paused_ED mem (ohci_memory s) a b" and x: "x \<in> C" and idle: "m_AsyncTD s = 0"
  shows "service_EDs mem c x active s = None"
proof -
  have "s' = s \<longrightarrow> x \<notin> C" if "service_EDs mem c x active s' = Some r" for x s' r
  proof (rule service_EDs.raw_induct [where P = "\<lambda>mem' c x active s' r. mem' = mem \<longrightarrow> s' = s \<longrightarrow> x \<notin> C",
        OF _ that, THEN mp, OF _ refl], goal_cases)
    case (1 f mem' c x active s' r)
    show ?case
    proof (intro impI notI)
      assume eqs: "mem' = mem" "s' = s" and C: "x \<in> C"
      obtain b where b: "b \<in> C" "paused_ED mem (ohci_memory s) x b" using step [OF C] by blast
      obtain ed where ed: "x \<noteq> 0" "OHCI_ReadED mem x s = Inr (Some ed, s)" "tst (HeadP ed) OHCI_ED_H \<or> tst (ed_Flags ed) OHCI_ED_K"
          "NextED ed AND OHCI_DPTR_MASK = b"
        by (rule paused_ED_read [OF b(2)])
      have "f mem c b active s = Some r" using 1(2) ed idle eqs by simp
      then show False using 1(1) b(1) by blast
    qed
  qed
  then show ?thesis using x by (cases "service_EDs mem c x active s") auto
qed

text \<open>The write of an endpoint takes its source from beyond the copy of the descriptor.\<close>

lemma WriteED_overruns: "a \<noteq> 0 \<Longrightarrow> OHCI_WriteED mem a ed s = Inl OutOfBounds"
  by (simp add: OHCI_WriteED_def object_part_def ED_bytes_def bytes32_def)

text \<open>So no endpoint that is neither halted nor skipped is served to the end.\<close>

lemma service_overruns:
  assumes "a \<noteq> 0" and "OHCI_ReadED mem a s = Inr (Some ed, s')" and "\<not> tst (HeadP ed) OHCI_ED_H" and "\<not> tst (ed_Flags ed) OHCI_ED_K"
  shows "service_EDs mem c a active s = (case service_TDs mem c active ed s' of
    None \<Rightarrow> None | Some (Inl e) \<Rightarrow> Some (Inl e) | Some (Inr _) \<Rightarrow> Some (Inl OutOfBounds))"
  using assms by (subst service_EDs.simps) (simp add: WriteED_overruns split: option.splits sum.splits)

lemma whenever_True: "whenever (\<lambda>_. True) m"
  by (simp add: whenever_iff)

lemma service_inactive:
  assumes "service_EDs mem c x active s = Some r"
  shows "\<not> active \<longrightarrow> whenever (\<lambda>(active', _). \<not> active') r"
proof (rule service_EDs.raw_induct [where P = "\<lambda>mem c x active s r. \<not> active \<longrightarrow> whenever (\<lambda>(active', _). \<not> active') r", OF _ assms], goal_cases)
  case (1 f mem c x active s r)
  show ?case
  proof (cases "x = 0")
    case True
    then show ?thesis using 1(2) by auto
  next
    case x: False
    obtain rd where rd: "OHCI_ReadED mem x s = rd" by simp
    show ?thesis
    proof (cases rd)
      case (Inl e)
      then show ?thesis using 1(2) x rd by auto
    next
      case (Inr p)
      obtain found s' where p: "p = (found, s')" by fastforce
      show ?thesis
      proof (cases found)
        case None
        then show ?thesis using 1(2) x by (auto simp: rd Inr p whenever_True)
      next
        case (Some ed)
        show ?thesis
          using 1(2) x by (auto simp: rd Inr p Some WriteED_overruns split: if_splits sum.splits option.splits dest: 1(1))
      qed
    qed
  qed
qed


text \<open>An endpoint in memory that is neither halted nor skipped and has nothing left to transfer.\<close>

definition drained_ED :: "'m dma \<Rightarrow> 'm \<Rightarrow> u32 \<Rightarrow> bool" where
  "drained_ED mem m a \<longleftrightarrow> a \<noteq> 0 \<and> (case cpu_read mem a sizeof_ED m of
     Inl _ \<Rightarrow> False
   | Inr (bs, _) \<Rightarrow> \<not> tst (HeadP (ED_of bs)) OHCI_ED_H \<and> \<not> tst (ed_Flags (ED_of bs)) OHCI_ED_K
       \<and> HeadP (ED_of bs) AND OHCI_DPTR_MASK = TailP (ED_of bs))"

lemma service_drained:
  assumes "drained_ED mem (ohci_memory s) a"
  shows "service_EDs mem c a active s = Some (Inl OutOfBounds)"
proof -
  obtain bs m where bs: "a \<noteq> 0" "cpu_read mem a sizeof_ED (ohci_memory s) = Inr (bs, m)" "\<not> tst (HeadP (ED_of bs)) OHCI_ED_H"
      "\<not> tst (ed_Flags (ED_of bs)) OHCI_ED_K" "HeadP (ED_of bs) AND OHCI_DPTR_MASK = TailP (ED_of bs)"
    using assms by (auto simp: drained_ED_def split: sum.splits)
  then have "OHCI_ReadED mem a s = Inr (Some (ED_of bs), s\<lparr>ohci_memory := m\<rparr>)" by (simp add: OHCI_ReadED_def read_object_def)
  from service_overruns [OF bs(1) this bs(3,4)] show ?thesis
    by (simp add: service_TDs.simps bs(5))
qed

lemma ED_roundtrip: "ED_of (ED_bytes ed) = ed"
  by (simp add: ED_of_def ED_bytes_def bytes32_def rd32_def)

lemma length_ED: "length (ED_bytes ed) = 16"
  by (simp add: ED_bytes_def bytes32_def)


text \<open>Two skipped endpoints that point to each other, and a third one after which there is no other.\<close>

definition sample_lists :: "u32 \<Rightarrow> u8" where
  "sample_lists = stored 0x1000 (ED_bytes \<lparr>ed_Flags = OHCI_ED_K, TailP = 0, HeadP = 0, NextED = 0x2000\<rparr>)
     (stored 0x2000 (ED_bytes \<lparr>ed_Flags = OHCI_ED_K, TailP = 0, HeadP = 0, NextED = 0x1000\<rparr>)
     (stored 0x3000 (ED_bytes \<lparr>ed_Flags = OHCI_ED_K, TailP = 0, HeadP = 0, NextED = 0\<rparr>)
     (stored 0x4000 (ED_bytes \<lparr>ed_Flags = 0, TailP = 0x5000, HeadP = 0x5000, NextED = 0\<rparr>) (\<lambda>_. 0))))"


end
