(* ===== verification/Spec2Isabelle.thy ===== *)
theory Spec2Isabelle
  imports Xbox_Loop Gdb_Props OhciList_Laws
begin

text \<open>
  OpenXBOX emulates the original Xbox: a 32-bit x86 CPU, run by the virtualisation of the host, and in software the
  hardware around it. This library models the emulator's own logic, the C++ code under \<^verbatim>\<open>src/\<close>, and proves what its
  parts promise to each other and to the guest. File names below are relative to \<^verbatim>\<open>src/core/openxbox/\<close> where they
  start with \<^verbatim>\<open>hw/\<close> or name no directory.

  \<^bold>\<open>How the program hangs together.\<close> The class \<^verbatim>\<open>Xbox\<close> (\<^verbatim>\<open>xbox.cpp\<close>) builds the console: memory and ROM, the CPU module, and
  the devices, each of which registers the ports and addresses it answers with the I/O mapper (\<^verbatim>\<open>common/openxbox/io.cpp\<close>).
  The emulation loop runs the CPU until it exits; an exit for a port or an address goes through the mapper to a device,
  whose access may move an interrupt line. Lines lead through the global system interrupts (\<^verbatim>\<open>hw/basic/gsi.cpp\<close>) to the
  pair of interrupt controllers, which queue a vector in the CPU, and the CPU module injects it before the guest runs on.
  PCI devices sit behind the buses and bridges, SMBus devices behind the SMBus controller, USB devices behind the ports
  of the host controller. The GDB server drives the same CPU from a socket.

  \<^bold>\<open>Conventions.\<close> A machine integer is a word of its width (\<open>u8\<close> to \<open>u64\<close>), C's \<open>int\<close> is an \<open>int\<close> or \<open>nat\<close> where it stays far from
  its bounds, a class is a record, a virtual function a function of a record of operations. An access outside an array,
  a failed assertion, a null pointer, an unset variable, exhausted stack and a loop that never ends are values of the
  datatype \<open>fault\<close> (\<open>Prelude\<close>): an operation that can fault returns \<open>fault + 'a\<close>, \<open>returns Q m\<close> says that it does return,
  with a result in \<open>Q\<close>, and \<open>whenever Q m\<close> only that a result would be in \<open>Q\<close>. A call to an object of another component
  that the caller does not wait for is appended to a trace in the state, which the composition consumes. Threads are
  steps: an operation of a timer's thread is one pass of its loop, and any interleaving of such steps is a list of them.

  \<^bold>\<open>Theories and sources.\<close>
  \<^item> \<open>Prelude\<close>: faults, lists as C arrays, little-endian buffers, bits of words, the collections the proofs use.
  \<^item> \<open>CpuMem\<close> (\<^verbatim>\<open>cpu-module/openxbox/\<close>): guest memory regions, address translation, registers, descriptor tables, the stack
    and the queue of pending interrupts of the class \<^verbatim>\<open>Cpu\<close>. \<open>CpuMem_Laws\<close> abstracts guest memory to a function and
    shows that page-wise transfers implement byte-wise ones, for any CPU module that meets \<open>register_file\<close>;
    \<open>CpuQueue_Laws\<close> has the queue, against \<open>interrupt_port\<close>, and the descriptors.
  \<^item> \<open>Haxm\<close> (\<^verbatim>\<open>cpu-module-haxm/\<close>): the module for HAXM with its register cache, exits and injection of interrupts; the
    driver is a parameter. \<open>Haxm_Laws\<close>: the cache refines the registers of the driver, so that the module meets both
    contracts; transfers on paged memory; string I/O; the rate and order of interrupts.
  \<^item> \<open>IOMap\<close> (\<^verbatim>\<open>common/openxbox/io.cpp\<close>): the address maps as sorted association lists; routing and its gaps.
  \<^item> \<open>Pic\<close>, \<open>Pic_Laws\<close>, \<open>Pic_Props\<close> (\<^verbatim>\<open>hw/basic/i8259.cpp\<close>): the interrupt controllers, whose functions call each other; the
    choice of a request against an order-free description; termination of delivery; delivery of raised lines.
  \<^item> \<open>Lines\<close> (\<^verbatim>\<open>hw/basic/irq.h, gsi.cpp, i8254.cpp, cmos.cpp, hw/bus/isabus.cpp\<close>): lines, interval timer, CMOS.
  \<^item> \<open>PciDev\<close>, \<open>PciBus\<close>, \<open>PciBoard\<close> (\<^verbatim>\<open>hw/pci/pci.cpp, hw/bus/pcibus.cpp, hw/pci/\<close>): configuration space, buses and bridges as a
    tree, the devices of the board. Their laws: masks, base address registers, routing, \<open>pci_leaf\<close> met by the board.
  \<^item> \<open>SMBus\<close>, \<open>SMDevices\<close> (\<^verbatim>\<open>hw/bus/smbus.cpp, hw/sm/\<close>): controller and devices; a register file behind a transaction.
  \<^item> \<open>Fifo\<close>, \<open>Serial\<close>, \<open>SuperIO\<close> (\<^verbatim>\<open>util/fifo.h, hw/basic/serial.cpp, superio.cpp\<close>): the ring buffer under \<open>bounded_queue\<close>, the
    16550A over drivers that meet \<open>accepting_driver\<close>, and the Super I/O.
  \<^item> \<open>Ata\<close> (\<^verbatim>\<open>hw/ata/\<close>): devices, drivers under \<open>identifying_driver\<close>, channels.
  \<^item> \<open>Machine\<close> (\<^verbatim>\<open>xbox.cpp, InitHardware\<close>): all of these put together; \<open>Machine_Laws\<close> and \<open>Machine_Irqs\<close> prove that every port
    access returns and keeps the machine well formed and follow interrupts from a device to the queue of the CPU.
  \<^item> \<open>Xbox\<close>, \<open>Xbox_Laws\<close>, \<open>Xbox_Loop\<close> (\<^verbatim>\<open>xbox.cpp\<close>): initialisation, the emulation loop and its search for the kernel.
  \<^item> \<open>Gdb\<close>, \<open>Gdb_Laws\<close>, \<open>Gdb_Props\<close> (\<^verbatim>\<open>gdbserver.cpp\<close>): packets, commands and sessions over \<open>debugged_cpu\<close>.
  \<^item> \<open>Iovec\<close>, \<open>Usb\<close>, \<open>UsbDesc\<close> (\<^verbatim>\<open>common/openxbox/iovec.cpp, hw/pci/usb_pci.cpp\<close>): scattered buffers, packets, endpoints, control
    transfers, descriptors. \<open>Usb_Laws\<close> proves transfers for any class that meets \<open>control_class\<close>.
  \<^item> \<open>Xid\<close>, \<open>Hub\<close> (\<^verbatim>\<open>hw/xid/xid_gamepad.cpp, hw/ohci/ohci_hub.cpp\<close>): gamepad and hub, two instances of \<open>control_class\<close>.
  \<^item> \<open>Timer\<close> (\<^verbatim>\<open>common/openxbox/cxbxtimer.cpp\<close>): timers and their threads; \<open>clock_client\<close> is what a callback has to keep.
  \<^item> \<open>Ohci\<close>, \<open>OhciList\<close> (\<^verbatim>\<open>hw/ohci/ohci.cpp\<close>): registers, ports and states; descriptors, lists and frames. \<open>Ohci_Laws\<close>,
    \<open>OhciFrame\<close> and \<open>OhciList_Laws\<close>: accesses return, ports, frames under \<open>clock_client\<close>, and what the lists do.

  \<^bold>\<open>Bounds and fuel.\<close>
  \<^item> The functions of the interrupt controllers recurse without a bound; they take the stack frames that are left and fault
    with \<open>StackExhausted\<close>. Delivery takes five frames for each of the sixteen lines that is pending and a few more, so
    that \<open>pic_frames\<close>, 100, is enough, and more frames change nothing (\<open>frames_irrelevant\<close>); the exception is a
    level-triggered line that stays high in automatic end-of-interrupt mode, which is proved to recurse for ever.
  \<^item> A handler of a line calls others at most \<open>handler_calls\<close>, three, deep, which the console's wiring needs.
  \<^item> The loops over the pages of a memory transfer take one step more than the transfer has bytes; the loop of the GDB
    server takes one more than there are bytes left to receive. Both are proved not to run out.
  \<^item> The emulation loop is a \<^verbatim>\<open>partial_function\<close>: a guest that never stops it gives \<open>None\<close>. What it does is shown for every
    number of repetitions of its body.
  \<^item> The lists of the host controller follow what the guest wrote: they are \<^verbatim>\<open>partial_function\<close>s whose value is \<open>None\<close> when they
    are not left, which is proved to happen.

  \<^bold>\<open>Not modelled.\<close> See the manifest for each part and the reason. In short: the graphics, audio and network controllers, of
  which the code has register tables and stubs around the host's window system; the XBE loader, which prints what it
  parses; the KVM and WHPX modules and the Windows serial threads, which are calls to an operating system; dynamic module
  loading, logging, command line and debugging output; and vendored headers. Of modelled parts, what is left out is named
  in the text that opens the theory: real interleaving of host threads inside one operation, the memory of the host that
  the C++ code reaches through raw pointers, and log output.
\<close>

end
